(* ===== verification/Prelude.thy ===== *)
theory Prelude
  imports Main "HOL-Library.Word" "HOL-Library.Char_ord" "HOL-Library.List_Lexorder"
begin

section \<open>Shared notions: JavaScript strings, bytes, hex and decimal text, errors\<close>

text \<open>
  Every component of the TypeScript packages speaks of addresses and hex blobs (branded strings),
  byte arrays, thrown errors and optional fields. This theory fixes how they are modelled:
  \<^item> a JavaScript string is the \<open>string\<close> of its UTF-8 bytes (for ASCII text, which addresses,
    hex, base64url and every key and tag of the code are, the two views are the same, character by
    character);
  \<^item> a \<open>Uint8Array\<close> is a list of 8-bit words;
  \<^item> a \<open>number\<close> that the code uses as an integer, and every \<open>bigint\<close>, is an \<open>int\<close>;
  \<^item> a thrown exception is the \<open>Inl\<close> of a sum, \<open>undefined\<close> the \<open>None\<close> of an option.
  It also holds the development's lemma collections and the text conversions (hex, decimal)
  with their round trips.
\<close>

named_theorems js_text \<open>equations of the text conversions\<close>
named_theorems js_roundtrip \<open>decoding undoes encoding\<close>

type_synonym address = string
type_synonym hex = string
type_synonym byte = "8 word"
type_synonym bytes = "byte list"

datatype js_error =
    Error string | TypeError | InvalidCharacterError | SyntaxError | RangeError | ReferenceError

type_synonym 'a js = "js_error + 'a"

text \<open>
  Where the code asks \<open>Number.isInteger\<close>, a number is an integer or anything else (a fraction,
  \<open>NaN\<close>, an infinity). The sum monad's bind is the propagation of a thrown exception.
\<close>

datatype number = Whole int | NonInteger

definition js_bind :: "'a js \<Rightarrow> ('a \<Rightarrow> 'b js) \<Rightarrow> 'b js" where
  "js_bind x f = (case x of Inl e \<Rightarrow> Inl e | Inr a \<Rightarrow> f a)"

lemma js_bind_simps [simp]: "js_bind (Inl e) f = Inl e" "js_bind (Inr a) f = f a"
  by (simp_all add: js_bind_def)

lemma js_bind_Inr_iff [simp]: "js_bind x f = Inr b \<longleftrightarrow> (\<exists>a. x = Inr a \<and> f a = Inr b)"
  by (cases x) auto

text \<open>The non-ASCII signs of the code's messages, in UTF-8.\<close>

definition ge_sign :: string where
  "ge_sign = [CHR 0xE2, CHR 0x89, CHR 0xA5]"

definition neq_sign :: string where
  "neq_sign = [CHR 0xE2, CHR 0x89, CHR 0xA0]"

definition em_dash :: string where
  "em_dash = [CHR 0xE2, CHR 0x80, CHR 0x94]"

text \<open>An optional string that the code tests for truth: present and not empty.\<close>

definition truthy :: "string option \<Rightarrow> bool" where
  "truthy s \<longleftrightarrow> (case s of None \<Rightarrow> False | Some t \<Rightarrow> t \<noteq> [])"

lemma truthy_simps [simp]: "\<not> truthy None" "truthy (Some t) \<longleftrightarrow> t \<noteq> []"
  by (simp_all add: truthy_def)

subsection \<open>Case folding\<close>

definition lower_char :: "char \<Rightarrow> char" where
  "lower_char c = (if 65 \<le> (of_char c :: nat) \<and> (of_char c :: nat) \<le> 90
                   then char_of (of_char c + 32 :: nat) else c)"

definition toLowerCase :: "string \<Rightarrow> string" where
  "toLowerCase s = map lower_char s"

lemma of_char_less_256 [simp]: "(of_char c :: nat) < 256"
  by (metis of_char_mod_256 mod_less_divisor zero_less_numeral)

lemma lower_char_idem [simp]: "lower_char (lower_char c) = lower_char c"
  by (auto simp: lower_char_def)

lemma toLowerCase_idem [simp]: "toLowerCase (toLowerCase s) = toLowerCase s"
  by (simp add: toLowerCase_def)

lemma toLowerCase_append [simp]: "toLowerCase (s @ t) = toLowerCase s @ toLowerCase t"
  by (simp add: toLowerCase_def)

lemma toLowerCase_Cons: "toLowerCase (c # s) = lower_char c # toLowerCase s"
  and toLowerCase_Nil: "toLowerCase [] = []"
  by (simp_all add: toLowerCase_def)

lemma length_toLowerCase [simp]: "length (toLowerCase s) = length s"
  by (simp add: toLowerCase_def)

definition startsWith :: "string \<Rightarrow> string \<Rightarrow> bool" where
  "startsWith s p \<longleftrightarrow> take (length p) s = p"

definition strip0x :: "string \<Rightarrow> string" where
  "strip0x s = (if startsWith s ''0x'' then drop 2 s else s)"

subsection \<open>Bytes and characters\<close>

definition byte_of_char :: "char \<Rightarrow> byte" where
  "byte_of_char c = word_of_nat (of_char c)"

definition char_of_byte :: "byte \<Rightarrow> char" where
  "char_of_byte b = char_of (unat b)"

lemma unat_byte_less [simp]: "unat (b :: byte) < 256"
  using unsigned_less [of b, where 'a = nat] by simp

lemma byte_char_inverse [simp, js_roundtrip]: "byte_of_char (char_of_byte b) = b"
  by (simp add: byte_of_char_def char_of_byte_def take_bit_eq_mod)

lemma char_byte_inverse [simp, js_roundtrip]: "char_of_byte (byte_of_char c) = c"
  by (simp add: byte_of_char_def char_of_byte_def unat_of_nat)

text \<open>\<open>new TextEncoder().encode\<close> and \<open>new TextDecoder().decode\<close> on UTF-8 text.\<close>

definition TextEncoder :: "string \<Rightarrow> bytes" where
  "TextEncoder s = map byte_of_char s"

definition TextDecoder :: "bytes \<Rightarrow> string" where
  "TextDecoder bs = map char_of_byte bs"

lemma TextDecoder_TextEncoder [simp, js_roundtrip]: "TextDecoder (TextEncoder s) = s"
  by (simp add: TextDecoder_def TextEncoder_def comp_def)

lemma TextEncoder_TextDecoder [simp, js_roundtrip]: "TextEncoder (TextDecoder bs) = bs"
  by (simp add: TextDecoder_def TextEncoder_def comp_def)

lemma TextEncoder_inject [simp]: "TextEncoder a = TextEncoder b \<longleftrightarrow> a = b"
  by (metis TextDecoder_TextEncoder)

text \<open>
  Comparing two arrays in constant time, as the service MAC and the vouchers do: the loop accumulates the
  difference of the two arrays in a machine integer.
\<close>

fun ct_diff :: "byte \<Rightarrow> bytes \<Rightarrow> bytes \<Rightarrow> byte" where
  "ct_diff diff (a # as) (b # bs) = ct_diff (Bit_Operations.or diff (Bit_Operations.xor a b)) as bs"
| "ct_diff diff _ _ = diff"

lemma byte_or_zero: "Bit_Operations.or (x :: byte) y = 0 \<longleftrightarrow> x = 0 \<and> y = 0"
  by (auto simp: bit_eq_iff bit_or_iff)

lemma byte_xor_zero: "Bit_Operations.xor (x :: byte) y = 0 \<longleftrightarrow> x = y"
  by (auto simp: bit_eq_iff bit_xor_iff)

lemma ct_diff_zero: "length a = length b \<Longrightarrow> ct_diff d a b = 0 \<longleftrightarrow> d = 0 \<and> a = b"
proof (induction d a b rule: ct_diff.induct)
  case (1 d a as b bs)
  then show ?case by (auto simp: byte_or_zero byte_xor_zero)
qed auto


subsection \<open>Hexadecimal text\<close>

definition hex_digit :: "nat \<Rightarrow> char" where
  "hex_digit n = (if n < 10 then char_of (48 + n) else char_of (87 + n))"

definition hex_val :: "char \<Rightarrow> nat option" where
  "hex_val c = (let n = of_char c :: nat in
     if 48 \<le> n \<and> n \<le> 57 then Some (n - 48)
     else if 97 \<le> n \<and> n \<le> 102 then Some (n - 87)
     else if 65 \<le> n \<and> n \<le> 70 then Some (n - 55)
     else None)"

text \<open>\<open>b.toString(16).padStart(2, '0')\<close>.\<close>

definition byte_hex :: "byte \<Rightarrow> string" where
  "byte_hex b = [hex_digit (unat b div 16), hex_digit (unat b mod 16)]"

definition bytes_hex :: "bytes \<Rightarrow> string" where
  "bytes_hex bs = concat (map byte_hex bs)"

text \<open>
  \<open>parseInt(s, 16)\<close> on a two-character string, \<open>None\<close> for \<open>NaN\<close>: leading white space, a sign
  and a \<open>0x\<close> prefix are skipped, and the longest hex prefix counts. A shorter string arises only
  at the end of an odd-length input, which \<open>clean.length >> 1\<close> cuts off.
\<close>

definition js_space :: "char \<Rightarrow> bool" where
  "js_space c \<longleftrightarrow> (of_char c :: nat) \<in> set [9, 10, 11, 12, 13, 32]"

definition parseInt16 :: "char \<Rightarrow> char \<Rightarrow> int option" where
  "parseInt16 a b =
     (case hex_val a of
        Some x \<Rightarrow>
          (if x = 0 \<and> (b = CHR ''x'' \<or> b = CHR ''X'') then None
           else (case hex_val b of Some y \<Rightarrow> Some (int (16 * x + y)) | None \<Rightarrow> Some (int x)))
      | None \<Rightarrow>
          (case hex_val b of
             None \<Rightarrow> None
           | Some y \<Rightarrow> if js_space a \<or> a = CHR ''+'' then Some (int y)
                       else if a = CHR ''-'' then Some (- int y) else None))"

text \<open>Storing a number in a \<open>Uint8Array\<close> reduces it modulo 256; \<open>NaN\<close> becomes 0.\<close>

definition uint8 :: "int option \<Rightarrow> byte" where
  "uint8 v = (case v of None \<Rightarrow> 0 | Some n \<Rightarrow> word_of_int n)"

fun pair_bytes :: "string \<Rightarrow> bytes" where
  "pair_bytes (a # b # s) = uint8 (parseInt16 a b) # pair_bytes s"
| "pair_bytes _ = []"

lemma hex_val_digit [simp, js_roundtrip]: "n < 16 \<Longrightarrow> hex_val (hex_digit n) = Some n"
  by (auto simp: hex_val_def hex_digit_def Let_def)

lemma hex_digit_neq_x [simp]: "n < 16 \<Longrightarrow> hex_digit n \<noteq> CHR ''x''" "n < 16 \<Longrightarrow> hex_digit n \<noteq> CHR ''X''"
  using hex_val_digit [of n] by (auto simp: hex_val_def Let_def simp del: hex_val_digit)

lemma parseInt16_byte_hex [simp]:
  "parseInt16 (hex_digit (unat b div 16)) (hex_digit (unat b mod 16)) = Some (int (unat (b :: byte)))"
proof -
  have "unat b div 16 < 16" using unat_byte_less [of b] by linarith
  then show ?thesis by (simp add: parseInt16_def)
qed

lemma pair_bytes_bytes_hex [simp, js_roundtrip]: "pair_bytes (bytes_hex bs) = bs"
  by (induction bs) (simp_all add: bytes_hex_def byte_hex_def uint8_def)

lemma length_bytes_hex [simp]: "length (bytes_hex bs) = 2 * length bs"
  by (induction bs) (simp_all add: bytes_hex_def byte_hex_def)

lemma bytes_hex_inject [simp]: "bytes_hex a = bytes_hex b \<longleftrightarrow> a = b"
  by (metis pair_bytes_bytes_hex)

lemma lower_hex_digit: "n < 16 \<Longrightarrow> lower_char (hex_digit n) = hex_digit n"
  by (auto simp: lower_char_def hex_digit_def)

lemma lower_bytes_hex [simp]: "toLowerCase (bytes_hex bs) = bytes_hex bs"
proof -
  have "unat b div 16 < 16" for b :: byte using unat_byte_less [of b] by linarith
  then have "map lower_char (byte_hex b) = byte_hex b" for b by (simp add: byte_hex_def lower_hex_digit)
  then show ?thesis by (simp add: bytes_hex_def toLowerCase_def map_concat comp_def)
qed

subsection \<open>Decimal text\<close>

fun nat_str :: "nat \<Rightarrow> string" where
  "nat_str n = (if n < 10 then [char_of (48 + n)] else nat_str (n div 10) @ [char_of (48 + n mod 10)])"

declare nat_str.simps [simp del]

definition int_str :: "int \<Rightarrow> string" where
  "int_str n = (if n < 0 then CHR ''-'' # nat_str (nat (- n)) else nat_str (nat n))"

definition is_digit :: "char \<Rightarrow> bool" where
  "is_digit c \<longleftrightarrow> 48 \<le> (of_char c :: nat) \<and> (of_char c :: nat) \<le> 57"

definition digit_val :: "char \<Rightarrow> nat" where
  "digit_val c = of_char c - 48"

definition digits_val :: "string \<Rightarrow> nat" where
  "digits_val s = foldl (\<lambda>n c. 10 * n + digit_val c) 0 s"

lemma is_digit_char_of [simp]: "n < 10 \<Longrightarrow> is_digit (char_of (48 + n :: nat))"
  by (simp add: is_digit_def)

lemma digit_val_char_of [simp]: "n < 10 \<Longrightarrow> digit_val (char_of (48 + n :: nat)) = n"
  by (simp add: digit_val_def)

lemma digits_val_snoc: "digits_val (s @ [c]) = 10 * digits_val s + digit_val c"
  by (simp add: digits_val_def)

lemma digits_val_nat_str [simp, js_roundtrip]: "digits_val (nat_str n) = n"
proof (induction n rule: nat_str.induct)
  case (1 n)
  show ?case
  proof (cases "n < 10")
    case True
    then show ?thesis by (subst nat_str.simps) (simp add: digits_val_def)
  next
    case False
    with 1 have "digits_val (nat_str (n div 10)) = n div 10" by blast
    with False show ?thesis by (subst nat_str.simps) (simp add: digits_val_snoc)
  qed
qed

lemma nat_str_digits: "c \<in> set (nat_str n) \<Longrightarrow> is_digit c"
proof (induction n rule: nat_str.induct)
  case (1 n)
  then show ?case
    by (cases "n < 10") (auto simp: nat_str.simps [of n])
qed

lemma nat_str_nonempty [simp]: "nat_str n \<noteq> []"
  by (subst nat_str.simps) simp

lemma nat_str_inject [simp]: "nat_str m = nat_str n \<longleftrightarrow> m = n"
  by (metis digits_val_nat_str)

text \<open>
  \<open>BigInt(text)\<close>: white space around it is ignored, the empty text is zero, a prefix selects
  another base, and anything but digits is a \<open>SyntaxError\<close> (\<open>None\<close>).
\<close>

text \<open>
  \<open>s.trim()\<close>: JavaScript's white space and line terminators, each as its UTF-8 bytes, are dropped at
  both ends. The patterns of the far end are the same ones read backwards.
\<close>

definition white_space :: "string list" where
  "white_space =
     map (\<lambda>n. [char_of n]) [9, 10, 11, 12, 13, 32 :: nat] @
     [[CHR 0xC2, CHR 0xA0], [CHR 0xE1, CHR 0x9A, CHR 0x80]] @
     map (\<lambda>n. [CHR 0xE2, CHR 0x80, char_of n]) [128, 129, 130, 131, 132, 133, 134, 135, 136, 137, 138, 168, 169, 175 :: nat] @
     [[CHR 0xE2, CHR 0x81, CHR 0x9F], [CHR 0xE3, CHR 0x80, CHR 0x80], [CHR 0xEF, CHR 0xBB, CHR 0xBF]]"

fun strip_front :: "nat \<Rightarrow> string list \<Rightarrow> string \<Rightarrow> string" where
  "strip_front 0 ps s = s"
| "strip_front (Suc f) ps s =
     (case find (startsWith s) ps of Some p \<Rightarrow> strip_front f ps (drop (length p) s) | None \<Rightarrow> s)"

definition js_trim :: "string \<Rightarrow> string" where
  "js_trim s =
     (let front = strip_front (length s) white_space s
      in rev (strip_front (length front) (map rev white_space) (rev front)))"

fun radix_num :: "nat \<Rightarrow> int \<Rightarrow> string \<Rightarrow> int option" where
  "radix_num b acc [] = Some acc"
| "radix_num b acc (c # s) =
     (case hex_val c of
        None \<Rightarrow> None
      | Some n \<Rightarrow> if n < b then radix_num b (int b * acc + int n) s else None)"

definition digits_num :: "nat \<Rightarrow> string \<Rightarrow> int option" where
  "digits_num b s = (if s = [] then None else radix_num b 0 s)"

definition BigInt_text :: "string \<Rightarrow> int option" where
  "BigInt_text text =
     (case js_trim text of
        [] \<Rightarrow> Some 0
      | c # s \<Rightarrow>
          if c = CHR ''0'' \<and> s \<noteq> [] \<and> hd s \<in> {CHR ''x'', CHR ''X''} then digits_num 16 (tl s)
          else if c = CHR ''0'' \<and> s \<noteq> [] \<and> hd s \<in> {CHR ''o'', CHR ''O''} then digits_num 8 (tl s)
          else if c = CHR ''0'' \<and> s \<noteq> [] \<and> hd s \<in> {CHR ''b'', CHR ''B''} then digits_num 2 (tl s)
          else if c = CHR ''-'' then map_option uminus (digits_num 10 s)
          else if c = CHR ''+'' then digits_num 10 s
          else digits_num 10 (c # s))"

lemma radix_num_digits:
  "(\<forall>c \<in> set s. is_digit c) \<Longrightarrow> radix_num 10 acc s = Some (foldl (\<lambda>n c. 10 * n + int (digit_val c)) acc s)"
  by (induction s arbitrary: acc) (auto simp: hex_val_def is_digit_def digit_val_def Let_def)

lemma foldl_int: "foldl (\<lambda>n c. 10 * n + int (digit_val c)) (int m) s = int (foldl (\<lambda>n c. 10 * n + digit_val c) m s)"
proof (induction s arbitrary: m)
  case (Cons c s)
  have "10 * int m + int (digit_val c) = int (10 * m + digit_val c)" by simp
  then show ?case using Cons [of "10 * m + digit_val c"] by (simp only: foldl_Cons)
qed simp

lemma digits_num_nat_str: "digits_num 10 (nat_str n) = Some (int n)"
  using foldl_int [of 0 "nat_str n"] digits_val_nat_str [of n] nat_str_digits [of _ n]
  by (simp add: digits_num_def radix_num_digits digits_val_def)

text \<open>A text with no white space and no byte of a multi-byte character is its own trim.\<close>

definition plain_char :: "char \<Rightarrow> bool" where
  "plain_char c \<longleftrightarrow> 32 < (of_char c :: nat) \<and> (of_char c :: nat) < 128"

lemma strip_front_stop: "find (startsWith s) ps = None \<Longrightarrow> strip_front f ps s = s"
  by (cases f) simp_all

lemma find_plain:
  assumes "\<forall>p \<in> set ps. p \<noteq> [] \<and> \<not> plain_char (hd p)" and "\<forall>c \<in> set s. plain_char c"
  shows "find (startsWith s) ps = None"
proof -
  have "\<not> startsWith s p" if "p \<in> set ps" for p
    using assms that by (cases p; cases s) (auto simp: startsWith_def)
  then show ?thesis by (auto simp: find_None_iff)
qed

lemma white_space_not_plain:
  "\<forall>p \<in> set white_space. p \<noteq> [] \<and> \<not> plain_char (hd p)"
  "\<forall>p \<in> set (map rev white_space). p \<noteq> [] \<and> \<not> plain_char (hd p)"
  by (simp_all add: white_space_def plain_char_def)

lemma js_trim_free: "(\<forall>c \<in> set s. plain_char c) \<Longrightarrow> js_trim s = s"
  using find_plain [OF white_space_not_plain(1), of s] find_plain [OF white_space_not_plain(2), of "rev s"]
  by (simp add: js_trim_def Let_def strip_front_stop)

lemma digit_plain: "is_digit c \<Longrightarrow> plain_char c"
  by (simp add: is_digit_def plain_char_def)

lemma BigInt_text_digits:
  assumes "s \<noteq> []" "\<forall>c \<in> set s. is_digit c"
  shows "BigInt_text s = digits_num 10 s"
proof -
  obtain c t where s: "s = c # t" using assms(1) by (cases s) auto
  have "js_trim s = s" using assms(2) digit_plain by (simp add: js_trim_free)
  moreover have "t \<noteq> [] \<Longrightarrow> is_digit (hd t)" using assms(2) s by (cases t) auto
  moreover have "c \<noteq> CHR ''-''" "c \<noteq> CHR ''+''" using assms(2) s by (auto simp: is_digit_def)
  moreover have "d \<notin> {CHR ''x'', CHR ''X''}" "d \<notin> {CHR ''o'', CHR ''O''}" "d \<notin> {CHR ''b'', CHR ''B''}" if "is_digit d" for d
    using that by (auto simp: is_digit_def)
  ultimately have "\<not> (c = CHR ''0'' \<and> t \<noteq> [] \<and> hd t \<in> {CHR ''x'', CHR ''X''})"
    "\<not> (c = CHR ''0'' \<and> t \<noteq> [] \<and> hd t \<in> {CHR ''o'', CHR ''O''})" "\<not> (c = CHR ''0'' \<and> t \<noteq> [] \<and> hd t \<in> {CHR ''b'', CHR ''B''})"
    "js_trim (c # t) = c # t" "c \<noteq> CHR ''-''" "c \<noteq> CHR ''+''" using s by blast+
  then show ?thesis unfolding BigInt_text_def s by (simp only: list.case if_False)
qed

lemma BigInt_text_int_str [js_roundtrip]: "BigInt_text (int_str n) = Some n"
proof (cases "n < 0")
  case True
  have "\<forall>c \<in> set (CHR ''-'' # nat_str (nat (- n))). plain_char c"
    using nat_str_digits digit_plain by (auto simp: plain_char_def)
  from js_trim_free [OF this] True show ?thesis by (simp add: BigInt_text_def int_str_def digits_num_nat_str)
next
  case False
  then show ?thesis
    using BigInt_text_digits [of "nat_str (nat n)"] nat_str_digits by (simp add: int_str_def digits_num_nat_str)
qed

text \<open>\<open>n.toString(16)\<close>, and the same padded to 64 digits with \<open>padStart(64, '0')\<close>.\<close>

fun hex_nat :: "nat \<Rightarrow> string" where
  "hex_nat n = (if n < 16 then [hex_digit n] else hex_nat (n div 16) @ [hex_digit (n mod 16)])"

declare hex_nat.simps [simp del]

definition hex_pad64 :: "int \<Rightarrow> string" where
  "hex_pad64 n = (let h = hex_nat (nat n) in replicate (64 - length h) (CHR ''0'') @ h)"

subsection \<open>Splitting and joining\<close>

text \<open>\<open>s.split(c)\<close> for a one-character separator, and \<open>xs.join(sep)\<close>.\<close>

fun split_on :: "char \<Rightarrow> string \<Rightarrow> string list" where
  "split_on c [] = [[]]"
| "split_on c (x # s) =
     (if x = c then [] # split_on c s
      else (case split_on c s of p # ps \<Rightarrow> (x # p) # ps | [] \<Rightarrow> [[x]]))"

fun join :: "string \<Rightarrow> string list \<Rightarrow> string" where
  "join sep [] = []"
| "join sep [x] = x"
| "join sep (x # y # ys) = x @ sep @ join sep (y # ys)"

lemma split_on_nonempty [simp]: "split_on c s \<noteq> []"
  by (induction s) (auto split: list.splits)

lemma split_on_free [simp]: "c \<notin> set s \<Longrightarrow> split_on c s = [s]"
  by (induction s) auto

lemma split_on_append [simp]: "c \<notin> set s \<Longrightarrow> split_on c (s @ c # t) = s # split_on c t"
  by (induction s) auto

lemma split_on_join:
  "xs \<noteq> [] \<Longrightarrow> (\<forall>x \<in> set xs. c \<notin> set x) \<Longrightarrow> split_on c (join [c] xs) = xs"
proof (induction "[c]" xs rule: join.induct)
  case (3 x y ys)
  then show ?case by simp
qed simp_all

text \<open>Cutting two texts at the first separator that neither prefix contains is unambiguous.\<close>

lemma append_sep_inject:
  assumes "c \<notin> set a" and "c \<notin> set a'" and "a @ c # b = a' @ c # b'"
  shows "a = a' \<and> b = b'"
  using assms
proof (induction a arbitrary: a')
  case Nil
  then show ?case by (cases a') auto
next
  case (Cons x a)
  then show ?case by (cases a') auto
qed

end
