(* ===== verification/Base64url.thy ===== *)
theory Base64url
  imports Prelude
begin

section \<open>base64 and base64url\<close>

text \<open>
  The runtime's \<open>btoa\<close> and \<open>atob\<close> (the latter is the platform's forgiving decoder: white space is
  dropped, padding is optional, leftover bits are ignored) and the base64url helpers that
  \<open>packages/delegation/src/token.ts\<close> and \<open>packages/mcp-runtime/src/service-mac.ts\<close> build on them.
  The main fact is that decoding an encoded byte string gives the bytes back, whichever of the
  two decoders reads it.
\<close>

subsection \<open>Sextets\<close>

fun sextets :: "nat list \<Rightarrow> nat list" where
  "sextets (a # b # c # r) =
     a div 4 # (a mod 4 * 16 + b div 16) # (b mod 16 * 4 + c div 64) # c mod 64 # sextets r"
| "sextets [a, b] = [a div 4, a mod 4 * 16 + b div 16, b mod 16 * 4]"
| "sextets [a] = [a div 4, a mod 4 * 16]"
| "sextets [] = []"

fun octets :: "nat list \<Rightarrow> nat list" where
  "octets (a # b # c # d # r) =
     (a * 4 + b div 16) # (b mod 16 * 16 + c div 4) # (c mod 4 * 64 + d) # octets r"
| "octets [a, b, c] = [a * 4 + b div 16, b mod 16 * 16 + c div 4]"
| "octets [a, b] = [a * 4 + b div 16]"
| "octets _ = []"

lemma octets_sextets [simp, js_roundtrip]: "\<forall>n \<in> set ns. n < 256 \<Longrightarrow> octets (sextets ns) = ns"
proof (induction ns rule: sextets.induct)
  case (1 a b c r)
  then have "a < 256" "b < 256" "c < 256" and IH: "octets (sextets r) = r" by auto
  then show ?case
    by (simp add: IH)
qed auto

lemma sextets_less: "\<forall>n \<in> set ns. n < 256 \<Longrightarrow> m \<in> set (sextets ns) \<Longrightarrow> m < 64"
proof (induction ns arbitrary: m rule: sextets.induct)
  case (1 a b c r)
  then show ?case by auto
qed auto

lemma length_sextets_mod: "length (sextets ns) mod 4 \<noteq> 1"
  by (induction ns rule: sextets.induct) auto

subsection \<open>The alphabet\<close>

definition b64_char :: "nat \<Rightarrow> char" where
  "b64_char n = (if n < 26 then char_of (65 + n) else if n < 52 then char_of (71 + n)
     else if n < 62 then char_of (n - 4) else if n = 62 then CHR ''+'' else CHR ''/'')"

definition b64_val :: "char \<Rightarrow> nat option" where
  "b64_val c = (let n = of_char c :: nat in
     if 65 \<le> n \<and> n \<le> 90 then Some (n - 65)
     else if 97 \<le> n \<and> n \<le> 122 then Some (n - 71)
     else if 48 \<le> n \<and> n \<le> 57 then Some (n + 4)
     else if c = CHR ''+'' then Some 62
     else if c = CHR ''/'' then Some 63
     else None)"

lemma b64_val_char [simp, js_roundtrip]: "n < 64 \<Longrightarrow> b64_val (b64_char n) = Some n"
  by (auto simp: b64_val_def b64_char_def Let_def)

fun b64_vals :: "string \<Rightarrow> nat list option" where
  "b64_vals [] = Some []"
| "b64_vals (c # s) =
     (case b64_val c of None \<Rightarrow> None
      | Some n \<Rightarrow> (case b64_vals s of None \<Rightarrow> None | Some ns \<Rightarrow> Some (n # ns)))"

lemma b64_vals_map [simp]: "\<forall>n \<in> set ns. n < 64 \<Longrightarrow> b64_vals (map b64_char ns) = Some ns"
  by (induction ns) auto

subsection \<open>\<open>btoa\<close> and \<open>atob\<close>\<close>

definition char_codes :: "string \<Rightarrow> nat list" where
  "char_codes s = map of_char s"

definition btoa :: "string \<Rightarrow> string" where
  "btoa bin = map b64_char (sextets (char_codes bin))
     @ replicate ((3 - length bin mod 3) mod 3) (CHR ''='')"

definition ascii_space :: "char \<Rightarrow> bool" where
  "ascii_space c \<longleftrightarrow> (of_char c :: nat) \<in> set [9, 10, 12, 13, 32]"

definition drop_last_eq :: "string \<Rightarrow> string" where
  "drop_last_eq s = (if s \<noteq> [] \<and> last s = CHR ''='' then butlast s else s)"

definition atob :: "string \<Rightarrow> string js" where
  "atob text =
     (let s = filter (\<lambda>c. \<not> ascii_space c) text;
          t = (if length s mod 4 = 0 then drop_last_eq (drop_last_eq s) else s)
      in if length t mod 4 = 1 then Inl InvalidCharacterError
         else (case b64_vals t of
                 None \<Rightarrow> Inl InvalidCharacterError
               | Some ns \<Rightarrow> Inr (map char_of (octets ns))))"

subsection \<open>The base64url helpers\<close>

definition url_char :: "char \<Rightarrow> char" where
  "url_char c = (if c = CHR ''+'' then CHR ''-'' else if c = CHR ''/'' then CHR ''_'' else c)"

definition unurl_char :: "char \<Rightarrow> char" where
  "unurl_char c = (if c = CHR ''-'' then CHR ''+'' else if c = CHR ''_'' then CHR ''/'' else c)"

definition strip_eq :: "string \<Rightarrow> string" where
  "strip_eq s = rev (dropWhile (\<lambda>c. c = CHR ''='') (rev s))"

definition bytesToBase64url :: "bytes \<Rightarrow> string" where
  "bytesToBase64url bs = strip_eq (map url_char (btoa (map char_of_byte bs)))"

definition pad4 :: "string \<Rightarrow> string" where
  "pad4 s = s @ replicate ((4 - length s mod 4) mod 4) (CHR ''='')"

definition base64urlToBytes :: "string \<Rightarrow> bytes js" where
  "base64urlToBytes s =
     (case atob (pad4 (map unurl_char s)) of
        Inl e \<Rightarrow> Inl e
      | Inr bin \<Rightarrow> Inr (map byte_of_char bin))"

definition base64urlEncode :: "string \<Rightarrow> string" where
  "base64urlEncode s = bytesToBase64url (TextEncoder s)"

definition base64urlDecodeStr :: "string \<Rightarrow> string js" where
  "base64urlDecodeStr s =
     (case base64urlToBytes s of Inl e \<Rightarrow> Inl e | Inr bs \<Rightarrow> Inr (TextDecoder bs))"

text \<open>
  The decoder of \<open>service-mac.ts\<close>: the padding is \<open>'=='.slice((2 - (s.length & 3)) & 3)\<close>.
\<close>

definition mac_pad :: "string \<Rightarrow> string" where
  "mac_pad s = s @ drop (nat ((2 - int (length s mod 4)) mod 4)) ''==''"

definition macBase64urlDecode :: "string \<Rightarrow> bytes js" where
  "macBase64urlDecode s =
     (case atob (mac_pad (map unurl_char s)) of
        Inl e \<Rightarrow> Inl e
      | Inr bin \<Rightarrow> Inr (map byte_of_char bin))"

subsection \<open>The text an encoder produces\<close>

definition b64_text :: "bytes \<Rightarrow> string" where
  "b64_text bs = map b64_char (sextets (map unat bs))"

lemma char_codes_bytes [simp]: "char_codes (map char_of_byte bs) = map unat bs"
  by (simp add: char_codes_def char_of_byte_def)

lemma b64_text_val: "c \<in> set (b64_text bs) \<Longrightarrow> b64_val c \<noteq> None"
  using sextets_less [of "map unat bs"] by (auto simp: b64_text_def)

lemma b64_text_free [simp]: "b64_val c = None \<Longrightarrow> c \<notin> set (b64_text bs)"
  using b64_text_val by blast

lemma b64_val_None [simp]:
  "b64_val (CHR ''='') = None" "b64_val (CHR ''.'') = None"
  "b64_val (CHR ''-'') = None" "b64_val (CHR ''_'') = None"
  by (simp_all add: b64_val_def)

lemma b64_val_space [simp]: "ascii_space c \<Longrightarrow> b64_val c = None"
  by (auto simp: ascii_space_def b64_val_def Let_def)

lemma dropWhile_rev_free: "(\<forall>c \<in> set s. \<not> P c) \<Longrightarrow> rev (dropWhile P (rev s)) = s"
  by (cases s rule: rev_cases) auto

lemma strip_eq_padded: "CHR ''='' \<notin> set s \<Longrightarrow> strip_eq (s @ replicate n (CHR ''='')) = s"
proof -
  assume free: "CHR ''='' \<notin> set s"
  have "dropWhile (\<lambda>c. c = CHR ''='') (replicate n (CHR ''='') @ rev s)
      = dropWhile (\<lambda>c. c = CHR ''='') (rev s)"
    by (induction n) auto
  then show ?thesis
    using free dropWhile_rev_free [of s "\<lambda>c. c = CHR ''=''"] by (auto simp: strip_eq_def)
qed

lemma bytesToBase64url_eq: "bytesToBase64url bs = map url_char (b64_text bs)"
proof -
  have "CHR ''='' \<notin> set (map url_char (b64_text bs))"
    using b64_text_free [of "CHR ''=''" bs] by (auto simp: url_char_def split: if_splits)
  then show ?thesis
    by (simp add: bytesToBase64url_def btoa_def b64_text_def map_replicate url_char_def strip_eq_padded)
qed

lemma map_unurl_url [simp]: "map unurl_char (map url_char (b64_text bs)) = b64_text bs"
proof -
  have "c \<in> set (b64_text bs) \<Longrightarrow> unurl_char (url_char c) = c" for c
    using b64_text_val [of c bs] by (auto simp: url_char_def unurl_char_def)
  then show ?thesis by (simp add: map_idI)
qed

subsection \<open>Round trips\<close>

text \<open>
  Whatever run of at most two \<open>=\<close> either decoder appends to the unpadded text of an encoder,
  \<open>atob\<close> reads the same bytes, provided padding only completes a block.
\<close>

lemma drop_last_eq_free [simp]: "CHR ''='' \<notin> set s \<Longrightarrow> drop_last_eq s = s"
  by (auto simp: drop_last_eq_def dest: last_in_set)

lemma drop_last_eq_snoc [simp]: "drop_last_eq (s @ [CHR ''='']) = s"
  by (simp add: drop_last_eq_def)

lemma atob_b64_text:
  assumes k: "k \<le> 2" and blk: "k = 0 \<or> (length (b64_text bs) + k) mod 4 = 0"
  shows "atob (b64_text bs @ replicate k (CHR ''='')) = Inr (map char_of_byte bs)"
proof -
  let ?t = "b64_text bs"
  have free: "CHR ''='' \<notin> set ?t" by simp
  have sp: "filter (\<lambda>c. \<not> ascii_space c) ?t = ?t"
    using b64_text_val [of _ bs] by (auto simp: filter_id_conv)
  have len1: "length ?t mod 4 \<noteq> 1"
    using length_sextets_mod by (simp add: b64_text_def)
  have vals: "b64_vals ?t = Some (sextets (map unat bs))"
    unfolding b64_text_def using sextets_less [of "map unat bs"] by (intro b64_vals_map) auto
  have oct: "octets (sextets (map unat bs)) = map unat bs" by simp
  have eqsp: "\<not> ascii_space (CHR ''='')" by (simp add: ascii_space_def)
  have filt: "filter (\<lambda>c. \<not> ascii_space c) (?t @ replicate k (CHR ''='')) = ?t @ replicate k (CHR ''='')"
    using sp eqsp by simp
  have strip: "(if length (?t @ replicate k (CHR ''='')) mod 4 = 0
      then drop_last_eq (drop_last_eq (?t @ replicate k (CHR ''='')))
      else ?t @ replicate k (CHR ''='')) = ?t"
  proof -
    consider "k = 0" | "k = 1" | "k = 2" using k by linarith
    then show ?thesis
    proof cases
      case 1 then show ?thesis using free by simp
    next
      case 2 then show ?thesis using free blk by simp
    next
      case 3
      have "drop_last_eq (?t @ [CHR ''='', CHR ''='']) = ?t @ [CHR ''='']"
        using drop_last_eq_snoc [of "?t @ [CHR ''='']"] by simp
      with 3 show ?thesis using blk by (simp add: numeral_2_eq_2)
    qed
  qed
  show ?thesis
    unfolding atob_def Let_def filt strip using len1
    by (simp add: vals oct char_of_byte_def)
qed

lemma map_bytes_chars: "map byte_of_char (map char_of_byte bs) = bs"
  by (simp add: comp_def)

lemma pad_block: "n mod 4 \<noteq> (1::nat) \<Longrightarrow> (4 - n mod 4) mod 4 \<le> 2 \<and> (n + (4 - n mod 4) mod 4) mod 4 = 0"
proof -
  assume "n mod 4 \<noteq> 1"
  then consider "n mod 4 = 0" | "n mod 4 = 2" | "n mod 4 = 3" by fastforce
  then show ?thesis by cases (simp_all, presburger+)
qed

theorem base64url_roundtrip [simp, js_roundtrip]: "base64urlToBytes (bytesToBase64url bs) = Inr bs"
proof -
  let ?n = "length (b64_text bs)"
  have "?n mod 4 \<noteq> 1" using length_sextets_mod by (simp add: b64_text_def)
  then have "(4 - ?n mod 4) mod 4 \<le> 2 \<and> (?n + (4 - ?n mod 4) mod 4) mod 4 = 0"
    by (rule pad_block)
  then have "atob (pad4 (b64_text bs)) = Inr (map char_of_byte bs)"
    unfolding pad4_def by (intro atob_b64_text) simp_all
  then show ?thesis
    by (simp add: base64urlToBytes_def bytesToBase64url_eq comp_def map_bytes_chars del: map_map)
qed

theorem mac_base64url_roundtrip [simp, js_roundtrip]: "macBase64urlDecode (bytesToBase64url bs) = Inr bs"
proof -
  let ?n = "length (b64_text bs)" and ?k = "2 - nat ((2 - int (length (b64_text bs) mod 4)) mod 4)"
  have n1: "?n mod 4 \<noteq> 1" using length_sextets_mod by (simp add: b64_text_def)
  have "drop m ''=='' = replicate (2 - m) (CHR ''='')" for m
    by (cases m; cases "m - 1") (auto simp: numeral_2_eq_2)
  then have pad: "mac_pad (b64_text bs) = b64_text bs @ replicate ?k (CHR ''='')"
    by (simp add: mac_pad_def)
  consider "?n mod 4 = 0" | "?n mod 4 = 2" | "?n mod 4 = 3" using n1 by fastforce
  then have "?k = 0 \<or> (?n + ?k) mod 4 = 0"
    by cases (simp_all, presburger?)
  then have "atob (mac_pad (b64_text bs)) = Inr (map char_of_byte bs)"
    unfolding pad by (intro atob_b64_text) simp_all
  then show ?thesis
    by (simp add: macBase64urlDecode_def bytesToBase64url_eq comp_def map_bytes_chars del: map_map)
qed

lemma base64url_str_roundtrip [simp, js_roundtrip]: "base64urlDecodeStr (base64urlEncode s) = Inr s"
  by (simp add: base64urlDecodeStr_def base64urlEncode_def)

lemma base64url_no_dot [simp]: "CHR ''.'' \<notin> set (bytesToBase64url bs)"
  using b64_text_free [of "CHR ''.''" bs] by (auto simp: bytesToBase64url_eq url_char_def split: if_splits)

end
