(* ===== verification/CanonicalJson.thy ===== *)
theory CanonicalJson
  imports Prelude "HOL-Library.Multiset"
begin

section \<open>Canonical JSON\<close>

text \<open>
  \<open>canonicalJSON\<close> of \<open>packages/delegation/src/token.ts\<close> turns a JavaScript value into the text that
  a session key signs, and \<open>JSON.parse\<close> turns the text of a received token into claims. Objects
  carry an identity (a reference number), because the code rejects a reference it has already
  seen. Numbers are the integers the claims use; a literal with a fraction or an exponent is
  outside the model and does not parse here.

  The theory shows that a printed value parses back to its JSON image, so that two values with
  the same canonical text agree on every field; that the text does not depend on the order in
  which an object's fields were written; and that a reference occurring twice is refused.
\<close>

subsection \<open>Values\<close>

datatype jsval =
    JUndefined | JNull | JBool bool | JNumber "int option" | JBigInt int | JString string
  | JArray "jsval list" | JObject nat "(string \<times> jsval) list"

datatype json =
    Null | Bool bool | Num int | Str string | Arr "json list" | Obj "(string \<times> json) list"

subsection \<open>Printing\<close>

definition quote_char :: "char \<Rightarrow> string" where
  "quote_char c = (let n = of_char c :: nat in
     if c = CHR 0x22 then [CHR 0x5C, CHR 0x22]
     else if c = CHR 0x5C then [CHR 0x5C, CHR 0x5C]
     else if c = CHR 0x08 then [CHR 0x5C, CHR ''b'']
     else if c = CHR 0x0C then [CHR 0x5C, CHR ''f'']
     else if c = CHR 0x0A then [CHR 0x5C, CHR ''n'']
     else if c = CHR 0x0D then [CHR 0x5C, CHR ''r'']
     else if c = CHR 0x09 then [CHR 0x5C, CHR ''t'']
     else if n < 32 then [CHR 0x5C, CHR ''u'', CHR ''0'', CHR ''0'', hex_digit (n div 16), hex_digit (n mod 16)]
     else [c])"

text \<open>\<open>JSON.stringify\<close> of a string.\<close>

definition json_quote :: "string \<Rightarrow> string" where
  "json_quote s = CHR 0x22 # concat (map quote_char s) @ [CHR 0x22]"

definition defined_members :: "(string \<times> jsval) list \<Rightarrow> (string \<times> jsval) list" where
  "defined_members ms = sort_key fst (filter (\<lambda>m. snd m \<noteq> JUndefined) ms)"

lemma size_list_mset: "size_list f xs = sum_mset (image_mset f (mset xs)) + length xs"
  by (induction xs) auto

lemma size_defined_members: "size_list f (defined_members ms) \<le> size_list f ms"
proof -
  have "size_list f (defined_members ms) = size_list f (filter (\<lambda>m. snd m \<noteq> JUndefined) ms)"
    by (simp add: defined_members_def size_list_mset)
  also have "\<dots> \<le> size_list f ms"
    by (induction ms) auto
  finally show ?thesis .
qed

function (sequential)
  stringify :: "nat list \<Rightarrow> jsval \<Rightarrow> (string \<times> nat list) js" and
  stringify_elems :: "nat list \<Rightarrow> jsval list \<Rightarrow> (string list \<times> nat list) js" and
  stringify_members :: "nat list \<Rightarrow> (string \<times> jsval) list \<Rightarrow> (string list \<times> nat list) js"
where
  "stringify seen JNull = Inr (''null'', seen)"
| "stringify seen (JBool b) = Inr (if b then ''true'' else ''false'', seen)"
| "stringify seen (JNumber None) = Inr (''null'', seen)"
| "stringify seen (JNumber (Some n)) = Inr (int_str n, seen)"
| "stringify seen (JBigInt n) = Inr (json_quote (int_str n), seen)"
| "stringify seen (JString s) = Inr (json_quote s, seen)"
| "stringify seen (JArray xs) =
     (case stringify_elems seen xs of
        Inl e \<Rightarrow> Inl e
      | Inr (ps, seen') \<Rightarrow> Inr (''['' @ join '','' ps @ '']'', seen'))"
| "stringify seen (JObject r ms) =
     (if r \<in> set seen then Inl (Error ''canonicalJSON: circular reference'')
      else (case stringify_members (r # seen) (defined_members ms) of
              Inl e \<Rightarrow> Inl e
            | Inr (ps, seen') \<Rightarrow> Inr (''{'' @ join '','' ps @ ''}'', seen')))"
| "stringify seen JUndefined = Inl (Error ''canonicalJSON: unsupported type undefined'')"
| "stringify_elems seen [] = Inr ([], seen)"
| "stringify_elems seen (x # xs) =
     (case (if x = JUndefined then Inr (''null'', seen) else stringify seen x) of
        Inl e \<Rightarrow> Inl e
      | Inr (p, seen1) \<Rightarrow>
          (case stringify_elems seen1 xs of
             Inl e \<Rightarrow> Inl e
           | Inr (ps, seen2) \<Rightarrow> Inr (p # ps, seen2)))"
| "stringify_members seen [] = Inr ([], seen)"
| "stringify_members seen ((k, v) # ms) =
     (case stringify seen v of
        Inl e \<Rightarrow> Inl e
      | Inr (p, seen1) \<Rightarrow>
          (case stringify_members seen1 ms of
             Inl e \<Rightarrow> Inl e
           | Inr (ps, seen2) \<Rightarrow> Inr ((json_quote k @ '':'' @ p) # ps, seen2)))"
  by pat_completeness auto
termination
proof (relation "measure (case_sum (\<lambda>(_, v). size v)
    (case_sum (\<lambda>(_, xs). size_list size xs) (\<lambda>(_, ms). size_list (size_prod (\<lambda>_. 0) size) ms)))", goal_cases)
  case (3 seen r ms)
  then show ?case using size_defined_members [of "size_prod (\<lambda>_. 0) size" ms] by simp
qed auto

definition canonicalJSON :: "jsval \<Rightarrow> string js" where
  "canonicalJSON v = (case stringify [] v of Inl e \<Rightarrow> Inl e | Inr (s, _) \<Rightarrow> Inr s)"

subsection \<open>Parsing\<close>

definition json_space :: "char \<Rightarrow> bool" where
  "json_space c \<longleftrightarrow> (of_char c :: nat) \<in> set [9, 10, 13, 32]"

definition skip_ws :: "string \<Rightarrow> string" where
  "skip_ws s = dropWhile json_space s"

definition hex4 :: "char \<Rightarrow> char \<Rightarrow> char \<Rightarrow> char \<Rightarrow> nat option" where
  "hex4 a b c d =
     (case (hex_val a, hex_val b, hex_val c, hex_val d) of
        (Some w, Some x, Some y, Some z) \<Rightarrow> Some (4096 * w + 256 * x + 16 * y + z)
      | _ \<Rightarrow> None)"

definition utf8 :: "nat \<Rightarrow> string" where
  "utf8 n = (if n < 128 then [char_of n]
     else if n < 2048 then [char_of (192 + n div 64), char_of (128 + n mod 64)]
     else if n < 65536 then [char_of (224 + n div 4096), char_of (128 + n div 64 mod 64), char_of (128 + n mod 64)]
     else [char_of (240 + n div 262144), char_of (128 + n div 4096 mod 64),
           char_of (128 + n div 64 mod 64), char_of (128 + n mod 64)])"

definition unescape :: "char \<Rightarrow> char option" where
  "unescape e =
     (if e = CHR 0x22 \<or> e = CHR 0x5C \<or> e = CHR ''/'' then Some e
     else if e = CHR ''b'' then Some (CHR 0x08)
     else if e = CHR ''f'' then Some (CHR 0x0C)
     else if e = CHR ''n'' then Some (CHR 0x0A)
     else if e = CHR ''r'' then Some (CHR 0x0D)
     else if e = CHR ''t'' then Some (CHR 0x09)
     else None)"

text \<open>The body of a string literal, after its opening quote; a surrogate pair is one character.\<close>

definition low_surrogate :: "string \<Rightarrow> (nat \<times> string) option" where
  "low_surrogate s =
     (case s of
        q # u # a # b # c # d # t \<Rightarrow>
          if q = CHR 0x5C \<and> u = CHR ''u'' then
            (case hex4 a b c d of
               Some m \<Rightarrow> if 56320 \<le> m \<and> m < 57344 then Some (m, t) else None
             | None \<Rightarrow> None)
          else None
      | _ \<Rightarrow> None)"

definition parse_u :: "string \<Rightarrow> (string \<times> string) option" where
  "parse_u s =
     (case s of
        a # b # c # d # t \<Rightarrow>
          (case hex4 a b c d of
             None \<Rightarrow> None
           | Some n \<Rightarrow>
               if 55296 \<le> n \<and> n < 56320 then
                 (case low_surrogate t of
                    Some (m, t') \<Rightarrow> Some (utf8 (65536 + (n - 55296) * 1024 + (m - 56320)), t')
                  | None \<Rightarrow> Some (utf8 n, t))
               else Some (utf8 n, t))
      | _ \<Rightarrow> None)"

lemma parse_u_shorter: "parse_u s = Some (x, t) \<Longrightarrow> length t < length s"
  by (auto simp: parse_u_def low_surrogate_def split: list.splits option.splits if_splits)

function parse_str :: "string \<Rightarrow> (string \<times> string) option" where
  "parse_str s =
     (case s of
        [] \<Rightarrow> None
      | c # t \<Rightarrow>
          if c = CHR 0x22 then Some ([], t)
          else if c = CHR 0x5C then
            (case t of
               [] \<Rightarrow> None
             | e # t' \<Rightarrow>
                 if e = CHR ''u'' then
                   (case parse_u t' of
                      None \<Rightarrow> None
                    | Some (x, r) \<Rightarrow> map_option (\<lambda>(y, z). (x @ y, z)) (parse_str r))
                 else (case unescape e of
                         None \<Rightarrow> None
                       | Some x \<Rightarrow> map_option (\<lambda>(y, z). (x # y, z)) (parse_str t')))
          else if (of_char c :: nat) < 32 then None
          else map_option (\<lambda>(y, z). (c # y, z)) (parse_str t))"
  by pat_completeness auto
termination
  by (relation "measure length") (auto dest: parse_u_shorter)

declare parse_str.simps [simp del]

definition parse_num :: "string \<Rightarrow> (int \<times> string) option" where
  "parse_num s =
     (let neg = (s \<noteq> [] \<and> hd s = CHR ''-'');
          t = (if neg then tl s else s);
          ds = takeWhile is_digit t
      in if ds = [] \<or> (1 < length ds \<and> hd ds = CHR ''0'') then None
         else Some (if neg then - int (digits_val ds) else int (digits_val ds), drop (length ds) t))"

definition literal :: "string \<Rightarrow> string \<Rightarrow> string option" where
  "literal p s = (if startsWith s p then Some (drop (length p) s) else None)"

fun upsert :: "'k \<Rightarrow> 'v \<Rightarrow> ('k \<times> 'v) list \<Rightarrow> ('k \<times> 'v) list" where
  "upsert k v [] = [(k, v)]"
| "upsert k v ((k', v') # ms) = (if k = k' then (k, v) # ms else (k', v') # upsert k v ms)"

fun
  parse_value :: "nat \<Rightarrow> string \<Rightarrow> (json \<times> string) option" and
  parse_elems :: "nat \<Rightarrow> string \<Rightarrow> (json list \<times> string) option" and
  parse_members :: "nat \<Rightarrow> (string \<times> json) list \<Rightarrow> string \<Rightarrow> ((string \<times> json) list \<times> string) option"
where
  "parse_value 0 s = None"
| "parse_value (Suc f) s =
     (case skip_ws s of
        [] \<Rightarrow> None
      | c # t \<Rightarrow>
          if c = CHR ''{'' then
            (case skip_ws t of
               [] \<Rightarrow> None
             | d # t' \<Rightarrow> if d = CHR ''}'' then Some (Obj [], t')
                         else map_option (\<lambda>(ms, r). (Obj ms, r)) (parse_members f [] t))
          else if c = CHR ''['' then
            (case skip_ws t of
               [] \<Rightarrow> None
             | d # t' \<Rightarrow> if d = CHR '']'' then Some (Arr [], t')
                         else map_option (\<lambda>(xs, r). (Arr xs, r)) (parse_elems f t))
          else if c = CHR 0x22 then map_option (\<lambda>(x, r). (Str x, r)) (parse_str t)
          else (case literal ''null'' (c # t) of
                  Some r \<Rightarrow> Some (Null, r)
                | None \<Rightarrow>
                    (case literal ''true'' (c # t) of
                       Some r \<Rightarrow> Some (Bool True, r)
                     | None \<Rightarrow>
                         (case literal ''false'' (c # t) of
                            Some r \<Rightarrow> Some (Bool False, r)
                          | None \<Rightarrow> map_option (\<lambda>(n, r). (Num n, r)) (parse_num (c # t))))))"
| "parse_elems 0 s = None"
| "parse_elems (Suc f) s =
     (case parse_value f s of
        None \<Rightarrow> None
      | Some (v, t) \<Rightarrow>
          (case skip_ws t of
             [] \<Rightarrow> None
           | d # t' \<Rightarrow>
               if d = CHR '']'' then Some ([v], t')
               else if d = CHR '','' then map_option (\<lambda>(vs, r). (v # vs, r)) (parse_elems f t')
               else None))"
| "parse_members 0 acc s = None"
| "parse_members (Suc f) acc s =
     (case skip_ws s of
        [] \<Rightarrow> None
      | q # t \<Rightarrow>
          if q \<noteq> CHR 0x22 then None
          else (case parse_str t of
                  None \<Rightarrow> None
                | Some (k, t1) \<Rightarrow>
                    (case skip_ws t1 of
                       [] \<Rightarrow> None
                     | d # t2 \<Rightarrow>
                         if d \<noteq> CHR '':'' then None
                         else (case parse_value f t2 of
                                 None \<Rightarrow> None
                               | Some (v, t3) \<Rightarrow>
                                   (case skip_ws t3 of
                                      [] \<Rightarrow> None
                                    | e # t4 \<Rightarrow>
                                        if e = CHR ''}'' then Some (upsert k v acc, t4)
                                        else if e = CHR '','' then parse_members f (upsert k v acc) t4
                                        else None)))))"

definition JSON_parse :: "string \<Rightarrow> json option" where
  "JSON_parse s =
     (case parse_value (2 * length s + 1) s of
        Some (v, r) \<Rightarrow> if skip_ws r = [] then Some v else None
      | None \<Rightarrow> None)"


subsection \<open>The JSON image of a value and its text\<close>

primrec print :: "json \<Rightarrow> string" where
  "print Null = ''null''"
| "print (Bool b) = (if b then ''true'' else ''false'')"
| "print (Num n) = int_str n"
| "print (Str s) = json_quote s"
| "print (Arr xs) = ''['' @ join '','' (map print xs) @ '']''"
| "print (Obj ms) =
     ''{'' @ join '','' (map (\<lambda>(k, p). json_quote k @ '':'' @ p) (map (map_prod id print) ms)) @ ''}''"

definition print_member :: "string \<times> json \<Rightarrow> string" where
  "print_member m = json_quote (fst m) @ '':'' @ print (snd m)"

lemma print_Obj: "print (Obj ms) = ''{'' @ join '','' (map print_member ms) @ ''}''"
proof -
  have "(\<lambda>(k, p). json_quote k @ '':'' @ p) \<circ> map_prod id print = print_member"
    by (auto simp: print_member_def fun_eq_iff)
  then show ?thesis by simp
qed

primrec wf_json :: "json \<Rightarrow> bool" where
  "wf_json Null = True"
| "wf_json (Bool b) = True"
| "wf_json (Num n) = True"
| "wf_json (Str s) = True"
| "wf_json (Arr xs) = list_all id (map wf_json xs)"
| "wf_json (Obj ms) = (distinct (map fst ms) \<and> list_all snd (map (map_prod id wf_json) ms))"

subsection \<open>String and number literals parse back\<close>

lemma quote_char_cases:
  obtains (esc) e where "quote_char c = [CHR 0x5C, e]" "e \<noteq> CHR ''u''" "unescape e = Some c"
    | (uni) "(of_char c :: nat) < 32"
        "quote_char c = [CHR 0x5C, CHR ''u'', CHR ''0'', CHR ''0'', hex_digit (of_char c div 16), hex_digit (of_char c mod 16)]"
    | (plain) "quote_char c = [c]" "c \<noteq> CHR 0x22" "c \<noteq> CHR 0x5C" "\<not> (of_char c :: nat) < 32"
proof (cases "c \<in> {CHR 0x22, CHR 0x5C, CHR 0x08, CHR 0x0C, CHR 0x0A, CHR 0x0D, CHR 0x09}")
  case True
  then have "\<exists>e. quote_char c = [CHR 0x5C, e] \<and> e \<noteq> CHR ''u'' \<and> unescape e = Some c"
    by (auto simp: quote_char_def unescape_def Let_def)
  then show thesis using esc by blast
next
  case False
  then show thesis using uni plain by (auto simp: quote_char_def Let_def)
qed

lemma parse_str_quote [js_roundtrip]:
  "parse_str (concat (map quote_char s) @ CHR 0x22 # rest) = Some (s, rest)"
proof (induction s)
  case Nil
  then show ?case by (simp add: parse_str.simps)
next
  case (Cons c s)
  let ?n = "of_char c :: nat" and ?r = "concat (map quote_char s) @ CHR 0x22 # rest"
  consider (esc) e where "quote_char c = [CHR 0x5C, e]" "e \<noteq> CHR ''u''" "unescape e = Some c"
    | (uni) "?n < 32" "quote_char c = [CHR 0x5C, CHR ''u'', CHR ''0'', CHR ''0'', hex_digit (?n div 16), hex_digit (?n mod 16)]"
    | (plain) "quote_char c = [c]" "c \<noteq> CHR 0x22" "c \<noteq> CHR 0x5C" "\<not> ?n < 32"
    by (rule quote_char_cases)
  then show ?case
  proof cases
    case esc
    then show ?thesis using Cons.IH by (subst parse_str.simps) simp
  next
    case uni
    have "hex4 (CHR ''0'') (CHR ''0'') (hex_digit (?n div 16)) (hex_digit (?n mod 16)) = Some ?n"
    proof -
      have "hex_val (CHR ''0'') = Some 0" by (simp add: hex_val_def)
      moreover have "?n div 16 < 16" using uni(1) by simp
      ultimately show ?thesis by (simp add: hex4_def)
    qed
    moreover have "utf8 ?n = [c]" using uni(1) by (simp add: utf8_def)
    ultimately have "parse_u (CHR ''0'' # CHR ''0'' # hex_digit (?n div 16) # hex_digit (?n mod 16) # ?r) = Some ([c], ?r)"
      using uni(1) by (simp add: parse_u_def)
    then show ?thesis using uni(2) Cons.IH by (subst parse_str.simps) simp
  next
    case plain
    then show ?thesis using Cons.IH by (subst parse_str.simps) simp
  qed
qed

definition stops :: "string \<Rightarrow> bool" where
  "stops rest \<longleftrightarrow> rest = [] \<or> \<not> is_digit (hd rest)"

lemma takeWhile_digits: "stops rest \<Longrightarrow> takeWhile is_digit (nat_str n @ rest) = nat_str n"
  by (cases rest) (auto simp: stops_def takeWhile_append2 nat_str_digits)

lemma nat_str_lead: "1 < length (nat_str n) \<Longrightarrow> hd (nat_str n) \<noteq> CHR ''0''"
proof (induction n rule: nat_str.induct)
  case (1 n)
  then have n: "\<not> n < 10" by (auto simp: nat_str.simps [of n] split: if_splits)
  show ?case
  proof (cases "n div 10 < 10")
    case True
    then have "nat_str n = [char_of (48 + n div 10), char_of (48 + n mod 10)]"
      using n by (simp add: nat_str.simps [of n] nat_str.simps [of "n div 10"])
    moreover have "char_of (48 + n div 10) \<noteq> CHR ''0''"
    proof
      assume "char_of (48 + n div 10) = CHR ''0''"
      from arg_cong [OF this, of digit_val] show False using True n by (simp add: digit_val_def)
    qed
    ultimately show ?thesis by simp
  next
    case False
    then have "1 < length (nat_str (n div 10))" by (simp add: nat_str.simps [of "n div 10"] Suc_lessI)
    with 1 n have "hd (nat_str (n div 10)) \<noteq> CHR ''0''" by blast
    then show ?thesis using n by (simp add: nat_str.simps [of n] hd_append)
  qed
qed

lemma hd_nat_str: "is_digit (hd (nat_str n))"
  by (rule nat_str_digits [of _ n]) simp

lemma parse_num_int_str [js_roundtrip]: "stops rest \<Longrightarrow> parse_num (int_str n @ rest) = Some (n, rest)"
proof (cases "n < 0")
  case True
  assume "stops rest"
  then show ?thesis
    using True nat_str_lead [of "nat (- n)"] by (simp add: parse_num_def int_str_def Let_def takeWhile_digits)
next
  case False
  assume st: "stops rest"
  have "hd (nat_str (nat n)) \<noteq> CHR ''-''"
    using hd_nat_str [of "nat n"] by (auto simp: is_digit_def)
  then show ?thesis
    using False st nat_str_lead [of "nat n"] by (simp add: parse_num_def int_str_def Let_def takeWhile_digits)
qed


subsection \<open>A printed value parses back\<close>

lemma print_start: "\<exists>c t. print j = c # t \<and> \<not> json_space c \<and> c \<noteq> CHR '']'' \<and> c \<noteq> CHR ''}''"
proof (cases j)
  case (Num n)
  have "is_digit (hd (nat_str m))" for m by (rule hd_nat_str)
  then have "\<exists>c t. nat_str m = c # t \<and> is_digit c" for m
    by (metis list.collapse nat_str_nonempty)
  then show ?thesis
    using Num by (force simp: int_str_def json_space_def is_digit_def)
next
  case (Obj ms)
  then show ?thesis by (simp add: json_space_def)
qed (auto simp: json_space_def json_quote_def)

lemma skip_ws_print [simp]: "skip_ws (print j @ rest) = print j @ rest"
  using print_start [of j] by (auto simp: skip_ws_def)

lemma join_start: "xs \<noteq> [] \<Longrightarrow> \<exists>r. join sep xs = hd xs @ r"
  by (cases xs rule: list.exhaust; cases "tl xs") auto

lemma length_join_ge: "x \<in> set xs \<Longrightarrow> length x \<le> length (join sep xs)"
  by (induction sep xs rule: join.induct) auto

lemma parse_elems_join:
  assumes "\<And>x f rest. x \<in> set xs \<Longrightarrow> length (print x) \<le> f \<Longrightarrow> stops rest \<Longrightarrow>
      parse_value f (print x @ rest) = Some (x, rest)"
    and "xs \<noteq> []" and "Suc (length (join '','' (map print xs))) \<le> f"
  shows "parse_elems f (join '','' (map print xs) @ CHR '']'' # rest) = Some (xs, rest)"
  using assms
proof (induction xs arbitrary: f)
  case Nil
  then show ?case by simp
next
  case (Cons x xs)
  obtain g where f: "f = Suc g" using Cons.prems(3) by (cases f) auto
  have ws: "skip_ws (CHR '']'' # r) = CHR '']'' # r" "skip_ws (CHR '','' # r) = CHR '','' # r" for r
    by (simp_all add: skip_ws_def json_space_def)
  have st: "stops (CHR '']'' # r)" "stops (CHR '','' # r)" for r
    by (simp_all add: stops_def is_digit_def)
  show ?case
  proof (cases xs)
    case Nil
    then have "parse_value g (print x @ CHR '']'' # rest) = Some (x, CHR '']'' # rest)"
      using Cons.prems f st by simp
    then show ?thesis using Nil f ws by simp
  next
    case (Cons y ys)
    let ?tail = "join '','' (map print xs) @ CHR '']'' # rest"
    have len: "length (print x) \<le> g" "Suc (length (join '','' (map print xs))) \<le> g"
      using Cons.prems(3) f Cons print_start [of x] by auto
    have "parse_value g (print x @ CHR '','' # ?tail) = Some (x, CHR '','' # ?tail)"
      using Cons.prems(1) len(1) st by simp
    moreover have "parse_elems g ?tail = Some (xs, rest)"
      using Cons.IH [of g] Cons.prems(1) len(2) Cons by simp
    moreover have "join '','' (map print (x # xs)) @ CHR '']'' # rest = print x @ CHR '','' # ?tail"
      using Cons by simp
    ultimately show ?thesis using f ws by simp
  qed
qed

lemma upsert_new: "k \<notin> set (map fst acc) \<Longrightarrow> upsert k v acc = acc @ [(k, v)]"
  by (induction acc) auto

lemma parse_members_join:
  assumes "\<And>m f rest. m \<in> set ms \<Longrightarrow> length (print (snd m)) \<le> f \<Longrightarrow> stops rest \<Longrightarrow>
      parse_value f (print (snd m) @ rest) = Some (snd m, rest)"
    and "ms \<noteq> []" and "Suc (length (join '','' (map print_member ms))) \<le> f"
    and "distinct (map fst (acc @ ms))"
  shows "parse_members f acc (join '','' (map print_member ms) @ CHR ''}'' # rest) = Some (acc @ ms, rest)"
  using assms
proof (induction ms arbitrary: f acc)
  case Nil
  then show ?case by simp
next
  case (Cons m ms)
  obtain k v where m: "m = (k, v)" by (cases m)
  obtain g where f: "f = Suc g" using Cons.prems(3) by (cases f) auto
  have ws: "skip_ws (CHR ''}'' # r) = CHR ''}'' # r" "skip_ws (CHR '','' # r) = CHR '','' # r"
      "skip_ws (CHR '':'' # r) = CHR '':'' # r" "skip_ws (CHR 0x22 # r) = CHR 0x22 # r" for r
    by (simp_all add: skip_ws_def json_space_def)
  have st: "stops (CHR ''}'' # r)" "stops (CHR '','' # r)" for r
    by (simp_all add: stops_def is_digit_def)
  have up: "upsert k v acc = acc @ [(k, v)]"
    using Cons.prems(4) m by (intro upsert_new) auto
  have "length (print_member m) \<le> length (join '','' (map print_member (m # ms)))"
    by (rule length_join_ge) simp
  moreover have "length (print v) \<le> length (print_member m)"
    by (simp add: m print_member_def)
  ultimately have lenv: "length (print v) \<le> g" using Cons.prems(3) f by linarith
  have pk: "parse_str (concat (map quote_char k) @ CHR 0x22 # r) = Some (k, r)" for r
    by (rule parse_str_quote)
  show ?case
  proof (cases ms)
    case Nil
    have "parse_value g (print v @ CHR ''}'' # rest) = Some (v, CHR ''}'' # rest)"
      using Cons.prems(1) [of m] m lenv st by simp
    then show ?thesis using Nil f m ws up pk by (simp add: print_member_def json_quote_def)
  next
    case (Cons m' ms')
    let ?tail = "join '','' (map print_member ms) @ CHR ''}'' # rest"
    have "parse_value g (print v @ CHR '','' # ?tail) = Some (v, CHR '','' # ?tail)"
      using Cons.prems(1) [of m] m lenv st by simp
    moreover have "parse_members g (acc @ [(k, v)]) ?tail = Some ((acc @ [(k, v)]) @ ms, rest)"
      using Cons.IH [of g "acc @ [(k, v)]"] Cons.prems f m Cons by simp
    moreover have "join '','' (map print_member (m # ms)) @ CHR ''}'' # rest
        = CHR 0x22 # concat (map quote_char k) @ CHR 0x22 # CHR '':'' # print v @ CHR '','' # ?tail"
      using Cons m by (simp add: print_member_def json_quote_def)
    ultimately show ?thesis using f m ws up pk by simp
  qed
qed

lemma literal_None: "p \<noteq> [] \<Longrightarrow> c \<noteq> hd p \<Longrightarrow> literal p (c # t) = None"
  by (cases p) (auto simp: literal_def startsWith_def)

lemma parse_value_num:
  assumes "stops rest" shows "parse_value (Suc f) (int_str n @ rest) = Some (Num n, rest)"
proof -
  obtain c t where ct: "int_str n @ rest = c # t" and c: "c = CHR ''-'' \<or> is_digit c"
    using hd_nat_str [of "nat n"] by (cases "n < 0"; cases "nat_str (nat n)") (auto simp: int_str_def)
  have ne: "c \<noteq> CHR ''{''" "c \<noteq> CHR ''[''" "c \<noteq> CHR 0x22" "\<not> json_space c"
      "c \<noteq> CHR ''n''" "c \<noteq> CHR ''t''" "c \<noteq> CHR ''f''"
    using c by (auto simp: is_digit_def json_space_def)
  then have "skip_ws (c # t) = c # t" by (simp add: skip_ws_def)
  moreover have "literal ''null'' (c # t) = None" "literal ''true'' (c # t) = None"
      "literal ''false'' (c # t) = None"
    using ne by (auto intro!: literal_None)
  moreover have "parse_num (c # t) = Some (n, rest)"
    using parse_num_int_str [OF assms] ct by metis
  ultimately show ?thesis using ne by (simp add: ct)
qed


theorem parse_value_print:
  "wf_json j \<Longrightarrow> length (print j) \<le> f \<Longrightarrow> stops rest \<Longrightarrow> parse_value f (print j @ rest) = Some (j, rest)"
proof (induction j arbitrary: f rest)
  case Null
  then show ?case by (cases f) (simp_all add: skip_ws_def json_space_def literal_def startsWith_def)
next
  case (Bool b)
  then show ?case by (cases f; cases b) (auto simp: skip_ws_def json_space_def literal_def startsWith_def)
next
  case (Num n)
  then obtain g where "f = Suc g" using print_start [of "Num n"] by (cases f) auto
  with Num show ?case using parse_value_num [of rest g n] by (simp only: print.simps)
next
  case (Str s)
  then obtain g where "f = Suc g" by (cases f) (auto simp: json_quote_def)
  then show ?case
    using parse_str_quote [of s rest] by (simp add: json_quote_def skip_ws_def json_space_def)
next
  case (Arr xs)
  from Arr.prems(2) obtain g where f: "f = Suc g" by (cases f) auto
  have ws: "skip_ws (CHR ''['' # r) = CHR ''['' # r" "skip_ws (CHR '']'' # r) = CHR '']'' # r" for r
    by (simp_all add: skip_ws_def json_space_def)
  show ?case
  proof (cases "xs = []")
    case True
    then show ?thesis using f ws by simp
  next
    case False
    let ?body = "join '','' (map print xs) @ CHR '']'' # rest"
    have "parse_elems g ?body = Some (xs, rest)"
    proof (rule parse_elems_join)
      show "parse_value h (print x @ r) = Some (x, r)"
        if "x \<in> set xs" "length (print x) \<le> h" "stops r" for x h r
        using Arr.IH that Arr.prems(1) by (simp add: list_all_iff)
    qed (use False Arr.prems(2) f in auto)
    moreover obtain c t where "?body = c # t" "skip_ws ?body = c # t" "c \<noteq> CHR '']''"
      using join_start [of "map print xs" "'',''"] False print_start [of "hd xs"]
      by (auto simp: hd_map skip_ws_def)
    ultimately show ?thesis using f ws by simp
  qed
next
  case (Obj ms)
  from Obj.prems(2) obtain g where f: "f = Suc g" by (cases f) auto
  have ws: "skip_ws (CHR ''{'' # r) = CHR ''{'' # r" "skip_ws (CHR ''}'' # r) = CHR ''}'' # r" for r
    by (simp_all add: skip_ws_def json_space_def)
  show ?case
  proof (cases "ms = []")
    case True
    then show ?thesis using f ws by simp
  next
    case False
    let ?body = "join '','' (map print_member ms) @ CHR ''}'' # rest"
    have "parse_members g [] ?body = Some ([] @ ms, rest)"
    proof (rule parse_members_join)
      show "parse_value h (print (snd m) @ r) = Some (snd m, r)"
        if "m \<in> set ms" "length (print (snd m)) \<le> h" "stops r" for m h r
        using Obj.IH [of m "snd m"] that Obj.prems(1)
        by (cases m) (auto simp: list_all_iff)
    qed (use False Obj.prems f in \<open>auto simp only: print_Obj wf_json.simps append_Nil length_append list.size\<close>)
    moreover obtain t where "?body = CHR 0x22 # t" "skip_ws ?body = CHR 0x22 # t"
      using join_start [of "map print_member ms" "'',''"] False
      by (auto simp: hd_map skip_ws_def print_member_def json_quote_def json_space_def)
    ultimately show ?thesis using f ws by (simp only: print_Obj) simp
  qed
qed

theorem JSON_parse_print [js_roundtrip]: "wf_json j \<Longrightarrow> JSON_parse (print j) = Some j"
  using parse_value_print [of j "2 * length (print j) + 1" "[]"]
  by (simp add: JSON_parse_def stops_def skip_ws_def)


subsection \<open>What \<open>canonicalJSON\<close> computes\<close>

text \<open>
  \<open>json_of\<close> is the JSON image of a value (absent fields dropped, big integers as strings, keys in
  order), \<open>refs_of\<close> the objects met on the way, in the order the code meets them.
\<close>

lemma in_defined_members [simp]: "m \<in> set (defined_members ms) \<longleftrightarrow> m \<in> set ms \<and> snd m \<noteq> JUndefined"
  by (auto simp: defined_members_def)

lemma size_member: "m \<in> set ms \<Longrightarrow> size (snd m) < Suc (size_list (size_prod (\<lambda>_. 0) size) ms)"
  by (induction ms) (auto simp: prod.size_gen)

function json_of :: "jsval \<Rightarrow> json" where
  "json_of JUndefined = Null"
| "json_of JNull = Null"
| "json_of (JBool b) = Bool b"
| "json_of (JNumber n) = (case n of None \<Rightarrow> Null | Some i \<Rightarrow> Num i)"
| "json_of (JBigInt n) = Str (int_str n)"
| "json_of (JString s) = Str s"
| "json_of (JArray xs) = Arr (map json_of xs)"
| "json_of (JObject r ms) = Obj (map (\<lambda>m. (fst m, json_of (snd m))) (defined_members ms))"
  by pat_completeness auto
termination
  by (relation "measure size") (auto dest: size_member simp: less_Suc_eq_le elim: size_list_estimation')

function refs_of :: "jsval \<Rightarrow> nat list" where
  "refs_of JUndefined = []"
| "refs_of JNull = []"
| "refs_of (JBool b) = []"
| "refs_of (JNumber n) = []"
| "refs_of (JBigInt n) = []"
| "refs_of (JString s) = []"
| "refs_of (JArray xs) = concat (map refs_of xs)"
| "refs_of (JObject r ms) = r # concat (map (\<lambda>m. refs_of (snd m)) (defined_members ms))"
  by pat_completeness auto
termination
  by (relation "measure size") (auto dest: size_member simp: less_Suc_eq_le elim: size_list_estimation')

function wf_jsval :: "jsval \<Rightarrow> bool" where
  "wf_jsval JUndefined = True"
| "wf_jsval JNull = True"
| "wf_jsval (JBool b) = True"
| "wf_jsval (JNumber n) = True"
| "wf_jsval (JBigInt n) = True"
| "wf_jsval (JString s) = True"
| "wf_jsval (JArray xs) = (\<forall>x \<in> set xs. wf_jsval x)"
| "wf_jsval (JObject r ms) = (distinct (map fst ms) \<and> (\<forall>m \<in> set ms. wf_jsval (snd m)))"
  by pat_completeness auto
termination
  by (relation "measure size") (auto dest: size_member simp: less_Suc_eq_le elim: size_list_estimation')

lemma distinct_defined_members: "distinct (map fst ms) \<Longrightarrow> distinct (map fst (defined_members ms))"
proof -
  assume d: "distinct (map fst ms)"
  have "mset (map fst (defined_members ms)) = mset (map fst (filter (\<lambda>m. snd m \<noteq> JUndefined) ms))"
    by (simp add: defined_members_def)
  moreover have "distinct (map fst (filter (\<lambda>m. snd m \<noteq> JUndefined) ms))"
    using d by (simp add: distinct_map_filter)
  ultimately show ?thesis by (metis mset_eq_imp_distinct_iff)
qed

lemma wf_json_json_of: "wf_jsval v \<Longrightarrow> wf_json (json_of v)"
proof (induction v rule: json_of.induct)
  case (8 r ms)
  then show ?case by (auto simp: list_all_iff distinct_defined_members comp_def)
qed (auto simp: list_all_iff split: option.splits)

lemma stringify_json_of:
  "v \<noteq> JUndefined \<Longrightarrow> distinct (refs_of v @ seen) \<Longrightarrow>
     stringify seen v = Inr (print (json_of v), rev (refs_of v) @ seen)"
  "distinct (concat (map refs_of xs) @ seen) \<Longrightarrow>
     stringify_elems seen xs = Inr (map (print \<circ> json_of) xs, rev (concat (map refs_of xs)) @ seen)"
  "(\<forall>m \<in> set ms. snd m \<noteq> JUndefined) \<Longrightarrow> distinct (concat (map (refs_of \<circ> snd) ms) @ seen) \<Longrightarrow>
     stringify_members seen ms = Inr (map (\<lambda>m. print_member (fst m, json_of (snd m))) ms,
       rev (concat (map (refs_of \<circ> snd) ms)) @ seen)"
proof (induction seen v and seen xs and seen ms rule: stringify_stringify_elems_stringify_members.induct)
  case (7 seen xs)
  then show ?case by (simp add: comp_def)
next
  case (8 seen r ms)
  then show ?case by (auto simp: comp_def print_Obj simp del: print.simps(6))
next
  case (11 seen x xs)
  then show ?case by (auto simp: comp_def Int_Un_distrib Int_Un_distrib2 Int_commute)
next
  case (13 seen k v ms)
  then show ?case by (auto simp: comp_def print_member_def Int_Un_distrib Int_Un_distrib2 Int_commute)
qed auto

theorem canonicalJSON_json_of:
  "v \<noteq> JUndefined \<Longrightarrow> distinct (refs_of v) \<Longrightarrow> canonicalJSON v = Inr (print (json_of v))"
  by (simp add: canonicalJSON_def stringify_json_of(1))


text \<open>
  A success says more: every object was met once. So the code's check is exactly
  ``no reference is met twice'', and a value in which one object is merely shared, without any
  cycle, is refused as well.
\<close>

lemma stringify_success:
  "stringify seen v = Inr (s, seen') \<Longrightarrow> distinct seen \<Longrightarrow>
     v \<noteq> JUndefined \<and> seen' = rev (refs_of v) @ seen \<and> distinct seen'"
  "stringify_elems seen xs = Inr (ps, seen') \<Longrightarrow> distinct seen \<Longrightarrow>
     seen' = rev (concat (map refs_of xs)) @ seen \<and> distinct seen'"
  "stringify_members seen ms = Inr (ps, seen') \<Longrightarrow> distinct seen \<Longrightarrow>
     seen' = rev (concat (map (refs_of \<circ> snd) ms)) @ seen \<and> distinct seen'"
proof (induction seen v and seen xs and seen ms arbitrary: s seen' and ps seen' and ps seen'
    rule: stringify_stringify_elems_stringify_members.induct)
  case (7 seen xs)
  then show ?case by (auto split: sum.splits)
next
  case (8 seen r ms)
  then obtain ps where r: "r \<notin> set seen" and ms: "stringify_members (r # seen) (defined_members ms) = Inr (ps, seen')"
    by (auto split: sum.splits if_splits)
  have "distinct (r # seen)" using r "8.prems"(2) by simp
  from "8.IH" [OF r ms this]
  have eq: "seen' = rev (concat (map (refs_of \<circ> snd) (defined_members ms))) @ r # seen" and d: "distinct seen'"
    by blast+
  have "seen' = rev (refs_of (JObject r ms)) @ seen" by (simp add: eq comp_def)
  with d show ?case by blast
next
  case (11 seen x xs)
  then obtain p seen1 qs where x: "(if x = JUndefined then Inr (''null'', seen) else stringify seen x) = Inr (p, seen1)"
    and xs: "stringify_elems seen1 xs = Inr (qs, seen')"
    by (auto split: sum.splits prod.splits)
  have s1: "seen1 = rev (refs_of x) @ seen" and d1: "distinct seen1"
    using "11.IH"(1) [of p seen1] x "11.prems"(2) by (auto split: if_splits)
  from "11.IH"(2) [OF x refl xs d1]
  have eq: "seen' = rev (concat (map refs_of xs)) @ seen1" and d: "distinct seen'" by blast+
  have "seen' = rev (concat (map refs_of (x # xs))) @ seen" by (simp add: eq s1)
  with d show ?case by blast
next
  case (13 seen k v ms)
  then obtain p seen1 qs where v: "stringify seen v = Inr (p, seen1)"
    and ms: "stringify_members seen1 ms = Inr (qs, seen')"
    by (auto split: sum.splits prod.splits)
  have s1: "seen1 = rev (refs_of v) @ seen" and d1: "distinct seen1"
    using "13.IH"(1) [OF v "13.prems"(2)] by blast+
  from "13.IH"(2) [OF v refl ms d1]
  have eq: "seen' = rev (concat (map (refs_of \<circ> snd) ms)) @ seen1" and d: "distinct seen'" by blast+
  have "seen' = rev (concat (map (refs_of \<circ> snd) ((k, v) # ms))) @ seen" by (simp add: eq s1)
  with d show ?case by blast
qed auto

theorem canonicalJSON_iff:
  "canonicalJSON v = Inr s \<longleftrightarrow> v \<noteq> JUndefined \<and> distinct (refs_of v) \<and> s = print (json_of v)"
proof
  assume eq: "canonicalJSON v = Inr s"
  then obtain seen' where "stringify [] v = Inr (s, seen')"
    by (auto simp: canonicalJSON_def split: sum.splits)
  from stringify_success(1) [OF this]
  have ok: "v \<noteq> JUndefined" "distinct (refs_of v)" by auto
  with eq show "v \<noteq> JUndefined \<and> distinct (refs_of v) \<and> s = print (json_of v)"
    by (simp add: canonicalJSON_json_of)
qed (simp add: canonicalJSON_json_of)

theorem JSON_parse_canonicalJSON [js_roundtrip]:
  "wf_jsval v \<Longrightarrow> canonicalJSON v = Inr s \<Longrightarrow> JSON_parse s = Some (json_of v)"
  by (auto simp: canonicalJSON_iff intro: JSON_parse_print wf_json_json_of)

subsection \<open>The parser's fuel is enough\<close>

text \<open>
  A value inside an array is read at the same position as the array's element list, so a level
  of nesting costs two units of fuel and at least one character: \<open>2 * length s + 1\<close> units never
  run out, and more fuel gives the same answer.
\<close>

lemma length_skip_ws [simp]: "length (skip_ws s) \<le> length s"
  by (simp add: skip_ws_def length_dropWhile_le)

lemma skip_ws_Cons_le: "skip_ws s = c # t \<Longrightarrow> length t < length s"
  using length_skip_ws [of s] by simp

lemma parse_str_Some_cases:
  assumes "parse_str s = Some (x, t)"
  shows "(\<exists>c. s = c # t) \<or> (\<exists>r y. parse_str r = Some (y, t) \<and> length r < length s)"
  using assms
  by (subst (asm) parse_str.simps) (auto split: list.splits if_splits option.splits dest: parse_u_shorter intro: less_SucI)


lemma parse_str_shorter: "parse_str s = Some (x, t) \<Longrightarrow> length t < length s"
proof (induction "length s" arbitrary: s x rule: less_induct)
  case less
  from parse_str_Some_cases [OF less.prems] show ?case
    using less.hyps by (auto dest: less_trans)
qed

lemma parse_num_shorter: "parse_num s = Some (n, t) \<Longrightarrow> length t < length s"
  by (cases s) (auto simp: parse_num_def Let_def split: if_splits)

lemma literal_shorter: "p \<noteq> [] \<Longrightarrow> literal p s = Some t \<Longrightarrow> length t < length s"
  by (cases s; cases p) (auto simp: literal_def startsWith_def split: if_splits)

lemma parse_value_Suc_cases:
  assumes "parse_value (Suc f) s = Some (v, t)"
  obtains c u where "skip_ws s = c # u"
    and "length t < length (c # u) \<or> (\<exists>ms. parse_members f [] u = Some (ms, t)) \<or> (\<exists>vs. parse_elems f u = Some (vs, t))"
proof -
  from assms obtain c u where cu: "skip_ws s = c # u" by (cases "skip_ws s") auto
  have "length t < length (c # u) \<or> (\<exists>ms. parse_members f [] u = Some (ms, t)) \<or> (\<exists>vs. parse_elems f u = Some (vs, t))"
    using assms cu
    by (auto split: list.splits if_splits option.splits
        dest: skip_ws_Cons_le parse_str_shorter parse_num_shorter literal_shorter [rotated])
  with cu that show thesis by blast
qed

lemma parse_elems_Suc_cases:
  assumes "parse_elems (Suc f) s = Some (vs, t)"
  obtains v u d u' where "parse_value f s = Some (v, u)" and "skip_ws u = d # u'"
    and "t = u' \<or> (\<exists>vs. parse_elems f u' = Some (vs, t))"
  using assms by (auto split: list.splits if_splits option.splits)

lemma parse_members_Suc_cases:
  assumes "parse_members (Suc f) acc s = Some (ms, t)"
  obtains q u k u1 d u2 v u3 e u4 where "skip_ws s = q # u" and "parse_str u = Some (k, u1)"
    and "skip_ws u1 = d # u2" and "parse_value f u2 = Some (v, u3)" and "skip_ws u3 = e # u4"
    and "t = u4 \<or> (\<exists>ms. parse_members f (upsert k v acc) u4 = Some (ms, t))"
  using assms by (auto split: list.splits if_splits option.splits)

lemma parse_shorter:
  "(\<forall>s v t. parse_value f s = Some (v, t) \<longrightarrow> length t < length s) \<and>
   (\<forall>s vs t. parse_elems f s = Some (vs, t) \<longrightarrow> length t < length s) \<and>
   (\<forall>acc s ms t. parse_members f acc s = Some (ms, t) \<longrightarrow> length t < length s)"
proof (induction f)
  case 0
  then show ?case by simp
next
  case (Suc f)
  show ?case
  proof (intro conjI allI impI)
    fix s v t assume "parse_value (Suc f) s = Some (v, t)"
    then show "length t < length s"
      by (rule parse_value_Suc_cases) (use Suc.IH in \<open>fastforce dest: skip_ws_Cons_le\<close>)
  next
    fix s vs t assume "parse_elems (Suc f) s = Some (vs, t)"
    then show "length t < length s"
      by (rule parse_elems_Suc_cases) (use Suc.IH in \<open>fastforce dest: skip_ws_Cons_le\<close>)
  next
    fix acc s ms t assume "parse_members (Suc f) acc s = Some (ms, t)"
    then show "length t < length s"
      by (rule parse_members_Suc_cases)
        (use Suc.IH in \<open>fastforce dest: skip_ws_Cons_le parse_str_shorter\<close>)
  qed
qed


lemmas parse_value_shorter = parse_shorter [THEN conjunct1, rule_format]

lemma parse_fuel:
  "(\<forall>s. 2 * length s + 1 \<le> f \<longrightarrow> parse_value (Suc f) s = parse_value f s) \<and>
   (\<forall>s. 2 * length s + 2 \<le> f \<longrightarrow> parse_elems (Suc f) s = parse_elems f s) \<and>
   (\<forall>acc s. 2 * length s + 2 \<le> f \<longrightarrow> parse_members (Suc f) acc s = parse_members f acc s)"
proof (induction f)
  case 0
  then show ?case by simp
next
  case (Suc f)
  note IHv = Suc.IH [THEN conjunct1, rule_format]
    and IHe = Suc.IH [THEN conjunct2, THEN conjunct1, rule_format]
    and IHm = Suc.IH [THEN conjunct2, THEN conjunct2, rule_format]
  have v: "parse_value (Suc (Suc f)) s = parse_value (Suc f) s" if "2 * length s + 1 \<le> Suc f" for s
  proof -
    have "parse_elems (Suc f) u = parse_elems f u \<and> parse_members (Suc f) acc u = parse_members f acc u"
      if "skip_ws s = c # u" for c u acc
      using skip_ws_Cons_le [OF that] \<open>2 * length s + 1 \<le> Suc f\<close> by (intro conjI IHe IHm) linarith+
    then show ?thesis
      by (simp only: parse_value.simps) (simp del: parse_elems.simps parse_members.simps parse_value.simps split: list.split)
  qed
  have e: "parse_elems (Suc (Suc f)) s = parse_elems (Suc f) s" if "2 * length s + 2 \<le> Suc f" for s
  proof -
    have "parse_value (Suc f) s = parse_value f s" using that by (intro IHv) linarith
    moreover have "parse_elems (Suc f) u' = parse_elems f u'"
      if "parse_value f s = Some (x, u)" "skip_ws u = d # u'" for x u d u'
      using skip_ws_Cons_le [OF that(2)] parse_value_shorter [OF that(1)] \<open>2 * length s + 2 \<le> Suc f\<close>
      by (intro IHe) linarith
    ultimately show ?thesis
      by (simp only: parse_elems.simps) (simp del: parse_elems.simps parse_members.simps parse_value.simps split: list.split option.split)
  qed
  have m: "parse_members (Suc (Suc f)) acc s = parse_members (Suc f) acc s" if "2 * length s + 2 \<le> Suc f" for acc s
  proof -
    have "parse_value (Suc f) u2 = parse_value f u2"
      if "skip_ws s = q # u" "parse_str u = Some (k, u1)" "skip_ws u1 = d # u2" for q u k u1 d u2
      using that \<open>2 * length s + 2 \<le> Suc f\<close>
      by (intro IHv) (fastforce dest!: skip_ws_Cons_le parse_str_shorter)
    moreover have "parse_members (Suc f) a u4 = parse_members f a u4"
      if "skip_ws s = q # u" "parse_str u = Some (k, u1)" "skip_ws u1 = d # u2"
        "parse_value f u2 = Some (x, u3)" "skip_ws u3 = b # u4" for q u k u1 d u2 x u3 b u4 a
      using that \<open>2 * length s + 2 \<le> Suc f\<close>
      by (intro IHm) (fastforce dest!: skip_ws_Cons_le parse_str_shorter parse_value_shorter)
    ultimately show ?thesis
      by (simp only: parse_members.simps) (simp del: parse_elems.simps parse_members.simps parse_value.simps split: list.split option.split)
  qed
  from v e m show ?case by blast
qed

theorem parse_value_enough_fuel:
  "parse_value (2 * length s + 1 + k) s = parse_value (2 * length s + 1) s"
proof (induction k)
  case (Suc k)
  have "parse_value (Suc (2 * length s + 1 + k)) s = parse_value (2 * length s + 1 + k) s"
    by (rule parse_fuel [THEN conjunct1, rule_format]) simp
  with Suc show ?case by simp
qed simp


end
