(* ===== verification/DelegationTypes.thy ===== *)
theory DelegationTypes
  imports Prelude
begin

section \<open>Delegations, their EIP-712 hash, and the cryptographic libraries\<close>

text \<open>
  \<open>packages/delegation/src/types.ts\<close> and \<open>hash.ts\<close>: the delegation and caveat records, the
  verdict and context of caveat evaluation, and the message whose EIP-712 digest an account signs.
  The libraries the package calls (\<open>viem\<close>'s ABI codec and typed-data hash, the keccak of
  \<open>@noble/hashes\<close>) are the fields of a record that every definition using them takes as argument.
\<close>

subsection \<open>Records of \<open>types.ts\<close>\<close>

definition ROOT_AUTHORITY :: hex where
  "ROOT_AUTHORITY = ''0x'' @ replicate 64 (CHR ''f'')"

record caveat =
  enforcer :: address
  terms :: hex
  args :: "hex option"

text \<open>A salt is a big integer, or the decimal string that canonical JSON carried.\<close>

datatype salt = SaltBig int | SaltStr string

record delegation =
  delegator :: address
  delegate :: address
  authority :: hex
  caveats :: "caveat list"
  salt_of :: salt
  signature :: hex

record data_scope_grant =
  g_server :: string
  g_resources :: "string list"
  g_fields :: "string list"

record enforcer_map =
  em_delegationManager :: address
  em_timestamp :: address
  em_value :: address
  em_allowedTargets :: address
  em_allowedMethods :: address
  em_taskBinding :: "address option"
  em_callDataHash :: "address option"
  em_recovery :: "address option"
  em_rateLimit :: "address option"
  em_payment :: "address option"

record caveat_context =
  cx_timestamp :: int
  cx_mcpTool :: "string option"
  cx_target :: "address option"
  cx_selector :: "hex option"
  cx_value :: "int option"

record verdict =
  v_enforcer :: address
  v_allowed :: bool
  v_reason :: "string option"

subsection \<open>Libraries\<close>

datatype abi_type =
    TUint256 | TUint32 | TUint8 | TAddress | TBytes32 | TBytes4 | TBytes | TString
  | TArray abi_type | TTuple "abi_type list"

datatype abi_val = AInt int | AHex hex | AText string | AList "abi_val list" | ATup "abi_val list"

record eip712_domain =
  dom_name :: string
  dom_version :: string
  dom_chainId :: int
  dom_verifyingContract :: address

record delegation_message =
  msg_delegator :: address
  msg_delegate :: address
  msg_authority :: hex
  msg_caveats :: "(address \<times> hex) list"
  msg_salt :: salt

type_synonym eip712_types = "(string \<times> (string \<times> string) list) list"

text \<open>A failed decoding carries the text of the error that was thrown.\<close>

record crypto_lib =
  encodeAbiParameters :: "abi_type list \<Rightarrow> abi_val list \<Rightarrow> hex js"
  decodeAbiParameters :: "abi_type list \<Rightarrow> hex \<Rightarrow> string + abi_val list"
  keccak256 :: "hex \<Rightarrow> hex"
  keccak_256 :: "bytes \<Rightarrow> bytes"
  hashTypedData :: "eip712_domain \<Rightarrow> eip712_types \<Rightarrow> string \<Rightarrow> delegation_message \<Rightarrow> hex js"

subsection \<open>\<open>hash.ts\<close>\<close>

definition DELEGATION_EIP712_TYPES :: eip712_types where
  "DELEGATION_EIP712_TYPES =
     [(''Delegation'', [(''delegator'', ''address''), (''delegate'', ''address''), (''authority'', ''bytes32''),
                       (''caveats'', ''Caveat[]''), (''salt'', ''uint256'')]),
      (''Caveat'', [(''enforcer'', ''address''), (''terms'', ''bytes'')])]"

definition delegationDomain :: "int \<Rightarrow> address \<Rightarrow> eip712_domain" where
  "delegationDomain chainId delegationManager =
     \<lparr>dom_name = ''AgentDelegationManager'', dom_version = ''1'', dom_chainId = chainId,
      dom_verifyingContract = delegationManager\<rparr>"

definition caveatMessage :: "caveat \<Rightarrow> address \<times> hex" where
  "caveatMessage c = (enforcer c, terms c)"

definition delegation_msg :: "delegation \<Rightarrow> delegation_message" where
  "delegation_msg d =
     \<lparr>msg_delegator = delegator d, msg_delegate = delegate d, msg_authority = authority d,
      msg_caveats = map caveatMessage (caveats d), msg_salt = salt_of d\<rparr>"

definition hashDelegation :: "crypto_lib \<Rightarrow> delegation \<Rightarrow> int \<Rightarrow> address \<Rightarrow> hex js" where
  "hashDelegation lib d chainId delegationManager =
     hashTypedData lib (delegationDomain chainId delegationManager) DELEGATION_EIP712_TYPES
       ''Delegation'' (delegation_msg d)"

definition hashCaveats :: "crypto_lib \<Rightarrow> caveat list \<Rightarrow> hex js" where
  "hashCaveats lib cs =
     js_bind (encodeAbiParameters lib [TArray (TTuple [TAddress, TBytes])]
       [AList (map (\<lambda>c. case caveatMessage c of (e, t) \<Rightarrow> ATup [AHex e, AHex t]) cs)])
     (\<lambda>encoded. Inr (keccak256 lib encoded))"

subsection \<open>What the hash binds\<close>

text \<open>Two delegations that agree on everything but the caveats' run-time arguments and the signature.\<close>

definition same_signed :: "delegation \<Rightarrow> delegation \<Rightarrow> bool" where
  "same_signed d d' \<longleftrightarrow>
     delegator d = delegator d' \<and> delegate d = delegate d' \<and> authority d = authority d' \<and>
     salt_of d = salt_of d' \<and>
     list_all2 (\<lambda>c c'. enforcer c = enforcer c' \<and> terms c = terms c') (caveats d) (caveats d')"

lemma map_caveatMessage_eq:
  "map caveatMessage cs = map caveatMessage cs' \<longleftrightarrow>
   list_all2 (\<lambda>c c'. enforcer c = enforcer c' \<and> terms c = terms c') cs cs'"
proof (induction cs arbitrary: cs')
  case Nil
  then show ?case by auto
next
  case (Cons c cs)
  then show ?case by (cases cs') (auto simp: caveatMessage_def)
qed

lemma delegation_msg_eq: "delegation_msg d = delegation_msg d' \<longleftrightarrow> same_signed d d'"
  by (auto simp: delegation_msg_def same_signed_def map_caveatMessage_eq)

lemma hashDelegation_cong: "same_signed d d' \<Longrightarrow> hashDelegation lib d n m = hashDelegation lib d' n m"
  by (simp add: hashDelegation_def delegation_msg_eq [symmetric])

text \<open>
  With an injective typed-data hash the digest determines chain, manager and every signed field,
  and nothing else: caveat arguments and the signature can change without changing it.
\<close>

lemma hashDelegation_binds:
  assumes "\<And>dm ts p m dm' m' h. hashTypedData lib dm ts p m = Inr h \<Longrightarrow> hashTypedData lib dm' ts p m' = Inr h
     \<Longrightarrow> dm = dm' \<and> m = m'"
    and "hashDelegation lib d n mgr = Inr h"
  shows "hashDelegation lib d' n' mgr' = Inr h \<longleftrightarrow> n' = n \<and> mgr' = mgr \<and> same_signed d' d"
proof
  assume "hashDelegation lib d' n' mgr' = Inr h"
  with assms have "delegationDomain n' mgr' = delegationDomain n mgr \<and> delegation_msg d' = delegation_msg d"
    unfolding hashDelegation_def by blast
  then show "n' = n \<and> mgr' = mgr \<and> same_signed d' d"
    by (auto simp: delegationDomain_def delegation_msg_eq)
next
  assume "n' = n \<and> mgr' = mgr \<and> same_signed d' d"
  then show "hashDelegation lib d' n' mgr' = Inr h" using assms(2) hashDelegation_cong by metis
qed

end
