(* ===== verification/Caveats.thy ===== *)
theory Caveats
  imports DelegationTypes
begin

section \<open>Caveat builders\<close>

text \<open>
  \<open>packages/delegation/src/caveats.ts\<close> and \<open>session-delegation.ts\<close>: the encoders of enforcer
  terms with their guards, the off-chain sentinels, the quorum and payment caveats, and the leaf
  delegation that binds a session key to its principal. Every \<open>throw\<close> is an \<open>Inl\<close>.
\<close>

definition sentinelAddress :: "crypto_lib \<Rightarrow> string \<Rightarrow> address" where
  "sentinelAddress lib urn = ''0x'' @ bytes_hex (take 20 (keccak_256 lib (TextEncoder urn)))"

definition MCP_TOOL_SCOPE_ENFORCER :: "crypto_lib \<Rightarrow> address" where
  "MCP_TOOL_SCOPE_ENFORCER lib = sentinelAddress lib ''urn:smart-agent:mcp-tool-scope''"

definition DATA_SCOPE_ENFORCER :: "crypto_lib \<Rightarrow> address" where
  "DATA_SCOPE_ENFORCER lib = sentinelAddress lib ''urn:smart-agent:data-scope''"

definition DELEGATE_BINDING_ENFORCER :: "crypto_lib \<Rightarrow> address" where
  "DELEGATE_BINDING_ENFORCER lib = sentinelAddress lib ''urn:smart-agent:delegate-binding''"

definition buildCaveat :: "address \<Rightarrow> hex \<Rightarrow> hex option \<Rightarrow> caveat" where
  "buildCaveat e t a = \<lparr>enforcer = e, terms = t, args = Some (case a of None \<Rightarrow> ''0x'' | Some x \<Rightarrow> x)\<rparr>"

definition encodeTimestampTerms :: "crypto_lib \<Rightarrow> number \<Rightarrow> number \<Rightarrow> hex js" where
  "encodeTimestampTerms lib validAfter validUntil =
     (case validAfter of
        NonInteger \<Rightarrow> Inl (Error ''encodeTimestampTerms: validAfter must be a non-negative integer'')
      | Whole a \<Rightarrow>
          if a < 0 then Inl (Error ''encodeTimestampTerms: validAfter must be a non-negative integer'')
          else (case validUntil of
                  NonInteger \<Rightarrow> Inl (Error ''encodeTimestampTerms: validUntil must be > validAfter'')
                | Whole u \<Rightarrow>
                    if u \<le> a then Inl (Error ''encodeTimestampTerms: validUntil must be > validAfter'')
                    else encodeAbiParameters lib [TUint256, TUint256] [AInt a, AInt u]))"

definition encodeValueTerms :: "crypto_lib \<Rightarrow> int \<Rightarrow> hex js" where
  "encodeValueTerms lib maxValue =
     (if maxValue < 0 then Inl (Error ''encodeValueTerms: maxValue must be non-negative'')
      else encodeAbiParameters lib [TUint256] [AInt maxValue])"

definition encodeAllowedTargetsTerms :: "crypto_lib \<Rightarrow> address list \<Rightarrow> hex js" where
  "encodeAllowedTargetsTerms lib targets =
     (if targets = [] then Inl (Error ''encodeAllowedTargetsTerms: at least one target required'')
      else encodeAbiParameters lib [TArray TAddress] [AList (map AHex targets)])"

definition hex_chars :: "string \<Rightarrow> bool" where
  "hex_chars s = list_all (\<lambda>c. hex_val c \<noteq> None) s"

definition is_selector :: "hex \<Rightarrow> bool" where
  "is_selector s \<longleftrightarrow> startsWith s ''0x'' \<and> length s = 10 \<and> hex_chars (drop 2 s)"

definition encodeAllowedMethodsTerms :: "crypto_lib \<Rightarrow> hex list \<Rightarrow> hex js" where
  "encodeAllowedMethodsTerms lib selectors =
     (if selectors = [] then Inl (Error ''encodeAllowedMethodsTerms: at least one selector required'')
      else (case find (\<lambda>s. \<not> is_selector s) selectors of
              Some s \<Rightarrow> Inl (Error (''encodeAllowedMethodsTerms: selector \"'' @ s @ ''\" must be 4 bytes (0x + 8 hex chars)''))
            | None \<Rightarrow> encodeAbiParameters lib [TArray TBytes4] [AList (map AHex selectors)]))"

definition encodeCallDataHashTerms :: "crypto_lib \<Rightarrow> hex \<Rightarrow> hex js" where
  "encodeCallDataHashTerms lib callData =
     (if \<not> (startsWith callData ''0x'' \<and> even (length callData) \<and> hex_chars (drop 2 callData))
      then Inl (Error ''encodeCallDataHashTerms: callData must be 0x-prefixed even-length hex'')
      else encodeAbiParameters lib [TBytes32] [AHex (keccak256 lib callData)])"

definition sentinel_caveat :: "address \<Rightarrow> hex js \<Rightarrow> caveat js" where
  "sentinel_caveat e t = js_bind t (\<lambda>tm. Inr \<lparr>enforcer = e, terms = tm, args = Some ''0x''\<rparr>)"

definition buildMcpToolScopeCaveat :: "crypto_lib \<Rightarrow> string list \<Rightarrow> caveat js" where
  "buildMcpToolScopeCaveat lib allowedTools =
     (if allowedTools = [] then Inl (Error ''buildMcpToolScopeCaveat: at least one tool required'')
      else sentinel_caveat (MCP_TOOL_SCOPE_ENFORCER lib)
             (encodeAbiParameters lib [TArray TString] [AList (map AText allowedTools)]))"

definition grant_val :: "data_scope_grant \<Rightarrow> abi_val" where
  "grant_val g = ATup [AText (g_server g), AList (map AText (g_resources g)), AList (map AText (g_fields g))]"

definition buildDataScopeCaveat :: "crypto_lib \<Rightarrow> data_scope_grant list \<Rightarrow> caveat js" where
  "buildDataScopeCaveat lib grants =
     (if grants = [] then Inl (Error ''buildDataScopeCaveat: at least one grant required'')
      else sentinel_caveat (DATA_SCOPE_ENFORCER lib)
             (encodeAbiParameters lib [TArray (TTuple [TString, TArray TString, TArray TString])]
                [AList (map grant_val grants)]))"

definition buildDelegateBindingCaveat :: "crypto_lib \<Rightarrow> address \<Rightarrow> address \<Rightarrow> caveat js" where
  "buildDelegateBindingCaveat lib delegateSmartAccount delegatePersonAgent =
     sentinel_caveat (DELEGATE_BINDING_ENFORCER lib)
       (encodeAbiParameters lib [TAddress, TAddress] [AHex delegateSmartAccount, AHex delegatePersonAgent])"

subsection \<open>Quorum caveat\<close>

record quorum_opts =
  q_enforcer :: address
  q_signers :: "address list"
  q_threshold :: number
  q_approvedHashRegistry :: address

definition buildQuorumCaveat :: "crypto_lib \<Rightarrow> quorum_opts \<Rightarrow> caveat js" where
  "buildQuorumCaveat lib opts =
     (if q_signers opts = [] then Inl (Error ''buildQuorumCaveat: signers must be a non-empty array'')
      else (case q_threshold opts of
              NonInteger \<Rightarrow> Inl (Error (''buildQuorumCaveat: threshold must be an integer '' @ ge_sign @ '' 1''))
            | Whole t \<Rightarrow>
                if t < 1 then Inl (Error (''buildQuorumCaveat: threshold must be an integer '' @ ge_sign @ '' 1''))
                else if t > int (length (q_signers opts)) then
                  Inl (Error (''buildQuorumCaveat: threshold ('' @ int_str t @ '') exceeds signer set size ('' @
                              nat_str (length (q_signers opts)) @ '')''))
                else if t > 255 then Inl (Error ''buildQuorumCaveat: threshold exceeds uint8 bound (255)'')
                else sentinel_caveat (q_enforcer opts)
                       (encodeAbiParameters lib [TArray TAddress, TUint8, TAddress]
                          [AList (map AHex (q_signers opts)), AInt t, AHex (q_approvedHashRegistry opts)])))"

subsection \<open>Payment mandate\<close>

definition PAYMENT_TRANSFER_SELECTOR :: hex where
  "PAYMENT_TRANSFER_SELECTOR = ''0xa9059cbb''"

record payment_mandate_opts =
  pm_payment :: address
  pm_timestamp :: address
  pm_allowedTargets :: address
  pm_allowedMethods :: address
  pm_payee :: address
  pm_asset :: address
  pm_maxAmountPerCharge :: int
  pm_maxAggregate :: int
  pm_maxRedemptionsPerWindow :: number
  pm_windowSeconds :: number
  pm_validAfter :: "number option"
  pm_validUntil :: number

definition encodePaymentTerms :: "crypto_lib \<Rightarrow> payment_mandate_opts \<Rightarrow> hex js" where
  "encodePaymentTerms lib opts =
     (if pm_maxAmountPerCharge opts \<le> 0 then Inl (Error ''encodePaymentTerms: maxAmountPerCharge must be > 0'')
      else if pm_maxAggregate opts < pm_maxAmountPerCharge opts
        then Inl (Error ''encodePaymentTerms: maxAggregate must be >= maxAmountPerCharge'')
      else (case pm_maxRedemptionsPerWindow opts of
              NonInteger \<Rightarrow> Inl (Error ''encodePaymentTerms: maxRedemptionsPerWindow must be a positive integer'')
            | Whole n \<Rightarrow>
                if n \<le> 0 then Inl (Error ''encodePaymentTerms: maxRedemptionsPerWindow must be a positive integer'')
                else (case pm_windowSeconds opts of
                        NonInteger \<Rightarrow> Inl (Error ''encodePaymentTerms: windowSeconds must be a positive integer'')
                      | Whole w \<Rightarrow>
                          if w \<le> 0 then Inl (Error ''encodePaymentTerms: windowSeconds must be a positive integer'')
                          else encodeAbiParameters lib [TAddress, TAddress, TUint256, TUint256, TUint32, TUint32]
                                 [AHex (pm_payee opts), AHex (pm_asset opts), AInt (pm_maxAmountPerCharge opts),
                                  AInt (pm_maxAggregate opts), AInt n, AInt w])))"

definition buildPaymentMandateCaveats :: "crypto_lib \<Rightarrow> payment_mandate_opts \<Rightarrow> caveat list js" where
  "buildPaymentMandateCaveats lib opts =
     js_bind (encodePaymentTerms lib opts) (\<lambda>pay.
     js_bind (encodeTimestampTerms lib (case pm_validAfter opts of None \<Rightarrow> Whole 0 | Some a \<Rightarrow> a) (pm_validUntil opts)) (\<lambda>ts.
     js_bind (encodeAllowedTargetsTerms lib [pm_asset opts]) (\<lambda>tg.
     js_bind (encodeAllowedMethodsTerms lib [PAYMENT_TRANSFER_SELECTOR]) (\<lambda>me.
       Inr [buildCaveat (pm_payment opts) pay None, buildCaveat (pm_timestamp opts) ts None,
            buildCaveat (pm_allowedTargets opts) tg None, buildCaveat (pm_allowedMethods opts) me None]))))"

record payment_consent =
  pc_recipient :: address
  pc_asset :: address
  pc_maxAmountPerCharge :: int
  pc_sessionBudget :: int
  pc_maxRedemptionsPerWindow :: number
  pc_windowSeconds :: number
  pc_expiresAt :: number
  pc_revocable :: bool

definition describePaymentMandate :: "payment_mandate_opts \<Rightarrow> payment_consent" where
  "describePaymentMandate opts =
     \<lparr>pc_recipient = pm_payee opts, pc_asset = pm_asset opts,
      pc_maxAmountPerCharge = pm_maxAmountPerCharge opts, pc_sessionBudget = pm_maxAggregate opts,
      pc_maxRedemptionsPerWindow = pm_maxRedemptionsPerWindow opts, pc_windowSeconds = pm_windowSeconds opts,
      pc_expiresAt = pm_validUntil opts, pc_revocable = True\<rparr>"

subsection \<open>The session leaf\<close>

text \<open>\<open>randomSalt\<close> folds the random bytes, which are an argument, into one big integer.\<close>

definition randomSalt :: "bytes \<Rightarrow> int" where
  "randomSalt bs = foldl (\<lambda>s x. 256 * s + int (unat x)) 0 bs"

record session_delegation_params =
  sp_delegator :: address
  sp_sessionKeyAddress :: address
  sp_validUntil :: number
  sp_timestamp :: address
  sp_value :: address
  sp_chainId :: int
  sp_delegationManager :: address
  sp_salt :: "int option"

definition buildSessionDelegation ::
    "crypto_lib \<Rightarrow> bytes \<Rightarrow> session_delegation_params \<Rightarrow> (delegation \<times> hex) js" where
  "buildSessionDelegation lib rnd p =
     js_bind (encodeTimestampTerms lib (Whole 0) (sp_validUntil p)) (\<lambda>ts.
     js_bind (encodeValueTerms lib 0) (\<lambda>vt.
       (let leaf = \<lparr>delegator = sp_delegator p, delegate = sp_sessionKeyAddress p, authority = ROOT_AUTHORITY,
                    caveats = [buildCaveat (sp_timestamp p) ts None, buildCaveat (sp_value p) vt None],
                    salt_of = SaltBig (case sp_salt p of None \<Rightarrow> randomSalt rnd | Some s \<Rightarrow> s),
                    signature = ''0x''\<rparr>
        in js_bind (hashDelegation lib leaf (sp_chainId p) (sp_delegationManager p)) (\<lambda>digest.
             Inr (leaf, digest)))))"

subsection \<open>What the guards promise\<close>

lemma encodeTimestampTerms_Inr [simp]:
  "encodeTimestampTerms lib va vu = Inr t \<longleftrightarrow>
   (\<exists>a u. va = Whole a \<and> vu = Whole u \<and> 0 \<le> a \<and> a < u \<and>
          encodeAbiParameters lib [TUint256, TUint256] [AInt a, AInt u] = Inr t)"
  by (auto simp: encodeTimestampTerms_def split: number.splits)

lemma sentinel_caveat_Inr [simp]:
  "sentinel_caveat e t = Inr c \<longleftrightarrow> (\<exists>tm. t = Inr tm \<and> c = \<lparr>enforcer = e, terms = tm, args = Some ''0x''\<rparr>)"
  by (cases t) (auto simp: sentinel_caveat_def)

lemma buildQuorumCaveat_Inr:
  "buildQuorumCaveat lib opts = Inr c \<longleftrightarrow>
   (\<exists>t tm. q_threshold opts = Whole t \<and> 1 \<le> t \<and> t \<le> int (length (q_signers opts)) \<and> t \<le> 255 \<and>
      encodeAbiParameters lib [TArray TAddress, TUint8, TAddress]
        [AList (map AHex (q_signers opts)), AInt t, AHex (q_approvedHashRegistry opts)] = Inr tm \<and>
      c = \<lparr>enforcer = q_enforcer opts, terms = tm, args = Some ''0x''\<rparr>)"
  by (auto simp: buildQuorumCaveat_def split: number.splits)

lemma encodePaymentTerms_Inr:
  "encodePaymentTerms lib opts = Inr t \<longleftrightarrow>
   (\<exists>n w. pm_maxRedemptionsPerWindow opts = Whole n \<and> pm_windowSeconds opts = Whole w \<and> 0 < n \<and> 0 < w \<and>
      0 < pm_maxAmountPerCharge opts \<and> pm_maxAmountPerCharge opts \<le> pm_maxAggregate opts \<and>
      encodeAbiParameters lib [TAddress, TAddress, TUint256, TUint256, TUint32, TUint32]
        [AHex (pm_payee opts), AHex (pm_asset opts), AInt (pm_maxAmountPerCharge opts),
         AInt (pm_maxAggregate opts), AInt n, AInt w] = Inr t)"
  by (auto simp: encodePaymentTerms_def split: number.splits)

lemma encodeAllowedTargetsTerms_Inr [simp]:
  "encodeAllowedTargetsTerms lib ts = Inr t \<longleftrightarrow>
   ts \<noteq> [] \<and> encodeAbiParameters lib [TArray TAddress] [AList (map AHex ts)] = Inr t"
  by (simp add: encodeAllowedTargetsTerms_def)

lemma encodeAllowedMethodsTerms_Inr [simp]:
  "encodeAllowedMethodsTerms lib ss = Inr t \<longleftrightarrow>
   ss \<noteq> [] \<and> (\<forall>s \<in> set ss. is_selector s) \<and> encodeAbiParameters lib [TArray TBytes4] [AList (map AHex ss)] = Inr t"
  by (auto simp: encodeAllowedMethodsTerms_def find_None_iff find_Some_iff split: option.splits)

lemma randomSalt_bound: "0 \<le> randomSalt bs \<and> randomSalt bs < 256 ^ length bs"
proof (induction bs rule: rev_induct)
  case Nil
  then show ?case by (simp add: randomSalt_def)
next
  case (snoc x bs)
  have "randomSalt (bs @ [x]) = 256 * randomSalt bs + int (unat x)" by (simp add: randomSalt_def)
  moreover have "int (unat x) < 256" by (metis of_nat_less_iff of_nat_numeral unat_byte_less)
  moreover have "256 ^ length (bs @ [x]) = 256 * (256 ^ length bs :: int)" by simp
  ultimately show ?case using snoc by linarith
qed

end
