(* ===== verification/Evaluator.thy ===== *)
theory Evaluator
  imports Caveats
begin

section \<open>Caveat evaluation\<close>

text \<open>
  \<open>packages/delegation/src/evaluator.ts\<close>: one evaluator per caveat type, the dispatch table keyed
  by lower-cased enforcer address, and \<open>evaluateCaveats\<close>. The lemmas say when a caveat is
  allowed, that nothing is allowed by default, that strict mode only removes permissions, and that
  the terms written by the builders are evaluated as they were meant.
\<close>

subsection \<open>Evaluators\<close>

definition allow :: "caveat \<Rightarrow> verdict" where
  "allow c = \<lparr>v_enforcer = enforcer c, v_allowed = True, v_reason = None\<rparr>"

definition allow_because :: "caveat \<Rightarrow> string \<Rightarrow> verdict" where
  "allow_because c r = \<lparr>v_enforcer = enforcer c, v_allowed = True, v_reason = Some r\<rparr>"

definition deny :: "caveat \<Rightarrow> string \<Rightarrow> verdict" where
  "deny c r = \<lparr>v_enforcer = enforcer c, v_allowed = False, v_reason = Some r\<rparr>"

definition inertWhenAllowed :: "caveat \<Rightarrow> bool \<Rightarrow> verdict" where
  "inertWhenAllowed c enforceOnChain =
     (if enforceOnChain then allow_because c ''enforced-on-chain''
      else deny c ''context-required (caveat type is on-chain-only; set EvaluateOpts.enforceOnChain to opt in)'')"

text \<open>
  A decoding that does not have the declared shape cannot come from the codec; it is given the
  same denial as a decoding error.
\<close>

definition shape_error :: string where
  "shape_error = ''unexpected shape''"

definition evalTimestamp :: "crypto_lib \<Rightarrow> caveat \<Rightarrow> caveat_context \<Rightarrow> verdict" where
  "evalTimestamp lib c ctx =
     (case decodeAbiParameters lib [TUint256, TUint256] (terms c) of
        Inl e \<Rightarrow> deny c (''timestamp decode error: '' @ e)
      | Inr [AInt validAfter, AInt validUntil] \<Rightarrow>
          if cx_timestamp ctx < validAfter then deny c ''before validAfter''
          else if cx_timestamp ctx > validUntil then deny c ''after validUntil''
          else allow c
      | Inr _ \<Rightarrow> deny c (''timestamp decode error: '' @ shape_error))"

definition evalValue :: "crypto_lib \<Rightarrow> caveat \<Rightarrow> caveat_context \<Rightarrow> bool \<Rightarrow> verdict" where
  "evalValue lib c ctx enforceOnChain =
     (case cx_value ctx of
        None \<Rightarrow> inertWhenAllowed c enforceOnChain
      | Some v \<Rightarrow>
          (case decodeAbiParameters lib [TUint256] (terms c) of
             Inl e \<Rightarrow> deny c (''value decode error: '' @ e)
           | Inr [AInt maxValue] \<Rightarrow> if v > maxValue then deny c ''value over cap'' else allow c
           | Inr _ \<Rightarrow> deny c (''value decode error: '' @ shape_error)))"

fun hex_texts :: "abi_val list \<Rightarrow> string list" where
  "hex_texts (AHex h # vs) = h # hex_texts vs"
| "hex_texts (_ # vs) = hex_texts vs"
| "hex_texts [] = []"

fun texts :: "abi_val list \<Rightarrow> string list" where
  "texts (AText h # vs) = h # texts vs"
| "texts (_ # vs) = texts vs"
| "texts [] = []"

definition evalAllowedTargets :: "crypto_lib \<Rightarrow> caveat \<Rightarrow> caveat_context \<Rightarrow> bool \<Rightarrow> verdict" where
  "evalAllowedTargets lib c ctx enforceOnChain =
     (if \<not> truthy (cx_target ctx) then inertWhenAllowed c enforceOnChain
      else (case decodeAbiParameters lib [TArray TAddress] (terms c) of
              Inl e \<Rightarrow> deny c (''targets decode error: '' @ e)
            | Inr [AList targets] \<Rightarrow>
                if list_ex (\<lambda>t. toLowerCase t = toLowerCase (the (cx_target ctx))) (hex_texts targets)
                then allow c else deny c ''target not in allowlist''
            | Inr _ \<Rightarrow> deny c (''targets decode error: '' @ shape_error)))"

definition evalAllowedMethods :: "crypto_lib \<Rightarrow> caveat \<Rightarrow> caveat_context \<Rightarrow> bool \<Rightarrow> verdict" where
  "evalAllowedMethods lib c ctx enforceOnChain =
     (if \<not> truthy (cx_selector ctx) then inertWhenAllowed c enforceOnChain
      else (case decodeAbiParameters lib [TArray TBytes4] (terms c) of
              Inl e \<Rightarrow> deny c (''methods decode error: '' @ e)
            | Inr [AList selectors] \<Rightarrow>
                if list_ex (\<lambda>s. toLowerCase s = toLowerCase (the (cx_selector ctx))) (hex_texts selectors)
                then allow c else deny c ''selector not in allowlist''
            | Inr _ \<Rightarrow> deny c (''methods decode error: '' @ shape_error)))"

definition evalMcpToolScope :: "crypto_lib \<Rightarrow> caveat \<Rightarrow> caveat_context \<Rightarrow> verdict" where
  "evalMcpToolScope lib c ctx =
     (if \<not> truthy (cx_mcpTool ctx) then deny c ''no tool name in context''
      else (case decodeAbiParameters lib [TArray TString] (terms c) of
              Inl e \<Rightarrow> deny c (''mcp-tool-scope decode error: '' @ e)
            | Inr [AList tools] \<Rightarrow>
                if the (cx_mcpTool ctx) \<in> set (texts tools) then allow c else deny c ''tool not in scope''
            | Inr _ \<Rightarrow> deny c (''mcp-tool-scope decode error: '' @ shape_error)))"

definition ZERO_ADDRESS :: address where
  "ZERO_ADDRESS = ''0x'' @ replicate 40 (CHR ''0'')"

definition binding_shape_error :: "crypto_lib \<Rightarrow> caveat \<Rightarrow> string option" where
  "binding_shape_error lib c =
     (if length (terms c) \<noteq> 130 then
        Some (''delegate-binding: terms length '' @ nat_str (length (terms c)) @ '' '' @ neq_sign @
              '' expected 130 (abi.encode(address,address) is exactly 64 bytes)'')
      else (case decodeAbiParameters lib [TAddress, TAddress] (terms c) of
              Inl e \<Rightarrow> Some (''delegate-binding: malformed terms '' @ em_dash @ '' '' @ e)
            | Inr [AHex smartAccount, AHex personAgent] \<Rightarrow>
                if smartAccount = ZERO_ADDRESS \<or> personAgent = ZERO_ADDRESS
                then Some ''delegate-binding: zero address in terms'' else None
            | Inr _ \<Rightarrow> Some (''delegate-binding: malformed terms '' @ em_dash @ '' '' @ shape_error)))"

definition evalInert :: "crypto_lib \<Rightarrow> caveat \<Rightarrow> bool \<Rightarrow> verdict" where
  "evalInert lib c enforceOnChain =
     (if toLowerCase (enforcer c) = toLowerCase (DELEGATE_BINDING_ENFORCER lib)
      then (case binding_shape_error lib c of
              Some r \<Rightarrow> deny c r
            | None \<Rightarrow> inertWhenAllowed c enforceOnChain)
      else inertWhenAllowed c enforceOnChain)"

subsection \<open>Dispatch\<close>

datatype eval_fn = EvTimestamp | EvValue | EvAllowedTargets | EvAllowedMethods | EvMcpToolScope | EvInert

definition set_if :: "address option \<Rightarrow> eval_fn \<Rightarrow> (string \<rightharpoonup> eval_fn) \<Rightarrow> (string \<rightharpoonup> eval_fn)" where
  "set_if a f m = (if truthy a then m(toLowerCase (the a) \<mapsto> f) else m)"

definition dispatch_table :: "crypto_lib \<Rightarrow> enforcer_map \<Rightarrow> string \<rightharpoonup> eval_fn" where
  "dispatch_table lib em =
     (let d0 = (\<lambda>_. None);
          d1 = set_if (Some (em_timestamp em)) EvTimestamp d0;
          d2 = set_if (Some (em_value em)) EvValue d1;
          d3 = set_if (Some (em_allowedTargets em)) EvAllowedTargets d2;
          d4 = set_if (Some (em_allowedMethods em)) EvAllowedMethods d3;
          d5 = d4(toLowerCase (MCP_TOOL_SCOPE_ENFORCER lib) \<mapsto> EvMcpToolScope);
          d6 = d5(toLowerCase (DATA_SCOPE_ENFORCER lib) \<mapsto> EvInert);
          d7 = d6(toLowerCase (DELEGATE_BINDING_ENFORCER lib) \<mapsto> EvInert);
          d8 = set_if (em_taskBinding em) EvInert d7;
          d9 = set_if (em_callDataHash em) EvInert d8;
          d10 = set_if (em_recovery em) EvInert d9
      in set_if (em_rateLimit em) EvInert d10)"

definition run_eval :: "crypto_lib \<Rightarrow> eval_fn \<Rightarrow> caveat \<Rightarrow> caveat_context \<Rightarrow> bool \<Rightarrow> verdict" where
  "run_eval lib f c ctx enforceOnChain =
     (case f of
        EvTimestamp \<Rightarrow> evalTimestamp lib c ctx
      | EvValue \<Rightarrow> evalValue lib c ctx enforceOnChain
      | EvAllowedTargets \<Rightarrow> evalAllowedTargets lib c ctx enforceOnChain
      | EvAllowedMethods \<Rightarrow> evalAllowedMethods lib c ctx enforceOnChain
      | EvMcpToolScope \<Rightarrow> evalMcpToolScope lib c ctx
      | EvInert \<Rightarrow> evalInert lib c enforceOnChain)"

fun eval_loop :: "crypto_lib \<Rightarrow> (string \<rightharpoonup> eval_fn) \<Rightarrow> caveat_context \<Rightarrow> bool \<Rightarrow> verdict list \<Rightarrow> caveat list \<Rightarrow> verdict list" where
  "eval_loop lib dispatch ctx enforceOnChain verdicts [] = verdicts"
| "eval_loop lib dispatch ctx enforceOnChain verdicts (c # cs) =
     (case dispatch (toLowerCase (enforcer c)) of
        None \<Rightarrow> eval_loop lib dispatch ctx enforceOnChain (verdicts @ [deny c ''unknown enforcer'']) cs
      | Some f \<Rightarrow> eval_loop lib dispatch ctx enforceOnChain (verdicts @ [run_eval lib f c ctx enforceOnChain]) cs)"

definition evaluateCaveats :: "crypto_lib \<Rightarrow> caveat list \<Rightarrow> caveat_context \<Rightarrow> enforcer_map \<Rightarrow> bool \<Rightarrow> verdict list" where
  "evaluateCaveats lib cs ctx em enforceOnChain =
     eval_loop lib (dispatch_table lib em) ctx enforceOnChain [] cs"

subsection \<open>The loop is a map\<close>

definition verdict_of :: "crypto_lib \<Rightarrow> enforcer_map \<Rightarrow> caveat_context \<Rightarrow> bool \<Rightarrow> caveat \<Rightarrow> verdict" where
  "verdict_of lib em ctx enforceOnChain c =
     (case dispatch_table lib em (toLowerCase (enforcer c)) of
        None \<Rightarrow> deny c ''unknown enforcer''
      | Some f \<Rightarrow> run_eval lib f c ctx enforceOnChain)"

lemma eval_loop_map:
  "eval_loop lib (dispatch_table lib em) ctx ch vs cs = vs @ map (verdict_of lib em ctx ch) cs"
  by (induction cs arbitrary: vs) (simp_all add: verdict_of_def split: option.split)

lemma evaluateCaveats_map: "evaluateCaveats lib cs ctx em ch = map (verdict_of lib em ctx ch) cs"
  by (simp add: evaluateCaveats_def eval_loop_map)

lemmas verdict_defs = allow_def allow_because_def deny_def inertWhenAllowed_def
lemmas eval_defs = evalTimestamp_def evalValue_def evalAllowedTargets_def evalAllowedMethods_def
  evalMcpToolScope_def evalInert_def
lemmas eval_splits = sum.split list.split abi_val.split option.split

lemma evaluators_keep_enforcer:
  "v_enforcer (evalTimestamp lib c ctx) = enforcer c"
  "v_enforcer (evalValue lib c ctx ch) = enforcer c"
  "v_enforcer (evalAllowedTargets lib c ctx ch) = enforcer c"
  "v_enforcer (evalAllowedMethods lib c ctx ch) = enforcer c"
  "v_enforcer (evalMcpToolScope lib c ctx) = enforcer c"
  "v_enforcer (evalInert lib c ch) = enforcer c"
  by (simp_all add: eval_defs verdict_defs split: eval_splits)

lemma verdict_of_enforcer: "v_enforcer (verdict_of lib em ctx ch c) = enforcer c"
  by (simp add: verdict_of_def run_eval_def evaluators_keep_enforcer deny_def split: option.split eval_fn.split)

subsection \<open>When a verdict allows\<close>

text \<open>
  The contract of the evaluator, caveat type by caveat type. \<open>permits\<close> says what each type
  demands of the call context, in terms of the decoded terms.
\<close>

fun permits :: "crypto_lib \<Rightarrow> caveat_context \<Rightarrow> bool \<Rightarrow> caveat \<Rightarrow> eval_fn \<Rightarrow> bool" where
  "permits lib ctx ch c EvTimestamp \<longleftrightarrow>
     (\<exists>a u. decodeAbiParameters lib [TUint256, TUint256] (terms c) = Inr [AInt a, AInt u] \<and>
            a \<le> cx_timestamp ctx \<and> cx_timestamp ctx \<le> u)"
| "permits lib ctx ch c EvValue \<longleftrightarrow>
     (case cx_value ctx of
        None \<Rightarrow> ch
      | Some v \<Rightarrow> \<exists>m. decodeAbiParameters lib [TUint256] (terms c) = Inr [AInt m] \<and> v \<le> m)"
| "permits lib ctx ch c EvAllowedTargets \<longleftrightarrow>
     (if truthy (cx_target ctx)
      then \<exists>ts. decodeAbiParameters lib [TArray TAddress] (terms c) = Inr [AList ts] \<and>
             (\<exists>x \<in> set (hex_texts ts). toLowerCase x = toLowerCase (the (cx_target ctx)))
      else ch)"
| "permits lib ctx ch c EvAllowedMethods \<longleftrightarrow>
     (if truthy (cx_selector ctx)
      then \<exists>ts. decodeAbiParameters lib [TArray TBytes4] (terms c) = Inr [AList ts] \<and>
             (\<exists>x \<in> set (hex_texts ts). toLowerCase x = toLowerCase (the (cx_selector ctx)))
      else ch)"
| "permits lib ctx ch c EvMcpToolScope \<longleftrightarrow>
     truthy (cx_mcpTool ctx) \<and>
     (\<exists>ts. decodeAbiParameters lib [TArray TString] (terms c) = Inr [AList ts] \<and>
           the (cx_mcpTool ctx) \<in> set (texts ts))"
| "permits lib ctx ch c EvInert \<longleftrightarrow>
     ch \<and> (toLowerCase (enforcer c) = toLowerCase (DELEGATE_BINDING_ENFORCER lib) \<longrightarrow> binding_shape_error lib c = None)"

lemma run_eval_permits: "v_allowed (run_eval lib f c ctx ch) = permits lib ctx ch c f"
proof (cases f)
  case EvTimestamp
  then show ?thesis
    by (auto simp: run_eval_def evalTimestamp_def verdict_defs split: eval_splits)
next
  case EvValue
  then show ?thesis
    by (auto simp: run_eval_def evalValue_def verdict_defs split: eval_splits)
next
  case EvAllowedTargets
  then show ?thesis
    by (auto simp: run_eval_def evalAllowedTargets_def verdict_defs list_ex_iff split: eval_splits)
next
  case EvAllowedMethods
  then show ?thesis
    by (auto simp: run_eval_def evalAllowedMethods_def verdict_defs list_ex_iff split: eval_splits)
next
  case EvMcpToolScope
  then show ?thesis
    by (auto simp: run_eval_def evalMcpToolScope_def verdict_defs split: eval_splits)
next
  case EvInert
  then show ?thesis
    by (auto simp: run_eval_def evalInert_def verdict_defs split: option.split)
qed

lemma verdict_of_permits:
  "v_allowed (verdict_of lib em ctx ch c) \<longleftrightarrow>
   (\<exists>f. dispatch_table lib em (toLowerCase (enforcer c)) = Some f \<and> permits lib ctx ch c f)"
  by (simp add: verdict_of_def run_eval_permits deny_def split: option.split)

text \<open>Strict mode never allows what on-chain mode denies, and where it allows, both agree.\<close>

lemma strict_verdict_kept:
  assumes "v_allowed (run_eval lib f c ctx False)"
  shows "run_eval lib f c ctx True = run_eval lib f c ctx False"
proof (cases f)
  case EvValue
  with assms show ?thesis by (simp add: run_eval_def evalValue_def verdict_defs split: option.splits)
next
  case EvAllowedTargets
  with assms show ?thesis by (simp add: run_eval_def evalAllowedTargets_def verdict_defs split: if_splits)
next
  case EvAllowedMethods
  with assms show ?thesis by (simp add: run_eval_def evalAllowedMethods_def verdict_defs split: if_splits)
next
  case EvInert
  with assms show ?thesis by (simp add: run_eval_def evalInert_def verdict_defs split: option.splits if_splits)
qed (simp_all add: run_eval_def)

lemma strict_verdict_of:
  "v_allowed (verdict_of lib em ctx False c) \<Longrightarrow> verdict_of lib em ctx True c = verdict_of lib em ctx False c"
  by (auto simp: verdict_of_def strict_verdict_kept deny_def split: option.splits)

text \<open>Without a target, selector and value, strict mode allows timestamp and tool-scope caveats only.\<close>

lemma strict_needs_context:
  assumes "v_allowed (verdict_of lib em ctx False c)" "cx_value ctx = None"
    "\<not> truthy (cx_target ctx)" "\<not> truthy (cx_selector ctx)"
  shows "dispatch_table lib em (toLowerCase (enforcer c)) \<in> {Some EvTimestamp, Some EvMcpToolScope}"
proof -
  obtain f where "dispatch_table lib em (toLowerCase (enforcer c)) = Some f" "permits lib ctx False c f"
    using assms(1) by (auto simp: verdict_of_permits)
  with assms(2-4) show ?thesis by (cases f) auto
qed

subsection \<open>Codec law\<close>

text \<open>
  What the code relies on in the ABI codec: decoding an encoding gives the values back, hex up to
  letter case (addresses come back checksummed).
\<close>

primrec abi_norm :: "abi_val \<Rightarrow> abi_val" where
  "abi_norm (AInt n) = AInt n"
| "abi_norm (AHex h) = AHex (toLowerCase h)"
| "abi_norm (AText s) = AText s"
| "abi_norm (AList vs) = AList (map abi_norm vs)"
| "abi_norm (ATup vs) = ATup (map abi_norm vs)"

definition abi_roundtrips :: "crypto_lib \<Rightarrow> bool" where
  "abi_roundtrips lib \<longleftrightarrow>
     (\<forall>ts vs h. encodeAbiParameters lib ts vs = Inr h \<longrightarrow>
        (\<exists>vs'. decodeAbiParameters lib ts h = Inr vs' \<and> map abi_norm vs' = map abi_norm vs))"

lemma abi_norm_simps [simp]:
  "abi_norm v = AInt n \<longleftrightarrow> v = AInt n"
  "abi_norm v = AText s \<longleftrightarrow> v = AText s"
  "abi_norm v = AHex h \<longleftrightarrow> (\<exists>h'. v = AHex h' \<and> toLowerCase h' = h)"
  "abi_norm v = AList ws \<longleftrightarrow> (\<exists>vs. v = AList vs \<and> map abi_norm vs = ws)"
  by (cases v; auto)+

lemma abi_decode:
  "abi_roundtrips lib \<Longrightarrow> encodeAbiParameters lib ts vs = Inr h \<Longrightarrow>
   \<exists>vs'. decodeAbiParameters lib ts h = Inr vs' \<and> map abi_norm vs' = map abi_norm vs"
  by (simp add: abi_roundtrips_def)

lemma hex_texts_norm: "map abi_norm vs = map (\<lambda>h. AHex (toLowerCase h)) hs \<Longrightarrow>
  map toLowerCase (hex_texts vs) = map toLowerCase hs"
  by (induction vs arbitrary: hs) (auto simp: map_eq_Cons_conv)

lemma texts_norm: "map abi_norm vs = map AText ss \<Longrightarrow> texts vs = ss"
  by (induction vs arbitrary: ss) (auto simp: map_eq_Cons_conv)

lemma decode_ints2:
  assumes "abi_roundtrips lib" "encodeAbiParameters lib [TUint256, TUint256] [AInt a, AInt u] = Inr h"
  shows "decodeAbiParameters lib [TUint256, TUint256] h = Inr [AInt a, AInt u]"
  using abi_decode [OF assms] by (auto simp: map_eq_Cons_conv)

lemma decode_int:
  assumes "abi_roundtrips lib" "encodeAbiParameters lib [TUint256] [AInt a] = Inr h"
  shows "decodeAbiParameters lib [TUint256] h = Inr [AInt a]"
  using abi_decode [OF assms] by (auto simp: map_eq_Cons_conv)

lemma decode_hexes:
  assumes "abi_roundtrips lib" "encodeAbiParameters lib [t] [AList (map AHex hs)] = Inr h"
  shows "\<exists>vs. decodeAbiParameters lib [t] h = Inr [AList vs] \<and> map toLowerCase (hex_texts vs) = map toLowerCase hs"
  using abi_decode [OF assms] hex_texts_norm by (fastforce simp: map_eq_Cons_conv comp_def)

lemma decode_texts:
  assumes "abi_roundtrips lib" "encodeAbiParameters lib [t] [AList (map AText ss)] = Inr h"
  shows "\<exists>vs. decodeAbiParameters lib [t] h = Inr [AList vs] \<and> texts vs = ss"
  using abi_decode [OF assms] texts_norm by (fastforce simp: map_eq_Cons_conv comp_def)

lemma image_member: "(\<exists>x \<in> S. f x = y) \<longleftrightarrow> y \<in> f ` S"
  by blast

subsection \<open>Terms are evaluated as they were written\<close>

lemma timestamp_terms_permit:
  assumes "abi_roundtrips lib" "encodeTimestampTerms lib (Whole a) (Whole u) = Inr (terms c)"
  shows "permits lib ctx ch c EvTimestamp \<longleftrightarrow> a \<le> cx_timestamp ctx \<and> cx_timestamp ctx \<le> u"
  using assms decode_ints2 [of lib a u "terms c"] by auto

lemma value_terms_permit:
  assumes "abi_roundtrips lib" "encodeValueTerms lib m = Inr (terms c)" "cx_value ctx = Some v"
  shows "permits lib ctx ch c EvValue \<longleftrightarrow> v \<le> m"
  using assms decode_int [of lib m "terms c"] by (auto simp: encodeValueTerms_def split: if_splits)

lemma targets_terms_permit:
  assumes "abi_roundtrips lib" "encodeAllowedTargetsTerms lib ts = Inr (terms c)" "cx_target ctx = Some t" "t \<noteq> []"
  shows "permits lib ctx ch c EvAllowedTargets \<longleftrightarrow> toLowerCase t \<in> toLowerCase ` set ts"
proof -
  have "encodeAbiParameters lib [TArray TAddress] [AList (map AHex ts)] = Inr (terms c)" using assms(2) by simp
  from decode_hexes [OF assms(1) this] obtain vs where
    d: "decodeAbiParameters lib [TArray TAddress] (terms c) = Inr [AList vs]"
    and "map toLowerCase (hex_texts vs) = map toLowerCase ts" by blast
  then have "toLowerCase ` set (hex_texts vs) = toLowerCase ` set ts" by (metis set_map)
  with d assms(3,4) show ?thesis by (simp add: image_member)
qed

lemma methods_terms_permit:
  assumes "abi_roundtrips lib" "encodeAllowedMethodsTerms lib ts = Inr (terms c)" "cx_selector ctx = Some t" "t \<noteq> []"
  shows "permits lib ctx ch c EvAllowedMethods \<longleftrightarrow> toLowerCase t \<in> toLowerCase ` set ts"
proof -
  have "encodeAbiParameters lib [TArray TBytes4] [AList (map AHex ts)] = Inr (terms c)" using assms(2) by simp
  from decode_hexes [OF assms(1) this] obtain vs where
    d: "decodeAbiParameters lib [TArray TBytes4] (terms c) = Inr [AList vs]"
    and "map toLowerCase (hex_texts vs) = map toLowerCase ts" by blast
  then have "toLowerCase ` set (hex_texts vs) = toLowerCase ` set ts" by (metis set_map)
  with d assms(3,4) show ?thesis by (simp add: image_member)
qed

lemma tool_scope_permits:
  assumes "abi_roundtrips lib" "buildMcpToolScopeCaveat lib tools = Inr c"
  shows "permits lib ctx ch c EvMcpToolScope \<longleftrightarrow> (\<exists>t. cx_mcpTool ctx = Some t \<and> t \<noteq> [] \<and> t \<in> set tools)"
proof -
  have e: "encodeAbiParameters lib [TArray TString] [AList (map AText tools)] = Inr (terms c)"
    using assms(2) by (auto simp: buildMcpToolScopeCaveat_def split: if_splits)
  from decode_texts [OF assms(1) this] show ?thesis by (cases "cx_mcpTool ctx") auto
qed

end
