(* ===== verification/AuditSinks.thy ===== *)
theory AuditSinks
  imports Prelude
begin

section \<open>Audit events and sinks\<close>

text \<open>
  \<open>packages/audit/src/index.ts\<close>: the event record every other package emits, the sinks that
  store events, the two ways to compose sinks, and the guardrail that redacts secrets. A sink is
  a function on a world of type \<open>'w\<close> (whatever the sinks store their rows in): it answers with
  success or the error it threw, and the world after the write.
\<close>

subsection \<open>Events\<close>

datatype audit_outcome = Success | Denied | ErrorOutcome

datatype actor_type = User | Service | System | UnknownActor

datatype ctx_val = CStr string | CNum int | CBool bool | CNull

record audit_event =
  ev_id :: string
  ev_correlationId :: "string option"
  ev_timestamp :: string
  ev_action :: string
  ev_outcome :: audit_outcome
  ev_actor :: "(actor_type \<times> string option) option"
  ev_subject :: "(string \<times> string) option"
  ev_reason :: "string option"
  ev_context :: "(string \<times> ctx_val) list option"
  ev_audience :: "string option"
  ev_chainId :: "int option"
  ev_digest :: "hex option"

text \<open>
  \<open>buildEvent\<close> stamps an identifier and a time on the caller's fields; both come from the
  runtime (\<open>crypto.randomUUID\<close>, the clock) and are arguments here.
\<close>

definition buildEvent :: "string \<Rightarrow> string \<Rightarrow> audit_event \<Rightarrow> audit_event" where
  "buildEvent eventId isoTime e = e\<lparr>ev_id := eventId, ev_timestamp := isoTime\<rparr>"

definition blank_event :: "string \<Rightarrow> audit_outcome \<Rightarrow> audit_event" where
  "blank_event action oc =
     \<lparr>ev_id = [], ev_correlationId = None, ev_timestamp = [], ev_action = action, ev_outcome = oc,
      ev_actor = None, ev_subject = None, ev_reason = None, ev_context = None,
      ev_audience = None, ev_chainId = None, ev_digest = None\<rparr>"

definition AUDIT_ACTION_REGISTRY :: "string list" where
  "AUDIT_ACTION_REGISTRY =
    [''delegation.mint'', ''delegation.verify.accept'', ''delegation.verify.reject'', ''delegation.revoke'',
     ''key-custody.sign'', ''key-custody.rotate'', ''key-custody.envelope.encrypt'',
     ''key-custody.envelope.decrypt'', ''key-custody.session-data-key.generate'',
     ''account-custody.schedule'', ''account-custody.apply'', ''account-custody.cancel'',
     ''account-custody.credential.add'', ''account-custody.credential.remove'',
     ''account-custody.credential.replace'',
     ''agent-account.admin.propose'', ''agent-account.admin.execute'', ''agent-account.admin.cancel'',
     ''connect-auth.session.mint'', ''connect-auth.session.verify.accept'',
     ''connect-auth.session.verify.reject'',
     ''connect.issue.accept'', ''connect.issue.reject'',
     ''mcp-runtime.with-delegation.accept'', ''mcp-runtime.with-delegation.reject'',
     ''mcp-runtime.service-mac.issue'', ''mcp-runtime.service-mac.accept'', ''mcp-runtime.service-mac.reject'',
     ''agent-naming.resolve'', ''agent-naming.register'', ''agent-naming.records.update'',
     ''agent-naming.primary-name.update'', ''agent-naming.subregistry.update'']"

definition isCanonicalAuditAction :: "string \<Rightarrow> bool" where
  "isCanonicalAuditAction s \<longleftrightarrow> s \<in> set AUDIT_ACTION_REGISTRY"

subsection \<open>Sinks\<close>

type_synonym 'w sink = "audit_event \<Rightarrow> 'w \<Rightarrow> unit js \<times> 'w"

text \<open>The in-memory ring buffer: push, then shift when over capacity.\<close>

definition memory_write :: "int \<Rightarrow> audit_event list sink" where
  "memory_write capacity e buf =
     (let buf' = buf @ [e]
      in (Inr (), if int (length buf') > capacity then tl buf' else buf'))"

definition memory_events :: "audit_event list \<Rightarrow> audit_event list" where
  "memory_events buf = buf"

definition memory_reset :: "audit_event list \<Rightarrow> audit_event list" where
  "memory_reset buf = []"

text \<open>The loop both composers share: every sink is tried, the errors are collected in order.\<close>

fun write_all :: "'w sink list \<Rightarrow> audit_event \<Rightarrow> 'w \<Rightarrow> js_error list \<times> 'w" where
  "write_all [] e w = ([], w)"
| "write_all (s # ss) e w =
     (case s e w of
        (Inl err, w1) \<Rightarrow> (case write_all ss e w1 of (errs, w2) \<Rightarrow> (err # errs, w2))
      | (Inr _, w1) \<Rightarrow> write_all ss e w1)"

definition composeFailSoftSinks :: "'w sink list \<Rightarrow> 'w sink" where
  "composeFailSoftSinks ss e w = (case write_all ss e w of (errs, w') \<Rightarrow> (Inr (), w'))"

definition composeSinks :: "'w sink list \<Rightarrow> 'w sink" where
  "composeSinks ss = composeFailSoftSinks ss"

definition composeFailHardSinks :: "'w sink list \<Rightarrow> 'w sink" where
  "composeFailHardSinks ss e w =
     (case write_all ss e w of
        ([], w') \<Rightarrow> (Inr (), w')
      | (err # _, w') \<Rightarrow> (Inl err, w'))"

subsection \<open>The guardrail's classifier\<close>

definition is_hex_char :: "char \<Rightarrow> bool" where
  "is_hex_char c \<longleftrightarrow> hex_val c \<noteq> None"

definition is_token_char :: "char \<Rightarrow> bool" where
  "is_token_char c \<longleftrightarrow> (let n = of_char c :: nat in
     (65 \<le> n \<and> n \<le> 90) \<or> (97 \<le> n \<and> n \<le> 122) \<or> (48 \<le> n \<and> n \<le> 57) \<or> n = 95 \<or> n = 45)"

text \<open>The regular expression \<open>^0x[0-9a-fA-F]{max-2,}$\<close>.\<close>

definition long_hex :: "int \<Rightarrow> string \<Rightarrow> bool" where
  "long_hex maxHex s \<longleftrightarrow>
     startsWith s ''0x'' \<and> list_all is_hex_char (drop 2 s) \<and> maxHex - 2 \<le> int (length s) - 2"

text \<open>Three non-empty segments of token characters.\<close>

definition jwt_shape :: "string \<Rightarrow> bool" where
  "jwt_shape s \<longleftrightarrow>
     (let segs = split_on (CHR ''.'') s
      in length segs = 3 \<and> list_all (\<lambda>g. g \<noteq> [] \<and> list_all is_token_char g) segs)"

fun some_suffix :: "(string \<Rightarrow> bool) \<Rightarrow> string \<Rightarrow> bool" where
  "some_suffix p [] = p []"
| "some_suffix p (c # s) = (p (c # s) \<or> some_suffix p s)"

definition pem_block :: "string \<Rightarrow> bool" where
  "pem_block s = some_suffix (\<lambda>t. startsWith t ''-----BEGIN '') s"

text \<open>One alternative of the secret pattern: two words, optionally separated by \<open>_\<close> or \<open>-\<close>.\<close>

definition two_words :: "string \<Rightarrow> string \<Rightarrow> string \<Rightarrow> bool" where
  "two_words a b t \<longleftrightarrow> startsWith t (a @ b) \<or> startsWith t (a @ ''_'' @ b) \<or> startsWith t (a @ ''-'' @ b)"

definition secret_at :: "string \<Rightarrow> bool" where
  "secret_at t \<longleftrightarrow> two_words ''private'' ''key'' t \<or> two_words ''client'' ''secret'' t
     \<or> two_words ''api'' ''key'' t \<or> two_words ''access'' ''token'' t \<or> two_words ''refresh'' ''token'' t"

definition secret_substring :: "string \<Rightarrow> bool" where
  "secret_substring s = some_suffix secret_at (toLowerCase s)"

definition classify :: "int \<Rightarrow> string \<Rightarrow> (string \<times> string) option" where
  "classify maxHex v =
     (if long_hex maxHex v then Some (''long-hex'', ''hex-'' @ nat_str (length v))
      else if 100 < length v \<and> jwt_shape v then
        Some (''jwt-shape'', ''jwt-'' @ nat_str (length (split_on (CHR ''.'') v)) @ ''-seg-len-'' @ nat_str (length v))
      else if pem_block v then Some (''pem-block'', ''pem'')
      else if secret_substring v then Some (''secret-substring'', ''match-len-'' @ nat_str (length v))
      else None)"

definition redactToken :: "string \<Rightarrow> string \<Rightarrow> string" where
  "redactToken reason preview = ''<redacted:'' @ reason @ '':'' @ preview @ ''>''"

subsection \<open>The guardrail\<close>

datatype pii_mode = Redact | Drop | Warn

record pii_opts =
  pii_mode :: pii_mode
  pii_maxHexLength :: int
  pii_allowKeys :: "string list"
  pii_allowSubjectTypes :: "string list"

definition DEFAULT_ALLOW_KEYS :: "string list" where
  "DEFAULT_ALLOW_KEYS =
    [''signerAddress'', ''address'', ''paymaster'', ''entryPoint'', ''keyId'', ''nonceHash'',
     ''sessionHash'', ''digest'', ''txHash'', ''blockHash'', ''jti'', ''eventId'']"

definition DEFAULT_ALLOW_SUBJECT_TYPES :: "string list" where
  "DEFAULT_ALLOW_SUBJECT_TYPES = [''jti'', ''sign-digest'', ''tx-hash'', ''address'', ''event-id'']"

type_synonym finding = "string \<times> string \<times> string"

text \<open>\<open>scan\<close>: the finding at a path, and the value the sanitized event carries there.\<close>

definition scan :: "pii_opts \<Rightarrow> string \<Rightarrow> string \<Rightarrow> finding list \<times> string" where
  "scan opts path v =
     (case classify (pii_maxHexLength opts) v of
        None \<Rightarrow> ([], v)
      | Some (reason, preview) \<Rightarrow>
          ([(path, reason, preview)], if pii_mode opts = Redact then redactToken reason preview else v))"

definition scan_opt :: "pii_opts \<Rightarrow> string \<Rightarrow> string option \<Rightarrow> finding list \<times> string option" where
  "scan_opt opts path v =
     (case v of None \<Rightarrow> ([], None)
      | Some s \<Rightarrow> if s = [] then ([], Some s) else (case scan opts path s of (fs, s') \<Rightarrow> (fs, Some s')))"

fun scan_context :: "pii_opts \<Rightarrow> (string \<times> ctx_val) list \<Rightarrow> finding list \<times> (string \<times> ctx_val) list" where
  "scan_context opts [] = ([], [])"
| "scan_context opts ((k, v) # kvs) =
     (let (f1, v') = (if k \<in> set (DEFAULT_ALLOW_KEYS @ pii_allowKeys opts) then ([], v)
                      else (case v of
                              CStr s \<Rightarrow> (case scan opts (''context.'' @ k) s of (fs, s') \<Rightarrow> (fs, CStr s'))
                            | _ \<Rightarrow> ([], v)));
          (f2, kvs') = scan_context opts kvs
      in (f1 @ f2, (k, v') # kvs'))"

definition scan_subject :: "pii_opts \<Rightarrow> (string \<times> string) option \<Rightarrow> finding list \<times> (string \<times> string) option" where
  "scan_subject opts sub =
     (case sub of None \<Rightarrow> ([], None)
      | Some (ty, i) \<Rightarrow>
          if ty \<in> set (DEFAULT_ALLOW_SUBJECT_TYPES @ pii_allowSubjectTypes opts) then ([], sub)
          else (case scan opts ''subject.id'' i of (fs, i') \<Rightarrow> (fs, Some (ty, i'))))"

definition scan_actor :: "pii_opts \<Rightarrow> (actor_type \<times> string option) option \<Rightarrow>
    finding list \<times> (actor_type \<times> string option) option" where
  "scan_actor opts act =
     (case act of None \<Rightarrow> ([], None)
      | Some (ty, i) \<Rightarrow> (case scan_opt opts ''actor.id'' i of (fs, i') \<Rightarrow> (fs, Some (ty, i'))))"

definition sanitize :: "pii_opts \<Rightarrow> audit_event \<Rightarrow> finding list \<times> audit_event" where
  "sanitize opts e =
     (let (f1, ctx) = (case ev_context e of None \<Rightarrow> ([], None)
                       | Some kvs \<Rightarrow> (case scan_context opts kvs of (fs, kvs') \<Rightarrow> (fs, Some kvs')));
          (f2, sub) = scan_subject opts (ev_subject e);
          (f3, act) = scan_actor opts (ev_actor e);
          (f4, rsn) = scan_opt opts ''reason'' (ev_reason e);
          (f5, aud) = scan_opt opts ''audience'' (ev_audience e)
      in (f1 @ f2 @ f3 @ f4 @ f5,
          e\<lparr>ev_context := ctx, ev_subject := sub, ev_actor := act, ev_reason := rsn, ev_audience := aud\<rparr>))"

text \<open>
  The sink itself. \<open>onDetect\<close> is the caller's callback (a no-op when absent); if it throws, the
  write throws.
\<close>

definition createPiiGuardrailSink ::
    "pii_opts \<Rightarrow> (audit_event \<Rightarrow> finding list \<Rightarrow> 'w \<Rightarrow> unit js \<times> 'w) \<Rightarrow> 'w sink \<Rightarrow> 'w sink" where
  "createPiiGuardrailSink opts onDetect inner e w =
     (case sanitize opts e of (findings, sanitized) \<Rightarrow>
        (case (if findings \<noteq> [] then onDetect sanitized findings w else (Inr (), w)) of
           (Inl err, w1) \<Rightarrow> (Inl err, w1)
         | (Inr _, w1) \<Rightarrow>
             if findings \<noteq> [] \<and> pii_mode opts = Drop then (Inr (), w1)
             else if findings \<noteq> [] \<and> pii_mode opts = Warn then inner e w1
             else inner sanitized w1))"


subsection \<open>Event identifiers\<close>

unbundle bit_operations_syntax

text \<open>The fallback of \<open>generateEventId\<close>: sixteen random bytes (the argument) as a version-4 UUID.\<close>

definition uuid_bytes :: "bytes \<Rightarrow> bytes" where
  "uuid_bytes bs = bs[6 := (bs ! 6 AND 0x0f) OR 0x40, 8 := (bs ! 8 AND 0x3f) OR 0x80]"

definition slice :: "nat \<Rightarrow> nat \<Rightarrow> string \<Rightarrow> string" where
  "slice i j s = take (j - i) (drop i s)"

definition generateEventId :: "bytes \<Rightarrow> string" where
  "generateEventId bs =
     (let h = bytes_hex (uuid_bytes bs)
      in slice 0 8 h @ ''-'' @ slice 8 12 h @ ''-'' @ slice 12 16 h @ ''-'' @ slice 16 20 h @ ''-'' @ drop 20 h)"

subsection \<open>Metrics\<close>

text \<open>
  The in-memory metrics sink. Tags are an object's entries (distinct keys); they are sorted into
  the series key.
\<close>

type_synonym tags = "(string \<times> string) list"

record memory_metrics =
  mm_counts :: "string \<rightharpoonup> int"
  mm_observations :: "string \<rightharpoonup> int list"
  mm_gauges :: "string \<rightharpoonup> int"

definition metric_key :: "string \<Rightarrow> tags option \<Rightarrow> string" where
  "metric_key name ts =
     (case ts of
        None \<Rightarrow> name
      | Some kvs \<Rightarrow>
          if kvs = [] then name
          else name @ ''|'' @ join '','' (map (\<lambda>(k, v). k @ ''='' @ v) (sort_key fst kvs)))"

definition createMemoryMetricsSink :: memory_metrics where
  "createMemoryMetricsSink = \<lparr>mm_counts = Map.empty, mm_observations = Map.empty, mm_gauges = Map.empty\<rparr>"

definition metrics_increment :: "string \<Rightarrow> int option \<Rightarrow> tags option \<Rightarrow> memory_metrics \<Rightarrow> memory_metrics" where
  "metrics_increment name value ts m =
     (let k = metric_key name ts
      in m\<lparr>mm_counts := (mm_counts m)(k \<mapsto>
           (case mm_counts m k of None \<Rightarrow> 0 | Some n \<Rightarrow> n) + (case value of None \<Rightarrow> 1 | Some v \<Rightarrow> v))\<rparr>)"

definition metrics_observe :: "string \<Rightarrow> int \<Rightarrow> tags option \<Rightarrow> memory_metrics \<Rightarrow> memory_metrics" where
  "metrics_observe name value ts m =
     (let k = metric_key name ts; arr = (case mm_observations m k of None \<Rightarrow> [] | Some a \<Rightarrow> a)
      in m\<lparr>mm_observations := (mm_observations m)(k \<mapsto> arr @ [value])\<rparr>)"

definition metrics_gauge :: "string \<Rightarrow> int \<Rightarrow> tags option \<Rightarrow> memory_metrics \<Rightarrow> memory_metrics" where
  "metrics_gauge name value ts m = m\<lparr>mm_gauges := (mm_gauges m)(metric_key name ts \<mapsto> value)\<rparr>"

definition metrics_reset :: "memory_metrics \<Rightarrow> memory_metrics" where
  "metrics_reset m = createMemoryMetricsSink"

text \<open>
  Fan-out: each sink's call is made and its exception swallowed. A call on a sink is a function
  that answers and updates the world.
\<close>

fun composeMetricsSinks :: "('w \<Rightarrow> unit js \<times> 'w) list \<Rightarrow> 'w \<Rightarrow> 'w" where
  "composeMetricsSinks [] w = w"
| "composeMetricsSinks (call # calls) w = composeMetricsSinks calls (snd (call w))"

subsection \<open>The memory sink keeps the most recent events\<close>

fun memory_run :: "int \<Rightarrow> audit_event list \<Rightarrow> audit_event list \<Rightarrow> audit_event list" where
  "memory_run capacity buf [] = buf"
| "memory_run capacity buf (e # es) = memory_run capacity (snd (memory_write capacity e buf)) es"

lemma memory_write_step:
  assumes "length buf \<le> n"
  shows "snd (memory_write (int n) e buf) = drop (Suc (length buf) - n) (buf @ [e])"
proof (cases "length buf = n")
  case True
  then show ?thesis by (cases buf) (auto simp: memory_write_def Let_def)
next
  case False
  with assms show ?thesis by (simp add: memory_write_def Let_def)
qed

theorem memory_run_window:
  "length buf \<le> n \<Longrightarrow> memory_run (int n) buf es = drop (length (buf @ es) - n) (buf @ es)"
proof (induction es arbitrary: buf)
  case Nil
  then show ?case by simp
next
  case (Cons e es)
  let ?b = "drop (Suc (length buf) - n) (buf @ [e])"
  have "length ?b \<le> n" using Cons.prems by simp
  from Cons.IH [OF this] have "memory_run (int n) ?b es = drop (length (?b @ es) - n) (?b @ es)" .
  also have "?b @ es = drop (Suc (length buf) - n) (buf @ e # es)"
    by (cases n) auto
  also have "drop (length (drop (Suc (length buf) - n) (buf @ e # es)) - n)
      (drop (Suc (length buf) - n) (buf @ e # es)) = drop (length (buf @ e # es) - n) (buf @ e # es)"
    using Cons.prems by (simp only: drop_drop length_drop length_append list.size) (rule arg_cong [of _ _ "\<lambda>k. drop k _"], linarith)
  finally show ?case using memory_write_step [OF Cons.prems] by simp
qed

subsection \<open>Composition\<close>

lemma write_all_errors:
  "fst (write_all ss e w) = [] \<longleftrightarrow> (\<forall>i < length ss. \<exists>w1 w2. (ss ! i) e w1 = (Inr (), w2)
     \<and> w1 = snd (write_all (take i ss) e w) \<and> w2 = snd (write_all (take (Suc i) ss) e w))"
proof (induction ss arbitrary: w)
  case Nil
  then show ?case by simp
next
  case (Cons s ss)
  obtain r w1 where s: "s e w = (r, w1)" by (cases "s e w")
  show ?case
  proof (cases r)
    case (Inl err)
    then show ?thesis using s by (auto split: prod.splits simp: exI [of _ 0])
  next
    case (Inr u)
    then have "write_all (s # take i ss) e w = write_all (take i ss) e w1" for i
      using s by simp
    then show ?thesis using s Inr Cons.IH [of w1]
      by (auto simp: less_Suc_eq_0_disj)
  qed
qed

lemma compose_same_world:
  "snd (composeFailHardSinks ss e w) = snd (composeFailSoftSinks ss e w)"
  by (simp add: composeFailHardSinks_def composeFailSoftSinks_def split: prod.split list.split)

lemma composeFailSoft_never_throws: "fst (composeFailSoftSinks ss e w) = Inr ()"
  by (simp add: composeFailSoftSinks_def split: prod.split)

lemma composeFailHard_throws_iff:
  "fst (composeFailHardSinks ss e w) =
     (case fst (write_all ss e w) of [] \<Rightarrow> Inr () | err # _ \<Rightarrow> Inl err)"
  by (simp add: composeFailHardSinks_def split: prod.split list.split)

lemma write_all_world: "snd (write_all (ss @ ts) e w) = snd (write_all ts e (snd (write_all ss e w)))"
proof (induction ss arbitrary: w)
  case (Cons s ss)
  show ?case
    using Cons [of "snd (s e w)"] by (cases "s e w"; cases "fst (s e w)") (auto simp: split_beta)
qed simp

subsection \<open>Redaction leaves nothing to find\<close>

lemma some_suffix_starts: "some_suffix (\<lambda>t. startsWith t p) s \<Longrightarrow> set p \<subseteq> set s"
proof (induction s)
  case Nil
  then show ?case by (simp add: startsWith_def)
next
  case (Cons c s)
  then show ?case
    using set_take_subset [of "length p" "c # s"] by (auto simp: startsWith_def)
qed

lemma not_in_digits: "\<not> is_digit c \<Longrightarrow> c \<notin> set (nat_str n)"
  using nat_str_digits by blast

lemma secret_at_first: "secret_at (c # s) \<Longrightarrow> c \<in> {CHR ''p'', CHR ''c'', CHR ''a'', CHR ''r''}"
  by (auto simp: secret_at_def two_words_def startsWith_def)

text \<open>No alternative of the secret pattern starts with another letter, so such a letter is skipped.\<close>

lemma secret_skip:
  "c \<notin> {CHR ''p'', CHR ''c'', CHR ''a'', CHR ''r''} \<Longrightarrow> some_suffix secret_at (c # s) = some_suffix secret_at s"
  using secret_at_first [of c s] by (simp only: some_suffix.simps) blast

lemma secret_skip_all:
  "set s \<inter> {CHR ''p'', CHR ''c'', CHR ''a'', CHR ''r''} = {} \<Longrightarrow> some_suffix secret_at (s @ t) = some_suffix secret_at t"
proof (induction s)
  case (Cons c s)
  then have "c \<notin> {CHR ''p'', CHR ''c'', CHR ''a'', CHR ''r''}" by auto
  from secret_skip [OF this] Cons show ?case by auto
qed simp

lemma secret_nil [simp]: "\<not> some_suffix secret_at []"
  by (simp add: secret_at_def two_words_def startsWith_def)

lemma nat_str_not_secret: "set (nat_str n) \<inter> {CHR ''p'', CHR ''c'', CHR ''a'', CHR ''r''} = {}"
  by (auto dest!: nat_str_digits simp: is_digit_def)

lemma lower_digits: "toLowerCase (nat_str n) = nat_str n"
  unfolding toLowerCase_def
  by (rule map_idI) (auto dest!: nat_str_digits simp: lower_char_def is_digit_def)

lemma redacted_not_secret:
  assumes "classify m v = Some (reason, preview)"
  shows "\<not> secret_substring (redactToken reason preview)"
proof -
  have digits: "some_suffix secret_at (nat_str n @ t) = some_suffix secret_at t" for n t
    by (rule secret_skip_all) (rule nat_str_not_secret)
  have at_r: "secret_at (CHR ''r'' # t) \<longleftrightarrow> two_words ''refresh'' ''token'' (CHR ''r'' # t)"
    and at_c: "secret_at (CHR ''c'' # t) \<longleftrightarrow> two_words ''client'' ''secret'' (CHR ''c'' # t)"
    and at_p: "secret_at (CHR ''p'' # t) \<longleftrightarrow> two_words ''private'' ''key'' (CHR ''p'' # t)"
    and at_a: "secret_at (CHR ''a'' # t) \<longleftrightarrow> two_words ''api'' ''key'' (CHR ''a'' # t) \<or> two_words ''access'' ''token'' (CHR ''a'' # t)" for t
    by (auto simp: secret_at_def two_words_def startsWith_def)
  have step: "\<not> secret_at (c # s) \<Longrightarrow> some_suffix secret_at (c # s) = some_suffix secret_at s" for c s
    by simp
  show ?thesis
    using assms secret_nil
    by (auto simp: classify_def redactToken_def secret_substring_def lower_digits toLowerCase_Cons toLowerCase_Nil
        lower_char_def digits secret_skip at_r at_c at_p at_a two_words_def startsWith_def step
        simp del: some_suffix.simps(2) split: if_splits)
qed

lemma redacted_no_B:
  assumes "classify m v = Some (reason, preview)"
  shows "CHR ''B'' \<notin> set (redactToken reason preview)"
  using assms not_in_digits [of "CHR ''B''"]
  by (auto simp: classify_def redactToken_def is_digit_def split: if_splits)

text \<open>A redaction marker is itself clean, whatever pattern produced it.\<close>

lemma classify_redacted:
  assumes "classify m v = Some (reason, preview)"
  shows "classify m (redactToken reason preview) = None"
proof -
  let ?r = "redactToken reason preview"
  have hd: "?r = CHR ''<'' # tl ?r" by (simp add: redactToken_def)
  have "\<not> long_hex m ?r" by (subst hd) (simp add: long_hex_def startsWith_def)
  moreover have "\<not> jwt_shape ?r"
    by (subst hd) (auto simp: jwt_shape_def is_token_char_def Let_def split: list.splits)
  moreover have "\<not> pem_block ?r"
    using redacted_no_B [OF assms] some_suffix_starts [of "''-----BEGIN ''" ?r] by (auto simp: pem_block_def)
  ultimately show ?thesis using redacted_not_secret [OF assms] by (simp add: classify_def)
qed

lemma scan_redact:
  "pii_mode opts = Redact \<Longrightarrow> scan opts path (snd (scan opts path' v)) = ([], snd (scan opts path' v))"
  by (auto simp: scan_def classify_redacted split: option.split)

lemma redactToken_nonempty [simp]: "redactToken r p \<noteq> []"
  by (simp add: redactToken_def)

lemma scan_opt_redact:
  "pii_mode opts = Redact \<Longrightarrow>
   scan_opt opts path (snd (scan_opt opts path' v)) = ([], snd (scan_opt opts path' v))"
  using scan_redact [of opts path path']
  by (auto simp: scan_opt_def split_beta split: option.split)

lemma scan_context_redact:
  "pii_mode opts = Redact \<Longrightarrow>
   scan_context opts (snd (scan_context opts kvs)) = ([], snd (scan_context opts kvs))"
  by (induction opts kvs rule: scan_context.induct)
     (auto simp: split_beta Let_def scan_redact split: ctx_val.split)

lemma sanitize_redact:
  assumes "pii_mode opts = Redact"
  shows "sanitize opts (snd (sanitize opts e)) = ([], snd (sanitize opts e))"
proof -
  have "scan_subject opts (snd (scan_subject opts s)) = ([], snd (scan_subject opts s))" for s
    using scan_redact [OF assms] by (auto simp: scan_subject_def split_beta split: option.split)
  moreover have "scan_actor opts (snd (scan_actor opts s)) = ([], snd (scan_actor opts s))" for s
    using scan_opt_redact [OF assms] by (auto simp: scan_actor_def split_beta split: option.split)
  ultimately show ?thesis
    using scan_context_redact [OF assms] scan_opt_redact [OF assms]
    by (auto simp: sanitize_def split_beta Let_def split: option.split)
qed

lemma sanitize_clean:
  "pii_mode opts = Redact \<Longrightarrow> fst (sanitize opts (snd (sanitize opts e))) = []"
  by (simp add: sanitize_redact)

text \<open>In redact mode two guardrails in a row are as good as one: the inner one never fires.\<close>

lemma guardrail_idempotent:
  assumes "pii_mode opts = Redact"
  shows "createPiiGuardrailSink opts onDetect (createPiiGuardrailSink opts onDetect' inner) e w
       = createPiiGuardrailSink opts onDetect inner e w"
  using sanitize_redact [OF assms, of e] assms
  by (auto simp: createPiiGuardrailSink_def split_beta split: prod.splits sum.splits)

text \<open>Dropped events reach the inner sink in no case; unflagged events reach it unchanged.\<close>

lemma guardrail_drop:
  assumes "pii_mode opts = Drop" "fst (sanitize opts e) \<noteq> []"
  shows "createPiiGuardrailSink opts onDetect inner e w =
    (case onDetect (snd (sanitize opts e)) (fst (sanitize opts e)) w of (r, w') \<Rightarrow> (r, w'))"
  using assms by (auto simp: createPiiGuardrailSink_def split: prod.splits sum.splits)

lemma scan_context_clean: "fst (scan_context opts kvs) = [] \<Longrightarrow> snd (scan_context opts kvs) = kvs"
  by (induction opts kvs rule: scan_context.induct)
     (auto simp: split_beta Let_def scan_def split: ctx_val.splits option.splits if_splits)

lemma scan_opt_clean: "fst (scan_opt opts path v) = [] \<Longrightarrow> snd (scan_opt opts path v) = v"
  by (auto simp: scan_opt_def scan_def split: option.splits if_splits prod.splits)

lemma sanitize_no_findings: "fst (sanitize opts e) = [] \<Longrightarrow> snd (sanitize opts e) = e"
proof -
  assume f: "fst (sanitize opts e) = []"
  have "fst (scan_subject opts (ev_subject e)) = [] \<Longrightarrow> snd (scan_subject opts (ev_subject e)) = ev_subject e"
    by (auto simp: scan_subject_def scan_def split: option.splits if_splits prod.splits)
  moreover have "fst (scan_actor opts (ev_actor e)) = [] \<Longrightarrow> snd (scan_actor opts (ev_actor e)) = ev_actor e"
    using scan_opt_clean [of opts] by (auto simp: scan_actor_def split_beta split: option.splits)
  ultimately show ?thesis
    using f scan_opt_clean [of opts] scan_context_clean [of opts]
    by (auto simp: sanitize_def split_beta Let_def split: option.splits)
qed

lemma guardrail_clean:
  "fst (sanitize opts e) = [] \<Longrightarrow> createPiiGuardrailSink opts onDetect inner e w = inner e w"
  using sanitize_no_findings [of opts e] by (auto simp: createPiiGuardrailSink_def split: prod.splits)

subsection \<open>Properties\<close>

text \<open>
  the in-memory sink is a window. After any sequence of writes it holds exactly the last
  \<open>capacity\<close> events, oldest first.
\<close>

theorem memory_sink_is_a_window:
  "memory_events (memory_run (int n) (memory_reset buf) es) = drop (length es - n) es"
  using memory_run_window [of "[]" n es] by (simp add: memory_events_def memory_reset_def)

lemma first_failure:
  "fst (write_all ss e w) = [] \<longleftrightarrow>
   (\<nexists>i. i < length ss \<and> isl (fst ((ss ! i) e (snd (write_all (take i ss) e w)))))"
proof (induction ss arbitrary: w)
  case Nil
  then show ?case by simp
next
  case (Cons s ss)
  obtain r w1 where s: "s e w = (r, w1)" by (cases "s e w")
  show ?case
  proof (cases r)
    case (Inl err)
    then show ?thesis using s by (auto split: prod.splits intro!: exI [of _ 0])
  next
    case (Inr u)
    then have "write_all (s # take i ss) e w = write_all (take i ss) e w1" for i using s by simp
    then have "(\<exists>i < Suc (length ss). isl (fst (((s # ss) ! i) e (snd (write_all (take i (s # ss)) e w))))) \<longleftrightarrow>
        (\<exists>i < length ss. isl (fst ((ss ! i) e (snd (write_all (take i ss) e w1)))))"
      unfolding Ex_less_Suc2 using s Inr by simp
    then show ?thesis using s Inr Cons.IH [of w1] by (simp split: prod.split)
  qed
qed

text \<open>
  sink composition. Fail-soft and fail-hard composition run every sink, each on the state its
  predecessors left, and leave the same state; the fail-soft write always succeeds, and the
  fail-hard write succeeds exactly when no sink failed.
\<close>

theorem composed_sinks_contract:
  "fst (composeSinks ss e w) = Inr () \<and>
   snd (composeFailHardSinks ss e w) = snd (composeSinks ss e w) \<and>
   snd (composeSinks (ss @ ts) e w) = snd (composeSinks ts e (snd (composeSinks ss e w))) \<and>
   (fst (composeFailHardSinks ss e w) = Inr () \<longleftrightarrow>
      (\<nexists>i. i < length ss \<and> isl (fst ((ss ! i) e (snd (composeSinks (take i ss) e w))))))"
proof -
  have w: "snd (composeSinks xs e v) = snd (write_all xs e v)" for xs v
    by (simp add: composeSinks_def composeFailSoftSinks_def split: prod.split)
  have "fst (composeFailHardSinks ss e w) = Inr () \<longleftrightarrow> fst (write_all ss e w) = []"
    by (simp add: composeFailHard_throws_iff split: list.split)
  then show ?thesis
    by (simp add: w first_failure write_all_world compose_same_world composeFailSoft_never_throws composeSinks_def [of ss])
       (simp add: w [unfolded composeSinks_def])
qed

text \<open>
  redaction is complete with respect to its own patterns. Scanning an event that the guardrail
  has redacted finds nothing and changes nothing, so a redaction marker is never itself flagged.
\<close>

theorem redacted_events_are_clean:
  "sanitize (opts\<lparr>pii_mode := Redact\<rparr>) (snd (sanitize (opts\<lparr>pii_mode := Redact\<rparr>) e)) =
   ([], snd (sanitize (opts\<lparr>pii_mode := Redact\<rparr>) e))"
  by (rule sanitize_redact) simp

lemma startsWith_set: "startsWith s p \<Longrightarrow> set p \<subseteq> set s"
  using set_take_subset [of "length p" s] by (auto simp: startsWith_def)

lemma secret_at_letters: "secret_at t \<Longrightarrow> CHR ''p'' \<in> set t \<or> CHR ''s'' \<in> set t"
  by (auto simp: secret_at_def two_words_def dest!: startsWith_set)

lemma some_suffix_letters: "some_suffix secret_at t \<Longrightarrow> CHR ''p'' \<in> set t \<or> CHR ''s'' \<in> set t"
proof (induction t)
  case (Cons c t)
  then consider "secret_at (c # t)" | "some_suffix secret_at t" by auto
  then show ?case using secret_at_letters [of "c # t"] Cons.IH by cases auto
qed (use secret_nil in blast)

lemma lower_hex_no_letters: "is_hex_char c \<or> c = CHR ''x'' \<Longrightarrow> lower_char c \<notin> {CHR ''p'', CHR ''s''}"
proof -
  assume a: "is_hex_char c \<or> c = CHR ''x''"
  have "(of_char (lower_char c) :: nat) \<notin> {112, 115}"
    using a by (auto simp: is_hex_char_def hex_val_def Let_def lower_char_def split: if_splits)
  then show ?thesis by auto
qed

text \<open>
  with the default threshold the guardrail does not flag a raw 32-byte key. The hex form of a
  private key is 66 characters, below the 80 that count as long, and matches no other pattern; it
  is forwarded unredacted (the option's documentation counts raw private keys as caught).
\<close>

theorem raw_private_key_is_not_flagged:
  assumes "length ks = 64" "list_all is_hex_char ks"
  shows "classify 80 (''0x'' @ ks) = None"
proof -
  have hex: "is_hex_char c \<or> c = CHR ''x''" if "c \<in> set (''0x'' @ ks)" for c
    using that assms(2) by (auto simp: list_all_iff is_hex_char_def hex_val_def)
  have "\<not> secret_substring (''0x'' @ ks)"
  proof
    assume "secret_substring (''0x'' @ ks)"
    then obtain c where "c \<in> set (toLowerCase (''0x'' @ ks))" "c \<in> {CHR ''p'', CHR ''s''}"
      using some_suffix_letters unfolding secret_substring_def by blast
    then obtain d where "d \<in> set (''0x'' @ ks)" "lower_char d \<in> {CHR ''p'', CHR ''s''}"
      unfolding toLowerCase_def set_map by blast
    then show False using hex lower_hex_no_letters by blast
  qed
  moreover have "\<not> pem_block (''0x'' @ ks)"
    using some_suffix_starts [of "''-----BEGIN ''" "''0x'' @ ks"] hex [of "CHR ''-''"]
    by (auto simp: pem_block_def is_hex_char_def hex_val_def)
  ultimately show ?thesis using assms(1) by (simp add: classify_def long_hex_def)
qed

theorem raw_private_key_is_not_flagged_witness:
  "classify 80 (''0x'' @ replicate 64 (CHR ''a'')) = None"
  by (rule raw_private_key_is_not_flagged) (simp_all add: list_all_iff is_hex_char_def hex_val_def)

end
