(* ===== verification/JtiStores.thy ===== *)
theory JtiStores
  imports Prelude
begin

section \<open>Usage counters for one-shot identifiers\<close>

text \<open>
  \<open>packages/mcp-runtime/src/jti-stores.ts\<close>: the three \<open>JtiStore\<close> adapters. \<open>trackUsage\<close> is one
  atomic step of the store, so concurrent callers are sequences of such steps. The SQL statements
  of the adapters are read as what they do to the table \<open>jti \<mapsto> usage\<close>.

  The locale \<open>jti_store\<close> is the contract the verifiers rely on. It is interpreted for each
  adapter, and its lemmas count how often one identifier can be granted.
\<close>

subsection \<open>The memory adapter\<close>

type_synonym jti_usage = "string \<rightharpoonup> int"

datatype environment = Production | Development

definition ALLOW_MEMORY_JTI_ENV :: string where
  "ALLOW_MEMORY_JTI_ENV = ''AGENTIC_ALLOW_MEMORY_JTI_STORE''"

definition memory_refused :: string where
  "memory_refused =
     ''[mcp-runtime] createMemoryJtiStore refused: environment=\"production\". '' @
     ''The memory store offers no cross-process replay protection. Use '' @
     ''createSqliteJtiStore / createPostgresJtiStore / a D1-backed store in '' @
     ''production. If you genuinely need to override (e.g., isolated test '' @
     ''worker), set '' @ ALLOW_MEMORY_JTI_ENV @ ''=true and accept that delegation '' @
     ''tokens are replay-vulnerable across restarts.''"

text \<open>
  The constructor reads the process environment \<open>env\<close> and the module's \<open>memoryStoreWarnedOnce\<close>
  flag; it answers with the new store or the error, the flag afterwards, and whether it warned.
\<close>

definition createMemoryJtiStore ::
    "environment \<Rightarrow> (string \<rightharpoonup> string) \<Rightarrow> bool \<Rightarrow> jti_usage js \<times> bool \<times> bool" where
  "createMemoryJtiStore environment env warnedOnce =
     (if environment = Production \<and> env ALLOW_MEMORY_JTI_ENV \<noteq> Some ''true''
      then (Inl (Error memory_refused), warnedOnce, False)
      else if environment = Production \<and> \<not> warnedOnce then (Inr Map.empty, True, True)
      else (Inr Map.empty, warnedOnce, False))"

definition memory_trackUsage :: "string \<Rightarrow> int \<Rightarrow> jti_usage \<Rightarrow> (int \<times> bool) js \<times> jti_usage" where
  "memory_trackUsage jti limit usage =
     (let current = (case usage jti of None \<Rightarrow> 0 | Some n \<Rightarrow> n) + 1
      in (Inr (current, current \<le> limit), usage(jti \<mapsto> current)))"

subsection \<open>The SQL adapters\<close>

text \<open>
  \<open>INSERT \<dots> VALUES (jti, 1) ON CONFLICT (jti) DO UPDATE SET usage = usage + 1 RETURNING usage\<close> and
  \<open>CREATE TABLE IF NOT EXISTS\<close>. A missing table is \<open>None\<close>.
\<close>

definition sql_upsert :: "string \<Rightarrow> jti_usage \<Rightarrow> int \<times> jti_usage" where
  "sql_upsert jti t =
     (case t jti of None \<Rightarrow> (1, t(jti \<mapsto> 1)) | Some n \<Rightarrow> (n + 1, t(jti \<mapsto> n + 1)))"

definition sql_create :: "jti_usage option \<Rightarrow> jti_usage option" where
  "sql_create t = (case t of None \<Rightarrow> Some Map.empty | Some u \<Rightarrow> Some u)"

definition setup_error :: "string \<Rightarrow> string" where
  "setup_error db = ''[mcp-runtime] '' @ db @ '' JTI store: migrate() was not called before trackUsage. '' @
     ''Call `await store.migrate()` once at bootstrap (it is idempotent). '' @
     ''H7-B.6 (PKG-MCP-RUNTIME-001 / EXT-027 closure) moved DDL off the hot path.''"

record sqlite_store =
  sq_migrated :: bool
  sq_upsert :: bool
  sq_table :: "jti_usage option"

definition createSqliteJtiStore :: "jti_usage option \<Rightarrow> sqlite_store" where
  "createSqliteJtiStore db = \<lparr>sq_migrated = False, sq_upsert = False, sq_table = db\<rparr>"

definition sqlite_migrate :: "sqlite_store \<Rightarrow> sqlite_store" where
  "sqlite_migrate s =
     (if sq_migrated s then s
      else s\<lparr>sq_table := sql_create (sq_table s), sq_upsert := True, sq_migrated := True\<rparr>)"

text \<open>A table dropped behind the adapter's back makes the prepared statement throw.\<close>

definition sqlite_trackUsage :: "string \<Rightarrow> int \<Rightarrow> sqlite_store \<Rightarrow> (int \<times> bool) js \<times> sqlite_store" where
  "sqlite_trackUsage jti limit s =
     (if \<not> sq_migrated s \<or> \<not> sq_upsert s then (Inl (Error (setup_error ''sqlite'')), s)
      else (case sq_table s of
              None \<Rightarrow> (Inl (Error ''no such table''), s)
            | Some t \<Rightarrow> (case sql_upsert jti t of
                (current, t') \<Rightarrow> (Inr (current, current \<le> limit), s\<lparr>sq_table := Some t'\<rparr>))))"

record postgres_store =
  pg_migrated :: bool
  pg_table :: "jti_usage option"

definition createPostgresJtiStore :: "jti_usage option \<Rightarrow> postgres_store" where
  "createPostgresJtiStore db = \<lparr>pg_migrated = False, pg_table = db\<rparr>"

definition postgres_migrate :: "postgres_store \<Rightarrow> postgres_store" where
  "postgres_migrate s =
     (if pg_migrated s then s else s\<lparr>pg_table := sql_create (pg_table s), pg_migrated := True\<rparr>)"

definition postgres_trackUsage :: "string \<Rightarrow> int \<Rightarrow> postgres_store \<Rightarrow> (int \<times> bool) js \<times> postgres_store" where
  "postgres_trackUsage jti limit s =
     (if \<not> pg_migrated s then (Inl (Error (setup_error ''postgres'')), s)
      else (case pg_table s of
              None \<Rightarrow> (Inl (Error ''relation does not exist''), s)
            | Some t \<Rightarrow> (case sql_upsert jti t of
                (current, t') \<Rightarrow> (Inr (current, current \<le> limit), s\<lparr>pg_table := Some t'\<rparr>))))"

subsection \<open>The contract\<close>

type_synonym 's track = "string \<Rightarrow> int \<Rightarrow> 's \<Rightarrow> (int \<times> bool) js \<times> 's"

fun track_all :: "'s track \<Rightarrow> (string \<times> int) list \<Rightarrow> 's \<Rightarrow> (int \<times> bool) js list \<times> 's" where
  "track_all track [] s = ([], s)"
| "track_all track ((j, l) # reqs) s =
     (case track j l s of (r, s1) \<Rightarrow> (case track_all track reqs s1 of (rs, s2) \<Rightarrow> (r # rs, s2)))"

definition granted :: "(int \<times> bool) js \<Rightarrow> bool" where
  "granted r = (case r of Inl _ \<Rightarrow> False | Inr (_, ok) \<Rightarrow> ok)"

definition grants :: "'s track \<Rightarrow> string \<Rightarrow> (string \<times> int) list \<Rightarrow> 's \<Rightarrow> nat" where
  "grants track j reqs s =
     length (filter (\<lambda>(q, r). fst q = j \<and> granted r) (zip reqs (fst (track_all track reqs s))))"

definition requests_for :: "string \<Rightarrow> (string \<times> int) list \<Rightarrow> nat" where
  "requests_for j reqs = length (filter (\<lambda>q. fst q = j) reqs)"

lemma grants_Nil [simp]: "grants track j [] s = 0"
  by (simp add: grants_def)

lemma grants_Cons:
  "grants track j ((j', l) # reqs) s =
     (if j' = j \<and> granted (fst (track j' l s)) then 1 else 0) + grants track j reqs (snd (track j' l s))"
  by (auto simp: grants_def split_beta)

locale jti_store =
  fixes track :: "'s track"
    and uses :: "'s \<Rightarrow> string \<Rightarrow> int"
    and ready :: "'s \<Rightarrow> bool"
  assumes track_answer: "ready s \<Longrightarrow> fst (track j l s) = Inr (uses s j + 1, uses s j + 1 \<le> l)"
    and track_counts: "ready s \<Longrightarrow> uses (snd (track j l s)) = (uses s)(j := uses s j + 1)"
    and track_ready: "ready s \<Longrightarrow> ready (snd (track j l s))"
    and track_fails: "\<not> ready s \<Longrightarrow> \<not> granted (fst (track j l s)) \<and> snd (track j l s) = s"
begin

text \<open>Exactly as many grants as the limit leaves room for, however the requests are interleaved.\<close>

lemma grants_exact:
  "ready s \<Longrightarrow> (\<forall>q \<in> set reqs. fst q = j \<longrightarrow> snd q = l) \<Longrightarrow>
   grants track j reqs s = min (requests_for j reqs) (nat (l - uses s j))"
proof (induction reqs arbitrary: s)
  case Nil
  then show ?case by (simp add: requests_for_def)
next
  case (Cons q reqs)
  obtain j' l' where q: "q = (j', l')" by (cases q)
  have rest: "grants track j reqs (snd (track j' l' s)) =
      min (requests_for j reqs) (nat (l - uses (snd (track j' l' s)) j))"
    using Cons by (simp add: track_ready)
  show ?case
  proof (cases "j' = j")
    case True
    then have "l' = l" using Cons.prems q by simp
    with True q rest Cons.prems(1) show ?thesis
      by (auto simp: grants_Cons requests_for_def granted_def track_answer track_counts)
  next
    case False
    with q rest Cons.prems(1) show ?thesis
      by (simp add: grants_Cons requests_for_def track_counts)
  qed
qed

lemma grants_bound:
  assumes "\<forall>q \<in> set reqs. fst q = j \<longrightarrow> snd q = l" "0 \<le> uses s j"
  shows "grants track j reqs s \<le> nat l"
proof (cases "ready s")
  case True
  from grants_exact [OF True assms(1)] assms(2) show ?thesis by linarith
next
  case False
  have "grants track j reqs s = 0" for reqs
    using track_fails [OF False] by (induction reqs) (auto simp: grants_Cons)
  then show ?thesis by simp
qed

text \<open>A single-use identifier (limit one) is granted to the first caller and to nobody else.\<close>

lemma single_use:
  assumes "ready s" "uses s j = 0" "\<forall>q \<in> set reqs. fst q = j \<longrightarrow> snd q = 1"
  shows "grants track j reqs s = (if j \<in> fst ` set reqs then 1 else 0)"
proof -
  have "requests_for j reqs = 0 \<longleftrightarrow> j \<notin> fst ` set reqs"
    by (auto simp: requests_for_def filter_empty_conv)
  then show ?thesis using grants_exact [OF assms(1,3)] assms(2) by (cases "requests_for j reqs") auto
qed

end

subsection \<open>The adapters meet the contract\<close>

definition usage_of :: "jti_usage \<Rightarrow> string \<Rightarrow> int" where
  "usage_of u j = (case u j of None \<Rightarrow> 0 | Some n \<Rightarrow> n)"

definition sqlite_ready :: "sqlite_store \<Rightarrow> bool" where
  "sqlite_ready s \<longleftrightarrow> sq_migrated s \<and> sq_upsert s \<and> sq_table s \<noteq> None"

definition sqlite_uses :: "sqlite_store \<Rightarrow> string \<Rightarrow> int" where
  "sqlite_uses s = usage_of (case sq_table s of None \<Rightarrow> Map.empty | Some t \<Rightarrow> t)"

definition postgres_ready :: "postgres_store \<Rightarrow> bool" where
  "postgres_ready s \<longleftrightarrow> pg_migrated s \<and> pg_table s \<noteq> None"

definition postgres_uses :: "postgres_store \<Rightarrow> string \<Rightarrow> int" where
  "postgres_uses s = usage_of (case pg_table s of None \<Rightarrow> Map.empty | Some t \<Rightarrow> t)"

lemma sql_upsert_usage:
  "sql_upsert j t = (usage_of t j + 1, t(j \<mapsto> usage_of t j + 1))"
  by (simp add: sql_upsert_def usage_of_def split: option.split)

lemma usage_of_upd [simp]: "usage_of (t(j \<mapsto> n)) = (usage_of t)(j := n)"
  by (auto simp: usage_of_def fun_eq_iff)

interpretation mem: jti_store memory_trackUsage usage_of "\<lambda>_. True"
  by unfold_locales (simp_all add: memory_trackUsage_def Let_def usage_of_def fun_eq_iff)

interpretation sqlite: jti_store sqlite_trackUsage sqlite_uses sqlite_ready
  by unfold_locales
     (auto simp: sqlite_trackUsage_def sqlite_ready_def sqlite_uses_def sql_upsert_usage granted_def)

interpretation pg: jti_store postgres_trackUsage postgres_uses postgres_ready
  by unfold_locales
     (auto simp: postgres_trackUsage_def postgres_ready_def postgres_uses_def sql_upsert_usage granted_def)

text \<open>Migration makes a store ready and keeps the counts of an existing table; doing it twice changes nothing.\<close>

lemma sqlite_migrate_ready:
  "sqlite_ready (sqlite_migrate (createSqliteJtiStore db)) \<and>
   sqlite_uses (sqlite_migrate (createSqliteJtiStore db)) = usage_of (case db of None \<Rightarrow> Map.empty | Some t \<Rightarrow> t)"
  by (simp add: createSqliteJtiStore_def sqlite_migrate_def sqlite_ready_def sqlite_uses_def sql_create_def
      split: option.split)

lemma sqlite_migrate_idem: "sqlite_migrate (sqlite_migrate s) = sqlite_migrate s"
  by (simp add: sqlite_migrate_def)

lemma postgres_migrate_ready:
  "postgres_ready (postgres_migrate (createPostgresJtiStore db)) \<and>
   postgres_uses (postgres_migrate (createPostgresJtiStore db)) = usage_of (case db of None \<Rightarrow> Map.empty | Some t \<Rightarrow> t)"
  by (simp add: createPostgresJtiStore_def postgres_migrate_def postgres_ready_def postgres_uses_def sql_create_def
      split: option.split)

lemma postgres_migrate_idem: "postgres_migrate (postgres_migrate s) = postgres_migrate s"
  by (simp add: postgres_migrate_def)

end
