(* ===== verification/DelegationToken.thy ===== *)
theory DelegationToken
  imports Base64url CanonicalJson Evaluator AuditSinks JtiStores
begin

section \<open>Delegation tokens: mint and verify\<close>

text \<open>
  \<open>packages/delegation/src/token.ts\<close>. A token is the base64url of the canonical claims, a dot, and
  the base64url of the session key's signature. \<open>mintDelegationToken\<close> builds one and records it;
  \<open>verifyDelegationToken\<close> runs the whole pipeline: decoding, audience and expiry, recovery of the
  session key, on-chain revocation, the account's signature, the session-key binding, the caveats,
  the quorum and on-chain acceptance gates, and the usage counter. Each stage is a definition with
  the lines of the source it translates; the pipeline composes them in order.

  Chain reads, the elliptic-curve recovery and the caller's clock, signer and random bytes are
  fields of the environment. A read that throws is an \<open>Inl\<close> with the error's text.
\<close>

subsection \<open>Claims and their JavaScript objects\<close>

text \<open>
  \<open>Omit<DelegationTokenClaims, 'iat' | 'exp' | 'jti'>\<close> with the optional \<open>jti\<close> and \<open>ttlSeconds\<close>; lifetime and
  usage limit are whole numbers.
\<close>

record mint_claims =
  mc_iss :: string
  mc_aud :: string
  mc_sub :: address
  mc_delegation :: delegation
  mc_sessionKeyAddress :: address
  mc_sessionDelegation :: "delegation option"
  mc_jti :: "string option"
  mc_ttlSeconds :: "int option"
  mc_usageLimit :: "int option"

text \<open>
  The claims a verifier works on. A field the code only compares (or never reads) is \<open>None\<close> when
  it is absent or of another type.
\<close>

record token_claims =
  tc_iss :: "string option"
  tc_aud :: "string option"
  tc_sub :: "string option"
  tc_delegation :: delegation
  tc_sessionKeyAddress :: address
  tc_sessionDelegation :: "delegation option"
  tc_jti :: string
  tc_iat :: "int option"
  tc_exp :: "int option"
  tc_usageLimit :: "int option"

text \<open>
  The objects that \<open>canonicalJSON\<close> walks. \<open>oid\<close> gives the identity of the object at a path:
  \<open>[0]\<close> the claims, \<open>[1]\<close> the delegation, \<open>[2]\<close> the leaf, and their caveats below.
\<close>

definition opt_jsval :: "('a \<Rightarrow> jsval) \<Rightarrow> 'a option \<Rightarrow> jsval" where
  "opt_jsval f v = (case v of None \<Rightarrow> JUndefined | Some x \<Rightarrow> f x)"

definition caveat_jsval :: "nat \<Rightarrow> caveat \<Rightarrow> jsval" where
  "caveat_jsval r c =
     JObject r [(''enforcer'', JString (enforcer c)), (''terms'', JString (terms c)),
                (''args'', opt_jsval JString (args c))]"

definition salt_jsval :: "salt \<Rightarrow> jsval" where
  "salt_jsval s = (case s of SaltBig n \<Rightarrow> JBigInt n | SaltStr t \<Rightarrow> JString t)"

definition delegation_jsval :: "(nat list \<Rightarrow> nat) \<Rightarrow> nat \<Rightarrow> delegation \<Rightarrow> jsval" where
  "delegation_jsval oid r d =
     JObject (oid [r])
       [(''delegator'', JString (delegator d)), (''delegate'', JString (delegate d)),
        (''authority'', JString (authority d)),
        (''caveats'', JArray (map (\<lambda>(i, c). caveat_jsval (oid [r, i]) c) (zip [0..<length (caveats d)] (caveats d)))),
        (''salt'', salt_jsval (salt_of d)), (''signature'', JString (signature d))]"

definition claims_jsval :: "(nat list \<Rightarrow> nat) \<Rightarrow> mint_claims \<Rightarrow> string \<Rightarrow> int \<Rightarrow> int \<Rightarrow> jsval" where
  "claims_jsval oid c jti iat exp =
     JObject (oid [0])
       ([(''iss'', JString (mc_iss c)), (''aud'', JString (mc_aud c)), (''sub'', JString (mc_sub c)),
         (''delegation'', delegation_jsval oid 1 (mc_delegation c)),
         (''sessionKeyAddress'', JString (mc_sessionKeyAddress c))] @
        (case mc_sessionDelegation c of None \<Rightarrow> []
         | Some sd \<Rightarrow> [(''sessionDelegation'', delegation_jsval oid 2 sd)]) @
        [(''jti'', JString jti), (''iat'', JNumber (Some iat)), (''exp'', JNumber (Some exp)),
         (''usageLimit'', opt_jsval (\<lambda>n. JNumber (Some n)) (mc_usageLimit c))])"

subsection \<open>Signatures\<close>

definition hexToBytes :: "string \<Rightarrow> bytes" where
  "hexToBytes h = pair_bytes (strip0x h)"

definition eip191Digest :: "crypto_lib \<Rightarrow> string \<Rightarrow> bytes" where
  "eip191Digest lib message =
     (let bs = TextEncoder message;
          prefix = TextEncoder (CHR 0x19 # ''Ethereum Signed Message:'' @ CHR 0x0A # nat_str (length bs))
      in keccak_256 lib (prefix @ bs))"

fun hex_num :: "int \<Rightarrow> string \<Rightarrow> int option" where
  "hex_num acc [] = Some acc"
| "hex_num acc (c # s) = (case hex_val c of None \<Rightarrow> None | Some n \<Rightarrow> hex_num (16 * acc + int n) s)"

text \<open>
  \<open>secp r s recovery digest\<close> stands for the curve library: the uncompressed public key, or the
  text of the error it throws. \<open>recovery\<close> is \<open>None\<close> for \<open>NaN\<close>.
\<close>

definition recoverEoaFromEip191Sig ::
    "crypto_lib \<Rightarrow> (int \<Rightarrow> int \<Rightarrow> int option \<Rightarrow> bytes \<Rightarrow> string + bytes) \<Rightarrow> string \<Rightarrow> hex \<Rightarrow> string + address" where
  "recoverEoaFromEip191Sig lib secp message sigText =
     (let sig = strip0x sigText in
      if length sig \<noteq> 130
      then Inl (''signature must be 65 bytes (130 hex chars); got '' @ nat_str (length sig))
      else (case hex_num 0 (take 64 sig) of
              None \<Rightarrow> Inl (''Cannot convert 0x'' @ take 64 sig @ '' to a BigInt'')
            | Some r \<Rightarrow>
                (case hex_num 0 (take 64 (drop 64 sig)) of
                   None \<Rightarrow> Inl (''Cannot convert 0x'' @ take 64 (drop 64 sig) @ '' to a BigInt'')
                 | Some s \<Rightarrow>
                     (let v = parseInt16 (sig ! 128) (sig ! 129);
                          recovery = map_option (\<lambda>n. if 27 \<le> n then n - 27 else n) v
                      in case secp r s recovery (eip191Digest lib message) of
                           Inl e \<Rightarrow> Inl e
                         | Inr pub \<Rightarrow> Inr (''0x'' @ bytes_hex (drop 12 (keccak_256 lib (drop 1 pub))))))))"

definition randomJti :: "bytes \<Rightarrow> string" where
  "randomJti buf = ''jti_'' @ bytes_hex buf"

subsection \<open>Mint\<close>

definition DEFAULT_MAX_TTL_SECONDS :: int where
  "DEFAULT_MAX_TTL_SECONDS = 60 * 60"

definition DEFAULT_MAX_USAGE_LIMIT :: int where
  "DEFAULT_MAX_USAGE_LIMIT = 100"

record mint_opts =
  mo_correlationId :: "string option"
  mo_maxAllowedTtlSeconds :: "int option"
  mo_maxAllowedUsageLimit :: "int option"
  mo_acceptElevatedRisk :: bool

record mint_env =
  me_dateNow :: int
  me_random :: bytes
  me_oid :: "nat list \<Rightarrow> nat"
  me_signMessage :: "string \<Rightarrow> hex js"
  me_eventId :: string
  me_eventTime :: string

definition or_default :: "'a option \<Rightarrow> 'a \<Rightarrow> 'a" where
  "or_default v d = (case v of None \<Rightarrow> d | Some x \<Rightarrow> x)"

definition mint_guard :: "mint_opts \<Rightarrow> mint_claims \<Rightarrow> int \<Rightarrow> string option" where
  "mint_guard opts claims ttl =
     (let ttlCeiling = or_default (mo_maxAllowedTtlSeconds opts) DEFAULT_MAX_TTL_SECONDS;
          useCeiling = or_default (mo_maxAllowedUsageLimit opts) DEFAULT_MAX_USAGE_LIMIT
      in if ttl > ttlCeiling \<and> \<not> mo_acceptElevatedRisk opts
         then Some (''mintDelegationToken: ttlSeconds='' @ int_str ttl @ '' exceeds ceiling='' @ int_str ttlCeiling @
                    ''. Tighten TTL or set { acceptElevatedRisk: true } to acknowledge '' @
                    ''the elevated blast-radius of a long-lived token.'')
         else if mc_usageLimit claims \<noteq> None \<and> the (mc_usageLimit claims) > useCeiling \<and> \<not> mo_acceptElevatedRisk opts
         then Some (''mintDelegationToken: usageLimit='' @ int_str (the (mc_usageLimit claims)) @ '' exceeds ceiling='' @
                    int_str useCeiling @ ''. Tighten usageLimit or set { acceptElevatedRisk: true }.'')
         else if ttl \<le> 0 then Some (''mintDelegationToken: ttlSeconds must be positive; got '' @ int_str ttl)
         else if mc_usageLimit claims \<noteq> None \<and> the (mc_usageLimit claims) \<le> 0
         then Some (''mintDelegationToken: usageLimit must be positive when set; got '' @ int_str (the (mc_usageLimit claims)))
         else None)"

definition mint_event :: "mint_env \<Rightarrow> mint_opts \<Rightarrow> mint_claims \<Rightarrow> string \<Rightarrow> int \<Rightarrow> audit_event" where
  "mint_event env opts claims jti ttl =
     buildEvent (me_eventId env) (me_eventTime env)
       ((blank_event ''delegation.mint'' Success)
          \<lparr>ev_correlationId := mo_correlationId opts,
           ev_actor := Some (User, Some (delegator (mc_delegation claims))),
           ev_subject := Some (''jti'', jti),
           ev_audience := Some (mc_aud claims),
           ev_context := Some [(''iss'', CStr (mc_iss claims)), (''sub'', CStr (mc_sub claims)),
             (''sessionKeyAddress'', CStr (mc_sessionKeyAddress claims)), (''ttlSeconds'', CNum ttl),
             (''usageLimit'', case mc_usageLimit claims of None \<Rightarrow> CNull | Some n \<Rightarrow> CNum n)]\<rparr>)"

definition mintDelegationToken ::
    "mint_env \<Rightarrow> mint_opts \<Rightarrow> 'w sink option \<Rightarrow> mint_claims \<Rightarrow> 'w \<Rightarrow> (string \<times> string) js \<times> 'w" where
  "mintDelegationToken env opts auditSink claims w =
     (let jti = or_default (mc_jti claims) (randomJti (me_random env));
          ttl = or_default (mc_ttlSeconds claims) 600
      in case mint_guard opts claims ttl of
           Some msg \<Rightarrow> (Inl (Error msg), w)
         | None \<Rightarrow>
             (let iat = me_dateNow env div 1000;
                  exp = iat + ttl
              in case canonicalJSON (claims_jsval (me_oid env) claims jti iat exp) of
                   Inl e \<Rightarrow> (Inl e, w)
                 | Inr canonical \<Rightarrow>
                     (case me_signMessage env canonical of
                        Inl e \<Rightarrow> (Inl e, w)
                      | Inr sig \<Rightarrow>
                          (let sigBytes = hexToBytes (strip0x sig);
                               token = base64urlEncode canonical @ ''.'' @ bytesToBase64url sigBytes
                           in case auditSink of
                                None \<Rightarrow> (Inr (token, jti), w)
                              | Some write \<Rightarrow>
                                  (case write (mint_event env opts claims jti ttl) w of
                                     (Inl e, w') \<Rightarrow> (Inl e, w')
                                   | (Inr _, w') \<Rightarrow> (Inr (token, jti), w'))))))"

subsection \<open>Decoding\<close>

text \<open>
  Reading the parsed JSON at the declared type. A JSON value of another shape than
  \<open>DelegationTokenClaims\<close> is \<open>None\<close>.
\<close>

definition str_of :: "json option \<Rightarrow> string option" where
  "str_of v = (case v of Some (Str s) \<Rightarrow> Some s | _ \<Rightarrow> None)"

definition num_of :: "json option \<Rightarrow> int option" where
  "num_of v = (case v of Some (Num n) \<Rightarrow> Some n | _ \<Rightarrow> None)"

definition caveat_of :: "json \<Rightarrow> caveat option" where
  "caveat_of v =
     (case v of
        Obj ms \<Rightarrow>
          (case (str_of (map_of ms ''enforcer''), str_of (map_of ms ''terms''), map_of ms ''args'') of
             (Some e, Some t, None) \<Rightarrow> Some \<lparr>enforcer = e, terms = t, args = None\<rparr>
           | (Some e, Some t, Some (Str a)) \<Rightarrow> Some \<lparr>enforcer = e, terms = t, args = Some a\<rparr>
           | _ \<Rightarrow> None)
      | _ \<Rightarrow> None)"

definition delegation_of :: "(string \<Rightarrow> salt) \<Rightarrow> json \<Rightarrow> delegation option" where
  "delegation_of readSalt v =
     (case v of
        Obj ms \<Rightarrow>
          (case (str_of (map_of ms ''delegator''), str_of (map_of ms ''delegate''), str_of (map_of ms ''authority''),
                 map_of ms ''caveats'', str_of (map_of ms ''salt''), str_of (map_of ms ''signature'')) of
             (Some dr, Some de, Some au, Some (Arr cs), Some sa, Some si) \<Rightarrow>
               (case those (map caveat_of cs) of
                  Some cvs \<Rightarrow> Some \<lparr>delegator = dr, delegate = de, authority = au, caveats = cvs,
                                   salt_of = readSalt sa, signature = si\<rparr>
                | None \<Rightarrow> None)
           | _ \<Rightarrow> None)
      | _ \<Rightarrow> None)"

definition leaf_of :: "json option \<Rightarrow> delegation option option" where
  "leaf_of v = (case v of None \<Rightarrow> Some None | Some Null \<Rightarrow> Some None
     | Some j \<Rightarrow> map_option Some (delegation_of SaltStr j))"

definition usage_limit_of :: "json option \<Rightarrow> int option option" where
  "usage_limit_of v = (case v of None \<Rightarrow> Some None | Some Null \<Rightarrow> Some None | Some (Num n) \<Rightarrow> Some (Some n) | _ \<Rightarrow> None)"

definition claims_of :: "(string \<times> json) list \<Rightarrow> token_claims option" where
  "claims_of ms =
     (case (map_option (delegation_of (\<lambda>s. SaltBig (the (BigInt_text s)))) (map_of ms ''delegation''),
            str_of (map_of ms ''sessionKeyAddress''), leaf_of (map_of ms ''sessionDelegation''),
            str_of (map_of ms ''jti''), usage_limit_of (map_of ms ''usageLimit'')) of
        (Some (Some d), Some key, Some leaf, Some jti, Some lim) \<Rightarrow>
          Some \<lparr>tc_iss = str_of (map_of ms ''iss''), tc_aud = str_of (map_of ms ''aud''),
                tc_sub = str_of (map_of ms ''sub''), tc_delegation = d, tc_sessionKeyAddress = key,
                tc_sessionDelegation = leaf, tc_jti = jti, tc_iat = num_of (map_of ms ''iat''),
                tc_exp = num_of (map_of ms ''exp''), tc_usageLimit = lim\<rparr>
      | _ \<Rightarrow> None)"

text \<open>
  The \<open>try\<close> block of \<open>decodeToken\<close>: it fails when the text is not base64, not JSON, when the
  delegation is missing, or when its salt is a string that is not an integer.
\<close>

definition parsed_members :: "string \<Rightarrow> (string \<times> (string \<times> json) list) option" where
  "parsed_members part =
     (case base64urlDecodeStr part of
        Inl _ \<Rightarrow> None
      | Inr canonical \<Rightarrow>
          (case JSON_parse canonical of
             Some (Obj ms) \<Rightarrow>
               (case map_of ms ''delegation'' of
                  None \<Rightarrow> None
                | Some Null \<Rightarrow> None
                | Some (Obj d) \<Rightarrow>
                    (case map_of d ''salt'' of
                       Some (Str s) \<Rightarrow> if BigInt_text s = None then None else Some (canonical, ms)
                     | _ \<Rightarrow> Some (canonical, ms))
                | Some _ \<Rightarrow> Some (canonical, ms))
           | _ \<Rightarrow> None))"

text \<open>
  \<open>IllTyped\<close> marks what the model does not follow: claims whose fields are of other types than declared, which the code
  does not check (a missing \<open>jti\<close>, a usage limit that is a text), and JSON with a number that is not written as an
  integer, which the model's reader does not accept and the code's does.
\<close>

fun fraction_at :: "string \<Rightarrow> bool" where
  "fraction_at (c # d # s) \<longleftrightarrow> is_digit c \<and> d \<in> {CHR ''.'', CHR ''e'', CHR ''E''} \<or> fraction_at (d # s)"
| "fraction_at _ \<longleftrightarrow> False"

definition unread_number :: "string \<Rightarrow> bool" where
  "unread_number part \<longleftrightarrow>
     (case base64urlDecodeStr part of Inl _ \<Rightarrow> False | Inr canonical \<Rightarrow> JSON_parse canonical = None \<and> fraction_at canonical)"

datatype decoded = Malformed | IllTyped | Decoded token_claims string hex

definition decodeToken :: "string \<Rightarrow> decoded js" where
  "decodeToken token =
     (case split_on (CHR ''.'') token of
        [p0, p1] \<Rightarrow>
          (case parsed_members p0 of
             None \<Rightarrow> Inr (if unread_number p0 then IllTyped else Malformed)
           | Some (canonical, ms) \<Rightarrow>
               (case base64urlToBytes p1 of
                  Inl e \<Rightarrow> Inl e
                | Inr sigBytes \<Rightarrow>
                    (case claims_of ms of
                       None \<Rightarrow> Inr IllTyped
                     | Some claims \<Rightarrow> Inr (Decoded claims canonical (''0x'' @ bytes_hex sigBytes)))))
      | _ \<Rightarrow> Inr Malformed)"

subsection \<open>Verify: options and environment\<close>

datatype fail_mode = Closed | Open

datatype quorum_proof = OnChainRedeemed | OffChain hex hex

record verify_opts =
  vo_chainId :: int
  vo_delegationManager :: address
  vo_audience :: string
  vo_enforcerMap :: enforcer_map
  vo_now :: int
  vo_enforceOnChain :: bool
  vo_allowUnboundSessionToken :: bool
  vo_universalSignatureValidator :: "address option"
  vo_toolName :: "string option"
  vo_requireDeployed :: "bool option"
  vo_revocationFailMode :: "fail_mode option"
  vo_correlationId :: "string option"
  vo_requireQuorumCaveat :: "address option"
  vo_quorumProof :: "quorum_proof option"
  vo_requireAcceptedOnChain :: "bool option"

record verify_env =
  ve_lib :: crypto_lib
  ve_secp :: "int \<Rightarrow> int \<Rightarrow> int option \<Rightarrow> bytes \<Rightarrow> string + bytes"
  ve_isRevoked :: "address \<Rightarrow> hex \<Rightarrow> string + bool"
  ve_isValidSig :: "address \<Rightarrow> address \<Rightarrow> hex \<Rightarrow> hex \<Rightarrow> string + bool"
  ve_getCode :: "address \<Rightarrow> string + hex option"
  ve_isValidSignature :: "address \<Rightarrow> hex \<Rightarrow> hex \<Rightarrow> string + hex"
  ve_isAccepted :: "address \<Rightarrow> hex \<Rightarrow> string + bool"
  ve_eventId :: string
  ve_eventTime :: string

definition ERC1271_MAGIC :: hex where
  "ERC1271_MAGIC = ''0x1626ba7e''"

definition sessionDelegateBindingError :: "delegation \<Rightarrow> delegation option \<Rightarrow> address \<Rightarrow> string option" where
  "sessionDelegateBindingError d sessionDelegation sessionKeyAddress =
     (case sessionDelegation of
        None \<Rightarrow> Some ''session-delegation required (DEL-001)''
      | Some sd \<Rightarrow>
          if toLowerCase (delegator sd) \<noteq> toLowerCase (delegator d)
          then Some ''session-delegation delegator != delegation delegator (DEL-001)''
          else if toLowerCase (delegate sd) \<noteq> toLowerCase sessionKeyAddress
          then Some ''session key is not the session-delegation delegate (DEL-001)''
          else None)"

subsection \<open>Verify: the stages\<close>

text \<open>A stage passes with a result, rejects with a reason, or throws.\<close>

datatype 'a stage = Pass 'a | Reject string | Throw js_error

definition stage_bind :: "'a stage \<Rightarrow> ('a \<Rightarrow> 'b stage) \<Rightarrow> 'b stage" where
  "stage_bind x f = (case x of Pass a \<Rightarrow> f a | Reject r \<Rightarrow> Reject r | Throw e \<Rightarrow> Throw e)"

definition check_envelope :: "verify_opts \<Rightarrow> token_claims \<Rightarrow> int stage" where
  "check_envelope opts claims =
     (if tc_aud claims \<noteq> Some (vo_audience opts) then Reject ''audience mismatch''
      else (let now = vo_now opts div 1000 in
            case tc_exp claims of
              None \<Rightarrow> Reject ''token expired''
            | Some e \<Rightarrow> if e < now then Reject ''token expired'' else Pass now))"

definition check_session_key :: "verify_env \<Rightarrow> token_claims \<Rightarrow> string \<Rightarrow> hex \<Rightarrow> address stage" where
  "check_session_key env claims canonical sig =
     (case recoverEoaFromEip191Sig (ve_lib env) (ve_secp env) canonical sig of
        Inl e \<Rightarrow> Reject (''signature recovery failed: '' @ e)
      | Inr recovered \<Rightarrow>
          if toLowerCase recovered \<noteq> toLowerCase (tc_sessionKeyAddress claims)
          then Reject ''session-key signature mismatch'' else Pass recovered)"

definition hash_stage :: "verify_env \<Rightarrow> verify_opts \<Rightarrow> delegation \<Rightarrow> hex stage" where
  "hash_stage env opts d =
     (case hashDelegation (ve_lib env) d (vo_chainId opts) (vo_delegationManager opts) of
        Inl e \<Rightarrow> Throw e | Inr h \<Rightarrow> Pass h)"

definition check_revocation :: "verify_env \<Rightarrow> verify_opts \<Rightarrow> hex \<Rightarrow> unit stage" where
  "check_revocation env opts eip712Hash =
     (case ve_isRevoked env (vo_delegationManager opts) eip712Hash of
        Inr revoked \<Rightarrow> if revoked then Reject ''delegation revoked'' else Pass ()
      | Inl _ \<Rightarrow>
          if or_default (vo_revocationFailMode opts) Closed = Closed
          then Reject (''revocation check unavailable; refusing to verify '' @
                       ''(set revocationFailMode=open only for explicit dev/demo paths)'')
          else Pass ())"

definition is_deployed :: "hex option \<Rightarrow> bool" where
  "is_deployed code = (case code of None \<Rightarrow> False | Some c \<Rightarrow> c \<noteq> [] \<and> c \<noteq> ''0x'' \<and> length c > 2)"

text \<open>\<open>validateSaSig\<close>: the call on the universal validator, when one is configured.\<close>

definition validateSaSig :: "verify_env \<Rightarrow> verify_opts \<Rightarrow> (address \<Rightarrow> hex \<Rightarrow> hex \<Rightarrow> string + bool) option" where
  "validateSaSig env opts =
     (if truthy (vo_universalSignatureValidator opts)
      then Some (ve_isValidSig env (the (vo_universalSignatureValidator opts))) else None)"

definition check_delegation_sig :: "verify_env \<Rightarrow> verify_opts \<Rightarrow> delegation \<Rightarrow> hex \<Rightarrow> unit stage" where
  "check_delegation_sig env opts d eip712Hash =
     (case validateSaSig env opts of
        Some validate \<Rightarrow>
          (case validate (delegator d) eip712Hash (signature d) of
             Inl e \<Rightarrow> Reject (''signature validation reverted: '' @ e)
           | Inr ok \<Rightarrow> if ok then Pass () else Reject ''signature validation failed'')
      | None \<Rightarrow>
          (case ve_getCode env (delegator d) of
             Inl e \<Rightarrow> Reject (''erc1271 call reverted: '' @ e)
           | Inr code \<Rightarrow>
               if \<not> is_deployed code then
                 (if or_default (vo_requireDeployed opts) True
                  then Reject (''delegator smart account '' @ delegator d @ '' is not deployed '' @ em_dash @
                         '' cannot verify ERC-1271. Set verifyDelegationToken opt requireDeployed=false only '' @
                         ''for explicit counterfactual-demo use cases.'')
                  else Pass ())
               else
                 (case ve_isValidSignature env (delegator d) eip712Hash (signature d) of
                    Inl e \<Rightarrow> Reject (''erc1271 call reverted: '' @ e)
                  | Inr magic \<Rightarrow>
                      if toLowerCase magic \<noteq> ERC1271_MAGIC then Reject ''erc1271 validation failed'' else Pass ())))"

definition check_leaf_sig :: "verify_env \<Rightarrow> verify_opts \<Rightarrow> delegation \<Rightarrow> hex \<Rightarrow> unit stage" where
  "check_leaf_sig env opts sd sdHash =
     (case validateSaSig env opts of
        Some validate \<Rightarrow>
          (case validate (delegator sd) sdHash (signature sd) of
             Inl e \<Rightarrow> Reject (''session-delegation signature check reverted: '' @ e)
           | Inr ok \<Rightarrow> if ok then Pass () else Reject ''session-delegation signature validation failed (DEL-001)'')
      | None \<Rightarrow>
          (case ve_getCode env (delegator sd) of
             Inl e \<Rightarrow> Reject (''session-delegation signature check reverted: '' @ e)
           | Inr code \<Rightarrow>
               if \<not> is_deployed code then
                 (if or_default (vo_requireDeployed opts) True
                  then Reject (''session-delegation delegator SA not deployed '' @ em_dash @
                               '' cannot verify ERC-1271 (DEL-001)'')
                  else Pass ())
               else
                 (case ve_isValidSignature env (delegator sd) sdHash (signature sd) of
                    Inl e \<Rightarrow> Reject (''session-delegation signature check reverted: '' @ e)
                  | Inr magic \<Rightarrow>
                      if toLowerCase magic \<noteq> ERC1271_MAGIC
                      then Reject ''session-delegation erc1271 validation failed (DEL-001)'' else Pass ())))"

definition check_session_binding :: "verify_env \<Rightarrow> verify_opts \<Rightarrow> token_claims \<Rightarrow> address \<Rightarrow> unit stage" where
  "check_session_binding env opts claims recovered =
     (if vo_allowUnboundSessionToken opts then Pass ()
      else (case sessionDelegateBindingError (tc_delegation claims) (tc_sessionDelegation claims) recovered of
              Some bindErr \<Rightarrow> Reject bindErr
            | None \<Rightarrow>
                (let sd = the (tc_sessionDelegation claims)
                 in stage_bind (hash_stage env opts sd) (\<lambda>sdHash. check_leaf_sig env opts sd sdHash))))"

definition check_caveats :: "verify_env \<Rightarrow> verify_opts \<Rightarrow> delegation \<Rightarrow> int \<Rightarrow> unit stage" where
  "check_caveats env opts d now =
     (let ctx = \<lparr>cx_timestamp = now, cx_mcpTool = vo_toolName opts, cx_target = None, cx_selector = None, cx_value = None\<rparr>;
          verdicts = evaluateCaveats (ve_lib env) (caveats d) ctx (vo_enforcerMap opts) (vo_enforceOnChain opts)
      in case find (\<lambda>v. \<not> v_allowed v) verdicts of
           Some v \<Rightarrow> Reject (''caveat denied ('' @ or_default (v_reason v) ''undefined'' @ '')'')
         | None \<Rightarrow> Pass ())"

definition check_quorum :: "verify_opts \<Rightarrow> delegation \<Rightarrow> unit stage" where
  "check_quorum opts d =
     (case vo_requireQuorumCaveat opts of
        None \<Rightarrow> Pass ()
      | Some target \<Rightarrow>
          if \<not> list_ex (\<lambda>c. toLowerCase (enforcer c) = toLowerCase target) (caveats d)
          then Reject ''tier requires quorum caveat but delegation lacks one''
          else (case vo_quorumProof opts of
                  None \<Rightarrow> Reject (''quorum caveat present but no quorumProof supplied '' @ em_dash @
                                  '' refusing to assume on-chain enforcement'')
                | Some (OffChain _ _) \<Rightarrow> Reject ''quorum_off_chain_not_implemented''
                | Some OnChainRedeemed \<Rightarrow> Pass ()))"

definition check_accepted :: "verify_env \<Rightarrow> verify_opts \<Rightarrow> delegation \<Rightarrow> hex \<Rightarrow> bool stage" where
  "check_accepted env opts d eip712Hash =
     (if vo_requireAcceptedOnChain opts = Some True then
        (case ve_isAccepted env (delegator d) eip712Hash of
           Inl e \<Rightarrow> Reject (''acceptSessionDelegation check reverted: '' @ e)
         | Inr ok \<Rightarrow> if ok then Pass True
             else Reject ''tier requires on-chain acceptSessionDelegation blessing; not present'')
      else Pass False)"

subsection \<open>Verify: the pipeline\<close>

datatype verify_result = VPrincipal address | VError string | VIllTyped

definition reject_event :: "verify_env \<Rightarrow> verify_opts \<Rightarrow> string \<Rightarrow> address option \<Rightarrow> hex option \<Rightarrow> audit_event" where
  "reject_event env opts reason prin digest =
     buildEvent (ve_eventId env) (ve_eventTime env)
       ((blank_event ''delegation.verify.reject'' Denied)
          \<lparr>ev_correlationId := vo_correlationId opts,
           ev_actor := (if truthy prin then Some (User, prin) else Some (UnknownActor, None)),
           ev_subject := (if truthy digest then Some (''delegation'', the digest) else None),
           ev_audience := Some (vo_audience opts), ev_chainId := Some (vo_chainId opts), ev_digest := digest,
           ev_reason := Some reason,
           ev_context := (if truthy (vo_toolName opts) then Some [(''tool'', CStr (the (vo_toolName opts)))] else None)\<rparr>)"

definition accept_event :: "verify_env \<Rightarrow> verify_opts \<Rightarrow> address \<Rightarrow> hex \<Rightarrow> bool \<Rightarrow> audit_event" where
  "accept_event env opts prin digest acceptedOnChain =
     (let context = (if truthy (vo_toolName opts) then [(''tool'', CStr (the (vo_toolName opts)))] else []) @
                    (if vo_requireAcceptedOnChain opts \<noteq> None then [(''acceptedOnChain'', CBool acceptedOnChain)] else [])
      in buildEvent (ve_eventId env) (ve_eventTime env)
           ((blank_event ''delegation.verify.accept'' Success)
              \<lparr>ev_correlationId := vo_correlationId opts, ev_actor := Some (User, Some prin),
               ev_subject := Some (''delegation'', digest), ev_audience := Some (vo_audience opts),
               ev_chainId := Some (vo_chainId opts), ev_digest := Some digest,
               ev_context := (if context \<noteq> [] then Some context else None)\<rparr>))"

definition emit_audit :: "'w sink option \<Rightarrow> audit_event \<Rightarrow> 'w \<Rightarrow> unit js \<times> 'w" where
  "emit_audit auditSink e w = (case auditSink of None \<Rightarrow> (Inr (), w) | Some write \<Rightarrow> write e w)"

definition rejectWith :: "verify_env \<Rightarrow> verify_opts \<Rightarrow> 'w sink option \<Rightarrow> string \<Rightarrow> address option \<Rightarrow> hex option \<Rightarrow>
    'w \<Rightarrow> verify_result js \<times> 'w" where
  "rejectWith env opts auditSink reason prin digest w =
     (case emit_audit auditSink (reject_event env opts reason prin digest) w of
        (Inl e, w') \<Rightarrow> (Inl e, w')
      | (Inr _, w') \<Rightarrow> (Inr (VError reason), w'))"

text \<open>Steps 3 to 4.5: everything between the EIP-712 hash and the usage counter.\<close>

definition check_authority :: "verify_env \<Rightarrow> verify_opts \<Rightarrow> token_claims \<Rightarrow> address \<Rightarrow> int \<Rightarrow> hex \<Rightarrow> bool stage" where
  "check_authority env opts claims recovered now eip712Hash =
     stage_bind (check_revocation env opts eip712Hash) (\<lambda>_.
     stage_bind (check_delegation_sig env opts (tc_delegation claims) eip712Hash) (\<lambda>_.
     stage_bind (check_session_binding env opts claims recovered) (\<lambda>_.
     stage_bind (check_caveats env opts (tc_delegation claims) now) (\<lambda>_.
     stage_bind (check_quorum opts (tc_delegation claims)) (\<lambda>_.
       check_accepted env opts (tc_delegation claims) eip712Hash)))))"

definition consume_and_accept ::
    "verify_env \<Rightarrow> verify_opts \<Rightarrow> 's track \<Rightarrow> 'w sink option \<Rightarrow> token_claims \<Rightarrow> hex \<Rightarrow> bool \<Rightarrow> 's \<times> 'w \<Rightarrow>
     verify_result js \<times> 's \<times> 'w" where
  "consume_and_accept env opts track auditSink claims eip712Hash acceptedOnChain = (\<lambda>(s, w).
     (let prin = delegator (tc_delegation claims);
          limit = or_default (tc_usageLimit claims) 10
      in case track (tc_jti claims) limit s of
           (Inl e, s') \<Rightarrow> (Inl e, s', w)
         | (Inr (_, allowed), s') \<Rightarrow>
             if \<not> allowed then
               (case rejectWith env opts auditSink ''token usage limit exceeded'' (Some prin) (Some eip712Hash) w of
                  (r, w') \<Rightarrow> (r, s', w'))
             else (case emit_audit auditSink (accept_event env opts prin eip712Hash acceptedOnChain) w of
                     (Inl e, w') \<Rightarrow> (Inl e, s', w')
                   | (Inr _, w') \<Rightarrow> (Inr (VPrincipal prin), s', w'))))"

definition lift_reject :: "(verify_result js \<times> 'w) \<Rightarrow> 's \<Rightarrow> verify_result js \<times> 's \<times> 'w" where
  "lift_reject rw s = (fst rw, s, snd rw)"

definition verifyDelegationToken ::
    "verify_env \<Rightarrow> verify_opts \<Rightarrow> 's track \<Rightarrow> 'w sink option \<Rightarrow> string \<Rightarrow> 's \<times> 'w \<Rightarrow> verify_result js \<times> 's \<times> 'w" where
  "verifyDelegationToken env opts track auditSink token = (\<lambda>(s, w).
     (case decodeToken token of
        Inl e \<Rightarrow> (Inl e, s, w)
      | Inr Malformed \<Rightarrow> lift_reject (rejectWith env opts auditSink ''malformed token'' None None w) s
      | Inr IllTyped \<Rightarrow> (Inr VIllTyped, s, w)
      | Inr (Decoded claims canonical sig) \<Rightarrow>
          (case stage_bind (check_envelope opts claims) (\<lambda>now.
                stage_bind (check_session_key env claims canonical sig) (\<lambda>recovered. Pass (now, recovered))) of
             Throw e \<Rightarrow> (Inl e, s, w)
           | Reject r \<Rightarrow> lift_reject (rejectWith env opts auditSink r None None w) s
           | Pass (now, recovered) \<Rightarrow>
               (case hash_stage env opts (tc_delegation claims) of
                  Throw e \<Rightarrow> (Inl e, s, w)
                | Reject r \<Rightarrow> lift_reject (rejectWith env opts auditSink r None None w) s
                | Pass eip712Hash \<Rightarrow>
                    (case check_authority env opts claims recovered now eip712Hash of
                       Throw e \<Rightarrow> (Inl e, s, w)
                     | Reject r \<Rightarrow> lift_reject (rejectWith env opts auditSink r
                                     (Some (delegator (tc_delegation claims))) (Some eip712Hash) w) s
                     | Pass acceptedOnChain \<Rightarrow>
                         consume_and_accept env opts track auditSink claims eip712Hash acceptedOnChain (s, w))))))"

end
