(* ===== verification/TokenTheorems.thy ===== *)
theory TokenTheorems
  imports DelegationToken
begin

section \<open>What mint and verify guarantee\<close>

text \<open>
  Each stage of \<open>verifyDelegationToken\<close> is characterised by the condition under which it passes;
  together they give \<open>authorizes\<close>, the contract of the pipeline. From it: acceptance is exactly
  authorization plus an unused slot of the usage counter plus a recorded audit row; a token is
  accepted at most as often as its limit allows, whatever calls are interleaved; a session key is
  accepted only when the principal's account vouched for it; and a minted token decodes to the
  claims that were signed.
\<close>

subsection \<open>When a stage passes\<close>


lemma stage_bind_Pass [simp]: "stage_bind x f = Pass b \<longleftrightarrow> (\<exists>a. x = Pass a \<and> f a = Pass b)"
  by (cases x) (auto simp: stage_bind_def)

lemma check_envelope_Pass:
  "check_envelope opts claims = Pass now \<longleftrightarrow>
   now = vo_now opts div 1000 \<and> tc_aud claims = Some (vo_audience opts) \<and>
   (\<exists>e. tc_exp claims = Some e \<and> now \<le> e)"
  by (auto simp: check_envelope_def Let_def split: option.splits)

lemma check_session_key_Pass:
  "check_session_key env claims canonical sig = Pass a \<longleftrightarrow>
   recoverEoaFromEip191Sig (ve_lib env) (ve_secp env) canonical sig = Inr a \<and>
   toLowerCase a = toLowerCase (tc_sessionKeyAddress claims)"
  by (auto simp: check_session_key_def split: sum.splits)

lemma hash_stage_Pass:
  "hash_stage env opts d = Pass h \<longleftrightarrow>
   hashDelegation (ve_lib env) d (vo_chainId opts) (vo_delegationManager opts) = Inr h"
  by (auto simp: hash_stage_def split: sum.splits)

lemma check_revocation_Pass:
  "check_revocation env opts h = Pass u \<longleftrightarrow>
   ve_isRevoked env (vo_delegationManager opts) h = Inr False \<or>
   (vo_revocationFailMode opts = Some Open \<and> (\<exists>e. ve_isRevoked env (vo_delegationManager opts) h = Inl e))"
  by (cases "vo_revocationFailMode opts") 
     (auto simp: check_revocation_def or_default_def split: sum.splits option.splits fail_mode.splits, (metis fail_mode.exhaust)+)

text \<open>An account's signature holds: the universal validator says so, or the deployed account answers
  with the magic value, or the account is not deployed and the caller tolerates that.\<close>

definition sig_holds :: "verify_env \<Rightarrow> verify_opts \<Rightarrow> address \<Rightarrow> hex \<Rightarrow> hex \<Rightarrow> bool" where
  "sig_holds env opts a h sig \<longleftrightarrow>
     (if truthy (vo_universalSignatureValidator opts)
      then ve_isValidSig env (the (vo_universalSignatureValidator opts)) a h sig = Inr True
      else (\<exists>code. ve_getCode env a = Inr code \<and>
              (if is_deployed code
               then \<exists>m. ve_isValidSignature env a h sig = Inr m \<and> toLowerCase m = ERC1271_MAGIC
               else vo_requireDeployed opts = Some False)))"

lemma check_delegation_sig_Pass:
  "check_delegation_sig env opts d h = Pass u \<longleftrightarrow> sig_holds env opts (delegator d) h (signature d)"
  by (auto simp: check_delegation_sig_def sig_holds_def validateSaSig_def or_default_def split: sum.splits option.splits)

lemma check_leaf_sig_Pass:
  "check_leaf_sig env opts d h = Pass u \<longleftrightarrow> sig_holds env opts (delegator d) h (signature d)"
  by (auto simp: check_leaf_sig_def sig_holds_def validateSaSig_def or_default_def split: sum.splits option.splits)

definition leaf_binds :: "verify_env \<Rightarrow> verify_opts \<Rightarrow> token_claims \<Rightarrow> address \<Rightarrow> bool" where
  "leaf_binds env opts claims key \<longleftrightarrow>
     (\<exists>sd h. tc_sessionDelegation claims = Some sd \<and>
        toLowerCase (delegator sd) = toLowerCase (delegator (tc_delegation claims)) \<and>
        toLowerCase (delegate sd) = toLowerCase key \<and>
        hashDelegation (ve_lib env) sd (vo_chainId opts) (vo_delegationManager opts) = Inr h \<and>
        sig_holds env opts (delegator sd) h (signature sd))"

lemma check_session_binding_Pass:
  "check_session_binding env opts claims key = Pass u \<longleftrightarrow>
   vo_allowUnboundSessionToken opts \<or> leaf_binds env opts claims key"
  by (auto simp: check_session_binding_def leaf_binds_def sessionDelegateBindingError_def Let_def hash_stage_Pass
      check_leaf_sig_Pass split: option.splits if_splits)

definition token_context :: "verify_opts \<Rightarrow> int \<Rightarrow> caveat_context" where
  "token_context opts now =
     \<lparr>cx_timestamp = now, cx_mcpTool = vo_toolName opts, cx_target = None, cx_selector = None, cx_value = None\<rparr>"

lemma check_caveats_Pass:
  "check_caveats env opts d now = Pass u \<longleftrightarrow>
   (\<forall>c \<in> set (caveats d). v_allowed (verdict_of (ve_lib env) (vo_enforcerMap opts) (token_context opts now) (vo_enforceOnChain opts) c))"
  by (auto simp: check_caveats_def Let_def evaluateCaveats_map find_None_iff find_Some_iff token_context_def split: option.splits)

lemma check_quorum_Pass:
  "check_quorum opts d = Pass u \<longleftrightarrow>
   (\<forall>target. vo_requireQuorumCaveat opts = Some target \<longrightarrow>
      (\<exists>c \<in> set (caveats d). toLowerCase (enforcer c) = toLowerCase target) \<and> vo_quorumProof opts = Some OnChainRedeemed)"
  by (auto simp: check_quorum_def list_ex_iff split: option.splits quorum_proof.splits)

lemma check_accepted_Pass:
  "check_accepted env opts d h = Pass b \<longleftrightarrow>
   (if vo_requireAcceptedOnChain opts = Some True then b \<and> ve_isAccepted env (delegator d) h = Inr True else \<not> b)"
  by (auto simp: check_accepted_def split: sum.splits)

subsection \<open>What acceptance means\<close>

text \<open>
  The contract of the pipeline: the conditions under which a token authorizes its bearer, with
  the digest of the delegation and whether on-chain acceptance was established.
\<close>

definition authorizes :: "verify_env \<Rightarrow> verify_opts \<Rightarrow> token_claims \<Rightarrow> string \<Rightarrow> hex \<Rightarrow> hex \<Rightarrow> bool \<Rightarrow> bool" where
  "authorizes env opts claims canonical sig digest accepted \<longleftrightarrow>
     (let d = tc_delegation claims; now = vo_now opts div 1000 in
      tc_aud claims = Some (vo_audience opts) \<and>
      (\<exists>e. tc_exp claims = Some e \<and> now \<le> e) \<and>
      (\<exists>key. recoverEoaFromEip191Sig (ve_lib env) (ve_secp env) canonical sig = Inr key \<and>
         toLowerCase key = toLowerCase (tc_sessionKeyAddress claims) \<and>
         (vo_allowUnboundSessionToken opts \<or> leaf_binds env opts claims key)) \<and>
      hashDelegation (ve_lib env) d (vo_chainId opts) (vo_delegationManager opts) = Inr digest \<and>
      (ve_isRevoked env (vo_delegationManager opts) digest = Inr False \<or>
       (vo_revocationFailMode opts = Some Open \<and> (\<exists>e. ve_isRevoked env (vo_delegationManager opts) digest = Inl e))) \<and>
      sig_holds env opts (delegator d) digest (signature d) \<and>
      (\<forall>c \<in> set (caveats d).
         v_allowed (verdict_of (ve_lib env) (vo_enforcerMap opts) (token_context opts now) (vo_enforceOnChain opts) c)) \<and>
      (\<forall>target. vo_requireQuorumCaveat opts = Some target \<longrightarrow>
         (\<exists>c \<in> set (caveats d). toLowerCase (enforcer c) = toLowerCase target) \<and>
         vo_quorumProof opts = Some OnChainRedeemed) \<and>
      (if vo_requireAcceptedOnChain opts = Some True
       then accepted \<and> ve_isAccepted env (delegator d) digest = Inr True else \<not> accepted))"

definition pipeline_passes :: "verify_env \<Rightarrow> verify_opts \<Rightarrow> token_claims \<Rightarrow> string \<Rightarrow> hex \<Rightarrow> hex \<Rightarrow> bool \<Rightarrow> bool" where
  "pipeline_passes env opts claims canonical sig digest accepted \<longleftrightarrow>
     (\<exists>now key. check_envelope opts claims = Pass now \<and> check_session_key env claims canonical sig = Pass key \<and>
        hash_stage env opts (tc_delegation claims) = Pass digest \<and>
        check_authority env opts claims key now digest = Pass accepted)"

lemma check_authority_Pass:
  "check_authority env opts claims key now h = Pass b \<longleftrightarrow>
     check_revocation env opts h = Pass () \<and> check_delegation_sig env opts (tc_delegation claims) h = Pass () \<and>
     check_session_binding env opts claims key = Pass () \<and> check_caveats env opts (tc_delegation claims) now = Pass () \<and>
     check_quorum opts (tc_delegation claims) = Pass () \<and> check_accepted env opts (tc_delegation claims) h = Pass b"
  by (simp add: check_authority_def)

lemma pipeline_authorizes:
  "pipeline_passes env opts claims canonical sig digest accepted \<longleftrightarrow> authorizes env opts claims canonical sig digest accepted"
  unfolding pipeline_passes_def authorizes_def Let_def check_authority_Pass check_envelope_Pass check_session_key_Pass
    hash_stage_Pass check_revocation_Pass check_delegation_sig_Pass check_session_binding_Pass check_caveats_Pass
    check_quorum_Pass check_accepted_Pass
  by blast

lemma authorizes_unique:
  "authorizes env opts claims canonical sig h b \<Longrightarrow> authorizes env opts claims canonical sig h' b' \<Longrightarrow> h = h' \<and> b = b'"
  by (auto simp: authorizes_def Let_def split: if_splits)

lemma rejectWith_neq [simp]: "rejectWith env opts sk r p d w \<noteq> (Inr (VPrincipal a), w')"
  by (auto simp: rejectWith_def split: prod.splits sum.splits)

lemma rejectWith_not_principal: "fst (rejectWith env opts sk r p d w) \<noteq> Inr (VPrincipal a)"
  by (auto simp: rejectWith_def split: prod.splits sum.splits)

text \<open>A passing token goes to the usage counter; any other leaves the counter alone and is not accepted.\<close>

lemma verify_passes:
  assumes "decodeToken token = Inr (Decoded claims canonical sig)" "authorizes env opts claims canonical sig h b"
  shows "verifyDelegationToken env opts track sk token sw = consume_and_accept env opts track sk claims h b sw"
proof -
  obtain now key where "check_envelope opts claims = Pass now" "check_session_key env claims canonical sig = Pass key"
    "hash_stage env opts (tc_delegation claims) = Pass h" "check_authority env opts claims key now h = Pass b"
    using assms(2) by (auto simp: pipeline_authorizes [symmetric] pipeline_passes_def)
  then show ?thesis using assms(1)
    by (cases sw) (simp add: verifyDelegationToken_def stage_bind_def)
qed

lemma verify_stops:
  assumes "\<nexists>claims canonical sig h b. decodeToken token = Inr (Decoded claims canonical sig) \<and>
      authorizes env opts claims canonical sig h b"
  shows "fst (snd (verifyDelegationToken env opts track sk token (s, w))) = s \<and>
    fst (verifyDelegationToken env opts track sk token (s, w)) \<noteq> Inr (VPrincipal p)"
  using assms rejectWith_not_principal [of env opts sk _ _ _ w p]
  by (auto simp: verifyDelegationToken_def lift_reject_def pipeline_authorizes [symmetric] pipeline_passes_def
      stage_bind_def split: sum.split decoded.split stage.split)

lemma consume_accepts:
  "fst (consume_and_accept env opts track sk claims h b (s, w)) = Inr (VPrincipal p) \<longleftrightarrow>
   granted (fst (track (tc_jti claims) (or_default (tc_usageLimit claims) 10) s)) \<and>
   fst (emit_audit sk (accept_event env opts (delegator (tc_delegation claims)) h b) w) = Inr () \<and>
   p = delegator (tc_delegation claims)"
  by (auto simp: consume_and_accept_def Let_def granted_def split: prod.splits sum.splits)

lemma consume_store:
  "fst (snd (consume_and_accept env opts track sk claims h b (s, w))) =
   snd (track (tc_jti claims) (or_default (tc_usageLimit claims) 10) s)"
  by (auto simp: consume_and_accept_def Let_def split: prod.splits sum.splits)

lemma verify_accepts_iff:
  "fst (verifyDelegationToken env opts track sk token (s, w)) = Inr (VPrincipal p) \<longleftrightarrow>
   (\<exists>claims canonical sig h b.
      decodeToken token = Inr (Decoded claims canonical sig) \<and> authorizes env opts claims canonical sig h b \<and>
      granted (fst (track (tc_jti claims) (or_default (tc_usageLimit claims) 10) s)) \<and>
      fst (emit_audit sk (accept_event env opts (delegator (tc_delegation claims)) h b) w) = Inr () \<and>
      p = delegator (tc_delegation claims))" (is "?L = ?R")
proof (cases "\<exists>claims canonical sig h b. decodeToken token = Inr (Decoded claims canonical sig) \<and>
      authorizes env opts claims canonical sig h b")
  case True
  then obtain claims canonical sig h b where d: "decodeToken token = Inr (Decoded claims canonical sig)"
    and a: "authorizes env opts claims canonical sig h b" by blast
  have L: "?L \<longleftrightarrow> granted (fst (track (tc_jti claims) (or_default (tc_usageLimit claims) 10) s)) \<and>
      fst (emit_audit sk (accept_event env opts (delegator (tc_delegation claims)) h b) w) = Inr () \<and>
      p = delegator (tc_delegation claims)"
    by (simp add: verify_passes [OF d a] consume_accepts)
  have only: "h' = h \<and> b' = b" if "authorizes env opts claims canonical sig h' b'" for h' b'
    using authorizes_unique [OF that a] .
  have "?R \<longleftrightarrow> (\<exists>h' b'. authorizes env opts claims canonical sig h' b' \<and>
      granted (fst (track (tc_jti claims) (or_default (tc_usageLimit claims) 10) s)) \<and>
      fst (emit_audit sk (accept_event env opts (delegator (tc_delegation claims)) h' b') w) = Inr () \<and>
      p = delegator (tc_delegation claims))"
    by (simp add: d)
  also have "\<dots> \<longleftrightarrow> granted (fst (track (tc_jti claims) (or_default (tc_usageLimit claims) 10) s)) \<and>
      fst (emit_audit sk (accept_event env opts (delegator (tc_delegation claims)) h b) w) = Inr () \<and>
      p = delegator (tc_delegation claims)"
    using a only by blast
  finally show ?thesis using L by simp
next
  case False
  have "\<not> ?L" using verify_stops [OF False, of track sk s w p] by (rule conjunct2)
  moreover have "\<not> ?R" using False by blast
  ultimately show ?thesis by simp
qed

text \<open>The store after a verification: untouched, or advanced by one use of the token's own identifier.\<close>

lemma verify_store:
  "fst (snd (verifyDelegationToken env opts track sk token (s, w))) = s \<or>
   (\<exists>claims canonical sig h b. decodeToken token = Inr (Decoded claims canonical sig) \<and>
      authorizes env opts claims canonical sig h b \<and>
      fst (snd (verifyDelegationToken env opts track sk token (s, w))) =
        snd (track (tc_jti claims) (or_default (tc_usageLimit claims) 10) s))"
proof (cases "\<exists>claims canonical sig h b. decodeToken token = Inr (Decoded claims canonical sig) \<and>
      authorizes env opts claims canonical sig h b")
  case True
  then obtain claims canonical sig h b where d: "decodeToken token = Inr (Decoded claims canonical sig)"
    and a: "authorizes env opts claims canonical sig h b" by blast
  have "fst (snd (verifyDelegationToken env opts track sk token (s, w))) =
      snd (track (tc_jti claims) (or_default (tc_usageLimit claims) 10) s)"
    by (simp only: verify_passes [OF d a] consume_store)
  with d a show ?thesis by blast
next
  case False
  from verify_stops [OF False, of track sk s w] show ?thesis by simp
qed

lemma verify_accepts_store:
  assumes "fst (verifyDelegationToken env opts track sk token (s, w)) = Inr (VPrincipal p)"
    "decodeToken token = Inr (Decoded claims canonical sig)"
  shows "granted (fst (track (tc_jti claims) (or_default (tc_usageLimit claims) 10) s)) \<and>
    fst (snd (verifyDelegationToken env opts track sk token (s, w))) =
      snd (track (tc_jti claims) (or_default (tc_usageLimit claims) 10) s)"
proof -
  obtain h b where a: "authorizes env opts claims canonical sig h b"
    and g: "granted (fst (track (tc_jti claims) (or_default (tc_usageLimit claims) 10) s))"
    using assms by (auto simp: verify_accepts_iff)
  show ?thesis using g by (simp add: verify_passes [OF assms(2) a] consume_store)
qed

subsection \<open>Replay\<close>

type_synonym 'w verify_call = "verify_env \<times> verify_opts \<times> 'w sink option \<times> string"

fun verify_all :: "'s track \<Rightarrow> 'w verify_call list \<Rightarrow> 's \<times> 'w \<Rightarrow> verify_result js list \<times> 's \<times> 'w" where
  "verify_all track [] sw = ([], sw)"
| "verify_all track ((env, opts, sk, token) # calls) sw =
     (case verifyDelegationToken env opts track sk token sw of
        (r, sw1) \<Rightarrow> (case verify_all track calls sw1 of (rs, sw2) \<Rightarrow> (r # rs, sw2)))"

definition is_principal :: "verify_result js \<Rightarrow> bool" where
  "is_principal r = (case r of Inr (VPrincipal _) \<Rightarrow> True | _ \<Rightarrow> False)"

definition accepts_of :: "'s track \<Rightarrow> string \<Rightarrow> 'w verify_call list \<Rightarrow> 's \<times> 'w \<Rightarrow> nat" where
  "accepts_of track token calls sw =
     length (filter (\<lambda>((_, _, _, t), r). t = token \<and> is_principal r) (zip calls (fst (verify_all track calls sw))))"

lemma accepts_of_Cons:
  "accepts_of track token ((env, opts, sk, t) # calls) sw =
     (if t = token \<and> is_principal (fst (verifyDelegationToken env opts track sk t sw)) then 1 else 0) +
     accepts_of track token calls (snd (verifyDelegationToken env opts track sk t sw))"
  by (auto simp: accepts_of_def split_beta)

lemma is_principal_iff: "is_principal r \<longleftrightarrow> (\<exists>p. r = Inr (VPrincipal p))"
  by (auto simp: is_principal_def split: sum.split verify_result.split)

context jti_store
begin

lemma track_mono: "uses s j \<le> uses (snd (track j' l s)) j"
  by (cases "ready s") (simp_all add: track_counts track_fails)

lemma verify_mono: "uses s j \<le> uses (fst (snd (verifyDelegationToken env opts track sk token (s, w)))) j"
  using verify_store [of env opts track sk token s w] track_mono by (metis order_refl)

lemma verify_accept_counts:
  assumes "fst (verifyDelegationToken env opts track sk token (s, w)) = Inr (VPrincipal p)"
    "decodeToken token = Inr (Decoded claims canonical sig)"
  shows "uses s (tc_jti claims) + 1 \<le> or_default (tc_usageLimit claims) 10 \<and>
    uses (fst (snd (verifyDelegationToken env opts track sk token (s, w)))) (tc_jti claims) = uses s (tc_jti claims) + 1"
proof -
  have g: "granted (fst (track (tc_jti claims) (or_default (tc_usageLimit claims) 10) s))"
    and st: "fst (snd (verifyDelegationToken env opts track sk token (s, w))) =
      snd (track (tc_jti claims) (or_default (tc_usageLimit claims) 10) s)"
    using verify_accepts_store [OF assms] by auto
  then have "ready s" using track_fails by blast
  with g st show ?thesis by (simp add: track_answer track_counts granted_def)
qed

lemma replay_bound:
  assumes "decodeToken token = Inr (Decoded claims canonical sig)"
  shows "accepts_of track token calls (s, w) \<le> nat (or_default (tc_usageLimit claims) 10 - uses s (tc_jti claims))"
proof (induction calls arbitrary: s w)
  case Nil
  then show ?case by (simp add: accepts_of_def)
next
  case (Cons c calls)
  obtain env opts sk t where c: "c = (env, opts, sk, t)" by (cases c)
  obtain r s1 w1 where v: "verifyDelegationToken env opts track sk t (s, w) = (r, s1, w1)"
    by (cases "verifyDelegationToken env opts track sk t (s, w)")
  have mono: "uses s (tc_jti claims) \<le> uses s1 (tc_jti claims)"
    using verify_mono [of s _ env opts sk t w] v by simp
  have acc: "t = token \<Longrightarrow> is_principal r \<Longrightarrow> uses s (tc_jti claims) + 1 \<le> or_default (tc_usageLimit claims) 10 \<and>
      uses s1 (tc_jti claims) = uses s (tc_jti claims) + 1"
    using verify_accept_counts [OF _ assms, of env opts sk s w] v by (auto simp: is_principal_iff)
  show ?case
    using Cons.IH [of s1 w1] mono acc by (auto simp: c accepts_of_Cons v)
qed

end



subsection \<open>A minted token decodes to its claims\<close>

lemma json_members_lookup:
  assumes "distinct (map fst ms)"
  shows "map_of (map (\<lambda>m. (fst m, json_of (snd m))) (defined_members ms)) k =
     (case map_of ms k of None \<Rightarrow> None | Some v \<Rightarrow> if v = JUndefined then None else Some (json_of v))"
proof -
  have dd: "distinct (map fst (map (\<lambda>m. (fst m, json_of (snd m))) (defined_members ms)))"
    using distinct_defined_members [OF assms] by (simp add: comp_def)
  show ?thesis
  proof (cases "map_of ms k")
    case None
    then have "k \<notin> fst ` set ms" by (simp add: map_of_eq_None_iff)
    then have "map_of (map (\<lambda>m. (fst m, json_of (snd m))) (defined_members ms)) k = None"
      by (force simp: map_of_eq_None_iff)
    with None show ?thesis by simp
  next
    case (Some v)
    then have in_ms: "(k, v) \<in> set ms" by (rule map_of_SomeD)
    show ?thesis
    proof (cases "v = JUndefined")
      case True
      have "(k, v') \<in> set ms \<Longrightarrow> v' = v" for v' using in_ms assms by (metis eq_key_imp_eq_value)
      then have "map_of (map (\<lambda>m. (fst m, json_of (snd m))) (defined_members ms)) k = None"
        using True by (force simp: map_of_eq_None_iff)
      with Some True show ?thesis by simp
    next
      case False
      then have "(k, json_of v) \<in> set (map (\<lambda>m. (fst m, json_of (snd m))) (defined_members ms))"
        using in_ms by (force simp: image_iff)
      with dd have "map_of (map (\<lambda>m. (fst m, json_of (snd m))) (defined_members ms)) k = Some (json_of v)"
        by (simp add: map_of_is_SomeI)
      with Some False show ?thesis by simp
    qed
  qed
qed

lemma caveat_of_jsval: "caveat_of (json_of (caveat_jsval r c)) = Some c"
  by (cases "args c")
     (simp_all add: caveat_jsval_def caveat_of_def json_members_lookup opt_jsval_def str_of_def)

lemma those_map_Some: "(\<forall>x \<in> set xs. f x = Some (g x)) \<Longrightarrow> those (map f xs) = Some (map g xs)"
  by (induction xs) auto

definition carried_salt :: "salt \<Rightarrow> string" where
  "carried_salt s = (case s of SaltBig n \<Rightarrow> int_str n | SaltStr t \<Rightarrow> t)"

lemma delegation_of_jsval:
  "delegation_of f (json_of (delegation_jsval oid r d)) = Some (d\<lparr>salt_of := f (carried_salt (salt_of d))\<rparr>)"
proof -
  have salt: "json_of (salt_jsval s) = Str (carried_salt s)" "salt_jsval s \<noteq> JUndefined" for s
    by (cases s; simp add: salt_jsval_def carried_salt_def)+
  let ?cs = "map (\<lambda>(i, c). caveat_jsval (oid [r, i]) c) (zip [0..<length (caveats d)] (caveats d))"
  have "those (map caveat_of (map json_of ?cs)) = Some (map snd (zip [0..<length (caveats d)] (caveats d)))"
    unfolding map_map by (rule those_map_Some) (auto simp: caveat_of_jsval)
  then have "those (map caveat_of (map json_of ?cs)) = Some (caveats d)" by simp
  then show ?thesis
    by (simp add: delegation_jsval_def delegation_of_def json_members_lookup salt str_of_def comp_def split_beta)
qed

lemma jsval_not_undefined:
  "delegation_jsval oid r d \<noteq> JUndefined" "claims_jsval oid c jti iat exp \<noteq> JUndefined"
  by (simp_all add: delegation_jsval_def claims_jsval_def)

lemma wf_delegation_jsval: "wf_jsval (delegation_jsval oid r d)"
proof -
  have "wf_jsval (salt_jsval (salt_of d))" by (cases "salt_of d") (simp_all add: salt_jsval_def)
  moreover have "wf_jsval (caveat_jsval i c)" for i c
    by (cases "args c") (simp_all add: caveat_jsval_def opt_jsval_def)
  ultimately show ?thesis by (auto simp: delegation_jsval_def)
qed

lemma wf_claims_jsval: "wf_jsval (claims_jsval oid c jti iat exp)"
  by (cases "mc_sessionDelegation c"; cases "mc_usageLimit c")
     (auto simp: claims_jsval_def opt_jsval_def wf_delegation_jsval)

text \<open>
  What the receiver reads: the claims that were signed, where the delegation's salt has become a
  big integer again and the leaf's salt is the decimal text.
\<close>

definition received_claims :: "mint_claims \<Rightarrow> string \<Rightarrow> int \<Rightarrow> int \<Rightarrow> token_claims" where
  "received_claims c jti iat exp =
     \<lparr>tc_iss = Some (mc_iss c), tc_aud = Some (mc_aud c), tc_sub = Some (mc_sub c),
      tc_delegation = (mc_delegation c)\<lparr>salt_of := SaltBig (the (BigInt_text (carried_salt (salt_of (mc_delegation c)))))\<rparr>,
      tc_sessionKeyAddress = mc_sessionKeyAddress c,
      tc_sessionDelegation = map_option (\<lambda>sd. sd\<lparr>salt_of := SaltStr (carried_salt (salt_of sd))\<rparr>) (mc_sessionDelegation c),
      tc_jti = jti, tc_iat = Some iat, tc_exp = Some exp, tc_usageLimit = mc_usageLimit c\<rparr>"

lemma delegation_json_Obj:
  "\<exists>ms. json_of (delegation_jsval oid r d) = Obj ms \<and> map_of ms ''salt'' = Some (Str (carried_salt (salt_of d)))"
  by (cases "salt_of d")
     (simp_all add: delegation_jsval_def json_members_lookup salt_jsval_def carried_salt_def)

lemma claims_json:
  "\<exists>ms. json_of (claims_jsval oid c jti iat exp) = Obj ms \<and> claims_of ms = Some (received_claims c jti iat exp) \<and>
     map_of ms ''delegation'' = Some (json_of (delegation_jsval oid 1 (mc_delegation c)))"
proof -
  obtain dm where dm: "json_of (delegation_jsval oid 2 sd) = Obj (dm sd)" for sd
    using delegation_json_Obj [of oid 2] by metis
  have leaf: "leaf_of (Some (Obj (dm sd))) = Some (Some (sd\<lparr>salt_of := SaltStr (carried_salt (salt_of sd))\<rparr>))" for sd
    using delegation_of_jsval [of SaltStr oid 2 sd] by (simp add: leaf_of_def dm)
  have "leaf_of None = Some None" by (simp add: leaf_of_def)
  with leaf show ?thesis
    by (cases "mc_sessionDelegation c"; cases "mc_usageLimit c")
       (simp_all add: claims_jsval_def json_members_lookup claims_of_def received_claims_def str_of_def num_of_def
        delegation_of_jsval jsval_not_undefined opt_jsval_def usage_limit_of_def dm)
qed

lemma parsed_members_minted:
  assumes "canonicalJSON (claims_jsval oid c jti iat exp) = Inr canonical"
    and "BigInt_text (carried_salt (salt_of (mc_delegation c))) \<noteq> None"
  shows "\<exists>ms. parsed_members (base64urlEncode canonical) = Some (canonical, ms) \<and>
    claims_of ms = Some (received_claims c jti iat exp)"
proof -
  obtain ms where ms: "json_of (claims_jsval oid c jti iat exp) = Obj ms"
    "claims_of ms = Some (received_claims c jti iat exp)"
    "map_of ms ''delegation'' = Some (json_of (delegation_jsval oid 1 (mc_delegation c)))"
    using claims_json by blast
  obtain dm where dm: "json_of (delegation_jsval oid 1 (mc_delegation c)) = Obj dm"
    "map_of dm ''salt'' = Some (Str (carried_salt (salt_of (mc_delegation c))))"
    using delegation_json_Obj by blast
  have "JSON_parse canonical = Some (Obj ms)"
    using JSON_parse_canonicalJSON [OF wf_claims_jsval assms(1)] ms(1) by simp
  then have "parsed_members (base64urlEncode canonical) = Some (canonical, ms)"
    using assms(2) ms(3) dm by (auto simp: parsed_members_def)
  with ms(2) show ?thesis by blast
qed

lemma decode_minted:
  assumes "canonicalJSON (claims_jsval oid c jti iat exp) = Inr canonical"
    and "BigInt_text (carried_salt (salt_of (mc_delegation c))) \<noteq> None"
  shows "decodeToken (base64urlEncode canonical @ ''.'' @ bytesToBase64url bs) =
    Inr (Decoded (received_claims c jti iat exp) canonical (''0x'' @ bytes_hex bs))"
proof -
  have "split_on (CHR ''.'') (base64urlEncode canonical @ ''.'' @ bytesToBase64url bs) =
      [base64urlEncode canonical, bytesToBase64url bs]"
    by (simp add: base64urlEncode_def)
  with parsed_members_minted [OF assms] show ?thesis by (auto simp: decodeToken_def)
qed

subsection \<open>Mint\<close>

lemma mint_guard_None:
  "mint_guard opts claims ttl = None \<longleftrightarrow>
     0 < ttl \<and> (ttl \<le> or_default (mo_maxAllowedTtlSeconds opts) DEFAULT_MAX_TTL_SECONDS \<or> mo_acceptElevatedRisk opts) \<and>
     (\<forall>n. mc_usageLimit claims = Some n \<longrightarrow> 0 < n \<and>
        (n \<le> or_default (mo_maxAllowedUsageLimit opts) DEFAULT_MAX_USAGE_LIMIT \<or> mo_acceptElevatedRisk opts))"
  by (cases "mc_usageLimit claims") (auto simp: mint_guard_def Let_def)

lemma mint_success:
  assumes "mintDelegationToken env opts sk claims w = (Inr (token, jti), w')"
  defines "ttl \<equiv> or_default (mc_ttlSeconds claims) 600" and "iat \<equiv> me_dateNow env div 1000"
  shows "mint_guard opts claims ttl = None \<and> jti = or_default (mc_jti claims) (randomJti (me_random env)) \<and>
    emit_audit sk (mint_event env opts claims jti ttl) w = (Inr (), w') \<and>
    (\<exists>canonical sig. canonicalJSON (claims_jsval (me_oid env) claims jti iat (iat + ttl)) = Inr canonical \<and>
       me_signMessage env canonical = Inr sig \<and>
       token = base64urlEncode canonical @ ''.'' @ bytesToBase64url (hexToBytes (strip0x sig)))"
  using assms(1) unfolding ttl_def iat_def
  by (auto simp: mintDelegationToken_def Let_def emit_audit_def split: option.splits sum.splits prod.splits)

lemma mint_decodes:
  assumes "mintDelegationToken env opts sk claims w = (Inr (token, jti), w')"
    and "BigInt_text (carried_salt (salt_of (mc_delegation claims))) \<noteq> None"
  defines "ttl \<equiv> or_default (mc_ttlSeconds claims) 600" and "iat \<equiv> me_dateNow env div 1000"
  shows "\<exists>canonical sig. me_signMessage env canonical = Inr sig \<and>
    decodeToken token = Inr (Decoded (received_claims claims jti iat (iat + ttl)) canonical
      (''0x'' @ bytes_hex (hexToBytes (strip0x sig))))"
proof -
  obtain canonical sig where "canonicalJSON (claims_jsval (me_oid env) claims jti iat (iat + ttl)) = Inr canonical"
    "me_signMessage env canonical = Inr sig"
    "token = base64urlEncode canonical @ ''.'' @ bytesToBase64url (hexToBytes (strip0x sig))"
    using mint_success [OF assms(1)] unfolding ttl_def iat_def by blast
  then show ?thesis using decode_minted [OF _ assms(2)] by blast
qed

subsection \<open>Audit rows\<close>

lemma emit_audit_Some [simp]: "emit_audit (Some write) e w = write e w"
  by (simp add: emit_audit_def)

lemma rejectWith_returns:
  assumes "rejectWith env opts sk r p d w = (Inr x, w')"
  shows "x = VError r \<and> emit_audit sk (reject_event env opts r p d) w = (Inr (), w')"
  using assms by (auto simp: rejectWith_def split: prod.splits sum.splits)

lemma event_actions [simp]:
  "ev_action (reject_event env opts r p d) = ''delegation.verify.reject''"
  "ev_reason (reject_event env opts r p d) = Some r"
  "ev_action (accept_event env opts a h b) = ''delegation.verify.accept''"
  "ev_actor (accept_event env opts a h b) = Some (User, Some a)"
  by (simp_all add: reject_event_def accept_event_def blank_event_def buildEvent_def Let_def)

text \<open>The audit row that goes with a verdict.\<close>

definition row_matches :: "verify_result \<Rightarrow> audit_event \<Rightarrow> bool" where
  "row_matches x e =
     (case x of
        VPrincipal p \<Rightarrow> ev_action e = ''delegation.verify.accept'' \<and> ev_actor e = Some (User, Some p)
      | VError r \<Rightarrow> ev_action e = ''delegation.verify.reject'' \<and> ev_reason e = Some r
      | VIllTyped \<Rightarrow> False)"

lemma row_matches_events [simp]:
  "row_matches (VError r) (reject_event env opts r p d)"
  "row_matches (VPrincipal a) (accept_event env opts a h b)"
  by (simp_all add: row_matches_def)

lemma lift_reject_records:
  "lift_reject (rejectWith env opts (Some write) r p d w) s = (Inr x, s', w') \<Longrightarrow>
   \<exists>e. write e w = (Inr (), w') \<and> row_matches x e"
  using rejectWith_returns [of env opts "Some write" r p d w x w']
  by (auto simp: lift_reject_def prod_eq_iff)

lemma consume_records:
  assumes "consume_and_accept env opts track (Some write) claims h b (s, w) = (Inr x, s', w')"
  shows "\<exists>e. write e w = (Inr (), w') \<and> row_matches x e"
proof -
  let ?p = "delegator (tc_delegation claims)"
  obtain a t where tr: "track (tc_jti claims) (or_default (tc_usageLimit claims) 10) s = (a, t)" by fastforce
  with assms obtain u ok where a: "a = Inr (u, ok)"
    by (cases a) (auto simp: consume_and_accept_def Let_def)
  show ?thesis
  proof (cases ok)
    case True
    with assms tr a have "write (accept_event env opts ?p h b) w = (Inr (), w') \<and> x = VPrincipal ?p"
      by (auto simp: consume_and_accept_def Let_def split: prod.splits sum.splits)
    then show ?thesis by auto
  next
    case False
    with assms tr a have "rejectWith env opts (Some write) ''token usage limit exceeded'' (Some ?p) (Some h) w = (Inr x, w')"
      by (auto simp: consume_and_accept_def Let_def split: prod.splits)
    from rejectWith_returns [OF this] show ?thesis by auto
  qed
qed

lemma verify_records:
  assumes "verifyDelegationToken env opts track (Some write) token (s, w) = (Inr x, s', w')" "x \<noteq> VIllTyped"
  shows "\<exists>e. write e w = (Inr (), w') \<and> row_matches x e"
proof -
  consider (rej) r p d where "lift_reject (rejectWith env opts (Some write) r p d w) s = (Inr x, s', w')"
    | (acc) claims h b where "consume_and_accept env opts track (Some write) claims h b (s, w) = (Inr x, s', w')"
    using assms by (auto simp: verifyDelegationToken_def split: sum.splits decoded.splits stage.splits)
  then show ?thesis
  proof cases
    case rej
    then show ?thesis by (rule lift_reject_records)
  next
    case acc
    then show ?thesis by (rule consume_records)
  qed
qed



subsection \<open>Which objects are met\<close>

lemma mset_refs_JObject:
  "mset (refs_of (JObject r ms)) = add_mset r (sum_list (map (\<lambda>m. mset (refs_of (snd m))) ms))"
proof -
  have "\<Sum>\<^sub># (image_mset f (filter_mset (\<lambda>m. snd m \<noteq> JUndefined) M)) = \<Sum>\<^sub># (image_mset f M)"
    if "\<And>m. snd m = JUndefined \<Longrightarrow> f m = {#}" for f and M :: "(string \<times> jsval) multiset"
    by (induction M) (auto simp: that)
  from this [of "\<lambda>m. mset (refs_of (snd m))" "mset ms"]
  show ?thesis
    by (simp add: defined_members_def mset_concat comp_def sum_mset_sum_list [symmetric] del: sum_mset_sum_list)
qed

definition delegation_refs :: "(nat list \<Rightarrow> nat) \<Rightarrow> nat \<Rightarrow> delegation \<Rightarrow> nat list" where
  "delegation_refs oid r d = oid [r] # map (\<lambda>i. oid [r, i]) [0..<length (caveats d)]"

definition claims_refs :: "(nat list \<Rightarrow> nat) \<Rightarrow> mint_claims \<Rightarrow> nat list" where
  "claims_refs oid c = oid [0] # delegation_refs oid 1 (mc_delegation c) @
     (case mc_sessionDelegation c of None \<Rightarrow> [] | Some sd \<Rightarrow> delegation_refs oid 2 sd)"

lemma refs_opt_jsval [simp]: "(\<And>x. refs_of (f x) = []) \<Longrightarrow> refs_of (opt_jsval f v) = []"
  by (cases v) (simp_all add: opt_jsval_def)

lemma refs_caveat_jsval: "mset (refs_of (caveat_jsval r c)) = {#r#}"
  unfolding caveat_jsval_def mset_refs_JObject by simp

lemma refs_delegation_jsval: "mset (refs_of (delegation_jsval oid r d)) = mset (delegation_refs oid r d)"
proof -
  have "refs_of (salt_jsval (salt_of d)) = []" by (cases "salt_of d") (simp_all add: salt_jsval_def)
  moreover have "sum_list (map (\<lambda>x. mset (refs_of (case x of (i, c) \<Rightarrow> caveat_jsval (oid [r, i]) c))) (zip is cs)) =
      mset (map (\<lambda>i. oid [r, i]) is)" if "length is = length cs" for "is" and cs
    using that by (induction "is" cs rule: list_induct2) (simp_all add: refs_caveat_jsval)
  ultimately show ?thesis
    unfolding delegation_jsval_def mset_refs_JObject delegation_refs_def
    by (simp add: mset_concat comp_def del: mset_upt)
qed

lemma refs_claims_jsval: "mset (refs_of (claims_jsval oid c jti iat exp)) = mset (claims_refs oid c)"
  unfolding claims_jsval_def mset_refs_JObject claims_refs_def
  by (cases "mc_sessionDelegation c") (simp_all add: refs_delegation_jsval)

text \<open>Canonicalization of the claims succeeds exactly when no object is shared.\<close>

lemma canonical_claims:
  "canonicalJSON (claims_jsval oid c jti iat exp) = Inr s \<longleftrightarrow>
   distinct (claims_refs oid c) \<and> s = print (json_of (claims_jsval oid c jti iat exp))"
  using mset_eq_imp_distinct_iff [OF refs_claims_jsval] jsval_not_undefined(2)
  by (auto simp: canonicalJSON_iff)

end
