(* ===== verification/ToolPolicy.thy ===== *)
theory ToolPolicy
  imports DelegationTypes
begin

section \<open>Tool policy\<close>

text \<open>
  \<open>packages/tool-policy/src\<close>: the decision engine over a tool's classification
  (\<open>decision.ts\<close>), the risk-tier table that tells the runtime which delegation gates to demand
  (\<open>risk-tier.ts\<close>), and the exact-call policy (\<open>exact-call.ts\<close>). Classification tags are strings
  that may be absent or outside the closed sets, as they are at run time; a tier that the tables do
  not list reads as \<open>undefined\<close>.
\<close>

subsection \<open>Types\<close>

record tool_classification =
  sa_tool :: "string option"
  sa_auth :: "string option"
  sa_risk_tier :: "string option"

datatype caller_kind = UserSession | AgentSession | ServiceCaller

record policy_context =
  pc_toolName :: string
  pc_classification :: tool_classification
  pc_hasDelegation :: bool
  pc_callerKind :: caller_kind

datatype policy_decision = Allow | Deny string | RequiresConsent string string

datatype threshold_tier = ReadTier | WriteTier | ValueTier | AdminTier | CriticalTier | RecoveryTier

record threshold_decision =
  th_tier :: threshold_tier
  th_requiresQuorum :: bool
  th_requiresUv :: bool
  th_requiresAcceptedOnChain :: bool

subsection \<open>\<open>decision.ts\<close>\<close>

definition KNOWN_TOOL_KINDS :: "string list" where
  "KNOWN_TOOL_KINDS = [''delegation-verified'', ''service-only'', ''bootstrap'', ''dev-only'']"

definition KNOWN_AUTH_KINDS :: "string list" where
  "KNOWN_AUTH_KINDS = [''session-token'', ''service-hmac'', ''none'', ''none-with-csrf'']"

definition KNOWN_RISK_TIERS :: "string list" where
  "KNOWN_RISK_TIERS = [''low'', ''medium'', ''high'', ''critical'']"

definition tag_in :: "string option \<Rightarrow> string list \<Rightarrow> bool" where
  "tag_in t ks = (case t of None \<Rightarrow> False | Some s \<Rightarrow> s \<in> set ks)"

definition tag_text :: "string option \<Rightarrow> string" where
  "tag_text t = (case t of None \<Rightarrow> ''undefined'' | Some s \<Rightarrow> s)"

definition validateClassificationShape :: "tool_classification \<Rightarrow> string option" where
  "validateClassificationShape cls =
     (if \<not> tag_in (sa_tool cls) KNOWN_TOOL_KINDS
      then Some (''classification: @sa-tool=\"'' @ tag_text (sa_tool cls) @ ''\" not in known set '' @ join ''|'' KNOWN_TOOL_KINDS)
      else if \<not> tag_in (sa_auth cls) KNOWN_AUTH_KINDS
      then Some (''classification: @sa-auth=\"'' @ tag_text (sa_auth cls) @ ''\" not in known set '' @ join ''|'' KNOWN_AUTH_KINDS)
      else if sa_tool cls = Some ''delegation-verified'' \<or> sa_tool cls = Some ''dev-only''
      then (if \<not> tag_in (sa_risk_tier cls) KNOWN_RISK_TIERS
            then Some (''classification: @sa-risk-tier=\"'' @ tag_text (sa_risk_tier cls) @ ''\" required for tool='' @
                       tag_text (sa_tool cls) @ '' but not in known set '' @ join ''|'' KNOWN_RISK_TIERS)
            else None)
      else if sa_risk_tier cls \<noteq> None \<and> \<not> tag_in (sa_risk_tier cls) KNOWN_RISK_TIERS
      then Some (''classification: @sa-risk-tier=\"'' @ tag_text (sa_risk_tier cls) @ ''\" not in known set '' @ join ''|'' KNOWN_RISK_TIERS)
      else None)"

definition evaluatePolicy :: "policy_context \<Rightarrow> policy_decision" where
  "evaluatePolicy ctx =
     (let cls = pc_classification ctx in
      case validateClassificationShape cls of
        Some shapeErr \<Rightarrow> Deny shapeErr
      | None \<Rightarrow>
          if sa_auth cls = Some ''none'' \<and> pc_callerKind ctx \<noteq> ServiceCaller
          then Deny ''tool is @sa-auth:none; only service callers permitted''
          else if sa_tool cls = Some ''service-only'' \<and> pc_callerKind ctx \<noteq> ServiceCaller
          then Deny ''tool is @sa-tool:service-only; user/agent calls rejected''
          else if sa_tool cls = Some ''bootstrap'' \<and> pc_callerKind ctx \<noteq> ServiceCaller
          then Deny ''tool is @sa-tool:bootstrap; only service callers permitted''
          else if sa_tool cls = Some ''dev-only''
          then Deny ''tool is @sa-tool:dev-only; explicit env gate required''
          else if sa_tool cls = Some ''delegation-verified'' \<and> \<not> pc_hasDelegation ctx
          then Deny ''tool requires delegation but none presented''
          else if sa_risk_tier cls = Some ''critical''
          then RequiresConsent (''consent:critical:'' @ pc_toolName ctx) ''critical''
          else Allow)"

subsection \<open>\<open>risk-tier.ts\<close>\<close>

definition TTL_CLAMP_SECONDS :: "string \<rightharpoonup> int" where
  "TTL_CLAMP_SECONDS =
     [''low'' \<mapsto> 7 * 24 * 60 * 60, ''medium'' \<mapsto> 7 * 24 * 60 * 60, ''high'' \<mapsto> 24 * 60 * 60, ''critical'' \<mapsto> 60 * 60]"

definition REQUIRED_CAVEATS :: "string \<rightharpoonup> string list" where
  "REQUIRED_CAVEATS =
     [''low'' \<mapsto> [''timestamp''], ''medium'' \<mapsto> [''timestamp'', ''mcp-tool-scope''],
      ''high'' \<mapsto> [''timestamp'', ''mcp-tool-scope'', ''value'', ''data-scope''],
      ''critical'' \<mapsto> [''timestamp'', ''exact-call'']]"

text \<open>
  A requested lifetime is a finite number or not (\<open>None\<close>). The risk tier has the type's four values.
\<close>

definition clampTtlForRiskTier :: "int option \<Rightarrow> string \<Rightarrow> int js" where
  "clampTtlForRiskTier requestedTtlSec risk =
     (case requestedTtlSec of
        None \<Rightarrow> Inl (Error ''clampTtlForRiskTier: requestedTtlSec must be a positive number'')
      | Some t \<Rightarrow>
          if t \<le> 0 then Inl (Error ''clampTtlForRiskTier: requestedTtlSec must be a positive number'')
          else (case TTL_CLAMP_SECONDS risk of Some m \<Rightarrow> Inr (min t m) | None \<Rightarrow> Inl TypeError))"

definition requiredCaveatsForRiskTier :: "string \<Rightarrow> string list js" where
  "requiredCaveatsForRiskTier risk = (case REQUIRED_CAVEATS risk of Some cs \<Rightarrow> Inr cs | None \<Rightarrow> Inl TypeError)"

definition RISK_TIER_REQUIREMENTS :: "string \<rightharpoonup> threshold_decision" where
  "RISK_TIER_REQUIREMENTS =
     [''low'' \<mapsto> \<lparr>th_tier = ReadTier, th_requiresQuorum = False, th_requiresUv = False, th_requiresAcceptedOnChain = False\<rparr>,
      ''medium'' \<mapsto> \<lparr>th_tier = WriteTier, th_requiresQuorum = False, th_requiresUv = True, th_requiresAcceptedOnChain = False\<rparr>,
      ''high'' \<mapsto> \<lparr>th_tier = ValueTier, th_requiresQuorum = True, th_requiresUv = True, th_requiresAcceptedOnChain = False\<rparr>,
      ''critical'' \<mapsto> \<lparr>th_tier = ValueTier, th_requiresQuorum = True, th_requiresUv = True, th_requiresAcceptedOnChain = True\<rparr>]"

text \<open>\<open>None\<close> is the \<open>undefined\<close> that indexing with an unlisted tier yields.\<close>

definition evaluateThresholdPolicy :: "tool_classification \<Rightarrow> threshold_decision option" where
  "evaluateThresholdPolicy cls = RISK_TIER_REQUIREMENTS (case sa_risk_tier cls of None \<Rightarrow> ''low'' | Some r \<Rightarrow> r)"

subsection \<open>\<open>exact-call.ts\<close>\<close>

record exact_call_policy =
  xc_target :: address
  xc_selector :: hex
  xc_calldataHash :: "hex option"
  xc_valueLimit :: "int option"

record call_details =
  cd_to :: address
  cd_data :: hex
  cd_value :: int

definition hex_of_length :: "nat \<Rightarrow> hex \<Rightarrow> bool" where
  "hex_of_length n s \<longleftrightarrow> startsWith s ''0x'' \<and> length s = n + 2 \<and> list_all (\<lambda>c. hex_val c \<noteq> None) (drop 2 s)"

definition keccak256OfHex :: "crypto_lib \<Rightarrow> hex \<Rightarrow> hex" where
  "keccak256OfHex lib h = ''0x'' @ bytes_hex (keccak_256 lib (pair_bytes (strip0x h)))"

definition exactCall :: "address \<Rightarrow> hex \<Rightarrow> hex option \<Rightarrow> int option \<Rightarrow> exact_call_policy js" where
  "exactCall target selector calldataHash valueLimit =
     (if \<not> hex_of_length 8 selector
      then Inl (Error (''exactCall: selector must be 4 bytes (0x + 8 hex chars); got \"'' @ selector @ ''\"''))
      else if truthy calldataHash \<and> \<not> hex_of_length 64 (the calldataHash)
      then Inl (Error (''exactCall: calldataHash must be 32 bytes (0x + 64 hex chars); got \"'' @ the calldataHash @ ''\"''))
      else Inr \<lparr>xc_target = target, xc_selector = selector, xc_calldataHash = calldataHash, xc_valueLimit = valueLimit\<rparr>)"

definition matchesExactCall :: "crypto_lib \<Rightarrow> call_details \<Rightarrow> exact_call_policy \<Rightarrow> bool" where
  "matchesExactCall lib call policy \<longleftrightarrow>
     (if toLowerCase (cd_to call) \<noteq> toLowerCase (xc_target policy) then False
      else if \<not> startsWith (cd_data call) ''0x'' \<or> length (cd_data call) < 10 then False
      else if toLowerCase (take 10 (cd_data call)) \<noteq> toLowerCase (xc_selector policy) then False
      else if truthy (xc_calldataHash policy) \<and>
              toLowerCase (keccak256OfHex lib (cd_data call)) \<noteq> toLowerCase (the (xc_calldataHash policy)) then False
      else if xc_valueLimit policy \<noteq> None \<and> cd_value call > the (xc_valueLimit policy) then False
      else True)"

subsection \<open>What the decision engine guarantees\<close>

lemmas known_sets = KNOWN_TOOL_KINDS_def KNOWN_AUTH_KINDS_def KNOWN_RISK_TIERS_def

lemma shape_ok:
  "validateClassificationShape cls = None \<longleftrightarrow>
     tag_in (sa_tool cls) KNOWN_TOOL_KINDS \<and> tag_in (sa_auth cls) KNOWN_AUTH_KINDS \<and>
     (sa_tool cls \<in> {Some ''delegation-verified'', Some ''dev-only''} \<or> sa_risk_tier cls \<noteq> None
        \<longrightarrow> tag_in (sa_risk_tier cls) KNOWN_RISK_TIERS)"
  by (auto simp: validateClassificationShape_def)

lemma evaluatePolicy_Allow:
  "evaluatePolicy ctx = Allow \<longleftrightarrow>
     validateClassificationShape (pc_classification ctx) = None \<and>
     sa_tool (pc_classification ctx) \<noteq> Some ''dev-only'' \<and>
     sa_risk_tier (pc_classification ctx) \<noteq> Some ''critical'' \<and>
     (pc_callerKind ctx = ServiceCaller \<or>
        sa_auth (pc_classification ctx) \<noteq> Some ''none'' \<and>
        sa_tool (pc_classification ctx) \<notin> {Some ''service-only'', Some ''bootstrap''}) \<and>
     (sa_tool (pc_classification ctx) = Some ''delegation-verified'' \<longrightarrow> pc_hasDelegation ctx)"
  by (auto simp: evaluatePolicy_def Let_def split: option.split)

lemma evaluatePolicy_Consent:
  "evaluatePolicy ctx = RequiresConsent p r \<Longrightarrow> sa_risk_tier (pc_classification ctx) = Some ''critical''"
  by (auto simp: evaluatePolicy_def Let_def split: option.splits if_splits)

text \<open>A user's call is let through only for a tool whose tier the threshold table knows.\<close>

lemma user_allow_tool:
  assumes "\<nexists>d. evaluatePolicy ctx = Deny d" "pc_callerKind ctx = UserSession"
  shows "sa_tool (pc_classification ctx) = Some ''delegation-verified'' \<and> pc_hasDelegation ctx \<and>
    evaluateThresholdPolicy (pc_classification ctx) \<noteq> None"
proof -
  have shape: "validateClassificationShape (pc_classification ctx) = None"
    using assms(1) by (auto simp: evaluatePolicy_def Let_def split: option.splits)
  then have dv: "sa_tool (pc_classification ctx) = Some ''delegation-verified'' \<and> pc_hasDelegation ctx"
    using assms
    by (auto simp: shape_ok tag_in_def known_sets evaluatePolicy_def Let_def split: option.splits if_splits)
  with shape show ?thesis
    by (auto simp: shape_ok tag_in_def known_sets evaluateThresholdPolicy_def RISK_TIER_REQUIREMENTS_def split: option.splits)
qed

subsection \<open>Properties\<close>

text \<open>
  the policy engine fails closed. It allows a call exactly when the classification's tags are
  all in the closed sets (with a risk tier wherever one is required), the tool is not development
  only and not critical, a caller that is not a service uses neither an unauthenticated nor a
  service or bootstrap tool, and a delegation-verified tool comes with a delegation.
\<close>

theorem policy_fails_closed:
  "evaluatePolicy ctx = Allow \<longleftrightarrow>
     validateClassificationShape (pc_classification ctx) = None \<and>
     sa_tool (pc_classification ctx) \<noteq> Some ''dev-only'' \<and>
     sa_risk_tier (pc_classification ctx) \<noteq> Some ''critical'' \<and>
     (pc_callerKind ctx = ServiceCaller \<or>
        sa_auth (pc_classification ctx) \<noteq> Some ''none'' \<and>
        sa_tool (pc_classification ctx) \<notin> {Some ''service-only'', Some ''bootstrap''}) \<and>
     (sa_tool (pc_classification ctx) = Some ''delegation-verified'' \<longrightarrow> pc_hasDelegation ctx)"
  by (rule evaluatePolicy_Allow)

theorem policy_fails_closed_witness:
  "evaluatePolicy \<lparr>pc_toolName = ''read'', pc_classification = \<lparr>sa_tool = Some ''delegation-verified'',
     sa_auth = Some ''session-token'', sa_risk_tier = Some ''low''\<rparr>, pc_hasDelegation = True,
     pc_callerKind = UserSession\<rparr> = Allow"
  unfolding policy_fails_closed by (simp add: shape_ok tag_in_def known_sets)

text \<open>
  an exact-call policy pins the call. With the policy built for given calldata (whose hash no
  other bytes share) and a value limit, a call matches exactly when it goes to that target, with
  that selector and those bytes, at a value within the limit.
\<close>

theorem exact_call_pins_the_call:
  assumes "exactCall target sel (Some (keccak256OfHex lib data)) (Some limit) = Inr policy"
    and "\<And>bs. keccak_256 lib bs = keccak_256 lib (pair_bytes (strip0x data)) \<Longrightarrow> bs = pair_bytes (strip0x data)"
  shows "matchesExactCall lib call policy \<longleftrightarrow>
    toLowerCase (cd_to call) = toLowerCase target \<and> startsWith (cd_data call) ''0x'' \<and> 10 \<le> length (cd_data call) \<and>
    toLowerCase (take 10 (cd_data call)) = toLowerCase sel \<and>
    pair_bytes (strip0x (cd_data call)) = pair_bytes (strip0x data) \<and> cd_value call \<le> limit"
proof -
  have p: "policy = \<lparr>xc_target = target, xc_selector = sel, xc_calldataHash = Some (keccak256OfHex lib data),
      xc_valueLimit = Some limit\<rparr>"
    using assms(1) by (auto simp: exactCall_def split: if_splits)
  have "toLowerCase (keccak256OfHex lib (cd_data call)) = toLowerCase (keccak256OfHex lib data) \<longleftrightarrow>
      pair_bytes (strip0x (cd_data call)) = pair_bytes (strip0x data)"
    using assms(2) by (auto simp: keccak256OfHex_def toLowerCase_Cons)
  moreover have "keccak256OfHex lib data \<noteq> []" by (simp add: keccak256OfHex_def)
  ultimately show ?thesis by (auto simp: matchesExactCall_def p)
qed

definition pin_lib :: crypto_lib where
  "pin_lib = \<lparr>encodeAbiParameters = (\<lambda>_ _. Inl TypeError), decodeAbiParameters = (\<lambda>_ _. Inl []), keccak256 = id,
     keccak_256 = (\<lambda>bs. replicate 32 (if bs = [0xa9, 0x05, 0x9c, 0xbb] then 1 else 0)), hashTypedData = (\<lambda>_ _ _ _. Inl TypeError)\<rparr>"

theorem exact_call_pins_the_call_witness:
  "matchesExactCall pin_lib \<lparr>cd_to = ''0xAb'', cd_data = ''0xa9059cbb'', cd_value = 0\<rparr>
     \<lparr>xc_target = ''0xab'', xc_selector = ''0xa9059cbb'', xc_calldataHash = Some (keccak256OfHex pin_lib ''0xa9059cbb''),
      xc_valueLimit = Some 5\<rparr>"
proof -
  have b: "pair_bytes (strip0x ''0xa9059cbb'') = [0xa9, 0x05, 0x9c, 0xbb]" by code_simp
  have e: "exactCall ''0xab'' ''0xa9059cbb'' (Some (keccak256OfHex pin_lib ''0xa9059cbb'')) (Some 5) =
      Inr \<lparr>xc_target = ''0xab'', xc_selector = ''0xa9059cbb'', xc_calldataHash = Some (keccak256OfHex pin_lib ''0xa9059cbb''),
        xc_valueLimit = Some 5\<rparr>"
    by code_simp
  have "keccak_256 pin_lib bs = keccak_256 pin_lib (pair_bytes (strip0x ''0xa9059cbb'')) \<Longrightarrow>
      bs = pair_bytes (strip0x ''0xa9059cbb'')" for bs
    by (simp add: b pin_lib_def split: if_splits)
  from exact_call_pins_the_call [OF e this] show ?thesis
    by (simp add: startsWith_def) code_simp
qed

end
