(* ===== verification/McpRuntime.thy ===== *)
theory McpRuntime
  imports TokenTheorems ToolPolicy
begin

section \<open>The tool wrapper of the MCP runtime\<close>

text \<open>
  \<open>packages/mcp-runtime/src/with-delegation.ts\<close>: \<open>withDelegation\<close> wraps a tool handler so that it
  runs only for a verified token that passes the tool policy, and \<open>verifyDelegationForResource\<close> is
  the variant that answers instead of calling a handler. Both derive the verifier's gates from the
  tool's classification, verify, consult the policy engine and write one audit row and two metrics.
  Console output is not modelled. A metrics sink works on the same world as the audit sink.
\<close>

subsection \<open>Environment and configuration\<close>

text \<open>\<open>nodeEnv\<close> is \<open>process.env.NODE_ENV\<close>, \<open>None\<close> where the runtime has none or refuses access.\<close>

definition inferEnvironment :: "environment option \<Rightarrow> bool \<Rightarrow> string option \<Rightarrow> environment" where
  "inferEnvironment explicit developmentMode nodeEnv =
     (case explicit of
        Some e \<Rightarrow> e
      | None \<Rightarrow>
          if developmentMode then Development
          else if truthy nodeEnv then (if nodeEnv = Some ''production'' then Production else Development)
          else Production)"

datatype mcp_code = AuthFailed | AuthMisconfigured | AuthPaused

record mcp_config =
  cf_audience :: string
  cf_chainId :: int
  cf_delegationManager :: address
  cf_enforcerMap :: enforcer_map
  cf_requireDeployed :: "bool option"
  cf_quorumEnforcer :: "address option"
  cf_enforceOnChain :: bool
  cf_allowUnboundSessionToken :: bool
  cf_universalSignatureValidator :: "address option"

record wd_opts =
  wd_toolName :: "string option"
  wd_correlationId :: "string option"
  wd_classification :: "tool_classification option"
  wd_traceparent :: "string option"
  wd_environment :: "environment option"
  wd_developmentMode :: bool

text \<open>What one call draws from the runtime: chain reads, clock, generated identifier, elapsed time.\<close>

record call_env =
  we_verify :: verify_env
  we_now :: int
  we_generatedId :: string
  we_elapsed :: int

record 'w metrics_ops =
  ms_increment :: "string \<Rightarrow> int \<Rightarrow> tags \<Rightarrow> 'w \<Rightarrow> unit js \<times> 'w"
  ms_observe :: "string \<Rightarrow> int \<Rightarrow> tags \<Rightarrow> 'w \<Rightarrow> unit js \<times> 'w"

definition emit_metrics :: "'w metrics_ops option \<Rightarrow> string \<Rightarrow> tags \<Rightarrow> int \<Rightarrow> 'w \<Rightarrow> 'w" where
  "emit_metrics metric prefix ts elapsed w =
     (case metric of
        None \<Rightarrow> w
      | Some m \<Rightarrow>
          snd (ms_observe m (prefix @ ''.duration_ms'') elapsed ts (snd (ms_increment m (prefix @ ''.calls'') 1 ts w))))"

definition runtime_event ::
    "call_env \<Rightarrow> mcp_config \<Rightarrow> wd_opts \<Rightarrow> string \<Rightarrow> string \<Rightarrow> audit_outcome \<Rightarrow> string option \<Rightarrow> address option \<Rightarrow> audit_event" where
  "runtime_event env config opts action corr oc reason prin =
     buildEvent (ve_eventId (we_verify env)) (ve_eventTime (we_verify env))
       ((blank_event action oc)
          \<lparr>ev_correlationId := Some corr,
           ev_actor := (if truthy prin then Some (User, prin) else Some (UnknownActor, None)),
           ev_subject := Some (''tool'', or_default (wd_toolName opts) ''unknown''),
           ev_audience := Some (cf_audience config), ev_chainId := Some (cf_chainId config), ev_reason := reason,
           ev_context := (if truthy (wd_traceparent opts)
                          then Some [(''traceparent'', CStr (the (wd_traceparent opts)))] else None)\<rparr>)"

definition emit_outcome ::
    "string \<Rightarrow> string \<Rightarrow> call_env \<Rightarrow> mcp_config \<Rightarrow> wd_opts \<Rightarrow> 'w metrics_ops option \<Rightarrow> 'w sink option \<Rightarrow> string \<Rightarrow>
     audit_outcome \<Rightarrow> string option \<Rightarrow> address option \<Rightarrow> 'w \<Rightarrow> unit js \<times> 'w" where
  "emit_outcome prefix action env config opts metric auditSink corr oc reason prin w =
     (let ts = [(''tool'', or_default (wd_toolName opts) ''unknown''), (''audience'', cf_audience config),
                (''outcome'', if oc = Success then ''accept'' else ''reject'')];
          w1 = emit_metrics metric prefix ts (we_elapsed env) w
      in emit_audit auditSink
           (runtime_event env config opts (action @ (if oc = Success then ''.accept'' else ''.reject'')) corr oc reason prin) w1)"

subsection \<open>Gates from the classification\<close>

datatype gates = Gates "address option" "bool option" | Misconfigured | GateTypeError

definition derive_gates :: "mcp_config \<Rightarrow> tool_classification option \<Rightarrow> gates" where
  "derive_gates config classification =
     (case classification of
        None \<Rightarrow> Gates None None
      | Some cls \<Rightarrow>
          (case evaluateThresholdPolicy cls of
             None \<Rightarrow> GateTypeError
           | Some thr \<Rightarrow>
               if th_requiresQuorum thr \<and> \<not> truthy (cf_quorumEnforcer config) then Misconfigured
               else Gates (if th_requiresQuorum thr then cf_quorumEnforcer config else None)
                          (if th_requiresAcceptedOnChain thr then Some True else None)))"

text \<open>The detail of a policy refusal, \<open>None\<close> when the policy is satisfied.\<close>

definition policy_refusal :: "wd_opts \<Rightarrow> string option" where
  "policy_refusal opts =
     (case wd_classification opts of
        None \<Rightarrow> None
      | Some cls \<Rightarrow>
          (case evaluatePolicy \<lparr>pc_toolName = or_default (wd_toolName opts) ''unknown'', pc_classification = cls,
                               pc_hasDelegation = True, pc_callerKind = UserSession\<rparr> of
             Allow \<Rightarrow> None
           | Deny reason \<Rightarrow> Some (''policy deny: '' @ reason)
           | RequiresConsent promptId risk \<Rightarrow>
               if (case evaluateThresholdPolicy cls of Some thr \<Rightarrow> th_requiresAcceptedOnChain thr | None \<Rightarrow> False) then None
               else Some (''policy requires-consent ('' @ promptId @ ''); runtime does not host consent loop'')))"

definition verify_options ::
    "call_env \<Rightarrow> mcp_config \<Rightarrow> wd_opts \<Rightarrow> string \<Rightarrow> bool \<Rightarrow> int \<Rightarrow> address option \<Rightarrow> bool option \<Rightarrow> quorum_proof option \<Rightarrow> verify_opts" where
  "verify_options env config opts corr onChain now quorumCaveat acceptedOnChain quorumProof =
     \<lparr>vo_chainId = cf_chainId config, vo_delegationManager = cf_delegationManager config, vo_audience = cf_audience config,
      vo_enforcerMap = cf_enforcerMap config, vo_now = now, vo_enforceOnChain = onChain,
      vo_allowUnboundSessionToken = cf_allowUnboundSessionToken config,
      vo_universalSignatureValidator = cf_universalSignatureValidator config, vo_toolName = wd_toolName opts,
      vo_requireDeployed = cf_requireDeployed config, vo_revocationFailMode = None, vo_correlationId = Some corr,
      vo_requireQuorumCaveat = quorumCaveat, vo_quorumProof = quorumProof, vo_requireAcceptedOnChain = acceptedOnChain\<rparr>"

subsection \<open>The wrapper\<close>

text \<open>
  How a wrapped call ends: the handler ran, an opaque authentication error was thrown, another
  exception was thrown, or the token's claims were not of their declared type.
\<close>

datatype 'r call_result = Ran 'r | McpAuthError mcp_code string | Thrown js_error | OutsideModel

text \<open>The construction-time gate and its two messages for each entry point.\<close>

definition wrapper_messages :: "string \<times> string" where
  "wrapper_messages =
     (''[mcp-runtime] withDelegation requires `classification` in production. '' @
      ''The policy engine (tool-policy.evaluatePolicy) MUST run; an unclassified tool '' @
      ''is a security regression. Pass `opts.classification = declareTool(...)`. '' @
      ''For tests, pass `developmentMode: true` to opt out of the strict gate.'',
      ''[mcp-runtime] withDelegation requires `auditSink` in production. '' @
      ''Audit emission is the only forensic trail for delegation accept/reject; '' @
      ''production deployments MUST persist these. Pass a durable sink (D1, '' @
      ''Cloud Logging, etc.) '' @ em_dash @ '' wrap with composeSinks(durable, console) if you '' @
      ''still want a tail-friendly mirror.'')"

definition resource_messages :: "string \<times> string" where
  "resource_messages =
     (''[mcp-runtime] verifyDelegationForResource requires `classification` in production. '' @
      ''The policy engine (tool-policy.evaluateThresholdPolicy) MUST run; an unclassified '' @
      ''resource is a security regression. Pass `opts.classification = declareResource(...)`. '' @
      ''For tests, pass `developmentMode: true` to opt out of the strict gate.'',
      ''[mcp-runtime] verifyDelegationForResource requires `auditSink` in production. '' @
      ''Audit emission is the only forensic trail for resource accept/reject; '' @
      ''production deployments MUST persist these. Pass a durable sink (D1, '' @
      ''Cloud Logging, etc.) '' @ em_dash @ '' wrap with composeSinks(durable, console) if you '' @
      ''still want a tail-friendly mirror.'')"

definition production_gate :: "string \<times> string \<Rightarrow> wd_opts \<Rightarrow> string option \<Rightarrow> bool \<Rightarrow> js_error option" where
  "production_gate msgs opts nodeEnv hasSink =
     (if inferEnvironment (wd_environment opts) (wd_developmentMode opts) nodeEnv = Production
      then (if wd_classification opts = None then Some (Error (fst msgs))
            else if \<not> hasSink then Some (Error (snd msgs)) else None)
      else None)"

definition deny_call ::
    "call_env \<Rightarrow> mcp_config \<Rightarrow> wd_opts \<Rightarrow> 'w metrics_ops option \<Rightarrow> 'w sink option \<Rightarrow> string \<Rightarrow> mcp_code \<Rightarrow>
     string \<Rightarrow> address option \<Rightarrow> 'w \<Rightarrow> 'r call_result \<times> 'w" where
  "deny_call env config opts metric auditSink corr code detail prin w =
     (case emit_outcome ''mcp_runtime.with_delegation'' ''mcp-runtime.with-delegation'' env config opts metric auditSink corr
             Denied (Some detail) prin w of
        (Inl e, w') \<Rightarrow> (Thrown e, w')
      | (Inr _, w') \<Rightarrow> (McpAuthError code corr, w'))"

definition finish_call ::
    "call_env \<Rightarrow> mcp_config \<Rightarrow> wd_opts \<Rightarrow> 'w metrics_ops option \<Rightarrow> 'w sink option \<Rightarrow> string \<Rightarrow>
     (address \<Rightarrow> 'r) \<Rightarrow> address \<Rightarrow> 'w \<Rightarrow> 'r call_result \<times> 'w" where
  "finish_call env config opts metric auditSink corr handler prin w =
     (case policy_refusal opts of
        Some detail \<Rightarrow> deny_call env config opts metric auditSink corr AuthFailed detail (Some prin) w
      | None \<Rightarrow>
          (case emit_outcome ''mcp_runtime.with_delegation'' ''mcp-runtime.with-delegation'' env config opts metric auditSink corr
                  Success None (Some prin) w of
             (Inl e, w') \<Rightarrow> (Thrown e, w')
           | (Inr _, w') \<Rightarrow> (Ran (handler prin), w')))"

definition wrapped_call ::
    "call_env \<Rightarrow> mcp_config \<Rightarrow> wd_opts \<Rightarrow> 's track \<Rightarrow> 'w metrics_ops option \<Rightarrow> 'w sink option \<Rightarrow>
     (address \<Rightarrow> 'r) \<Rightarrow> string option \<Rightarrow> quorum_proof option \<Rightarrow> 's \<times> 'w \<Rightarrow> 'r call_result \<times> 's \<times> 'w" where
  "wrapped_call env config opts track metric auditSink handler token quorumProof = (\<lambda>(s, w).
     (let corr = or_default (wd_correlationId opts) (we_generatedId env);
          lift = (\<lambda>(r, w'). (r, s, w'))
      in if \<not> truthy token then lift (deny_call env config opts metric auditSink corr AuthFailed ''missing token'' None w)
         else (case derive_gates config (wd_classification opts) of
                 GateTypeError \<Rightarrow> (Thrown TypeError, s, w)
               | Misconfigured \<Rightarrow>
                   lift (deny_call env config opts metric auditSink corr AuthMisconfigured
                     ''tool requires quorum caveat but mcp-runtime has no quorumEnforcer configured'' None w)
               | Gates quorumCaveat acceptedOnChain \<Rightarrow>
                   (case verifyDelegationToken (we_verify env)
                           (verify_options env config opts corr (cf_enforceOnChain config) (we_now env)
                              quorumCaveat acceptedOnChain quorumProof)
                           track auditSink (the token) (s, w) of
                      (Inl e, s1, w1) \<Rightarrow> (Thrown e, s1, w1)
                    | (Inr VIllTyped, s1, w1) \<Rightarrow> (OutsideModel, s1, w1)
                    | (Inr (VError reason), s1, w1) \<Rightarrow>
                        (case deny_call env config opts metric auditSink corr AuthFailed reason None w1 of
                           (r, w2) \<Rightarrow> (r, s1, w2))
                    | (Inr (VPrincipal prin), s1, w1) \<Rightarrow>
                        (case finish_call env config opts metric auditSink corr handler prin w1 of
                           (r, w2) \<Rightarrow> (r, s1, w2))))))"

definition withDelegation ::
    "string option \<Rightarrow> mcp_config \<Rightarrow> wd_opts \<Rightarrow> 's track \<Rightarrow> 'w metrics_ops option \<Rightarrow> 'w sink option \<Rightarrow> (address \<Rightarrow> 'r) \<Rightarrow>
     (call_env \<Rightarrow> string option \<Rightarrow> quorum_proof option \<Rightarrow> 's \<times> 'w \<Rightarrow> 'r call_result \<times> 's \<times> 'w) js" where
  "withDelegation nodeEnv config opts track metric auditSink handler =
     (case production_gate wrapper_messages opts nodeEnv (auditSink \<noteq> None) of
        Some e \<Rightarrow> Inl e
      | None \<Rightarrow> Inr (\<lambda>env token quorumProof. wrapped_call env config opts track metric auditSink handler token quorumProof))"

subsection \<open>The resource variant\<close>

datatype resource_result = ROk address | RError string | RThrown js_error | ROutside

definition deny_resource ::
    "call_env \<Rightarrow> mcp_config \<Rightarrow> wd_opts \<Rightarrow> 'w metrics_ops option \<Rightarrow> 'w sink option \<Rightarrow> string \<Rightarrow> string \<Rightarrow>
     string \<Rightarrow> address option \<Rightarrow> 'w \<Rightarrow> resource_result \<times> 'w" where
  "deny_resource env config opts metric auditSink corr public detail prin w =
     (case emit_outcome ''mcp_runtime.verify_resource'' ''mcp-runtime.verify-resource'' env config opts metric auditSink corr
             Denied (Some detail) prin w of
        (Inl e, w') \<Rightarrow> (RThrown e, w')
      | (Inr _, w') \<Rightarrow> (RError public, w'))"

definition finish_resource ::
    "call_env \<Rightarrow> mcp_config \<Rightarrow> wd_opts \<Rightarrow> 'w metrics_ops option \<Rightarrow> 'w sink option \<Rightarrow> string \<Rightarrow> address \<Rightarrow> 'w \<Rightarrow> resource_result \<times> 'w" where
  "finish_resource env config opts metric auditSink corr prin w =
     (case policy_refusal opts of
        Some detail \<Rightarrow> deny_resource env config opts metric auditSink corr ''auth-failed'' detail (Some prin) w
      | None \<Rightarrow>
          (case emit_outcome ''mcp_runtime.verify_resource'' ''mcp-runtime.verify-resource'' env config opts metric auditSink corr
                  Success None (Some prin) w of
             (Inl e, w') \<Rightarrow> (RThrown e, w')
           | (Inr _, w') \<Rightarrow> (ROk prin, w')))"

text \<open>\<open>timestamp\<close> (seconds) overrides the clock when it is present and not zero.\<close>

definition verifyDelegationForResource ::
    "string option \<Rightarrow> call_env \<Rightarrow> mcp_config \<Rightarrow> wd_opts \<Rightarrow> int option \<Rightarrow> 's track \<Rightarrow> 'w metrics_ops option \<Rightarrow> 'w sink option \<Rightarrow>
     string \<Rightarrow> quorum_proof option \<Rightarrow> 's \<times> 'w \<Rightarrow> resource_result \<times> 's \<times> 'w" where
  "verifyDelegationForResource nodeEnv env config opts timestamp track metric auditSink token quorumProof = (\<lambda>(s, w).
     (case production_gate resource_messages opts nodeEnv (auditSink \<noteq> None) of
        Some e \<Rightarrow> (RThrown e, s, w)
      | None \<Rightarrow>
          (let corr = or_default (wd_correlationId opts) (we_generatedId env);
               now = (case timestamp of Some t \<Rightarrow> if t = 0 then we_now env else t * 1000 | None \<Rightarrow> we_now env)
           in case derive_gates config (wd_classification opts) of
                GateTypeError \<Rightarrow> (RThrown TypeError, s, w)
              | Misconfigured \<Rightarrow>
                  (case deny_resource env config opts metric auditSink corr ''auth-misconfigured''
                          ''resource requires quorum caveat but mcp-runtime has no quorumEnforcer configured'' None w of
                     (r, w') \<Rightarrow> (r, s, w'))
              | Gates quorumCaveat acceptedOnChain \<Rightarrow>
                  (case verifyDelegationToken (we_verify env)
                          (verify_options env config opts corr False now quorumCaveat acceptedOnChain quorumProof)
                          track auditSink token (s, w) of
                     (Inl e, s1, w1) \<Rightarrow> (RThrown e, s1, w1)
                   | (Inr VIllTyped, s1, w1) \<Rightarrow> (ROutside, s1, w1)
                   | (Inr (VError reason), s1, w1) \<Rightarrow>
                       (case deny_resource env config opts metric auditSink corr ''auth-failed'' reason None w1 of
                          (r, w2) \<Rightarrow> (r, s1, w2))
                   | (Inr (VPrincipal prin), s1, w1) \<Rightarrow>
                       (case finish_resource env config opts metric auditSink corr prin w1 of
                          (r, w2) \<Rightarrow> (r, s1, w2))))))"

subsection \<open>When the handler runs\<close>

lemma deny_call_not_Ran: "fst (deny_call env config opts metric sk corr code detail prin w) \<noteq> Ran r"
  by (auto simp: deny_call_def split: prod.splits sum.splits)

lemma finish_call_Ran:
  "fst (finish_call env config opts metric sk corr handler prin w) = Ran r \<longleftrightarrow>
   policy_refusal opts = None \<and> r = handler prin \<and>
   fst (emit_outcome ''mcp_runtime.with_delegation'' ''mcp-runtime.with-delegation'' env config opts metric sk corr
      Success None (Some prin) w) = Inr ()"
  using deny_call_not_Ran [of env config opts metric sk corr AuthFailed _ "Some prin" w r]
  by (auto simp: finish_call_def split: option.splits prod.splits sum.splits)

abbreviation call_id :: "call_env \<Rightarrow> wd_opts \<Rightarrow> string" where
  "call_id env opts \<equiv> or_default (wd_correlationId opts) (we_generatedId env)"

lemma wrapped_call_Ran:
  "fst (wrapped_call env config opts track metric sk handler token proof (s, w)) = Ran r \<longleftrightarrow>
   (\<exists>t q a p s1 w1. token = Some t \<and> t \<noteq> [] \<and> derive_gates config (wd_classification opts) = Gates q a \<and>
      verifyDelegationToken (we_verify env)
        (verify_options env config opts (call_id env opts) (cf_enforceOnChain config) (we_now env) q a proof)
        track sk t (s, w) = (Inr (VPrincipal p), s1, w1) \<and>
      policy_refusal opts = None \<and> r = handler p \<and>
      fst (emit_outcome ''mcp_runtime.with_delegation'' ''mcp-runtime.with-delegation'' env config opts metric sk (call_id env opts)
        Success None (Some p) w1) = Inr ())"
proof (cases "truthy token")
  case True
  then obtain t where t: "token = Some t" "t \<noteq> []" by (cases token) auto
  show ?thesis
    using deny_call_not_Ran [of env config opts metric sk "call_id env opts" _ _ _ _ r]
      finish_call_Ran [of env config opts metric sk "call_id env opts" handler]
    by (auto simp: wrapped_call_def Let_def t split: gates.splits prod.splits sum.splits verify_result.splits)
       (metis fst_conv)+
next
  case False
  then show ?thesis
    using deny_call_not_Ran [of env config opts metric sk "call_id env opts" AuthFailed "''missing token''" None w r]
    by (cases token) (auto simp: wrapped_call_def Let_def split: prod.splits)
qed

end
