(* ===== verification/TokenProperties.thy ===== *)
theory TokenProperties
  imports TokenTheorems
begin

section \<open>Properties of delegation tokens\<close>

text \<open>
  A concrete world in which a token is minted, decoded and accepted (small stand-ins for the
  codec, the hash, the curve and the chain), and the properties of mint and verify, each followed
  by its instance in that world where it has hypotheses.
\<close>

subsection \<open>A concrete world\<close>

fun int_texts :: "abi_val list \<Rightarrow> string list option" where
  "int_texts [] = Some []"
| "int_texts (AInt n # vs) = map_option (Cons (int_str n)) (int_texts vs)"
| "int_texts _ = None"

definition demo_lib :: crypto_lib where
  "demo_lib =
     \<lparr>encodeAbiParameters = (\<lambda>ts vs. case int_texts vs of Some (p # ps) \<Rightarrow> Inr (join '','' (p # ps)) | _ \<Rightarrow> Inl TypeError),
      decodeAbiParameters = (\<lambda>ts h. case those (map BigInt_text (split_on (CHR '','') h)) of
         Some ns \<Rightarrow> Inr (map AInt ns) | None \<Rightarrow> Inl ''bad''),
      keccak256 = (\<lambda>h. h),
      keccak_256 = (\<lambda>bs. replicate 32 (word_of_nat (length bs))),
      hashTypedData = (\<lambda>dm ts p m. Inr (''0xh'' @ msg_delegate m))\<rparr>"

definition demo_key :: address where
  "demo_key = ''0x'' @ bytes_hex (replicate 20 64)"

definition demo_delegation :: delegation where
  "demo_delegation = \<lparr>delegator = ''0xa11ce'', delegate = ''0xb0b'', authority = ROOT_AUTHORITY,
     caveats = [\<lparr>enforcer = ''0x71'', terms = ''0,2000'', args = None\<rparr>], salt_of = SaltBig 7, signature = ''0x01''\<rparr>"

definition demo_leaf :: delegation where
  "demo_leaf = \<lparr>delegator = ''0xa11ce'', delegate = demo_key, authority = ROOT_AUTHORITY,
     caveats = [\<lparr>enforcer = ''0x71'', terms = ''0,5'', args = Some ''0x''\<rparr>], salt_of = SaltBig 8, signature = ''0x01''\<rparr>"

definition demo_claims :: mint_claims where
  "demo_claims = \<lparr>mc_iss = ''app'', mc_aud = ''urn:mcp'', mc_sub = ''0xa11ce'', mc_delegation = demo_delegation,
     mc_sessionKeyAddress = demo_key, mc_sessionDelegation = Some demo_leaf, mc_jti = Some ''j1'',
     mc_ttlSeconds = None, mc_usageLimit = Some 1\<rparr>"

definition demo_mint_env :: mint_env where
  "demo_mint_env = \<lparr>me_dateNow = 1000000, me_random = [], me_oid = foldl (\<lambda>n i. 10 * n + i) 0,
     me_signMessage = (\<lambda>_. Inr (''0x'' @ replicate 130 (CHR ''1''))), me_eventId = ''e'', me_eventTime = ''t''\<rparr>"

definition demo_mint_opts :: mint_opts where
  "demo_mint_opts = \<lparr>mo_correlationId = None, mo_maxAllowedTtlSeconds = None, mo_maxAllowedUsageLimit = None,
     mo_acceptElevatedRisk = False\<rparr>"

definition demo_enforcers :: enforcer_map where
  "demo_enforcers = \<lparr>em_delegationManager = ''0x06'', em_timestamp = ''0x71'', em_value = ''0x72'', em_allowedTargets = ''0x73'',
     em_allowedMethods = ''0x74'', em_taskBinding = None, em_callDataHash = None, em_recovery = None, em_rateLimit = None,
     em_payment = None\<rparr>"

definition demo_opts :: verify_opts where
  "demo_opts = \<lparr>vo_chainId = 1, vo_delegationManager = ''0x06'', vo_audience = ''urn:mcp'', vo_enforcerMap = demo_enforcers,
     vo_now = 1100000, vo_enforceOnChain = False, vo_allowUnboundSessionToken = False,
     vo_universalSignatureValidator = Some ''0x05'', vo_toolName = Some ''read'', vo_requireDeployed = None,
     vo_revocationFailMode = None, vo_correlationId = None, vo_requireQuorumCaveat = None, vo_quorumProof = None,
     vo_requireAcceptedOnChain = None\<rparr>"

definition demo_env :: verify_env where
  "demo_env = \<lparr>ve_lib = demo_lib, ve_secp = (\<lambda>r s v d. Inr (replicate 65 0)), ve_isRevoked = (\<lambda>m h. Inr False),
     ve_isValidSig = (\<lambda>v a h sg. Inr (a = ''0xa11ce'' \<and> sg = ''0x01'')), ve_getCode = (\<lambda>a. Inr None),
     ve_isValidSignature = (\<lambda>a h sg. Inr ERC1271_MAGIC), ve_isAccepted = (\<lambda>a h. Inr True),
     ve_eventId = ''e'', ve_eventTime = ''t''\<rparr>"

definition demo_minted :: "(string \<times> string) js \<times> audit_event list" where
  "demo_minted = mintDelegationToken demo_mint_env demo_mint_opts (Some (memory_write 1000)) demo_claims []"


lemma demo_refs: "distinct (claims_refs (me_oid demo_mint_env) demo_claims)"
  by (simp add: claims_refs_def delegation_refs_def demo_claims_def demo_mint_env_def demo_delegation_def demo_leaf_def)

definition demo_canonical :: string where
  "demo_canonical = print (json_of (claims_jsval (me_oid demo_mint_env) demo_claims ''j1'' 1000 1600))"

definition demo_token :: string where
  "demo_token = base64urlEncode demo_canonical @ ''.'' @ bytesToBase64url (hexToBytes (replicate 130 (CHR ''1'')))"

lemma demo_mint:
  "mintDelegationToken demo_mint_env demo_mint_opts (Some (memory_write 1000)) demo_claims [] =
   (Inr (demo_token, ''j1''), [mint_event demo_mint_env demo_mint_opts demo_claims ''j1'' 600])"
proof -
  have c: "canonicalJSON (claims_jsval (me_oid demo_mint_env) demo_claims ''j1'' 1000 1600) = Inr demo_canonical"
    using demo_refs by (simp add: canonical_claims demo_canonical_def)
  have g: "mint_guard demo_mint_opts demo_claims 600 = None"
    by (simp add: mint_guard_None or_default_def demo_mint_opts_def demo_claims_def DEFAULT_MAX_TTL_SECONDS_def DEFAULT_MAX_USAGE_LIMIT_def)
  have "me_signMessage demo_mint_env demo_canonical = Inr (''0x'' @ replicate 130 (CHR ''1''))"
    "me_dateNow demo_mint_env = 1000000" "mc_jti demo_claims = Some ''j1''" "mc_ttlSeconds demo_claims = None"
    by (simp_all add: demo_mint_env_def demo_claims_def)
  with c g show ?thesis
    by (simp add: mintDelegationToken_def Let_def or_default_def demo_token_def memory_write_def strip0x_def startsWith_def)
qed

definition demo_received :: token_claims where
  "demo_received = received_claims demo_claims ''j1'' 1000 1600"

lemma demo_signature_hex: "replicate 130 (CHR ''1'') = bytes_hex (replicate 65 0x11)"
proof -
  have "bytes_hex (replicate n 0x11) = replicate (2 * n) (CHR ''1'')" for n
    by (induction n) (simp_all add: bytes_hex_def byte_hex_def hex_digit_def char_of_eq_iff)
  from this [of 65] show ?thesis by simp
qed

lemma demo_signature_bytes: "bytes_hex (hexToBytes (replicate 130 (CHR ''1''))) = replicate 130 (CHR ''1'')"
proof -
  have "strip0x (replicate 130 (CHR ''1'')) = replicate 130 (CHR ''1'')" by (simp add: strip0x_def startsWith_def)
  then show ?thesis unfolding hexToBytes_def by (simp only: demo_signature_hex pair_bytes_bytes_hex)
qed

lemma demo_decode: "decodeToken demo_token = Inr (Decoded demo_received demo_canonical (''0x'' @ replicate 130 (CHR ''1'')))"
proof -
  have "canonicalJSON (claims_jsval (me_oid demo_mint_env) demo_claims ''j1'' 1000 1600) = Inr demo_canonical"
    using demo_refs by (simp add: canonical_claims demo_canonical_def)
  moreover have "BigInt_text (carried_salt (salt_of (mc_delegation demo_claims))) \<noteq> None"
    by (simp add: demo_claims_def demo_delegation_def carried_salt_def BigInt_text_int_str)
  moreover have "bytes_hex (hexToBytes (replicate 130 (CHR ''1''))) = replicate 130 (CHR ''1'')"
    by (rule demo_signature_bytes)
  ultimately show ?thesis
    using decode_minted [of _ demo_claims "''j1''" 1000 1600 demo_canonical "hexToBytes (replicate 130 (CHR ''1''))"]
    unfolding demo_token_def demo_received_def by metis
qed

lemma demo_hex_num: "hex_num 0 (take 64 (replicate 130 (CHR ''1''))) \<noteq> None"
  "hex_num 0 (take 64 (drop 64 (replicate 130 (CHR ''1'')))) \<noteq> None"
  by code_simp+

lemma demo_recover:
  "recoverEoaFromEip191Sig demo_lib (\<lambda>r s v d. Inr (replicate 65 0)) m (''0x'' @ replicate 130 (CHR ''1'')) = Inr demo_key"
proof -
  have "strip0x (''0x'' @ replicate 130 (CHR ''1'')) = replicate 130 (CHR ''1'')" by (simp add: strip0x_def startsWith_def)
  moreover have "drop 12 (keccak_256 demo_lib (drop 1 (replicate 65 0))) = replicate 20 64"
    by (simp add: demo_lib_def)
  ultimately show ?thesis using demo_hex_num
    by (auto simp: recoverEoaFromEip191Sig_def Let_def demo_key_def)
qed

text \<open>No sentinel address is as short as the addresses of the example.\<close>

lemma demo_sentinel: "length k = 4 \<Longrightarrow> k \<noteq> toLowerCase (sentinelAddress demo_lib urn)"
  by (auto simp: sentinelAddress_def demo_lib_def)

lemma demo_dispatch:
  "length k = 4 \<Longrightarrow> dispatch_table demo_lib demo_enforcers k =
     (if k = ''0x71'' then Some EvTimestamp else if k = ''0x72'' then Some EvValue
      else if k = ''0x73'' then Some EvAllowedTargets else if k = ''0x74'' then Some EvAllowedMethods else None)"
  using demo_sentinel [of k]
  by (simp add: dispatch_table_def set_if_def demo_enforcers_def MCP_TOOL_SCOPE_ENFORCER_def DATA_SCOPE_ENFORCER_def
      DELEGATE_BINDING_ENFORCER_def toLowerCase_def [of "[_, _, _, _]"] lower_char_def)

lemma demo_window: "decodeAbiParameters demo_lib ts ''0,2000'' = Inr [AInt 0, AInt 2000]" "decodeAbiParameters demo_lib ts ''0,5'' = Inr [AInt 0, AInt 5]"
  by (simp_all add: demo_lib_def BigInt_text_digits is_digit_def digits_num_def hex_val_def)

lemma demo_timestamp:
  "decodeAbiParameters demo_lib [TUint256, TUint256] tm = Inr [AInt lo, AInt hi] \<Longrightarrow>
   v_allowed (verdict_of demo_lib demo_enforcers (token_context demo_opts now) b \<lparr>enforcer = ''0x71'', terms = tm, args = a\<rparr>) \<longleftrightarrow>
     lo \<le> now \<and> now \<le> hi"
  by (simp add: verdict_of_def toLowerCase_def lower_char_def demo_dispatch run_eval_def evalTimestamp_def token_context_def
      allow_def deny_def)

lemma demo_opts_fields:
  "vo_enforcerMap demo_opts = demo_enforcers" "vo_enforceOnChain demo_opts = False" "vo_now demo_opts = 1100000"
  by (simp_all add: demo_opts_def)

lemma demo_verdict:
  "v_allowed (verdict_of demo_lib demo_enforcers (token_context demo_opts 1100) False \<lparr>enforcer = ''0x71'', terms = ''0,2000'', args = None\<rparr>)"
  by (simp add: demo_timestamp [OF demo_window(1)])

lemma demo_leaf_binds: "leaf_binds demo_env demo_opts demo_received demo_key"
  by (simp add: leaf_binds_def demo_received_def received_claims_def demo_claims_def demo_leaf_def demo_delegation_def
      hashDelegation_def demo_env_def demo_lib_def sig_holds_def demo_opts_def)

lemma demo_authorizes:
  "authorizes demo_env demo_opts demo_received demo_canonical (''0x'' @ replicate 130 (CHR ''1'')) ''0xh0xb0b'' False"
proof -
  have "caveats (tc_delegation demo_received) = [\<lparr>enforcer = ''0x71'', terms = ''0,2000'', args = None\<rparr>]"
    "tc_aud demo_received = Some ''urn:mcp''" "tc_exp demo_received = Some 1600"
    "tc_sessionKeyAddress demo_received = demo_key"
    by (simp_all add: demo_received_def received_claims_def demo_claims_def demo_delegation_def)
  moreover have "hashDelegation demo_lib (tc_delegation demo_received) 1 ''0x06'' = Inr ''0xh0xb0b''"
    by (simp add: hashDelegation_def demo_lib_def delegation_msg_def demo_received_def received_claims_def demo_claims_def demo_delegation_def)
  moreover have "sig_holds demo_env demo_opts (delegator (tc_delegation demo_received)) ''0xh0xb0b'' (signature (tc_delegation demo_received))"
    by (simp add: sig_holds_def demo_opts_def demo_env_def demo_received_def received_claims_def demo_claims_def demo_delegation_def)
  moreover have "ve_lib demo_env = demo_lib" "ve_secp demo_env = (\<lambda>r s v d. Inr (replicate 65 0))"
    "ve_isRevoked demo_env m h = Inr False" for m h by (simp_all add: demo_env_def)
  moreover have "vo_audience demo_opts = ''urn:mcp''" "vo_now demo_opts = 1100000" "vo_chainId demo_opts = 1"
    "vo_delegationManager demo_opts = ''0x06''" "vo_enforcerMap demo_opts = demo_enforcers" "vo_enforceOnChain demo_opts = False"
    "vo_requireQuorumCaveat demo_opts = None" "vo_requireAcceptedOnChain demo_opts = None"
    by (simp_all add: demo_opts_def)
  ultimately show ?thesis using demo_recover demo_verdict demo_leaf_binds
    by (simp add: authorizes_def)
qed

lemma demo_accepts:
  "fst (verifyDelegationToken demo_env demo_opts memory_trackUsage (Some (memory_write 1000)) demo_token (Map.empty, [])) =
   Inr (VPrincipal ''0xa11ce'')"
  unfolding verify_accepts_iff
  using demo_decode demo_authorizes
  by (fastforce simp: memory_trackUsage_def granted_def Let_def memory_write_def or_default_def demo_received_def
      received_claims_def demo_claims_def demo_delegation_def)

subsection \<open>Properties\<close>

text \<open>
  C1: \<open>verifyDelegationToken\<close> accepts a token exactly when it decodes to claims that authorize its
  bearer (audience, expiry, recovered session key bound by a leaf the account signed, delegation
  not revoked and signed by the account, every caveat allowed, quorum and on-chain acceptance
  where required), the usage counter grants one more use, and the accept row was written. The
  principal it returns is the delegator.
\<close>

theorem verify_accept_iff_authorized:
  "fst (verifyDelegationToken env opts track sk token (s, w)) = Inr (VPrincipal p) \<longleftrightarrow>
   (\<exists>claims canonical sig h b.
      decodeToken token = Inr (Decoded claims canonical sig) \<and> authorizes env opts claims canonical sig h b \<and>
      granted (fst (track (tc_jti claims) (or_default (tc_usageLimit claims) 10) s)) \<and>
      fst (emit_audit sk (accept_event env opts (delegator (tc_delegation claims)) h b) w) = Inr () \<and>
      p = delegator (tc_delegation claims))"
  by (rule verify_accepts_iff)

definition slots_left :: "string \<Rightarrow> (string \<Rightarrow> int) \<Rightarrow> nat" where
  "slots_left token used =
     (case decodeToken token of
        Inr (Decoded claims _ _) \<Rightarrow> nat (or_default (tc_usageLimit claims) 10 - used (tc_jti claims))
      | _ \<Rightarrow> 0)"

lemma no_accept_undecodable:
  assumes "\<nexists>claims canonical sig. decodeToken token = Inr (Decoded claims canonical sig)"
  shows "accepts_of track token calls sw = 0"
proof (induction calls arbitrary: sw)
  case Nil
  then show ?case by (simp add: accepts_of_def)
next
  case (Cons c calls)
  obtain env opts sk t where c: "c = (env, opts, sk, t)" by (cases c)
  have "\<not> is_principal (fst (verifyDelegationToken env opts track sk token sw))"
    using assms by (cases sw) (auto simp: is_principal_iff verify_accepts_iff)
  then show ?case using Cons by (auto simp: c accepts_of_Cons)
qed

lemma slots_leftI:
  assumes "\<And>claims canonical sig. decodeToken token = Inr (Decoded claims canonical sig) \<Longrightarrow>
      accepts_of track token calls sw \<le> nat (or_default (tc_usageLimit claims) 10 - used (tc_jti claims))"
  shows "accepts_of track token calls sw \<le> slots_left token used"
proof (cases "\<exists>claims canonical sig. decodeToken token = Inr (Decoded claims canonical sig)")
  case True
  then show ?thesis using assms by (auto simp: slots_left_def)
next
  case False
  then show ?thesis using no_accept_undecodable [OF False, of track calls sw] by simp
qed

text \<open>
  C2: whatever verifications are interleaved, by whatever services sharing a store, one token is
  accepted at most as many times as its usage limit exceeds the uses already counted; with an
  undecodable token, never. This holds for each of the three stores.
\<close>

theorem replay_bounded:
  "accepts_of sqlite_trackUsage token calls (s, w) \<le> slots_left token (sqlite_uses s) \<and>
   accepts_of postgres_trackUsage token calls' (s', w) \<le> slots_left token (postgres_uses s') \<and>
   accepts_of memory_trackUsage token calls'' (s'', w) \<le> slots_left token (usage_of s'')"
  by (intro conjI slots_leftI sqlite.replay_bound pg.replay_bound mem.replay_bound)

text \<open>
  C5: session-key binding. Let \<open>Signed\<close> be what accounts have authorized, and suppose a signature
  check only holds for authorized digests. Then an accepted token, unless the caller opted out of
  the binding, was signed by a key for which the principal's account authorized a leaf delegation,
  and that account also authorized the delegation itself. An observed token re-minted under
  another key is therefore refused.
\<close>

theorem session_key_vouched:
  assumes "fst (verifyDelegationToken env opts track sk token (s, w)) = Inr (VPrincipal p)"
    and "\<not> vo_allowUnboundSessionToken opts"
    and "\<And>a h sig. sig_holds env opts a h sig \<Longrightarrow> (toLowerCase a, h) \<in> Signed"
  shows "\<exists>claims canonical sig key leaf h hd.
    decodeToken token = Inr (Decoded claims canonical sig) \<and>
    recoverEoaFromEip191Sig (ve_lib env) (ve_secp env) canonical sig = Inr key \<and>
    toLowerCase (delegate leaf) = toLowerCase key \<and> toLowerCase (delegator leaf) = toLowerCase p \<and>
    hashDelegation (ve_lib env) leaf (vo_chainId opts) (vo_delegationManager opts) = Inr h \<and>
    (toLowerCase p, h) \<in> Signed \<and>
    hashDelegation (ve_lib env) (tc_delegation claims) (vo_chainId opts) (vo_delegationManager opts) = Inr hd \<and>
    (toLowerCase p, hd) \<in> Signed"
proof -
  obtain claims canonical sig hd b where d: "decodeToken token = Inr (Decoded claims canonical sig)"
    and a: "authorizes env opts claims canonical sig hd b" and p: "p = delegator (tc_delegation claims)"
    using assms(1) by (auto simp: verify_accepts_iff)
  obtain key where k: "recoverEoaFromEip191Sig (ve_lib env) (ve_secp env) canonical sig = Inr key"
    "leaf_binds env opts claims key" using a assms(2) by (auto simp: authorizes_def Let_def)
  from a have "hashDelegation (ve_lib env) (tc_delegation claims) (vo_chainId opts) (vo_delegationManager opts) = Inr hd"
    "(toLowerCase p, hd) \<in> Signed" using assms(3) p by (auto simp: authorizes_def Let_def)
  with d k p assms(3) show ?thesis by (fastforce simp: leaf_binds_def)
qed

theorem session_key_vouched_witness:
  "\<exists>claims canonical sig key leaf h hd.
    decodeToken demo_token = Inr (Decoded claims canonical sig) \<and>
    recoverEoaFromEip191Sig (ve_lib demo_env) (ve_secp demo_env) canonical sig = Inr key \<and>
    toLowerCase (delegate leaf) = toLowerCase key \<and> toLowerCase (delegator leaf) = toLowerCase ''0xa11ce'' \<and>
    hashDelegation (ve_lib demo_env) leaf (vo_chainId demo_opts) (vo_delegationManager demo_opts) = Inr h \<and>
    (toLowerCase ''0xa11ce'', h) \<in> {''0xa11ce''} \<times> UNIV \<and>
    hashDelegation (ve_lib demo_env) (tc_delegation claims) (vo_chainId demo_opts) (vo_delegationManager demo_opts) = Inr hd \<and>
    (toLowerCase ''0xa11ce'', hd) \<in> {''0xa11ce''} \<times> UNIV"
proof (rule session_key_vouched [OF demo_accepts])
  show "\<not> vo_allowUnboundSessionToken demo_opts" by (simp add: demo_opts_def)
  show "(toLowerCase a, h) \<in> {''0xa11ce''} \<times> UNIV" if "sig_holds demo_env demo_opts a h sig" for a h sig
    using that by (simp add: sig_holds_def demo_opts_def demo_env_def toLowerCase_Cons toLowerCase_Nil lower_char_def)
qed

text \<open>
  a verification that changes the usage counter had passed every other check. A token turned
  down for any other reason (wrong audience, expired, revoked, chain unreachable, denied caveat)
  does not burn one of its uses.
\<close>

theorem counter_moves_only_when_authorized:
  assumes "fst (snd (verifyDelegationToken env opts track sk token (s, w))) \<noteq> s"
  shows "\<exists>claims canonical sig h b. decodeToken token = Inr (Decoded claims canonical sig) \<and>
    authorizes env opts claims canonical sig h b \<and>
    fst (snd (verifyDelegationToken env opts track sk token (s, w))) =
      snd (track (tc_jti claims) (or_default (tc_usageLimit claims) 10) s)"
  using verify_store [of env opts track sk token s w] assms by blast

lemma demo_counter:
  "fst (snd (verifyDelegationToken demo_env demo_opts memory_trackUsage (Some (memory_write 1000)) demo_token (Map.empty, []))) =
   [''j1'' \<mapsto> 1]"
  using verify_accepts_store [OF demo_accepts demo_decode]
  by (simp add: memory_trackUsage_def demo_received_def received_claims_def)

theorem counter_moves_only_when_authorized_witness:
  "\<exists>claims canonical sig h b. decodeToken demo_token = Inr (Decoded claims canonical sig) \<and>
    authorizes demo_env demo_opts claims canonical sig h b \<and>
    fst (snd (verifyDelegationToken demo_env demo_opts memory_trackUsage (Some (memory_write 1000)) demo_token (Map.empty, []))) =
      snd (memory_trackUsage (tc_jti claims) (or_default (tc_usageLimit claims) 10) Map.empty)"
proof (rule counter_moves_only_when_authorized)
  show "fst (snd (verifyDelegationToken demo_env demo_opts memory_trackUsage (Some (memory_write 1000)) demo_token (Map.empty, []))) \<noteq> Map.empty"
    unfolding demo_counter by simp
qed

text \<open>
  C18: a minted token decodes. When \<open>mintDelegationToken\<close> returns a token, \<open>decodeToken\<close> yields the
  claims that were signed (same issuer, audience, delegation, leaf, session key, identifier and
  limit, with \<open>exp\<close> the chosen lifetime after \<open>iat\<close>), the very text the signer was given, and the
  signature's bytes.
\<close>

theorem minted_token_decodes:
  assumes "mintDelegationToken env opts sk claims w = (Inr (token, jti), w')"
    and "salt_of (mc_delegation claims) = SaltBig n"
  shows "\<exists>canonical sig. me_signMessage env canonical = Inr sig \<and>
    decodeToken token = Inr (Decoded
      (received_claims claims jti (me_dateNow env div 1000) (me_dateNow env div 1000 + or_default (mc_ttlSeconds claims) 600))
      canonical (''0x'' @ bytes_hex (hexToBytes (strip0x sig)))) \<and>
    tc_delegation (received_claims claims jti (me_dateNow env div 1000)
      (me_dateNow env div 1000 + or_default (mc_ttlSeconds claims) 600)) = mc_delegation claims"
proof -
  have salt: "BigInt_text (carried_salt (salt_of (mc_delegation claims))) = Some n"
    by (simp add: assms(2) carried_salt_def BigInt_text_int_str)
  then have "tc_delegation (received_claims claims jti iat exp) = mc_delegation claims" for iat exp
    using assms(2) by (simp add: received_claims_def)
  with mint_decodes [OF assms(1)] salt show ?thesis by auto
qed

theorem minted_token_decodes_witness:
  "\<exists>canonical sig. me_signMessage demo_mint_env canonical = Inr sig \<and>
    decodeToken demo_token = Inr (Decoded
      (received_claims demo_claims ''j1'' (me_dateNow demo_mint_env div 1000)
        (me_dateNow demo_mint_env div 1000 + or_default (mc_ttlSeconds demo_claims) 600))
      canonical (''0x'' @ bytes_hex (hexToBytes (strip0x sig)))) \<and>
    tc_delegation (received_claims demo_claims ''j1'' (me_dateNow demo_mint_env div 1000)
      (me_dateNow demo_mint_env div 1000 + or_default (mc_ttlSeconds demo_claims) 600)) = mc_delegation demo_claims"
  by (rule minted_token_decodes [OF demo_mint, of 7]) (simp add: demo_claims_def demo_delegation_def)

text \<open>
  every verdict is on record. When a sink is configured and a verification returns (an
  acceptance or a refusal), exactly that sink accepted a row whose action says which it was, with
  the principal or the reason; if the sink fails, no verdict is returned.
\<close>

theorem verdicts_are_recorded:
  assumes "verifyDelegationToken env opts track (Some write) token (s, w) = (Inr x, s', w')" "x \<noteq> VIllTyped"
  shows "\<exists>e. write e w = (Inr (), w') \<and>
    (case x of
       VPrincipal p \<Rightarrow> ev_action e = ''delegation.verify.accept'' \<and> ev_actor e = Some (User, Some p)
     | VError r \<Rightarrow> ev_action e = ''delegation.verify.reject'' \<and> ev_reason e = Some r
     | VIllTyped \<Rightarrow> False)"
  using verify_records [OF assms] by (simp add: row_matches_def)

lemma demo_verify_result:
  "verifyDelegationToken demo_env demo_opts memory_trackUsage (Some (memory_write 1000)) demo_token (Map.empty, []) =
   (Inr (VPrincipal ''0xa11ce''), [''j1'' \<mapsto> 1],
    snd (snd (verifyDelegationToken demo_env demo_opts memory_trackUsage (Some (memory_write 1000)) demo_token (Map.empty, []))))"
  using demo_accepts demo_counter by (metis prod.collapse)

theorem verdicts_are_recorded_witness:
  "\<exists>e. memory_write 1000 e [] = (Inr (), snd (snd (verifyDelegationToken demo_env demo_opts memory_trackUsage
      (Some (memory_write 1000)) demo_token (Map.empty, [])))) \<and>
    ev_action e = ''delegation.verify.accept'' \<and> ev_actor e = Some (User, Some ''0xa11ce'')"
  using verdicts_are_recorded [OF demo_verify_result] by simp

text \<open>
  off chain, only what can be checked off chain is accepted. A token accepted without the
  on-chain opt-in carries timestamp and tool-scope caveats only: each timestamp window contains
  the time of verification, bounds included, and each tool list contains the tool being called.
\<close>

theorem strict_acceptance_checks_every_caveat:
  assumes "fst (verifyDelegationToken env opts track sk token (s, w)) = Inr (VPrincipal p)"
    and "\<not> vo_enforceOnChain opts"
    and "decodeToken token = Inr (Decoded claims canonical sig)"
    and "c \<in> set (caveats (tc_delegation claims))"
  shows "(dispatch_table (ve_lib env) (vo_enforcerMap opts) (toLowerCase (enforcer c)) = Some EvTimestamp \<and>
       (\<exists>a u. decodeAbiParameters (ve_lib env) [TUint256, TUint256] (terms c) = Inr [AInt a, AInt u] \<and>
          a \<le> vo_now opts div 1000 \<and> vo_now opts div 1000 \<le> u)) \<or>
     (dispatch_table (ve_lib env) (vo_enforcerMap opts) (toLowerCase (enforcer c)) = Some EvMcpToolScope \<and>
       (\<exists>tool ts. vo_toolName opts = Some tool \<and>
          decodeAbiParameters (ve_lib env) [TArray TString] (terms c) = Inr [AList ts] \<and> tool \<in> set (texts ts)))"
proof -
  let ?ctx = "token_context opts (vo_now opts div 1000)"
  have v: "v_allowed (verdict_of (ve_lib env) (vo_enforcerMap opts) ?ctx False c)"
    using assms by (auto simp: verify_accepts_iff authorizes_def Let_def)
  have "dispatch_table (ve_lib env) (vo_enforcerMap opts) (toLowerCase (enforcer c)) \<in> {Some EvTimestamp, Some EvMcpToolScope}"
    by (rule strict_needs_context [OF v]) (simp_all add: token_context_def)
  with v show ?thesis
    by (auto simp: verdict_of_permits token_context_def) (cases "vo_toolName opts"; auto)+
qed

theorem strict_acceptance_checks_every_caveat_witness:
  "(dispatch_table demo_lib demo_enforcers ''0x71'' = Some EvTimestamp \<and>
       (\<exists>a u. decodeAbiParameters demo_lib [TUint256, TUint256] ''0,2000'' = Inr [AInt a, AInt u] \<and> a \<le> 1100 \<and> 1100 \<le> u)) \<or>
   (dispatch_table demo_lib demo_enforcers ''0x71'' = Some EvMcpToolScope \<and>
       (\<exists>tool ts. Some ''read'' = Some tool \<and>
          decodeAbiParameters demo_lib [TArray TString] ''0,2000'' = Inr [AList ts] \<and> tool \<in> set (texts ts)))"
proof -
  have "\<lparr>enforcer = ''0x71'', terms = ''0,2000'', args = None\<rparr> \<in> set (caveats (tc_delegation demo_received))"
    by (simp add: demo_received_def received_claims_def demo_claims_def demo_delegation_def)
  moreover have "\<not> vo_enforceOnChain demo_opts" by (simp add: demo_opts_def)
  moreover have "ve_lib demo_env = demo_lib" "vo_enforcerMap demo_opts = demo_enforcers" "vo_now demo_opts = 1100000"
    "vo_toolName demo_opts = Some ''read''" by (simp_all add: demo_env_def demo_opts_def)
  moreover have "toLowerCase ''0x71'' = ''0x71''" by (simp add: toLowerCase_Cons toLowerCase_Nil lower_char_def)
  ultimately show ?thesis
    using strict_acceptance_checks_every_caveat [OF demo_accepts _ demo_decode,
        of "\<lparr>enforcer = ''0x71'', terms = ''0,2000'', args = None\<rparr>"] by simp
qed

text \<open>
  C30: the lifetime and reuse of a minted token are bounded (lifetime and limit being whole numbers). Without the
  explicit risk acknowledgement a token lives at most an hour (or the caller's own ceiling), and a usage limit it
  states is at most a hundred (or the caller's ceiling); lifetime and limit are always positive. A token that states
  none is not checked against the ceiling: the verifier counts to 10 for it. So the number of uses the verifier
  allows is positive and at most the larger of the ceiling and 10. What the verifier reads back are these very bounds.
\<close>

theorem mint_bounds:
  assumes "mintDelegationToken env opts sk claims w = (Inr (token, jti), w')" "\<not> mo_acceptElevatedRisk opts"
    "salt_of (mc_delegation claims) = SaltBig n"
  shows "\<exists>c canonical sig iat exp. decodeToken token = Inr (Decoded c canonical sig) \<and>
    tc_iat c = Some iat \<and> tc_exp c = Some exp \<and> iat < exp \<and>
    exp \<le> iat + or_default (mo_maxAllowedTtlSeconds opts) 3600 \<and>
    (case tc_usageLimit c of None \<Rightarrow> True
     | Some u \<Rightarrow> 0 < u \<and> u \<le> or_default (mo_maxAllowedUsageLimit opts) 100) \<and>
    0 < or_default (tc_usageLimit c) 10 \<and>
    or_default (tc_usageLimit c) 10 \<le> max 10 (or_default (mo_maxAllowedUsageLimit opts) 100)"
proof -
  let ?ttl = "or_default (mc_ttlSeconds claims) 600" and ?iat = "me_dateNow env div 1000"
  have "BigInt_text (carried_salt (salt_of (mc_delegation claims))) \<noteq> None"
    by (simp add: assms(3) carried_salt_def BigInt_text_int_str)
  from mint_decodes [OF assms(1) this] obtain canonical sig where
    "decodeToken token = Inr (Decoded (received_claims claims jti ?iat (?iat + ?ttl)) canonical sig)" by blast
  moreover have "mint_guard opts claims ?ttl = None" using mint_success [OF assms(1)] by blast
  ultimately show ?thesis using assms(2)
    by (fastforce simp: mint_guard_None received_claims_def DEFAULT_MAX_TTL_SECONDS_def DEFAULT_MAX_USAGE_LIMIT_def or_default_def
        split: option.split)
qed

theorem mint_bounds_witness:
  "\<exists>c canonical sig iat exp. decodeToken demo_token = Inr (Decoded c canonical sig) \<and>
    tc_iat c = Some iat \<and> tc_exp c = Some exp \<and> iat < exp \<and>
    exp \<le> iat + or_default (mo_maxAllowedTtlSeconds demo_mint_opts) 3600 \<and>
    (case tc_usageLimit c of None \<Rightarrow> True
     | Some u \<Rightarrow> 0 < u \<and> u \<le> or_default (mo_maxAllowedUsageLimit demo_mint_opts) 100) \<and>
    0 < or_default (tc_usageLimit c) 10 \<and>
    or_default (tc_usageLimit c) 10 \<le> max 10 (or_default (mo_maxAllowedUsageLimit demo_mint_opts) 100)"
  by (rule mint_bounds [OF demo_mint, of 7]) (simp_all add: demo_mint_opts_def demo_claims_def demo_delegation_def)

text \<open>The ceiling does not see a limit that is left out: below 10, it is exceeded.\<close>

lemma absent_limit_ignores_ceiling:
  assumes "mc_usageLimit claims = None"
  shows "mint_guard (opts\<lparr>mo_maxAllowedUsageLimit := Some 1\<rparr>) claims ttl = mint_guard opts claims ttl"
  using assms by (simp add: mint_guard_def Let_def)

text \<open>
  the leaf's own caveats are not consulted. The leaf that binds the session key carries a
  timestamp caveat as its expiry; verification checks the leaf's parties and signature only. Here
  a token whose leaf ended at second 5 is accepted at second 1100, although evaluating that caveat
  denies it.
\<close>

theorem expired_leaf_is_accepted:
  "fst (verifyDelegationToken demo_env demo_opts memory_trackUsage (Some (memory_write 1000)) demo_token (Map.empty, [])) =
     Inr (VPrincipal ''0xa11ce'') \<and>
   tc_sessionDelegation demo_received = Some (demo_leaf\<lparr>salt_of := SaltStr ''8''\<rparr>) \<and>
   map v_allowed (evaluateCaveats (ve_lib demo_env) (caveats demo_leaf) (token_context demo_opts (vo_now demo_opts div 1000))
     (vo_enforcerMap demo_opts) (vo_enforceOnChain demo_opts)) = [False]"
proof (intro conjI demo_accepts)
  have "int_str 8 = ''8''" by (simp add: int_str_def nat_str.simps char_of_eq_iff)
  then show "tc_sessionDelegation demo_received = Some (demo_leaf\<lparr>salt_of := SaltStr ''8''\<rparr>)"
    by (simp add: demo_received_def received_claims_def demo_claims_def demo_leaf_def carried_salt_def)
  show "map v_allowed (evaluateCaveats (ve_lib demo_env) (caveats demo_leaf) (token_context demo_opts (vo_now demo_opts div 1000))
     (vo_enforcerMap demo_opts) (vo_enforceOnChain demo_opts)) = [False]"
    by (simp add: evaluateCaveats_map demo_leaf_def demo_env_def demo_opts_fields demo_timestamp [OF demo_window(2)])
qed

text \<open>
  a token whose signature part is not base64 makes verification throw instead of answering
  with a malformed-token error, and no audit row is written: the decoding of the second part
  stands outside the \<open>try\<close> block.
\<close>

theorem malformed_signature_throws:
  assumes "base64urlToBytes p1 = Inl e" "CHR ''.'' \<notin> set p1"
    "canonicalJSON (claims_jsval oid c jti iat exp) = Inr canonical" "salt_of (mc_delegation c) = SaltBig n"
  shows "verifyDelegationToken env opts track sk (base64urlEncode canonical @ ''.'' @ p1) (s, w) = (Inl e, s, w)"
proof -
  have "BigInt_text (carried_salt (salt_of (mc_delegation c))) \<noteq> None"
    by (simp add: assms(4) carried_salt_def BigInt_text_int_str)
  from parsed_members_minted [OF assms(3) this] assms(1,2) show ?thesis
    by (auto simp: verifyDelegationToken_def decodeToken_def base64urlEncode_def)
qed

theorem malformed_signature_throws_witness:
  "verifyDelegationToken demo_env demo_opts memory_trackUsage (Some (memory_write 1000))
     (base64urlEncode demo_canonical @ ''.'' @ ''!'') (Map.empty, []) = (Inl InvalidCharacterError, Map.empty, [])"
proof (rule malformed_signature_throws)
  show "base64urlToBytes ''!'' = Inl InvalidCharacterError" by code_simp
  show "canonicalJSON (claims_jsval (me_oid demo_mint_env) demo_claims ''j1'' 1000 1600) = Inr demo_canonical"
    using demo_refs by (simp add: canonical_claims demo_canonical_def)
  show "salt_of (mc_delegation demo_claims) = SaltBig 7" by (simp add: demo_claims_def demo_delegation_def)
qed simp

end
