(* ===== verification/RuntimeProperties.thy ===== *)
theory RuntimeProperties
  imports McpRuntime TokenProperties
begin

section \<open>Properties of the tool wrapper\<close>

text \<open>
  What \<open>withDelegation\<close> guarantees: when the handler runs, what has been recorded by then, what a
  refusal reveals, when construction fails, that the resource variant decides alike, and that a
  tool which needs a quorum caveat can never be called. The concrete world of
  \<open>TokenProperties\<close> supplies the instances.
\<close>

subsection \<open>Policy and gates\<close>

lemma policy_refusal_None_Some:
  assumes "policy_refusal opts = None" "wd_classification opts = Some cls"
  shows "sa_tool cls = Some ''delegation-verified'' \<and> evaluateThresholdPolicy cls \<noteq> None \<and>
    (sa_risk_tier cls = Some ''critical'' \<or>
     evaluatePolicy \<lparr>pc_toolName = or_default (wd_toolName opts) ''unknown'', pc_classification = cls,
        pc_hasDelegation = True, pc_callerKind = UserSession\<rparr> = Allow)"
proof -
  let ?ctx = "\<lparr>pc_toolName = or_default (wd_toolName opts) ''unknown'', pc_classification = cls,
        pc_hasDelegation = True, pc_callerKind = UserSession\<rparr>"
  have nd: "\<nexists>d. evaluatePolicy ?ctx = Deny d"
    using assms by (auto simp: policy_refusal_def)
  from user_allow_tool [OF nd] have "sa_tool cls = Some ''delegation-verified''" "evaluateThresholdPolicy cls \<noteq> None" by auto
  moreover have "sa_risk_tier cls = Some ''critical'' \<or> evaluatePolicy ?ctx = Allow"
    using nd evaluatePolicy_Consent [of ?ctx] by (cases "evaluatePolicy ?ctx") auto
  ultimately show ?thesis by blast
qed

lemma derive_gates_Gates:
  assumes "derive_gates config (Some cls) = Gates q a"
  shows "\<exists>thr. evaluateThresholdPolicy cls = Some thr \<and>
    q = (if th_requiresQuorum thr then cf_quorumEnforcer config else None) \<and>
    (th_requiresQuorum thr \<longrightarrow> truthy (cf_quorumEnforcer config)) \<and>
    a = (if th_requiresAcceptedOnChain thr then Some True else None)"
  using assms by (auto simp: derive_gates_def split: option.splits if_splits)

lemma tier_gates:
  "sa_risk_tier cls = Some ''critical'' \<Longrightarrow> evaluateThresholdPolicy cls = Some thr \<Longrightarrow>
     th_requiresQuorum thr \<and> th_requiresAcceptedOnChain thr"
  "sa_risk_tier cls = Some ''high'' \<Longrightarrow> evaluateThresholdPolicy cls = Some thr \<Longrightarrow> th_requiresQuorum thr"
  by (auto simp: evaluateThresholdPolicy_def RISK_TIER_REQUIREMENTS_def)

lemma verify_options_simps [simp]:
  "vo_requireQuorumCaveat (verify_options env config opts corr ch now q a pf) = q"
  "vo_requireAcceptedOnChain (verify_options env config opts corr ch now q a pf) = a"
  "vo_enforcerMap (verify_options env config opts corr ch now q a pf) = cf_enforcerMap config"
  "vo_enforceOnChain (verify_options env config opts corr ch now q a pf) = ch"
  "vo_correlationId (verify_options env config opts corr ch now q a pf) = Some corr"
  "vo_audience (verify_options env config opts corr ch now q a pf) = cf_audience config"
  by (simp_all add: verify_options_def)

text \<open>A required quorum caveat whose enforcer the evaluator does not know cannot be satisfied.\<close>

lemma unknown_quorum_never_authorizes:
  assumes "vo_requireQuorumCaveat opts = Some q" "dispatch_table (ve_lib env) (vo_enforcerMap opts) (toLowerCase q) = None"
  shows "\<not> authorizes env opts claims canonical sig h b"
proof
  assume a: "authorizes env opts claims canonical sig h b"
  then obtain c where c: "c \<in> set (caveats (tc_delegation claims))" "toLowerCase (enforcer c) = toLowerCase q"
    using assms(1) by (auto simp: authorizes_def Let_def)
  with a have "v_allowed (verdict_of (ve_lib env) (vo_enforcerMap opts) (token_context opts (vo_now opts div 1000))
      (vo_enforceOnChain opts) c)" by (auto simp: authorizes_def Let_def)
  with assms(2) c(2) show False by (auto simp: verdict_of_permits)
qed

subsection \<open>Properties\<close>

text \<open>
  C6: a wrapped handler runs only for an authorized, policy-conforming call. Its argument is then
  the delegator of a delegation that authorizes the call under the gates of the tool's tier; one use of the token was
  granted within its limit and counted, and the usage store the call leaves is the one that count left; the tool is
  delegation-verified; and for a critical tool the account has accepted the delegation on chain.
\<close>

theorem handler_runs_only_when_authorized:
  assumes "fst (wrapped_call env config opts track metric sk handler token proof (s, w)) = Ran r"
    and "wd_classification opts = Some cls"
  shows "\<exists>t claims canonical sig h b q a. token = Some t \<and>
    decodeToken t = Inr (Decoded claims canonical sig) \<and>
    derive_gates config (Some cls) = Gates q a \<and>
    authorizes (we_verify env)
      (verify_options env config opts (call_id env opts) (cf_enforceOnChain config) (we_now env) q a proof)
      claims canonical sig h b \<and>
    granted (fst (track (tc_jti claims) (or_default (tc_usageLimit claims) 10) s)) \<and>
    fst (snd (wrapped_call env config opts track metric sk handler token proof (s, w))) =
      snd (track (tc_jti claims) (or_default (tc_usageLimit claims) 10) s) \<and>
    r = handler (delegator (tc_delegation claims)) \<and>
    sa_tool cls = Some ''delegation-verified'' \<and>
    (sa_risk_tier cls = Some ''critical'' \<longrightarrow>
       ve_isAccepted (we_verify env) (delegator (tc_delegation claims)) h = Inr True)"
proof -
  obtain t q a p s1 w1 where t: "token = Some t" and g: "derive_gates config (Some cls) = Gates q a"
    and v: "verifyDelegationToken (we_verify env)
        (verify_options env config opts (call_id env opts) (cf_enforceOnChain config) (we_now env) q a proof)
        track sk t (s, w) = (Inr (VPrincipal p), s1, w1)"
    and pol: "policy_refusal opts = None" and r: "r = handler p" and t0: "t \<noteq> []"
    using assms by (auto simp: wrapped_call_Ran)
  from v have ok: "fst (verifyDelegationToken (we_verify env)
      (verify_options env config opts (call_id env opts) (cf_enforceOnChain config) (we_now env) q a proof)
      track sk t (s, w)) = Inr (VPrincipal p)" by simp
  then obtain claims canonical sig h b where d: "decodeToken t = Inr (Decoded claims canonical sig)"
    and au: "authorizes (we_verify env)
      (verify_options env config opts (call_id env opts) (cf_enforceOnChain config) (we_now env) q a proof)
      claims canonical sig h b" and p: "p = delegator (tc_delegation claims)"
    unfolding verify_accepts_iff by blast
  have st: "fst (snd (wrapped_call env config opts track metric sk handler token proof (s, w))) = s1"
    using t t0 g v assms(2) by (simp add: wrapped_call_def Let_def split: prod.split)
  note used = verify_accepts_store [OF ok d, unfolded v fst_conv snd_conv, folded st]
  obtain thr where thr: "evaluateThresholdPolicy cls = Some thr"
    "a = (if th_requiresAcceptedOnChain thr then Some True else None)"
    using derive_gates_Gates [OF g] by blast
  have "sa_risk_tier cls = Some ''critical'' \<Longrightarrow> ve_isAccepted (we_verify env) (delegator (tc_delegation claims)) h = Inr True"
    using tier_gates(1) [OF _ thr(1)] thr(2) au by (auto simp: authorizes_def Let_def)
  with t g d au p r used policy_refusal_None_Some [OF pol assms(2)] show ?thesis by blast
qed

text \<open>
  no tool call without its audit trail. When the wrapper has a sink and the handler ran, the
  sink had accepted the verifier's accept row and then the wrapper's own accept row, both carrying
  the call's correlation identifier and naming the principal; if either write fails the handler
  does not run.
\<close>

theorem handler_runs_after_audit:
  assumes "fst (wrapped_call env config opts track metric (Some write) handler token proof (s, w)) = Ran r"
  shows "\<exists>p e1 w1 e2. r = handler p \<and> write e1 w = (Inr (), w1) \<and>
    ev_action e1 = ''delegation.verify.accept'' \<and> ev_actor e1 = Some (User, Some p) \<and>
    ev_action e2 = ''mcp-runtime.with-delegation.accept'' \<and> ev_correlationId e2 = Some (call_id env opts) \<and>
    fst (write e2 (emit_metrics metric ''mcp_runtime.with_delegation''
      [(''tool'', or_default (wd_toolName opts) ''unknown''), (''audience'', cf_audience config), (''outcome'', ''accept'')]
      (we_elapsed env) w1)) = Inr ()"
proof -
  from assms obtain t q a p s1 w1 where
    v: "verifyDelegationToken (we_verify env)
        (verify_options env config opts (call_id env opts) (cf_enforceOnChain config) (we_now env) q a proof)
        track (Some write) t (s, w) = (Inr (VPrincipal p), s1, w1)"
    and e: "fst (emit_outcome ''mcp_runtime.with_delegation'' ''mcp-runtime.with-delegation'' env config opts metric (Some write)
        (call_id env opts) Success None (Some p) w1) = Inr ()" and r: "r = handler p"
    unfolding wrapped_call_Ran by blast
  from verify_records [OF v] obtain e1 where "write e1 w = (Inr (), w1)" "row_matches (VPrincipal p) e1" by auto
  then show ?thesis
    using e r
    by (intro exI [of _ p] exI [of _ e1] exI [of _ w1]
        exI [of _ "runtime_event env config opts ''mcp-runtime.with-delegation.accept'' (call_id env opts) Success None (Some p)"])
       (auto simp: emit_outcome_def Let_def row_matches_def runtime_event_def buildEvent_def blank_event_def)
qed

subsection \<open>The concrete world, through the wrapper\<close>

definition demo_config :: mcp_config where
  "demo_config = \<lparr>cf_audience = ''urn:mcp'', cf_chainId = 1, cf_delegationManager = ''0x06'', cf_enforcerMap = demo_enforcers,
     cf_requireDeployed = None, cf_quorumEnforcer = Some ''0x99'', cf_enforceOnChain = False,
     cf_allowUnboundSessionToken = False, cf_universalSignatureValidator = Some ''0x05''\<rparr>"

definition demo_tool :: "string \<Rightarrow> wd_opts" where
  "demo_tool tier = \<lparr>wd_toolName = Some ''read'', wd_correlationId = Some ''c'',
     wd_classification = Some \<lparr>sa_tool = Some ''delegation-verified'', sa_auth = Some ''session-token'', sa_risk_tier = Some tier\<rparr>,
     wd_traceparent = None, wd_environment = None, wd_developmentMode = False\<rparr>"

definition demo_call_env :: call_env where
  "demo_call_env = \<lparr>we_verify = demo_env, we_now = 1100000, we_generatedId = ''g'', we_elapsed = 1\<rparr>"

lemma authorizes_correlation:
  "authorizes env (opts\<lparr>vo_correlationId := c\<rparr>) claims canonical sig h b = authorizes env opts claims canonical sig h b"
  by (simp add: authorizes_def leaf_binds_def sig_holds_def token_context_def Let_def)

lemma demo_verify_options:
  "verify_options demo_call_env demo_config (demo_tool tier) ''c'' False 1100000 None None None = demo_opts\<lparr>vo_correlationId := Some ''c''\<rparr>"
  by (simp add: verify_options_def demo_config_def demo_opts_def demo_tool_def)

lemma demo_wrapped:
  "fst (wrapped_call demo_call_env demo_config (demo_tool ''low'') memory_trackUsage None (Some (memory_write 1000)) length
     (Some demo_token) None (Map.empty, [])) = Ran (length ''0xa11ce'')"
proof -
  let ?vo = "verify_options demo_call_env demo_config (demo_tool ''low'') (call_id demo_call_env (demo_tool ''low''))
      (cf_enforceOnChain demo_config) (we_now demo_call_env) None None None"
  have vo: "?vo = demo_opts\<lparr>vo_correlationId := Some ''c''\<rparr>"
    using demo_verify_options [of "''low''"] by (simp add: demo_tool_def demo_config_def demo_call_env_def or_default_def)
  have "authorizes demo_env ?vo demo_received demo_canonical (''0x'' @ replicate 130 (CHR ''1'')) ''0xh0xb0b'' False"
    unfolding vo authorizes_correlation by (rule demo_authorizes)
  then have "fst (verifyDelegationToken demo_env ?vo memory_trackUsage (Some (memory_write 1000)) demo_token (Map.empty, [])) =
      Inr (VPrincipal ''0xa11ce'')"
    unfolding verify_accepts_iff using demo_decode
    by (fastforce simp: memory_trackUsage_def granted_def Let_def memory_write_def or_default_def demo_received_def
        received_claims_def demo_claims_def demo_delegation_def)
  then obtain s1 w1 where v: "verifyDelegationToken demo_env ?vo memory_trackUsage (Some (memory_write 1000)) demo_token (Map.empty, []) =
      (Inr (VPrincipal ''0xa11ce''), s1, w1)" by (metis prod.collapse)
  have "derive_gates demo_config (wd_classification (demo_tool ''low'')) = Gates None None" by code_simp
  moreover have "policy_refusal (demo_tool ''low'') = None" by code_simp
  moreover have "demo_token \<noteq> []" by (simp add: demo_token_def)
  moreover have "we_verify demo_call_env = demo_env" by (simp add: demo_call_env_def)
  ultimately show ?thesis
    unfolding wrapped_call_Ran using v by (fastforce simp: emit_outcome_def Let_def memory_write_def)
qed

theorem handler_runs_only_when_authorized_witness:
  "\<exists>t claims canonical sig h b q a. Some demo_token = Some t \<and>
    decodeToken t = Inr (Decoded claims canonical sig) \<and>
    derive_gates demo_config (wd_classification (demo_tool ''low'')) = Gates q a \<and>
    authorizes (we_verify demo_call_env)
      (verify_options demo_call_env demo_config (demo_tool ''low'') (call_id demo_call_env (demo_tool ''low''))
        (cf_enforceOnChain demo_config) (we_now demo_call_env) q a None)
      claims canonical sig h b \<and>
    granted (fst (memory_trackUsage (tc_jti claims) (or_default (tc_usageLimit claims) 10) Map.empty)) \<and>
    length ''0xa11ce'' = length (delegator (tc_delegation claims))"
proof -
  have cls: "wd_classification (demo_tool ''low'') = Some (the (wd_classification (demo_tool ''low'')))"
    by (simp add: demo_tool_def)
  from handler_runs_only_when_authorized [OF demo_wrapped cls] show ?thesis
    unfolding cls [symmetric] by blast
qed

theorem handler_runs_after_audit_witness:
  "\<exists>p e1 w1 e2. length ''0xa11ce'' = length p \<and> memory_write 1000 e1 [] = (Inr (), w1) \<and>
    ev_action e1 = ''delegation.verify.accept'' \<and> ev_actor e1 = Some (User, Some p) \<and>
    ev_action e2 = ''mcp-runtime.with-delegation.accept'' \<and>
    ev_correlationId e2 = Some (call_id demo_call_env (demo_tool ''low'')) \<and>
    fst (memory_write 1000 e2 (emit_metrics None ''mcp_runtime.with_delegation''
      [(''tool'', or_default (wd_toolName (demo_tool ''low'')) ''unknown''), (''audience'', cf_audience demo_config), (''outcome'', ''accept'')]
      (we_elapsed demo_call_env) w1)) = Inr ()"
  by (rule handler_runs_after_audit [OF demo_wrapped])

text \<open>
  high-risk tools cannot be called. A high or critical tool needs a caveat of the quorum
  enforcer, but the evaluator's table has no entry for that enforcer (\<open>EnforcerAddressMap\<close> has no
  quorum field), so the very caveat that the gate demands is denied as unknown: the handler never
  runs, whatever the token, the proof and the chain say.
\<close>

theorem quorum_tools_never_run:
  assumes "wd_classification opts = Some cls" "sa_risk_tier cls \<in> {Some ''high'', Some ''critical''}"
    and "cf_quorumEnforcer config = Some q"
    and "dispatch_table (ve_lib (we_verify env)) (cf_enforcerMap config) (toLowerCase q) = None"
  shows "fst (wrapped_call env config opts track metric sk handler token proof (s, w)) \<noteq> Ran r"
proof
  assume "fst (wrapped_call env config opts track metric sk handler token proof (s, w)) = Ran r"
  then obtain claims canonical sig h b q' a where g: "derive_gates config (Some cls) = Gates q' a"
    and au: "authorizes (we_verify env)
      (verify_options env config opts (call_id env opts) (cf_enforceOnChain config) (we_now env) q' a proof)
      claims canonical sig h b"
    unfolding wrapped_call_Ran verify_accepts_iff [of "we_verify env"] assms(1)
    by (metis fst_conv verify_accepts_iff)
  from derive_gates_Gates [OF g] assms(2,3) tier_gates have "q' = Some q" by auto
  with au assms(4) unknown_quorum_never_authorizes [of _ q "we_verify env"] show False by fastforce
qed

theorem quorum_tools_never_run_witness:
  "fst (wrapped_call demo_call_env demo_config (demo_tool ''critical'') memory_trackUsage None (Some (memory_write 1000)) length
     (Some demo_token) (Some OnChainRedeemed) (Map.empty, [])) \<noteq> Ran 7"
proof (rule quorum_tools_never_run)
  show "wd_classification (demo_tool ''critical'') = Some \<lparr>sa_tool = Some ''delegation-verified'',
      sa_auth = Some ''session-token'', sa_risk_tier = Some ''critical''\<rparr>" by (simp add: demo_tool_def)
  show "cf_quorumEnforcer demo_config = Some ''0x99''" by (simp add: demo_config_def)
  show "dispatch_table (ve_lib (we_verify demo_call_env)) (cf_enforcerMap demo_config) (toLowerCase ''0x99'') = None"
    by (simp add: demo_call_env_def demo_env_def demo_config_def toLowerCase_def lower_char_def demo_dispatch)
qed simp

text \<open>
  the production gate. Constructing a wrapper fails exactly when the environment is production
  and the classification or the audit sink is missing; and with no explicit environment, no
  development flag and no readable \<open>NODE_ENV\<close>, the environment is production.
\<close>

theorem production_requires_policy_and_audit:
  "(isl (withDelegation nodeEnv config opts track metric sk handler) \<longleftrightarrow>
     inferEnvironment (wd_environment opts) (wd_developmentMode opts) nodeEnv = Production \<and>
     (wd_classification opts = None \<or> sk = None)) \<and>
   inferEnvironment None False None = Production"
  by (auto simp: withDelegation_def production_gate_def inferEnvironment_def)

text \<open>
  refusals are opaque. An authentication error carries the call's correlation identifier and
  one of two codes; which one depends on the configuration alone (a tool that needs quorum on a
  server without a quorum enforcer), never on why the token was refused.
\<close>

theorem refusals_are_opaque:
  assumes "fst (wrapped_call env config opts track metric sk handler (Some token) proof (s, w)) = McpAuthError code corr"
    and "token \<noteq> []"
  shows "corr = call_id env opts \<and>
    code = (if derive_gates config (wd_classification opts) = Misconfigured then AuthMisconfigured else AuthFailed)"
proof -
  have d: "deny_call env config opts metric sk c cd detail prin v = (McpAuthError code corr, v') \<Longrightarrow> code = cd \<and> corr = c"
    for c cd detail prin v v' by (auto simp: deny_call_def split: prod.splits sum.splits)
  have f: "finish_call env config opts metric sk c handler prin v = (McpAuthError code corr, v') \<Longrightarrow> code = AuthFailed \<and> corr = c"
    for c prin v v' by (auto simp: finish_call_def split: option.splits prod.splits sum.splits dest: d)
  show ?thesis
    using assms
    by (auto simp: wrapped_call_def Let_def split: gates.splits prod.splits sum.splits verify_result.splits if_splits
        dest!: d f)
qed

theorem refusals_are_opaque_witness:
  "fst (wrapped_call demo_call_env demo_config (demo_tool ''low'') memory_trackUsage None None length (Some ''x'') None (Map.empty, [])) =
     McpAuthError AuthFailed ''c'' \<and> ''c'' = call_id demo_call_env (demo_tool ''low'') \<and>
   AuthFailed = (if derive_gates demo_config (wd_classification (demo_tool ''low'')) = Misconfigured
     then AuthMisconfigured else AuthFailed)"
proof -
  have "fst (wrapped_call demo_call_env demo_config (demo_tool ''low'') memory_trackUsage None None length (Some ''x'') None (Map.empty, [])) =
     McpAuthError AuthFailed ''c''" by code_simp
  with refusals_are_opaque [OF this] show ?thesis by simp
qed

text \<open>
  C32: the resource variant decides like the wrapper. Without an audit sink, metrics and an explicit timestamp, where
  the production gate lets a resource without a sink pass, and as long as the
  configuration does not opt into on-chain enforcement, \<open>verifyDelegationForResource\<close> returns a
  principal exactly when the wrapper runs its handler on that principal.
\<close>

theorem resource_variant_agrees:
  assumes "production_gate resource_messages opts nodeEnv False = None" "\<not> cf_enforceOnChain config" "token \<noteq> []"
  shows "fst (verifyDelegationForResource nodeEnv env config opts None track None None token proof (s, w)) = ROk p \<longleftrightarrow>
    fst (wrapped_call env config opts track None None id (Some token) proof (s, w)) = Ran p"
proof -
  have fr: "finish_resource env config opts None None c q v = (if policy_refusal opts = None then ROk q else RError ''auth-failed'', v)" for c q v
    by (auto simp: finish_resource_def deny_resource_def emit_outcome_def emit_audit_def emit_metrics_def Let_def split: option.split)
  have dr: "deny_resource env config opts None None c m d q v = (RError m, v)" for c m d q v
    by (simp add: deny_resource_def emit_outcome_def emit_audit_def emit_metrics_def Let_def)
  have em: "fst (emit_outcome x y env config opts None None c oc rs q v) = Inr ()" for x y c oc rs q v
    by (simp add: emit_outcome_def emit_audit_def emit_metrics_def Let_def)
  show ?thesis
  proof (cases "derive_gates config (wd_classification opts)")
    case (Gates q a)
    obtain r s1 w1 where v: "verifyDelegationToken (we_verify env)
        (verify_options env config opts (call_id env opts) False (we_now env) q a proof) track None token (s, w) = (r, s1, w1)"
      by (cases "verifyDelegationToken (we_verify env)
        (verify_options env config opts (call_id env opts) False (we_now env) q a proof) track None token (s, w)")
    show ?thesis
      using assms v Gates
      by (cases r) (auto simp: verifyDelegationForResource_def wrapped_call_Ran Let_def fr dr em split: verify_result.splits)
  qed (use assms in \<open>simp_all add: verifyDelegationForResource_def wrapped_call_Ran Let_def dr\<close>)
qed

theorem resource_variant_agrees_witness:
  "fst (verifyDelegationForResource (Some ''test'') demo_call_env demo_config (demo_tool ''low'') None memory_trackUsage None None
      demo_token None (Map.empty, [] :: audit_event list)) = ROk ''0xa11ce'' \<longleftrightarrow>
   fst (wrapped_call demo_call_env demo_config (demo_tool ''low'') memory_trackUsage None None id (Some demo_token) None
      (Map.empty, [] :: audit_event list)) = Ran ''0xa11ce''"
proof (rule resource_variant_agrees)
  show "production_gate resource_messages (demo_tool ''low'') (Some ''test'') False = None" by code_simp
  show "\<not> cf_enforceOnChain demo_config" by (simp add: demo_config_def)
  show "demo_token \<noteq> []" by (simp add: demo_token_def)
qed

end
