(* ===== verification/Numbers.thy ===== *)
theory Numbers
  imports Prelude Complex_Main "HOL-Library.Log_Nat"
begin

section \<open>Numbers\<close>

text \<open>
  \<open>Number(text)\<close>: the numbers of the language are the doubles of IEEE 754. A finite one is the rational it stands
  for; infinities and \<open>NaN\<close> are not told apart, since the code asks for finite numbers only. A literal is read
  exactly and then rounded to the nearest double, half to even.
\<close>

datatype js_number = Finite rat | NotFinite

definition round_even :: "rat \<Rightarrow> int" where
  "round_even x =
     (let f = \<lfloor>x\<rfloor>; d = x - of_int f in
      if d < 1 / 2 then f else if d > 1 / 2 then f + 1 else if even f then f else f + 1)"

text \<open>The exponent of the leading binary digit, and the weight of the last of 53 digits.\<close>

definition binexp :: "rat \<Rightarrow> int" where
  "binexp q =
     (let a = \<bar>q\<bar> in
      if 1 \<le> a then int (floorlog 2 (nat \<lfloor>a\<rfloor>)) - 1 else - int (floorlog 2 (nat \<lceil>1 / a\<rceil> - 1)))"

definition ulp :: "rat \<Rightarrow> rat" where
  "ulp q = (let e = max (- 1074) (binexp q - 52) in if 0 \<le> e then 2 ^ nat e else 1 / 2 ^ nat (- e))"

definition to_double :: "rat \<Rightarrow> rat" where
  "to_double q = of_int (round_even (q / ulp q)) * ulp q"

definition double_of :: "rat \<Rightarrow> js_number" where
  "double_of q = (if \<bar>to_double q\<bar> < 2 ^ 1024 then Finite (to_double q) else NotFinite)"

subsection \<open>Literals\<close>

definition with_sign :: "(string \<Rightarrow> 'a option) \<Rightarrow> ('a \<Rightarrow> 'a) \<Rightarrow> string \<Rightarrow> 'a option" where
  "with_sign f neg s =
     (case s of
        [] \<Rightarrow> f s
      | c # t \<Rightarrow> if c = CHR ''-'' then map_option neg (f t) else if c = CHR ''+'' then f t else f s)"

text \<open>Digits with an optional point, and an optional exponent.\<close>

definition mantissa :: "string \<Rightarrow> (int \<times> nat) option" where
  "mantissa s =
     (let whole = takeWhile (\<lambda>c. c \<noteq> CHR ''.'') s; part = drop (Suc (length whole)) s in
      map_option (\<lambda>n. (n, length part)) (digits_num 10 (whole @ part)))"

definition decimal_value :: "string \<Rightarrow> rat option" where
  "decimal_value s =
     (let m = takeWhile (\<lambda>c. c \<noteq> CHR ''e'' \<and> c \<noteq> CHR ''E'') s; rest = drop (length m) s in
      case (mantissa m, if rest = [] then Some 0 else with_sign (digits_num 10) uminus (tl rest)) of
        (Some (n, k), Some e) \<Rightarrow>
          let x = e - int k in Some (if 0 \<le> x then of_int n * 10 ^ nat x else of_int n / 10 ^ nat (- x))
      | _ \<Rightarrow> None)"

text \<open>What \<open>BigInt\<close> reads, \<open>Number\<close> reads too: integers, also hexadecimal, octal and binary ones.\<close>

definition Number_text :: "string \<Rightarrow> js_number" where
  "Number_text s =
     (case (case BigInt_text s of Some n \<Rightarrow> Some (of_int n) | None \<Rightarrow> with_sign decimal_value uminus (js_trim s)) of
        Some q \<Rightarrow> double_of q
      | None \<Rightarrow> NotFinite)"

definition safe_integer :: "int \<Rightarrow> bool" where
  "safe_integer n \<longleftrightarrow> \<bar>n\<bar> < 2 ^ 53"

subsection \<open>Integers of 53 bits are doubles\<close>

lemma round_even_int [simp]: "round_even (of_int n) = n"
  by (simp add: round_even_def)

lemma binexp_int:
  assumes "safe_integer n"
  shows "binexp (of_int n) \<le> 52"
proof (cases "n = 0")
  case False
  then have "1 \<le> \<bar>n\<bar>" by simp
  then have "(1 :: rat) \<le> \<bar>of_int n\<bar>" by (metis of_int_1_le_iff of_int_abs)
  moreover have "\<lfloor>\<bar>of_int n :: rat\<bar>\<rfloor> = \<bar>n\<bar>" by (metis floor_of_int of_int_abs)
  moreover have "nat \<bar>n\<bar> < 2 ^ 53" using assms by (simp add: safe_integer_def nat_less_iff)
  then have "floorlog 2 (nat \<bar>n\<bar>) \<le> 53" by (rule floorlog_leI) simp_all
  ultimately show ?thesis by (simp add: binexp_def)
qed (simp add: binexp_def)

lemma to_double_int:
  assumes "safe_integer n"
  shows "to_double (of_int n) = of_int n"
proof -
  let ?e = "max (- 1074) (binexp (of_int n) - 52)"
  have "?e \<le> 0" using binexp_int [OF assms] by simp
  then have "ulp (of_int n) = 1 / 2 ^ nat (- ?e)" by (auto simp: ulp_def Let_def)
  moreover have "of_int n * 2 ^ nat (- ?e) = (of_int (n * 2 ^ nat (- ?e)) :: rat)" by simp
  then have "round_even (of_int n * 2 ^ nat (- ?e)) = n * 2 ^ nat (- ?e)" by (metis round_even_int)
  ultimately show ?thesis by (simp add: to_double_def)
qed

lemma Number_int_str:
  assumes "safe_integer n"
  shows "Number_text (int_str n) = Finite (of_int n)"
proof -
  have "\<bar>n\<bar> < 2 ^ 53" using assms by (simp add: safe_integer_def)
  also have "(2 :: int) ^ 53 < 2 ^ 1024" by (rule power_strict_increasing) simp_all
  finally have "(of_int \<bar>n\<bar> :: rat) < of_int (2 ^ 1024)" unfolding of_int_less_iff .
  then have "\<bar>of_int n :: rat\<bar> < 2 ^ 1024" by (simp only: of_int_abs of_int_power of_int_numeral)
  then show ?thesis by (simp only: Number_text_def BigInt_text_int_str option.case double_of_def to_double_int [OF assms] if_True)
qed

text \<open>Other literals: fractions and exponents are numbers too, rounded to 53 bits; a lone point or sign is not.\<close>

lemma Number_examples:
  "Number_text ''1e3'' = Finite 1000" "Number_text ''1.5'' = Finite (3 / 2)" "Number_text ''1.2.3'' = NotFinite"
proof -
  have t: "js_trim ''1e3'' = ''1e3''" "js_trim ''1.5'' = ''1.5''" "js_trim ''1.2.3'' = ''1.2.3''"
    by (rule js_trim_free, simp add: plain_char_def)+
  then have b: "BigInt_text ''1e3'' = None" "BigInt_text ''1.5'' = None" "BigInt_text ''1.2.3'' = None"
    by (simp_all add: BigInt_text_def digits_num_def hex_val_def is_digit_def digit_val_def)
  have d: "decimal_value ''1e3'' = Some 1000" "decimal_value ''1.5'' = Some (3 / 2)" "decimal_value ''1.2.3'' = None"
    by (simp_all add: decimal_value_def mantissa_def Let_def digits_num_def with_sign_def hex_val_def is_digit_def digit_val_def)
  have e: "double_of 1000 = Finite 1000" using to_double_int [of 1000] by (simp add: double_of_def safe_integer_def)
  have "floorlog 2 (Suc 0) = 1" by (simp add: compute_floorlog)
  moreover have "\<lfloor>3 / 2 :: rat\<rfloor> = 1" by (simp add: floor_eq_iff)
  ultimately have u: "ulp (3 / 2) = 1 / 2 ^ 52" by (simp add: ulp_def binexp_def Let_def)
  have r: "round_even (3 / 2 * 2 ^ 52) = 3 * 2 ^ 51" by (simp add: round_even_def)
  have h: "to_double (3 / 2) = 3 / 2" unfolding to_double_def u using r by simp
  have "(3 / 2 :: rat) < 2" by simp
  also have "(2 :: rat) \<le> 2 ^ 1024" by (rule self_le_power) simp_all
  finally have "double_of (3 / 2) = Finite (3 / 2)" using h by (simp only: double_of_def) simp
  show "Number_text ''1e3'' = Finite 1000" "Number_text ''1.5'' = Finite (3 / 2)" "Number_text ''1.2.3'' = NotFinite"
    using e \<open>double_of (3 / 2) = Finite (3 / 2)\<close> by (simp_all add: Number_text_def t b d with_sign_def)
qed

end
