(* ===== verification/ServiceMac.thy ===== *)
theory ServiceMac
  imports Base64url AuditSinks JtiStores DelegationTypes Numbers
begin

section \<open>Message authentication between services\<close>

text \<open>
  \<open>packages/mcp-runtime/src/service-mac.ts\<close>: a caller authenticates a request with a MAC over
  audience, service, route, nonce, timestamp and body digest; the verifier bounds the clock skew,
  recomputes the MAC, compares it in constant time and consumes the nonce. The MAC provider and
  SHA-256 are parameters.
\<close>

subsection \<open>Contexts and messages\<close>

record mac_ctx =
  mx_audience :: string
  mx_service :: string
  mx_route :: string
  mx_bodyDigest :: hex

record mac_headers =
  mh_mac :: string
  mh_nonce :: string
  mh_timestamp :: string
  mh_keyId :: string

text \<open>\<open>generateMac message service audience\<close>, absent when the provider cannot make MACs; it may throw.\<close>

type_synonym mac_provider = "(bytes \<Rightarrow> string \<Rightarrow> string \<Rightarrow> string + bytes \<times> string) option"

definition VERSION :: string where
  "VERSION = ''agentic-a2a-mcp-v1''"

definition DEFAULT_CLOCK_SKEW_MS :: int where
  "DEFAULT_CLOCK_SKEW_MS = 60000"

definition newline :: char where
  "newline = CHR 0x0A"

definition canonicalMessage :: "mac_ctx \<Rightarrow> string \<Rightarrow> string \<Rightarrow> bytes" where
  "canonicalMessage ctx nonce timestamp =
     TextEncoder (VERSION @ [newline] @ mx_audience ctx @ [newline] @ mx_service ctx @ [newline] @ mx_route ctx @
       [newline] @ nonce @ [newline] @ timestamp @ [newline] @ toLowerCase (mx_bodyDigest ctx))"

unbundle bit_operations_syntax

definition constantTimeEqual :: "bytes \<Rightarrow> bytes \<Rightarrow> bool" where
  "constantTimeEqual a b \<longleftrightarrow> (if length a \<noteq> length b then False else ct_diff 0 a b = 0)"

definition bodyDigestHex :: "(bytes \<Rightarrow> hex) \<Rightarrow> string \<Rightarrow> hex" where
  "bodyDigestHex sha256 body = sha256 (TextEncoder body)"

definition nonceHashShort :: "(bytes \<Rightarrow> hex) \<Rightarrow> string \<Rightarrow> string" where
  "nonceHashShort sha256 nonce = take 18 (sha256 (TextEncoder nonce))"

subsection \<open>Issue\<close>

record mac_env =
  mv_sha256 :: "bytes \<Rightarrow> hex"
  mv_random :: bytes
  mv_now :: int
  mv_eventId :: string
  mv_eventTime :: string
  mv_correlationId :: "string option"
  mv_numberText :: "rat \<Rightarrow> string"

definition issue_event :: "mac_env \<Rightarrow> mac_ctx \<Rightarrow> string \<Rightarrow> audit_event" where
  "issue_event env ctx keyId =
     (blank_event ''mcp-runtime.service-mac.issue'' Success)
       \<lparr>ev_id := mv_eventId env, ev_timestamp := mv_eventTime env, ev_correlationId := mv_correlationId env,
        ev_actor := Some (Service, Some (mx_service ctx)), ev_audience := Some (mx_audience ctx),
        ev_subject := Some (''service-mac'', keyId), ev_context := Some [(''route'', CStr (mx_route ctx))]\<rparr>"

definition generateServiceMac ::
    "mac_env \<Rightarrow> mac_provider \<Rightarrow> 'w sink option \<Rightarrow> mac_ctx \<Rightarrow> 'w \<Rightarrow> mac_headers js \<times> 'w" where
  "generateServiceMac env provider auditSink ctx w =
     (case provider of
        None \<Rightarrow> (Inl (Error ''serviceMac: provider lacks generateMac (use a MAC-capable backend)''), w)
      | Some generateMac \<Rightarrow>
          (let nonce = bytesToBase64url (mv_random env); timestamp = int_str (mv_now env)
           in case generateMac (canonicalMessage ctx nonce timestamp) (mx_service ctx) (mx_audience ctx) of
                Inl e \<Rightarrow> (Inl (Error e), w)
              | Inr (mac, keyId) \<Rightarrow>
                  (let headers = \<lparr>mh_mac = bytesToBase64url mac, mh_nonce = nonce, mh_timestamp = timestamp, mh_keyId = keyId\<rparr>
                   in case auditSink of
                        None \<Rightarrow> (Inr headers, w)
                      | Some write \<Rightarrow>
                          (case write (issue_event env ctx keyId) w of
                             (Inl e, w') \<Rightarrow> (Inl e, w')
                           | (Inr _, w') \<Rightarrow> (Inr headers, w')))))"

subsection \<open>Verify\<close>

datatype mac_result = MacOk | MacReject string

definition mac_event :: "mac_env \<Rightarrow> mac_ctx \<Rightarrow> mac_headers \<Rightarrow> string \<Rightarrow> audit_outcome \<Rightarrow> string option \<Rightarrow> audit_event" where
  "mac_event env ctx headers action oc reason =
     buildEvent (mv_eventId env) (mv_eventTime env)
       ((blank_event action oc)
          \<lparr>ev_correlationId := mv_correlationId env, ev_actor := Some (Service, Some (mx_service ctx)),
           ev_subject := Some (''tool'', mx_route ctx), ev_audience := Some (mx_audience ctx), ev_reason := reason,
           ev_context := Some [(''keyId'', CStr (mh_keyId headers)),
             (''nonceHash'', CStr (nonceHashShort (mv_sha256 env) (mh_nonce headers)))]\<rparr>)"

text \<open>The text of the runtime's \<open>InvalidCharacterError\<close>.\<close>

definition decode_error_text :: string where
  "decode_error_text = ''The string to be decoded is not correctly encoded.''"

text \<open>
  How a number is written: a whole number of 53 bits by its digits, any other (the shortest decimal that reads
  back as the same double) by the parameter.
\<close>

definition number_str :: "(rat \<Rightarrow> string) \<Rightarrow> rat \<Rightarrow> string" where
  "number_str shortest q = (if of_int \<lfloor>q\<rfloor> = q \<and> \<bar>q\<bar> < 2 ^ 53 then int_str \<lfloor>q\<rfloor> else shortest q)"

text \<open>The checks before the nonce is consumed: \<open>MacOk\<close> when they pass.\<close>

definition mac_checks :: "mac_env \<Rightarrow> mac_provider \<Rightarrow> int option \<Rightarrow> mac_ctx \<Rightarrow> mac_headers \<Rightarrow> mac_result" where
  "mac_checks env provider maxClockSkewMs ctx headers =
     (case provider of
        None \<Rightarrow> MacReject ''verifier provider lacks generateMac''
      | Some generateMac \<Rightarrow>
          (case Number_text (mh_timestamp headers) of
             NotFinite \<Rightarrow> MacReject ''malformed timestamp''
           | Finite ts \<Rightarrow>
               if ts \<le> 0 then MacReject ''malformed timestamp''
               else (let skew = (case maxClockSkewMs of None \<Rightarrow> DEFAULT_CLOCK_SKEW_MS | Some k \<Rightarrow> k) in
                     if \<bar>to_double (of_int (mv_now env) - ts)\<bar> > of_int skew
                     then MacReject (''clock skew '' @ number_str (mv_numberText env) \<bar>to_double (of_int (mv_now env) - ts)\<bar> @ ''ms exceeds '' @ int_str skew @ ''ms'')
                     else (case generateMac (canonicalMessage ctx (mh_nonce headers) (mh_timestamp headers))
                                  (mx_service ctx) (mx_audience ctx) of
                             Inl e \<Rightarrow> MacReject (''mac recompute failed: '' @ e)
                           | Inr (expected, _) \<Rightarrow>
                               (case macBase64urlDecode (mh_mac headers) of
                                  Inl e \<Rightarrow> MacReject (''malformed mac base64url: '' @ decode_error_text)
                                | Inr received \<Rightarrow>
                                    if \<not> constantTimeEqual expected received then MacReject ''mac mismatch'' else MacOk)))))"

definition mac_jti :: "mac_ctx \<Rightarrow> mac_headers \<Rightarrow> string" where
  "mac_jti ctx headers = ''mac:'' @ mx_audience ctx @ '':'' @ mx_service ctx @ '':'' @ mh_nonce headers"

definition emit_opt :: "'w sink option \<Rightarrow> audit_event \<Rightarrow> 'w \<Rightarrow> unit js \<times> 'w" where
  "emit_opt auditSink e w = (case auditSink of None \<Rightarrow> (Inr (), w) | Some write \<Rightarrow> write e w)"

definition mac_reject :: "mac_env \<Rightarrow> mac_ctx \<Rightarrow> mac_headers \<Rightarrow> 'w sink option \<Rightarrow> string \<Rightarrow> 'w \<Rightarrow> mac_result js \<times> 'w" where
  "mac_reject env ctx headers auditSink reason w =
     (case emit_opt auditSink (mac_event env ctx headers ''mcp-runtime.service-mac.reject'' Denied (Some reason)) w of
        (Inl e, w') \<Rightarrow> (Inl e, w')
      | (Inr _, w') \<Rightarrow> (Inr (MacReject reason), w'))"

definition verifyServiceMac ::
    "mac_env \<Rightarrow> mac_provider \<Rightarrow> int option \<Rightarrow> 's track \<Rightarrow> 'w sink option \<Rightarrow> mac_ctx \<Rightarrow> mac_headers \<Rightarrow> 's \<times> 'w \<Rightarrow>
     mac_result js \<times> 's \<times> 'w" where
  "verifyServiceMac env provider maxClockSkewMs track auditSink ctx headers = (\<lambda>(s, w).
     (case mac_checks env provider maxClockSkewMs ctx headers of
        MacReject reason \<Rightarrow> (case mac_reject env ctx headers auditSink reason w of (r, w') \<Rightarrow> (r, s, w'))
      | MacOk \<Rightarrow>
          (case track (mac_jti ctx headers) 1 s of
             (Inl e, s') \<Rightarrow> (Inl e, s', w)
           | (Inr (_, allowed), s') \<Rightarrow>
               if \<not> allowed
               then (case mac_reject env ctx headers auditSink ''mac nonce already consumed (replay)'' w of (r, w') \<Rightarrow> (r, s', w'))
               else (case emit_opt auditSink (mac_event env ctx headers ''mcp-runtime.service-mac.accept'' Success None) w of
                       (Inl e, w') \<Rightarrow> (Inl e, s', w')
                     | (Inr _, w') \<Rightarrow> (Inr MacOk, s', w')))))"

subsection \<open>Comparison and message\<close>

lemma constantTimeEqual_iff [simp]: "constantTimeEqual a b \<longleftrightarrow> a = b"
  by (auto simp: constantTimeEqual_def ct_diff_zero)

lemma canonicalMessage_inject:
  assumes "newline \<notin> set (mx_audience c)" "newline \<notin> set (mx_audience c')" "newline \<notin> set (mx_service c)"
    "newline \<notin> set (mx_service c')" "newline \<notin> set (mx_route c)" "newline \<notin> set (mx_route c')"
    "newline \<notin> set n" "newline \<notin> set n'" "newline \<notin> set t" "newline \<notin> set t'"
    and eq: "canonicalMessage c n t = canonicalMessage c' n' t'"
  shows "mx_audience c = mx_audience c' \<and> mx_service c = mx_service c' \<and> mx_route c = mx_route c' \<and> n = n' \<and> t = t' \<and>
    toLowerCase (mx_bodyDigest c) = toLowerCase (mx_bodyDigest c')"
proof -
  let ?d = "toLowerCase (mx_bodyDigest c)" and ?d' = "toLowerCase (mx_bodyDigest c')"
  have "mx_audience c @ newline # mx_service c @ newline # mx_route c @ newline # n @ newline # t @ newline # ?d =
      mx_audience c' @ newline # mx_service c' @ newline # mx_route c' @ newline # n' @ newline # t' @ newline # ?d'"
    using eq by (simp add: canonicalMessage_def)
  from append_sep_inject [OF assms(1,2) this]
  have 1: "mx_audience c = mx_audience c'" and
    "mx_service c @ newline # mx_route c @ newline # n @ newline # t @ newline # ?d =
     mx_service c' @ newline # mx_route c' @ newline # n' @ newline # t' @ newline # ?d'" by auto
  from append_sep_inject [OF assms(3,4) this(2)]
  have 2: "mx_service c = mx_service c'" and
    "mx_route c @ newline # n @ newline # t @ newline # ?d = mx_route c' @ newline # n' @ newline # t' @ newline # ?d'" by auto
  from append_sep_inject [OF assms(5,6) this(2)]
  have 3: "mx_route c = mx_route c'" and "n @ newline # t @ newline # ?d = n' @ newline # t' @ newline # ?d'" by auto
  from append_sep_inject [OF assms(7,8) this(2)]
  have 4: "n = n'" and "t @ newline # ?d = t' @ newline # ?d'" by auto
  from append_sep_inject [OF assms(9,10) this(2)] have "t = t' \<and> ?d = ?d'" .
  with 1 2 3 4 show ?thesis by simp
qed

subsection \<open>When a request is accepted\<close>

definition skew_of :: "int option \<Rightarrow> int" where
  "skew_of k = (case k of None \<Rightarrow> DEFAULT_CLOCK_SKEW_MS | Some v \<Rightarrow> v)"

definition mac_valid :: "mac_env \<Rightarrow> mac_provider \<Rightarrow> int option \<Rightarrow> mac_ctx \<Rightarrow> mac_headers \<Rightarrow> bool" where
  "mac_valid env provider skew ctx headers \<longleftrightarrow>
     (\<exists>generateMac ts mac keyId. provider = Some generateMac \<and>
        Number_text (mh_timestamp headers) = Finite ts \<and> 0 < ts \<and> \<bar>to_double (of_int (mv_now env) - ts)\<bar> \<le> of_int (skew_of skew) \<and>
        generateMac (canonicalMessage ctx (mh_nonce headers) (mh_timestamp headers)) (mx_service ctx) (mx_audience ctx) = Inr (mac, keyId) \<and>
        macBase64urlDecode (mh_mac headers) = Inr mac)"

lemma mac_checks_ok: "mac_checks env provider skew ctx headers = MacOk \<longleftrightarrow> mac_valid env provider skew ctx headers"
  by (auto simp: mac_checks_def mac_valid_def skew_of_def Let_def
      split: option.splits js_number.splits sum.splits prod.splits if_splits)

lemma mac_reject_not_ok: "mac_reject env ctx headers sk reason w \<noteq> (Inr MacOk, w')"
  by (auto simp: mac_reject_def split: prod.splits sum.splits)

lemma verifyServiceMac_ok:
  "fst (verifyServiceMac env provider skew track sk ctx headers (s, w)) = Inr MacOk \<longleftrightarrow>
   mac_valid env provider skew ctx headers \<and> granted (fst (track (mac_jti ctx headers) 1 s)) \<and>
   fst (emit_opt sk (mac_event env ctx headers ''mcp-runtime.service-mac.accept'' Success None) w) = Inr ()"
  unfolding mac_checks_ok [symmetric]
  by (auto simp: verifyServiceMac_def granted_def mac_reject_not_ok split: mac_result.splits prod.splits sum.splits)

lemma verifyServiceMac_store:
  "fst (snd (verifyServiceMac env provider skew track sk ctx headers (s, w))) =
   (if mac_valid env provider skew ctx headers then snd (track (mac_jti ctx headers) 1 s) else s)"
  unfolding mac_checks_ok [symmetric]
  by (auto simp: verifyServiceMac_def split: mac_result.splits prod.splits sum.splits)

subsection \<open>Replay\<close>

type_synonym 'w mac_call = "mac_env \<times> mac_provider \<times> int option \<times> 'w sink option \<times> mac_ctx \<times> mac_headers"

fun mac_all :: "'s track \<Rightarrow> 'w mac_call list \<Rightarrow> 's \<times> 'w \<Rightarrow> mac_result js list \<times> 's \<times> 'w" where
  "mac_all track [] sw = ([], sw)"
| "mac_all track ((env, provider, skew, sk, ctx, headers) # calls) sw =
     (case verifyServiceMac env provider skew track sk ctx headers sw of
        (r, sw1) \<Rightarrow> (case mac_all track calls sw1 of (rs, sw2) \<Rightarrow> (r # rs, sw2)))"

definition mac_accepts :: "'s track \<Rightarrow> string \<Rightarrow> 'w mac_call list \<Rightarrow> 's \<times> 'w \<Rightarrow> nat" where
  "mac_accepts track key calls sw =
     length (filter (\<lambda>((_, _, _, _, ctx, headers), r). mac_jti ctx headers = key \<and> r = Inr MacOk)
       (zip calls (fst (mac_all track calls sw))))"

lemma mac_accepts_Cons:
  "mac_accepts track key ((env, provider, skew, sk, ctx, headers) # calls) sw =
     (if mac_jti ctx headers = key \<and> fst (verifyServiceMac env provider skew track sk ctx headers sw) = Inr MacOk then 1 else 0) +
     mac_accepts track key calls (snd (verifyServiceMac env provider skew track sk ctx headers sw))"
  by (auto simp: mac_accepts_def split_beta)

context jti_store
begin

lemma mac_single_use:
  "mac_accepts track key calls (s, w) \<le> nat (1 - uses s key)"
proof (induction calls arbitrary: s w)
  case Nil
  then show ?case by (simp add: mac_accepts_def)
next
  case (Cons c calls)
  obtain env provider skew sk ctx headers where c: "c = (env, provider, skew, sk, ctx, headers)" by (cases c)
  let ?v = "verifyServiceMac env provider skew track sk ctx headers (s, w)"
  obtain r s1 w1 where v: "?v = (r, s1, w1)" by (cases ?v)
  have st: "s1 = (if mac_valid env provider skew ctx headers then snd (track (mac_jti ctx headers) 1 s) else s)"
    using verifyServiceMac_store [of env provider skew track sk ctx headers s w] v by simp
  have mono: "uses s key \<le> uses s1 key"
    using st by (cases "ready s") (auto simp: track_counts track_fails)
  have acc: "uses s key + 1 \<le> 1 \<and> uses s1 key = uses s key + 1" if "mac_jti ctx headers = key" "r = Inr MacOk"
  proof -
    have ok: "mac_valid env provider skew ctx headers \<and> granted (fst (track (mac_jti ctx headers) 1 s))"
      using verifyServiceMac_ok [of env provider skew track sk ctx headers s w] v that by simp
    then have "ready s" using track_fails by blast
    with ok st that show ?thesis by (simp add: track_answer track_counts granted_def)
  qed
  show ?case using Cons.IH [of s1 w1] mono acc by (auto simp: c mac_accepts_Cons v)
qed

end

subsection \<open>An issued MAC\<close>

lemma issued_mac_ok:
  assumes "fst (generateServiceMac env (Some gen) sk ctx w) = Inr headers" "0 < mv_now env"
    and "\<bar>mv_now env' - mv_now env\<bar> \<le> skew_of skew"
    and "safe_integer (mv_now env)" "safe_integer (mv_now env' - mv_now env)"
    and "usage_of s (mac_jti ctx headers) = 0"
  shows "fst (verifyServiceMac env' (Some gen) skew memory_trackUsage None ctx headers (s, w')) = Inr MacOk"
proof -
  let ?n = "bytesToBase64url (mv_random env)" and ?t = "int_str (mv_now env)"
  obtain mac keyId where g: "gen (canonicalMessage ctx ?n ?t) (mx_service ctx) (mx_audience ctx) = Inr (mac, keyId)"
    and h: "headers = \<lparr>mh_mac = bytesToBase64url mac, mh_nonce = ?n, mh_timestamp = ?t, mh_keyId = keyId\<rparr>"
    using assms(1)
    by (auto simp: generateServiceMac_def Let_def split: sum.splits prod.splits option.splits)
  have "\<bar>to_double (of_int (mv_now env') - of_int (mv_now env))\<bar> = of_int \<bar>mv_now env' - mv_now env\<bar>"
    using to_double_int [OF assms(5)] by simp
  then have diff: "\<bar>to_double (of_int (mv_now env') - of_int (mv_now env))\<bar> \<le> of_int (skew_of skew)"
    using assms(3) by (simp only: of_int_le_iff)
  have "mac_valid env' (Some gen) skew ctx headers"
    using assms(2,3) g h Number_int_str [OF assms(4)] diff by (auto simp: mac_valid_def)
  moreover have "granted (fst (memory_trackUsage (mac_jti ctx headers) 1 s))"
    using assms(6) by (simp add: mem.track_answer granted_def)
  ultimately show ?thesis by (simp add: verifyServiceMac_ok emit_opt_def)
qed

subsection \<open>Properties\<close>

text \<open>
  C31: a service request is accepted exactly when the provider's MAC over the request's own fields
  is the MAC it carries, its timestamp reads as a positive finite number within the allowed skew of the verifier's
  clock (as doubles), the nonce had not been used, and the accept row was written.
\<close>

theorem service_mac_accept_iff:
  "fst (verifyServiceMac env provider skew track sk ctx headers (s, w)) = Inr MacOk \<longleftrightarrow>
   mac_valid env provider skew ctx headers \<and> granted (fst (track (mac_jti ctx headers) 1 s)) \<and>
   fst (emit_opt sk (mac_event env ctx headers ''mcp-runtime.service-mac.accept'' Success None) w) = Inr ()"
  by (rule verifyServiceMac_ok)

text \<open>
  a nonce authenticates one request. However verifications are interleaved, requests with the
  same audience, service and nonce are accepted at most once, and not at all if that nonce had
  been counted before; for each of the three stores.
\<close>

theorem service_mac_replay_bounded:
  "mac_accepts sqlite_trackUsage key calls (s, w) \<le> nat (1 - sqlite_uses s key) \<and>
   mac_accepts postgres_trackUsage key calls' (s', w) \<le> nat (1 - postgres_uses s' key) \<and>
   mac_accepts memory_trackUsage key calls'' (s'', w) \<le> nat (1 - usage_of s'' key)"
  by (intro conjI sqlite.mac_single_use pg.mac_single_use mem.mac_single_use)

text \<open>
  an issued MAC verifies. Headers produced by \<open>generateServiceMac\<close> are accepted for the same
  context by a verifier with the same provider whose clock is within the skew, if both clocks and their difference
  are exact doubles, the nonce is fresh and the sink accepts the row.
\<close>

theorem issued_mac_verifies:
  assumes "fst (generateServiceMac env (Some gen) sk ctx w) = Inr headers" "0 < mv_now env"
    and "\<bar>mv_now env' - mv_now env\<bar> \<le> skew_of skew"
    and "safe_integer (mv_now env)" "safe_integer (mv_now env' - mv_now env)"
    and "usage_of s (mac_jti ctx headers) = 0"
  shows "fst (verifyServiceMac env' (Some gen) skew memory_trackUsage None ctx headers (s, w')) = Inr MacOk"
  using assms by (rule issued_mac_ok)

definition demo_mac_env :: "int \<Rightarrow> mac_env" where
  "demo_mac_env now = \<lparr>mv_sha256 = (\<lambda>_. ''0x00''), mv_random = [1, 2, 3], mv_now = now, mv_eventId = ''e'', mv_eventTime = ''t'',
     mv_correlationId = None, mv_numberText = (\<lambda>_. ''0.5'')\<rparr>"

definition demo_mac_ctx :: mac_ctx where
  "demo_mac_ctx = \<lparr>mx_audience = ''urn:mcp'', mx_service = ''a2a'', mx_route = ''read'', mx_bodyDigest = ''0xAB''\<rparr>"

definition demo_mac :: "bytes \<Rightarrow> string \<Rightarrow> string \<Rightarrow> string + bytes \<times> string" where
  "demo_mac m s a = Inr (rev m, ''k1'')"

definition demo_headers :: mac_headers where
  "demo_headers = \<lparr>mh_mac = bytesToBase64url (rev (canonicalMessage demo_mac_ctx (bytesToBase64url [1, 2, 3]) (int_str 5000))),
     mh_nonce = bytesToBase64url [1, 2, 3], mh_timestamp = int_str 5000, mh_keyId = ''k1''\<rparr>"

lemma demo_issue: "fst (generateServiceMac (demo_mac_env 5000) (Some demo_mac) None demo_mac_ctx []) = Inr demo_headers"
  by (simp add: generateServiceMac_def demo_mac_def demo_headers_def demo_mac_env_def Let_def)

theorem issued_mac_verifies_witness:
  "fst (verifyServiceMac (demo_mac_env 60000) (Some demo_mac) None memory_trackUsage None demo_mac_ctx demo_headers
     (Map.empty, [] :: audit_event list)) = Inr MacOk"
  by (rule issued_mac_verifies [OF demo_issue])
     (simp_all add: demo_mac_env_def skew_of_def DEFAULT_CLOCK_SKEW_MS_def usage_of_def safe_integer_def)

text \<open>
  a MAC is bound to its request. With a provider under which different messages have different
  MACs, headers issued for one request are accepted for another only if audience, service, route
  and body digest (up to letter case) are the same. Names must not contain line breaks, which
  separate the fields of the message.
\<close>

theorem service_mac_binds_request:
  assumes "fst (generateServiceMac env (Some gen) sk ctx w) = Inr headers"
    and "fst (verifyServiceMac env' (Some gen) skew track sk' ctx' headers (s, w')) = Inr MacOk"
    and "\<And>m m' sv sv' au au' mac k k'. gen m sv au = Inr (mac, k) \<Longrightarrow> gen m' sv' au' = Inr (mac, k') \<Longrightarrow> m = m'"
    and "newline \<notin> set (mx_audience ctx) \<union> set (mx_service ctx) \<union> set (mx_route ctx)"
    and "newline \<notin> set (mx_audience ctx') \<union> set (mx_service ctx') \<union> set (mx_route ctx')"
  shows "mx_audience ctx' = mx_audience ctx \<and> mx_service ctx' = mx_service ctx \<and> mx_route ctx' = mx_route ctx \<and>
    toLowerCase (mx_bodyDigest ctx') = toLowerCase (mx_bodyDigest ctx)"
proof -
  let ?n = "mh_nonce headers" and ?t = "mh_timestamp headers"
  obtain mac k where g: "gen (canonicalMessage ctx ?n ?t) (mx_service ctx) (mx_audience ctx) = Inr (mac, k)"
    and h: "mh_mac headers = bytesToBase64url mac"
    using assms(1)
    by (auto simp: generateServiceMac_def Let_def split: sum.splits prod.splits option.splits)
  obtain k' where "gen (canonicalMessage ctx' ?n ?t) (mx_service ctx') (mx_audience ctx') = Inr (mac, k')"
    using assms(2) h by (auto simp: verifyServiceMac_ok mac_valid_def)
  from assms(3) [OF g this] have "canonicalMessage ctx ?n ?t = canonicalMessage ctx' ?n ?t" .
  then have eq: "mx_audience ctx @ newline # mx_service ctx @ newline # mx_route ctx @ newline # ?n @ newline # ?t @ newline # toLowerCase (mx_bodyDigest ctx) =
      mx_audience ctx' @ newline # mx_service ctx' @ newline # mx_route ctx' @ newline # ?n @ newline # ?t @ newline # toLowerCase (mx_bodyDigest ctx')"
    by (simp add: canonicalMessage_def)
  from append_sep_inject [OF _ _ eq] assms(4,5) have 1: "mx_audience ctx = mx_audience ctx'" and
    eq2: "mx_service ctx @ newline # mx_route ctx @ newline # ?n @ newline # ?t @ newline # toLowerCase (mx_bodyDigest ctx) =
      mx_service ctx' @ newline # mx_route ctx' @ newline # ?n @ newline # ?t @ newline # toLowerCase (mx_bodyDigest ctx')" by auto
  from append_sep_inject [OF _ _ eq2] assms(4,5) have 2: "mx_service ctx = mx_service ctx'" and
    eq3: "mx_route ctx @ newline # ?n @ newline # ?t @ newline # toLowerCase (mx_bodyDigest ctx) =
      mx_route ctx' @ newline # ?n @ newline # ?t @ newline # toLowerCase (mx_bodyDigest ctx')" by auto
  from append_sep_inject [OF _ _ eq3] assms(4,5) 1 2 show ?thesis by auto
qed

theorem service_mac_binds_request_witness:
  "mx_audience demo_mac_ctx = mx_audience demo_mac_ctx \<and> mx_service demo_mac_ctx = mx_service demo_mac_ctx \<and>
   mx_route demo_mac_ctx = mx_route demo_mac_ctx \<and>
   toLowerCase (mx_bodyDigest (demo_mac_ctx\<lparr>mx_bodyDigest := ''0xab''\<rparr>)) = toLowerCase (mx_bodyDigest demo_mac_ctx)"
proof -
  let ?c = "demo_mac_ctx\<lparr>mx_bodyDigest := ''0xab''\<rparr>"
  have l: "toLowerCase ''0xab'' = toLowerCase ''0xAB''" by code_simp
  have "canonicalMessage ?c n t = canonicalMessage demo_mac_ctx n t" for n t
    by (simp add: canonicalMessage_def demo_mac_ctx_def l)
  then have "mac_valid e p k ?c demo_headers = mac_valid e p k demo_mac_ctx demo_headers" for e p k
    by (simp add: mac_valid_def demo_mac_ctx_def)
  moreover have "mac_jti ?c demo_headers = mac_jti demo_mac_ctx demo_headers" by (simp add: mac_jti_def)
  ultimately have v: "fst (verifyServiceMac (demo_mac_env 60000) (Some demo_mac) None memory_trackUsage None ?c demo_headers
     (Map.empty, [] :: audit_event list)) = Inr MacOk"
    using issued_mac_ok [OF demo_issue, of "demo_mac_env 60000" None Map.empty "[]"]
    by (simp add: verifyServiceMac_ok emit_opt_def demo_mac_env_def skew_of_def DEFAULT_CLOCK_SKEW_MS_def usage_of_def safe_integer_def)
  from service_mac_binds_request [OF demo_issue v] show ?thesis
    by (auto simp: demo_mac_def demo_mac_ctx_def newline_def)
qed

end
