(* ===== verification/Encodings.thy ===== *)
theory Encodings
  imports Prelude
begin

section \<open>Percent encoding, delimited text and big-endian integers\<close>

text \<open>
  Encodings that several packages rely on to keep fields apart or to move integers through byte
  arrays: JavaScript's \<open>encodeURIComponent\<close>, text joined by a separator that no part contains, and
  the big-endian loops \<open>numberTo32Bytes\<close> / \<open>beBytesToBigInt\<close> of the key-custody package. What a
  client needs of each is its injectivity or its round trip.
\<close>

unbundle bit_operations_syntax

subsection \<open>\<open>encodeURIComponent\<close>\<close>

definition uri_unreserved :: "char \<Rightarrow> bool" where
  "uri_unreserved c \<longleftrightarrow>
     (let n = of_char c :: nat in
      (65 \<le> n \<and> n \<le> 90) \<or> (97 \<le> n \<and> n \<le> 122) \<or> (48 \<le> n \<and> n \<le> 57)) \<or> c \<in> set ''-_.!~*()'' \<or> c = CHR 0x27"

definition upper_hex_digit :: "nat \<Rightarrow> char" where
  "upper_hex_digit n = (if n < 10 then char_of (48 + n) else char_of (55 + n))"

definition uri_char :: "char \<Rightarrow> string" where
  "uri_char c = (if uri_unreserved c then [c]
     else [CHR ''%'', upper_hex_digit (of_char c div 16), upper_hex_digit (of_char c mod 16)])"

definition encodeURIComponent :: "string \<Rightarrow> string" where
  "encodeURIComponent s = concat (map uri_char s)"

lemma hex_val_upper [simp]: "n < 16 \<Longrightarrow> hex_val (upper_hex_digit n) = Some n"
  by (auto simp: hex_val_def upper_hex_digit_def Let_def)

lemma upper_hex_inject: "m < 16 \<Longrightarrow> n < 16 \<Longrightarrow> upper_hex_digit m = upper_hex_digit n \<longleftrightarrow> m = n"
  by (metis hex_val_upper option.inject)

lemma of_char_div_less: "(of_char c :: nat) div 16 < 16"
  using of_char_less_256 [of c] by linarith

lemma uri_percent_reserved [simp]: "\<not> uri_unreserved (CHR ''%'')"
  by (simp add: uri_unreserved_def)

lemma uri_char_prefix_free: "uri_char a @ x = uri_char b @ y \<Longrightarrow> a = b \<and> x = y"
proof -
  assume eq: "uri_char a @ x = uri_char b @ y"
  show ?thesis
  proof (cases "uri_unreserved a \<or> uri_unreserved b")
    case True
    then show ?thesis using eq by (auto simp: uri_char_def split: if_splits)
  next
    case False
    then have "of_char a div 16 = (of_char b div 16 :: nat)" "of_char a mod 16 = (of_char b mod 16 :: nat)" "x = y"
      using eq upper_hex_inject [OF of_char_div_less of_char_div_less, of a b]
        upper_hex_inject [of "of_char a mod 16" "of_char b mod 16"] by (simp_all add: uri_char_def)
    moreover from this have "(of_char a :: nat) = of_char b"
      by (metis div_mult_mod_eq)
    ultimately show ?thesis by simp
  qed
qed

lemma encodeURIComponent_inject [simp]: "encodeURIComponent s = encodeURIComponent t \<longleftrightarrow> s = t"
proof (induction s arbitrary: t)
  case Nil
  then show ?case by (cases t) (auto simp: encodeURIComponent_def uri_char_def)
next
  case (Cons a s)
  have "uri_char a \<noteq> []" by (simp add: uri_char_def)
  then show ?case
    using Cons uri_char_prefix_free [of a _ _] by (cases t) (auto simp: encodeURIComponent_def dest: uri_char_prefix_free)
qed

lemma encodeURIComponent_chars:
  "c \<in> set (encodeURIComponent s) \<Longrightarrow> uri_unreserved c \<or> c = CHR ''%''"
proof -
  have "upper_hex_digit n \<in> {c. uri_unreserved c}" if "n < 16" for n
    using that by (auto simp: upper_hex_digit_def uri_unreserved_def Let_def)
  then show "c \<in> set (encodeURIComponent s) \<Longrightarrow> uri_unreserved c \<or> c = CHR ''%''"
    using of_char_div_less by (auto simp: encodeURIComponent_def uri_char_def split: if_splits)
qed

lemma encodeURIComponent_free [simp]:
  "CHR '':'' \<notin> set (encodeURIComponent s)" "CHR '';'' \<notin> set (encodeURIComponent s)"
  "CHR ''='' \<notin> set (encodeURIComponent s)"
  using encodeURIComponent_chars [of "CHR '':''" s] encodeURIComponent_chars [of "CHR '';''" s]
    encodeURIComponent_chars [of "CHR ''=''" s] by (auto simp: uri_unreserved_def)

subsection \<open>Joining parts that do not contain the separator\<close>

lemma join_inject:
  assumes "\<forall>x \<in> set xs \<union> set ys. c \<notin> set x \<and> x \<noteq> []" and eq: "join [c] xs = join [c] ys"
  shows "xs = ys"
proof -
  have ne: "join [c] zs \<noteq> []" if "zs \<noteq> []" "\<forall>z \<in> set zs. z \<noteq> []" for zs
    using that by (cases zs rule: list.exhaust; cases "tl zs") auto
  show ?thesis
  proof (cases "xs = [] \<or> ys = []")
    case True
    then show ?thesis using assms(1) eq ne [of xs] ne [of ys] by fastforce
  next
    case False
    then have "split_on c (join [c] xs) = xs" "split_on c (join [c] ys) = ys"
      using assms(1) by (simp_all add: split_on_join)
    with eq show ?thesis by metis
  qed
qed

subsection \<open>Big-endian integers\<close>

text \<open>
  The loop fills the array from its last byte, taking \<open>v & 0xff\<close> and shifting \<open>v\<close> right; the
  reader shifts its accumulator left and ors the next byte in.
\<close>

fun be_bytes :: "nat \<Rightarrow> int \<Rightarrow> bytes" where
  "be_bytes 0 v = []"
| "be_bytes (Suc k) v = be_bytes k (drop_bit 8 v) @ [word_of_int (v AND 0xFF)]"

definition beBytesToBigInt :: "bytes \<Rightarrow> int" where
  "beBytesToBigInt bs = foldl (\<lambda>n b. push_bit 8 n OR uint b) 0 bs"

definition bigIntTo32Bytes :: "int \<Rightarrow> bytes" where
  "bigIntTo32Bytes n = be_bytes 32 n"

lemma length_be_bytes [simp]: "length (be_bytes k v) = k"
  by (induction k arbitrary: v) auto

lemma shift_or_byte: "push_bit 8 n OR uint (b :: byte) = 256 * n + uint b"
proof -
  have less: "i < 8" if "bit (uint b) i" for i
    using that bit_uint_iff [of b i] by simp
  have "push_bit 8 n AND uint b = 0"
    by (rule bit_eqI) (auto simp: bit_and_iff bit_push_bit_iff dest: less)
  then show ?thesis using plus_and_or [of "push_bit 8 n" "uint b"] by (simp add: push_bit_eq_mult)
qed

lemma beBytesToBigInt_snoc [simp]: "beBytesToBigInt (bs @ [b]) = 256 * beBytesToBigInt bs + uint b"
  by (simp add: beBytesToBigInt_def shift_or_byte)

lemma beBytesToBigInt_Nil [simp]: "beBytesToBigInt [] = 0"
  by (simp add: beBytesToBigInt_def)

lemma beBytesToBigInt_be_bytes [js_roundtrip]: "beBytesToBigInt (be_bytes k v) = v mod 256 ^ k"
proof (induction k arbitrary: v)
  case (Suc k)
  have "uint (word_of_int (v AND 0xFF) :: byte) = v mod 256"
    using take_bit_eq_mask [of 8 v]
    by (simp add: unsigned_of_int take_bit_eq_mod mask_eq_exp_minus_1)
  moreover have "256 * (v div 256 mod 256 ^ k) + v mod 256 = v mod 256 ^ Suc k"
    by (simp add: zmod_zmult2_eq)
  ultimately show ?case using Suc by (simp add: drop_bit_eq_div)
qed simp

lemma beBytesToBigInt_bounds: "0 \<le> beBytesToBigInt bs \<and> beBytesToBigInt bs < 256 ^ length bs"
proof (induction bs rule: rev_induct)
  case (snoc b bs)
  have "0 \<le> uint b" "uint b < 256" using uint_bounded [of b] by simp_all
  then show ?case using snoc by (auto simp: algebra_simps)
qed simp

lemma be_bytes_beBytesToBigInt [js_roundtrip]: "be_bytes (length bs) (beBytesToBigInt bs) = bs"
proof (induction bs rule: rev_induct)
  case (snoc b bs)
  have b: "0 \<le> uint b" "uint b < 256" using uint_bounded [of b] by simp_all
  have "(256 * beBytesToBigInt bs + uint b) div 256 = beBytesToBigInt bs" using b by simp
  moreover have "(word_of_int ((256 * beBytesToBigInt bs + uint b) AND 0xFF) :: byte) = b"
    using take_bit_eq_mask [of 8 "256 * beBytesToBigInt bs + uint b"] b
    by (simp add: take_bit_eq_mod mask_eq_exp_minus_1)
  ultimately show ?case using snoc by (simp add: drop_bit_eq_div)
qed simp

lemma bigIntTo32Bytes_roundtrip:
  "0 \<le> n \<Longrightarrow> n < 2 ^ 256 \<Longrightarrow> beBytesToBigInt (bigIntTo32Bytes n) = n"
  by (simp add: bigIntTo32Bytes_def beBytesToBigInt_be_bytes)

lemma length_bigIntTo32Bytes [simp]: "length (bigIntTo32Bytes n) = 32"
  by (simp add: bigIntTo32Bytes_def)

end
