(* ===== verification/KeyCustody.thy ===== *)
theory KeyCustody
  imports Encodings DelegationTypes AuditSinks
begin

section \<open>Key custody: envelope keys, local signer, per-subject keys, backend selection\<close>

text \<open>
  \<open>packages/key-custody/src\<close>: the canonical bytes of an encryption context (\<open>aad.ts\<close>), the local
  provider that derives session data keys from a master secret and the local signer with their
  production guard (\<open>providers/local.ts\<close>), the per-subject custodian keys (\<open>derive-subject.ts\<close>), the
  backend selection (\<open>factories.ts\<close>) and the relay-only shim. HKDF, HMAC and the curve come from the
  \<open>@noble\<close> packages and the hex reader from \<open>viem\<close>: they are the fields of a record.

  The process environment is \<open>None\<close> where reading it throws (or \<open>process\<close> is undefined). The set of
  opt-ins already warned about is the module's own state and is passed along; the warning itself
  goes to the console. Random bytes are arguments.
\<close>

record kms_lib =
  kl_crypto :: crypto_lib
  hkdf_sha256 :: "bytes \<Rightarrow> bytes \<Rightarrow> bytes \<Rightarrow> nat \<Rightarrow> bytes"
  hmac_sha256 :: "bytes \<Rightarrow> bytes \<Rightarrow> bytes"
  viem_hexToBytes :: "hex \<Rightarrow> bytes js"
  getPublicKey :: "bytes \<Rightarrow> bytes js"
  curve_sign :: "bytes \<Rightarrow> bytes \<Rightarrow> (int \<times> int \<times> int option) js"
  curve_recover :: "bytes \<Rightarrow> nat \<Rightarrow> bytes \<Rightarrow> string + bytes"
  curve_order :: int

type_synonym process_env = "(string \<Rightarrow> string option) option"

definition toHex :: "bytes \<Rightarrow> hex" where
  "toHex bs = ''0x'' @ bytes_hex bs"

text \<open>Reading a variable inside a \<open>try\<close> (a throw reads as unset), and outside of one.\<close>

definition env_try :: "process_env \<Rightarrow> string \<Rightarrow> string option" where
  "env_try env name = (case env of None \<Rightarrow> None | Some e \<Rightarrow> e name)"

definition env_read :: "process_env \<Rightarrow> string \<Rightarrow> string option js" where
  "env_read env name = (case env of None \<Rightarrow> Inl ReferenceError | Some e \<Rightarrow> Inr (e name))"

subsection \<open>\<open>aad.ts\<close>\<close>

type_synonym aad_context = "(string \<times> string) list"

definition context_part :: "aad_context \<Rightarrow> string \<Rightarrow> string" where
  "context_part ctx k = k @ ''='' @ encodeURIComponent (the (map_of ctx k))"

definition canonicalContextBytes :: "aad_context \<Rightarrow> bytes" where
  "canonicalContextBytes ctx =
     TextEncoder (join '';'' (map (context_part ctx) (sort (map fst ctx))))"

subsection \<open>\<open>providers/local.ts\<close>\<close>

definition HKDF_INFO :: string where
  "HKDF_INFO = ''agenticprimitives/local-aes:v1''"

definition isProductionEnvironment :: "process_env \<Rightarrow> bool" where
  "isProductionEnvironment env =
     (case env_try env ''NODE_ENV'' of
        Some v \<Rightarrow> if v \<noteq> [] then v = ''production'' else True
      | None \<Rightarrow> True)"

definition assertLocalProviderAllowedInProduction ::
  "process_env \<Rightarrow> string \<Rightarrow> string \<Rightarrow> string list \<Rightarrow> unit js \<times> string list" where
  "assertLocalProviderAllowedInProduction env label optIn warned =
     (if \<not> isProductionEnvironment env then (Inr (), warned)
      else if env_try env optIn = Some ''true'' then
        (Inr (), if optIn \<in> set warned then warned else warned @ [optIn])
      else
        (Inl (Error (label @ '' refuses to start in production (or in a runtime where NODE_ENV is unset). '' @
           ''Configure a managed KMS backend (gcp-kms / aws-kms), or set '' @ optIn @
           ''=true to acknowledge running with local key material (demo / staging only).'')), warned))"

definition with_0x :: "string \<Rightarrow> hex" where
  "with_0x h = (if startsWith h ''0x'' then h else ''0x'' @ h)"

definition override_or_env :: "process_env \<Rightarrow> string option \<Rightarrow> string \<Rightarrow> string option js" where
  "override_or_env env override name =
     (case override of Some h \<Rightarrow> Inr (Some h) | None \<Rightarrow> env_read env name)"

definition loadMasterSecret :: "kms_lib \<Rightarrow> process_env \<Rightarrow> string option \<Rightarrow> bytes js" where
  "loadMasterSecret lib env override =
     js_bind (override_or_env env override ''A2A_SESSION_SECRET'') (\<lambda>h.
       if \<not> truthy h then
         Inl (Error (''LocalAesProvider: A2A_SESSION_SECRET (hex) is required. '' @
           ''Generate one for dev: openssl rand -hex 32''))
       else js_bind (viem_hexToBytes lib (with_0x (the h))) (\<lambda>bs.
         if length bs < 32 then
           Inl (Error (''A2A_SESSION_SECRET must be at least 32 bytes (64 hex chars); got '' @
             nat_str (length bs) @ ''.''))
         else Inr bs))"

definition loadPrivateKey :: "kms_lib \<Rightarrow> process_env \<Rightarrow> string option \<Rightarrow> bytes js" where
  "loadPrivateKey lib env override =
     js_bind (override_or_env env override ''A2A_MASTER_PRIVATE_KEY'') (\<lambda>h.
       if \<not> truthy h then
         Inl (Error ''LocalSecp256k1Signer: A2A_MASTER_PRIVATE_KEY (0x-prefixed hex) is required.'')
       else js_bind (viem_hexToBytes lib (with_0x (the h))) (\<lambda>bs.
         if length bs \<noteq> 32 then
           Inl (Error (''A2A_MASTER_PRIVATE_KEY must be 32 bytes; got '' @ nat_str (length bs) @ ''.''))
         else Inr bs))"

definition publicKeyToAddress :: "crypto_lib \<Rightarrow> bytes \<Rightarrow> address" where
  "publicKeyToAddress lib pub =
     (let raw = (if length pub = 65 then drop 1 pub else pub)
      in toHex (drop 12 (keccak_256 lib raw)))"

text \<open>The provider object is its master secret; \<open>keyVersion\<close> is a constant of the class.\<close>

record local_aes =
  la_master :: bytes

record data_key =
  plaintextDataKey :: bytes
  encryptedDataKey :: bytes
  dk_keyId :: string
  dk_keyVersion :: string

definition local_keyVersion :: string where
  "local_keyVersion = ''local-v1''"

definition newLocalAesProvider :: "kms_lib \<Rightarrow> process_env \<Rightarrow> string option \<Rightarrow> local_aes js" where
  "newLocalAesProvider lib env sessionSecretHex =
     js_bind (loadMasterSecret lib env sessionSecretHex) (\<lambda>m. Inr \<lparr>la_master = m\<rparr>)"

definition local_data_key :: "kms_lib \<Rightarrow> local_aes \<Rightarrow> bytes \<Rightarrow> aad_context \<Rightarrow> bytes" where
  "local_data_key lib p salt ctx =
     hkdf_sha256 lib (la_master p) salt (TextEncoder (HKDF_INFO @ ''|'') @ canonicalContextBytes ctx) 32"

definition generateSessionDataKey ::
  "kms_lib \<Rightarrow> process_env \<Rightarrow> local_aes \<Rightarrow> bytes \<Rightarrow> aad_context \<Rightarrow> string list \<Rightarrow> data_key js \<times> string list" where
  "generateSessionDataKey lib env p salt ctx warned =
     (case assertLocalProviderAllowedInProduction env ''LocalAesProvider.generateSessionDataKey''
             ''A2A_ALLOW_LOCAL_ENVELOPE_KEY'' warned of
        (Inl e, w) \<Rightarrow> (Inl e, w)
      | (Inr _, w) \<Rightarrow>
          (Inr \<lparr>plaintextDataKey = local_data_key lib p salt ctx, encryptedDataKey = salt,
                dk_keyId = ''local-master'', dk_keyVersion = local_keyVersion\<rparr>, w))"

definition decryptSessionDataKey ::
  "kms_lib \<Rightarrow> process_env \<Rightarrow> local_aes \<Rightarrow> bytes \<Rightarrow> aad_context \<Rightarrow> string \<Rightarrow> string \<Rightarrow> string list \<Rightarrow>
   bytes js \<times> string list" where
  "decryptSessionDataKey lib env p wrapped ctx keyId keyVersion warned =
     (case assertLocalProviderAllowedInProduction env ''LocalAesProvider.decryptSessionDataKey''
             ''A2A_ALLOW_LOCAL_ENVELOPE_KEY'' warned of
        (Inl e, w) \<Rightarrow> (Inl e, w)
      | (Inr _, w) \<Rightarrow>
          if keyVersion \<noteq> local_keyVersion then
            (Inl (Error (''LocalAesProvider: keyVersion mismatch (got '' @ [CHR 0x22] @ keyVersion @ [CHR 0x22] @
               '', expected '' @ [CHR 0x22] @ local_keyVersion @ [CHR 0x22] @ '').'')), w)
          else (Inr (local_data_key lib p wrapped ctx), w))"

definition generateMac :: "kms_lib \<Rightarrow> local_aes \<Rightarrow> bytes \<Rightarrow> string \<Rightarrow> string \<Rightarrow> bytes \<times> string" where
  "generateMac lib p message service audience =
     (let subkey = hmac_sha256 lib (la_master p) (TextEncoder (''mac|'' @ service @ ''|'' @ audience))
      in (hmac_sha256 lib subkey message, ''local-mac:'' @ service @ '':'' @ audience))"

subsection \<open>The local signer\<close>

record local_signer =
  ls_priv :: bytes
  ls_addr :: address

definition newLocalSecp256k1Signer ::
  "kms_lib \<Rightarrow> process_env \<Rightarrow> string option \<Rightarrow> string list \<Rightarrow> local_signer js \<times> string list" where
  "newLocalSecp256k1Signer lib env privateKeyHex warned =
     (case assertLocalProviderAllowedInProduction env ''LocalSecp256k1Signer'' ''A2A_ALLOW_LOCAL_MASTER_KEY'' warned of
        (Inl e, w) \<Rightarrow> (Inl e, w)
      | (Inr _, w) \<Rightarrow>
          (js_bind (loadPrivateKey lib env privateKeyHex) (\<lambda>priv.
             js_bind (getPublicKey lib priv) (\<lambda>pub.
               Inr \<lparr>ls_priv = priv, ls_addr = publicKeyToAddress (kl_crypto lib) pub\<rparr>)), w))"

record sign_context =
  sc_toolId :: "string option"
  sc_sessionId :: "string option"
  sc_actionId :: "string option"

definition opt_ctx :: "string option \<Rightarrow> ctx_val" where
  "opt_ctx s = (case s of None \<Rightarrow> CNull | Some t \<Rightarrow> CStr t)"

definition sign_event :: "kms_lib \<Rightarrow> local_signer \<Rightarrow> bytes \<Rightarrow> sign_context option \<Rightarrow> audit_event" where
  "sign_event lib sg digest auditContext =
     (let ctx = (case auditContext of Some c \<Rightarrow> c | None \<Rightarrow> \<lparr>sc_toolId = None, sc_sessionId = None, sc_actionId = None\<rparr>)
      in (blank_event ''key-custody.sign'' Success)
         \<lparr>ev_actor := Some (System, Some ''local-secp256k1-signer''),
          ev_subject := Some (''sign-digest'', toHex digest),
          ev_context := Some
            [(''keyId'', CStr ''local-master-secp256k1''), (''signerAddress'', CStr (ls_addr sg)),
             (''toolId'', opt_ctx (sc_toolId ctx)), (''actionId'', opt_ctx (sc_actionId ctx)),
             (''sessionHash'',
               if truthy (sc_sessionId ctx)
               then CStr (take 18 (toHex (keccak_256 (kl_crypto lib) (TextEncoder (the (sc_sessionId ctx))))))
               else CNull)]\<rparr>)"

text \<open>A fail-soft write keeps whatever the sink did to the world and swallows its error.\<close>

definition write_soft :: "'w sink option \<Rightarrow> (audit_event \<Rightarrow> audit_event) \<Rightarrow> audit_event \<Rightarrow> 'w \<Rightarrow> 'w" where
  "write_soft sink stamp e w = (case sink of None \<Rightarrow> w | Some write \<Rightarrow> snd (write (stamp e) w))"

definition signature_bytes :: "int \<Rightarrow> int \<Rightarrow> int \<Rightarrow> bytes" where
  "signature_bytes r s v = bigIntTo32Bytes r @ bigIntTo32Bytes s @ [word_of_int v]"

definition signA2AAction ::
  "kms_lib \<Rightarrow> local_signer \<Rightarrow> 'w sink option \<Rightarrow> (audit_event \<Rightarrow> audit_event) \<Rightarrow> bytes \<Rightarrow>
   sign_context option \<Rightarrow> 'w \<Rightarrow> (bytes \<times> string \<times> address) js \<times> 'w" where
  "signA2AAction lib sg sink stamp digest auditContext w =
     (if length digest \<noteq> 32 then
        (Inl (Error (''signA2AAction expects a 32-byte digest; got '' @ nat_str (length digest) @ ''.'')), w)
      else case curve_sign lib digest (ls_priv sg) of
        Inl e \<Rightarrow> (Inl e, w)
      | Inr (r, s, recovery) \<Rightarrow>
          (Inr (signature_bytes r s ((case recovery of None \<Rightarrow> 0 | Some n \<Rightarrow> n) + 27),
                ''local-master-secp256k1'', ls_addr sg),
           write_soft sink stamp (sign_event lib sg digest auditContext) w))"

subsection \<open>\<open>derive-subject.ts\<close>\<close>

definition DERIVE_INFO_PREFIX :: string where
  "DERIVE_INFO_PREFIX = ''kms-custodian:v1''"

record subject_id =
  sub_iss :: string
  sub_sub :: string
  sub_rotation :: "number option"

definition subjectCanonicalMessage :: "subject_id \<Rightarrow> string js" where
  "subjectCanonicalMessage subject =
     (let iss = js_trim (sub_iss subject); sub = js_trim (sub_sub subject);
          rotation = (case sub_rotation subject of None \<Rightarrow> Whole 0 | Some r \<Rightarrow> r)
      in if iss = [] then Inl (Error ''deriveSubjectSigner: subject.iss is required'')
         else if sub = [] then Inl (Error ''deriveSubjectSigner: subject.sub is required'')
         else case rotation of
             Whole n \<Rightarrow>
               if n < 0 then Inl (Error ''deriveSubjectSigner: subject.rotation must be a non-negative integer'')
               else Inr (DERIVE_INFO_PREFIX @ '':'' @ encodeURIComponent iss @ '':'' @
                         encodeURIComponent sub @ '':'' @ int_str n)
           | NonInteger \<Rightarrow> Inl (Error ''deriveSubjectSigner: subject.rotation must be a non-negative integer''))"

definition deriveSubjectPrivateKeyHex :: "kms_lib \<Rightarrow> bytes \<Rightarrow> subject_id \<Rightarrow> hex js" where
  "deriveSubjectPrivateKeyHex lib master subject =
     (if length master < 32 then
        Inl (Error (''deriveSubjectSigner: master must be '' @ ge_sign @ '' 32 bytes; got '' @ nat_str (length master)))
      else js_bind (subjectCanonicalMessage subject) (\<lambda>canonical.
        let okm = hkdf_sha256 lib master (TextEncoder DERIVE_INFO_PREFIX) (TextEncoder canonical) 32;
            priv = beBytesToBigInt okm mod (curve_order lib - 1) + 1
        in Inr (toHex (bigIntTo32Bytes priv))))"

subsection \<open>What the encodings keep apart\<close>

text \<open>
  Keys are not encoded, values are: so the canonical text determines the context as long as the
  keys themselves contain neither separator (as every key of the code does).
\<close>

definition plain_keys :: "aad_context \<Rightarrow> bool" where
  "plain_keys ctx \<longleftrightarrow> distinct (map fst ctx) \<and> (\<forall>k \<in> set (map fst ctx). CHR ''='' \<notin> set k \<and> CHR '';'' \<notin> set k)"

lemma TextEncoder_eq [simp]: "TextEncoder s = TextEncoder t \<longleftrightarrow> s = t"
  by (metis TextDecoder_TextEncoder)

lemma context_part_inject:
  assumes "CHR ''='' \<notin> set k" "CHR ''='' \<notin> set k'"
  shows "context_part ctx k = context_part ctx' k' \<longleftrightarrow> k = k' \<and> the (map_of ctx k) = the (map_of ctx' k')"
  using append_sep_inject [OF assms, of "encodeURIComponent (the (map_of ctx k))" "encodeURIComponent (the (map_of ctx' k'))"]
  by (auto simp: context_part_def)

lemma map_of_eq_from_parts:
  assumes "map (context_part ctx) ks = map (context_part ctx') ks'"
    and "\<forall>k \<in> set ks \<union> set ks'. CHR ''='' \<notin> set k"
  shows "ks = ks' \<and> (\<forall>k \<in> set ks. the (map_of ctx k) = the (map_of ctx' k))"
  using assms
proof (induction ks arbitrary: ks')
  case (Cons k ks)
  then obtain k' r where ks': "ks' = k' # r" by (cases ks') auto
  with Cons.prems have "context_part ctx k = context_part ctx' k'" by simp
  then have "k = k' \<and> the (map_of ctx k) = the (map_of ctx' k')"
    using Cons.prems(2) ks' by (subst (asm) context_part_inject) auto
  then show ?case using Cons.IH [of r] Cons.prems ks' by auto
qed simp

lemma canonicalContextBytes_inject:
  assumes "plain_keys ctx" "plain_keys ctx'"
  shows "canonicalContextBytes ctx = canonicalContextBytes ctx' \<longleftrightarrow> map_of ctx = map_of ctx'"
proof
  let ?ks = "sort (map fst ctx)" and ?ks' = "sort (map fst ctx')"
  assume "canonicalContextBytes ctx = canonicalContextBytes ctx'"
  then have "join '';'' (map (context_part ctx) ?ks) = join '';'' (map (context_part ctx') ?ks')"
    by (simp add: canonicalContextBytes_def)
  moreover have "\<forall>x \<in> set (map (context_part ctx) ?ks) \<union> set (map (context_part ctx') ?ks'). CHR '';'' \<notin> set x \<and> x \<noteq> []"
    using assms by (auto simp: plain_keys_def context_part_def)
  ultimately have "map (context_part ctx) ?ks = map (context_part ctx') ?ks'" by (rule join_inject [rotated])
  moreover have "\<forall>k \<in> set ?ks \<union> set ?ks'. CHR ''='' \<notin> set k" using assms by (auto simp: plain_keys_def)
  ultimately have "?ks = ?ks' \<and> (\<forall>k \<in> set ?ks. the (map_of ctx k) = the (map_of ctx' k))"
    by (rule map_of_eq_from_parts)
  moreover from this have "set (map fst ctx) = set (map fst ctx')" by (metis set_sort)
  ultimately have "map_of ctx k = map_of ctx' k" for k
    by (cases "k \<in> set (map fst ctx)")
       (metis set_sort map_of_eq_None_iff option.collapse set_map, metis map_of_eq_None_iff set_map)
  then show "map_of ctx = map_of ctx'" by blast
next
  assume eq: "map_of ctx = map_of ctx'"
  then have "set (map fst ctx) = set (map fst ctx')" by (metis dom_map_of_conv_image_fst set_map)
  then have "sort (map fst ctx) = sort (map fst ctx')"
    using assms by (simp add: plain_keys_def sorted_distinct_set_unique)
  then show "canonicalContextBytes ctx = canonicalContextBytes ctx'"
    using eq by (simp add: canonicalContextBytes_def context_part_def [abs_def])
qed

text \<open>The canonical subject text determines the trimmed subject and the rotation.\<close>

definition rotation_of :: "subject_id \<Rightarrow> number" where
  "rotation_of s = (case sub_rotation s of None \<Rightarrow> Whole 0 | Some r \<Rightarrow> r)"

lemma subjectCanonicalMessage_Inr:
  "subjectCanonicalMessage s = Inr m \<longleftrightarrow>
     js_trim (sub_iss s) \<noteq> [] \<and> js_trim (sub_sub s) \<noteq> [] \<and>
     (\<exists>n. rotation_of s = Whole n \<and> 0 \<le> n \<and>
       m = DERIVE_INFO_PREFIX @ '':'' @ encodeURIComponent (js_trim (sub_iss s)) @ '':'' @
           encodeURIComponent (js_trim (sub_sub s)) @ '':'' @ int_str n)"
  by (auto simp: subjectCanonicalMessage_def rotation_of_def Let_def split: number.splits)

lemma int_str_inject [simp]: "int_str m = int_str n \<longleftrightarrow> m = n"
  by (metis BigInt_text_int_str option.inject)

lemma subject_message_eq:
  assumes "subjectCanonicalMessage s = Inr m" "subjectCanonicalMessage s' = Inr m"
  shows "js_trim (sub_iss s) = js_trim (sub_iss s') \<and> js_trim (sub_sub s) = js_trim (sub_sub s') \<and>
         rotation_of s = rotation_of s'"
proof -
  obtain n n' where n: "rotation_of s = Whole n" "rotation_of s' = Whole n'"
    and eq: "encodeURIComponent (js_trim (sub_iss s)) @ CHR '':'' # encodeURIComponent (js_trim (sub_sub s)) @ CHR '':'' # int_str n
      = encodeURIComponent (js_trim (sub_iss s')) @ CHR '':'' # encodeURIComponent (js_trim (sub_sub s')) @ CHR '':'' # int_str n'"
    using assms by (auto simp: subjectCanonicalMessage_Inr)
  from append_sep_inject [OF _ _ eq] have 1: "js_trim (sub_iss s) = js_trim (sub_iss s')"
    and eq2: "encodeURIComponent (js_trim (sub_sub s)) @ CHR '':'' # int_str n
      = encodeURIComponent (js_trim (sub_sub s')) @ CHR '':'' # int_str n'" by simp_all
  from append_sep_inject [OF _ _ eq2] have "js_trim (sub_sub s) = js_trim (sub_sub s')" "n = n'" by simp_all
  with 1 n show ?thesis by simp
qed

end
