(* ===== verification/KmsCore.thy ===== *)
theory KmsCore
  imports KeyCustody Base64url CanonicalJson
begin

section \<open>Cloud KMS: from a DER signature to an Ethereum signature, and envelope keys\<close>

text \<open>
  \<open>packages/key-custody/src/kms/secp256k1-core.ts\<close> turns what a cloud HSM returns (a DER encoded
  \<open>(r, s)\<close> without a recovery bit) into the 65-byte \<open>(r, s, v)\<close> of Ethereum; \<open>providers/gcp.ts\<close> is the
  signer over it and the envelope provider. The HTTP exchange with the service is an argument: what
  \<open>asymmetricSign\<close>, \<open>:encrypt\<close> and \<open>:decrypt\<close> answer.
\<close>

unbundle bit_operations_syntax

subsection \<open>\<open>secp256k1-core.ts\<close>\<close>

definition base64Decode :: "string \<Rightarrow> bytes js" where
  "base64Decode s = js_bind (atob s) (\<lambda>bin. Inr (map byte_of_char bin))"

definition base64Encode :: "bytes \<Rightarrow> string" where
  "base64Encode bs = btoa (map char_of_byte bs)"

definition pemToDer :: "string \<Rightarrow> bytes js" where
  "pemToDer pem =
     base64Decode (join []
       (filter (\<lambda>l. \<not> startsWith l ''-----'' \<and> js_trim l \<noteq> []) (split_on (CHR 0x0A) pem)))"

definition der_at :: "bytes \<Rightarrow> nat \<Rightarrow> byte js" where
  "der_at der i = (if i < length der then Inr (der ! i)
     else Inl (Error (''DER: unexpected end of buffer at offset '' @ nat_str i)))"

text \<open>The offsets are the values of the running index \<open>i\<close> of the code.\<close>

definition parseDerEcdsa :: "int \<Rightarrow> bytes \<Rightarrow> (int \<times> int) js" where
  "parseDerEcdsa N der =
     js_bind (der_at der 0) (\<lambda>t0.
     if t0 \<noteq> 0x30 then Inl (Error ''DER: expected SEQUENCE tag (0x30)'') else
     js_bind (der_at der 1) (\<lambda>lenByte.
     let i = (if lenByte AND 0x80 \<noteq> 0 then 2 + unat (lenByte AND 0x7F) else 2) in
     js_bind (der_at der i) (\<lambda>t1.
     if t1 \<noteq> 0x02 then Inl (Error ''DER: expected INTEGER tag for r'') else
     js_bind (der_at der (i + 1)) (\<lambda>rLen.
     let rBytes = take (unat rLen) (drop (i + 2) der); j = i + 2 + unat rLen in
     js_bind (der_at der j) (\<lambda>t2.
     if t2 \<noteq> 0x02 then Inl (Error ''DER: expected INTEGER tag for s'') else
     js_bind (der_at der (j + 1)) (\<lambda>sLen.
     let sBytes = take (unat sLen) (drop (j + 2) der);
         r = beBytesToBigInt rBytes; s = beBytesToBigInt sBytes
     in if r \<le> 0 \<or> N \<le> r \<or> s \<le> 0 \<or> N \<le> s
        then Inl (Error ''DER: r/s out of range (require 0 < r,s < n)'')
        else Inr (r, s)))))))"

definition normalizeLowS :: "int \<Rightarrow> int \<Rightarrow> int" where
  "normalizeLowS N s = (if s > drop_bit 1 N then N - s else s)"

definition parseSpkiUncompressedSecp256k1PubKey :: "bytes \<Rightarrow> bytes js" where
  "parseSpkiUncompressedSecp256k1PubKey spki =
     (if length spki < 66 then
        Inl (Error (''SPKI too short to contain uncompressed secp256k1 pubkey: '' @ nat_str (length spki) @ '' bytes''))
      else
        let tail = drop (length spki - 65) spki
        in if hd tail \<noteq> 0x04 then
             Inl (Error (''SPKI does not end with uncompressed point marker (0x04). Wrong key algorithm? Found 0x'' @
               byte_hex (hd tail) @ '' at position '' @ nat_str (length spki - 65) @ ''.''))
           else Inr tail)"

definition core_publicKeyToAddress :: "crypto_lib \<Rightarrow> bytes \<Rightarrow> address" where
  "core_publicKeyToAddress lib pub = toHex (drop 12 (keccak_256 lib (drop 1 pub)))"

definition addressFromSpkiPem :: "crypto_lib \<Rightarrow> string \<Rightarrow> address js" where
  "addressFromSpkiPem lib pem =
     js_bind (pemToDer pem) (\<lambda>der.
     js_bind (parseSpkiUncompressedSecp256k1PubKey der) (\<lambda>pub. Inr (core_publicKeyToAddress lib pub)))"

text \<open>
  The search over the two recovery bits: a library exception is a failed attempt, and the attempts
  end up in the text of the final error. (The console output before the throw is not modelled.)
\<close>

fun try_recovery :: "kms_lib \<Rightarrow> bytes \<Rightarrow> bytes \<Rightarrow> bytes \<Rightarrow> nat list \<Rightarrow> string list \<Rightarrow> string list + nat" where
  "try_recovery lib compact digest known [] attempts = Inl attempts"
| "try_recovery lib compact digest known (n # ns) attempts =
     (case curve_recover lib compact n digest of
        Inr recovered \<Rightarrow>
          if recovered = known then Inr (n + 27)
          else try_recovery lib compact digest known ns
                 (attempts @ [''v='' @ nat_str (n + 27) @ '' recovered='' @ toHex recovered])
      | Inl err \<Rightarrow>
          try_recovery lib compact digest known ns (attempts @ [''v='' @ nat_str (n + 27) @ '' threw '' @ err]))"

definition findRecoveryByte :: "kms_lib \<Rightarrow> int \<Rightarrow> int \<Rightarrow> bytes \<Rightarrow> bytes \<Rightarrow> nat js" where
  "findRecoveryByte lib r s digest known =
     (case try_recovery lib (bigIntTo32Bytes r @ bigIntTo32Bytes s) digest known [0, 1] [] of
        Inr v \<Rightarrow> Inr v
      | Inl attempts \<Rightarrow>
          Inl (Error (''Recovery byte search failed: neither v=27 nor v=28 recovers the known public key. '' @
            join '' | '' attempts)))"

definition recoverV :: "kms_lib \<Rightarrow> bytes \<Rightarrow> int \<Rightarrow> int \<Rightarrow> bytes \<Rightarrow> nat js" where
  "recoverV lib digest r s known = findRecoveryByte lib r s digest known"

definition assembleEthSignature :: "int \<Rightarrow> int \<Rightarrow> nat \<Rightarrow> hex" where
  "assembleEthSignature r s v = toHex (signature_bytes r s (int v))"

definition signDigestWithKms :: "kms_lib \<Rightarrow> bytes \<Rightarrow> string \<Rightarrow> (bytes \<Rightarrow> bytes js) \<Rightarrow> hex js" where
  "signDigestWithKms lib digest publicKeyPem asymmetricSign =
     (if length digest \<noteq> 32 then
        Inl (Error (''signDigestWithKms expects a 32-byte digest; got '' @ nat_str (length digest) @ ''.''))
      else
        js_bind (pemToDer publicKeyPem) (\<lambda>spki.
        js_bind (parseSpkiUncompressedSecp256k1PubKey spki) (\<lambda>pub65.
        js_bind (asymmetricSign digest) (\<lambda>der.
        js_bind (parseDerEcdsa (curve_order lib) der) (\<lambda>(r, rawS).
        let s = normalizeLowS (curve_order lib) rawS in
        js_bind (recoverV lib digest r s pub65) (\<lambda>v. Inr (assembleEthSignature r s v)))))))"

subsection \<open>\<open>providers/gcp.ts\<close>: the signer\<close>

text \<open>
  The signer caches the public key and its address. \<open>getPublicKeyPem\<close> and \<open>asymmetricSign\<close> are the
  transport's two calls for the configured key version.
\<close>

record gcp_signer =
  gs_keyName :: string
  gs_cachedPubKey65 :: "bytes option"
  gs_cachedAddress :: "address option"

definition getPublicKeyBytes :: "string js \<Rightarrow> gcp_signer \<Rightarrow> bytes js \<times> gcp_signer" where
  "getPublicKeyBytes getPublicKeyPem sg =
     (case gs_cachedPubKey65 sg of
        Some pub \<Rightarrow> (Inr pub, sg)
      | None \<Rightarrow>
          (case js_bind getPublicKeyPem (\<lambda>pem. js_bind (pemToDer pem) parseSpkiUncompressedSecp256k1PubKey) of
             Inl e \<Rightarrow> (Inl e, sg)
           | Inr pub \<Rightarrow> (Inr pub, sg\<lparr>gs_cachedPubKey65 := Some pub\<rparr>)))"

definition getSignerAddress :: "crypto_lib \<Rightarrow> string js \<Rightarrow> gcp_signer \<Rightarrow> address js \<times> gcp_signer" where
  "getSignerAddress lib getPublicKeyPem sg =
     (case gs_cachedAddress sg of
        Some a \<Rightarrow> (Inr a, sg)
      | None \<Rightarrow>
          (case getPublicKeyBytes getPublicKeyPem sg of
             (Inl e, sg1) \<Rightarrow> (Inl e, sg1)
           | (Inr pub, sg1) \<Rightarrow>
               (let a = core_publicKeyToAddress lib pub in (Inr a, sg1\<lparr>gs_cachedAddress := Some a\<rparr>))))"

definition gcp_sign_event :: "crypto_lib \<Rightarrow> string \<Rightarrow> address \<Rightarrow> bytes \<Rightarrow> sign_context option \<Rightarrow> audit_event" where
  "gcp_sign_event lib keyName signerAddress digest auditContext =
     (let ctx = (case auditContext of Some c \<Rightarrow> c | None \<Rightarrow> \<lparr>sc_toolId = None, sc_sessionId = None, sc_actionId = None\<rparr>)
      in (blank_event ''key-custody.sign'' Success)
         \<lparr>ev_actor := Some (System, Some ''gcp-kms-signer''),
          ev_subject := Some (''sign-digest'', toHex digest),
          ev_context := Some
            [(''keyId'', CStr keyName), (''signerAddress'', CStr signerAddress),
             (''toolId'', opt_ctx (sc_toolId ctx)), (''actionId'', opt_ctx (sc_actionId ctx)),
             (''sessionHash'',
               if truthy (sc_sessionId ctx)
               then CStr (take 18 (toHex (keccak_256 lib (TextEncoder (the (sc_sessionId ctx))))))
               else CNull)]\<rparr>)"

text \<open>The cryptographic part of the signer: parse, normalise, search the recovery byte, assemble.\<close>

definition gcp_sign_bytes :: "kms_lib \<Rightarrow> bytes \<Rightarrow> bytes \<Rightarrow> bytes \<Rightarrow> bytes js" where
  "gcp_sign_bytes lib digest pubKey der =
     js_bind (parseDerEcdsa (curve_order lib) der) (\<lambda>(r, rawS).
       let s = normalizeLowS (curve_order lib) rawS in
       js_bind (findRecoveryByte lib r s digest pubKey) (\<lambda>v. Inr (signature_bytes r s (int v))))"

definition gcp_signA2AAction ::
  "kms_lib \<Rightarrow> string js \<Rightarrow> (bytes \<Rightarrow> bytes js) \<Rightarrow> 'w sink option \<Rightarrow> (audit_event \<Rightarrow> audit_event) \<Rightarrow>
   bytes \<Rightarrow> sign_context option \<Rightarrow> gcp_signer \<Rightarrow> 'w \<Rightarrow> (bytes \<times> string \<times> address) js \<times> gcp_signer \<times> 'w" where
  "gcp_signA2AAction lib getPublicKeyPem asymmetricSign sink stamp digest auditContext sg w =
     (if length digest \<noteq> 32 then
        (Inl (Error (''GcpKmsSigner.signA2AAction expects a 32-byte digest; got '' @ nat_str (length digest) @ ''.'')), sg, w)
      else case getPublicKeyBytes getPublicKeyPem sg of
        (Inl e, sg1) \<Rightarrow> (Inl e, sg1, w)
      | (Inr pubKey, sg1) \<Rightarrow>
          (case js_bind (asymmetricSign digest) (gcp_sign_bytes lib digest pubKey) of
             Inl e \<Rightarrow> (Inl e, sg1, w)
           | Inr sig \<Rightarrow>
               (case getSignerAddress (kl_crypto lib) getPublicKeyPem sg1 of
                  (Inl e, sg2) \<Rightarrow> (Inl e, sg2, w)
                | (Inr a, sg2) \<Rightarrow>
                    (Inr (sig, gs_keyName sg, a), sg2,
                     write_soft sink stamp (gcp_sign_event (kl_crypto lib) (gs_keyName sg) a digest auditContext) w))))"

subsection \<open>\<open>providers/gcp.ts\<close>: envelope encryption\<close>

definition parseCryptoKeyVersion :: "string option \<Rightarrow> string option" where
  "parseCryptoKeyVersion responseName =
     (if \<not> truthy responseName then None
      else let name = the responseName;
               digits = rev (takeWhile is_digit (rev name));
               front = take (length name - length digits) name;
               tag = ''/cryptoKeyVersions/''
           in if digits \<noteq> [] \<and> drop (length front - length tag) front = tag
              then Some (''gcp-kms:v'' @ digits) else None)"

definition gcp_version_shape :: "string \<Rightarrow> bool" where
  "gcp_version_shape v \<longleftrightarrow>
     v = ''gcp-kms:unknown'' \<or>
     (startsWith v ''gcp-kms:v'' \<and> drop 9 v \<noteq> [] \<and> list_all is_digit (drop 9 v))"

definition gcp_keyVersion :: string where
  "gcp_keyVersion = ''gcp-kms:unknown''"

record cached_token =
  ct_accessToken :: string
  ct_expiresAt :: int

record gcp_provider =
  gp_keyName :: string
  gp_cachedToken :: "cached_token option"

text \<open>
  \<open>now\<close> is in seconds; \<open>fetched\<close> is what the token exchange would answer. The service's
  \<open>:encrypt\<close> takes the bearer token, the key name, the plaintext and the additional data (both base64)
  and answers with the ciphertext and the resource name of the version it used.
\<close>

definition getAccessToken :: "int \<Rightarrow> cached_token js \<Rightarrow> gcp_provider \<Rightarrow> string js \<times> gcp_provider" where
  "getAccessToken now fetched p =
     (case gp_cachedToken p of
        Some t \<Rightarrow> if ct_expiresAt t > now then (Inr (ct_accessToken t), p)
          else (case fetched of Inl e \<Rightarrow> (Inl e, p)
                | Inr t' \<Rightarrow> (Inr (ct_accessToken t'), p\<lparr>gp_cachedToken := Some t'\<rparr>))
      | None \<Rightarrow> (case fetched of Inl e \<Rightarrow> (Inl e, p)
                | Inr t' \<Rightarrow> (Inr (ct_accessToken t'), p\<lparr>gp_cachedToken := Some t'\<rparr>)))"

type_synonym kms_encrypt = "string \<Rightarrow> string \<Rightarrow> string \<Rightarrow> string \<Rightarrow> (string \<times> string option) js"
type_synonym kms_decrypt = "string \<Rightarrow> string \<Rightarrow> string \<Rightarrow> string \<Rightarrow> string js"

definition gcp_generateSessionDataKey ::
  "kms_encrypt \<Rightarrow> int \<Rightarrow> cached_token js \<Rightarrow> bytes \<Rightarrow> aad_context \<Rightarrow> gcp_provider \<Rightarrow> data_key js \<times> gcp_provider" where
  "gcp_generateSessionDataKey encrypt now fetched random32 ctx p =
     (case getAccessToken now fetched p of
        (Inl e, p1) \<Rightarrow> (Inl e, p1)
      | (Inr token, p1) \<Rightarrow>
          (js_bind (encrypt token (gp_keyName p) (base64Encode random32) (base64Encode (canonicalContextBytes ctx)))
             (\<lambda>(ciphertext, name). js_bind (base64Decode ciphertext) (\<lambda>wrapped.
                Inr \<lparr>plaintextDataKey = random32, encryptedDataKey = wrapped, dk_keyId = gp_keyName p,
                     dk_keyVersion = (case parseCryptoKeyVersion name of Some v \<Rightarrow> v | None \<Rightarrow> gcp_keyVersion)\<rparr>)), p1))"

definition gcp_decryptSessionDataKey ::
  "kms_decrypt \<Rightarrow> int \<Rightarrow> cached_token js \<Rightarrow> bytes \<Rightarrow> aad_context \<Rightarrow> string \<Rightarrow> string \<Rightarrow> gcp_provider \<Rightarrow>
   bytes js \<times> gcp_provider" where
  "gcp_decryptSessionDataKey decrypt now fetched wrapped ctx keyId keyVersion p =
     (if \<not> gcp_version_shape keyVersion then
        (Inl (Error (''GcpKmsProvider: input.keyVersion '' @ [CHR 0x22] @ keyVersion @ [CHR 0x22] @ '' doesn'' @ [CHR 0x27] @
           ''t match the expected '' @ [CHR 0x27] @ ''gcp-kms:v<N>'' @ [CHR 0x27] @ '' or '' @ [CHR 0x27] @
           ''gcp-kms:unknown'' @ [CHR 0x27] @ '' shape (H7-F.4).'')), p)
      else case getAccessToken now fetched p of
        (Inl e, p1) \<Rightarrow> (Inl e, p1)
      | (Inr token, p1) \<Rightarrow>
          (js_bind (decrypt token (gp_keyName p) (base64Encode wrapped) (base64Encode (canonicalContextBytes ctx)))
             base64Decode, p1))"

subsection \<open>DER integers\<close>

text \<open>The minimal two's complement encoding of a positive integer, as an HSM produces it.\<close>

definition der_int :: "int \<Rightarrow> bytes" where
  "der_int n = (let bs = dropWhile (\<lambda>b. b = 0) (be_bytes 32 n)
     in if bs \<noteq> [] \<and> 128 \<le> unat (hd bs) then 0 # bs else bs)"

definition der_signature :: "int \<Rightarrow> int \<Rightarrow> bytes" where
  "der_signature r s =
     (let body = [2, word_of_nat (length (der_int r))] @ der_int r @ [2, word_of_nat (length (der_int s))] @ der_int s
      in [0x30, word_of_nat (length body)] @ body)"

lemma beBytesToBigInt_zero: "beBytesToBigInt (0 # bs) = beBytesToBigInt bs"
  by (simp add: beBytesToBigInt_def)

lemma beBytesToBigInt_strip: "beBytesToBigInt (dropWhile (\<lambda>b. b = 0) bs) = beBytesToBigInt bs"
  by (induction bs) (auto simp: beBytesToBigInt_zero)

lemma length_der_int: "length (der_int n) \<le> 33"
  using length_dropWhile_le [of "\<lambda>b. b = 0" "be_bytes 32 n"] by (simp add: der_int_def Let_def)

lemma der_int_value: "0 \<le> n \<Longrightarrow> n < 2 ^ 256 \<Longrightarrow> beBytesToBigInt (der_int n) = n"
  by (simp add: der_int_def Let_def beBytesToBigInt_zero beBytesToBigInt_strip beBytesToBigInt_be_bytes)

lemma short_length_byte: "n < 128 \<Longrightarrow> (word_of_nat n :: byte) AND 0x80 = 0"
proof -
  have "list_all (\<lambda>n. (word_of_nat n :: byte) AND 0x80 = 0) [0..<128]" by code_simp
  then show "n < 128 \<Longrightarrow> (word_of_nat n :: byte) AND 0x80 = 0" by (simp add: list_all_iff)
qed

lemma drop_second: "drop (6 + length R) (a # b # c # d # R @ e # f # S) = S"
  by (simp add: numeral_eq_Suc)

lemma parse_der_signature:
  assumes "0 < r" "r < N" "0 < s" "s < N" "N \<le> 2 ^ 256"
  shows "parseDerEcdsa N (der_signature r s) = Inr (r, s)"
proof -
  let ?R = "der_int r" and ?S = "der_int s"
  have len: "length ?R \<le> 33" "length ?S \<le> 33" by (rule length_der_int)+
  have val: "beBytesToBigInt ?R = r" "beBytesToBigInt ?S = s" using assms by (simp_all add: der_int_value)
  have u: "unat (word_of_nat (length ?R) :: byte) = length ?R" "unat (word_of_nat (length ?S) :: byte) = length ?S"
    using len by (simp_all add: unat_of_nat)
  have l: "(word_of_nat (length ([2, word_of_nat (length ?R)] @ ?R @ [2, word_of_nat (length ?S)] @ ?S)) :: byte) AND 0x80 = 0"
    by (rule short_length_byte) (use len in simp)
  show ?thesis
    using len val u l assms
    by (simp add: parseDerEcdsa_def der_signature_def der_at_def Let_def nth_append drop_second)
qed

lemma parseDerEcdsa_range: "parseDerEcdsa N der = Inr (r, s) \<Longrightarrow> 0 < r \<and> r < N \<and> 0 < s \<and> s < N"
  by (auto simp: parseDerEcdsa_def Let_def split: if_splits)

lemma normalizeLowS_low:
  assumes "0 < s" "s < N"
  shows "0 < normalizeLowS N s \<and> normalizeLowS N s \<le> N div 2 \<and>
         (normalizeLowS N s = s \<or> normalizeLowS N s = N - s) \<and>
         normalizeLowS N (normalizeLowS N s) = normalizeLowS N s"
  using assms by (auto simp: normalizeLowS_def drop_bit_eq_div)

lemma try_recovery_Inr:
  "try_recovery lib compact digest known ns attempts = Inr v \<Longrightarrow>
     \<exists>n \<in> set ns. v = n + 27 \<and> curve_recover lib compact n digest = Inr known"
  by (induction lib compact digest known ns attempts rule: try_recovery.induct)
     (auto split: sum.splits if_splits)

lemma findRecoveryByte_Inr:
  assumes "findRecoveryByte lib r s digest known = Inr v"
  shows "v \<in> {27, 28} \<and> curve_recover lib (bigIntTo32Bytes r @ bigIntTo32Bytes s) (v - 27) digest = Inr known"
proof -
  have "try_recovery lib (bigIntTo32Bytes r @ bigIntTo32Bytes s) digest known [0, 1] [] = Inr v"
    using assms by (cases "try_recovery lib (bigIntTo32Bytes r @ bigIntTo32Bytes s) digest known [0, 1] []")
      (simp_all only: findRecoveryByte_def sum.case sum.distinct sum.inject)
  from try_recovery_Inr [OF this] show ?thesis by auto
qed

lemma gcp_sign_bytes_Inr:
  assumes "gcp_sign_bytes lib digest pub der = Inr sig" "curve_order lib \<le> 2 ^ 256"
  shows "\<exists>r s v. sig = signature_bytes r s (int v) \<and> 0 < r \<and> r < curve_order lib \<and>
           0 < s \<and> s \<le> curve_order lib div 2 \<and> v \<in> {27, 28} \<and>
           curve_recover lib (take 64 sig) (v - 27) digest = Inr pub"
proof -
  obtain r raw v where p: "parseDerEcdsa (curve_order lib) der = Inr (r, raw)"
    and f: "findRecoveryByte lib r (normalizeLowS (curve_order lib) raw) digest pub = Inr v"
    and sig: "sig = signature_bytes r (normalizeLowS (curve_order lib) raw) (int v)"
    using assms(1) by (auto simp: gcp_sign_bytes_def Let_def)
  show ?thesis
    using parseDerEcdsa_range [OF p] normalizeLowS_low [of raw "curve_order lib"] findRecoveryByte_Inr [OF f] sig
    by (intro exI [of _ r] exI [of _ "normalizeLowS (curve_order lib) raw"] exI [of _ v])
       (simp add: signature_bytes_def)
qed

lemma signDigestWithKms_Inr:
  "signDigestWithKms lib digest pem sign = Inr h \<longleftrightarrow>
     length digest = 32 \<and>
     (\<exists>spki pub der sig. pemToDer pem = Inr spki \<and> parseSpkiUncompressedSecp256k1PubKey spki = Inr pub \<and>
        sign digest = Inr der \<and> gcp_sign_bytes lib digest pub der = Inr sig \<and> h = toHex sig)"
  by (auto simp: signDigestWithKms_def gcp_sign_bytes_def Let_def recoverV_def assembleEthSignature_def)

subsection \<open>Base64 and PEM\<close>

lemma sextets_pad: "(length (sextets xs) + (3 - length xs mod 3) mod 3) mod 4 = 0"
proof (induction xs rule: sextets.induct)
  case (1 a b c r)
  have "Suc (Suc (Suc n)) mod 3 = n mod 3" for n :: nat by presburger
  then show ?case using 1 by (simp add: numeral_eq_Suc [symmetric])
qed simp_all

lemma base64_roundtrip [simp, js_roundtrip]: "base64Decode (base64Encode bs) = Inr bs"
proof -
  have "base64Encode bs = b64_text bs @ replicate ((3 - length bs mod 3) mod 3) (CHR ''='')"
    by (simp add: base64Encode_def btoa_def b64_text_def)
  moreover have "(3 - length bs mod 3) mod 3 \<le> 2" using mod_less_divisor [of 3 "3 - length bs mod 3"] by simp
  moreover have "(length (b64_text bs) + (3 - length bs mod 3) mod 3) mod 4 = 0"
    using sextets_pad [of "map unat bs"] by (simp add: b64_text_def)
  ultimately show ?thesis by (simp add: base64Decode_def atob_b64_text map_bytes_chars comp_def)
qed

lemma base64_chars: "c \<in> set (base64Encode bs) \<Longrightarrow> plain_char c \<and> c \<noteq> CHR ''-''"
proof -
  assume "c \<in> set (base64Encode bs)"
  then have "c = CHR ''='' \<or> b64_val c \<noteq> None"
    using b64_text_val [of c bs] by (auto simp: base64Encode_def btoa_def b64_text_def)
  then show ?thesis by (auto simp: plain_char_def b64_val_def Let_def split: if_splits)
qed

lemma base64Encode_Nil [simp]: "base64Encode bs = [] \<longleftrightarrow> bs = []"
  by (cases "map unat bs" rule: sextets.cases) (auto simp: base64Encode_def btoa_def char_codes_def)

lemma pem_roundtrip:
  assumes "bs \<noteq> []" "CHR 0x0A \<notin> set label"
  shows "pemToDer (''-----'' @ label @ [CHR 0x0A] @ base64Encode bs @ [CHR 0x0A]) = Inr bs"
proof -
  have nl: "CHR 0x0A \<notin> set (base64Encode bs)" using base64_chars [of "CHR 0x0A" bs] by (auto simp: plain_char_def)
  have "split_on (CHR 0x0A) ((''-----'' @ label) @ CHR 0x0A # base64Encode bs @ CHR 0x0A # []) =
      [''-----'' @ label, base64Encode bs, []]"
    using nl assms(2) by (subst split_on_append) simp_all
  moreover have "js_trim (base64Encode bs) = base64Encode bs" using base64_chars by (simp add: js_trim_free)
  moreover have "\<not> startsWith (base64Encode bs) ''-----''"
    using assms(1) base64_chars [of "hd (base64Encode bs)" bs] by (cases "base64Encode bs") (auto simp: startsWith_def)
  moreover have "js_trim [] = []" by (simp add: js_trim_def)
  ultimately show ?thesis using assms(1) by (simp add: pemToDer_def startsWith_def)
qed

text \<open>A small world for concrete runs: a curve of order 1000 whose recovery always finds one key.\<close>

definition demo_pub65 :: bytes where
  "demo_pub65 = 4 # replicate 64 7"

definition demo_kms_lib :: kms_lib where
  "demo_kms_lib =
     \<lparr>kl_crypto =
        \<lparr>encodeAbiParameters = (\<lambda>_ _. Inr ''0x''), decodeAbiParameters = (\<lambda>_ _. Inr []),
         keccak256 = (\<lambda>h. h), keccak_256 = (\<lambda>bs. take 32 (bs @ replicate 32 0)),
         hashTypedData = (\<lambda>_ _ _ _. Inr ''0x'')\<rparr>,
      hkdf_sha256 = (\<lambda>master salt info n. take n (master @ salt @ info)),
      hmac_sha256 = (\<lambda>key msg. key @ msg),
      viem_hexToBytes = (\<lambda>h. Inr (pair_bytes (drop 2 h))),
      getPublicKey = (\<lambda>priv. Inr (4 # priv @ priv)),
      curve_sign = (\<lambda>digest priv. Inr (beBytesToBigInt digest, beBytesToBigInt priv, Some 1)),
      curve_recover = (\<lambda>compact n digest. if n = 1 then Inr demo_pub65 else Inl ''bad recovery id''),
      curve_order = 1000\<rparr>"

definition demo_pem :: string where
  "demo_pem = ''-----BEGIN PUBLIC KEY-----'' @ [CHR 0x0A] @ base64Encode (48 # demo_pub65) @ [CHR 0x0A]"

lemma demo_signs:
  "signDigestWithKms demo_kms_lib (replicate 32 1) demo_pem (\<lambda>_. Inr (der_signature 300 800)) =
     Inr (assembleEthSignature 300 200 28)"
proof -
  have "pemToDer demo_pem = Inr (48 # demo_pub65)"
    using pem_roundtrip [of "48 # demo_pub65" "''BEGIN PUBLIC KEY-----''"] by (simp add: demo_pem_def)
  moreover have "parseSpkiUncompressedSecp256k1PubKey (48 # demo_pub65) = Inr demo_pub65"
    by (simp add: parseSpkiUncompressedSecp256k1PubKey_def demo_pub65_def)
  moreover have "parseDerEcdsa 1000 (der_signature 300 800) = Inr (300, 800)"
    by (rule parse_der_signature) simp_all
  moreover have "findRecoveryByte demo_kms_lib 300 200 (replicate 32 1) demo_pub65 = Inr 28"
    by (simp add: findRecoveryByte_def demo_kms_lib_def)
  moreover have "normalizeLowS 1000 800 = 200" "curve_order demo_kms_lib = 1000"
    by (simp_all add: normalizeLowS_def drop_bit_eq_div demo_kms_lib_def)
  ultimately show ?thesis by (simp add: signDigestWithKms_def recoverV_def)
qed

section \<open>Properties\<close>

text \<open>
  the DER parser inverts the standard encoding: for every \<open>(r, s)\<close> with \<open>0 < r, s < n\<close> the
  encoding of the pair as an HSM returns it parses to the pair.
\<close>

theorem der_signatures_parse:
  assumes "0 < r" "r < N" "0 < s" "s < N" "N \<le> 2 ^ 256"
  shows "parseDerEcdsa N (der_signature r s) = Inr (r, s)"
  using assms by (rule parse_der_signature)

theorem der_signatures_parse_witness:
  "parseDerEcdsa 1000 (der_signature 300 5) = Inr (300, 5)"
  using der_signatures_parse [of 300 1000 5] by simp

text \<open>
  C15: whatever bytes the cloud service answers, a signature leaves \<open>signDigestWithKms\<close> only when it
  is canonical: \<open>0 < r < n\<close>, \<open>s\<close> in the lower half (EIP-2), \<open>v\<close> 27 or 28, and the recovery with that
  \<open>v\<close> gives the public key of the configured PEM.
\<close>

theorem kms_signature_canonical:
  assumes "signDigestWithKms lib digest pem sign = Inr h" "curve_order lib \<le> 2 ^ 256"
  shows "\<exists>spki pub r s v. pemToDer pem = Inr spki \<and> parseSpkiUncompressedSecp256k1PubKey spki = Inr pub \<and>
     h = assembleEthSignature r s v \<and> 0 < r \<and> r < curve_order lib \<and> 0 < s \<and> s \<le> curve_order lib div 2 \<and>
     v \<in> {27, 28} \<and> curve_recover lib (bigIntTo32Bytes r @ bigIntTo32Bytes s) (v - 27) digest = Inr pub"
proof -
  obtain spki pub der sig where k: "pemToDer pem = Inr spki" "parseSpkiUncompressedSecp256k1PubKey spki = Inr pub"
    and g: "gcp_sign_bytes lib digest pub der = Inr sig" and h: "h = toHex sig"
    using assms(1) by (auto simp: signDigestWithKms_Inr)
  from gcp_sign_bytes_Inr [OF g assms(2)] obtain r s v where
    "sig = signature_bytes r s (int v)" "0 < r" "r < curve_order lib" "0 < s" "s \<le> curve_order lib div 2"
    "v \<in> {27, 28}" "curve_recover lib (take 64 sig) (v - 27) digest = Inr pub" by blast
  then show ?thesis using k h
    by (intro exI [of _ spki] exI [of _ pub] exI [of _ r] exI [of _ s] exI [of _ v])
       (simp add: assembleEthSignature_def signature_bytes_def)
qed

theorem kms_signature_canonical_witness:
  "\<exists>spki pub r s v. pemToDer demo_pem = Inr spki \<and> parseSpkiUncompressedSecp256k1PubKey spki = Inr pub \<and>
     assembleEthSignature 300 200 28 = assembleEthSignature r s v \<and> 0 < r \<and> r < curve_order demo_kms_lib \<and>
     0 < s \<and> s \<le> curve_order demo_kms_lib div 2 \<and> v \<in> {27, 28} \<and>
     curve_recover demo_kms_lib (bigIntTo32Bytes r @ bigIntTo32Bytes s) (v - 27) (replicate 32 1) = Inr pub"
  by (rule kms_signature_canonical [OF demo_signs]) (simp add: demo_kms_lib_def)

text \<open>
  the audited signer and the peer-free core are one implementation: with a fresh cache
  \<open>GcpKmsSigner.signA2AAction\<close> releases exactly the bytes whose hex \<open>signDigestWithKms\<close> returns, and
  fails when it fails.
\<close>

theorem gcp_signer_agrees_with_core:
  assumes "gs_cachedPubKey65 sg = None" "gs_cachedAddress sg = None"
  shows "(\<exists>keyId a. fst (gcp_signA2AAction lib (Inr pem) sign sink stamp digest ctx sg w) = Inr (sig, keyId, a)) \<longleftrightarrow>
     signDigestWithKms lib digest pem sign = Inr (toHex sig)"
  using assms
  by (auto simp: gcp_signA2AAction_def getPublicKeyBytes_def getSignerAddress_def signDigestWithKms_Inr toHex_def
      Let_def split: sum.splits)

definition demo_gcp_signer :: gcp_signer where
  "demo_gcp_signer = \<lparr>gs_keyName = ''k'', gs_cachedPubKey65 = None, gs_cachedAddress = None\<rparr>"

theorem gcp_signer_agrees_with_core_witness:
  "\<exists>keyId a. fst (gcp_signA2AAction demo_kms_lib (Inr demo_pem) (\<lambda>_. Inr (der_signature 300 800)) None id
     (replicate 32 1) None demo_gcp_signer ()) = Inr (signature_bytes 300 200 28, keyId, a)"
  by (subst gcp_signer_agrees_with_core) (simp_all add: demo_gcp_signer_def demo_signs assembleEthSignature_def)

end
