(* ===== verification/KeyAccounts.thy ===== *)
theory KeyAccounts
  imports KmsCore
begin

section \<open>Choosing a backend, and the accounts built over it\<close>

text \<open>
  \<open>packages/key-custody/src\<close>: \<open>factories.ts\<close> and the signer half of \<open>derive-subject.ts\<close> decide which
  signing backend a process gets; \<open>relay-only.ts\<close>, \<open>account.ts\<close>, \<open>kms-viem-account.ts\<close>,
  \<open>relayer-account.ts\<close> and \<open>spend-capped-account.ts\<close> wrap a backend into accounts. Backend names are
  strings because the environment variable is cast, not checked: a name that no \<open>case\<close> handles
  makes the factory return \<open>undefined\<close>, the \<open>None\<close> below.
\<close>

subsection \<open>\<open>factories.ts\<close>\<close>

record build_opts =
  bo_backend :: "string option"
  bo_config :: "string \<Rightarrow> string option"
  bo_environment :: "string option"
  bo_developmentMode :: "bool option"

definition kc_inferEnvironment :: "process_env \<Rightarrow> build_opts \<Rightarrow> string" where
  "kc_inferEnvironment env opts =
     (if truthy (bo_environment opts) then the (bo_environment opts)
      else if bo_developmentMode opts = Some True then ''development''
      else if truthy (env_try env ''NODE_ENV'') then
        (if env_try env ''NODE_ENV'' = Some ''production'' then ''production'' else ''development'')
      else ''production'')"

definition backendOrEnv :: "process_env \<Rightarrow> build_opts \<Rightarrow> string js" where
  "backendOrEnv env opts =
     (if truthy (bo_backend opts) then Inr (the (bo_backend opts))
      else if truthy (env_try env ''A2A_KMS_BACKEND'') then Inr (the (env_try env ''A2A_KMS_BACKEND''))
      else if kc_inferEnvironment env opts = ''production'' then
        Inl (Error (''[key-custody] No backend specified for production. Pass `opts.backend` '' @
          ''(`gcp-kms` for real deploys; `local-aes` for dev) or set '' @
          ''the A2A_KMS_BACKEND env var. There is no implicit fallback in production '' @ em_dash @ '' '' @
          ''pass `developmentMode: true` to opt into the dev default. '' @
          ''(`aws-kms` is reserved but NOT implemented '' @ em_dash @ '' selecting it fails fast.)''))
      else Inr ''local-aes'')"

definition AWS_KMS_NOT_IMPLEMENTED :: string where
  "AWS_KMS_NOT_IMPLEMENTED =
     ''[key-custody] aws-kms backend is not implemented. Use backend '' @ [CHR 0x22] @ ''gcp-kms'' @ [CHR 0x22] @
     '' for real deploys (the only production-ready KMS, spec 214 '' @ [CHR 0xC2, CHR 0xA7] @ ''5) or '' @ [CHR 0x22] @
     ''local-aes'' @ [CHR 0x22] @ '' for dev. `aws-kms` is reserved but not wired.''"

text \<open>
  Both GCP constructors check the same things in the same order. A service account is JSON whose
  two fields are truthy; reading them from \<open>null\<close> is a \<open>TypeError\<close>.
\<close>

fun json_truthy :: "json option \<Rightarrow> bool" where
  "json_truthy None \<longleftrightarrow> False"
| "json_truthy (Some Null) \<longleftrightarrow> False"
| "json_truthy (Some (Bool b)) \<longleftrightarrow> b"
| "json_truthy (Some (Num n)) \<longleftrightarrow> n \<noteq> 0"
| "json_truthy (Some (Str s)) \<longleftrightarrow> s \<noteq> []"
| "json_truthy (Some _) \<longleftrightarrow> True"

fun json_field :: "json \<Rightarrow> string \<Rightarrow> json option" where
  "json_field (Obj ms) k = map_of ms k"
| "json_field _ k = None"

definition gcp_credentials ::
  "process_env \<Rightarrow> string \<Rightarrow> string option \<Rightarrow> string option \<Rightarrow> string \<Rightarrow> string \<Rightarrow> string js" where
  "gcp_credentials env cls nameOpt jsonOpt nameVar nameShape =
     js_bind (override_or_env env nameOpt nameVar) (\<lambda>keyName.
     js_bind (override_or_env env jsonOpt ''GCP_SERVICE_ACCOUNT_JSON'') (\<lambda>jsonStr.
     if \<not> truthy keyName then Inl (Error (cls @ '': '' @ nameVar @ '' ('' @ nameShape @ '') is required.''))
     else if \<not> truthy jsonStr then
       Inl (Error (cls @ '': GCP_SERVICE_ACCOUNT_JSON (service-account JSON string) is required.''))
     else case JSON_parse (the jsonStr) of
       None \<Rightarrow> Inl (Error (cls @ '': GCP_SERVICE_ACCOUNT_JSON is not valid JSON.''))
     | Some Null \<Rightarrow> Inl TypeError
     | Some j \<Rightarrow>
         if \<not> json_truthy (json_field j ''client_email'') \<or> \<not> json_truthy (json_field j ''private_key'')
         then Inl (Error (cls @ '': service-account JSON missing client_email or private_key.''))
         else Inr (the keyName)))"

definition newGcpKmsSigner :: "process_env \<Rightarrow> string option \<Rightarrow> string option \<Rightarrow> gcp_signer js" where
  "newGcpKmsSigner env cryptoKeyVersionName serviceAccountJson =
     js_bind (gcp_credentials env ''GcpKmsSigner'' cryptoKeyVersionName serviceAccountJson ''GCP_KMS_KEY_NAME''
        ''projects/<P>/locations/<L>/keyRings/<R>/cryptoKeys/<K>/cryptoKeyVersions/<V>'')
       (\<lambda>n. Inr \<lparr>gs_keyName = n, gs_cachedPubKey65 = None, gs_cachedAddress = None\<rparr>)"

definition newGcpKmsProvider :: "process_env \<Rightarrow> string option \<Rightarrow> string option \<Rightarrow> gcp_provider js" where
  "newGcpKmsProvider env cryptoKeyName serviceAccountJson =
     js_bind (gcp_credentials env ''GcpKmsProvider'' cryptoKeyName serviceAccountJson ''GCP_KMS_ENCRYPT_KEY_NAME''
        ''projects/<P>/locations/<L>/keyRings/<R>/cryptoKeys/<K>'')
       (\<lambda>n. Inr \<lparr>gp_keyName = n, gp_cachedToken = None\<rparr>)"

datatype key_provider = LocalProvider local_aes | GcpProvider gcp_provider

datatype signer_backend = LocalBackend local_signer | GcpBackend gcp_signer

definition buildKeyProvider :: "kms_lib \<Rightarrow> process_env \<Rightarrow> build_opts \<Rightarrow> key_provider option js" where
  "buildKeyProvider lib env opts =
     js_bind (backendOrEnv env opts) (\<lambda>b.
       if b = ''local-aes'' then
         js_bind (newLocalAesProvider lib env (bo_config opts ''sessionSecretHex'')) (\<lambda>p. Inr (Some (LocalProvider p)))
       else if b = ''aws-kms'' then Inl (Error AWS_KMS_NOT_IMPLEMENTED)
       else if b = ''gcp-kms'' then
         js_bind (newGcpKmsProvider env (bo_config opts ''cryptoKeyName'') (bo_config opts ''serviceAccountJson''))
           (\<lambda>p. Inr (Some (GcpProvider p)))
       else Inr None)"

definition buildSignerBackend ::
  "kms_lib \<Rightarrow> process_env \<Rightarrow> build_opts \<Rightarrow> string list \<Rightarrow> signer_backend option js \<times> string list" where
  "buildSignerBackend lib env opts warned =
     (case backendOrEnv env opts of
        Inl e \<Rightarrow> (Inl e, warned)
      | Inr b \<Rightarrow>
          if b = ''local-aes'' then
            (case newLocalSecp256k1Signer lib env (bo_config opts ''privateKeyHex'') warned of
               (r, w) \<Rightarrow> (js_bind r (\<lambda>s. Inr (Some (LocalBackend s))), w))
          else if b = ''aws-kms'' then (Inl (Error AWS_KMS_NOT_IMPLEMENTED), warned)
          else if b = ''gcp-kms'' then
            (js_bind (newGcpKmsSigner env (bo_config opts ''cryptoKeyVersionName'') (bo_config opts ''serviceAccountJson''))
               (\<lambda>s. Inr (Some (GcpBackend s))), warned)
          else (Inr None, warned))"

definition buildToolExecutorBackendNoIsolation ::
  "kms_lib \<Rightarrow> process_env \<Rightarrow> string \<Rightarrow> build_opts \<Rightarrow> string list \<Rightarrow> signer_backend option js \<times> string list" where
  "buildToolExecutorBackendNoIsolation lib env toolId opts warned =
     (if kc_inferEnvironment env opts = ''production'' then
        (Inl (Error (''[key-custody] buildToolExecutorBackendNoIsolation is refused in production. '' @
           ''Per-tool isolation is not implemented; the function would return the master signer. '' @
           ''Build the per-tool HKDF path (mirror `deriveSubjectSigner` from spec 235) before '' @
           ''wiring tool executors in production.'')), warned)
      else if env_try env ''AP_ALLOW_NO_TOOL_ISOLATION'' \<noteq> Some ''true'' then
        (Inl (Error (''[key-custody] buildToolExecutorBackendNoIsolation requires opt-in. '' @
           ''Set AP_ALLOW_NO_TOOL_ISOLATION=true (and ensure you are not in production). '' @
           ''This signer has NO per-tool isolation '' @ em_dash @ '' every toolId resolves to the master signer.'')), warned)
      else buildSignerBackend lib env opts warned)"

definition buildMacProvider :: "kms_lib \<Rightarrow> process_env \<Rightarrow> string \<Rightarrow> build_opts \<Rightarrow> key_provider option js" where
  "buildMacProvider lib env audience opts = buildKeyProvider lib env opts"

subsection \<open>\<open>derive-subject.ts\<close>: the signer\<close>

definition backendOf :: "process_env \<Rightarrow> build_opts \<Rightarrow> string" where
  "backendOf env opts =
     (if truthy (bo_backend opts) then the (bo_backend opts)
      else if truthy (env_try env ''A2A_KMS_BACKEND'') then the (env_try env ''A2A_KMS_BACKEND'')
      else ''local-aes'')"

definition loadDerivationMaster :: "kms_lib \<Rightarrow> process_env \<Rightarrow> build_opts \<Rightarrow> bytes js" where
  "loadDerivationMaster lib env opts =
     js_bind (override_or_env env (bo_config opts ''derivationSecretHex'') ''A2A_MASTER_PRIVATE_KEY'') (\<lambda>h.
       if \<not> truthy h then
         Inl (Error (''deriveSubjectSigner (local-aes): A2A_MASTER_PRIVATE_KEY (or config.derivationSecretHex) '' @
           ''is required to derive per-subject custodian keys.''))
       else js_bind (viem_hexToBytes lib (with_0x (the h))) (\<lambda>bs.
         if length bs < 32 then
           Inl (Error (''deriveSubjectSigner: derivation master must be '' @ ge_sign @ '' 32 bytes; got '' @ nat_str (length bs)))
         else Inr bs))"

definition deriveSubjectSigner ::
  "kms_lib \<Rightarrow> process_env \<Rightarrow> build_opts \<Rightarrow> subject_id \<Rightarrow> string list \<Rightarrow> local_signer js \<times> string list" where
  "deriveSubjectSigner lib env opts subject warned =
     (if backendOf env opts = ''local-aes'' then
        (case js_bind (loadDerivationMaster lib env opts) (\<lambda>m. deriveSubjectPrivateKeyHex lib m subject) of
           Inl e \<Rightarrow> (Inl e, warned)
         | Inr k \<Rightarrow> newLocalSecp256k1Signer lib env (Some k) warned)
      else
        (Inl (Error (''deriveSubjectSigner: per-subject derivation is not yet implemented for backend '' @ [CHR 0x22] @
           backendOf env opts @ [CHR 0x22] @ ''. The KMS providers expose no per-subject MAC/key today. '' @
           ''Use local-aes for the demo, or build the production path per spec 235 '' @ [CHR 0xC2, CHR 0xA7] @
           ''10 (a per-subject KMS HMAC or asymmetric key). There is no silent fallback to local-aes (ADR-0013).'')), warned))"

subsection \<open>Backends and accounts as objects\<close>

text \<open>
  A backend and an account are objects over a world \<open>'w\<close> (the audit store, the signer's caches): each
  method answers with its result and the world after it. Transactions carry the two fields the
  wrappers read and an opaque rest; messages and typed data are opaque. \<open>viem\<close>'s hashing and
  serialisation are the fields of a record.
\<close>

record 'w kms_backend_obj =
  bk_provider :: string
  bk_getSignerAddress :: "'w \<Rightarrow> address js \<times> 'w"
  bk_signA2AAction :: "bytes \<Rightarrow> sign_context option \<Rightarrow> 'w \<Rightarrow> (bytes \<times> string \<times> address) js \<times> 'w"

datatype txval = VUndefined | VNull | VBigInt int | VNumber number | VText string | VOther

record 'x transaction =
  tx_to :: "hex option"
  tx_value :: txval
  tx_rest :: 'x

record 'x viem_lib =
  vl_hashMessage :: "string \<Rightarrow> hex"
  vl_hashTypedData :: "string \<Rightarrow> hex js"
  vl_serializeTransaction :: "'x transaction \<Rightarrow> (hex \<times> hex \<times> nat) option \<Rightarrow> hex js"
  vl_serializeSignature :: "hex \<Rightarrow> hex \<Rightarrow> nat \<Rightarrow> hex"

record ('w, 'x) local_account =
  ac_address :: address
  ac_source :: string
  ac_signMessage :: "string \<Rightarrow> 'w \<Rightarrow> hex js \<times> 'w"
  ac_signTransaction :: "'x transaction \<Rightarrow> 'w \<Rightarrow> hex js \<times> 'w"
  ac_signTypedData :: "string \<Rightarrow> 'w \<Rightarrow> hex js \<times> 'w"

definition local_backend ::
  "kms_lib \<Rightarrow> local_signer \<Rightarrow> 'w sink option \<Rightarrow> (audit_event \<Rightarrow> audit_event) \<Rightarrow> 'w kms_backend_obj" where
  "local_backend lib sg sink stamp =
     \<lparr>bk_provider = ''local-aes'', bk_getSignerAddress = (\<lambda>w. (Inr (ls_addr sg), w)),
      bk_signA2AAction = (\<lambda>digest ctx w. signA2AAction lib sg sink stamp digest ctx w)\<rparr>"

text \<open>The world of the GCP backend carries the signer's caches beside the audit store.\<close>

definition gcp_backend ::
  "kms_lib \<Rightarrow> string js \<Rightarrow> (bytes \<Rightarrow> bytes js) \<Rightarrow> 'w sink option \<Rightarrow> (audit_event \<Rightarrow> audit_event) \<Rightarrow>
   (gcp_signer \<times> 'w) kms_backend_obj" where
  "gcp_backend lib pem sign sink stamp =
     \<lparr>bk_provider = ''gcp-kms'',
      bk_getSignerAddress = (\<lambda>(sg, w). case getSignerAddress (kl_crypto lib) pem sg of (r, sg') \<Rightarrow> (r, (sg', w))),
      bk_signA2AAction = (\<lambda>digest ctx (sg, w).
        case gcp_signA2AAction lib pem sign sink stamp digest ctx sg w of (r, sg', w') \<Rightarrow> (r, (sg', w')))\<rparr>"

text \<open>The relay-only shim keeps the provenance and the address, and signs nothing.\<close>

definition relay_only :: "'w kms_backend_obj \<Rightarrow> 'w kms_backend_obj" where
  "relay_only inner =
     \<lparr>bk_provider = bk_provider inner, bk_getSignerAddress = bk_getSignerAddress inner,
      bk_signA2AAction = (\<lambda>digest ctx w.
        (Inl (Error (''getRelayOnlySigner: signA2AAction called on relay-only signer. '' @
           ''The master key is restricted to broadcast operations only.'')), w))\<rparr>"

subsection \<open>\<open>account.ts\<close>\<close>

definition kms_eip191Digest :: "crypto_lib \<Rightarrow> bytes \<Rightarrow> bytes" where
  "kms_eip191Digest lib bs =
     keccak_256 lib (TextEncoder (CHR 0x19 # ''Ethereum Signed Message:'' @ [CHR 0x0A] @ nat_str (length bs)) @ bs)"

datatype sign_message = TextMessage string | RawMessage hex

definition kms_signMessage ::
  "kms_lib \<Rightarrow> 'w kms_backend_obj \<Rightarrow> string option \<Rightarrow> sign_message \<Rightarrow> 'w \<Rightarrow> hex js \<times> 'w" where
  "kms_signMessage lib backend sessionId msg w =
     (case (case msg of
              TextMessage s \<Rightarrow> Inr (kms_eip191Digest (kl_crypto lib) (TextEncoder s))
            | RawMessage raw \<Rightarrow> js_bind (viem_hexToBytes lib raw) (\<lambda>d.
                Inr (if length d \<noteq> 32 then kms_eip191Digest (kl_crypto lib) d else d))) of
        Inl e \<Rightarrow> (Inl e, w)
      | Inr digest \<Rightarrow>
          (case bk_signA2AAction backend digest
                  (if truthy sessionId then Some \<lparr>sc_toolId = None, sc_sessionId = sessionId, sc_actionId = None\<rparr> else None) w of
             (r, w') \<Rightarrow> (js_bind r (\<lambda>(sig, _, _). Inr (toHex sig)), w')))"

subsection \<open>\<open>kms-viem-account.ts\<close>\<close>

definition signDigestViaBackend ::
  "kms_lib \<Rightarrow> 'w kms_backend_obj \<Rightarrow> hex \<Rightarrow> 'w \<Rightarrow> (hex \<times> hex \<times> nat) js \<times> 'w" where
  "signDigestViaBackend lib backend digest w =
     (case viem_hexToBytes lib digest of
        Inl e \<Rightarrow> (Inl e, w)
      | Inr d \<Rightarrow>
          (case bk_signA2AAction backend d None w of
             (Inl e, w') \<Rightarrow> (Inl e, w')
           | (Inr (sig, _, _), w') \<Rightarrow>
               (if length sig \<noteq> 65 then
                  (Inl (Error (''KMS signer returned '' @ nat_str (length sig) @ ''-byte signature; expected 65 (r||s||v)'')), w')
                else
                  let v = unat (sig ! 64)
                  in if v \<noteq> 27 \<and> v \<noteq> 28 then
                       (Inl (Error (''KMS signer returned non-canonical v='' @ nat_str v @ ''; expected 27 or 28'')), w')
                     else (Inr (toHex (take 32 sig), toHex (take 32 (drop 32 sig)), v), w'))))"

definition createKmsViemAccount ::
  "kms_lib \<Rightarrow> 'x viem_lib \<Rightarrow> 'w kms_backend_obj \<Rightarrow> 'w \<Rightarrow> ('w, 'x) local_account js \<times> 'w" where
  "createKmsViemAccount lib viem backend w =
     (case bk_getSignerAddress backend w of
        (Inl e, w') \<Rightarrow> (Inl e, w')
      | (Inr addr, w') \<Rightarrow>
          (Inr \<lparr>ac_address = addr, ac_source = ''kms'',
             ac_signMessage = (\<lambda>message u.
               case signDigestViaBackend lib backend (vl_hashMessage viem message) u of
                 (r, u') \<Rightarrow> (js_bind r (\<lambda>(r, s, v). Inr (vl_serializeSignature viem r s v)), u')),
             ac_signTransaction = (\<lambda>tx u.
               case vl_serializeTransaction viem tx None of
                 Inl e \<Rightarrow> (Inl e, u)
               | Inr preimage \<Rightarrow>
                   (case signDigestViaBackend lib backend (keccak256 (kl_crypto lib) preimage) u of
                      (r, u') \<Rightarrow> (js_bind r (\<lambda>rsv. vl_serializeTransaction viem tx (Some rsv)), u'))),
             ac_signTypedData = (\<lambda>args u.
               case vl_hashTypedData viem args of
                 Inl e \<Rightarrow> (Inl e, u)
               | Inr digest \<Rightarrow>
                   (case signDigestViaBackend lib backend digest u of
                      (r, u') \<Rightarrow> (js_bind r (\<lambda>(r, s, v). Inr (vl_serializeSignature viem r s v)), u')))\<rparr>, w'))"

subsection \<open>\<open>relayer-account.ts\<close>\<close>

definition digestFingerprint :: "crypto_lib \<Rightarrow> hex \<Rightarrow> string" where
  "digestFingerprint lib digest = take 18 (keccak256 lib digest)"

definition relay_event ::
  "crypto_lib \<Rightarrow> string \<Rightarrow> address \<Rightarrow> string \<Rightarrow> hex \<Rightarrow> (hex option \<times> int) option \<Rightarrow> audit_event" where
  "relay_event lib role signer opType digest txContext =
     (blank_event ''key-custody.relay.sign'' Success)
     \<lparr>ev_actor := Some (System, Some role),
      ev_subject := Some (opType, digestFingerprint lib digest),
      ev_context := Some
        [(''role'', CStr role), (''signerAddress'', CStr signer), (''opType'', CStr opType),
         (''to'', case txContext of Some (Some a, _) \<Rightarrow> CStr a | _ \<Rightarrow> CNull),
         (''value'', case txContext of Some (_, v) \<Rightarrow> CStr (int_str v) | None \<Rightarrow> CNull),
         (''digestFingerprint'', CStr (digestFingerprint lib digest))]\<rparr>"

text \<open>
  The value for the audit row: absent is zero; anything but a bigint goes through \<open>BigInt\<close>, which
  throws on fractions, on \<open>null\<close> and on text that is not a number. It runs after the signature was made.
\<close>

definition bigint_of :: "txval \<Rightarrow> int js" where
  "bigint_of v = (case v of
      VUndefined \<Rightarrow> Inr 0 | VBigInt n \<Rightarrow> Inr n
    | VNumber (Whole n) \<Rightarrow> Inr n | VNumber NonInteger \<Rightarrow> Inl RangeError
    | VText s \<Rightarrow> (case BigInt_text s of Some n \<Rightarrow> Inr n | None \<Rightarrow> Inl SyntaxError)
    | VNull \<Rightarrow> Inl TypeError | VOther \<Rightarrow> Inl TypeError)"

definition createRelayerAccount ::
  "kms_lib \<Rightarrow> 'x viem_lib \<Rightarrow> 'w kms_backend_obj \<Rightarrow> string \<Rightarrow> 'w sink option \<Rightarrow> (audit_event \<Rightarrow> audit_event) \<Rightarrow>
   'w \<Rightarrow> ('w, 'x) local_account js \<times> 'w" where
  "createRelayerAccount lib viem backend role sink stamp w =
     (case createKmsViemAccount lib viem backend w of
        (Inl e, w') \<Rightarrow> (Inl e, w')
      | (Inr inner, w') \<Rightarrow>
          (let row = (\<lambda>opType digest txc u.
                 write_soft sink stamp (relay_event (kl_crypto lib) role (ac_address inner) opType digest txc) u)
           in (Inr \<lparr>ac_address = ac_address inner, ac_source = ''kms-relayer'',
             ac_signMessage = (\<lambda>message u.
               case ac_signMessage inner message u of
                 (Inl e, u') \<Rightarrow> (Inl e, u')
               | (Inr s, u') \<Rightarrow> (Inr s, row ''message'' (vl_hashMessage viem message) None u')),
             ac_signTransaction = (\<lambda>tx u.
               case vl_serializeTransaction viem tx None of
                 Inl e \<Rightarrow> (Inl e, u)
               | Inr preimage \<Rightarrow>
                   (case ac_signTransaction inner tx u of
                      (Inl e, u') \<Rightarrow> (Inl e, u')
                    | (Inr s, u') \<Rightarrow>
                        (case bigint_of (tx_value tx) of
                           Inl e \<Rightarrow> (Inl e, u')
                         | Inr v \<Rightarrow>
                             (Inr s, row ''transaction'' (keccak256 (kl_crypto lib) preimage) (Some (tx_to tx, v)) u')))),
             ac_signTypedData = (\<lambda>args u.
               case vl_hashTypedData viem args of
                 Inl e \<Rightarrow> (Inl e, u)
               | Inr digest \<Rightarrow>
                   (case ac_signTypedData inner args u of
                      (Inl e, u') \<Rightarrow> (Inl e, u')
                    | (Inr s, u') \<Rightarrow> (Inr s, row ''typed-data'' digest None u')))\<rparr>, w')))"

subsection \<open>\<open>spend-capped-account.ts\<close>\<close>

definition readTxValue :: "'x transaction \<Rightarrow> int js" where
  "readTxValue tx = (case tx_value tx of
      VUndefined \<Rightarrow> Inr 0 | VNull \<Rightarrow> Inr 0 | VBigInt n \<Rightarrow> Inr n
    | VNumber (Whole n) \<Rightarrow> Inr n | VNumber NonInteger \<Rightarrow> Inl RangeError
    | VText s \<Rightarrow> (case BigInt_text s of Some n \<Rightarrow> Inr n | None \<Rightarrow> Inl SyntaxError)
    | VOther \<Rightarrow> Inr (push_bit 256 1 - 1))"

definition cap_reject_event :: "int \<Rightarrow> int \<Rightarrow> hex option \<Rightarrow> address \<Rightarrow> audit_event" where
  "cap_reject_event capWei requested to signer =
     (blank_event ''key-custody.relay.spend-cap.reject'' Denied)
     \<lparr>ev_actor := Some (System, Some signer),
      ev_subject := Some (''transaction'', case to of Some a \<Rightarrow> a | None \<Rightarrow> ''<no-target>''),
      ev_context := Some
        [(''signerAddress'', CStr signer), (''to'', opt_ctx to),
         (''capWei'', CStr (int_str capWei)), (''requestedValue'', CStr (int_str requested))]\<rparr>"

definition emitCapReject ::
  "'w sink option \<Rightarrow> (audit_event \<Rightarrow> audit_event) \<Rightarrow> int \<Rightarrow> int \<Rightarrow> hex option \<Rightarrow> address \<Rightarrow> 'w \<Rightarrow> 'w" where
  "emitCapReject sink stamp capWei requested to signer w =
     write_soft sink stamp (cap_reject_event capWei requested to signer) w"

definition SpendCapExceededError :: "int \<Rightarrow> int \<Rightarrow> hex option \<Rightarrow> address \<Rightarrow> js_error" where
  "SpendCapExceededError capWei requested to signer =
     Error (''[key-custody] spend cap exceeded: requested '' @ int_str requested @ '' wei to '' @
       (case to of Some a \<Rightarrow> a | None \<Rightarrow> ''<no target>'') @ '', cap is '' @ int_str capWei @ '' wei (signer '' @ signer @ '')'')"

definition createSpendCappedAccount ::
  "('w, 'x) local_account \<Rightarrow> int \<Rightarrow> 'w sink option \<Rightarrow> (audit_event \<Rightarrow> audit_event) \<Rightarrow> ('w, 'x) local_account js" where
  "createSpendCappedAccount inner capWei sink stamp =
     (if capWei < 0 then
        Inl (Error (''[key-custody] createSpendCappedAccount: capWei must be >= 0; got '' @ int_str capWei))
      else Inr (inner\<lparr>ac_source := ''kms-spend-capped'',
        ac_signTransaction := (\<lambda>tx w.
          case readTxValue tx of
            Inl e \<Rightarrow> (Inl e, w)
          | Inr requested \<Rightarrow>
              if requested > capWei then
                (Inl (SpendCapExceededError capWei requested (tx_to tx) (ac_address inner)),
                 emitCapReject sink stamp capWei requested (tx_to tx) (ac_address inner) w)
              else ac_signTransaction inner tx w)\<rparr>))"

end
