(* ===== verification/SessionManager.thy ===== *)
theory SessionManager
  imports KeyAccounts DelegationToken
begin

section \<open>Session manager: encrypted session keys and their lifecycle\<close>

text \<open>
  \<open>packages/delegation/src/session-manager.ts\<close>: \<open>init\<close> makes a session key and stores it encrypted,
  \<open>package\<close> adds the user's delegation, \<open>resolve\<close> decrypts an active session and hands out a signer,
  \<open>revoke\<close> ends it. The manager talks to a session store and to a key provider through their
  interfaces, which are records of operations here; the memory store and the two providers of the
  key-custody package are the instances. AES-GCM (Web Crypto), the curve, the clock and its text form
  (\<open>toISOString\<close>, \<open>Date.parse\<close>) are platform functions and arguments.

  \<open>package\<close> awaits the provider between its read of the row and its write, so it is split into the two
  steps other requests can run between.
\<close>

datatype session_status = Pending | Active | Revoked | Expired

record session_row =
  sr_id :: string
  sr_accountAddress :: address
  sr_chainId :: int
  sr_sessionKeyAddress :: address
  sr_status :: session_status
  sr_encryptedPackage :: bytes
  sr_iv :: bytes
  sr_encryptedDataKey :: bytes
  sr_keyVersion :: string
  sr_expiresAt :: string
  sr_variant :: "string option"
  sr_createdAt :: string
  sr_revokedAt :: "string option"

record session_meta =
  sn_sessionId :: string
  sn_accountAddress :: address
  sn_chainId :: int
  sn_expiresAt :: string

record 's store_ops =
  st_save :: "session_row \<Rightarrow> 's \<Rightarrow> 's"
  st_get :: "string \<Rightarrow> 's \<Rightarrow> session_row option"
  st_list :: "address \<Rightarrow> 's \<Rightarrow> session_row list"
  st_revoke :: "string \<Rightarrow> string \<Rightarrow> 's \<Rightarrow> 's"

record 'p provider_ops =
  kp_keyVersion :: string
  kp_generateSessionDataKey :: "aad_context \<Rightarrow> 'p \<Rightarrow> data_key js \<times> 'p"
  kp_decryptSessionDataKey :: "bytes \<Rightarrow> aad_context \<Rightarrow> string \<Rightarrow> string \<Rightarrow> 'p \<Rightarrow> bytes js \<times> 'p"

record platform =
  pf_lib :: kms_lib
  pf_aesEncrypt :: "bytes \<Rightarrow> bytes \<Rightarrow> bytes \<Rightarrow> bytes \<Rightarrow> bytes js"
  pf_aesDecrypt :: "bytes \<Rightarrow> bytes \<Rightarrow> bytes \<Rightarrow> bytes \<Rightarrow> bytes js"
  pf_isValidSecretKey :: "bytes \<Rightarrow> bool"
  pf_toISOString :: "int \<Rightarrow> string"
  pf_parseDate :: "string \<Rightarrow> int option"

subsection \<open>The memory store\<close>

type_synonym session_rows = "(string \<times> session_row) list"

definition memory_save :: "session_row \<Rightarrow> session_rows \<Rightarrow> session_rows" where
  "memory_save row rows = upsert (sr_id row) row rows"

definition memory_get :: "string \<Rightarrow> session_rows \<Rightarrow> session_row option" where
  "memory_get i rows = map_of rows i"

definition memory_list :: "address \<Rightarrow> session_rows \<Rightarrow> session_row list" where
  "memory_list account rows =
     filter (\<lambda>r. toLowerCase (sr_accountAddress r) = toLowerCase account) (map snd rows)"

definition memory_revoke :: "string \<Rightarrow> string \<Rightarrow> session_rows \<Rightarrow> session_rows" where
  "memory_revoke i nowIso rows =
     (case map_of rows i of
        None \<Rightarrow> rows
      | Some row \<Rightarrow> upsert i (row\<lparr>sr_status := Revoked, sr_revokedAt := Some nowIso\<rparr>) rows)"

definition memory_session_ops :: "session_rows store_ops" where
  "memory_session_ops =
     \<lparr>st_save = memory_save, st_get = memory_get, st_list = memory_list, st_revoke = memory_revoke\<rparr>"

subsection \<open>Helpers\<close>

definition generateSessionId :: "bytes \<Rightarrow> string" where
  "generateSessionId buf = ''sa_'' @ bytes_hex buf"

definition sessionIdHash :: "crypto_lib \<Rightarrow> string \<Rightarrow> string" where
  "sessionIdHash lib sessionId = bytes_hex (take 16 (keccak_256 lib (TextEncoder sessionId)))"

definition buildAad :: "crypto_lib \<Rightarrow> session_meta \<Rightarrow> string \<Rightarrow> aad_context" where
  "buildAad lib meta keyVersion =
     [(''session_id_h'', sessionIdHash lib (sn_sessionId meta)),
      (''account_address'', toLowerCase (sn_accountAddress meta)),
      (''chain_id'', int_str (sn_chainId meta)),
      (''expires_at'', sn_expiresAt meta),
      (''key_version'', keyVersion)]"

definition caveat_json :: "caveat \<Rightarrow> json" where
  "caveat_json c = Obj ([(''enforcer'', Str (enforcer c)), (''terms'', Str (terms c))] @
     (case args c of None \<Rightarrow> [] | Some a \<Rightarrow> [(''args'', Str a)]))"

definition serializableDelegation :: "delegation \<Rightarrow> json" where
  "serializableDelegation d =
     Obj [(''delegator'', Str (delegator d)), (''delegate'', Str (delegate d)), (''authority'', Str (authority d)),
          (''caveats'', Arr (map caveat_json (caveats d))),
          (''salt'', Str (case salt_of d of SaltBig n \<Rightarrow> int_str n | SaltStr s \<Rightarrow> s)),
          (''signature'', Str (signature d))]"

text \<open>
  \<open>None\<close> for a value that is not a delegation at all: the code would hand it on ill typed. Only a
  holder of the data key can store one.
\<close>

definition deserializeDelegation :: "json \<Rightarrow> delegation option js" where
  "deserializeDelegation j =
     (case delegation_of SaltStr j of
        None \<Rightarrow> Inr None
      | Some d \<Rightarrow>
          (case salt_of d of
             SaltBig n \<Rightarrow> Inr (Some d)
           | SaltStr s \<Rightarrow>
               (case BigInt_text s of
                  None \<Rightarrow> Inl SyntaxError
                | Some n \<Rightarrow> Inr (Some (d\<lparr>salt_of := SaltBig n\<rparr>)))))"

text \<open>The payload text: \<open>JSON.stringify\<close> leaves an undefined member out.\<close>

definition payload_text :: "json option \<Rightarrow> json option \<Rightarrow> string" where
  "payload_text key d =
     print (Obj ((case key of None \<Rightarrow> [] | Some k \<Rightarrow> [(''sessionPrivateKey'', k)]) @
                 (case d of None \<Rightarrow> [] | Some j \<Rightarrow> [(''delegation'', j)])))"

text \<open>\<open>JSON.parse\<close> and a member of the result: reading it from \<open>null\<close> throws.\<close>

definition parse_payload :: "bytes \<Rightarrow> json js" where
  "parse_payload pt =
     (case JSON_parse (TextDecoder pt) of None \<Rightarrow> Inl SyntaxError | Some Null \<Rightarrow> Inl TypeError | Some j \<Rightarrow> Inr j)"

subsection \<open>\<open>init\<close>\<close>

text \<open>
  One attempt is given the random session id, the random key and the clock; an invalid key starts
  over with fresh randomness. \<open>None\<close> means that every attempt supplied was invalid, so that the code
  would go on. The expiry of an attempt that is given up is taken to be a date in the platform's range.
\<close>

fun init_attempt :: "platform \<Rightarrow> (bytes \<times> bytes \<times> int) list \<Rightarrow> (bytes \<times> bytes \<times> int) option" where
  "init_attempt pf [] = None"
| "init_attempt pf ((sid, priv, now) # rest) =
     (if pf_isValidSecretKey pf priv then Some (sid, priv, now) else init_attempt pf rest)"

definition ttl_ms :: "int option \<Rightarrow> int" where
  "ttl_ms ttlSeconds = (case ttlSeconds of Some t \<Rightarrow> t | None \<Rightarrow> 24 * 60 * 60) * 1000"

text \<open>The range of the platform's dates, in milliseconds: beyond it \<open>toISOString\<close> throws a \<open>RangeError\<close>.\<close>

definition date_range :: int where
  "date_range = 8640000000000000"

definition session_init ::
  "platform \<Rightarrow> 'p provider_ops \<Rightarrow> 's store_ops \<Rightarrow> int option \<Rightarrow> address \<Rightarrow> int \<Rightarrow> (bytes \<times> bytes \<times> int) list \<Rightarrow>
   bytes \<Rightarrow> int \<Rightarrow> 'p \<Rightarrow> 's \<Rightarrow> ((string \<times> address) js \<times> 'p \<times> 's) option" where
  "session_init pf kp ops ttlSeconds account chainId attempts iv createdNow p s =
     (case init_attempt pf attempts of
        None \<Rightarrow> None
      | Some (sid, priv, now) \<Rightarrow>
          if \<bar>now + ttl_ms ttlSeconds\<bar> > date_range then Some (Inl RangeError, p, s) else
          let lib = pf_lib pf;
              sessionId = generateSessionId sid;
              expiresAt = pf_toISOString pf (now + ttl_ms ttlSeconds);
              meta = \<lparr>sn_sessionId = sessionId, sn_accountAddress = account, sn_chainId = chainId, sn_expiresAt = expiresAt\<rparr>;
              payload = TextEncoder (payload_text (Some (Str (toHex priv))) None);
              aad = buildAad (kl_crypto lib) meta (kp_keyVersion kp)
          in Some (case getPublicKey lib priv of
               Inl e \<Rightarrow> (Inl e, p, s)
             | Inr pub \<Rightarrow>
                 (case kp_generateSessionDataKey kp aad p of
                    (Inl e, p1) \<Rightarrow> (Inl e, p1, s)
                  | (Inr wrap, p1) \<Rightarrow>
                      (case pf_aesEncrypt pf (plaintextDataKey wrap) iv payload (canonicalContextBytes aad) of
                         Inl e \<Rightarrow> (Inl e, p1, s)
                       | Inr ct \<Rightarrow>
                           if \<bar>createdNow\<bar> > date_range then (Inl RangeError, p1, s) else
                           let addr = publicKeyToAddress (kl_crypto lib) pub in
                           (Inr (sessionId, addr), p1,
                            st_save ops
                              \<lparr>sr_id = sessionId, sr_accountAddress = account, sr_chainId = chainId,
                               sr_sessionKeyAddress = addr, sr_status = Pending, sr_encryptedPackage = ct,
                               sr_iv = iv, sr_encryptedDataKey = encryptedDataKey wrap,
                               sr_keyVersion = dk_keyVersion wrap, sr_expiresAt = expiresAt, sr_variant = None,
                               sr_createdAt = pf_toISOString pf createdNow, sr_revokedAt = None\<rparr> s)))))"

subsection \<open>\<open>package\<close>\<close>

fun status_text :: "session_status \<Rightarrow> string" where
  "status_text Pending = ''pending''"
| "status_text Active = ''active''"
| "status_text Revoked = ''revoked''"
| "status_text Expired = ''expired''"

definition requirePending :: "'s store_ops \<Rightarrow> string \<Rightarrow> 's \<Rightarrow> session_row js" where
  "requirePending ops sessionId s =
     (case st_get ops sessionId s of
        None \<Rightarrow> Inl (Error (''SessionManager: session '' @ [CHR 0x22] @ sessionId @ [CHR 0x22] @ '' not found''))
      | Some row \<Rightarrow>
          if sr_status row \<noteq> Pending then
            Inl (Error (''SessionManager.package: session is '' @ [CHR 0x22] @ status_text (sr_status row) @ [CHR 0x22] @
              '', expected '' @ [CHR 0x22] @ ''pending'' @ [CHR 0x22]))
          else Inr row)"

definition row_meta :: "string \<Rightarrow> session_row \<Rightarrow> session_meta" where
  "row_meta sessionId row =
     \<lparr>sn_sessionId = sessionId, sn_accountAddress = sr_accountAddress row, sn_chainId = sr_chainId row,
      sn_expiresAt = sr_expiresAt row\<rparr>"

text \<open>Unwrap the data key and decrypt the row's package under the row's own context.\<close>

definition open_row ::
  "platform \<Rightarrow> 'p provider_ops \<Rightarrow> string \<Rightarrow> session_row \<Rightarrow> 'p \<Rightarrow> (bytes \<times> bytes \<times> json) js \<times> 'p" where
  "open_row pf kp sessionId row p =
     (let aad = buildAad (kl_crypto (pf_lib pf)) (row_meta sessionId row) (sr_keyVersion row);
          aadBytes = canonicalContextBytes aad
      in case kp_decryptSessionDataKey kp (sr_encryptedDataKey row) aad ''local-master'' (sr_keyVersion row) p of
           (Inl e, p1) \<Rightarrow> (Inl e, p1)
         | (Inr dk, p1) \<Rightarrow>
             (js_bind (pf_aesDecrypt pf dk (sr_iv row) (sr_encryptedPackage row) aadBytes) (\<lambda>pt.
                js_bind (parse_payload pt) (\<lambda>j. Inr (dk, aadBytes, j))), p1))"

definition package_commit ::
  "platform \<Rightarrow> 'p provider_ops \<Rightarrow> 's store_ops \<Rightarrow> string \<Rightarrow> delegation \<Rightarrow> bytes \<Rightarrow> session_row \<Rightarrow> 'p \<Rightarrow> 's \<Rightarrow>
   unit js \<times> 'p \<times> 's" where
  "package_commit pf kp ops sessionId d newIv row p s =
     (case open_row pf kp sessionId row p of
        (Inl e, p1) \<Rightarrow> (Inl e, p1, s)
      | (Inr (dk, aadBytes, j), p1) \<Rightarrow>
          (let payload = TextEncoder (payload_text (json_field j ''sessionPrivateKey'') (Some (serializableDelegation d)))
           in case pf_aesEncrypt pf dk newIv payload aadBytes of
                Inl e \<Rightarrow> (Inl e, p1, s)
              | Inr ct \<Rightarrow>
                  (Inr (), p1,
                   st_save ops (row\<lparr>sr_status := Active, sr_encryptedPackage := ct, sr_iv := newIv\<rparr>) s)))"

definition package ::
  "platform \<Rightarrow> 'p provider_ops \<Rightarrow> 's store_ops \<Rightarrow> string \<Rightarrow> delegation \<Rightarrow> bytes \<Rightarrow> 'p \<Rightarrow> 's \<Rightarrow> unit js \<times> 'p \<times> 's" where
  "package pf kp ops sessionId d newIv p s =
     (case requirePending ops sessionId s of
        Inl e \<Rightarrow> (Inl e, p, s)
      | Inr row \<Rightarrow> package_commit pf kp ops sessionId d newIv row p s)"

subsection \<open>\<open>resolve\<close> and \<open>revoke\<close>\<close>

record resolved =
  rs_meta :: session_meta
  rs_delegation :: "delegation option"
  rs_priv :: bytes
  rs_address :: address

definition resolve ::
  "platform \<Rightarrow> 'p provider_ops \<Rightarrow> 's store_ops \<Rightarrow> string \<Rightarrow> int \<Rightarrow> 'p \<Rightarrow> 's \<Rightarrow> resolved js \<times> 'p" where
  "resolve pf kp ops sessionId now p s =
     (case st_get ops sessionId s of
        None \<Rightarrow> (Inl (Error (''SessionManager.resolve: session '' @ [CHR 0x22] @ sessionId @ [CHR 0x22] @ '' not found'')), p)
      | Some row \<Rightarrow>
          if sr_status row \<noteq> Active then
            (Inl (Error (''SessionManager.resolve: session is '' @ [CHR 0x22] @ status_text (sr_status row) @ [CHR 0x22])), p)
          else if (case pf_parseDate pf (sr_expiresAt row) of Some t \<Rightarrow> t < now | None \<Rightarrow> False) then
            (Inl (Error ''SessionManager.resolve: session expired''), p)
          else case open_row pf kp sessionId row p of
            (Inl e, p1) \<Rightarrow> (Inl e, p1)
          | (Inr (_, _, j), p1) \<Rightarrow>
              (js_bind (case json_field j ''sessionPrivateKey'' of
                          Some (Str h) \<Rightarrow> viem_hexToBytes (pf_lib pf) h | _ \<Rightarrow> Inl TypeError) (\<lambda>priv.
               js_bind (getPublicKey (pf_lib pf) priv) (\<lambda>pub.
               js_bind (if json_truthy (json_field j ''delegation'')
                        then deserializeDelegation (the (json_field j ''delegation'')) else Inr None) (\<lambda>d.
               Inr \<lparr>rs_meta = row_meta sessionId row, rs_delegation = d, rs_priv = priv,
                    rs_address = publicKeyToAddress (kl_crypto (pf_lib pf)) pub\<rparr>))), p1))"

definition revoke :: "'s store_ops \<Rightarrow> string \<Rightarrow> string \<Rightarrow> 's \<Rightarrow> 's" where
  "revoke ops sessionId nowIso s = st_revoke ops sessionId nowIso s"

text \<open>The signer of a resolved session: the digest of a text message is EIP-191, a raw one is signed as it is.\<close>

definition session_signMessage :: "platform \<Rightarrow> resolved \<Rightarrow> sign_message \<Rightarrow> hex js" where
  "session_signMessage pf rs msg =
     js_bind (case msg of
         TextMessage t \<Rightarrow> Inr (eip191Digest (kl_crypto (pf_lib pf)) t)
       | RawMessage raw \<Rightarrow> viem_hexToBytes (pf_lib pf) raw) (\<lambda>digest.
     js_bind (curve_sign (pf_lib pf) digest (rs_priv rs)) (\<lambda>(r, s, recovery).
       Inr (''0x'' @ hex_pad64 r @ hex_pad64 s @
            byte_hex (word_of_int ((case recovery of None \<Rightarrow> 0 | Some n \<Rightarrow> n) + 27)))))"

subsection \<open>The key providers as instances\<close>

definition local_provider_ops :: "kms_lib \<Rightarrow> process_env \<Rightarrow> local_aes \<Rightarrow> bytes \<Rightarrow> string list provider_ops" where
  "local_provider_ops lib env p salt =
     \<lparr>kp_keyVersion = local_keyVersion,
      kp_generateSessionDataKey = generateSessionDataKey lib env p salt,
      kp_decryptSessionDataKey = decryptSessionDataKey lib env p\<rparr>"

definition gcp_provider_ops ::
  "kms_encrypt \<Rightarrow> kms_decrypt \<Rightarrow> int \<Rightarrow> cached_token js \<Rightarrow> bytes \<Rightarrow> gcp_provider provider_ops" where
  "gcp_provider_ops encrypt decrypt now fetched random32 =
     \<lparr>kp_keyVersion = gcp_keyVersion,
      kp_generateSessionDataKey = gcp_generateSessionDataKey encrypt now fetched random32,
      kp_decryptSessionDataKey = gcp_decryptSessionDataKey decrypt now fetched\<rparr>"

end
