(* ===== verification/KeyProperties.thy ===== *)
theory KeyProperties
  imports KeyAccounts
begin

section \<open>Properties of key custody\<close>

text \<open>
  The contract that the accounts rely on (a backend's signatures are canonical) as a locale with its
  interpretation on the cloud backend, and the properties of the envelope keys, the per-subject keys,
  the production guards and the spend cap.
\<close>

subsection \<open>Canonical backends\<close>

locale canonical_backend =
  fixes sign :: "bytes \<Rightarrow> sign_context option \<Rightarrow> 'w \<Rightarrow> (bytes \<times> string \<times> address) js \<times> 'w"
  assumes canonical: "fst (sign d c w) = Inr (sig, k, a) \<Longrightarrow> length d = 32 \<and> length sig = 65 \<and> unat (sig ! 64) \<in> {27, 28}"
begin

text \<open>The defensive checks of \<open>signDigestViaBackend\<close> never fire: it answers whenever the backend does.\<close>

lemma via_backend:
  assumes "bk_signA2AAction backend = sign" "viem_hexToBytes lib digest = Inr d"
  shows "(\<exists>rsv. fst (signDigestViaBackend lib backend digest w) = Inr rsv) \<longleftrightarrow> (\<exists>x. fst (sign d None w) = Inr x)"
  using assms canonical [of d None w]
  by (auto simp: signDigestViaBackend_def Let_def split: prod.splits sum.splits)

lemma via_backend_split:
  assumes "bk_signA2AAction backend = sign" "viem_hexToBytes lib digest = Inr d"
    and "fst (sign d None w) = Inr (sig, k, a)"
  shows "signDigestViaBackend lib backend digest w =
    (Inr (toHex (take 32 sig), toHex (take 32 (drop 32 sig)), unat (sig ! 64)), snd (sign d None w))"
  using assms canonical [OF assms(3)]
  by (auto simp: signDigestViaBackend_def Let_def split: prod.splits sum.splits)

end

lemma signature_bytes_shape:
  "length (signature_bytes r s v) = 65" "signature_bytes r s v ! 64 = word_of_int v"
  by (simp_all add: signature_bytes_def nth_append)

lemma gcp_sign_bytes_shape:
  "gcp_sign_bytes lib digest pub der = Inr sig \<Longrightarrow> length sig = 65 \<and> unat (sig ! 64) \<in> {27, 28}"
  by (auto simp: gcp_sign_bytes_def Let_def signature_bytes_shape dest!: findRecoveryByte_Inr)

lemma gcp_signA2AAction_shape:
  "fst (gcp_signA2AAction lib pem sign sink stamp d c sg w) = Inr (sig, k, a) \<Longrightarrow>
     length d = 32 \<and> length sig = 65 \<and> unat (sig ! 64) \<in> {27, 28}"
  by (auto simp: gcp_signA2AAction_def split: prod.splits sum.splits if_splits dest: gcp_sign_bytes_shape)

interpretation gcp: canonical_backend "bk_signA2AAction (gcp_backend lib pem sign sink stamp)"
  for lib pem sign sink stamp
  by unfold_locales (auto simp: gcp_backend_def split: prod.splits dest: gcp_signA2AAction_shape)

text \<open>The local backend is canonical when the curve library answers with a recovery bit, as documented.\<close>

lemma local_backend_canonical:
  assumes "\<And>d p r s n. curve_sign lib d p = Inr (r, s, n) \<Longrightarrow> n \<in> {None, Some 0, Some 1}"
  shows "canonical_backend (bk_signA2AAction (local_backend lib sg sink stamp))"
  using assms
  by unfold_locales
     (fastforce simp: local_backend_def signA2AAction_def signature_bytes_shape split: if_splits sum.splits prod.splits)

subsection \<open>Envelope keys\<close>

lemma assertLocal_Inr:
  "fst (assertLocalProviderAllowedInProduction env label optIn warned) = Inr u \<longleftrightarrow>
     \<not> isProductionEnvironment env \<or> env_try env optIn = Some ''true''"
  by (simp add: assertLocalProviderAllowedInProduction_def)

lemma generate_Inr:
  "fst (generateSessionDataKey lib env p salt ctx warned) = Inr k \<longleftrightarrow>
     (\<not> isProductionEnvironment env \<or> env_try env ''A2A_ALLOW_LOCAL_ENVELOPE_KEY'' = Some ''true'') \<and>
     k = \<lparr>plaintextDataKey = local_data_key lib p salt ctx, encryptedDataKey = salt,
          dk_keyId = ''local-master'', dk_keyVersion = local_keyVersion\<rparr>"
  by (auto simp: generateSessionDataKey_def assertLocalProviderAllowedInProduction_def)

lemma decrypt_Inr:
  "fst (decryptSessionDataKey lib env p wrapped ctx keyId version warned) = Inr dk \<longleftrightarrow>
     (\<not> isProductionEnvironment env \<or> env_try env ''A2A_ALLOW_LOCAL_ENVELOPE_KEY'' = Some ''true'') \<and>
     version = local_keyVersion \<and> dk = local_data_key lib p wrapped ctx"
  by (auto simp: decryptSessionDataKey_def assertLocalProviderAllowedInProduction_def)

text \<open>A context that differs in one value, for concrete runs.\<close>

definition demo_aad :: "string \<Rightarrow> aad_context" where
  "demo_aad v = [(''session_id_h'', v), (''chain_id'', ''1'')]"

definition dev_env :: process_env where
  "dev_env = Some (\<lambda>k. if k = ''NODE_ENV'' then Some ''test'' else None)"

text \<open>
  the local envelope provider: a wrapped data key is unwrapped to itself under an equal context
  (in whatever order its fields were written) and the version it was wrapped with, and, where the
  derivation does not collide on the two inputs, to a different key under a different context. The
  context is compared as the code compares it, through the canonical text; the statement is for
  contexts whose field names contain no separator, because only values are encoded.
\<close>

theorem envelope_key_bound_to_context:
  assumes "fst (generateSessionDataKey lib env p salt ctx warned) = Inr k"
    and "plain_keys ctx" "plain_keys ctx'"
    and "local_data_key lib p salt ctx = local_data_key lib p salt ctx' \<Longrightarrow> canonicalContextBytes ctx = canonicalContextBytes ctx'"
  shows "fst (decryptSessionDataKey lib env p (encryptedDataKey k) ctx' keyId (dk_keyVersion k) warned') =
           Inr (plaintextDataKey k) \<longleftrightarrow> map_of ctx' = map_of ctx"
  using assms canonicalContextBytes_inject [OF assms(3,2)]
  by (auto simp: generate_Inr decrypt_Inr local_data_key_def)

text \<open>Witness: a derivation that keeps the whole input does not collide.\<close>

definition wide_lib :: kms_lib where
  "wide_lib = demo_kms_lib\<lparr>hkdf_sha256 := (\<lambda>master salt info n. info)\<rparr>"

theorem envelope_key_bound_to_context_witness:
  "\<exists>k. fst (generateSessionDataKey wide_lib dev_env \<lparr>la_master = []\<rparr> [1] (demo_aad ''a'') []) = Inr k \<and>
     (fst (decryptSessionDataKey wide_lib dev_env \<lparr>la_master = []\<rparr> (encryptedDataKey k) (demo_aad ''b'') ''local-master''
        (dk_keyVersion k) []) = Inr (plaintextDataKey k) \<longleftrightarrow> map_of (demo_aad ''b'') = map_of (demo_aad ''a''))"
proof -
  have "\<not> isProductionEnvironment dev_env" by (simp add: isProductionEnvironment_def env_try_def dev_env_def)
  then obtain k where k: "fst (generateSessionDataKey wide_lib dev_env \<lparr>la_master = []\<rparr> [1] (demo_aad ''a'') []) = Inr k"
    using generate_Inr by blast
  have "plain_keys (demo_aad v)" for v by (simp add: plain_keys_def demo_aad_def)
  with k envelope_key_bound_to_context [OF k, of "demo_aad ''b''"] show ?thesis
    by (auto simp: wide_lib_def local_data_key_def)
qed

subsection \<open>Production guards\<close>

text \<open>
  in production, or where the environment cannot be read, no local key material is used without
  its opt-in: no session data key is generated or unwrapped, no local signer is constructed, and so no
  per-subject signer is derived. (The MAC is available in every environment, by design.)
\<close>

theorem production_refuses_local_keys:
  assumes "isProductionEnvironment env"
    and "env_try env ''A2A_ALLOW_LOCAL_ENVELOPE_KEY'' \<noteq> Some ''true''"
    and "env_try env ''A2A_ALLOW_LOCAL_MASTER_KEY'' \<noteq> Some ''true''"
  shows "fst (generateSessionDataKey lib env p salt ctx warned) \<noteq> Inr k \<and>
    fst (decryptSessionDataKey lib env p wrapped ctx keyId version warned) \<noteq> Inr dk \<and>
    fst (newLocalSecp256k1Signer lib env key warned) \<noteq> Inr sg \<and>
    fst (deriveSubjectSigner lib env opts subject warned) \<noteq> Inr sg"
proof -
  have "fst (newLocalSecp256k1Signer lib env key' warned) \<noteq> Inr sg" for key'
    using assms by (simp add: newLocalSecp256k1Signer_def assertLocalProviderAllowedInProduction_def)
  then show ?thesis using assms by (simp add: generate_Inr decrypt_Inr deriveSubjectSigner_def split: sum.splits)
qed

theorem production_refuses_local_keys_witness:
  "fst (newLocalSecp256k1Signer demo_kms_lib None (Some ''0x00'') []) \<noteq> Inr \<lparr>ls_priv = [], ls_addr = []\<rparr>"
  using production_refuses_local_keys [of None demo_kms_lib]
  by (simp add: isProductionEnvironment_def env_try_def)

text \<open>
  The factory has no implicit backend in production, but the per-subject derivation does: with no
  backend configured anywhere, in production and with the local-signer opt-in, \<open>buildSignerBackend\<close>
  throws while \<open>deriveSubjectSigner\<close> silently derives a custodian key from the local master.
\<close>

definition opt_in_env :: process_env where
  "opt_in_env = Some (\<lambda>k. if k = ''NODE_ENV'' then Some ''production''
     else if k = ''A2A_ALLOW_LOCAL_MASTER_KEY'' then Some ''true''
     else if k = ''A2A_MASTER_PRIVATE_KEY'' then Some (bytes_hex (replicate 32 1)) else None)"

definition no_opts :: build_opts where
  "no_opts = \<lparr>bo_backend = None, bo_config = (\<lambda>_. None), bo_environment = None, bo_developmentMode = None\<rparr>"

definition demo_subject :: subject_id where
  "demo_subject = \<lparr>sub_iss = ''https://accounts.google.com'', sub_sub = ''42'', sub_rotation = None\<rparr>"

lemma demo_subject_message: "\<exists>m. subjectCanonicalMessage demo_subject = Inr m"
proof -
  have "js_trim ''https://accounts.google.com'' = ''https://accounts.google.com''" "js_trim ''42'' = ''42''"
    by (rule js_trim_free; simp add: plain_char_def)+
  then show ?thesis by (simp add: subjectCanonicalMessage_def demo_subject_def)
qed

lemma with_0x_bytes_hex: "with_0x (bytes_hex bs) = ''0x'' @ bytes_hex bs"
proof -
  have "unat b div 16 < 16" for b :: byte using unat_byte_less [of b] by linarith
  then show ?thesis by (cases bs) (auto simp: with_0x_def startsWith_def bytes_hex_def byte_hex_def)
qed

lemma demo_loads:
  "viem_hexToBytes demo_kms_lib (with_0x (bytes_hex bs)) = Inr bs"
  "viem_hexToBytes demo_kms_lib (with_0x (toHex bs)) = Inr bs"
  by (simp add: with_0x_bytes_hex demo_kms_lib_def) (simp add: demo_kms_lib_def with_0x_def toHex_def startsWith_def)

theorem derive_defaults_to_local:
  "\<exists>e sg. fst (buildSignerBackend demo_kms_lib opt_in_env no_opts []) = Inl e \<and>
     fst (deriveSubjectSigner demo_kms_lib opt_in_env no_opts demo_subject []) = Inr sg"
proof -
  obtain m where m: "subjectCanonicalMessage demo_subject = Inr m" using demo_subject_message by blast
  have env: "env_try opt_in_env ''NODE_ENV'' = Some ''production''" "env_try opt_in_env ''A2A_KMS_BACKEND'' = None"
    "env_try opt_in_env ''A2A_ALLOW_LOCAL_MASTER_KEY'' = Some ''true''"
    "env_read opt_in_env ''A2A_MASTER_PRIVATE_KEY'' = Inr (Some (bytes_hex (replicate 32 1)))"
    by (simp_all add: env_try_def env_read_def opt_in_env_def)
  have "bytes_hex (replicate 32 1) \<noteq> []" by (simp add: bytes_hex_def byte_hex_def)
  then have "loadDerivationMaster demo_kms_lib opt_in_env no_opts = Inr (replicate 32 1)"
    by (simp add: loadDerivationMaster_def no_opts_def override_or_env_def env demo_loads)
  moreover obtain k where "deriveSubjectPrivateKeyHex demo_kms_lib (replicate 32 1) demo_subject = Inr (toHex (bigIntTo32Bytes k))"
    using m by (simp add: deriveSubjectPrivateKeyHex_def Let_def)
  moreover have "\<exists>sg. fst (newLocalSecp256k1Signer demo_kms_lib opt_in_env (Some (toHex (bigIntTo32Bytes k))) []) = Inr sg"
    by (simp add: newLocalSecp256k1Signer_def assertLocalProviderAllowedInProduction_def env loadPrivateKey_def
        override_or_env_def demo_loads) (simp add: toHex_def demo_kms_lib_def)
  ultimately have "\<exists>sg. fst (deriveSubjectSigner demo_kms_lib opt_in_env no_opts demo_subject []) = Inr sg"
    by (simp add: deriveSubjectSigner_def backendOf_def no_opts_def env)
  moreover have "\<exists>e. fst (buildSignerBackend demo_kms_lib opt_in_env no_opts []) = Inl e"
    by (simp add: buildSignerBackend_def backendOrEnv_def kc_inferEnvironment_def no_opts_def env)
  ultimately show ?thesis by blast
qed

subsection \<open>Per-subject keys\<close>

lemma subject_message_cong:
  "js_trim (sub_iss s) = js_trim (sub_iss s') \<Longrightarrow> js_trim (sub_sub s) = js_trim (sub_sub s') \<Longrightarrow>
     rotation_of s = rotation_of s' \<Longrightarrow> subjectCanonicalMessage s = subjectCanonicalMessage s'"
  by (simp add: subjectCanonicalMessage_def rotation_of_def)

text \<open>
  per-subject isolation. Two subjects derive over the same message only when their trimmed issuer,
  trimmed subject and rotation agree (a colon inside a field cannot forge the separators), and the
  derived key is a 32-byte big-endian integer in \<open>[1, n-1]\<close>, so it is always a valid curve key.
\<close>

theorem subject_keys_are_separate:
  assumes "subjectCanonicalMessage s = Inr m" "subjectCanonicalMessage s' = Inr m'"
    and "deriveSubjectPrivateKeyHex lib master s = Inr h"
    and "2 \<le> curve_order lib" "curve_order lib \<le> 2 ^ 256"
  shows "(m = m' \<longleftrightarrow> js_trim (sub_iss s) = js_trim (sub_iss s') \<and> js_trim (sub_sub s) = js_trim (sub_sub s') \<and>
            rotation_of s = rotation_of s') \<and>
         (\<exists>bs. h = toHex bs \<and> length bs = 32 \<and> 1 \<le> beBytesToBigInt bs \<and> beBytesToBigInt bs < curve_order lib)"
proof
  show "m = m' \<longleftrightarrow> js_trim (sub_iss s) = js_trim (sub_iss s') \<and> js_trim (sub_sub s) = js_trim (sub_sub s') \<and>
      rotation_of s = rotation_of s'"
    using subject_message_eq [OF assms(1), of s'] subject_message_cong [of s s'] assms(1,2) by fastforce
  let ?k = "\<lambda>okm. beBytesToBigInt okm mod (curve_order lib - 1) + 1"
  obtain okm where h: "h = toHex (bigIntTo32Bytes (?k okm))"
    using assms(1,3) by (auto simp: deriveSubjectPrivateKeyHex_def Let_def split: if_splits)
  have "1 \<le> ?k okm \<and> ?k okm < curve_order lib"
    using assms(4) pos_mod_sign [of "curve_order lib - 1" "beBytesToBigInt okm"]
      pos_mod_bound [of "curve_order lib - 1" "beBytesToBigInt okm"] by linarith
  then show "\<exists>bs. h = toHex bs \<and> length bs = 32 \<and> 1 \<le> beBytesToBigInt bs \<and> beBytesToBigInt bs < curve_order lib"
    using h assms(5) bigIntTo32Bytes_roundtrip [of "?k okm"] by (intro exI [of _ "bigIntTo32Bytes (?k okm)"]) simp
qed

theorem subject_keys_are_separate_witness:
  "\<exists>m h. subjectCanonicalMessage demo_subject = Inr m \<and>
     deriveSubjectPrivateKeyHex demo_kms_lib (replicate 32 1) demo_subject = Inr h \<and>
     (\<exists>bs. h = toHex bs \<and> length bs = 32 \<and> 1 \<le> beBytesToBigInt bs \<and> beBytesToBigInt bs < 1000)"
proof -
  obtain m where m: "subjectCanonicalMessage demo_subject = Inr m" using demo_subject_message by blast
  then obtain h where h: "deriveSubjectPrivateKeyHex demo_kms_lib (replicate 32 1) demo_subject = Inr h"
    by (simp add: deriveSubjectPrivateKeyHex_def Let_def)
  have "curve_order demo_kms_lib = 1000" by (simp add: demo_kms_lib_def)
  with m h subject_keys_are_separate [OF m m h] show ?thesis by simp
qed

subsection \<open>Spend cap\<close>

text \<open>
  the cap is enforced before signing. A capped account signs a transaction only when its value was
  understood and is at most the cap, and then answers what the wrapped account answers; a transaction
  over the cap never reaches the wrapped account: the error is the same and only the audit sink may
  change the world. Messages and typed data are forwarded unchanged.
\<close>

theorem spend_cap_enforced:
  assumes "createSpendCappedAccount inner cap sink stamp = Inr acc"
  shows "(fst (ac_signTransaction acc tx w) = Inr sig \<longleftrightarrow>
            (\<exists>v. readTxValue tx = Inr v \<and> v \<le> cap \<and> fst (ac_signTransaction inner tx w) = Inr sig)) \<and>
    (readTxValue tx = Inr v \<longrightarrow> cap < v \<longrightarrow>
       ac_signTransaction acc tx w =
         (Inl (SpendCapExceededError cap v (tx_to tx) (ac_address inner)),
          case sink of None \<Rightarrow> w | Some write \<Rightarrow> snd (write (stamp (cap_reject_event cap v (tx_to tx) (ac_address inner))) w))) \<and>
    ac_signMessage acc = ac_signMessage inner \<and> ac_signTypedData acc = ac_signTypedData inner \<and> 0 \<le> cap"
  using assms
  by (auto simp: createSpendCappedAccount_def emitCapReject_def write_soft_def split: if_splits sum.splits)

definition demo_account :: "(nat, unit) local_account" where
  "demo_account = \<lparr>ac_address = ''0xA'', ac_source = ''kms'', ac_signMessage = (\<lambda>m n. (Inr m, n + 1)),
     ac_signTransaction = (\<lambda>tx n. (Inr ''0xsig'', n + 1)), ac_signTypedData = (\<lambda>m n. (Inr m, n + 1))\<rparr>"

theorem spend_cap_enforced_witness:
  "\<exists>acc. createSpendCappedAccount demo_account 10 None id = Inr acc \<and>
     ac_signTransaction acc \<lparr>tx_to = None, tx_value = VText ''0x0b'', tx_rest = ()\<rparr> 0 =
       (Inl (SpendCapExceededError 10 11 None ''0xA''), 0)"
proof -
  obtain acc where acc: "createSpendCappedAccount demo_account 10 None id = Inr acc"
    by (simp add: createSpendCappedAccount_def)
  have "readTxValue \<lparr>tx_to = None, tx_value = VText ''0x0b'', tx_rest = ()\<rparr> = Inr 11"
    by (simp add: readTxValue_def bigint_of_def BigInt_text_def js_trim_free plain_char_def digits_num_def hex_val_def)
  with acc spend_cap_enforced [OF acc, of "\<lparr>tx_to = None, tx_value = VText ''0x0b'', tx_rest = ()\<rparr>" 0 _ 11]
  show ?thesis by (simp add: demo_account_def)
qed

end
