(* ===== verification/SessionRuns.thy ===== *)
theory SessionRuns
  imports SessionManager KeyProperties
begin

section \<open>Session stores and runs of the manager\<close>

text \<open>
  The contract of a session store as a locale with its interpretation on the memory store, and runs of
  the manager (whole requests, one after the other) as an inductive relation with what they preserve:
  the rows' invariant and revocation.
\<close>

subsection \<open>The store's contract\<close>

locale session_store =
  fixes ops :: "'s store_ops" and invar :: "'s \<Rightarrow> bool" and empty :: 's
  assumes get_empty: "st_get ops i empty = None"
    and get_save: "st_get ops i (st_save ops row s) = (if i = sr_id row then Some row else st_get ops i s)"
    and get_revoke: "st_get ops i (st_revoke ops j t s) =
      (if i = j then map_option (\<lambda>r. r\<lparr>sr_status := Revoked, sr_revokedAt := Some t\<rparr>) (st_get ops i s) else st_get ops i s)"
    and list_get: "invar s \<Longrightarrow> r \<in> set (st_list ops a s) \<longleftrightarrow>
      (\<exists>i. st_get ops i s = Some r \<and> toLowerCase (sr_accountAddress r) = toLowerCase a)"
    and invar_empty: "invar empty"
    and invar_save: "invar s \<Longrightarrow> invar (st_save ops row s)"
    and invar_revoke: "invar s \<Longrightarrow> invar (st_revoke ops j t s)"
begin

lemmas store_laws = get_save get_revoke

lemma package_frame:
  "package pf kp ops i d iv p s = (res, p', s') \<Longrightarrow> (\<forall>row. st_get ops i s = Some row \<longrightarrow> sr_id row = i) \<Longrightarrow> j \<noteq> i \<Longrightarrow>
     st_get ops j s' = st_get ops j s"
  by (auto simp: package_def requirePending_def package_commit_def Let_def get_save split: option.splits if_splits prod.splits sum.splits)

lemma package_result:
  assumes "package pf kp ops i d iv p s = (res, p', s')" "\<forall>row. st_get ops i s = Some row \<longrightarrow> sr_id row = i"
  shows "(\<exists>e. res = Inl e \<and> s' = s) \<or>
    (\<exists>row ct. res = Inr () \<and> st_get ops i s = Some row \<and> sr_status row = Pending \<and>
       st_get ops i s' = Some (row\<lparr>sr_status := Active, sr_encryptedPackage := ct, sr_iv := iv\<rparr>))"
  using assms
  by (fastforce simp: package_def requirePending_def package_commit_def Let_def get_save
      split: option.splits if_splits prod.splits sum.splits)

end

lemma map_of_upsert: "map_of (upsert k v ms) x = (if x = k then Some v else map_of ms x)"
  by (induction ms) auto

lemma keys_upsert: "fst ` set (upsert k v ms) = insert k (fst ` set ms)"
proof (induction ms)
  case (Cons m ms)
  then show ?case by (cases m) auto
qed simp

lemma distinct_upsert: "distinct (map fst ms) \<Longrightarrow> distinct (map fst (upsert k v ms))"
  by (induction ms) (auto simp: keys_upsert)

interpretation mem_sessions: session_store memory_session_ops "\<lambda>rows. distinct (map fst rows)" "[]"
proof (unfold_locales, goal_cases)
  case (4 s r a)
  then have "r \<in> set (map snd s) \<longleftrightarrow> (\<exists>i. map_of s i = Some r)"
    by (force simp: map_of_eq_Some_iff)
  then show ?case by (auto simp: memory_session_ops_def memory_list_def memory_get_def)
qed (auto simp: memory_session_ops_def memory_save_def memory_get_def memory_revoke_def map_of_upsert distinct_upsert
     split: option.splits)

subsection \<open>Runs of the manager\<close>

text \<open>
  Whole requests, one after the other. A session id is 16 random bytes; the run assumes that a fresh
  one is not taken.
\<close>

inductive session_run ::
  "platform \<Rightarrow> 'p provider_ops \<Rightarrow> 's store_ops \<Rightarrow> 'p \<times> 's \<Rightarrow> 'p \<times> 's \<Rightarrow> bool" for pf kp ops x where
  run_start: "session_run pf kp ops x x"
| run_init: "session_run pf kp ops x (p, s) \<Longrightarrow>
    session_init pf kp ops ttl account chainId attempts iv now p s = Some (res, p', s') \<Longrightarrow>
    (\<forall>sid priv t. init_attempt pf attempts = Some (sid, priv, t) \<longrightarrow> st_get ops (generateSessionId sid) s = None) \<Longrightarrow>
    session_run pf kp ops x (p', s')"
| run_package: "session_run pf kp ops x (p, s) \<Longrightarrow>
    package pf kp ops i d iv p s = (res', p', s') \<Longrightarrow> session_run pf kp ops x (p', s')"
| run_resolve: "session_run pf kp ops x (p, s) \<Longrightarrow>
    resolve pf kp ops i now p s = (res'', p') \<Longrightarrow> session_run pf kp ops x (p', s)"
| run_revoke: "session_run pf kp ops x (p, s) \<Longrightarrow> session_run pf kp ops x (p, revoke ops i t s)"

text \<open>What every stored row satisfies.\<close>

definition row_ok :: "string \<Rightarrow> session_row \<Rightarrow> bool" where
  "row_ok i row \<longleftrightarrow> sr_id row = i \<and> sr_status row \<noteq> Expired \<and> (sr_status row = Revoked \<longleftrightarrow> sr_revokedAt row \<noteq> None)"

definition rows_ok :: "'s store_ops \<Rightarrow> 's \<Rightarrow> bool" where
  "rows_ok ops s \<longleftrightarrow> (\<forall>i row. st_get ops i s = Some row \<longrightarrow> row_ok i row)"

definition row_revoked :: "'s store_ops \<Rightarrow> string \<Rightarrow> 's \<Rightarrow> bool" where
  "row_revoked ops i s \<longleftrightarrow> (case st_get ops i s of Some row \<Rightarrow> sr_status row = Revoked | None \<Rightarrow> False)"

lemma session_init_store:
  assumes "session_init pf kp ops ttl account chainId attempts iv now p s = Some (res, p', s')"
  shows "(\<exists>e. res = Inl e \<and> s' = s) \<or>
    (\<exists>sid priv t row. init_attempt pf attempts = Some (sid, priv, t) \<and> s' = st_save ops row s \<and>
       sr_id row = generateSessionId sid \<and> sr_status row = Pending \<and> sr_revokedAt row = None \<and>
       sr_accountAddress row = account)"
  using assms by (auto simp: session_init_def Let_def split: option.splits sum.splits prod.splits if_splits)

context session_store
begin

lemma rows_ok_empty: "rows_ok ops empty"
  by (simp add: rows_ok_def get_empty)

lemma rows_ok_init:
  assumes "session_init pf kp ops ttl account chainId attempts iv now p s = Some (res, p', s')" "rows_ok ops s"
  shows "rows_ok ops s'"
  using session_init_store [OF assms(1)] assms(2) by (auto simp: rows_ok_def row_ok_def get_save split: if_splits)

lemma rows_ok_package:
  assumes "package pf kp ops i d iv p s = (res, p', s')" "rows_ok ops s"
  shows "rows_ok ops s'"
proof -
  have id: "\<forall>row. st_get ops i s = Some row \<longrightarrow> sr_id row = i" using assms(2) by (auto simp: rows_ok_def row_ok_def)
  have "row_ok j row" if "st_get ops j s' = Some row" for j row
    using package_result [OF assms(1) id] package_frame [OF assms(1) id, of j] that assms(2)
    by (cases "j = i") (force simp: rows_ok_def row_ok_def)+
  then show ?thesis by (simp add: rows_ok_def)
qed

lemma rows_ok_revoke: "rows_ok ops s \<Longrightarrow> rows_ok ops (revoke ops i t s)"
  by (auto simp: rows_ok_def row_ok_def revoke_def get_revoke split: if_splits)

lemma rows_ok_run: "session_run pf kp ops x y \<Longrightarrow> rows_ok ops (snd x) \<Longrightarrow> rows_ok ops (snd y)"
  by (induction rule: session_run.induct) (auto intro: rows_ok_init rows_ok_package rows_ok_revoke)

text \<open>Under whole requests a revoked row stays revoked.\<close>

lemma revoked_package:
  assumes "package pf kp ops j d iv p s = (res, p', s')" "rows_ok ops s" "row_revoked ops i s"
  shows "row_revoked ops i s'"
proof -
  have id: "\<forall>row. st_get ops j s = Some row \<longrightarrow> sr_id row = j" using assms(2) by (auto simp: rows_ok_def row_ok_def)
  show ?thesis
    using package_result [OF assms(1) id] package_frame [OF assms(1) id, of i] assms(3)
    by (cases "i = j") (auto simp: row_revoked_def split: option.splits)
qed

lemma revoked_run:
  "session_run pf kp ops x y \<Longrightarrow> rows_ok ops (snd x) \<Longrightarrow> row_revoked ops i (snd x) \<Longrightarrow> row_revoked ops i (snd y)"
proof (induction rule: session_run.induct)
  case (run_init p s ttl account chainId attempts iv now res p' s')
  from session_init_store [OF run_init.hyps(2)] show ?case
    using run_init.hyps(3) run_init.IH run_init.prems by (auto simp: row_revoked_def get_save split: option.splits if_splits)
next
  case (run_package p s j d iv res p' s')
  then show ?case using revoked_package [OF run_package.hyps(2)] rows_ok_run [OF run_package.hyps(1)] by simp
next
  case (run_revoke p s j t)
  then show ?case by (auto simp: row_revoked_def revoke_def get_revoke split: option.splits)
qed auto

end

end
