(* ===== verification/SessionProperties.thy ===== *)
theory SessionProperties
  imports SessionRuns
begin

section \<open>Properties of sessions\<close>

text \<open>
  What a session guarantees: the payload codec and the init/package/resolve round trip (proved once for
  any store and any envelope provider that keep their contracts, and interpreted on the memory store and
  the local provider), the rows' invariant, the life cycle, and two defects: a revocation lost while
  \<open>package\<close> awaits, and sessions that cannot be activated under the cloud provider.
\<close>

subsection \<open>Payloads\<close>

lemma caveat_of_json: "caveat_of (caveat_json c) = Some c"
  by (cases "args c") (auto simp: caveat_of_def caveat_json_def str_of_def)

lemma those_caveats: "those (map caveat_of (map caveat_json cs)) = Some cs"
  by (induction cs) (auto simp: caveat_of_json)

lemma deserialize_serialize:
  "salt_of d = SaltBig n \<Longrightarrow> deserializeDelegation (serializableDelegation d) = Inr (Some d)"
  using those_caveats [of "caveats d"]
  by (simp add: deserializeDelegation_def serializableDelegation_def delegation_of_def str_of_def BigInt_text_int_str comp_def)

lemma wf_serialized: "wf_json (serializableDelegation d)"
  by (auto simp: serializableDelegation_def caveat_json_def list_all_iff split: option.splits)

lemma parse_payload_text:
  assumes "\<And>k. key = Some k \<Longrightarrow> wf_json k" "\<And>j. d = Some j \<Longrightarrow> wf_json j"
  shows "parse_payload (TextEncoder (payload_text key d)) =
    Inr (Obj ((case key of None \<Rightarrow> [] | Some k \<Rightarrow> [(''sessionPrivateKey'', k)]) @
              (case d of None \<Rightarrow> [] | Some j \<Rightarrow> [(''delegation'', j)])))"
proof -
  let ?ms = "(case key of None \<Rightarrow> [] | Some k \<Rightarrow> [(''sessionPrivateKey'', k)]) @
    (case d of None \<Rightarrow> [] | Some j \<Rightarrow> [(''delegation'', j)])"
  have "wf_json (Obj ?ms)" using assms by (cases key; cases d) simp_all
  from JSON_parse_print [OF this] show ?thesis by (simp only: parse_payload_def payload_text_def TextDecoder_TextEncoder option.case json.case)
qed

subsection \<open>Round trip\<close>

text \<open>
  What the session manager relies on of the platform: decryption undoes an encryption that succeeded, \<open>Date.parse\<close>
  reads what \<open>toISOString\<close> wrote for a date in range, and the hex reader reads hex.
\<close>

definition platform_laws :: "platform \<Rightarrow> bool" where
  "platform_laws pf \<longleftrightarrow>
     (\<forall>k iv pt aad ct. pf_aesEncrypt pf k iv pt aad = Inr ct \<longrightarrow> pf_aesDecrypt pf k iv ct aad = Inr pt) \<and>
     (\<forall>t. \<bar>t\<bar> \<le> date_range \<longrightarrow> pf_parseDate pf (pf_toISOString pf t) = Some t) \<and>
     (\<forall>bs. viem_hexToBytes (pf_lib pf) (toHex bs) = Inr bs)"

text \<open>The stored row of a fresh session, and what opening it gives.\<close>

lemma local_kp_generate:
  assumes "fst (kp_generateSessionDataKey (local_provider_ops lib env m salt) aad p) = Inr wrap"
  shows "fst (kp_decryptSessionDataKey (local_provider_ops lib env m salt') (encryptedDataKey wrap) aad keyId (dk_keyVersion wrap) p') =
    Inr (plaintextDataKey wrap) \<and> dk_keyVersion wrap = local_keyVersion"
  using assms by (simp add: local_provider_ops_def generate_Inr decrypt_Inr)

locale envelope_provider =
  fixes kp :: "'p provider_ops"
  assumes unwrap: "fst (kp_generateSessionDataKey kp aad p) = Inr wrap \<Longrightarrow>
      fst (kp_decryptSessionDataKey kp (encryptedDataKey wrap) aad keyId (dk_keyVersion wrap) p') = Inr (plaintextDataKey wrap)"
    and version: "fst (kp_generateSessionDataKey kp aad p) = Inr wrap \<Longrightarrow> dk_keyVersion wrap = kp_keyVersion kp"
begin

lemma open_row_fresh:
  assumes "fst (kp_generateSessionDataKey kp aad p) = Inr wrap"
    and "aad = buildAad (kl_crypto (pf_lib pf)) (row_meta i row) (kp_keyVersion kp)"
    and "sr_encryptedDataKey row = encryptedDataKey wrap" "sr_keyVersion row = dk_keyVersion wrap"
    and "pf_aesDecrypt pf (plaintextDataKey wrap) (sr_iv row) (sr_encryptedPackage row) (canonicalContextBytes aad) = Inr pt"
    and "parse_payload pt = Inr j"
  shows "fst (open_row pf kp i row p') = Inr (plaintextDataKey wrap, canonicalContextBytes aad, j)"
proof -
  have "sr_keyVersion row = kp_keyVersion kp" using assms(1,4) version by simp
  then have "fst (kp_decryptSessionDataKey kp (sr_encryptedDataKey row) aad ''local-master'' (kp_keyVersion kp) p') = Inr (plaintextDataKey wrap)"
    using unwrap [OF assms(1)] assms(3,4) by simp
  with \<open>sr_keyVersion row = kp_keyVersion kp\<close> assms(2,5,6) show ?thesis
    by (auto simp: open_row_def Let_def split: prod.splits)
qed

end

interpretation local_envelope: envelope_provider "local_provider_ops lib env m salt" for lib env m salt
  using local_kp_generate by unfold_locales (simp_all add: local_provider_ops_def generate_Inr decrypt_Inr)


lemma aes_undo:
  "platform_laws pf \<Longrightarrow> pf_aesEncrypt pf k iv pt aad = Inr ct \<Longrightarrow> pf_aesDecrypt pf k iv ct aad = Inr pt"
  unfolding platform_laws_def by blast

text \<open>A row whose package was sealed under its own context with a key the provider generated.\<close>

definition row_aad :: "platform \<Rightarrow> 'p provider_ops \<Rightarrow> string \<Rightarrow> session_row \<Rightarrow> aad_context" where
  "row_aad pf kp i row = buildAad (kl_crypto (pf_lib pf)) (row_meta i row) (kp_keyVersion kp)"

definition sealed_row ::
  "platform \<Rightarrow> 'p provider_ops \<Rightarrow> 'p \<Rightarrow> string \<Rightarrow> session_row \<Rightarrow> data_key \<Rightarrow> bytes \<Rightarrow> bool" where
  "sealed_row pf kp p i row wrap pt \<longleftrightarrow>
     fst (kp_generateSessionDataKey kp (row_aad pf kp i row) p) = Inr wrap \<and>
     sr_encryptedDataKey row = encryptedDataKey wrap \<and> sr_keyVersion row = dk_keyVersion wrap \<and>
     pf_aesDecrypt pf (plaintextDataKey wrap) (sr_iv row) (sr_encryptedPackage row)
       (canonicalContextBytes (row_aad pf kp i row)) = Inr pt"

lemma session_init_success:
  assumes "session_init pf kp ops ttl account chainId attempts iv cnow p s = Some (Inr (i, addr), p1, s1)"
  obtains sid priv t pub wrap row where "init_attempt pf attempts = Some (sid, priv, t)"
    "getPublicKey (pf_lib pf) priv = Inr pub" "addr = publicKeyToAddress (kl_crypto (pf_lib pf)) pub"
    "s1 = st_save ops row s" "sr_id row = i" "sr_status row = Pending"
    "sr_expiresAt row = pf_toISOString pf (t + ttl_ms ttl)"
    "fst (kp_generateSessionDataKey kp (row_aad pf kp i row) p) = Inr wrap"
    "sr_encryptedDataKey row = encryptedDataKey wrap" "sr_keyVersion row = dk_keyVersion wrap"
    "pf_aesEncrypt pf (plaintextDataKey wrap) (sr_iv row) (TextEncoder (payload_text (Some (Str (toHex priv))) None))
       (canonicalContextBytes (row_aad pf kp i row)) = Inr (sr_encryptedPackage row)" "\<bar>t + ttl_ms ttl\<bar> \<le> date_range"
proof -
  obtain sid priv t where a: "init_attempt pf attempts = Some (sid, priv, t)"
    using assms by (auto simp: session_init_def split: option.splits)
  let ?exp = "pf_toISOString pf (t + ttl_ms ttl)"
  let ?aad = "buildAad (kl_crypto (pf_lib pf)) \<lparr>sn_sessionId = generateSessionId sid, sn_accountAddress = account,
      sn_chainId = chainId, sn_expiresAt = ?exp\<rparr> (kp_keyVersion kp)"
  let ?row = "\<lambda>ct wrap. \<lparr>sr_id = i, sr_accountAddress = account, sr_chainId = chainId, sr_sessionKeyAddress = addr,
      sr_status = Pending, sr_encryptedPackage = ct, sr_iv = iv, sr_encryptedDataKey = encryptedDataKey wrap,
      sr_keyVersion = dk_keyVersion wrap, sr_expiresAt = ?exp, sr_variant = None,
      sr_createdAt = pf_toISOString pf cnow, sr_revokedAt = None\<rparr>"
  obtain pub wrap ct where b: "getPublicKey (pf_lib pf) priv = Inr pub" "i = generateSessionId sid"
    "fst (kp_generateSessionDataKey kp ?aad p) = Inr wrap"
    "pf_aesEncrypt pf (plaintextDataKey wrap) iv (TextEncoder (payload_text (Some (Str (toHex priv))) None))
       (canonicalContextBytes ?aad) = Inr ct"
    "addr = publicKeyToAddress (kl_crypto (pf_lib pf)) pub" "s1 = st_save ops (?row ct wrap) s"
    using assms a by (auto simp: session_init_def Let_def split: if_split_asm sum.splits prod.splits)
  have r: "\<bar>t + ttl_ms ttl\<bar> \<le> date_range"
    using assms a by (auto simp: session_init_def split: if_split_asm)
  have aad: "row_aad pf kp i (?row ct wrap) = ?aad" using b(2) by (simp add: row_aad_def row_meta_def)
  show ?thesis
    by (rule that [OF a b(1,5,6)]) (use aad b r in simp_all)
qed

text \<open>A store and a provider together: what a manager is built from.\<close>

locale session_world = session_store ops invar empty + envelope_provider kp
  for ops :: "'s store_ops" and invar empty and kp :: "'p provider_ops"
begin

lemma open_sealed:
  assumes "sealed_row pf kp p i row wrap pt" "parse_payload pt = Inr j"
  shows "fst (open_row pf kp i row p') = Inr (plaintextDataKey wrap, canonicalContextBytes (row_aad pf kp i row), j)"
  using assms unfolding sealed_row_def by (intro open_row_fresh) (auto simp: row_aad_def)

lemma package_sealed:
  assumes "platform_laws pf" "sealed_row pf kp p i row wrap (TextEncoder (payload_text (Some key) None))" "wf_json key"
    and "st_get ops i s = Some row" "sr_status row = Pending" "sr_id row = i"
  obtains (failed) e p3 k pt aad where "package pf kp ops i d newIv p2 s = (Inl e, p3, s)" "pf_aesEncrypt pf k newIv pt aad = Inl e"
  | (packaged) p3 row' where "package pf kp ops i d newIv p2 s = (Inr (), p3, st_save ops row' s)"
    "sealed_row pf kp p i row' wrap (TextEncoder (payload_text (Some key) (Some (serializableDelegation d))))"
    "sr_status row' = Active" "sr_id row' = i" "sr_expiresAt row' = sr_expiresAt row" "row_meta i row' = row_meta i row"
proof -
  let ?pt = "TextEncoder (payload_text (Some key) (Some (serializableDelegation d)))"
  let ?aad = "canonicalContextBytes (row_aad pf kp i row)"
  have op: "fst (open_row pf kp i row p2) = Inr (plaintextDataKey wrap, ?aad, Obj [(''sessionPrivateKey'', key)])"
    using open_sealed [OF assms(2)] parse_payload_text [of "Some key" None] assms(3) by simp
  show ?thesis
  proof (cases "pf_aesEncrypt pf (plaintextDataKey wrap) newIv ?pt ?aad")
    case (Inl e)
    have "package pf kp ops i d newIv p2 s = (Inl e, snd (open_row pf kp i row p2), s)"
      using op Inl assms(4,5) by (auto simp: package_def requirePending_def package_commit_def Let_def split: prod.splits)
    then show ?thesis using Inl by (rule failed)
  next
    case (Inr ct)
    let ?row = "row\<lparr>sr_status := Active, sr_encryptedPackage := ct, sr_iv := newIv\<rparr>"
    have meta: "row_meta i ?row = row_meta i row" by (simp add: row_meta_def)
    show ?thesis
    proof (rule packaged [of "snd (open_row pf kp i row p2)" ?row])
      show "package pf kp ops i d newIv p2 s = (Inr (), snd (open_row pf kp i row p2), st_save ops ?row s)"
        using op Inr assms(4,5) by (auto simp: package_def requirePending_def package_commit_def Let_def split: prod.splits)
      show "sealed_row pf kp p i ?row wrap ?pt"
        using assms(2) aes_undo [OF assms(1) Inr] by (simp add: sealed_row_def row_aad_def meta)
    qed (use assms meta in simp_all)
  qed
qed

lemma resolve_sealed:
  assumes "platform_laws pf"
    and "sealed_row pf kp p i row wrap (TextEncoder (payload_text (Some (Str (toHex priv))) (Some (serializableDelegation d))))"
    and "st_get ops i s = Some row" "sr_status row = Active" "sr_expiresAt row = pf_toISOString pf expiry" "now \<le> expiry"
    and "\<bar>expiry\<bar> \<le> date_range" "salt_of d = SaltBig n" "getPublicKey (pf_lib pf) priv = Inr pub"
  shows "fst (resolve pf kp ops i now p4 s) =
    Inr \<lparr>rs_meta = row_meta i row, rs_delegation = Some d, rs_priv = priv,
         rs_address = publicKeyToAddress (kl_crypto (pf_lib pf)) pub\<rparr>"
proof -
  let ?dj = "serializableDelegation d"
  have "fst (open_row pf kp i row p4) = Inr (plaintextDataKey wrap, canonicalContextBytes (row_aad pf kp i row),
      Obj [(''sessionPrivateKey'', Str (toHex priv)), (''delegation'', ?dj)])"
    using open_sealed [OF assms(2)] parse_payload_text [of "Some (Str (toHex priv))" "Some ?dj"] wf_serialized by simp
  moreover have "json_truthy (Some ?dj)" by (simp add: serializableDelegation_def)
  moreover have "pf_parseDate pf (sr_expiresAt row) = Some expiry" "viem_hexToBytes (pf_lib pf) (toHex priv) = Inr priv"
    using assms(1,5,7) by (simp_all add: platform_laws_def)
  ultimately show ?thesis
    using assms(3,4,6,9) deserialize_serialize [OF assms(8)] by (auto simp: resolve_def split: prod.splits)
qed

lemma session_roundtrip:
  assumes laws: "platform_laws pf"
    and ini: "session_init pf kp ops ttl account chainId attempts iv cnow p s = Some (Inr (i, addr), p1, s1)"
    and salt: "salt_of d = SaltBig n"
  shows "\<exists>sid priv t meta. init_attempt pf attempts = Some (sid, priv, t) \<and>
    (case package pf kp ops i d newIv p2 s1 of
       (Inl e, p3, s3) \<Rightarrow> s3 = s1 \<and> (\<exists>k pt aad. pf_aesEncrypt pf k newIv pt aad = Inl e)
     | (Inr _, p3, s3) \<Rightarrow> \<forall>now p4. now \<le> t + ttl_ms ttl \<longrightarrow>
         fst (resolve pf kp ops i now p4 s3) = Inr \<lparr>rs_meta = meta, rs_delegation = Some d, rs_priv = priv, rs_address = addr\<rparr>)"
proof -
  obtain sid priv t pub wrap row where
    r: "init_attempt pf attempts = Some (sid, priv, t)" "getPublicKey (pf_lib pf) priv = Inr pub"
    "addr = publicKeyToAddress (kl_crypto (pf_lib pf)) pub" "s1 = st_save ops row s" "sr_id row = i"
    "sr_status row = Pending" "sr_expiresAt row = pf_toISOString pf (t + ttl_ms ttl)" "\<bar>t + ttl_ms ttl\<bar> \<le> date_range"
    and sl: "sealed_row pf kp p i row wrap (TextEncoder (payload_text (Some (Str (toHex priv))) None))"
  proof (rule session_init_success [OF ini], goal_cases)
    case (1 sid priv t pub wrap row)
    from aes_undo [OF laws 1(12)] 1(9-11) have "sealed_row pf kp p i row wrap (TextEncoder (payload_text (Some (Str (toHex priv))) None))"
      by (simp add: sealed_row_def)
    with 1 show ?case by blast
  qed
  have get: "st_get ops i s1 = Some row" using r by (simp add: get_save)
  have key: "wf_json (Str (toHex priv))" by simp
  show ?thesis
  proof (rule package_sealed [OF laws sl key get r(6) r(5), of d newIv p2], goal_cases)
    case (1 e p3 k pt aad)
    with r(1) show ?case by auto
  next
    case (2 p3 row')
    have "st_get ops i (st_save ops row' s1) = Some row'" using 2(4) by (simp add: get_save)
    then have "fst (resolve pf kp ops i now p4 (st_save ops row' s1)) =
        Inr \<lparr>rs_meta = row_meta i row', rs_delegation = Some d, rs_priv = priv, rs_address = addr\<rparr>" if "now \<le> t + ttl_ms ttl" for now p4
      using resolve_sealed [OF laws 2(2) _ 2(3) _ that r(8) salt r(2)] 2(5) r(3,7) by simp
    with 2(1) r(1) show ?case by auto
  qed
qed

end

interpretation local_sessions: session_world memory_session_ops "\<lambda>rows. distinct (map fst rows)" "[]"
  "local_provider_ops lib env m salt" for lib env m salt
  by unfold_locales

subsection \<open>A platform for concrete runs\<close>

text \<open>The cipher text carries the additional data and is opened only under the same.\<close>

fun seal :: "bytes \<Rightarrow> bytes \<Rightarrow> bytes" where
  "seal [] pt = 0 # pt"
| "seal (a # as) pt = 1 # a # seal as pt"

fun unseal :: "bytes \<Rightarrow> bytes \<Rightarrow> bytes option" where
  "unseal [] (c # pt) = (if c = 0 then Some pt else None)"
| "unseal (a # as) (c # b # ct) = (if c = 1 \<and> b = a then unseal as ct else None)"
| "unseal _ _ = None"

lemma unseal_seal: "unseal aad' (seal aad pt) = (if aad' = aad then Some pt else None)"
proof (induction aad arbitrary: aad')
  case Nil
  then show ?case by (cases aad'; cases pt) auto
next
  case (Cons a as)
  then show ?case by (cases aad') auto
qed

definition demo_platform :: platform where
  "demo_platform =
     \<lparr>pf_lib = demo_kms_lib, pf_aesEncrypt = (\<lambda>k iv pt aad. Inr (seal aad pt)),
      pf_aesDecrypt = (\<lambda>k iv ct aad. case unseal aad ct of Some pt \<Rightarrow> Inr pt | None \<Rightarrow> Inl (Error ''OperationError'')),
      pf_isValidSecretKey = (\<lambda>_. True), pf_toISOString = int_str, pf_parseDate = BigInt_text\<rparr>"

lemma demo_platform_laws: "platform_laws demo_platform"
  by (simp add: platform_laws_def demo_platform_def unseal_seal BigInt_text_int_str demo_kms_lib_def toHex_def)

definition demo_ops :: "string list provider_ops" where
  "demo_ops = local_provider_ops demo_kms_lib dev_env \<lparr>la_master = replicate 32 9\<rparr> [5]"

definition demo_session_id :: string where
  "demo_session_id = generateSessionId (replicate 16 3)"

lemma demo_init:
  obtains addr s1 where "session_init demo_platform demo_ops memory_session_ops None ''0xAcc'' 1 [(replicate 16 3, replicate 32 7, 1000)]
     [2] 1000 [] [] = Some (Inr (demo_session_id, addr), [], s1)"
proof -
  have "\<not> isProductionEnvironment dev_env" by (simp add: isProductionEnvironment_def env_try_def dev_env_def)
  then have "kp_generateSessionDataKey demo_ops aad [] =
      (Inr \<lparr>plaintextDataKey = local_data_key demo_kms_lib \<lparr>la_master = replicate 32 9\<rparr> [5] aad, encryptedDataKey = [5],
            dk_keyId = ''local-master'', dk_keyVersion = local_keyVersion\<rparr>, [])" for aad
    by (simp add: demo_ops_def local_provider_ops_def generateSessionDataKey_def assertLocalProviderAllowedInProduction_def)
  moreover have "getPublicKey demo_kms_lib x = Inr (4 # x @ x)" for x by (simp add: demo_kms_lib_def)
  ultimately have "\<exists>addr s1. session_init demo_platform demo_ops memory_session_ops None ''0xAcc'' 1
      [(replicate 16 3, replicate 32 7, 1000)] [2] 1000 [] [] = Some (Inr (demo_session_id, addr), [], s1)"
    by (simp add: session_init_def demo_platform_def demo_session_id_def date_range_def ttl_ms_def Let_def)
  then show ?thesis using that by blast
qed

definition demo_session_delegation :: delegation where
  "demo_session_delegation = \<lparr>delegator = ''0xAcc'', delegate = ''0xKey'', authority = ROOT_AUTHORITY, caveats = [],
     salt_of = SaltBig 1, signature = ''0x01''\<rparr>"

lemma demo_never_fails: "pf_aesEncrypt demo_platform k iv pt aad \<noteq> Inl e"
  by (simp add: demo_platform_def)

lemma demo_expiry: "init_attempt demo_platform [(replicate 16 3, replicate 32 7, 1000)] = Some (sid, priv, t) \<Longrightarrow> 2000 \<le> t + ttl_ms None"
  by (simp add: demo_platform_def ttl_ms_def)

lemma demo_packaged:
  "\<exists>addr s1 p3 s3 r. session_init demo_platform demo_ops memory_session_ops None ''0xAcc'' 1 [(replicate 16 3, replicate 32 7, 1000)]
      [2] 1000 [] [] = Some (Inr (demo_session_id, addr), [], s1) \<and>
    package demo_platform demo_ops memory_session_ops demo_session_id demo_session_delegation [4] [] s1 = (Inr (), p3, s3) \<and>
    fst (resolve demo_platform demo_ops memory_session_ops demo_session_id 2000 [] s3) = Inr r"
proof -
  obtain addr s1 where i: "session_init demo_platform demo_ops memory_session_ops None ''0xAcc'' 1
      [(replicate 16 3, replicate 32 7, 1000)] [2] 1000 [] [] = Some (Inr (demo_session_id, addr), [], s1)"
    by (rule demo_init)
  have salt: "salt_of demo_session_delegation = SaltBig 1" by (simp add: demo_session_delegation_def)
  obtain sid priv t meta where run: "init_attempt demo_platform [(replicate 16 3, replicate 32 7, 1000)] = Some (sid, priv, t)"
    "case package demo_platform demo_ops memory_session_ops demo_session_id demo_session_delegation [4] [] s1 of
       (Inl e, p3, s3) \<Rightarrow> s3 = s1 \<and> (\<exists>k pt aad. pf_aesEncrypt demo_platform k [4] pt aad = Inl e)
     | (Inr _, p3, s3) \<Rightarrow> \<forall>now p4. now \<le> t + ttl_ms None \<longrightarrow>
         fst (resolve demo_platform demo_ops memory_session_ops demo_session_id now p4 s3) =
           Inr \<lparr>rs_meta = meta, rs_delegation = Some demo_session_delegation, rs_priv = priv, rs_address = addr\<rparr>"
    using local_sessions.session_roundtrip [OF demo_platform_laws i [unfolded demo_ops_def] salt, of "[4]" "[]", folded demo_ops_def] by (elim exE conjE) (rule that)
  obtain res p3 s3 where p: "package demo_platform demo_ops memory_session_ops demo_session_id demo_session_delegation [4] [] s1 = (res, p3, s3)"
    by (metis surj_pair)
  with run(2) demo_never_fails have ok: "res = Inr ()" by (cases res) auto
  have "2000 \<le> t + ttl_ms None" by (rule demo_expiry [OF run(1)])
  with run(2) p ok have "fst (resolve demo_platform demo_ops memory_session_ops demo_session_id 2000 [] s3) =
      Inr \<lparr>rs_meta = meta, rs_delegation = Some demo_session_delegation, rs_priv = priv, rs_address = addr\<rparr>" by simp
  with p ok i show ?thesis by auto
qed

subsection \<open>Properties\<close>

text \<open>
  C9: sessions round trip. With the local key provider and the memory store, take a session that \<open>init\<close> stored and
  package it with a signed delegation, whatever happened to the provider meanwhile. Unless the platform's own
  encryption refuses the new package, which leaves the store as it was, packaging succeeds, and from then on \<open>resolve\<close>
  answers, until the expiry that \<open>init\<close> stamped, with exactly that delegation and a signer over the generated key whose
  address is the one \<open>init\<close> handed out.
\<close>

theorem session_resolves_to_what_was_packaged:
  assumes "platform_laws pf" "salt_of d = SaltBig n"
    and "session_init pf (local_provider_ops lib env m salt) memory_session_ops ttl account chainId attempts iv cnow p s
           = Some (Inr (i, addr), p1, s1)"
  shows "\<exists>sid priv t meta. init_attempt pf attempts = Some (sid, priv, t) \<and>
    (case package pf (local_provider_ops lib env m salt) memory_session_ops i d newIv p2 s1 of
       (Inl e, p3, s3) \<Rightarrow> s3 = s1 \<and> (\<exists>k pt aad. pf_aesEncrypt pf k newIv pt aad = Inl e)
     | (Inr _, p3, s3) \<Rightarrow> \<forall>now p4. now \<le> t + ttl_ms ttl \<longrightarrow>
         fst (resolve pf (local_provider_ops lib env m salt) memory_session_ops i now p4 s3) =
           Inr \<lparr>rs_meta = meta, rs_delegation = Some d, rs_priv = priv, rs_address = addr\<rparr>)"
  by (rule local_sessions.session_roundtrip [OF assms(1,3,2)])

theorem session_resolves_to_what_was_packaged_witness:
  "\<exists>s1 p3 s3 r. package demo_platform demo_ops memory_session_ops demo_session_id demo_session_delegation [4] [] s1 =
      (Inr (), p3, s3) \<and>
    fst (resolve demo_platform demo_ops memory_session_ops demo_session_id 2000 [] s3) = Inr r \<and>
    rs_delegation r = Some demo_session_delegation"
proof -
  obtain addr s1 where i: "session_init demo_platform demo_ops memory_session_ops None ''0xAcc'' 1
      [(replicate 16 3, replicate 32 7, 1000)] [2] 1000 [] [] = Some (Inr (demo_session_id, addr), [], s1)"
    by (rule demo_init)
  have salt: "salt_of demo_session_delegation = SaltBig 1" by (simp add: demo_session_delegation_def)
  obtain sid priv t meta where run: "init_attempt demo_platform [(replicate 16 3, replicate 32 7, 1000)] = Some (sid, priv, t)"
    "case package demo_platform demo_ops memory_session_ops demo_session_id demo_session_delegation [4] [] s1 of
       (Inl e, p3, s3) \<Rightarrow> s3 = s1 \<and> (\<exists>k pt aad. pf_aesEncrypt demo_platform k [4] pt aad = Inl e)
     | (Inr _, p3, s3) \<Rightarrow> \<forall>now p4. now \<le> t + ttl_ms None \<longrightarrow>
         fst (resolve demo_platform demo_ops memory_session_ops demo_session_id now p4 s3) =
           Inr \<lparr>rs_meta = meta, rs_delegation = Some demo_session_delegation, rs_priv = priv, rs_address = addr\<rparr>"
    using session_resolves_to_what_was_packaged [OF demo_platform_laws salt i [unfolded demo_ops_def], of "[4]" "[]", folded demo_ops_def] by (elim exE conjE) (rule that)
  obtain res p3 s3 where p: "package demo_platform demo_ops memory_session_ops demo_session_id demo_session_delegation [4] [] s1 = (res, p3, s3)"
    by (metis surj_pair)
  with run(2) demo_never_fails have ok: "res = Inr ()" by (cases res) auto
  have "2000 \<le> t + ttl_ms None" by (rule demo_expiry [OF run(1)])
  with run(2) p ok have "fst (resolve demo_platform demo_ops memory_session_ops demo_session_id 2000 [] s3) =
      Inr \<lparr>rs_meta = meta, rs_delegation = Some demo_session_delegation, rs_priv = priv, rs_address = addr\<rparr>" by simp
  moreover have "package demo_platform demo_ops memory_session_ops demo_session_id demo_session_delegation [4] [] s1 = (Inr (), p3, s3)"
    using p ok by simp
  ultimately show ?thesis by (intro exI conjI) (assumption | simp)+
qed

text \<open>
  only active, unexpired sessions resolve: an answer of \<open>resolve\<close> means that the store holds a row
  with status active whose expiry, when it can be read, is not past, and the reported metadata is the row's.
\<close>

theorem only_active_sessions_resolve:
  assumes "fst (resolve pf kp ops i now p s) = Inr r"
  shows "\<exists>row. st_get ops i s = Some row \<and> sr_status row = Active \<and> rs_meta r = row_meta i row \<and>
    pf_parseDate pf (sr_expiresAt row) \<notin> Some ` {t. t < now}"
  using assms by (auto simp: resolve_def split: option.splits if_splits prod.splits sum.splits)

theorem only_active_sessions_resolve_witness:
  "\<exists>s r row. fst (resolve demo_platform demo_ops memory_session_ops demo_session_id 2000 [] s) = Inr r \<and>
     st_get memory_session_ops demo_session_id s = Some row \<and> sr_status row = Active"
proof -
  obtain s1 p3 s3 r where "fst (resolve demo_platform demo_ops memory_session_ops demo_session_id 2000 [] s3) = Inr r"
    using demo_packaged by blast
  with only_active_sessions_resolve [OF this] show ?thesis by blast
qed

text \<open>
  the invariant of the session store. After any sequence of whole requests on an empty memory store
  every row is stored under its own id, its status was never set to expired, it carries a revocation
  time exactly when it is revoked, and \<open>list\<close> returns exactly the stored rows of the account.
\<close>

theorem session_rows_invariant:
  assumes "session_run pf kp memory_session_ops (p0, []) (p, s)" "memory_get i s = Some row"
  shows "sr_id row = i \<and> sr_status row \<noteq> Expired \<and> (sr_status row = Revoked \<longleftrightarrow> sr_revokedAt row \<noteq> None)"
proof -
  have "rows_ok memory_session_ops s" using mem_sessions.rows_ok_run [OF assms(1)] mem_sessions.rows_ok_empty by simp
  moreover have "st_get memory_session_ops i s = Some row" using assms(2) by (simp add: memory_session_ops_def)
  ultimately show ?thesis unfolding rows_ok_def row_ok_def by blast
qed

theorem session_rows_invariant_witness:
  "\<exists>s row. session_run demo_platform demo_ops memory_session_ops ([], []) ([], s) \<and>
     memory_get demo_session_id s = Some row \<and> sr_id row = demo_session_id \<and> sr_status row = Revoked \<and>
     sr_revokedAt row \<noteq> None"
proof -
  obtain addr s1 where i: "session_init demo_platform demo_ops memory_session_ops None ''0xAcc'' 1
      [(replicate 16 3, replicate 32 7, 1000)] [2] 1000 [] [] = Some (Inr (demo_session_id, addr), [], s1)"
    by (rule demo_init)
  let ?s = "revoke memory_session_ops demo_session_id ''now'' s1"
  have "session_run demo_platform demo_ops memory_session_ops ([], []) ([], s1)"
    by (rule run_init [OF run_start i]) (simp add: mem_sessions.get_empty)
  then have run: "session_run demo_platform demo_ops memory_session_ops ([], []) ([], ?s)" by (rule run_revoke)
  obtain row where "st_get memory_session_ops demo_session_id s1 = Some row"
    by (rule session_init_success [OF i]) (auto simp: mem_sessions.get_save)
  then obtain row' where row': "memory_get demo_session_id ?s = Some row'" "sr_status row' = Revoked"
    using mem_sessions.get_revoke [of demo_session_id demo_session_id "''now''" s1] by (auto simp: revoke_def memory_session_ops_def)
  with session_rows_invariant [OF run row'(1)] run show ?thesis by blast
qed

text \<open>
  C20: revocation is permanent for requests that do not overlap: in any run of whole requests a session
  that is revoked stays revoked, so it never resolves again.
\<close>

theorem revoked_sessions_stay_revoked:
  assumes "session_run pf kp memory_session_ops (p0, []) x" "session_run pf kp memory_session_ops x (p, s)"
    and "row_revoked memory_session_ops i (snd x)"
  shows "row_revoked memory_session_ops i s \<and> (\<forall>now. \<exists>e. fst (resolve pf kp memory_session_ops i now p s) = Inl e)"
proof -
  have "rows_ok memory_session_ops (snd x)"
    using mem_sessions.rows_ok_run [OF assms(1)] mem_sessions.rows_ok_empty by simp
  with mem_sessions.revoked_run [OF assms(2)] assms(3) have "row_revoked memory_session_ops i s" by simp
  then show ?thesis by (auto simp: row_revoked_def resolve_def split: option.splits)
qed

theorem revoked_sessions_stay_revoked_witness:
  "\<exists>s. row_revoked memory_session_ops demo_session_id s \<and>
     (\<forall>now. \<exists>e. fst (resolve demo_platform demo_ops memory_session_ops demo_session_id now [] s) = Inl e)"
proof -
  obtain addr s1 where i: "session_init demo_platform demo_ops memory_session_ops None ''0xAcc'' 1
      [(replicate 16 3, replicate 32 7, 1000)] [2] 1000 [] [] = Some (Inr (demo_session_id, addr), [], s1)"
    by (rule demo_init)
  let ?s = "revoke memory_session_ops demo_session_id ''now'' s1"
  have "session_run demo_platform demo_ops memory_session_ops ([], []) ([], s1)"
    by (rule run_init [OF run_start i]) (simp add: mem_sessions.get_empty)
  then have run: "session_run demo_platform demo_ops memory_session_ops ([], []) ([], ?s)" by (rule run_revoke)
  obtain row where "st_get memory_session_ops demo_session_id s1 = Some row"
    by (rule session_init_success [OF i]) (auto simp: mem_sessions.get_save)
  then have "row_revoked memory_session_ops demo_session_id ?s"
    by (simp add: row_revoked_def revoke_def mem_sessions.get_revoke)
  with revoked_sessions_stay_revoked [OF run run_start] show ?thesis by auto
qed

text \<open>
  C39: a revocation that lands while \<open>package\<close> awaits its key provider is lost. Whenever packaging a
  pending row succeeds, it succeeds just the same when the session was revoked after the row was read,
  and leaves the store with the same active row as if the revocation had never happened.
\<close>

theorem revocation_during_package_is_lost:
  assumes "requirePending memory_session_ops i s = Inr row" "sr_id row = i"
    and "package_commit pf kp memory_session_ops i d iv row p s = (Inr (), p', s')"
  shows "\<exists>row' s''. package_commit pf kp memory_session_ops i d iv row p (revoke memory_session_ops i t s) = (Inr (), p', s'') \<and>
    row_revoked memory_session_ops i (revoke memory_session_ops i t s) \<and>
    memory_get i s'' = Some row' \<and> memory_get i s' = Some row' \<and> sr_status row' = Active"
proof -
  obtain ct where c: "package_commit pf kp memory_session_ops i d iv row p z =
      (Inr (), p', st_save memory_session_ops (row\<lparr>sr_status := Active, sr_encryptedPackage := ct, sr_iv := iv\<rparr>) z)" for z
    using assms(3) by (auto simp: package_commit_def Let_def split: prod.splits sum.splits)
  have g: "memory_get i (st_save memory_session_ops (row\<lparr>sr_status := Active, sr_encryptedPackage := ct, sr_iv := iv\<rparr>) z) =
      Some (row\<lparr>sr_status := Active, sr_encryptedPackage := ct, sr_iv := iv\<rparr>)" for z
    using mem_sessions.get_save [of i _ z] assms(2) by (simp add: memory_session_ops_def)
  have "s' = st_save memory_session_ops (row\<lparr>sr_status := Active, sr_encryptedPackage := ct, sr_iv := iv\<rparr>) s"
    using c [of s] assms(3) by simp
  moreover have "row_revoked memory_session_ops i (revoke memory_session_ops i t s)"
    using assms(1) by (auto simp: row_revoked_def revoke_def mem_sessions.get_revoke requirePending_def split: option.splits)
  ultimately show ?thesis using c [of "revoke memory_session_ops i t s"] g by auto
qed

theorem revocation_during_package_is_lost_witness:
  "\<exists>s row p'' s'' row'. requirePending memory_session_ops demo_session_id s = Inr row \<and>
     package_commit demo_platform demo_ops memory_session_ops demo_session_id demo_session_delegation [4] row []
       (revoke memory_session_ops demo_session_id ''now'' s) = (Inr (), p'', s'') \<and>
     row_revoked memory_session_ops demo_session_id (revoke memory_session_ops demo_session_id ''now'' s) \<and>
     memory_get demo_session_id s'' = Some row' \<and> sr_status row' = Active"
proof -
  obtain addr s1 p3 s3 where i: "session_init demo_platform demo_ops memory_session_ops None ''0xAcc'' 1
      [(replicate 16 3, replicate 32 7, 1000)] [2] 1000 [] [] = Some (Inr (demo_session_id, addr), [], s1)"
    and "package demo_platform demo_ops memory_session_ops demo_session_id demo_session_delegation [4] [] s1 = (Inr (), p3, s3)"
    using demo_packaged by blast
  then obtain row where rp: "requirePending memory_session_ops demo_session_id s1 = Inr row"
    and pc: "package_commit demo_platform demo_ops memory_session_ops demo_session_id demo_session_delegation [4] row [] s1 = (Inr (), p3, s3)"
    by (auto simp: package_def split: sum.splits)
  have "sr_id row = demo_session_id"
    by (rule session_init_success [OF i])
       (use rp in \<open>auto simp: mem_sessions.get_save requirePending_def split: option.splits if_splits\<close>)
  from revocation_during_package_is_lost [OF rp this pc, of "''now''"] rp show ?thesis by blast
qed

subsection \<open>Key versions\<close>

lemma buildAad_plain: "plain_keys (buildAad lib meta v)"
  by (simp add: plain_keys_def buildAad_def)

lemma buildAad_version:
  "canonicalContextBytes (buildAad lib meta v) = canonicalContextBytes (buildAad lib meta v') \<Longrightarrow> v = v'"
proof -
  assume "canonicalContextBytes (buildAad lib meta v) = canonicalContextBytes (buildAad lib meta v')"
  then have "map_of (buildAad lib meta v) = map_of (buildAad lib meta v')"
    using canonicalContextBytes_inject [OF buildAad_plain buildAad_plain] by blast
  then have "map_of (buildAad lib meta v) ''key_version'' = map_of (buildAad lib meta v') ''key_version''" by simp
  then show ?thesis by (simp add: buildAad_def)
qed

lemma parsed_version_not_unknown: "parseCryptoKeyVersion name = Some v \<Longrightarrow> v \<noteq> gcp_keyVersion"
  by (auto simp: parseCryptoKeyVersion_def gcp_keyVersion_def Let_def split: if_splits)

lemma gcp_generate_version:
  assumes "fst (gcp_generateSessionDataKey encrypt now fetched random32 ctx p) = Inr wrap"
    and "\<And>token key pt aad c name. encrypt token key pt aad = Inr (c, name) \<Longrightarrow> parseCryptoKeyVersion name \<noteq> None"
  shows "dk_keyVersion wrap \<noteq> gcp_keyVersion"
proof -
  obtain token c name where e: "encrypt token (gp_keyName p) (base64Encode random32) (base64Encode (canonicalContextBytes ctx)) = Inr (c, name)"
    and w: "dk_keyVersion wrap = (case parseCryptoKeyVersion name of Some v \<Rightarrow> v | None \<Rightarrow> gcp_keyVersion)"
    using assms(1) by (auto simp: gcp_generateSessionDataKey_def split: prod.splits sum.splits)
  obtain v where "parseCryptoKeyVersion name = Some v" using assms(2) [OF e] by blast
  with w parsed_version_not_unknown show ?thesis by simp
qed

text \<open>
  sessions cannot be activated under the cloud key provider. \<open>init\<close> encrypts under a context that
  names the provider's static version \<open>gcp-kms:unknown\<close> but stores the version the service reported; \<open>package\<close>
  rebuilds the context from the stored version, so authenticated decryption refuses it. Whenever the service
  names the key version it used, as it is documented to, every \<open>package\<close> of such a session throws and
  leaves the store as it was.
\<close>

theorem gcp_sessions_never_activate:
  assumes "session_init pf (gcp_provider_ops encrypt decrypt now fetched random32) memory_session_ops ttl account chainId attempts
       iv cnow p s = Some (Inr (i, addr), p1, s1)"
    and "\<And>token key pt aad c name. encrypt token key pt aad = Inr (c, name) \<Longrightarrow> parseCryptoKeyVersion name \<noteq> None"
    and "\<And>k k' iv pt pt' aad aad' ct. pf_aesEncrypt pf k iv pt aad = Inr ct \<Longrightarrow> pf_aesDecrypt pf k' iv ct aad' = Inr pt' \<Longrightarrow> aad' = aad"
  shows "\<exists>e p3. package pf (gcp_provider_ops encrypt decrypt now' fetched' random32') memory_session_ops i d newIv p2 s1 =
    (Inl e, p3, s1)"
proof (rule session_init_success [OF assms(1)], goal_cases)
  case (1 sid priv t pub wrap row)
  let ?kp = "gcp_provider_ops encrypt decrypt now fetched random32"
  let ?kp' = "gcp_provider_ops encrypt decrypt now' fetched' random32'"
  have "sr_keyVersion row \<noteq> gcp_keyVersion"
    using gcp_generate_version [of encrypt now fetched random32 _ p wrap] 1(8,10) assms(2) by (auto simp: gcp_provider_ops_def)
  moreover have "row_aad pf ?kp i row = buildAad (kl_crypto (pf_lib pf)) (row_meta i row) gcp_keyVersion"
    by (simp add: row_aad_def gcp_provider_ops_def)
  ultimately have "canonicalContextBytes (buildAad (kl_crypto (pf_lib pf)) (row_meta i row) (sr_keyVersion row)) \<noteq>
      canonicalContextBytes (row_aad pf ?kp i row)"
    using buildAad_version by metis
  then have "pf_aesDecrypt pf dk (sr_iv row) (sr_encryptedPackage row)
      (canonicalContextBytes (buildAad (kl_crypto (pf_lib pf)) (row_meta i row) (sr_keyVersion row))) \<noteq> Inr pt" for dk pt
    using assms(3) [OF 1(11)] by blast
  then have "\<exists>e. fst (open_row pf ?kp' i row p2) = Inl e"
    by (auto simp: open_row_def Let_def js_bind_def split: prod.splits sum.splits)
  moreover have "requirePending memory_session_ops i s1 = Inr row"
    using 1 by (simp add: requirePending_def mem_sessions.get_save)
  ultimately show ?case by (auto simp: package_def package_commit_def split: prod.splits sum.splits)
qed

definition demo_encrypt :: kms_encrypt where
  "demo_encrypt token key pt aad = Inr (pt, Some ''projects/p/cryptoKeys/k/cryptoKeyVersions/3'')"

definition demo_decrypt :: kms_decrypt where
  "demo_decrypt token key ct aad = Inr ct"

definition demo_gcp :: "gcp_provider provider_ops" where
  "demo_gcp = gcp_provider_ops demo_encrypt demo_decrypt 0 (Inr \<lparr>ct_accessToken = ''t'', ct_expiresAt = 9\<rparr>) [8]"

theorem gcp_sessions_never_activate_witness:
  "\<exists>addr p1 s1 e p3. session_init demo_platform demo_gcp memory_session_ops None ''0xAcc'' 1
      [(replicate 16 3, replicate 32 7, 1000)] [2] 1000 \<lparr>gp_keyName = ''k'', gp_cachedToken = None\<rparr> [] =
      Some (Inr (demo_session_id, addr), p1, s1) \<and>
    package demo_platform demo_gcp memory_session_ops demo_session_id demo_session_delegation [4] p1 s1 = (Inl e, p3, s1)"
proof -
  have version: "parseCryptoKeyVersion (Some ''projects/p/cryptoKeys/k/cryptoKeyVersions/3'') \<noteq> None" by code_simp
  have "\<exists>k. gcp_generateSessionDataKey demo_encrypt 0 (Inr \<lparr>ct_accessToken = ''t'', ct_expiresAt = 9\<rparr>) [8] aad
      \<lparr>gp_keyName = ''k'', gp_cachedToken = None\<rparr> = (Inr k, \<lparr>gp_keyName = ''k'', gp_cachedToken = Some \<lparr>ct_accessToken = ''t'', ct_expiresAt = 9\<rparr>\<rparr>)"
    for aad by (simp add: gcp_generateSessionDataKey_def getAccessToken_def demo_encrypt_def)
  then obtain K where K: "gcp_generateSessionDataKey demo_encrypt 0 (Inr \<lparr>ct_accessToken = ''t'', ct_expiresAt = 9\<rparr>) [8] aad
      \<lparr>gp_keyName = ''k'', gp_cachedToken = None\<rparr> = (Inr (K aad), \<lparr>gp_keyName = ''k'', gp_cachedToken = Some \<lparr>ct_accessToken = ''t'', ct_expiresAt = 9\<rparr>\<rparr>)"
    for aad by metis
  have "getPublicKey demo_kms_lib x = Inr (4 # x @ x)" for x by (simp add: demo_kms_lib_def)
  with K have "\<exists>addr p1 s1. session_init demo_platform demo_gcp memory_session_ops None ''0xAcc'' 1
      [(replicate 16 3, replicate 32 7, 1000)] [2] 1000 \<lparr>gp_keyName = ''k'', gp_cachedToken = None\<rparr> [] =
      Some (Inr (demo_session_id, addr), p1, s1)"
    by (simp add: session_init_def demo_platform_def demo_session_id_def demo_gcp_def gcp_provider_ops_def date_range_def ttl_ms_def Let_def)
  then obtain addr p1 s1 where i: "session_init demo_platform demo_gcp memory_session_ops None ''0xAcc'' 1
      [(replicate 16 3, replicate 32 7, 1000)] [2] 1000 \<lparr>gp_keyName = ''k'', gp_cachedToken = None\<rparr> [] =
      Some (Inr (demo_session_id, addr), p1, s1)" by blast
  have "\<exists>e p3. package demo_platform demo_gcp memory_session_ops demo_session_id demo_session_delegation [4] p1 s1 = (Inl e, p3, s1)"
    unfolding demo_gcp_def
    by (rule gcp_sessions_never_activate [OF i [unfolded demo_gcp_def]])
       (use version in \<open>auto simp: demo_encrypt_def demo_platform_def unseal_seal split: option.splits if_splits\<close>)
  with i show ?thesis by blast
qed

end
