(* ===== verification/Fulfillment.thy ===== *)
theory Fulfillment
  imports Prelude
begin

section \<open>Fulfillment: lifecycles, tasks, hand-off policy\<close>

text \<open>
  \<open>packages/fulfillment/src/index.ts\<close>: the two transition tables (the lifecycle of a fulfillment
  case and the state of an A2A task), the guards on hand-offs and on outcome credentials, and the
  records that other packages store. The tables are the package's abstract specification of what may
  happen to a case or a task; \<open>A2aAgent\<close> and \<open>A2aProperties\<close> show that the agent implements the
  second one. Here: a case always ends, archived, after at most ten transitions, and it can be
  archived from every state; a task can always still end, and once ended stays so.
\<close>

subsection \<open>The lifecycle of a case\<close>

datatype FulfillmentLifecycle =
    Drafted | Clarified | Expressed | Acknowledged | Proposed | Accepted | Committed | InProgress
  | Fulfilled | Validated | Archived | CaseCanceled | Disputed

fun LIFECYCLE_TRANSITIONS :: "FulfillmentLifecycle \<Rightarrow> FulfillmentLifecycle list" where
  "LIFECYCLE_TRANSITIONS Drafted = [Clarified, CaseCanceled]"
| "LIFECYCLE_TRANSITIONS Clarified = [Expressed, CaseCanceled]"
| "LIFECYCLE_TRANSITIONS Expressed = [Acknowledged, CaseCanceled]"
| "LIFECYCLE_TRANSITIONS Acknowledged = [Proposed, CaseCanceled]"
| "LIFECYCLE_TRANSITIONS Proposed = [Accepted, CaseCanceled]"
| "LIFECYCLE_TRANSITIONS Accepted = [Committed, CaseCanceled]"
| "LIFECYCLE_TRANSITIONS Committed = [InProgress, CaseCanceled, Disputed]"
| "LIFECYCLE_TRANSITIONS InProgress = [Fulfilled, Disputed, CaseCanceled]"
| "LIFECYCLE_TRANSITIONS Fulfilled = [Validated, Disputed]"
| "LIFECYCLE_TRANSITIONS Validated = [Archived]"
| "LIFECYCLE_TRANSITIONS Archived = []"
| "LIFECYCLE_TRANSITIONS CaseCanceled = [Archived]"
| "LIFECYCLE_TRANSITIONS Disputed = [Archived]"

definition canTransition :: "FulfillmentLifecycle \<Rightarrow> FulfillmentLifecycle \<Rightarrow> bool" where
  "canTransition from to \<longleftrightarrow> List.member (LIFECYCLE_TRANSITIONS from) to"

subsection \<open>The state of a task\<close>

datatype TaskState =
    Submitted | Working | Completed | Failed | Canceled | InputRequired | Rejected | AuthRequired

fun TASK_TRANSITIONS :: "TaskState \<Rightarrow> TaskState list" where
  "TASK_TRANSITIONS Submitted = [Working, Rejected, AuthRequired, Canceled]"
| "TASK_TRANSITIONS AuthRequired = [Submitted]"
| "TASK_TRANSITIONS Working = [Completed, Failed, Canceled, InputRequired, AuthRequired]"
| "TASK_TRANSITIONS InputRequired = [Working]"
| "TASK_TRANSITIONS Completed = []"
| "TASK_TRANSITIONS Failed = []"
| "TASK_TRANSITIONS Canceled = []"
| "TASK_TRANSITIONS Rejected = []"

definition canTaskTransition :: "TaskState \<Rightarrow> TaskState \<Rightarrow> bool" where
  "canTaskTransition from to \<longleftrightarrow> List.member (TASK_TRANSITIONS from) to"

text \<open>The strings of the union types.\<close>

fun task_state_str :: "TaskState \<Rightarrow> string" where
  "task_state_str Submitted = ''submitted''"
| "task_state_str Working = ''working''"
| "task_state_str Completed = ''completed''"
| "task_state_str Failed = ''failed''"
| "task_state_str Canceled = ''canceled''"
| "task_state_str InputRequired = ''input-required''"
| "task_state_str Rejected = ''rejected''"
| "task_state_str AuthRequired = ''auth-required''"

subsection \<open>Records\<close>

record history_entry =
  he_from :: FulfillmentLifecycle
  he_to :: FulfillmentLifecycle
  he_actor :: address
  he_epochBucket :: int

datatype topology = Linear | Parallel | Dag

record FulfillmentCase =
  case_id :: hex
  case_agreementCommitment :: hex
  case_parties :: "address \<times> address"
  case_lifecycle :: FulfillmentLifecycle
  case_lifecycleHistory :: "history_entry list"
  case_taskIds :: "hex list"
  case_topology :: topology
  case_visibility :: string
  case_paymentMandateIds :: "hex list"

datatype assignee_kind = KPerson | KOrg | KAgent | KOracle | KHybrid

record Task =
  task_taskId :: hex
  task_parentCaseId :: "hex option"
  task_parentIntentId :: "string option"
  task_state :: TaskState
  task_assignee :: address
  task_assigneeKind :: assignee_kind
  task_inputHash :: hex
  task_artifactIds :: "hex list"
  task_deadline :: "int option"
  task_maxRetries :: int
  task_permissionGrantRef :: hex

record HandoffPolicy =
  hp_allowedTargetAgents :: "address list"
  hp_allowedAgentClasses :: "string list"
  hp_requiresUserApproval :: bool
  hp_preservePrivacyTier :: bool
  hp_allowedScopes :: "string list"
  hp_maxHopCount :: int

text \<open>The address comparison is exact, the class counts only when it is a non-empty string.\<close>

definition isHandoffAllowed :: "HandoffPolicy \<Rightarrow> address \<Rightarrow> string option \<Rightarrow> bool" where
  "isHandoffAllowed policy target targetClass =
     (if List.member (hp_allowedTargetAgents policy) target then True
      else if truthy targetClass \<and> List.member (hp_allowedAgentClasses policy) (the targetClass) then True
      else False)"

record Artifact =
  art_artifactId :: hex
  art_caseId :: hex
  art_taskId :: "hex option"
  art_producer :: address
  art_artifactKind :: string
  art_bodyHash :: hex
  art_bodyContentType :: string
  art_disclosurePolicy :: string
  art_createdAt :: int

datatype satisfaction = Fully | Partially | Not

record 'v OutcomeCredentialSubject =
  oc_intentId :: string
  oc_caseId :: hex
  oc_intentExpected :: "(string \<times> 'v) list"
  oc_delivered :: "(string \<times> 'v) list"
  oc_actorSatisfaction :: satisfaction
  oc_evidenceAssertionUids :: "hex list"

definition assertOutcomeCitations :: "'v OutcomeCredentialSubject \<Rightarrow> unit js" where
  "assertOutcomeCitations subject =
     (if oc_evidenceAssertionUids subject = []
      then Inl (Error ''[fulfillment/FLF-OUT-1] OutcomeCredential MUST cite at least one EvidenceCredential UID. D-40 substrate invariant.'')
      else Inr ())"

subsection \<open>Runs of a case\<close>

text \<open>\<open>case_run s n t\<close>: the table leads from \<open>s\<close> to \<open>t\<close> in \<open>n\<close> transitions.\<close>

inductive case_run :: "FulfillmentLifecycle \<Rightarrow> nat \<Rightarrow> FulfillmentLifecycle \<Rightarrow> bool" where
  case_stop: "case_run s 0 s"
| case_move: "canTransition s t \<Longrightarrow> case_run t n u \<Longrightarrow> case_run s (Suc n) u"

inductive_cases case_run_0E: "case_run s 0 t"
inductive_cases case_run_SucE: "case_run s (Suc n) t"

text \<open>The longest way to the archive, by state.\<close>

fun case_rank :: "FulfillmentLifecycle \<Rightarrow> nat" where
  "case_rank Drafted = 10"
| "case_rank Clarified = 9"
| "case_rank Expressed = 8"
| "case_rank Acknowledged = 7"
| "case_rank Proposed = 6"
| "case_rank Accepted = 5"
| "case_rank Committed = 4"
| "case_rank InProgress = 3"
| "case_rank Fulfilled = 2"
| "case_rank Validated = 1"
| "case_rank CaseCanceled = 1"
| "case_rank Disputed = 1"
| "case_rank Archived = 0"

lemma case_rank_decreases: "canTransition s t \<Longrightarrow> case_rank t < case_rank s"
  by (cases s) (auto simp: canTransition_def)

lemma case_rank_le_10: "case_rank s \<le> 10"
  by (cases s) simp_all

lemma case_run_rank: "case_run s n t \<Longrightarrow> n + case_rank t \<le> case_rank s"
  by (induction rule: case_run.induct) (auto dest: case_rank_decreases)

lemma stuck_iff_archived: "(\<forall>t. \<not> canTransition s t) \<longleftrightarrow> s = Archived"
  by (cases s) (auto simp: canTransition_def)

lemma case_run_snoc: "case_run s n t \<Longrightarrow> canTransition t u \<Longrightarrow> case_run s (Suc n) u"
  by (induction rule: case_run.induct) (auto intro: case_run.intros)

lemma archive_reachable: "\<exists>n. case_run s n Archived"
proof (induction "case_rank s" arbitrary: s rule: less_induct)
  case less
  show ?case
  proof (cases "s = Archived")
    case True
    then show ?thesis using case_stop by blast
  next
    case False
    then obtain t where t: "canTransition s t" using stuck_iff_archived by blast
    with less [OF case_rank_decreases] obtain n where "case_run t n Archived" by blast
    with t show ?thesis by (blast intro: case_move)
  qed
qed

lemma case_run_facts:
  assumes "case_run s n t"
  shows "n \<le> 10"
    and "(\<forall>u. \<not> canTransition t u) \<longleftrightarrow> t = Archived"
    and "\<exists>m \<le> 10 - n. case_run t m Archived"
proof -
  from case_run_rank [OF assms] case_rank_le_10 [of s] have n: "n + case_rank t \<le> 10" by linarith
  then show "n \<le> 10" by simp
  show "(\<forall>u. \<not> canTransition t u) \<longleftrightarrow> t = Archived" by (rule stuck_iff_archived)
  obtain m where m: "case_run t m Archived" using archive_reachable by blast
  from case_run_rank [OF m] n have "m \<le> 10 - n" by simp
  with m show "\<exists>m \<le> 10 - n. case_run t m Archived" by blast
qed

text \<open>
  C38: A fulfillment case always ends and always ends archived. From any state the transition table
  allows at most ten further transitions; a run that can go no further has reached \<open>archived\<close>; and
  from wherever a run has got to, \<open>archived\<close> can still be reached.
\<close>

theorem case_always_archivable:
  assumes "case_run s n t"
  shows "n \<le> 10 \<and> ((\<forall>u. \<not> canTransition t u) \<longleftrightarrow> t = Archived) \<and> (\<exists>m \<le> 10 - n. case_run t m Archived)"
  using case_run_facts [OF assms] by blast


theorem case_always_archivable_witness:
  "(2 :: nat) \<le> 10 \<and> ((\<forall>u. \<not> canTransition Expressed u) \<longleftrightarrow> Expressed = Archived) \<and>
   (\<exists>m \<le> 10 - 2. case_run Expressed m Archived)"
proof -
  have r: "case_run Drafted (Suc (Suc 0)) Expressed"
    by (rule case_move [where t = Clarified], simp add: canTransition_def)
       (rule case_move [where t = Expressed], simp_all add: canTransition_def case_stop)
  from case_always_archivable [OF r] show ?thesis by (simp add: numeral_2_eq_2)
qed

subsection \<open>Runs of a task\<close>

definition task_reaches :: "TaskState \<Rightarrow> TaskState \<Rightarrow> bool" where
  "task_reaches = canTaskTransition\<^sup>*\<^sup>*"

definition ended :: "TaskState \<Rightarrow> bool" where
  "ended s \<longleftrightarrow> TASK_TRANSITIONS s = []"

lemma task_reaches_refl [simp]: "task_reaches s s"
  by (simp add: task_reaches_def)

lemma task_reaches_step: "canTaskTransition s t \<Longrightarrow> task_reaches s t"
  by (simp add: task_reaches_def r_into_rtranclp)

lemma task_reaches_trans [trans]: "task_reaches s t \<Longrightarrow> task_reaches t u \<Longrightarrow> task_reaches s u"
  unfolding task_reaches_def by (rule rtranclp_trans)

lemma ended_no_step: "ended s \<Longrightarrow> \<not> canTaskTransition s t"
  by (simp add: ended_def canTaskTransition_def)

lemma ended_stays:
  assumes "ended s" "task_reaches s t"
  shows "t = s"
  using assms(2) unfolding task_reaches_def
proof (cases rule: converse_rtranclpE)
  case (step y)
  then show ?thesis using ended_no_step [OF assms(1)] by blast
qed simp

lemma task_can_end: "\<exists>t. task_reaches s t \<and> ended t"
proof -
  have w: "task_reaches Working Completed" "ended Completed"
    by (auto intro: task_reaches_step simp: canTaskTransition_def ended_def)
  have "task_reaches Submitted Working" "task_reaches InputRequired Working" "task_reaches AuthRequired Submitted"
    by (auto intro!: task_reaches_step simp: canTaskTransition_def)
  then have "s \<in> {Submitted, InputRequired, AuthRequired, Working} \<Longrightarrow> task_reaches s Completed"
    using w(1) by (auto intro: task_reaches_trans)
  then show ?thesis using w(2) by (cases s) (auto intro: exI [of _ s] simp: ended_def)
qed

end
