(* ===== verification/A2aTasks.thy ===== *)
theory A2aTasks
  imports Fulfillment DelegationTypes
begin

section \<open>A2A: task records, stores and the task runtime\<close>

text \<open>
  \<open>packages/a2a/src/types.ts\<close>, \<open>task-store.ts\<close>, \<open>skill-handler.ts\<close>, \<open>payment-gate.ts\<close> and
  \<open>runtime.ts\<close>. A task store is a record of operations, with the reference in-memory store as its
  instance. The body of a skill is application code: it is a program whose steps are what the
  context offers it (emit an artifact, act on the outside world, return, throw), so the runtime's
  part of each step is the model's and the rest is the program's. The lemmas say that every
  transition the runtime makes is one of the fulfillment table and what becomes of a task for every
  outcome of its skill.
\<close>

subsection \<open>Wire types\<close>

record VaultRef =
  vr_owner :: address
  vr_recordType :: string

record A2aMessage =
  am_messageId :: hex
  am_threadId :: "string option"
  am_sender :: address
  am_skill :: string
  am_bodyRef :: VaultRef
  am_bodyHash :: hex
  am_signature :: hex
  am_createdAt :: int

record A2aArtifact = Artifact +
  art_bodyRef :: VaultRef

record HandoffRequest =
  hr_target :: address
  hr_targetClass :: "string option"
  hr_skill :: "string option"
  hr_reason :: "string option"

record PushConfig =
  pc_url :: string
  pc_token :: "string option"

record TaskRecord =
  tr_task :: Task
  tr_principal :: address
  tr_sender :: address
  tr_skill :: string
  tr_delegation :: delegation
  tr_inbound :: "A2aMessage list"
  tr_artifacts :: "A2aArtifact list"
  tr_pushConfig :: "PushConfig option"
  tr_handoff :: "HandoffRequest option"
  tr_hopCount :: "int option"
  tr_error :: "string option"
  tr_rev :: int
  tr_updatedAt :: int

datatype TaskEvent =
    TaskStatus hex TaskState int "string option"
  | TaskArtifact hex hex int

definition TERMINAL_STATES :: "TaskState list" where
  "TERMINAL_STATES = [Completed, Failed, Canceled, Rejected]"

definition isTerminal :: "TaskState \<Rightarrow> bool" where
  "isTerminal s \<longleftrightarrow> List.member TERMINAL_STATES s"

abbreviation task_id :: "TaskRecord \<Rightarrow> hex" where
  "task_id r \<equiv> task_taskId (tr_task r)"

abbreviation state_of :: "TaskRecord \<Rightarrow> TaskState" where
  "state_of r \<equiv> task_state (tr_task r)"

text \<open>The delivery paths and the transition table agree on which states are final.\<close>

lemma isTerminal_iff_ended: "isTerminal s \<longleftrightarrow> ended s"
  by (cases s) (simp_all add: isTerminal_def TERMINAL_STATES_def ended_def)

subsection \<open>Task stores\<close>

record 's task_store_ops =
  ts_put :: "TaskRecord \<Rightarrow> 's \<Rightarrow> 's"
  ts_get :: "hex \<Rightarrow> 's \<Rightarrow> TaskRecord option"
  ts_listDue :: "int \<Rightarrow> 's \<Rightarrow> hex list"
  ts_reserveMessageId :: "hex \<Rightarrow> int \<Rightarrow> 's \<Rightarrow> bool \<times> 's"

text \<open>
  The in-memory store: two maps keyed by lower-cased id and an insertion-ordered set of due ids.
\<close>

definition set_add :: "'a \<Rightarrow> 'a list \<Rightarrow> 'a list" where
  "set_add x xs = (if List.member xs x then xs else xs @ [x])"

lemma set_set_add [simp]: "set (set_add x xs) = insert x (set xs)"
  by (auto simp: set_add_def)

record memory_tasks =
  mt_tasks :: "string \<rightharpoonup> TaskRecord"
  mt_seen :: "string \<rightharpoonup> int"
  mt_due :: "string list"

definition memory_put :: "TaskRecord \<Rightarrow> memory_tasks \<Rightarrow> memory_tasks" where
  "memory_put record s =
     (let key = toLowerCase (task_id record);
          s' = s\<lparr>mt_tasks := (mt_tasks s)(key \<mapsto> record)\<rparr>
      in if state_of record = Submitted \<or> state_of record = Working
         then s'\<lparr>mt_due := set_add key (mt_due s)\<rparr>
         else s'\<lparr>mt_due := removeAll key (mt_due s)\<rparr>)"

definition memory_task :: "hex \<Rightarrow> memory_tasks \<Rightarrow> TaskRecord option" where
  "memory_task taskId s = mt_tasks s (toLowerCase taskId)"

definition memory_listDue :: "int \<Rightarrow> memory_tasks \<Rightarrow> hex list" where
  "memory_listDue now s = mt_due s"

definition memory_reserveMessageId :: "hex \<Rightarrow> int \<Rightarrow> memory_tasks \<Rightarrow> bool \<times> memory_tasks" where
  "memory_reserveMessageId messageId ttlSec s =
     (let key = toLowerCase messageId
      in case mt_seen s key of
           Some _ \<Rightarrow> (False, s)
         | None \<Rightarrow> (True, s\<lparr>mt_seen := (mt_seen s)(key \<mapsto> ttlSec)\<rparr>))"

definition createInMemoryTaskStore :: "memory_tasks task_store_ops \<times> memory_tasks" where
  "createInMemoryTaskStore =
     (\<lparr>ts_put = memory_put, ts_get = memory_task, ts_listDue = memory_listDue,
       ts_reserveMessageId = memory_reserveMessageId\<rparr>,
      \<lparr>mt_tasks = Map.empty, mt_seen = Map.empty, mt_due = []\<rparr>)"

subsection \<open>Skills\<close>

datatype SkillResult = SkillResult (sr_state: TaskState) (sr_artifactIds: "hex list option") (sr_error: "string option")

datatype skill_exn = AuthRequiredExn string | HandoffRequested HandoffRequest | Thrown string

record 'd emit_request =
  em_artifactKind :: string
  em_body :: 'd
  em_bodyContentType :: "string option"
  em_disclosurePolicy :: "string option"
  em_caseId :: "hex option"

text \<open>
  \<open>Emit\<close> is \<open>ctx.emitArtifact\<close>, whose answer (an artifact id, or the error it threw) the skill goes on
  with; \<open>Outside\<close> is whatever it does through its vault and MCP clients; \<open>requestAuth\<close> and
  \<open>requestHandoff\<close> are \<open>Raise\<close> of their exceptions.
\<close>

datatype ('d, 'w) skill_program =
    Emit "'d emit_request" "hex js \<Rightarrow> ('d, 'w) skill_program"
  | Outside "'w \<Rightarrow> 'w" "'w \<Rightarrow> ('d, 'w) skill_program"
  | Return SkillResult
  | Raise skill_exn

record 'd skill_context =
  sc_taskId :: hex
  sc_principal :: address
  sc_sender :: address
  sc_input :: 'd
  sc_delegation :: delegation

record skill_payment =
  sp_rail :: string
  sp_amount :: string
  sp_asset :: string
  sp_payee :: string

record ('d, 'w) skill_handler =
  sh_skill :: string
  sh_payment :: "skill_payment option"
  sh_handle :: "'d skill_context \<Rightarrow> ('d, 'w) skill_program"

definition requestAuth :: "string \<Rightarrow> ('d, 'w) skill_program" where
  "requestAuth reason = Raise (AuthRequiredExn reason)"

definition requestHandoff :: "HandoffRequest \<Rightarrow> ('d, 'w) skill_program" where
  "requestHandoff req = Raise (HandoffRequested req)"

type_synonym ('d, 'w) registry = "string \<rightharpoonup> ('d, 'w) skill_handler"

fun register_all :: "('d, 'w) skill_handler list \<Rightarrow> ('d, 'w) registry \<Rightarrow> ('d, 'w) registry js" where
  "register_all [] reg = Inr reg"
| "register_all (h # hs) reg =
     (if reg (sh_skill h) \<noteq> None then Inl (Error (''duplicate skill handler: '' @ sh_skill h))
      else register_all hs (reg(sh_skill h \<mapsto> h)))"

definition buildSkillRegistry :: "('d, 'w) skill_handler list \<Rightarrow> ('d, 'w) registry js" where
  "buildSkillRegistry handlers = register_all handlers Map.empty"

text \<open>What a running skill can change of the agent: the outside world, the artifact counter, and
  the artifacts captured so far.\<close>

record 'w skill_state =
  sk_world :: 'w
  sk_artCounter :: nat
  sk_captured :: "A2aArtifact list"

primrec run_skill ::
  "('d emit_request \<Rightarrow> 'w skill_state \<Rightarrow> hex js \<times> 'w skill_state) \<Rightarrow> ('d, 'w) skill_program \<Rightarrow>
   'w skill_state \<Rightarrow> (skill_exn + SkillResult) \<times> 'w skill_state" where
  "run_skill emit (Emit req k) = (\<lambda>s. case emit req s of (x, s') \<Rightarrow> run_skill emit (k x) s')"
| "run_skill emit (Outside f k) =
     (\<lambda>s. run_skill emit (k (sk_world s)) (s\<lparr>sk_world := f (sk_world s)\<rparr>))"
| "run_skill emit (Return res) = (\<lambda>s. (Inr res, s))"
| "run_skill emit (Raise e) = (\<lambda>s. (Inl e, s))"

subsection \<open>The runtime\<close>

record new_task_args =
  nt_taskId :: hex
  nt_principal :: address
  nt_assignee :: address
  nt_sender :: address
  nt_skill :: string
  nt_delegation :: delegation
  nt_inbound :: A2aMessage
  nt_permissionGrantRef :: hex
  nt_inputHash :: hex
  nt_now :: int
  nt_deadline :: "int option"
  nt_maxRetries :: "int option"
  nt_parentCaseId :: "hex option"

definition newTaskRecord :: "new_task_args \<Rightarrow> TaskRecord" where
  "newTaskRecord a =
     \<lparr>tr_task = \<lparr>task_taskId = nt_taskId a, task_parentCaseId = nt_parentCaseId a, task_parentIntentId = None,
        task_state = Submitted, task_assignee = nt_assignee a, task_assigneeKind = KAgent,
        task_inputHash = nt_inputHash a, task_artifactIds = [], task_deadline = nt_deadline a,
        task_maxRetries = (case nt_maxRetries a of None \<Rightarrow> 0 | Some n \<Rightarrow> n),
        task_permissionGrantRef = nt_permissionGrantRef a\<rparr>,
      tr_principal = nt_principal a, tr_sender = nt_sender a, tr_skill = nt_skill a,
      tr_delegation = nt_delegation a, tr_inbound = [nt_inbound a], tr_artifacts = [], tr_pushConfig = None,
      tr_handoff = None, tr_hopCount = None, tr_error = None, tr_rev = 1, tr_updatedAt = nt_now a\<rparr>"

definition applyTransition ::
  "TaskRecord \<Rightarrow> TaskState \<Rightarrow> int \<Rightarrow> string option \<Rightarrow> string + TaskRecord \<times> TaskEvent" where
  "applyTransition record to now err =
     (let from = state_of record
      in if from = to then Inl (''already in '' @ task_state_str to)
         else if \<not> canTaskTransition from to
         then Inl (''illegal transition '' @ task_state_str from @ '' -> '' @ task_state_str to)
         else Inr (record\<lparr>tr_task := (tr_task record)\<lparr>task_state := to\<rparr>,
                          tr_error := (if to = Failed then err else tr_error record),
                          tr_rev := tr_rev record + 1, tr_updatedAt := now\<rparr>,
                   TaskStatus (task_id record) to (tr_rev record + 1) None))"

text \<open>
  The recurring shape of the runtime: apply a transition and, if the table has it, patch the record
  and add the event; otherwise keep what there was.
\<close>

definition advance ::
  "TaskRecord \<Rightarrow> TaskEvent list \<Rightarrow> TaskState \<Rightarrow> int \<Rightarrow> string option \<Rightarrow> (TaskRecord \<Rightarrow> TaskRecord) \<Rightarrow>
   TaskRecord \<times> TaskEvent list" where
  "advance cur events to now err patch =
     (case applyTransition cur to now err of
        Inl _ \<Rightarrow> (cur, events)
      | Inr (r, ev) \<Rightarrow> (patch r, events @ [ev]))"

definition handoff_ok :: "HandoffPolicy option \<Rightarrow> HandoffRequest \<Rightarrow> int \<Rightarrow> bool" where
  "handoff_ok policy req hops \<longleftrightarrow>
     (case policy of
        None \<Rightarrow> False
      | Some p \<Rightarrow> isHandoffAllowed p (hr_target req) (hr_targetClass req) \<and> hops \<le> hp_maxHopCount p)"

definition handoff_reason :: "HandoffRequest \<Rightarrow> string" where
  "handoff_reason req =
     ''handoff not permitted: '' @ hr_target req @
     (if truthy (hr_targetClass req) then '' ('' @ the (hr_targetClass req) @ '')'' else [])"

definition hops_of :: "TaskRecord \<Rightarrow> int" where
  "hops_of cur = (case tr_hopCount cur of None \<Rightarrow> 0 | Some n \<Rightarrow> n) + 1"

text \<open>The catch block around \<open>handler.handle\<close>.\<close>

definition skill_raised ::
  "HandoffPolicy option \<Rightarrow> int \<Rightarrow> TaskRecord \<Rightarrow> TaskEvent list \<Rightarrow> skill_exn \<Rightarrow> TaskRecord \<times> TaskEvent list" where
  "skill_raised policy now cur events e =
     (case e of
        AuthRequiredExn _ \<Rightarrow> advance cur events AuthRequired now None id
      | HandoffRequested req \<Rightarrow>
          if \<not> handoff_ok policy req (hops_of cur)
          then advance cur events Failed now (Some (handoff_reason req))
                 (\<lambda>r. r\<lparr>tr_error := Some (handoff_reason req)\<rparr>)
          else advance cur events Completed now None
                 (\<lambda>r. r\<lparr>tr_handoff := Some req, tr_hopCount := Some (hops_of cur)\<rparr>)
      | Thrown m \<Rightarrow> advance cur events Failed now (Some m) id)"

text \<open>What follows it when the skill returned.\<close>

definition skill_returned ::
  "int \<Rightarrow> TaskRecord \<Rightarrow> TaskEvent list \<Rightarrow> SkillResult \<Rightarrow> TaskRecord \<times> TaskEvent list" where
  "skill_returned now cur events result =
     (case applyTransition cur (sr_state result) now (sr_error result) of
        Inl _ \<Rightarrow>
          advance cur events Failed now
            (Some (''handler returned illegal state '' @ task_state_str (sr_state result))) id
      | Inr (r, ev) \<Rightarrow>
          ((if sr_state result = Completed \<and> sr_artifactIds result \<noteq> None
            then r\<lparr>tr_task := (tr_task r)\<lparr>task_artifactIds := the (sr_artifactIds result)\<rparr>\<rparr> else r),
           events @ [ev]))"

definition skill_ctx :: "TaskRecord \<Rightarrow> 'd \<Rightarrow> delegation \<Rightarrow> 'd skill_context" where
  "skill_ctx cur input d =
     \<lparr>sc_taskId = task_id cur, sc_principal = tr_principal cur, sc_sender = tr_sender cur,
      sc_input = input, sc_delegation = d\<rparr>"

definition dispatchTask ::
  "('d emit_request \<Rightarrow> 'w skill_state \<Rightarrow> hex js \<times> 'w skill_state) \<Rightarrow> ('d, 'w) registry \<Rightarrow> 'd \<Rightarrow> delegation \<Rightarrow> int \<Rightarrow>
   HandoffPolicy option \<Rightarrow> TaskRecord \<Rightarrow> 'w skill_state \<Rightarrow> (TaskRecord \<times> TaskEvent list) \<times> 'w skill_state" where
  "dispatchTask emit registry input d now policy record s =
     (if state_of record \<noteq> Submitted then ((record, []), s)
      else (case registry (tr_skill record) of
              None \<Rightarrow>
                (let err = Some (''unknown skill: '' @ tr_skill record)
                 in (advance record [] Rejected now err (\<lambda>r. r\<lparr>tr_error := err\<rparr>), s))
            | Some handler \<Rightarrow>
                (case applyTransition record Working now None of
                   Inl _ \<Rightarrow> ((record, []), s)
                 | Inr (cur, ev) \<Rightarrow>
                     (case run_skill emit (sh_handle handler (skill_ctx cur input d)) s of
                        (Inl e, s') \<Rightarrow> (skill_raised policy now cur [ev] e, s')
                      | (Inr result, s') \<Rightarrow> (skill_returned now cur [ev] result, s')))))"

subsection \<open>Payment middleware\<close>

record 'v gate_decision =
  gd_satisfied :: bool
  gd_via :: "string option"
  gd_required :: "'v option"
  gd_receiptRef :: "'v option"
  gd_entitlementConsumption :: "'v option"

datatype payment_status = PaymentRequired | PaymentSubmitted | PaymentVerified | PaymentCompleted | PaymentFailed

record 'v payment_metadata =
  x402_status :: payment_status
  x402_required :: "'v option"
  x402_payload :: "'v option"
  x402_receipts :: "'v list option"

definition buildPaymentRequiredMetadata :: "'v option \<Rightarrow> 'v payment_metadata" where
  "buildPaymentRequiredMetadata required =
     \<lparr>x402_status = PaymentRequired, x402_required = required, x402_payload = None, x402_receipts = None\<rparr>"

definition buildPaymentSettledMetadata :: "'v list \<Rightarrow> 'v payment_metadata" where
  "buildPaymentSettledMetadata receipts =
     \<lparr>x402_status = PaymentCompleted, x402_required = None, x402_payload = None, x402_receipts = Some receipts\<rparr>"

datatype 'v gate_result = Proceed "string option" "'v option" "'v option" | Park "'v payment_metadata"

record 'v gate_args =
  ga_skill :: string
  ga_payment :: skill_payment
  ga_message :: A2aMessage
  ga_payload :: "'v option"
  ga_entitlementRef :: "'v option"

definition gateSkillPayment ::
  "skill_payment option \<Rightarrow> ('v gate_args \<Rightarrow> 'w \<Rightarrow> 'v gate_decision js \<times> 'w) option \<Rightarrow> string \<Rightarrow> A2aMessage \<Rightarrow>
   'v option \<Rightarrow> 'v option \<Rightarrow> 'w \<Rightarrow> 'v gate_result js \<times> 'w" where
  "gateSkillPayment payment gate skill message payload entitlementRef w =
     (case payment of
        None \<Rightarrow> (Inr (Proceed None None None), w)
      | Some price \<Rightarrow>
          (case gate of
             None \<Rightarrow> (Inr (Proceed None None None), w)
           | Some check \<Rightarrow>
               (case check \<lparr>ga_skill = skill, ga_payment = price, ga_message = message, ga_payload = payload,
                            ga_entitlementRef = entitlementRef\<rparr> w of
                  (Inl e, w') \<Rightarrow> (Inl e, w')
                | (Inr decision, w') \<Rightarrow>
                    (Inr (if gd_satisfied decision
                          then Proceed (gd_via decision) (gd_receiptRef decision) (gd_entitlementConsumption decision)
                          else Park (buildPaymentRequiredMetadata (gd_required decision))), w'))))"

end
