(* ===== verification/Viem.thy ===== *)
theory Viem
  imports DelegationTypes
begin

section \<open>The functions of \<open>viem\<close> the packages call\<close>

text \<open>
  \<open>viem\<close> is a third-party library: what the packages call of it is a record of functions, an argument of
  every definition that uses it. Besides the ABI codec and the hashes of \<open>DelegationTypes\<close> these are
  keccak over bytes, \<open>toBytes\<close> (which reads a 0x-string as hex and any other as UTF-8), and the
  \<open>message\<close> of a thrown error. Addresses are compared after lower-casing throughout the packages.
\<close>

record viem_lib =
  vm_codec :: crypto_lib
  vm_toBytes :: "string \<Rightarrow> bytes"
  vm_keccakBytes :: "bytes \<Rightarrow> hex"
  vm_errorText :: "js_error \<Rightarrow> string"

definition keccak_text :: "viem_lib \<Rightarrow> string \<Rightarrow> hex" where
  "keccak_text vm s = vm_keccakBytes vm (vm_toBytes vm s)"

definition keccak_abi :: "viem_lib \<Rightarrow> abi_type list \<Rightarrow> abi_val list \<Rightarrow> hex js" where
  "keccak_abi vm ts vs = js_bind (encodeAbiParameters (vm_codec vm) ts vs) (\<lambda>h. Inr (keccak256 (vm_codec vm) h))"

definition ZERO_HASH :: hex where
  "ZERO_HASH = ''0x'' @ replicate 64 (CHR ''0'')"

definition eq_ci :: "string \<Rightarrow> string \<Rightarrow> bool" where
  "eq_ci a b \<longleftrightarrow> toLowerCase a = toLowerCase b"

lemma eq_ci_simps [simp]: "eq_ci a a" "eq_ci (toLowerCase a) b = eq_ci a b" "eq_ci a (toLowerCase b) = eq_ci a b"
  by (simp_all add: eq_ci_def)

lemma eq_ci_sym: "eq_ci a b \<Longrightarrow> eq_ci b a"
  by (simp add: eq_ci_def)

lemma eq_ci_trans: "eq_ci a b \<Longrightarrow> eq_ci b c \<Longrightarrow> eq_ci a c"
  by (simp add: eq_ci_def)

end
