(* ===== verification/A2aAuth.thy ===== *)
theory A2aAuth
  imports A2aTasks Viem Evaluator Encodings
begin

section \<open>A2A: scoped grants and the authorization gate\<close>

text \<open>
  \<open>packages/a2a/src/grant.ts\<close> and \<open>auth.ts\<close>: the caveats that scope a grant to one recipient and one
  skill, the digests that senders and callers sign, and \<open>authorizeA2aMessage\<close>, the gate in front of
  every task. The verdicts of the chain are a record of operations that read the world; each may
  throw, which the gate turns into a refusal.
\<close>

subsection \<open>\<open>grant.ts\<close>\<close>

definition A2A_ANY_SKILL :: hex where
  "A2A_ANY_SKILL = ''0x00000000''"

definition skillSelector :: "viem_lib \<Rightarrow> string \<Rightarrow> hex" where
  "skillSelector vm skill =
     (if skill = ''*'' \<or> skill = A2A_ANY_SKILL then A2A_ANY_SKILL else take 10 (keccak_text vm skill))"

record a2a_enforcers =
  ae_allowedTargets :: address
  ae_allowedMethods :: address
  ae_timestamp :: address

definition buildA2aGrantCaveats ::
  "viem_lib \<Rightarrow> address \<Rightarrow> string \<Rightarrow> a2a_enforcers \<Rightarrow> number \<Rightarrow> number \<Rightarrow> caveat list js" where
  "buildA2aGrantCaveats vm recipientAgentSA skill enf validAfter validUntil =
     js_bind (encodeTimestampTerms (vm_codec vm) validAfter validUntil) (\<lambda>ts.
     js_bind (encodeAllowedTargetsTerms (vm_codec vm) [recipientAgentSA]) (\<lambda>at.
     js_bind (encodeAllowedMethodsTerms (vm_codec vm) [skillSelector vm skill]) (\<lambda>ms.
     Inr [buildCaveat (ae_timestamp enf) ts None, buildCaveat (ae_allowedTargets enf) at None,
          buildCaveat (ae_allowedMethods enf) ms None])))"

subsection \<open>\<open>auth.ts\<close>\<close>

definition decodeTimestampTerms :: "viem_lib \<Rightarrow> hex \<Rightarrow> (int \<times> int) option" where
  "decodeTimestampTerms vm tm =
     (case decodeAbiParameters (vm_codec vm) [TUint256, TUint256] tm of
        Inr [AInt validAfter, AInt validUntil] \<Rightarrow> Some (validAfter, validUntil)
      | _ \<Rightarrow> None)"

definition decodeAllowedTargetsTerms :: "viem_lib \<Rightarrow> hex \<Rightarrow> address list option" where
  "decodeAllowedTargetsTerms vm tm =
     (case decodeAbiParameters (vm_codec vm) [TArray TAddress] tm of
        Inr [AList targets] \<Rightarrow> Some (hex_texts targets)
      | _ \<Rightarrow> None)"

definition decodeAllowedMethodsTerms :: "viem_lib \<Rightarrow> hex \<Rightarrow> hex list option" where
  "decodeAllowedMethodsTerms vm tm =
     (case decodeAbiParameters (vm_codec vm) [TArray TBytes4] tm of
        Inr [AList selectors] \<Rightarrow> Some (hex_texts selectors)
      | _ \<Rightarrow> None)"

definition hashA2aMessage :: "viem_lib \<Rightarrow> A2aMessage \<Rightarrow> hex js" where
  "hashA2aMessage vm m =
     keccak_abi vm [TBytes32, TAddress, TBytes32, TBytes32, TUint256]
       [AHex (am_messageId m), AHex (am_sender m), AHex (keccak_text vm (am_skill m)), AHex (am_bodyHash m),
        AInt (am_createdAt m)]"

definition hashA2aTaskRequest :: "viem_lib \<Rightarrow> string \<Rightarrow> hex \<Rightarrow> address \<Rightarrow> int \<Rightarrow> hex js" where
  "hashA2aTaskRequest vm method taskId agentSA chainId =
     keccak_abi vm [TBytes32, TBytes32, TAddress, TUint256]
       [AHex (keccak_text vm (''a2a:request:'' @ method)), AHex taskId, AHex agentSA, AInt chainId]"

record 'w on_chain_checks =
  oc_isRevoked :: "delegation \<Rightarrow> 'w \<Rightarrow> bool js"
  oc_verifyDelegationSignature :: "delegation \<Rightarrow> 'w \<Rightarrow> bool js"
  oc_verifyMessageSignature :: "A2aMessage \<Rightarrow> hex \<Rightarrow> 'w \<Rightarrow> bool js"
  oc_verifyCallerSignature :: "address \<Rightarrow> hex \<Rightarrow> hex \<Rightarrow> 'w \<Rightarrow> bool js"

definition findCaveat :: "caveat list \<Rightarrow> address \<Rightarrow> caveat option" where
  "findCaveat cs e = find (\<lambda>c. eq_ci (enforcer c) e) cs"

text \<open>The checks of the grant that need no chain: \<open>Some\<close> is the reason of the refusal.\<close>

definition scope_refusal ::
  "viem_lib \<Rightarrow> a2a_enforcers \<Rightarrow> delegation \<Rightarrow> address \<Rightarrow> A2aMessage \<Rightarrow> address \<Rightarrow> string \<Rightarrow> int \<Rightarrow> string option" where
  "scope_refusal vm enf d requester message thisAgentSA skill now =
     (if \<not> eq_ci (delegate d) requester then Some ''delegate != requester''
      else if \<not> eq_ci (am_sender message) requester then Some ''message sender != requester''
      else (case findCaveat (caveats d) (ae_timestamp enf) of
        None \<Rightarrow> Some ''missing timestamp caveat''
      | Some tsCav \<Rightarrow>
      (case decodeTimestampTerms vm (terms tsCav) of
        None \<Rightarrow> Some ''bad timestamp terms''
      | Some (validAfter, validUntil) \<Rightarrow>
      (let nowSec = now div 1000 in
       if nowSec < validAfter \<or> nowSec \<ge> validUntil then Some ''grant outside timestamp window''
       else (case findCaveat (caveats d) (ae_allowedTargets enf) of
         None \<Rightarrow> Some ''missing allowedTargets caveat (FR-4.2)''
       | Some atCav \<Rightarrow>
       (case decodeAllowedTargetsTerms vm (terms atCav) of
         None \<Rightarrow> Some ''bad allowedTargets terms''
       | Some targets \<Rightarrow>
       if \<not> list_ex (\<lambda>t. eq_ci t thisAgentSA) targets
       then Some ''grant not scoped to this agent (allowedTargets)''
       else (case findCaveat (caveats d) (ae_allowedMethods enf) of
         None \<Rightarrow> Some ''missing allowedMethods caveat (FR-4.2)''
       | Some amCav \<Rightarrow>
       (case decodeAllowedMethodsTerms vm (terms amCav) of
         None \<Rightarrow> Some ''bad allowedMethods terms''
       | Some selectors \<Rightarrow>
       if \<not> list_ex (\<lambda>s. eq_ci s (skillSelector vm skill) \<or> eq_ci s A2A_ANY_SKILL) selectors
       then Some ''grant not scoped to this skill (allowedMethods)''
       else None))))))))"

text \<open>The checks that read the chain, in the order of the code; a throw refuses.\<close>

definition chain_refusal ::
  "viem_lib \<Rightarrow> 'w on_chain_checks \<Rightarrow> delegation \<Rightarrow> A2aMessage \<Rightarrow> 'w \<Rightarrow> string option" where
  "chain_refusal vm checks d message w =
     (case oc_isRevoked checks d w of
        Inl e \<Rightarrow> Some (''revocation check unavailable: '' @ vm_errorText vm e)
      | Inr True \<Rightarrow> Some ''delegation revoked''
      | Inr False \<Rightarrow>
      (case oc_verifyDelegationSignature checks d w of
        Inl e \<Rightarrow> Some (''delegation signature check failed: '' @ vm_errorText vm e)
      | Inr False \<Rightarrow> Some ''delegation signature invalid''
      | Inr True \<Rightarrow>
      (case js_bind (hashA2aMessage vm message) (\<lambda>h. oc_verifyMessageSignature checks message h w) of
        Inl e \<Rightarrow> Some (''message signature check failed: '' @ vm_errorText vm e)
      | Inr False \<Rightarrow> Some ''message signature invalid''
      | Inr True \<Rightarrow> None)))"

definition authorizeA2aMessage ::
  "viem_lib \<Rightarrow> 's task_store_ops \<Rightarrow> a2a_enforcers \<Rightarrow> 'w on_chain_checks \<Rightarrow> delegation \<Rightarrow> address \<Rightarrow> A2aMessage \<Rightarrow>
   address \<Rightarrow> string \<Rightarrow> int \<Rightarrow> int option \<Rightarrow> 'w \<Rightarrow> 's \<Rightarrow> (string + address) \<times> 's" where
  "authorizeA2aMessage vm ops enf checks d requester message thisAgentSA skill now replayTtlSec w s =
     (case scope_refusal vm enf d requester message thisAgentSA skill now of
        Some reason \<Rightarrow> (Inl reason, s)
      | None \<Rightarrow>
      (case chain_refusal vm checks d message w of
        Some reason \<Rightarrow> (Inl reason, s)
      | None \<Rightarrow>
      (case ts_reserveMessageId ops (am_messageId message)
              (case replayTtlSec of None \<Rightarrow> 600 | Some t \<Rightarrow> t) s of
        (False, s') \<Rightarrow> (Inl ''message id already used (replay)'', s')
      | (True, s') \<Rightarrow> (Inr (delegator d), s'))))"

subsection \<open>What the gate lets through\<close>

text \<open>
  The declarative reading of the scope checks: the grant's delegate sent the message, and the first
  caveat of each of the three kinds admits the time, this agent and the skill.
\<close>

definition grant_covers ::
  "viem_lib \<Rightarrow> a2a_enforcers \<Rightarrow> delegation \<Rightarrow> address \<Rightarrow> string \<Rightarrow> int \<Rightarrow> bool" where
  "grant_covers vm enf d thisAgentSA skill nowSec \<longleftrightarrow>
     (\<exists>ts a u. findCaveat (caveats d) (ae_timestamp enf) = Some ts \<and>
        decodeTimestampTerms vm (terms ts) = Some (a, u) \<and> a \<le> nowSec \<and> nowSec < u) \<and>
     (\<exists>at targets. findCaveat (caveats d) (ae_allowedTargets enf) = Some at \<and>
        decodeAllowedTargetsTerms vm (terms at) = Some targets \<and> (\<exists>t \<in> set targets. eq_ci t thisAgentSA)) \<and>
     (\<exists>ms selectors. findCaveat (caveats d) (ae_allowedMethods enf) = Some ms \<and>
        decodeAllowedMethodsTerms vm (terms ms) = Some selectors \<and>
        (\<exists>x \<in> set selectors. eq_ci x (skillSelector vm skill) \<or> eq_ci x A2A_ANY_SKILL))"

lemma scope_refusal_None:
  "scope_refusal vm enf d requester message me skill now = None \<longleftrightarrow>
   eq_ci (delegate d) requester \<and> eq_ci (am_sender message) requester \<and>
   grant_covers vm enf d me skill (now div 1000)"
  by (auto simp: scope_refusal_def grant_covers_def Let_def list_ex_iff not_le not_less
        split: option.splits prod.splits if_splits)

lemma chain_refusal_None:
  "chain_refusal vm checks d message w = None \<longleftrightarrow>
   oc_isRevoked checks d w = Inr False \<and> oc_verifyDelegationSignature checks d w = Inr True \<and>
   (\<exists>h. hashA2aMessage vm message = Inr h \<and> oc_verifyMessageSignature checks message h w = Inr True)"
  by (auto simp: chain_refusal_def split: sum.splits bool.splits)

subsection \<open>Grants built for one agent and one skill\<close>

lemma find_caveats3:
  assumes "\<not> eq_ci e1 e2" "\<not> eq_ci e1 e3" "\<not> eq_ci e2 e3" "enforcer c1 = e1" "enforcer c2 = e2" "enforcer c3 = e3"
  shows "findCaveat [c1, c2, c3] e1 = Some c1" "findCaveat [c1, c2, c3] e2 = Some c2" "findCaveat [c1, c2, c3] e3 = Some c3"
  using assms by (auto simp: findCaveat_def eq_ci_def)

text \<open>
  A grant with the caveats \<open>buildA2aGrantCaveats\<close> writes is honoured by the gate exactly in its window,
  end excluded, only by the recipient it was built for, and only for skills with the selector of the
  skill it was built for, unless it was built for any skill. This assumes the ABI codec decodes what
  it encoded and the three enforcers are different contracts.
\<close>

theorem built_grant_covers_exactly:
  assumes "abi_roundtrips (vm_codec vm)"
    and "buildA2aGrantCaveats vm recipient skill enf (Whole a) (Whole u) = Inr (caveats d)"
    and "\<not> eq_ci (ae_timestamp enf) (ae_allowedTargets enf)" "\<not> eq_ci (ae_timestamp enf) (ae_allowedMethods enf)"
      "\<not> eq_ci (ae_allowedTargets enf) (ae_allowedMethods enf)"
  shows "grant_covers vm enf d me skill' nowSec \<longleftrightarrow>
           a \<le> nowSec \<and> nowSec < u \<and> eq_ci recipient me \<and>
           (eq_ci (skillSelector vm skill) (skillSelector vm skill') \<or> eq_ci (skillSelector vm skill) A2A_ANY_SKILL)"
proof -
  let ?lib = "vm_codec vm"
  from assms(2) obtain ts at ms where e:
      "encodeTimestampTerms ?lib (Whole a) (Whole u) = Inr ts" "encodeAllowedTargetsTerms ?lib [recipient] = Inr at"
      "encodeAllowedMethodsTerms ?lib [skillSelector vm skill] = Inr ms"
    and c: "caveats d = [buildCaveat (ae_timestamp enf) ts None, buildCaveat (ae_allowedTargets enf) at None,
      buildCaveat (ae_allowedMethods enf) ms None]"
    by (auto simp: buildA2aGrantCaveats_def)
  have ts: "decodeTimestampTerms vm ts = Some (a, u)"
    using e(1) decode_ints2 [OF assms(1), of a u ts] by (simp add: decodeTimestampTerms_def)
  obtain t where t: "decodeAllowedTargetsTerms vm at = Some [t]" "toLowerCase t = toLowerCase recipient"
    using e(2) decode_hexes [OF assms(1), of "TArray TAddress" "[recipient]" at] by (auto simp: decodeAllowedTargetsTerms_def)
  obtain m where m: "decodeAllowedMethodsTerms vm ms = Some [m]" "toLowerCase m = toLowerCase (skillSelector vm skill)"
    using e(3) decode_hexes [OF assms(1), of "TArray TBytes4" "[skillSelector vm skill]" ms]
    by (auto simp: decodeAllowedMethodsTerms_def)
  show ?thesis
    using ts t m find_caveats3 [OF assms(3-5), of "buildCaveat (ae_timestamp enf) ts None"
        "buildCaveat (ae_allowedTargets enf) at None" "buildCaveat (ae_allowedMethods enf) ms None"]
    unfolding grant_covers_def c by (auto simp: buildCaveat_def eq_ci_def)
qed

text \<open>A codec for the three term formats, on which the assumptions hold.\<close>

definition grant_codec :: crypto_lib where
  "grant_codec =
     \<lparr>encodeAbiParameters = (\<lambda>ts vs.
        if ts = [TUint256, TUint256] then (case vs of [AInt a, AInt u] \<Rightarrow> Inr (int_str a @ '','' @ int_str u) | _ \<Rightarrow> Inl TypeError)
        else (case vs of [AList [AHex h]] \<Rightarrow> Inr h | _ \<Rightarrow> Inl TypeError)),
      decodeAbiParameters = (\<lambda>ts h.
        if ts = [TUint256, TUint256] then (case map BigInt_text (split_on (CHR '','') h) of
             [Some a, Some u] \<Rightarrow> Inr [AInt a, AInt u] | _ \<Rightarrow> Inl ''bad'')
        else Inr [AList [AHex h]]),
      keccak256 = (\<lambda>h. h), keccak_256 = (\<lambda>bs. bs), hashTypedData = (\<lambda>dm ts p m. Inr ''0x'')\<rparr>"

definition grant_viem :: viem_lib where
  "grant_viem = \<lparr>vm_codec = grant_codec, vm_toBytes = TextEncoder, vm_keccakBytes = (\<lambda>bs. ''0x'' @ bytes_hex bs),
     vm_errorText = (\<lambda>_. ''error'')\<rparr>"

lemma int_str_no_comma: "CHR '','' \<notin> set (int_str n)"
  using nat_str_digits [of "CHR '',''"] by (auto simp: int_str_def is_digit_def)

lemma grant_codec_roundtrips: "abi_roundtrips grant_codec"
proof -
  have "map BigInt_text (split_on (CHR '','') (int_str a @ '','' @ int_str u)) = [Some a, Some u]" for a u
    using split_on_join [of "[int_str a, int_str u]" "CHR '',''"] int_str_no_comma
    by (simp add: BigInt_text_int_str)
  then show ?thesis
    by (auto simp: abi_roundtrips_def grant_codec_def split: if_splits list.splits abi_val.splits)
qed

theorem built_grant_covers_exactly_witness:
  "\<exists>d enf. buildA2aGrantCaveats grant_viem ''0xA9'' ''greet'' enf (Whole 10) (Whole 20) = Inr (caveats d) \<and>
     grant_covers grant_viem enf d ''0xa9'' ''greet'' 19 \<and> \<not> grant_covers grant_viem enf d ''0xa9'' ''greet'' 20 \<and>
     \<not> grant_covers grant_viem enf d ''0xa8'' ''greet'' 19 \<and> \<not> grant_covers grant_viem enf d ''0xa9'' ''admin'' 19"
proof -
  define enf where "enf = \<lparr>ae_allowedTargets = ''0x73'', ae_allowedMethods = ''0x74'', ae_timestamp = ''0x71''\<rparr>"
  define cs where "cs = (case buildA2aGrantCaveats grant_viem ''0xA9'' ''greet'' enf (Whole 10) (Whole 20) of Inr c \<Rightarrow> c | Inl _ \<Rightarrow> [])"
  define d where "d = \<lparr>delegator = [], delegate = [], authority = [], caveats = cs, salt_of = SaltBig 0, signature = []\<rparr>"
  have b: "buildA2aGrantCaveats grant_viem ''0xA9'' ''greet'' enf (Whole 10) (Whole 20) = Inr (caveats d)"
    unfolding d_def cs_def enf_def by code_simp
  have n: "\<not> eq_ci (ae_timestamp enf) (ae_allowedTargets enf)" "\<not> eq_ci (ae_timestamp enf) (ae_allowedMethods enf)"
      "\<not> eq_ci (ae_allowedTargets enf) (ae_allowedMethods enf)"
    unfolding enf_def by code_simp+
  have r: "abi_roundtrips (vm_codec grant_viem)" by (simp add: grant_viem_def grant_codec_roundtrips)
  have s: "eq_ci ''0xA9'' ''0xa9''" "\<not> eq_ci ''0xA9'' ''0xa8''"
      "\<not> eq_ci (skillSelector grant_viem ''greet'') (skillSelector grant_viem ''admin'')"
      "\<not> eq_ci (skillSelector grant_viem ''greet'') A2A_ANY_SKILL"
    by code_simp+
  note g = built_grant_covers_exactly [OF r b n]
  have "grant_covers grant_viem enf d ''0xa9'' ''greet'' 19" unfolding g using s by simp
  moreover have "\<not> grant_covers grant_viem enf d ''0xa9'' ''greet'' 20" unfolding g by simp
  moreover have "\<not> grant_covers grant_viem enf d ''0xa8'' ''greet'' 19" unfolding g using s by simp
  moreover have "\<not> grant_covers grant_viem enf d ''0xa9'' ''admin'' 19" unfolding g using s by simp
  ultimately show ?thesis using b by blast
qed

end
