(* ===== verification/A2aAgent.thy ===== *)
theory A2aAgent
  imports A2aAuth
begin

section \<open>A2A: the embeddable agent\<close>

text \<open>
  \<open>packages/a2a/src/agent.ts\<close> and \<open>push.ts\<close>: the method handlers \<open>messageSend\<close>, \<open>resubmit\<close>,
  \<open>tasksGet\<close>, \<open>tasksCancel\<close>, \<open>pushConfigSet\<close>, the alarm body \<open>processDue\<close> and the signed push. The
  agent's state is its task store, its artifact counter and the world outside (vault, chain, clock,
  webhooks), which the injected functions of the configuration read and change. An answer is an
  \<open>RpcOk\<close> or an \<open>RpcErr\<close>; a promise that rejects is an \<open>Inl\<close>.

  Processing one due task awaits the vault and the skill between its read of the record and its
  write, so it is split into \<open>process_load\<close> and \<open>process_finish\<close>, between which other requests can
  run.
\<close>

datatype 'a rpc = RpcOk 'a | RpcErr int string

definition RPC_INVALID_REQUEST :: int where "RPC_INVALID_REQUEST = -32600"
definition RPC_UNAUTHORIZED :: int where "RPC_UNAUTHORIZED = -32001"
definition RPC_NOT_FOUND :: int where "RPC_NOT_FOUND = -32004"

record push_payload =
  pp_taskId :: hex
  pp_state :: TaskState
  pp_artifactIds :: "hex list"
  pp_ts :: int

record push_envelope =
  pe_payload :: push_payload
  pe_signature :: hex
  pe_token :: "string option"

record ('d, 'w) a2a_config =
  ac_viem :: viem_lib
  ac_agentSA :: address
  ac_chainId :: int
  ac_delegationManager :: address
  ac_enforcers :: a2a_enforcers
  ac_checks :: "'w on_chain_checks"
  ac_handlers :: "('d, 'w) skill_handler list"
  ac_vaultRead :: "VaultRef \<Rightarrow> 'w \<Rightarrow> 'd js \<times> 'w"
  ac_vaultWrite :: "address \<Rightarrow> string \<Rightarrow> 'd \<Rightarrow> 'w \<Rightarrow> VaultRef js \<times> 'w"
  ac_now :: "'w \<Rightarrow> int"
  ac_newTaskId :: "('w \<Rightarrow> hex \<times> 'w) option"
  ac_newArtifactId :: "('w \<Rightarrow> hex \<times> 'w) option"
  ac_hashBody :: "'d \<Rightarrow> hex"
  ac_signTerminal :: "(hex \<Rightarrow> 'w \<Rightarrow> hex js \<times> 'w) option"
  ac_pushSender :: "(string \<Rightarrow> push_envelope \<Rightarrow> 'w \<Rightarrow> unit js \<times> 'w) option"
  ac_handoffPolicy :: "HandoffPolicy option"
  ac_paymentGate :: "('d gate_args \<Rightarrow> 'w \<Rightarrow> 'd gate_decision js \<times> 'w) option"

record ('w, 's) agent_state =
  as_store :: 's
  as_artCounter :: nat
  as_world :: 'w

record 'd send_params =
  ms_delegation :: delegation
  ms_requester :: address
  ms_message :: A2aMessage
  ms_input :: 'd
  ms_pushConfig :: "PushConfig option"

subsection \<open>Signed push\<close>

definition hashPushPayload :: "viem_lib \<Rightarrow> push_payload \<Rightarrow> hex js" where
  "hashPushPayload vm p =
     keccak_abi vm [TBytes32, TBytes32, TArray TBytes32, TUint256]
       [AHex (pp_taskId p), AHex (keccak_text vm (task_state_str (pp_state p))),
        AList (map AHex (pp_artifactIds p)), AInt (pp_ts p)]"

fun push_attempts ::
  "(string \<Rightarrow> push_envelope \<Rightarrow> 'w \<Rightarrow> unit js \<times> 'w) \<Rightarrow> string \<Rightarrow> push_envelope \<Rightarrow> nat \<Rightarrow> 'w \<Rightarrow> bool \<times> 'w" where
  "push_attempts send url env 0 w = (False, w)"
| "push_attempts send url env (Suc n) w =
     (case send url env w of
        (Inr _, w') \<Rightarrow> (True, w')
      | (Inl _, w') \<Rightarrow> push_attempts send url env n w')"

definition deliverPush ::
  "viem_lib \<Rightarrow> TaskRecord \<Rightarrow> (hex \<Rightarrow> 'w \<Rightarrow> hex js \<times> 'w) \<Rightarrow> (string \<Rightarrow> push_envelope \<Rightarrow> 'w \<Rightarrow> unit js \<times> 'w) \<Rightarrow>
   int \<Rightarrow> nat \<Rightarrow> 'w \<Rightarrow> bool js \<times> 'w" where
  "deliverPush vm record sign send now retries w =
     (case tr_pushConfig record of
        None \<Rightarrow> (Inr False, w)
      | Some pc \<Rightarrow>
          if pc_url pc = [] then (Inr False, w)
          else
            (let payload = \<lparr>pp_taskId = task_id record, pp_state = state_of record,
                            pp_artifactIds = task_artifactIds (tr_task record), pp_ts = now div 1000\<rparr>
             in case hashPushPayload vm payload of
                  Inl e \<Rightarrow> (Inl e, w)
                | Inr digest \<Rightarrow>
                    (case sign digest w of
                       (Inl e, w') \<Rightarrow> (Inl e, w')
                     | (Inr sig, w') \<Rightarrow>
                         (case push_attempts send (pc_url pc)
                                 \<lparr>pe_payload = payload, pe_signature = sig, pe_token = pc_token pc\<rparr> (Suc retries) w' of
                            (b, w'') \<Rightarrow> (Inr b, w'')))))"

definition verifyPushEnvelope ::
  "viem_lib \<Rightarrow> push_envelope \<Rightarrow> address \<Rightarrow> (address \<Rightarrow> hex \<Rightarrow> hex \<Rightarrow> bool js) \<Rightarrow> bool js" where
  "verifyPushEnvelope vm env assigneeSA verify =
     js_bind (hashPushPayload vm (pe_payload env)) (\<lambda>digest. verify assigneeSA digest (pe_signature env))"

subsection \<open>Identifiers\<close>

definition DEFAULT_TASK_ID :: hex where
  "DEFAULT_TASK_ID = ''0x'' @ replicate 62 (CHR ''0'') @ ''01''"

definition new_task_id :: "('d, 'w) a2a_config \<Rightarrow> 'w \<Rightarrow> hex \<times> 'w" where
  "new_task_id cf w = (case ac_newTaskId cf of None \<Rightarrow> (DEFAULT_TASK_ID, w) | Some f \<Rightarrow> f w)"

definition newArtifactId :: "('d, 'w) a2a_config \<Rightarrow> 'w skill_state \<Rightarrow> hex \<times> 'w skill_state" where
  "newArtifactId cf s =
     (case ac_newArtifactId cf of
        Some f \<Rightarrow> (case f (sk_world s) of (i, w') \<Rightarrow> (i, s\<lparr>sk_world := w'\<rparr>))
      | None \<Rightarrow>
          (let n = Suc (sk_artCounter s)
           in (''0x'' @ hex_pad64 (int n), s\<lparr>sk_artCounter := n\<rparr>)))"

definition emitArtifact ::
  "('d, 'w) a2a_config \<Rightarrow> 'd emit_request \<Rightarrow> 'w skill_state \<Rightarrow> hex js \<times> 'w skill_state" where
  "emitArtifact cf a s =
     (case newArtifactId cf s of
        (artifactId, s1) \<Rightarrow>
          (case ac_vaultWrite cf (ac_agentSA cf) (''a2a:artifact:'' @ artifactId) (em_body a) (sk_world s1) of
             (Inl e, w') \<Rightarrow> (Inl e, s1\<lparr>sk_world := w'\<rparr>)
           | (Inr bodyRef, w') \<Rightarrow>
               (Inr artifactId,
                s1\<lparr>sk_world := w',
                   sk_captured := sk_captured s1 @
                     [\<lparr>art_artifactId = artifactId,
                       art_caseId = (case em_caseId a of None \<Rightarrow> ZERO_HASH | Some c \<Rightarrow> c),
                       art_taskId = None, art_producer = ac_agentSA cf, art_artifactKind = em_artifactKind a,
                       art_bodyHash = ac_hashBody cf (em_body a),
                       art_bodyContentType = (case em_bodyContentType a of None \<Rightarrow> ''application/json'' | Some c \<Rightarrow> c),
                       art_disclosurePolicy = (case em_disclosurePolicy a of None \<Rightarrow> ''private'' | Some c \<Rightarrow> c),
                       art_createdAt = ac_now cf w', art_bodyRef = bodyRef\<rparr>]\<rparr>)))"

subsection \<open>Authentication of callers\<close>

definition verifyCaller ::
  "('d, 'w) a2a_config \<Rightarrow> string \<Rightarrow> hex \<Rightarrow> address \<Rightarrow> hex \<Rightarrow> 'w \<Rightarrow> unit rpc js" where
  "verifyCaller cf method taskId caller sig w =
     (if sig = [] \<or> sig = ''0x'' then Inr (RpcErr RPC_UNAUTHORIZED ''caller signature required'')
      else js_bind (hashA2aTaskRequest (ac_viem cf) method taskId (ac_agentSA cf) (ac_chainId cf)) (\<lambda>digest.
        Inr (case oc_verifyCallerSignature (ac_checks cf) caller digest sig w of
               Inr True \<Rightarrow> RpcOk ()
             | _ \<Rightarrow> RpcErr RPC_UNAUTHORIZED ''caller signature invalid'')))"

text \<open>
  The common head of the three caller-authenticated methods: look the task up, verify the caller,
  check that it is a party. It answers the record, or the error, and changes nothing.
\<close>

definition party_task ::
  "('d, 'w) a2a_config \<Rightarrow> 's task_store_ops \<Rightarrow> string \<Rightarrow> hex \<Rightarrow> address \<Rightarrow> hex \<Rightarrow> ('w, 's) agent_state \<Rightarrow>
   TaskRecord rpc js" where
  "party_task cf ops method taskId caller sig st =
     (case ts_get ops taskId (as_store st) of
        None \<Rightarrow> Inr (RpcErr RPC_NOT_FOUND ''unknown task'')
      | Some rec \<Rightarrow>
          js_bind (verifyCaller cf method taskId caller sig (as_world st)) (\<lambda>authd.
            Inr (case authd of
                   RpcErr c m \<Rightarrow> RpcErr c m
                 | RpcOk _ \<Rightarrow>
                     if \<not> eq_ci caller (tr_sender rec) \<and> \<not> eq_ci caller (task_assignee (tr_task rec))
                     then RpcErr RPC_UNAUTHORIZED ''not a party to this task''
                     else RpcOk rec)))"

subsection \<open>Method handlers\<close>

text \<open>
  The part \<open>messageSend\<close> and \<open>resubmit\<close> share: the gate, the body hash, and the write of the input to
  the agent's vault. The reserved message id stays reserved whatever fails after the gate.
\<close>

definition admit ::
  "('d, 'w) a2a_config \<Rightarrow> 's task_store_ops \<Rightarrow> 'd send_params \<Rightarrow> string \<Rightarrow> ('w, 's) agent_state \<Rightarrow>
   (address \<times> VaultRef) rpc js \<times> ('w, 's) agent_state" where
  "admit cf ops p skill st =
     (case authorizeA2aMessage (ac_viem cf) ops (ac_enforcers cf) (ac_checks cf) (ms_delegation p) (ms_requester p)
             (ms_message p) (ac_agentSA cf) skill (ac_now cf (as_world st)) None (as_world st) (as_store st) of
        (Inl reason, s') \<Rightarrow> (Inr (RpcErr RPC_UNAUTHORIZED reason), st\<lparr>as_store := s'\<rparr>)
      | (Inr prin, s') \<Rightarrow>
          if \<not> eq_ci (ac_hashBody cf (ms_input p)) (am_bodyHash (ms_message p))
          then (Inr (RpcErr RPC_INVALID_REQUEST ''input does not match signed bodyHash''), st\<lparr>as_store := s'\<rparr>)
          else (case ac_vaultWrite cf (ac_agentSA cf) (''a2a:msg:'' @ am_messageId (ms_message p)) (ms_input p)
                       (as_world st) of
                  (Inl e, w') \<Rightarrow> (Inl e, st\<lparr>as_store := s', as_world := w'\<rparr>)
                | (Inr bodyRef, w') \<Rightarrow> (Inr (RpcOk (prin, bodyRef)), st\<lparr>as_store := s', as_world := w'\<rparr>)))"

definition messageSend ::
  "('d, 'w) a2a_config \<Rightarrow> 's task_store_ops \<Rightarrow> 'd send_params \<Rightarrow> ('w, 's) agent_state \<Rightarrow>
   (hex \<times> TaskState) rpc js \<times> ('w, 's) agent_state" where
  "messageSend cf ops p st =
     (case admit cf ops p (am_skill (ms_message p)) st of
        (Inl e, st') \<Rightarrow> (Inl e, st')
      | (Inr (RpcErr c m), st') \<Rightarrow> (Inr (RpcErr c m), st')
      | (Inr (RpcOk (prin, bodyRef)), st') \<Rightarrow>
          (let message = (ms_message p)\<lparr>am_bodyRef := bodyRef\<rparr>
           in case new_task_id cf (as_world st') of
                (taskId, w') \<Rightarrow>
                  (case hashDelegation (vm_codec (ac_viem cf)) (ms_delegation p) (ac_chainId cf) (ac_delegationManager cf) of
                     Inl e \<Rightarrow> (Inl e, st'\<lparr>as_world := w'\<rparr>)
                   | Inr grantRef \<Rightarrow>
                       (let record = newTaskRecord
                              \<lparr>nt_taskId = taskId, nt_principal = prin, nt_assignee = ac_agentSA cf,
                               nt_sender = ms_requester p, nt_skill = am_skill message,
                               nt_delegation = ms_delegation p, nt_inbound = message,
                               nt_permissionGrantRef = grantRef, nt_inputHash = am_bodyHash message,
                               nt_now = ac_now cf w', nt_deadline = None, nt_maxRetries = None, nt_parentCaseId = None\<rparr>;
                            withPush = (case ms_pushConfig p of None \<Rightarrow> record | Some pc \<Rightarrow> record\<lparr>tr_pushConfig := Some pc\<rparr>)
                        in (Inr (RpcOk (taskId, Submitted)),
                            st'\<lparr>as_store := ts_put ops withPush (as_store st'), as_world := w'\<rparr>)))))"

definition resubmit ::
  "('d, 'w) a2a_config \<Rightarrow> 's task_store_ops \<Rightarrow> hex \<Rightarrow> 'd send_params \<Rightarrow> ('w, 's) agent_state \<Rightarrow>
   (hex \<times> TaskState) rpc js \<times> ('w, 's) agent_state" where
  "resubmit cf ops taskId p st =
     (case ts_get ops taskId (as_store st) of
        None \<Rightarrow> (Inr (RpcErr RPC_NOT_FOUND ''unknown task''), st)
      | Some rec \<Rightarrow>
          if state_of rec \<noteq> AuthRequired then (Inr (RpcErr RPC_INVALID_REQUEST ''task is not awaiting auth''), st)
          else if \<not> eq_ci (ms_requester p) (tr_sender rec)
          then (Inr (RpcErr RPC_UNAUTHORIZED ''only the original sender may resubmit''), st)
          else if \<not> eq_ci (am_skill (ms_message p)) (tr_skill rec)
          then (Inr (RpcErr RPC_INVALID_REQUEST ''skill mismatch on resubmit''), st)
          else (case admit cf ops p (tr_skill rec) st of
                  (Inl e, st') \<Rightarrow> (Inl e, st')
                | (Inr (RpcErr c m), st') \<Rightarrow> (Inr (RpcErr c m), st')
                | (Inr (RpcOk (prin, bodyRef)), st') \<Rightarrow>
                    (case applyTransition rec Submitted (ac_now cf (as_world st')) None of
                       Inl reason \<Rightarrow> (Inr (RpcErr RPC_INVALID_REQUEST reason), st')
                     | Inr (r, ev) \<Rightarrow>
                         (Inr (RpcOk (taskId, Submitted)),
                          st'\<lparr>as_store := ts_put ops
                                (r\<lparr>tr_delegation := ms_delegation p,
                                   tr_task := (tr_task r)\<lparr>task_inputHash := am_bodyHash (ms_message p)\<rparr>,
                                   tr_inbound := tr_inbound r @ [(ms_message p)\<lparr>am_bodyRef := bodyRef\<rparr>]\<rparr>)
                                (as_store st')\<rparr>))))"

definition tasksGet ::
  "('d, 'w) a2a_config \<Rightarrow> 's task_store_ops \<Rightarrow> hex \<Rightarrow> address \<Rightarrow> hex \<Rightarrow> ('w, 's) agent_state \<Rightarrow>
   (Task \<times> string option \<times> VaultRef list) rpc js" where
  "tasksGet cf ops taskId caller sig st =
     js_bind (party_task cf ops ''tasks/get'' taskId caller sig st) (\<lambda>r.
       Inr (case r of
              RpcErr c m \<Rightarrow> RpcErr c m
            | RpcOk rec \<Rightarrow> RpcOk (tr_task rec, tr_error rec, map art_bodyRef (tr_artifacts rec))))"

definition tasksCancel ::
  "('d, 'w) a2a_config \<Rightarrow> 's task_store_ops \<Rightarrow> hex \<Rightarrow> address \<Rightarrow> hex \<Rightarrow> ('w, 's) agent_state \<Rightarrow>
   (hex \<times> TaskState) rpc js \<times> ('w, 's) agent_state" where
  "tasksCancel cf ops taskId caller sig st =
     (case party_task cf ops ''tasks/cancel'' taskId caller sig st of
        Inl e \<Rightarrow> (Inl e, st)
      | Inr (RpcErr c m) \<Rightarrow> (Inr (RpcErr c m), st)
      | Inr (RpcOk rec) \<Rightarrow>
          (case applyTransition rec Canceled (ac_now cf (as_world st)) None of
             Inl reason \<Rightarrow> (Inr (RpcErr RPC_INVALID_REQUEST reason), st)
           | Inr (r, ev) \<Rightarrow>
               (Inr (RpcOk (taskId, Canceled)), st\<lparr>as_store := ts_put ops r (as_store st)\<rparr>)))"

definition pushConfigSet ::
  "('d, 'w) a2a_config \<Rightarrow> 's task_store_ops \<Rightarrow> hex \<Rightarrow> address \<Rightarrow> hex \<Rightarrow> string \<Rightarrow> string option \<Rightarrow>
   ('w, 's) agent_state \<Rightarrow> hex rpc js \<times> ('w, 's) agent_state" where
  "pushConfigSet cf ops taskId caller sig url token st =
     (case party_task cf ops ''tasks/pushNotificationConfig/set'' taskId caller sig st of
        Inl e \<Rightarrow> (Inl e, st)
      | Inr (RpcErr c m) \<Rightarrow> (Inr (RpcErr c m), st)
      | Inr (RpcOk rec) \<Rightarrow>
          (let pushConfig = \<lparr>pc_url = url, pc_token = (if truthy token then token else None)\<rparr>
           in (Inr (RpcOk taskId), st\<lparr>as_store := ts_put ops (rec\<lparr>tr_pushConfig := Some pushConfig\<rparr>) (as_store st)\<rparr>)))"

subsection \<open>The alarm body\<close>

definition process_load :: "'s task_store_ops \<Rightarrow> hex \<Rightarrow> 's \<Rightarrow> TaskRecord option" where
  "process_load ops taskId s =
     (case ts_get ops taskId s of
        None \<Rightarrow> None
      | Some rec \<Rightarrow> if state_of rec \<noteq> Submitted then None else Some rec)"

definition process_finish ::
  "('d, 'w) a2a_config \<Rightarrow> 's task_store_ops \<Rightarrow> ('d, 'w) registry \<Rightarrow> TaskRecord \<Rightarrow> ('w, 's) agent_state \<Rightarrow>
   TaskEvent list js \<times> ('w, 's) agent_state" where
  "process_finish cf ops reg rec st =
     (case rev (tr_inbound rec) of
        [] \<Rightarrow> (Inl TypeError, st)
      | m # _ \<Rightarrow>
          (case ac_vaultRead cf (am_bodyRef m) (as_world st) of
             (Inl e, w') \<Rightarrow> (Inl e, st\<lparr>as_world := w'\<rparr>)
           | (Inr input, w') \<Rightarrow>
               (case dispatchTask (emitArtifact cf) reg input (tr_delegation rec) (ac_now cf w') (ac_handoffPolicy cf) rec
                       \<lparr>sk_world = w', sk_artCounter = as_artCounter st, sk_captured = []\<rparr> of
                  ((processed, evs), k) \<Rightarrow>
                    (let merged = processed\<lparr>tr_artifacts := tr_artifacts processed @ sk_captured k\<rparr>;
                         st' = \<lparr>as_store = ts_put ops merged (as_store st), as_artCounter = sk_artCounter k,
                                as_world = sk_world k\<rparr>
                     in if isTerminal (state_of merged) \<and> tr_pushConfig merged \<noteq> None
                        then (case (ac_pushSender cf, ac_signTerminal cf) of
                                (Some send, Some sign) \<Rightarrow>
                                  (case deliverPush (ac_viem cf) merged sign send (ac_now cf (as_world st')) 2 (as_world st') of
                                     (Inl e, w'') \<Rightarrow> (Inl e, st'\<lparr>as_world := w''\<rparr>)
                                   | (Inr _, w'') \<Rightarrow> (Inr evs, st'\<lparr>as_world := w''\<rparr>))
                              | _ \<Rightarrow> (Inr evs, st'))
                        else (Inr evs, st')))))"

definition process_one ::
  "('d, 'w) a2a_config \<Rightarrow> 's task_store_ops \<Rightarrow> ('d, 'w) registry \<Rightarrow> hex \<Rightarrow> ('w, 's) agent_state \<Rightarrow>
   TaskEvent list js \<times> ('w, 's) agent_state" where
  "process_one cf ops reg taskId st =
     (case process_load ops taskId (as_store st) of
        None \<Rightarrow> (Inr [], st)
      | Some rec \<Rightarrow> process_finish cf ops reg rec st)"

fun process_all ::
  "('d, 'w) a2a_config \<Rightarrow> 's task_store_ops \<Rightarrow> ('d, 'w) registry \<Rightarrow> hex list \<Rightarrow> TaskEvent list \<Rightarrow>
   ('w, 's) agent_state \<Rightarrow> TaskEvent list js \<times> ('w, 's) agent_state" where
  "process_all cf ops reg [] events st = (Inr events, st)"
| "process_all cf ops reg (i # is) events st =
     (case process_one cf ops reg i st of
        (Inl e, st') \<Rightarrow> (Inl e, st')
      | (Inr evs, st') \<Rightarrow> process_all cf ops reg is (events @ evs) st')"

definition processDue ::
  "('d, 'w) a2a_config \<Rightarrow> 's task_store_ops \<Rightarrow> ('d, 'w) registry \<Rightarrow> ('w, 's) agent_state \<Rightarrow>
   TaskEvent list js \<times> ('w, 's) agent_state" where
  "processDue cf ops reg st =
     process_all cf ops reg (ts_listDue ops (ac_now cf (as_world st)) (as_store st)) [] st"

subsection \<open>The card, and making an agent\<close>

record agent_card =
  cd_name :: string
  cd_url :: string
  cd_version :: string
  cd_extensions :: "(string \<times> bool \<times> string) list"
  cd_skills :: "(string \<times> skill_payment option) list"

definition X402_EXTENSION_URI :: string where
  "X402_EXTENSION_URI = ''https://github.com/google-a2a/a2a-x402/v0.1''"

definition x402AgentCardExtension :: "string \<times> bool \<times> string" where
  "x402AgentCardExtension = (X402_EXTENSION_URI, False, ''x402 pay-per-use for priced skills'')"

definition agentCard :: "('d, 'w) a2a_config \<Rightarrow> agent_card" where
  "agentCard cf =
     \<lparr>cd_name = ac_agentSA cf, cd_url = ''/api/a2a'', cd_version = ''0.1.0'',
      cd_extensions = (if list_ex (\<lambda>h. sh_payment h \<noteq> None) (ac_handlers cf) then [x402AgentCardExtension] else []),
      cd_skills = map (\<lambda>h. (sh_skill h, sh_payment h)) (ac_handlers cf)\<rparr>"

definition createA2aAgent :: "('d, 'w) a2a_config \<Rightarrow> ('d, 'w) registry js" where
  "createA2aAgent cf = buildSkillRegistry (ac_handlers cf)"

end
