(* ===== verification/A2aRuns.thy ===== *)
theory A2aRuns
  imports A2aAgent
begin

section \<open>A2A: runs of the agent over a task store\<close>

text \<open>
  The contract of a task store as a locale, with the in-memory store as its model; the steps an agent
  can take between two requests as an inductive relation; and, inside the locale, what a step does to
  each stored task: it follows the fulfillment transition table and keeps who the task belongs to.
\<close>

subsection \<open>Transitions of the runtime\<close>

lemma applyTransition_Inr:
  "applyTransition r to now err = Inr (r', ev) \<longleftrightarrow>
   canTaskTransition (state_of r) to \<and>
   r' = r\<lparr>tr_task := (tr_task r)\<lparr>task_state := to\<rparr>, tr_error := (if to = Failed then err else tr_error r),
          tr_rev := tr_rev r + 1, tr_updatedAt := now\<rparr> \<and>
   ev = TaskStatus (task_id r) to (tr_rev r + 1) None"
  by (cases "state_of r") (auto simp: applyTransition_def Let_def canTaskTransition_def)

lemma applyTransition_Inl:
  "applyTransition r to now err = Inl e \<Longrightarrow> \<not> canTaskTransition (state_of r) to"
  using applyTransition_Inr [of r to now err] by (metis Inl_Inr_False)

text \<open>What a transition never touches: the identity of a task and who takes part in it.\<close>

definition same_parties :: "TaskRecord \<Rightarrow> TaskRecord \<Rightarrow> bool" where
  "same_parties r r' \<longleftrightarrow>
     task_id r' = task_id r \<and> task_assignee (tr_task r') = task_assignee (tr_task r) \<and>
     tr_principal r' = tr_principal r \<and> tr_sender r' = tr_sender r \<and> tr_skill r' = tr_skill r \<and>
     task_permissionGrantRef (tr_task r') = task_permissionGrantRef (tr_task r)"

definition same_request :: "TaskRecord \<Rightarrow> TaskRecord \<Rightarrow> bool" where
  "same_request r r' \<longleftrightarrow>
     same_parties r r' \<and> tr_delegation r' = tr_delegation r \<and> tr_inbound r' = tr_inbound r \<and>
     task_inputHash (tr_task r') = task_inputHash (tr_task r)"

lemma same_request_parties: "same_request r r' \<Longrightarrow> same_parties r r'"
  by (simp add: same_request_def)

lemma same_refl [simp]: "same_parties r r" "same_request r r"
  by (simp_all add: same_parties_def same_request_def)

lemma same_parties_trans: "same_parties r r' \<Longrightarrow> same_parties r' r'' \<Longrightarrow> same_parties r r''"
  by (simp add: same_parties_def)

text \<open>From \<open>working\<close> every outcome of a skill leads on, and never back.\<close>

definition settled_from_working :: "TaskRecord \<Rightarrow> TaskRecord \<Rightarrow> bool" where
  "settled_from_working cur r \<longleftrightarrow> canTaskTransition Working (state_of r) \<and> same_request cur r"

lemmas transition_simps = applyTransition_def Let_def canTaskTransition_def same_request_def same_parties_def

lemma advance_from_working:
  assumes "state_of cur = Working" "canTaskTransition Working to" "\<And>r. same_request r (patch r) \<and> state_of (patch r) = state_of r"
  shows "settled_from_working cur (fst (advance cur evs to now err patch))"
proof -
  define r where "r = cur\<lparr>tr_task := (tr_task cur)\<lparr>task_state := to\<rparr>,
      tr_error := (if to = Failed then err else tr_error cur), tr_rev := tr_rev cur + 1, tr_updatedAt := now\<rparr>"
  have "applyTransition cur to now err = Inr (r, TaskStatus (task_id cur) to (tr_rev cur + 1) None)"
    using assms(1,2) by (simp add: applyTransition_Inr r_def)
  then have "fst (advance cur evs to now err patch) = patch r" by (simp add: advance_def)
  moreover have "same_request cur r" "state_of r = to" by (simp_all add: r_def same_request_def same_parties_def)
  ultimately show ?thesis
    using assms(2,3) unfolding settled_from_working_def same_request_def same_parties_def by metis
qed

lemma skill_raised_settles:
  assumes "state_of cur = Working"
  shows "settled_from_working cur (fst (skill_raised policy now cur evs e))"
  unfolding skill_raised_def
  by (auto split: skill_exn.split intro!: advance_from_working [OF assms]
      simp: canTaskTransition_def same_request_def same_parties_def)

lemma skill_returned_settles:
  assumes "state_of cur = Working"
  shows "settled_from_working cur (fst (skill_returned now cur evs result))"
proof (cases "applyTransition cur (sr_state result) now (sr_error result)")
  case (Inl e)
  then show ?thesis
    by (auto simp: skill_returned_def intro!: advance_from_working [OF assms])
       (auto simp: canTaskTransition_def)
next
  case (Inr p)
  then obtain r ev where t: "applyTransition cur (sr_state result) now (sr_error result) = Inr (r, ev)" by (cases p) auto
  from iffD1 [OF applyTransition_Inr t] assms
  have "canTaskTransition Working (state_of r)" "same_request cur r" by (auto simp: same_request_def same_parties_def)
  then show ?thesis by (simp add: skill_returned_def t settled_from_working_def same_request_def same_parties_def)
qed

text \<open>
  Dispatching a submitted task settles it: it ends, or is parked for input or authorization, but it
  is never left submitted or working, and it stays the same request of the same parties.
\<close>

definition settled :: "TaskState \<Rightarrow> bool" where
  "settled s \<longleftrightarrow> s \<noteq> Submitted \<and> s \<noteq> Working"

lemma settled_targets: "canTaskTransition Working s \<Longrightarrow> settled s \<and> task_reaches Submitted s"
proof -
  assume w: "canTaskTransition Working s"
  have "task_reaches Submitted Working" by (rule task_reaches_step) (simp add: canTaskTransition_def)
  with w task_reaches_step have "task_reaches Submitted s" by (blast intro: task_reaches_trans)
  with w show ?thesis by (auto simp: settled_def canTaskTransition_def)
qed

lemma dispatchTask_settles:
  assumes "state_of r = Submitted" "dispatchTask emit reg input d now policy r s = ((r', evs), s')"
  shows "settled (state_of r') \<and> task_reaches Submitted (state_of r') \<and> same_request r r'"
proof (cases "reg (tr_skill r)")
  case None
  have "applyTransition r Rejected now (Some (''unknown skill: '' @ tr_skill r)) =
      Inr (r\<lparr>tr_task := (tr_task r)\<lparr>task_state := Rejected\<rparr>, tr_rev := tr_rev r + 1, tr_updatedAt := now\<rparr>,
           TaskStatus (task_id r) Rejected (tr_rev r + 1) None)"
    using assms(1) by (simp add: applyTransition_Inr canTaskTransition_def)
  moreover have "task_reaches Submitted Rejected" by (rule task_reaches_step) (simp add: canTaskTransition_def)
  ultimately show ?thesis
    using assms None by (auto simp: dispatchTask_def Let_def advance_def settled_def same_request_def same_parties_def)
next
  case (Some h)
  define cur where "cur = r\<lparr>tr_task := (tr_task r)\<lparr>task_state := Working\<rparr>, tr_rev := tr_rev r + 1, tr_updatedAt := now\<rparr>"
  have cur: "state_of cur = Working" "same_request r cur" by (simp_all add: cur_def same_request_def same_parties_def)
  have a: "applyTransition r Working now None = Inr (cur, TaskStatus (task_id r) Working (tr_rev r + 1) None)"
    using assms(1) by (simp add: applyTransition_Inr canTaskTransition_def cur_def)
  have "settled_from_working cur r'"
    using assms Some a skill_raised_settles [OF cur(1)] skill_returned_settles [OF cur(1)]
    by (auto simp: dispatchTask_def split: prod.splits sum.splits) (metis fst_conv)+
  then show ?thesis using cur(2) settled_targets unfolding settled_from_working_def same_request_def same_parties_def by auto
qed

subsection \<open>The contract of a task store\<close>

locale task_store =
  fixes ops :: "'s task_store_ops"
    and valid :: "'s \<Rightarrow> bool"
    and seen :: "'s \<Rightarrow> string set"
  assumes get_put: "valid s \<Longrightarrow> ts_get ops i (ts_put ops r s) = (if eq_ci i (task_id r) then Some r else ts_get ops i s)"
    and get_id: "valid s \<Longrightarrow> ts_get ops i s = Some r \<Longrightarrow> eq_ci (task_id r) i"
    and get_ci: "eq_ci i j \<Longrightarrow> ts_get ops i s = ts_get ops j s"
    and put_valid: "valid s \<Longrightarrow> valid (ts_put ops r s)"
    and put_seen: "valid s \<Longrightarrow> seen (ts_put ops r s) = seen s"
    and reserve: "valid s \<Longrightarrow> ts_reserveMessageId ops m t s = (b, s') \<Longrightarrow>
      valid s' \<and> (b \<longleftrightarrow> toLowerCase m \<notin> seen s) \<and> seen s' = insert (toLowerCase m) (seen s) \<and>
      (\<forall>i. ts_get ops i s' = ts_get ops i s)"
    and due: "valid s \<Longrightarrow> ts_get ops i s = Some r \<Longrightarrow>
      (\<exists>j \<in> set (ts_listDue ops t s). eq_ci j i) \<longleftrightarrow> state_of r = Submitted \<or> state_of r = Working"
    and due_known: "valid s \<Longrightarrow> j \<in> set (ts_listDue ops t s) \<Longrightarrow> ts_get ops j s \<noteq> None"

subsection \<open>Steps of an agent\<close>

text \<open>
  One request or alarm round at a time, each to its end, or a change of the outside world. The ids of tasks come
  from the configuration; \<open>new\<close> says which ids the tasks created in the run have.
\<close>

inductive agent_step ::
  "(hex \<Rightarrow> bool) \<Rightarrow> ('d, 'w) a2a_config \<Rightarrow> 's task_store_ops \<Rightarrow> ('d, 'w) registry \<Rightarrow> ('w, 's) agent_state \<Rightarrow> ('w, 's) agent_state \<Rightarrow> bool"
  for new cf ops reg where
  step_send: "messageSend cf ops p st = (res, st') \<Longrightarrow>
    (\<forall>i t. res = Inr (RpcOk (i, t)) \<longrightarrow> new i) \<Longrightarrow> agent_step new cf ops reg st st'"
| step_resubmit: "resubmit cf ops i p st = (res, st') \<Longrightarrow> agent_step new cf ops reg st st'"
| step_cancel: "tasksCancel cf ops i caller sig st = (res', st') \<Longrightarrow> agent_step new cf ops reg st st'"
| step_push: "pushConfigSet cf ops i caller sig url token st = (res'', st') \<Longrightarrow> agent_step new cf ops reg st st'"
| step_process: "processDue cf ops reg st = (evs, st') \<Longrightarrow> agent_step new cf ops reg st st'"
| step_outside: "agent_step new cf ops reg st (st\<lparr>as_world := w\<rparr>)"

abbreviation agent_run ::
  "(hex \<Rightarrow> bool) \<Rightarrow> ('d, 'w) a2a_config \<Rightarrow> 's task_store_ops \<Rightarrow> ('d, 'w) registry \<Rightarrow> ('w, 's) agent_state \<Rightarrow> ('w, 's) agent_state \<Rightarrow> bool"
  where "agent_run new cf ops reg \<equiv> (agent_step new cf ops reg)\<^sup>*\<^sup>*"

text \<open>
  How one record may follow another: same parties, a state the table leads to; and a task that has
  ended, or waits for input, keeps its task, artifacts, error, messages and grant.
\<close>

definition frozen :: "TaskState \<Rightarrow> bool" where
  "frozen s \<longleftrightarrow> ended s \<or> s = InputRequired"

definition same_outcome :: "TaskRecord \<Rightarrow> TaskRecord \<Rightarrow> bool" where
  "same_outcome r r' \<longleftrightarrow>
     tr_task r' = tr_task r \<and> tr_artifacts r' = tr_artifacts r \<and> tr_error r' = tr_error r \<and>
     tr_inbound r' = tr_inbound r \<and> tr_delegation r' = tr_delegation r"

definition task_moves :: "TaskRecord \<Rightarrow> TaskRecord \<Rightarrow> bool" where
  "task_moves r r' \<longleftrightarrow>
     same_parties r r' \<and> task_reaches (state_of r) (state_of r') \<and> (frozen (state_of r) \<longrightarrow> same_outcome r r')"

lemma task_moves_refl [simp]: "task_moves r r"
  by (simp add: task_moves_def same_outcome_def)

lemma task_moves_trans: "task_moves r r' \<Longrightarrow> task_moves r' r'' \<Longrightarrow> task_moves r r''"
  unfolding task_moves_def
  by (auto intro: task_reaches_trans same_parties_trans simp: same_outcome_def)

lemma transition_moves:
  assumes "applyTransition r to now err = Inr (r', ev)" "\<not> frozen (state_of r)"
  shows "task_moves r r'"
  using assms by (auto simp: applyTransition_Inr task_moves_def same_parties_def intro: task_reaches_step)

context task_store
begin

text \<open>Every task whose id is not given to a new one.\<close>

definition store_moves :: "(hex \<Rightarrow> bool) \<Rightarrow> 's \<Rightarrow> 's \<Rightarrow> bool" where
  "store_moves new s s' \<longleftrightarrow>
     valid s' \<and> (\<forall>i r. (\<forall>j. new j \<longrightarrow> \<not> eq_ci i j) \<longrightarrow> ts_get ops i s = Some r \<longrightarrow>
       (\<exists>r'. ts_get ops i s' = Some r' \<and> task_moves r r'))"

lemma store_moves_refl: "valid s \<Longrightarrow> store_moves new s s"
  by (auto simp: store_moves_def)

lemma store_moves_trans: "store_moves new s s' \<Longrightarrow> store_moves new s' s'' \<Longrightarrow> store_moves new s s''"
  unfolding store_moves_def by (meson task_moves_trans)

lemma same_gets_move: "valid s' \<Longrightarrow> \<forall>i. ts_get ops i s' = ts_get ops i s \<Longrightarrow> store_moves new s s'"
  by (auto simp: store_moves_def)

lemma put_moves:
  assumes "valid s" "ts_get ops i s = Some r" "task_moves r r'"
  shows "store_moves new s (ts_put ops r' s)"
proof -
  have id: "eq_ci (task_id r') i"
    using assms get_id by (auto simp: task_moves_def same_parties_def)
  have "\<exists>y. ts_get ops j (ts_put ops r' s) = Some y \<and> task_moves x y" if "ts_get ops j s = Some x" for j x
  proof (cases "eq_ci j (task_id r')")
    case True
    then have "ts_get ops j s = Some r" using id get_ci assms(2) eq_ci_trans by metis
    with True that assms show ?thesis by (simp add: get_put)
  next
    case False
    with that assms(1) show ?thesis by (simp add: get_put)
  qed
  with put_valid [OF assms(1)] show ?thesis by (auto simp: store_moves_def)
qed

lemma put_new_moves:
  assumes "valid s" "new (task_id r)"
  shows "store_moves new s (ts_put ops r s)"
  using assms put_valid [OF assms(1)] unfolding store_moves_def by (auto simp: get_put)

text \<open>The gate touches the store only to reserve the message id.\<close>

lemma authorize_store:
  assumes "valid s"
    and "authorizeA2aMessage vm ops enf checks d requester message me skill now ttl w s = (res, s')"
  shows "valid s' \<and> (\<forall>i. ts_get ops i s' = ts_get ops i s) \<and> seen s \<subseteq> seen s' \<and>
    (\<forall>a. res = Inr a \<longrightarrow> a = delegator d \<and> scope_refusal vm enf d requester message me skill now = None \<and>
       chain_refusal vm checks d message w = None \<and> toLowerCase (am_messageId message) \<notin> seen s \<and>
       toLowerCase (am_messageId message) \<in> seen s')"
  using assms unfolding authorizeA2aMessage_def
  by (auto split: option.splits prod.splits bool.splits dest: reserve [OF assms(1)])

definition admitted :: "('d, 'w) a2a_config \<Rightarrow> 'd send_params \<Rightarrow> string \<Rightarrow> 'w \<Rightarrow> bool" where
  "admitted cf p skill w \<longleftrightarrow>
     scope_refusal (ac_viem cf) (ac_enforcers cf) (ms_delegation p) (ms_requester p) (ms_message p) (ac_agentSA cf)
       skill (ac_now cf w) = None \<and>
     chain_refusal (ac_viem cf) (ac_checks cf) (ms_delegation p) (ms_message p) w = None \<and>
     eq_ci (ac_hashBody cf (ms_input p)) (am_bodyHash (ms_message p))"

lemma admit_store:
  assumes "valid (as_store st)" "admit cf ops p skill st = (res, st')"
  shows "valid (as_store st') \<and> (\<forall>i. ts_get ops i (as_store st') = ts_get ops i (as_store st)) \<and>
    seen (as_store st) \<subseteq> seen (as_store st') \<and>
    (\<forall>a ref. res = Inr (RpcOk (a, ref)) \<longrightarrow> a = delegator (ms_delegation p) \<and> admitted cf p skill (as_world st) \<and>
       toLowerCase (am_messageId (ms_message p)) \<notin> seen (as_store st) \<and>
       toLowerCase (am_messageId (ms_message p)) \<in> seen (as_store st'))"
proof -
  obtain auth s1 where a: "authorizeA2aMessage (ac_viem cf) ops (ac_enforcers cf) (ac_checks cf) (ms_delegation p)
      (ms_requester p) (ms_message p) (ac_agentSA cf) skill (ac_now cf (as_world st)) None (as_world st) (as_store st) = (auth, s1)"
    by (cases "authorizeA2aMessage (ac_viem cf) ops (ac_enforcers cf) (ac_checks cf) (ms_delegation p)
      (ms_requester p) (ms_message p) (ac_agentSA cf) skill (ac_now cf (as_world st)) None (as_world st) (as_store st)")
  from authorize_store [OF assms(1) a] assms(2) a show ?thesis
    unfolding admit_def admitted_def
    by (auto split: sum.splits if_splits prod.splits)
qed

lemma admit_moves:
  assumes "valid (as_store st)" "admit cf ops p skill st = (res, st')"
  shows "store_moves new (as_store st) (as_store st')"
  using admit_store [OF assms] by (auto intro: same_gets_move)

text \<open>Each request, as a step of the store.\<close>

lemma messageSend_cases:
  assumes "messageSend cf ops p st = (res, st')"
  obtains (refused) x where "admit cf ops p (am_skill (ms_message p)) st = (x, st')"
      "\<And>i t. res \<noteq> Inr (RpcOk (i, t))"
    | (failed) x w st1 where "admit cf ops p (am_skill (ms_message p)) st = (x, st1)" "st' = st1\<lparr>as_world := w\<rparr>"
      "\<And>i t. res \<noteq> Inr (RpcOk (i, t))"
    | (created) a ref st1 i w r where "admit cf ops p (am_skill (ms_message p)) st = (Inr (RpcOk (a, ref)), st1)"
      "res = Inr (RpcOk (i, Submitted))" "st' = st1\<lparr>as_store := ts_put ops r (as_store st1), as_world := w\<rparr>"
      "task_id r = i" "state_of r = Submitted" "tr_principal r = a" "tr_sender r = ms_requester p"
      "tr_skill r = am_skill (ms_message p)" "tr_delegation r = ms_delegation p"
      "tr_inbound r = [(ms_message p)\<lparr>am_bodyRef := ref\<rparr>]" "task_inputHash (tr_task r) = am_bodyHash (ms_message p)"
      "task_assignee (tr_task r) = ac_agentSA cf"
proof -
  obtain x st1 where a: "admit cf ops p (am_skill (ms_message p)) st = (x, st1)"
    by (cases "admit cf ops p (am_skill (ms_message p)) st")
  consider e where "x = Inl e" | c m where "x = Inr (RpcErr c m)" | aa ref where "x = Inr (RpcOk (aa, ref))"
    by (cases x) (auto, metis rpc.exhaust surj_pair)
  then show ?thesis
  proof cases
    case 1 with a assms refused show ?thesis by (auto simp: messageSend_def)
  next
    case 2 with a assms refused show ?thesis by (auto simp: messageSend_def)
  next
    case 3
    obtain i w where n: "new_task_id cf (as_world st1) = (i, w)" by (cases "new_task_id cf (as_world st1)")
    show ?thesis
    proof (cases "hashDelegation (vm_codec (ac_viem cf)) (ms_delegation p) (ac_chainId cf) (ac_delegationManager cf)")
      case (Inl e)
      with a 3 n assms failed show ?thesis by (auto simp: messageSend_def Let_def)
    next
      case (Inr h)
      with a 3 n assms show ?thesis
        by (auto simp: messageSend_def Let_def newTaskRecord_def split: option.splits intro!: created)
    qed
  qed
qed

lemma messageSend_moves:
  assumes "valid (as_store st)" "messageSend cf ops p st = (res, st')"
    and "\<And>i t. res = Inr (RpcOk (i, t)) \<Longrightarrow> new i"
  shows "store_moves new (as_store st) (as_store st')"
  using assms(2)
proof (cases rule: messageSend_cases)
  case (refused x)
  then show ?thesis using admit_moves assms(1) by blast
next
  case (failed x w st1)
  then show ?thesis using admit_moves [OF assms(1)] by simp
next
  case (created a ref st1 i w r)
  from admit_store [OF assms(1) created(1)] assms(3) [OF created(2)] created(4)
  have "valid (as_store st1)" "new (task_id r)" by auto
  from put_new_moves [of _ new, OF this] admit_moves [OF assms(1) created(1)] created(3) show ?thesis
    by (auto intro: store_moves_trans)
qed

lemma resubmit_cases:
  assumes "resubmit cf ops i p st = (res, st')"
  obtains (unchanged) "st' = st" "\<And>j t. res \<noteq> Inr (RpcOk (j, t))"
    | (refused) x y where "admit cf ops p x st = (y, st')" "\<And>j t. res \<noteq> Inr (RpcOk (j, t))"
    | (resumed) rec a ref st1 r ev r' where "ts_get ops i (as_store st) = Some rec" "state_of rec = AuthRequired"
      "eq_ci (ms_requester p) (tr_sender rec)" "eq_ci (am_skill (ms_message p)) (tr_skill rec)"
      "admit cf ops p (tr_skill rec) st = (Inr (RpcOk (a, ref)), st1)"
      "applyTransition rec Submitted (ac_now cf (as_world st1)) None = Inr (r, ev)"
      "r' = r\<lparr>tr_delegation := ms_delegation p, tr_task := (tr_task r)\<lparr>task_inputHash := am_bodyHash (ms_message p)\<rparr>,
               tr_inbound := tr_inbound r @ [(ms_message p)\<lparr>am_bodyRef := ref\<rparr>]\<rparr>"
      "st' = st1\<lparr>as_store := ts_put ops r' (as_store st1)\<rparr>" "res = Inr (RpcOk (i, Submitted))"
proof (cases "ts_get ops i (as_store st)")
  case None
  with assms unchanged show ?thesis by (auto simp: resubmit_def)
next
  case (Some rec)
  show ?thesis
  proof (cases "state_of rec = AuthRequired \<and> eq_ci (ms_requester p) (tr_sender rec) \<and> eq_ci (am_skill (ms_message p)) (tr_skill rec)")
    case False
    with assms unchanged Some show ?thesis by (auto simp: resubmit_def split: if_splits)
  next
    case True
    obtain x st1 where a: "admit cf ops p (tr_skill rec) st = (x, st1)" by (cases "admit cf ops p (tr_skill rec) st")
    consider e where "x = Inl e" | c m where "x = Inr (RpcErr c m)" | aa ref where "x = Inr (RpcOk (aa, ref))"
      by (cases x) (auto, metis rpc.exhaust surj_pair)
    then show ?thesis
    proof cases
      case 1 with a assms Some True refused show ?thesis by (auto simp: resubmit_def)
    next
      case 2 with a assms Some True refused show ?thesis by (auto simp: resubmit_def)
    next
      case 3
      obtain r ev where t: "applyTransition rec Submitted (ac_now cf (as_world st1)) None = Inr (r, ev)"
        using True by (simp add: applyTransition_Inr canTaskTransition_def)
      with 3 a assms Some True resumed show ?thesis by (auto simp: resubmit_def)
    qed
  qed
qed

lemma resubmit_moves:
  assumes "valid (as_store st)" "resubmit cf ops i p st = (res, st')"
  shows "store_moves new (as_store st) (as_store st')"
  using assms(2)
proof (cases rule: resubmit_cases)
  case unchanged
  then show ?thesis using store_moves_refl [OF assms(1)] by simp
next
  case (refused x y)
  then show ?thesis using admit_moves [OF assms(1)] by blast
next
  case (resumed rec a ref st1 r ev r')
  from admit_store [OF assms(1) resumed(5)] resumed(1)
  have s1: "valid (as_store st1)" "ts_get ops i (as_store st1) = Some rec" by auto
  have "task_moves rec r'"
    using resumed(2,6) by (auto simp: resumed(7) applyTransition_Inr task_moves_def same_parties_def frozen_def ended_def
        intro: task_reaches_step)
  from store_moves_trans [OF admit_moves [OF assms(1) resumed(5)] put_moves [OF s1 this]] show ?thesis
    by (simp add: resumed(8))
qed

lemma party_task_known:
  assumes "party_task cf ops method i caller sig st = Inr (RpcOk rec)"
  shows "ts_get ops i (as_store st) = Some rec"
proof (cases "ts_get ops i (as_store st)")
  case None
  with assms show ?thesis by (simp add: party_task_def)
next
  case (Some r)
  with assms obtain a :: "unit rpc" where "(case a of RpcOk x \<Rightarrow> if \<not> eq_ci caller (tr_sender r) \<and> \<not> eq_ci caller (task_assignee (tr_task r))
      then RpcErr RPC_UNAUTHORIZED ''not a party to this task'' else RpcOk r | RpcErr c m \<Rightarrow> RpcErr c m) = RpcOk rec"
    by (auto simp: party_task_def)
  with Some show ?thesis by (cases a) (auto split: if_splits)
qed

lemma tasksCancel_cases:
  assumes "tasksCancel cf ops i caller sig st = (res, st')"
  obtains (unchanged) "st' = st" "\<And>j t. res \<noteq> Inr (RpcOk (j, t))"
    | (canceled) rec r ev where "ts_get ops i (as_store st) = Some rec"
      "applyTransition rec Canceled (ac_now cf (as_world st)) None = Inr (r, ev)"
      "st' = st\<lparr>as_store := ts_put ops r (as_store st)\<rparr>" "res = Inr (RpcOk (i, Canceled))"
proof (cases "party_task cf ops ''tasks/cancel'' i caller sig st")
  case (Inl e)
  with assms unchanged show ?thesis by (auto simp: tasksCancel_def)
next
  case (Inr x)
  show ?thesis
  proof (cases x)
    case (RpcErr c m)
    with Inr assms unchanged show ?thesis by (auto simp: tasksCancel_def)
  next
    case (RpcOk rec)
    with Inr have g: "ts_get ops i (as_store st) = Some rec" by (simp add: party_task_known)
    show ?thesis
    proof (cases "applyTransition rec Canceled (ac_now cf (as_world st)) None")
      case (Inl e)
      with Inr RpcOk assms unchanged show ?thesis by (auto simp: tasksCancel_def)
    next
      case (Inr y)
      obtain r ev where "y = (r, ev)" by (cases y)
      with Inr g RpcOk \<open>party_task _ _ _ _ _ _ _ = Inr x\<close> assms canceled show ?thesis by (auto simp: tasksCancel_def)
    qed
  qed
qed

lemma tasksCancel_moves:
  assumes "valid (as_store st)" "tasksCancel cf ops i caller sig st = (res, st')"
  shows "store_moves new (as_store st) (as_store st')"
  using assms(2)
proof (cases rule: tasksCancel_cases)
  case unchanged
  then show ?thesis using store_moves_refl [OF assms(1)] by simp
next
  case (canceled rec r ev)
  then have "\<not> frozen (state_of rec)"
    by (cases "state_of rec") (auto simp: applyTransition_Inr frozen_def ended_def canTaskTransition_def)
  from put_moves [OF assms(1) canceled(1) transition_moves [OF canceled(2) this]] canceled(3) show ?thesis by simp
qed

lemma pushConfigSet_moves:
  assumes "valid (as_store st)" "pushConfigSet cf ops i caller sig url token st = (res, st')"
  shows "store_moves new (as_store st) (as_store st')"
proof (cases "\<exists>rec. party_task cf ops ''tasks/pushNotificationConfig/set'' i caller sig st = Inr (RpcOk rec)")
  case True
  then obtain rec where p: "party_task cf ops ''tasks/pushNotificationConfig/set'' i caller sig st = Inr (RpcOk rec)" by blast
  have "task_moves rec (rec\<lparr>tr_pushConfig := pc\<rparr>)" for pc
    by (simp add: task_moves_def same_parties_def same_outcome_def)
  with put_moves [OF assms(1) party_task_known [OF p]] assms(2) p show ?thesis
    by (auto simp: pushConfigSet_def Let_def)
next
  case False
  then have "st' = st" using assms(2) by (auto simp: pushConfigSet_def split: sum.splits rpc.splits)
  then show ?thesis using store_moves_refl [OF assms(1)] by simp
qed

text \<open>Processing a task writes one record, the settled one.\<close>

lemma process_finish_cases:
  assumes "process_finish cf ops reg rec st = (res, st')" "state_of rec = Submitted"
  obtains (unread) e where "res = Inl e" "as_store st' = as_store st"
    | (processed) r where "as_store st' = ts_put ops r (as_store st)" "same_request rec r" "settled (state_of r)"
      "task_reaches Submitted (state_of r)"
proof (cases "rev (tr_inbound rec)")
  case Nil
  with assms unread show ?thesis by (auto simp: process_finish_def)
next
  case (Cons m ms)
  obtain x w' where v: "ac_vaultRead cf (am_bodyRef m) (as_world st) = (x, w')"
    by (cases "ac_vaultRead cf (am_bodyRef m) (as_world st)")
  show ?thesis
  proof (cases x)
    case (Inl e)
    with assms Cons v unread show ?thesis by (auto simp: process_finish_def)
  next
    case (Inr input)
    let ?d = "dispatchTask (emitArtifact cf) reg input (tr_delegation rec) (ac_now cf w') (ac_handoffPolicy cf) rec
        \<lparr>sk_world = w', sk_artCounter = as_artCounter st, sk_captured = []\<rparr>"
    obtain r evs k where d: "?d = ((r, evs), k)" by (metis surj_pair)
    let ?m = "r\<lparr>tr_artifacts := tr_artifacts r @ sk_captured k\<rparr>"
    have "as_store st' = ts_put ops ?m (as_store st)"
      using assms(1) Cons v Inr d
      by (auto simp: process_finish_def Let_def split: if_splits option.splits prod.splits sum.splits)
    moreover have "same_request rec ?m" "settled (state_of ?m)" "task_reaches Submitted (state_of ?m)"
      using dispatchTask_settles [OF assms(2) d] by (simp_all add: same_request_def same_parties_def)
    ultimately show ?thesis by (rule processed)
  qed
qed

lemma process_one_cases:
  assumes "process_one cf ops reg i st = (res, st')"
  obtains (skipped) "res = Inr []" "st' = st" "\<And>r. ts_get ops i (as_store st) = Some r \<Longrightarrow> state_of r \<noteq> Submitted"
    | (unread) e where "res = Inl e" "as_store st' = as_store st"
    | (processed) rec r where "ts_get ops i (as_store st) = Some rec" "state_of rec = Submitted"
      "as_store st' = ts_put ops r (as_store st)" "same_request rec r" "settled (state_of r)"
      "task_reaches Submitted (state_of r)"
proof (cases "process_load ops i (as_store st)")
  case None
  with assms skipped show ?thesis by (auto simp: process_one_def process_load_def split: option.splits if_splits)
next
  case (Some rec)
  then have l: "ts_get ops i (as_store st) = Some rec" "state_of rec = Submitted"
    by (auto simp: process_load_def split: option.splits if_splits)
  have "process_finish cf ops reg rec st = (res, st')" using assms Some by (simp add: process_one_def)
  then show ?thesis
    by (cases rule: process_finish_cases [OF _ l(2)]) (use l in \<open>auto intro: unread processed\<close>)
qed

lemma process_one_moves:
  assumes "valid (as_store st)" "process_one cf ops reg i st = (res, st')"
  shows "store_moves new (as_store st) (as_store st')"
  using assms(2)
proof (cases rule: process_one_cases)
  case (processed rec r)
  then have "task_moves rec r"
    by (auto simp: task_moves_def same_request_def frozen_def ended_def)
  from put_moves [OF assms(1) processed(1) this] processed(3) show ?thesis by simp
qed (use store_moves_refl [OF assms(1)] in simp_all)

lemma process_all_moves:
  "valid (as_store st) \<Longrightarrow> process_all cf ops reg is evs st = (res, st') \<Longrightarrow> store_moves new (as_store st) (as_store st')"
proof (induction "is" arbitrary: evs st)
  case Nil
  then show ?case by (simp add: store_moves_refl)
next
  case (Cons i "is")
  obtain x st1 where p: "process_one cf ops reg i st = (x, st1)" by (cases "process_one cf ops reg i st")
  note m = process_one_moves [OF Cons.prems(1) p]
  then have "valid (as_store st1)" by (simp add: store_moves_def)
  with Cons p m show ?case by (cases x) (auto intro: store_moves_trans)
qed

lemma step_moves:
  assumes "agent_step new cf ops reg st st'" "valid (as_store st)"
  shows "store_moves new (as_store st) (as_store st')"
  using assms
  by (cases rule: agent_step.cases)
     (auto simp: processDue_def store_moves_refl dest: resubmit_moves tasksCancel_moves pushConfigSet_moves process_all_moves
       intro: messageSend_moves)

lemma run_moves:
  assumes "agent_run new cf ops reg st st'" "valid (as_store st)"
  shows "store_moves new (as_store st) (as_store st')"
  using assms
proof (induction rule: rtranclp_induct)
  case (step y z)
  then have "valid (as_store y)" by (simp add: store_moves_def)
  with step show ?case by (blast intro: store_moves_trans step_moves)
qed (simp add: store_moves_refl)

end

end
