(* ===== verification/A2aProperties.thy ===== *)
theory A2aProperties
  imports A2aRuns
begin

section \<open>A2A: what an agent guarantees\<close>

text \<open>
  The in-memory store meets the contract of a task store; over any store that does, the invariant of
  an agent's records (each task authorized by the message it last took in, no message id admitted
  twice) and the progress of its alarm body are proved once, in the locale. The properties state
  them for the in-memory store, with what the agent does \<^emph>\<open>not\<close> guarantee: a cancellation during
  processing is lost, a task waiting for input is stuck, a resumed task keeps its first principal.
\<close>

subsection \<open>The in-memory store\<close>

abbreviation mem_ops :: "memory_tasks task_store_ops" where
  "mem_ops \<equiv> fst createInMemoryTaskStore"

abbreviation mem_empty :: memory_tasks where
  "mem_empty \<equiv> snd createInMemoryTaskStore"

definition mem_valid :: "memory_tasks \<Rightarrow> bool" where
  "mem_valid s \<longleftrightarrow>
     (\<forall>k r. mt_tasks s k = Some r \<longrightarrow> k = toLowerCase (task_id r)) \<and>
     set (mt_due s) = {k. \<exists>r. mt_tasks s k = Some r \<and> (state_of r = Submitted \<or> state_of r = Working)}"

lemmas mem_defs = createInMemoryTaskStore_def memory_put_def memory_task_def memory_listDue_def
  memory_reserveMessageId_def Let_def

lemma mem_put_valid: "mem_valid s \<Longrightarrow> mem_valid (memory_put r s)"
  by (auto simp: mem_valid_def memory_put_def Let_def split: if_splits)

lemma mem_key: "mem_valid s \<Longrightarrow> mt_tasks s k = Some r \<Longrightarrow> toLowerCase k = k"
  unfolding mem_valid_def by (metis toLowerCase_idem)

lemma mem_due:
  assumes "mem_valid s" "mt_tasks s (toLowerCase i) = Some r"
  shows "(\<exists>j \<in> set (mt_due s). eq_ci j i) \<longleftrightarrow> state_of r = Submitted \<or> state_of r = Working"
proof -
  have "(\<exists>j \<in> set (mt_due s). eq_ci j i) \<longleftrightarrow> toLowerCase i \<in> set (mt_due s)"
    using assms(1) mem_key [OF assms(1)] by (auto simp: mem_valid_def eq_ci_def)
  then show ?thesis using assms by (auto simp: mem_valid_def)
qed

interpretation mem_tasks: task_store mem_ops mem_valid "\<lambda>s. dom (mt_seen s)"
proof unfold_locales
  fix s :: memory_tasks and r
  assume "mem_valid s"
  then show "mem_valid (ts_put mem_ops r s)" by (simp add: createInMemoryTaskStore_def mem_put_valid)
next
  fix s :: memory_tasks and i r
  assume "mem_valid s" "ts_get mem_ops i s = Some r"
  then show "eq_ci (task_id r) i" by (auto simp: mem_defs mem_valid_def eq_ci_def)
next
  fix s :: memory_tasks and m t b s'
  assume "mem_valid s" "ts_reserveMessageId mem_ops m t s = (b, s')"
  then show "mem_valid s' \<and> (b \<longleftrightarrow> toLowerCase m \<notin> dom (mt_seen s)) \<and>
      dom (mt_seen s') = insert (toLowerCase m) (dom (mt_seen s)) \<and> (\<forall>i. ts_get mem_ops i s' = ts_get mem_ops i s)"
    by (auto simp: mem_defs mem_valid_def split: option.splits)
next
  fix s :: memory_tasks and i r t
  assume "mem_valid s" "ts_get mem_ops i s = Some r"
  then show "(\<exists>j \<in> set (ts_listDue mem_ops t s). eq_ci j i) \<longleftrightarrow> state_of r = Submitted \<or> state_of r = Working"
    using mem_due by (simp add: mem_defs)
next
  fix s :: memory_tasks and j t
  assume "mem_valid s" "j \<in> set (ts_listDue mem_ops t s)"
  then obtain r where "mt_tasks s j = Some r" by (auto simp: mem_defs mem_valid_def)
  with mem_key [OF \<open>mem_valid s\<close>] show "ts_get mem_ops j s \<noteq> None" by (simp add: mem_defs)
qed (auto simp: mem_defs eq_ci_def)

lemma mem_empty_valid: "mem_valid mem_empty"
  by (simp add: mem_valid_def createInMemoryTaskStore_def)

subsection \<open>The invariant of the records\<close>

definition message_ids :: "TaskRecord \<Rightarrow> string list" where
  "message_ids r = map (\<lambda>m. toLowerCase (am_messageId m)) (tr_inbound r)"

text \<open>
  A stored message passed the whole gate, at some moment, with the grant \<open>d\<close>, for the task's skill and from its sender.
\<close>

definition passed :: "('d, 'w) a2a_config \<Rightarrow> TaskRecord \<Rightarrow> delegation \<Rightarrow> A2aMessage \<Rightarrow> bool" where
  "passed cf r d x \<longleftrightarrow>
     (\<exists>m ref w q. x = m\<lparr>am_bodyRef := ref\<rparr> \<and> eq_ci q (tr_sender r) \<and>
        scope_refusal (ac_viem cf) (ac_enforcers cf) d q m (ac_agentSA cf) (tr_skill r) (ac_now cf w) = None \<and>
        chain_refusal (ac_viem cf) (ac_checks cf) d m w = None)"

text \<open>
  A task is assigned to the agent; the first message it took in passed the gate with a grant of the task's principal,
  and the last one with the grant the task carries, and it is that message's input the task is to run on.
\<close>

definition task_authorized :: "('d, 'w) a2a_config \<Rightarrow> TaskRecord \<Rightarrow> bool" where
  "task_authorized cf r \<longleftrightarrow>
     tr_inbound r \<noteq> [] \<and> (\<exists>d. delegator d = tr_principal r \<and> passed cf r d (hd (tr_inbound r))) \<and>
     passed cf r (tr_delegation r) (last (tr_inbound r)) \<and>
     task_inputHash (tr_task r) = am_bodyHash (last (tr_inbound r)) \<and>
     task_assignee (tr_task r) = ac_agentSA cf \<and> state_of r \<noteq> Working"

definition record_ok :: "('d, 'w) a2a_config \<Rightarrow> string set \<Rightarrow> TaskRecord \<Rightarrow> bool" where
  "record_ok cf sn r \<longleftrightarrow> task_authorized cf r \<and> distinct (message_ids r) \<and> set (message_ids r) \<subseteq> sn"

lemma same_request_ok:
  "same_request r r' \<Longrightarrow> state_of r' \<noteq> Working \<Longrightarrow> record_ok cf sn r \<Longrightarrow> record_ok cf sn r'"
  by (auto simp: record_ok_def task_authorized_def passed_def same_request_def same_parties_def message_ids_def)

lemma record_ok_mono: "record_ok cf sn r \<Longrightarrow> sn \<subseteq> sn' \<Longrightarrow> record_ok cf sn' r"
  by (auto simp: record_ok_def)

context task_store
begin

definition agent_inv :: "('d, 'w) a2a_config \<Rightarrow> 's \<Rightarrow> bool" where
  "agent_inv cf s \<longleftrightarrow>
     valid s \<and> (\<forall>i r. ts_get ops i s = Some r \<longrightarrow> record_ok cf (seen s) r) \<and>
     (\<forall>i j r r'. ts_get ops i s = Some r \<longrightarrow> ts_get ops j s = Some r' \<longrightarrow> \<not> eq_ci i j \<longrightarrow>
        set (message_ids r) \<inter> set (message_ids r') = {})"

lemma agent_inv_valid: "agent_inv cf s \<Longrightarrow> valid s"
  by (simp add: agent_inv_def)

lemma agent_inv_seen:
  assumes "agent_inv cf s" "valid s'" "\<forall>i. ts_get ops i s' = ts_get ops i s" "seen s \<subseteq> seen s'"
  shows "agent_inv cf s'"
  using assms record_ok_mono unfolding agent_inv_def by metis

lemma agent_inv_put:
  assumes "agent_inv cf s" "record_ok cf (seen s) r"
    and "\<And>j x. ts_get ops j s = Some x \<Longrightarrow> \<not> eq_ci j (task_id r) \<Longrightarrow> set (message_ids x) \<inter> set (message_ids r) = {}"
  shows "agent_inv cf (ts_put ops r s)"
proof -
  have v: "valid s" using assms(1) by (simp add: agent_inv_def)
  have "set (message_ids x) \<inter> set (message_ids y) = {}"
    if "ts_get ops i (ts_put ops r s) = Some x" "ts_get ops j (ts_put ops r s) = Some y" "\<not> eq_ci i j" for i j x y
  proof -
    have "\<not> (eq_ci i (task_id r) \<and> eq_ci j (task_id r))" using that(3) by (auto simp: eq_ci_def)
    then consider "eq_ci i (task_id r)" "\<not> eq_ci j (task_id r)" | "\<not> eq_ci i (task_id r)" "eq_ci j (task_id r)"
      | "\<not> eq_ci i (task_id r)" "\<not> eq_ci j (task_id r)" by blast
    then show ?thesis
    proof cases
      case 1
      with that v assms(3) [of j y] show ?thesis by (auto simp: get_put)
    next
      case 2
      with that v assms(3) [of i x] show ?thesis by (auto simp: get_put)
    next
      case 3
      with that v assms(1) show ?thesis unfolding agent_inv_def by (auto simp: get_put)
    qed
  qed
  moreover have "record_ok cf (seen s) x" if "ts_get ops i (ts_put ops r s) = Some x" for i x
    using that assms(1,2) v by (auto simp: get_put agent_inv_def split: if_splits)
  ultimately show ?thesis using put_valid [OF v] put_seen [OF v] by (auto simp: agent_inv_def)
qed

text \<open>Replacing a record by one of the same request keeps the invariant.\<close>

lemma agent_inv_same:
  assumes "agent_inv cf s" "ts_get ops i s = Some r" "same_request r r'" "state_of r' \<noteq> Working"
  shows "agent_inv cf (ts_put ops r' s)"
proof (rule agent_inv_put [OF assms(1)])
  show "record_ok cf (seen s) r'"
    using assms(1,2) by (intro same_request_ok [OF assms(3,4)]) (auto simp: agent_inv_def)
next
  fix j x
  assume x: "ts_get ops j s = Some x" "\<not> eq_ci j (task_id r')"
  have "eq_ci (task_id r') i"
    using get_id [OF agent_inv_valid [OF assms(1)] assms(2)] assms(3) by (simp add: same_request_def same_parties_def)
  then have "\<not> eq_ci j i" using x(2) by (auto simp: eq_ci_def)
  with x(1) assms show "set (message_ids x) \<inter> set (message_ids r') = {}"
    unfolding agent_inv_def same_request_def message_ids_def by metis
qed

lemma admit_inv:
  assumes "agent_inv cf (as_store st)" "admit cf ops p skill st = (res, st')"
  shows "agent_inv cf (as_store st')"
  using agent_inv_seen [OF assms(1)] admit_store [OF agent_inv_valid [OF assms(1)] assms(2)] by blast

text \<open>A record whose new messages are admitted ones is sound, and shares none with another task.\<close>

lemma admitted_fresh:
  assumes "agent_inv cf s" "toLowerCase m \<notin> seen s" "ts_get ops i s = Some r"
  shows "toLowerCase m \<notin> set (message_ids r)"
  using assms by (auto simp: agent_inv_def record_ok_def)

lemma admitted_passed:
  assumes "admitted cf p skill w" "eq_ci (ms_requester p) (tr_sender r)" "tr_skill r = skill"
  shows "passed cf r (ms_delegation p) ((ms_message p)\<lparr>am_bodyRef := ref\<rparr>)"
  using assms unfolding admitted_def passed_def by blast

lemma messageSend_inv:
  assumes "agent_inv cf (as_store st)" "messageSend cf ops p st = (res, st')"
  shows "agent_inv cf (as_store st')"
  using assms(2)
proof (cases rule: messageSend_cases)
  case (refused x)
  then show ?thesis using admit_inv [OF assms(1)] by blast
next
  case (failed x w st1)
  then show ?thesis using admit_inv [OF assms(1)] by simp
next
  case (created a ref st1 i w r)
  note adm = admit_store [OF agent_inv_valid [OF assms(1)] created(1)]
  have ids: "message_ids r = [toLowerCase (am_messageId (ms_message p))]" by (simp add: message_ids_def created)
  have "passed cf r (ms_delegation p) ((ms_message p)\<lparr>am_bodyRef := ref\<rparr>)"
    using adm created by (intro admitted_passed) auto
  with adm created have "task_authorized cf r" by (auto simp: task_authorized_def)
  with adm ids have "record_ok cf (seen (as_store st1)) r" by (simp add: record_ok_def)
  then have "agent_inv cf (ts_put ops r (as_store st1))"
  proof (rule agent_inv_put [OF admit_inv [OF assms(1) created(1)]])
    fix j x
    assume "ts_get ops j (as_store st1) = Some x"
    with adm admitted_fresh [OF assms(1)] show "set (message_ids x) \<inter> set (message_ids r) = {}"
      by (auto simp: ids)
  qed
  with created(3) show ?thesis by simp
qed

lemma resubmit_inv:
  assumes "agent_inv cf (as_store st)" "resubmit cf ops i p st = (res, st')"
  shows "agent_inv cf (as_store st')"
  using assms(2)
proof (cases rule: resubmit_cases)
  case (refused x y)
  then show ?thesis using admit_inv [OF assms(1)] by blast
next
  case (resumed rec a ref st1 r ev r')
  note adm = admit_store [OF agent_inv_valid [OF assms(1)] resumed(5)]
  let ?m = "toLowerCase (am_messageId (ms_message p))"
  have g: "ts_get ops i (as_store st1) = Some rec" using adm resumed(1) by simp
  have rec: "record_ok cf (seen (as_store st)) rec" using assms(1) resumed(1) by (auto simp: agent_inv_def)
  have new: "?m \<notin> set (message_ids rec)" using adm admitted_fresh [OF assms(1) _ resumed(1)] by auto
  have r': "tr_inbound r' = tr_inbound rec @ [(ms_message p)\<lparr>am_bodyRef := ref\<rparr>]" "task_id r' = task_id rec"
      "tr_delegation r' = ms_delegation p" "tr_sender r' = tr_sender rec" "tr_skill r' = tr_skill rec"
      "task_inputHash (tr_task r') = am_bodyHash (ms_message p)" "state_of r' = Submitted"
      "task_assignee (tr_task r') = task_assignee (tr_task rec)"
    using resumed(6) by (auto simp: resumed(7) applyTransition_Inr)
  have ids: "message_ids r' = message_ids rec @ [?m]" by (simp add: message_ids_def r'(1))
  have "admitted cf p (tr_skill rec) (as_world st)" using adm by blast
  then have "passed cf r' (ms_delegation p) ((ms_message p)\<lparr>am_bodyRef := ref\<rparr>)"
    using r'(4,5) resumed(3) by (intro admitted_passed) simp_all
  moreover have "tr_principal r' = tr_principal rec"
    using resumed(6) by (auto simp: resumed(7) applyTransition_Inr)
  ultimately have "task_authorized cf r'"
    using r' rec by (auto simp: record_ok_def task_authorized_def passed_def)
  moreover have "distinct (message_ids r')" using rec new by (simp add: ids record_ok_def)
  moreover have "set (message_ids r') \<subseteq> seen (as_store st1)" using rec adm by (auto simp: ids record_ok_def)
  ultimately have "record_ok cf (seen (as_store st1)) r'" by (simp add: record_ok_def)
  then have "agent_inv cf (ts_put ops r' (as_store st1))"
  proof (rule agent_inv_put [OF admit_inv [OF assms(1) resumed(5)]])
    fix j x
    assume x: "ts_get ops j (as_store st1) = Some x" "\<not> eq_ci j (task_id r')"
    have "eq_ci (task_id rec) i" using get_id [OF agent_inv_valid [OF assms(1)] resumed(1)] .
    then have "\<not> eq_ci j i" using x(2) r'(2) by (auto simp: eq_ci_def)
    moreover have gx: "ts_get ops j (as_store st) = Some x" using x adm by simp
    ultimately have "set (message_ids x) \<inter> set (message_ids rec) = {}"
      using assms(1) resumed(1) unfolding agent_inv_def by blast
    moreover have "?m \<notin> set (message_ids x)" using adm admitted_fresh [OF assms(1) _ gx] by auto
    ultimately show "set (message_ids x) \<inter> set (message_ids r') = {}" by (auto simp: ids)
  qed
  with resumed(8) show ?thesis by simp
qed (use assms in simp)

lemma tasksCancel_inv:
  assumes "agent_inv cf (as_store st)" "tasksCancel cf ops i caller sig st = (res, st')"
  shows "agent_inv cf (as_store st')"
  using assms(2)
proof (cases rule: tasksCancel_cases)
  case (canceled rec r ev)
  then have "same_request rec r" "state_of r \<noteq> Working" by (auto simp: applyTransition_Inr same_request_def same_parties_def)
  from agent_inv_same [OF assms(1) canceled(1) this] canceled(3) show ?thesis by simp
qed (use assms in simp)

lemma pushConfigSet_inv:
  assumes "agent_inv cf (as_store st)" "pushConfigSet cf ops i caller sig url token st = (res, st')"
  shows "agent_inv cf (as_store st')"
proof (cases "\<exists>rec. party_task cf ops ''tasks/pushNotificationConfig/set'' i caller sig st = Inr (RpcOk rec)")
  case True
  then obtain rec where p: "party_task cf ops ''tasks/pushNotificationConfig/set'' i caller sig st = Inr (RpcOk rec)" by blast
  note g = party_task_known [OF p]
  have "same_request rec (rec\<lparr>tr_pushConfig := pc\<rparr>)" for pc by (simp add: same_request_def same_parties_def)
  moreover have "state_of rec \<noteq> Working"
    using assms(1) g by (auto simp: agent_inv_def record_ok_def task_authorized_def)
  ultimately have "agent_inv cf (ts_put ops (rec\<lparr>tr_pushConfig := pc\<rparr>) (as_store st))" for pc
    by (intro agent_inv_same [OF assms(1) g]) auto
  with assms(2) p show ?thesis by (auto simp: pushConfigSet_def Let_def)
next
  case False
  then have "st' = st" using assms(2) by (auto simp: pushConfigSet_def split: sum.splits rpc.splits)
  then show ?thesis using assms(1) by simp
qed

lemma process_one_inv:
  assumes "agent_inv cf (as_store st)" "process_one cf ops reg i st = (res, st')"
  shows "agent_inv cf (as_store st')"
  using assms(2)
proof (cases rule: process_one_cases)
  case (processed rec r)
  then show ?thesis using agent_inv_same [OF assms(1) processed(1,4)] by (simp add: settled_def)
qed (use assms in simp_all)

lemma process_all_inv:
  "agent_inv cf (as_store st) \<Longrightarrow> process_all cf ops reg is evs st = (res, st') \<Longrightarrow> agent_inv cf (as_store st')"
proof (induction "is" arbitrary: evs st)
  case (Cons i "is")
  obtain x st1 where p: "process_one cf ops reg i st = (x, st1)" by (cases "process_one cf ops reg i st")
  with Cons process_one_inv [OF Cons.prems(1) p] show ?case by (cases x) auto
qed simp

lemma step_inv:
  assumes "agent_step new cf ops reg st st'" "agent_inv cf (as_store st)"
  shows "agent_inv cf (as_store st')"
  using assms
  by (cases rule: agent_step.cases)
     (auto simp: processDue_def dest: resubmit_inv tasksCancel_inv pushConfigSet_inv process_all_inv intro: messageSend_inv)

lemma run_inv:
  assumes "agent_run new cf ops reg st st'" "agent_inv cf (as_store st)"
  shows "agent_inv cf (as_store st')"
  using assms by (induction rule: rtranclp_induct) (auto intro: step_inv)

end

subsection \<open>Progress of the alarm body\<close>

text \<open>Processing looks at the store only to write its one record into it.\<close>

lemma process_finish_frame:
  assumes "process_finish cf ops reg rec st = (Inr evs, st2)" "state_of rec = Submitted"
  shows "\<exists>m. same_request rec m \<and> as_store st2 = ts_put ops m (as_store st) \<and>
    (\<forall>s. process_finish cf ops reg rec (st\<lparr>as_store := s\<rparr>) = (Inr evs, st2\<lparr>as_store := ts_put ops m s\<rparr>))"
proof (cases "rev (tr_inbound rec)")
  case Nil
  with assms show ?thesis by (simp add: process_finish_def)
next
  case (Cons m ms)
  obtain x w' where v: "ac_vaultRead cf (am_bodyRef m) (as_world st) = (x, w')"
    by (cases "ac_vaultRead cf (am_bodyRef m) (as_world st)")
  with Cons assms(1) obtain input where x: "x = Inr input" by (cases x) (auto simp: process_finish_def)
  obtain r ev k where d: "dispatchTask (emitArtifact cf) reg input (tr_delegation rec) (ac_now cf w') (ac_handoffPolicy cf) rec
      \<lparr>sk_world = w', sk_artCounter = as_artCounter st, sk_captured = []\<rparr> = ((r, ev), k)" by (metis surj_pair)
  let ?m = "r\<lparr>tr_artifacts := tr_artifacts r @ sk_captured k\<rparr>"
  have "same_request rec ?m"
    using dispatchTask_settles [OF assms(2) d] by (simp add: same_request_def same_parties_def)
  moreover have "as_store st2 = ts_put ops ?m (as_store st) \<and>
    (\<forall>s. process_finish cf ops reg rec (st\<lparr>as_store := s\<rparr>) = (Inr evs, st2\<lparr>as_store := ts_put ops ?m s\<rparr>))"
    using assms(1) Cons v x d
    by (auto simp: process_finish_def Let_def split: if_splits option.splits prod.splits sum.splits)
  ultimately show ?thesis by blast
qed

text \<open>
  What can make a round reject: an input that cannot be read back, a terminal push that cannot be hashed, or one that
  cannot be signed.
\<close>

definition round_error :: "('d, 'w) a2a_config \<Rightarrow> js_error \<Rightarrow> bool" where
  "round_error cf e \<longleftrightarrow>
     (\<exists>ref w w'. ac_vaultRead cf ref w = (Inl e, w')) \<or> (\<exists>p. hashPushPayload (ac_viem cf) p = Inl e) \<or>
     (\<exists>sign h w w'. ac_signTerminal cf = Some sign \<and> sign h w = (Inl e, w'))"

lemma deliverPush_error:
  assumes "ac_signTerminal cf = Some sign" "deliverPush (ac_viem cf) r sign send now n w = (Inl e, w')"
  shows "round_error cf e"
  using assms by (auto simp: deliverPush_def Let_def round_error_def split: option.splits if_splits sum.splits prod.splits)

lemma process_finish_error:
  assumes "process_finish cf ops reg rec st = (Inl e, st')" "tr_inbound rec \<noteq> []"
  shows "round_error cf e"
proof -
  obtain m ms where m: "rev (tr_inbound rec) = m # ms" using assms(2) by (cases "rev (tr_inbound rec)") auto
  obtain x w' where v: "ac_vaultRead cf (am_bodyRef m) (as_world st) = (x, w')"
    by (cases "ac_vaultRead cf (am_bodyRef m) (as_world st)")
  show ?thesis
  proof (cases x)
    case (Inl e')
    with assms(1) m v show ?thesis by (auto simp: process_finish_def round_error_def)
  next
    case (Inr input)
    obtain r evs k where d: "dispatchTask (emitArtifact cf) reg input (tr_delegation rec) (ac_now cf w') (ac_handoffPolicy cf) rec
        \<lparr>sk_world = w', sk_artCounter = as_artCounter st, sk_captured = []\<rparr> = ((r, evs), k)" by (metis surj_pair)
    with assms(1) m v Inr obtain sign send r' now n w w'' where
      "ac_signTerminal cf = Some sign" "deliverPush (ac_viem cf) r' sign send now n w = (Inl e, w'')"
      by (auto simp: process_finish_def Let_def split: option.splits if_splits sum.splits prod.splits)
    then show ?thesis by (rule deliverPush_error)
  qed
qed

context task_store
begin

lemma process_one_settles:
  assumes "valid (as_store st)" "process_one cf ops reg i st = (Inr evs, st')"
  shows "(\<forall>r. ts_get ops i (as_store st') = Some r \<longrightarrow> state_of r \<noteq> Submitted) \<and>
    (\<forall>j r. ts_get ops j (as_store st') = Some r \<longrightarrow> ts_get ops j (as_store st) = Some r \<or> settled (state_of r))"
  using assms(2)
proof (cases rule: process_one_cases)
  case (processed rec r)
  have "eq_ci i (task_id r)"
    using get_id [OF assms(1) processed(1)] processed(4) by (simp add: same_request_def same_parties_def eq_ci_def)
  with processed(3,5) assms(1) show ?thesis by (auto simp: get_put settled_def split: if_splits)
qed auto

lemma process_all_settles:
  assumes "valid (as_store st)" "process_all cf ops reg is evs st = (Inr out, st')"
  shows "(\<forall>i \<in> set is. \<forall>r. ts_get ops i (as_store st') = Some r \<longrightarrow> state_of r \<noteq> Submitted) \<and>
    (\<forall>j r. ts_get ops j (as_store st') = Some r \<longrightarrow> ts_get ops j (as_store st) = Some r \<or> settled (state_of r))"
  using assms
proof (induction "is" arbitrary: evs st)
  case (Cons i "is")
  obtain x st1 where p: "process_one cf ops reg i st = (x, st1)" by (cases "process_one cf ops reg i st")
  with Cons.prems obtain evs1 where x: "x = Inr evs1" by (cases x) auto
  have v: "valid (as_store st1)" using process_one_moves [OF Cons.prems(1) p, of "\<lambda>_. True"] by (simp add: store_moves_def)
  have r: "process_all cf ops reg is (evs @ evs1) st1 = (Inr out, st')" using Cons.prems(2) p x by simp
  from Cons.IH [OF v r] process_one_settles [OF Cons.prems(1) p [unfolded x]] show ?case
    by (auto simp: settled_def) blast+
qed simp

lemma process_all_error:
  assumes "agent_inv cf (as_store st)" "process_all cf ops reg is evs st = (Inl e, st')"
  shows "round_error cf e"
  using assms
proof (induction "is" arbitrary: evs st)
  case (Cons i "is")
  obtain x st1 where p: "process_one cf ops reg i st = (x, st1)" by (cases "process_one cf ops reg i st")
  show ?case
  proof (cases x)
    case (Inr out)
    with Cons p process_one_inv [OF Cons.prems(1) p] show ?thesis by simp
  next
    case (Inl e')
    with p obtain rec where rec: "process_load ops i (as_store st) = Some rec" "process_finish cf ops reg rec st = (Inl e', st1)"
      by (auto simp: process_one_def split: option.splits)
    then have "ts_get ops i (as_store st) = Some rec" by (auto simp: process_load_def split: option.splits if_splits)
    with Cons.prems(1) have "tr_inbound rec \<noteq> []" by (auto simp: agent_inv_def record_ok_def task_authorized_def)
    from process_finish_error [OF rec(2) this] Inl Cons.prems(2) p show ?thesis by simp
  qed
qed simp

lemma processDue_settles:
  assumes "agent_inv cf (as_store st)" "processDue cf ops reg st = (Inr out, st')"
  shows "ts_listDue ops t (as_store st') = [] \<and> (\<forall>i r. ts_get ops i (as_store st') = Some r \<longrightarrow> settled (state_of r))"
proof -
  let ?due = "ts_listDue ops (ac_now cf (as_world st)) (as_store st)"
  note v = agent_inv_valid [OF assms(1)]
  have p: "process_all cf ops reg ?due [] st = (Inr out, st')" using assms(2) by (simp add: processDue_def)
  have inv: "agent_inv cf (as_store st')" by (rule process_all_inv [OF assms(1) p])
  have all: "settled (state_of r)" if g: "ts_get ops i (as_store st') = Some r" for i r
  proof -
    have "state_of r \<noteq> Submitted"
    proof
      assume s: "state_of r = Submitted"
      with process_all_settles [OF v p] g have "ts_get ops i (as_store st) = Some r" by (auto simp: settled_def)
      with due [OF v] s obtain j where j: "j \<in> set ?due" "eq_ci j i" by blast
      then have "ts_get ops j (as_store st') = Some r" using g get_ci by metis
      with process_all_settles [OF v p] j(1) s show False by blast
    qed
    moreover have "state_of r \<noteq> Working" using inv g by (auto simp: agent_inv_def record_ok_def task_authorized_def)
    ultimately show ?thesis by (simp add: settled_def)
  qed
  have "ts_listDue ops t (as_store st') = []"
  proof (rule ccontr)
    assume "ts_listDue ops t (as_store st') \<noteq> []"
    then obtain j where j: "j \<in> set (ts_listDue ops t (as_store st'))" by (cases "ts_listDue ops t (as_store st')") auto
    then obtain r where g: "ts_get ops j (as_store st') = Some r" using due_known [OF agent_inv_valid [OF inv]] by blast
    have "\<exists>k \<in> set (ts_listDue ops t (as_store st')). eq_ci k j" using j by (intro bexI [of _ j]) simp_all
    with due [OF agent_inv_valid [OF inv] g] all [OF g] show False by (auto simp: settled_def)
  qed
  with all show ?thesis by blast
qed

end

end
