(* ===== verification/A2aTheorems.thy ===== *)
theory A2aTheorems
  imports A2aProperties
begin

section \<open>A2A: the properties\<close>

text \<open>
  The properties of an agent over the in-memory store, each a fact of \<open>mem_tasks\<close>, the interpretation of
  the store contract, and a small concrete agent on which they are exercised: the world is a
  counter, the vault accepts everything, and its three skills finish, ask for input, and ask for
  authorization.
\<close>

subsection \<open>A concrete agent\<close>

definition demo_codec :: crypto_lib where
  "demo_codec =
     \<lparr>encodeAbiParameters = (\<lambda>ts vs. Inr ''0xabi''),
      decodeAbiParameters = (\<lambda>ts h. if ts = [TArray TAddress] then Inr [AList [AHex ''0xA9'']]
        else if ts = [TArray TBytes4] then Inr [AList [AHex A2A_ANY_SKILL]] else Inr [AInt 0, AInt 5000]),
      keccak256 = (\<lambda>h. h), keccak_256 = (\<lambda>bs. bs),
      hashTypedData = (\<lambda>dm ts p m. Inr (''0xh'' @ msg_delegator m))\<rparr>"

definition demo_viem :: viem_lib where
  "demo_viem = \<lparr>vm_codec = demo_codec, vm_toBytes = TextEncoder, vm_keccakBytes = (\<lambda>bs. ''0x'' @ bytes_hex bs),
     vm_errorText = (\<lambda>_. ''error'')\<rparr>"

definition demo_skills :: "(nat, nat) skill_handler list" where
  "demo_skills =
     [\<lparr>sh_skill = ''greet'', sh_payment = None, sh_handle = (\<lambda>c. Return (SkillResult Completed None None))\<rparr>,
      \<lparr>sh_skill = ''form'', sh_payment = None, sh_handle = (\<lambda>c. Return (SkillResult InputRequired None None))\<rparr>,
      \<lparr>sh_skill = ''ask'', sh_payment = None, sh_handle = (\<lambda>c. requestAuth ''more'')\<rparr>]"

definition demo_agent :: "(nat, nat) a2a_config" where
  "demo_agent =
     \<lparr>ac_viem = demo_viem, ac_agentSA = ''0xa9'', ac_chainId = 1, ac_delegationManager = ''0x06'',
      ac_enforcers = \<lparr>ae_allowedTargets = ''0x73'', ae_allowedMethods = ''0x74'', ae_timestamp = ''0x71''\<rparr>,
      ac_checks = \<lparr>oc_isRevoked = (\<lambda>d w. Inr False), oc_verifyDelegationSignature = (\<lambda>d w. Inr True),
        oc_verifyMessageSignature = (\<lambda>m h w. Inr True), oc_verifyCallerSignature = (\<lambda>a h s w. Inr (a = ''0xb0b''))\<rparr>,
      ac_handlers = demo_skills, ac_vaultRead = (\<lambda>ref w. (Inr 7, w)),
      ac_vaultWrite = (\<lambda>own ty x w. (Inr \<lparr>vr_owner = own, vr_recordType = ty\<rparr>, w)),
      ac_now = (\<lambda>w. 1000 * int w), ac_newTaskId = Some (\<lambda>w. (''0xt'' @ nat_str w, Suc w)), ac_newArtifactId = None,
      ac_hashBody = (\<lambda>x. ''0xbody''), ac_signTerminal = None, ac_pushSender = None, ac_handoffPolicy = None,
      ac_paymentGate = None\<rparr>"

definition demo_grant :: "address \<Rightarrow> delegation" where
  "demo_grant who = \<lparr>delegator = who, delegate = ''0xb0b'', authority = ROOT_AUTHORITY,
     caveats = [\<lparr>enforcer = ''0x71'', terms = ''0x01'', args = None\<rparr>, \<lparr>enforcer = ''0x73'', terms = ''0x02'', args = None\<rparr>,
       \<lparr>enforcer = ''0x74'', terms = ''0x03'', args = None\<rparr>], salt_of = SaltBig 1, signature = ''0x01''\<rparr>"

definition demo_send :: "address \<Rightarrow> hex \<Rightarrow> string \<Rightarrow> nat send_params" where
  "demo_send who mid skill =
     \<lparr>ms_delegation = demo_grant who, ms_requester = ''0xb0b'',
      ms_message = \<lparr>am_messageId = mid, am_threadId = None, am_sender = ''0xb0b'', am_skill = skill,
        am_bodyRef = \<lparr>vr_owner = [], vr_recordType = []\<rparr>, am_bodyHash = ''0xbody'', am_signature = ''0x02'', am_createdAt = 1\<rparr>,
      ms_input = 7, ms_pushConfig = None\<rparr>"

definition demo_start :: "(nat, memory_tasks) agent_state" where
  "demo_start = \<lparr>as_store = mem_empty, as_artCounter = 0, as_world = 1\<rparr>"

definition demo_registry :: "(nat, nat) registry" where
  "demo_registry = (case createA2aAgent demo_agent of Inr reg \<Rightarrow> reg | Inl _ \<Rightarrow> Map.empty)"

definition demo_sent :: "string \<Rightarrow> (nat, memory_tasks) agent_state" where
  "demo_sent skill = snd (messageSend demo_agent mem_ops (demo_send ''0xa11ce'' ''0xM1'' skill) demo_start)"

definition demo_processed :: "string \<Rightarrow> (nat, memory_tasks) agent_state" where
  "demo_processed skill = snd (processDue demo_agent mem_ops demo_registry (demo_sent skill))"

lemmas demo_gate = messageSend_def admit_def authorizeA2aMessage_def scope_refusal_def chain_refusal_def
  demo_agent_def demo_skills_def demo_grant_def demo_send_def demo_start_def demo_viem_def demo_codec_def mem_defs
  toLowerCase_def lower_char_def eq_ci_def findCaveat_def decodeTimestampTerms_def decodeAllowedTargetsTerms_def
  decodeAllowedMethodsTerms_def hashA2aMessage_def hashDelegation_def keccak_abi_def new_task_id_def

lemma nat_str_one: "nat_str (Suc 0) = ''1''"
  by (simp add: nat_str.simps char_of_eq_iff)

lemma demo_sent_answers:
  "fst (messageSend demo_agent mem_ops (demo_send ''0xa11ce'' ''0xM1'' ''greet'') demo_start) = Inr (RpcOk (''0xt1'', Submitted))"
  "fst (messageSend demo_agent mem_ops (demo_send ''0xa11ce'' ''0xM1'' ''form'') demo_start) = Inr (RpcOk (''0xt1'', Submitted))"
  "fst (messageSend demo_agent mem_ops (demo_send ''0xa11ce'' ''0xM1'' ''ask'') demo_start) = Inr (RpcOk (''0xt1'', Submitted))"
  by (simp_all add: demo_gate nat_str_one char_of_eq_iff)

lemma demo_states:
  "map_option state_of (memory_task ''0xT1'' (as_store (demo_sent ''greet''))) = Some Submitted"
  "map_option state_of (memory_task ''0xT1'' (as_store (demo_processed ''greet''))) = Some Completed"
  "map_option state_of (memory_task ''0xT1'' (as_store (demo_processed ''form''))) = Some InputRequired"
  "map_option state_of (memory_task ''0xT1'' (as_store (demo_processed ''ask''))) = Some AuthRequired"
  by (simp add: demo_gate nat_str_one demo_sent_def newTaskRecord_def) code_simp+

lemma demo_sent_run:
  assumes "skill \<in> {''greet'', ''form'', ''ask''}"
  shows "agent_step (\<lambda>_. True) demo_agent mem_ops demo_registry demo_start (demo_sent skill)"
proof (rule step_send)
  let ?m = "messageSend demo_agent mem_ops (demo_send ''0xa11ce'' ''0xM1'' skill) demo_start"
  show "?m = (fst ?m, demo_sent skill)" by (simp add: demo_sent_def)
qed simp

lemma demo_processed_run: "agent_step new demo_agent mem_ops demo_registry (demo_sent skill) (demo_processed skill)"
  by (rule step_process) (simp add: demo_processed_def prod_eq_iff)

lemma demo_run:
  assumes "skill \<in> {''greet'', ''form'', ''ask''}"
  shows "agent_run (\<lambda>_. True) demo_agent mem_ops demo_registry demo_start (demo_processed skill)"
  using demo_sent_run [OF assms] demo_processed_run by (rule converse_rtranclp_into_rtranclp [OF _ r_into_rtranclp])

lemma fresh_inv: "mem_tasks.agent_inv cf mem_empty"
  unfolding mem_tasks.agent_inv_def using mem_empty_valid by (simp add: mem_defs)

lemma demo_start_inv: "mem_tasks.agent_inv demo_agent (as_store demo_start)"
  by (simp add: demo_start_def fresh_inv)

lemma demo_sent_inv: "skill \<in> {''greet'', ''form'', ''ask''} \<Longrightarrow> mem_tasks.agent_inv demo_agent (as_store (demo_sent skill))"
  using mem_tasks.step_inv [OF demo_sent_run demo_start_inv] by blast

lemma mem_get: "ts_get mem_ops i s = memory_task i s"
  by (simp add: createInMemoryTaskStore_def)

subsection \<open>Refinement of the task table\<close>

text \<open>
  C3: Over any sequence of requests and alarm rounds, each run to its end before the next, in which no new task is
  given its id, a stored task implements the fulfillment package's task table. It stays stored, its state only ever
  moves along transitions the table allows, and it keeps its sender, principal, assignee, skill and grant reference.
  Once it is in a terminal state nothing of its outcome changes any more: task, artifacts, error, messages and grant
  are fixed. Without the two conditions it does not hold: \<open>fixed_id_overwrites\<close> and
  \<open>cancel_during_processing_is_lost\<close> below.
\<close>

theorem tasks_follow_the_table:
  assumes "agent_run (\<lambda>j. \<not> eq_ci i j) cf mem_ops reg st st'" "mem_valid (as_store st)"
    and "memory_task i (as_store st) = Some r"
  shows "\<exists>r'. memory_task i (as_store st') = Some r' \<and> canTaskTransition\<^sup>*\<^sup>* (state_of r) (state_of r') \<and>
           same_parties r r' \<and> (isTerminal (state_of r) \<longrightarrow> same_outcome r r')"
  using mem_tasks.run_moves [OF assms(1,2)] assms(3)
  unfolding mem_tasks.store_moves_def mem_get task_moves_def frozen_def isTerminal_iff_ended task_reaches_def by blast

theorem tasks_follow_the_table_witness:
  "\<exists>r r'. memory_task ''0xT1'' (as_store (demo_sent ''greet'')) = Some r \<and>
     memory_task ''0xT1'' (as_store (demo_processed ''greet'')) = Some r' \<and>
     canTaskTransition\<^sup>*\<^sup>* (state_of r) (state_of r') \<and> same_parties r r' \<and>
     (isTerminal (state_of r) \<longrightarrow> same_outcome r r')"
proof -
  obtain r where r: "memory_task ''0xT1'' (as_store (demo_sent ''greet'')) = Some r"
    using demo_states(1) by auto
  have "agent_run (\<lambda>j. \<not> eq_ci ''0xT1'' j) demo_agent mem_ops demo_registry (demo_sent ''greet'') (demo_processed ''greet'')"
    using demo_processed_run by blast
  moreover have "mem_valid (as_store (demo_sent ''greet''))"
    by (rule mem_tasks.agent_inv_valid [OF demo_sent_inv]) simp
  ultimately show ?thesis using tasks_follow_the_table [OF _ _ r] r by blast
qed

subsection \<open>Authorization of every task\<close>

lemma stored_tasks_authorized:
  assumes "agent_run (\<lambda>_. True) cf mem_ops reg \<lparr>as_store = mem_empty, as_artCounter = n, as_world = w\<rparr> st"
    and "memory_task i (as_store st) = Some r"
  shows "task_authorized cf r" and "distinct (message_ids r)"
    and "memory_task j (as_store st) = Some r' \<Longrightarrow> a \<in> set (message_ids r) \<Longrightarrow> a \<in> set (message_ids r') \<Longrightarrow> eq_ci i j"
proof -
  have inv: "mem_tasks.agent_inv cf (as_store st)"
    using mem_tasks.run_inv [OF assms(1)] fresh_inv [of cf] by simp
  with assms(2) show "task_authorized cf r" "distinct (message_ids r)"
    unfolding mem_tasks.agent_inv_def mem_get record_ok_def by blast+
  show "eq_ci i j" if "memory_task j (as_store st) = Some r'" "a \<in> set (message_ids r)" "a \<in> set (message_ids r')"
    using inv that assms(2) unfolding mem_tasks.agent_inv_def mem_get by blast
qed

text \<open>
  C7: Whatever requests a fresh agent has served, one at a time, every task it holds is assigned to it; its first
  message passed the whole gate with a grant of the task's principal, and its last message with the grant the task
  carries: signed by the sender, a grant whose delegate is that sender, in its time window, naming this agent and the
  task's skill, not revoked and signed by the delegator. And no message id is held twice: two messages with the same
  id (case aside) can only be one message of one task. The two grants may have different delegators, since a resumed
  task keeps its first principal (\<open>resumed_task_keeps_first_principal\<close>).
\<close>

theorem tasks_are_authorized:
  assumes "agent_run (\<lambda>_. True) cf mem_ops reg \<lparr>as_store = mem_empty, as_artCounter = n, as_world = w\<rparr> st"
    and "memory_task i (as_store st) = Some r"
  shows "task_authorized cf r \<and> distinct (message_ids r) \<and>
    (\<forall>j r' a. memory_task j (as_store st) = Some r' \<longrightarrow> a \<in> set (message_ids r) \<longrightarrow> a \<in> set (message_ids r') \<longrightarrow> eq_ci i j)"
  using stored_tasks_authorized [OF assms] by blast


theorem tasks_are_authorized_witness:
  "\<exists>r. memory_task ''0xT1'' (as_store (demo_processed ''ask'')) = Some r \<and> task_authorized demo_agent r \<and>
     distinct (message_ids r) \<and> (''0xm1'' \<in> set (message_ids r) \<longrightarrow> eq_ci ''0xT1'' ''0xT1'')"
proof -
  obtain r where r: "memory_task ''0xT1'' (as_store (demo_processed ''ask'')) = Some r"
    using demo_states(4) by auto
  have run: "agent_run (\<lambda>_. True) demo_agent mem_ops demo_registry \<lparr>as_store = mem_empty, as_artCounter = 0, as_world = 1\<rparr>
      (demo_processed ''ask'')"
    using demo_run [of "''ask''"] by (simp add: demo_start_def)
  from tasks_are_authorized [OF run r] r show ?thesis by blast
qed

subsection \<open>Progress\<close>

text \<open>
  C24: The alarm body makes progress. Take a fresh agent that has served any requests, one at a time. A round moves each
  stored task along the table only. When the round completes, nothing is due and no task is submitted or working any
  more: every one has moved to an end or to a state that waits for somebody else. And the only errors that can stop it
  are those of the vault's read, of the hash of a push payload, and of the terminal signer.
\<close>

theorem due_tasks_settle:
  assumes "agent_run (\<lambda>_. True) cf mem_ops reg \<lparr>as_store = mem_empty, as_artCounter = n, as_world = w\<rparr> st"
    and "processDue cf mem_ops reg st = (res, st')"
  shows "(\<forall>i r. memory_task i (as_store st) = Some r \<longrightarrow>
      (\<exists>r'. memory_task i (as_store st') = Some r' \<and> canTaskTransition\<^sup>*\<^sup>* (state_of r) (state_of r'))) \<and>
    (case res of
       Inr out \<Rightarrow> memory_listDue t (as_store st') = [] \<and>
         (\<forall>i r. memory_task i (as_store st') = Some r \<longrightarrow> state_of r \<noteq> Submitted \<and> state_of r \<noteq> Working)
     | Inl e \<Rightarrow> round_error cf e)"
proof -
  have inv: "mem_tasks.agent_inv cf (as_store st)"
    using mem_tasks.run_inv [OF assms(1)] fresh_inv [of cf] by simp
  have p: "process_all cf mem_ops reg (ts_listDue mem_ops (ac_now cf (as_world st)) (as_store st)) [] st = (res, st')"
    using assms(2) by (simp add: processDue_def)
  have "mem_tasks.store_moves (\<lambda>_. False) (as_store st) (as_store st')"
    by (rule mem_tasks.process_all_moves [OF mem_tasks.agent_inv_valid [OF inv] p])
  then have "\<forall>i r. memory_task i (as_store st) = Some r \<longrightarrow>
      (\<exists>r'. memory_task i (as_store st') = Some r' \<and> canTaskTransition\<^sup>*\<^sup>* (state_of r) (state_of r'))"
    unfolding mem_tasks.store_moves_def mem_get task_moves_def task_reaches_def by blast
  moreover have "memory_listDue t (as_store st') = [] \<and>
      (\<forall>i r. memory_task i (as_store st') = Some r \<longrightarrow> state_of r \<noteq> Submitted \<and> state_of r \<noteq> Working)" if "res = Inr out" for out
    using mem_tasks.processDue_settles [OF inv, of reg out st' t] assms(2) that
    by (simp add: mem_get settled_def createInMemoryTaskStore_def)
  moreover have "round_error cf e" if "res = Inl e" for e
    using mem_tasks.process_all_error [OF inv] p that by blast
  ultimately show ?thesis by (cases res) simp_all
qed

theorem due_tasks_settle_witness:
  "\<exists>out st'. processDue demo_agent mem_ops demo_registry (demo_sent ''greet'') = (Inr out, st') \<and>
     memory_listDue 0 (as_store st') = []"
proof -
  have run: "agent_run (\<lambda>_. True) demo_agent mem_ops demo_registry \<lparr>as_store = mem_empty, as_artCounter = 0, as_world = 1\<rparr> (demo_sent ''greet'')"
    using demo_sent_run [of "''greet''"] by (simp add: demo_start_def r_into_rtranclp)
  obtain res st' where p: "processDue demo_agent mem_ops demo_registry (demo_sent ''greet'') = (res, st')"
    by (cases "processDue demo_agent mem_ops demo_registry (demo_sent ''greet'')")
  have "\<not> round_error demo_agent e" for e
    by (simp add: round_error_def demo_agent_def hashPushPayload_def keccak_abi_def demo_viem_def demo_codec_def)
  with due_tasks_settle [OF run p, of 0] p show ?thesis by (cases res) auto
qed

subsection \<open>What the agent does not guarantee\<close>

lemma cancel_lost:
  assumes "mem_valid (as_store st)" "process_load mem_ops i (as_store st) = Some rec"
    and "tasksCancel cf mem_ops i caller sig st = (Inr (RpcOk x), st1)"
    and "process_finish cf mem_ops reg rec st = (Inr evs, st2)"
  shows "map_option state_of (memory_task i (as_store st1)) = Some Canceled"
    and "\<exists>st3. process_finish cf mem_ops reg rec st1 = (Inr evs, st3) \<and>
           memory_task i (as_store st3) = memory_task i (as_store st2)"
proof -
  obtain j t where x: "x = (j, t)" by (cases x)
  have g: "ts_get mem_ops i (as_store st) = Some rec" "state_of rec = Submitted"
    using assms(2) by (auto simp: process_load_def split: option.splits if_splits)
  from assms(3) obtain r ev where c: "applyTransition rec Canceled (ac_now cf (as_world st)) None = Inr (r, ev)"
      "st1 = st\<lparr>as_store := ts_put mem_ops r (as_store st)\<rparr>"
    by (cases rule: mem_tasks.tasksCancel_cases) (use x g in auto)
  have id: "eq_ci i (task_id r)"
    using mem_tasks.get_id [OF assms(1) g(1)] c(1) by (auto simp: applyTransition_Inr eq_ci_def)
  with c show "map_option state_of (memory_task i (as_store st1)) = Some Canceled"
    using mem_tasks.get_put [OF assms(1), of i r] by (auto simp: mem_get applyTransition_Inr)
  obtain m where m: "same_request rec m" "as_store st2 = ts_put mem_ops m (as_store st)"
      "\<forall>s. process_finish cf mem_ops reg rec (st\<lparr>as_store := s\<rparr>) = (Inr evs, st2\<lparr>as_store := ts_put mem_ops m s\<rparr>)"
    using process_finish_frame [OF assms(4) g(2)] by blast
  then have "process_finish cf mem_ops reg rec st1 = (Inr evs, st2\<lparr>as_store := ts_put mem_ops m (as_store st1)\<rparr>)"
    by (simp add: c(2))
  moreover have "eq_ci i (task_id m)"
    using m(1) mem_tasks.get_id [OF assms(1) g(1)] by (simp add: same_request_def same_parties_def eq_ci_def)
  moreover have "mem_valid (as_store st1)" using mem_tasks.put_valid [OF assms(1)] by (simp add: c(2))
  ultimately show "\<exists>st3. process_finish cf mem_ops reg rec st1 = (Inr evs, st3) \<and>
      memory_task i (as_store st3) = memory_task i (as_store st2)"
    using mem_tasks.get_put [OF assms(1), of i m] mem_tasks.get_put [of "as_store st1" i m]
    by (simp add: mem_get m(2))
qed

text \<open>
  Without a source of ids in the configuration every task gets the same id: a message that is accepted replaces the
  task stored before, whatever its state, by a submitted one that holds this message only.
\<close>

lemma fixed_id_overwrites:
  assumes "mem_valid (as_store st)" "ac_newTaskId cf = None" "messageSend cf mem_ops p st = (Inr (RpcOk x), st')"
  shows "x = (DEFAULT_TASK_ID, Submitted) \<and> (\<exists>r. memory_task DEFAULT_TASK_ID (as_store st') = Some r \<and>
    state_of r = Submitted \<and> tr_sender r = ms_requester p \<and> length (tr_inbound r) = 1)"
proof -
  from assms(3) show ?thesis
  proof (cases rule: mem_tasks.messageSend_cases)
    case (created a ref st1 i w r)
    note adm = mem_tasks.admit_store [OF assms(1) created(1)]
    have "i = DEFAULT_TASK_ID"
      using assms(2,3) created(1,2)
      by (auto simp: messageSend_def new_task_id_def Let_def split: sum.splits)
    with created adm mem_tasks.get_put [of "as_store st1" i r] show ?thesis by (simp add: mem_get)
  qed (metis surj_pair)+
qed

text \<open>
  A cancellation that arrives while a task is being processed is lost. The alarm body loads the
  record, runs the skill, and then writes the record it made from the one it loaded: after a
  \<open>tasks/cancel\<close> in between that was answered with success, the task ends exactly as if nobody had
  cancelled it.
\<close>

theorem cancel_during_processing_is_lost:
  assumes "mem_valid (as_store st)" "process_load mem_ops i (as_store st) = Some rec"
    and "tasksCancel cf mem_ops i caller sig st = (Inr (RpcOk x), st1)"
    and "process_finish cf mem_ops reg rec st = (Inr evs, st2)"
  shows "map_option state_of (memory_task i (as_store st1)) = Some Canceled \<and>
    (\<exists>st3. process_finish cf mem_ops reg rec st1 = (Inr evs, st3) \<and>
           memory_task i (as_store st3) = memory_task i (as_store st2))"
  using cancel_lost [OF assms] by blast


definition demo_canceled :: "(nat, memory_tasks) agent_state" where
  "demo_canceled = snd (tasksCancel demo_agent mem_ops ''0xT1'' ''0xb0b'' ''0x01'' (demo_sent ''greet''))"

definition demo_loaded :: TaskRecord where
  "demo_loaded = the (process_load mem_ops ''0xT1'' (as_store (demo_sent ''greet'')))"

definition demo_events :: "TaskEvent list" where
  "demo_events = [TaskStatus ''0xt1'' Working 2 None, TaskStatus ''0xt1'' Completed 3 None]"

lemma demo_cancel_facts:
  "process_load mem_ops ''0xT1'' (as_store (demo_sent ''greet'')) \<noteq> None"
  "fst (tasksCancel demo_agent mem_ops ''0xT1'' ''0xb0b'' ''0x01'' (demo_sent ''greet'')) = Inr (RpcOk (''0xT1'', Canceled))"
  "fst (process_finish demo_agent mem_ops demo_registry demo_loaded (demo_sent ''greet'')) = Inr demo_events"
  "map_option state_of (memory_task ''0xT1'' (as_store
     (snd (process_finish demo_agent mem_ops demo_registry demo_loaded (demo_sent ''greet''))))) = Some Completed"
  by code_simp+

theorem cancel_during_processing_is_lost_witness:
  "map_option state_of (memory_task ''0xT1'' (as_store demo_canceled)) = Some Canceled \<and>
   (\<exists>st3. process_finish demo_agent mem_ops demo_registry demo_loaded demo_canceled = (Inr demo_events, st3) \<and>
      map_option state_of (memory_task ''0xT1'' (as_store st3)) = Some Completed)"
proof -
  let ?st = "demo_sent ''greet''"
  have v: "mem_valid (as_store ?st)" by (rule mem_tasks.agent_inv_valid [OF demo_sent_inv]) simp
  have l: "process_load mem_ops ''0xT1'' (as_store ?st) = Some demo_loaded"
    using demo_cancel_facts(1) by (auto simp: demo_loaded_def)
  have c: "tasksCancel demo_agent mem_ops ''0xT1'' ''0xb0b'' ''0x01'' ?st = (Inr (RpcOk (''0xT1'', Canceled)), demo_canceled)"
    using demo_cancel_facts(2) by (simp add: demo_canceled_def prod_eq_iff)
  have f: "process_finish demo_agent mem_ops demo_registry demo_loaded ?st =
      (Inr demo_events, snd (process_finish demo_agent mem_ops demo_registry demo_loaded ?st))"
    using demo_cancel_facts(3) by (simp add: prod_eq_iff)
  from cancel_during_processing_is_lost [OF v l c f] demo_cancel_facts(4) show ?thesis by auto
qed

text \<open>
  A task waiting for input is stuck. The table lets an \<open>input-required\<close> task go on to \<open>working\<close>,
  but no request the agent serves makes that transition, and \<open>tasks/cancel\<close> is refused for it: after
  any run in which no new task is given its id, the task is still waiting, with the same outcome.
\<close>

theorem waiting_for_input_is_stuck:
  assumes "agent_run (\<lambda>j. \<not> eq_ci i j) cf mem_ops reg st st'" "mem_valid (as_store st)"
    and "memory_task i (as_store st) = Some r" "state_of r = InputRequired"
  shows "canTaskTransition InputRequired Working"
    and "\<exists>r'. memory_task i (as_store st') = Some r' \<and> state_of r' = InputRequired \<and> same_outcome r r'"
    and "snd (tasksCancel cf mem_ops i caller sig st') = st'"
proof -
  obtain r' where r': "memory_task i (as_store st') = Some r'" "same_outcome r r'"
    using mem_tasks.run_moves [OF assms(1,2)] assms(3,4)
    unfolding mem_tasks.store_moves_def mem_get task_moves_def frozen_def by blast
  then have s: "state_of r' = InputRequired" using assms(4) by (simp add: same_outcome_def)
  show "canTaskTransition InputRequired Working" by (simp add: canTaskTransition_def)
  show "\<exists>r'. memory_task i (as_store st') = Some r' \<and> state_of r' = InputRequired \<and> same_outcome r r'"
    using r' s by blast
  obtain res st'' where c: "tasksCancel cf mem_ops i caller sig st' = (res, st'')"
    by (cases "tasksCancel cf mem_ops i caller sig st'")
  then show "snd (tasksCancel cf mem_ops i caller sig st') = st'"
    by (cases rule: mem_tasks.tasksCancel_cases)
       (use r'(1) s c in \<open>auto simp: mem_get applyTransition_Inr canTaskTransition_def\<close>)
qed

theorem waiting_for_input_is_stuck_witness:
  "canTaskTransition InputRequired Working \<and>
   (\<exists>r. memory_task ''0xT1'' (as_store (demo_processed ''form'')) = Some r \<and> state_of r = InputRequired) \<and>
   snd (tasksCancel demo_agent mem_ops ''0xT1'' ''0xb0b'' ''0x01'' (demo_processed ''form'')) = demo_processed ''form''"
proof -
  let ?st = "demo_processed ''form''"
  obtain r where r: "memory_task ''0xT1'' (as_store ?st) = Some r" "state_of r = InputRequired"
    using demo_states(3) by auto
  have "mem_tasks.agent_inv demo_agent (as_store ?st)"
    by (rule mem_tasks.step_inv [OF demo_processed_run demo_sent_inv]) simp
  from waiting_for_input_is_stuck [OF _ mem_tasks.agent_inv_valid [OF this] r, of demo_agent demo_registry ?st] r
  show ?thesis by blast
qed

text \<open>
  A resumed task keeps its first principal. \<open>resubmit\<close> runs the gate on a fresh grant and stores
  that grant, but leaves the task's principal and its \<open>permissionGrantRef\<close> as they were: when the fresh
  grant comes from another delegator, the skill runs for the first one with the grant of the second.
\<close>

theorem resumed_task_keeps_first_principal:
  assumes "mem_valid (as_store st)" "resubmit cf mem_ops i p st = (Inr (RpcOk x), st')"
  shows "\<exists>r r'. memory_task i (as_store st) = Some r \<and> memory_task i (as_store st') = Some r' \<and>
           tr_delegation r' = ms_delegation p \<and> tr_principal r' = tr_principal r \<and>
           task_permissionGrantRef (tr_task r') = task_permissionGrantRef (tr_task r)"
proof -
  obtain j t where x: "x = (j, t)" by (cases x)
  from assms(2) show ?thesis
  proof (cases rule: mem_tasks.resubmit_cases)
    case (resumed rec a ref st1 r ev r')
    have g: "memory_task i (as_store st) = Some rec" using resumed(1) by (simp add: mem_get)
    note adm = mem_tasks.admit_store [OF assms(1) resumed(5)]
    have r': "tr_delegation r' = ms_delegation p" "tr_principal r' = tr_principal rec" "task_id r' = task_id rec"
        "task_permissionGrantRef (tr_task r') = task_permissionGrantRef (tr_task rec)"
      using resumed(6) by (auto simp: resumed(7) applyTransition_Inr)
    have "eq_ci i (task_id r')"
      using mem_tasks.get_id [OF assms(1) resumed(1)] by (simp add: r'(3) eq_ci_def)
    with adm mem_tasks.get_put [of "as_store st1" i r'] have "memory_task i (as_store st') = Some r'"
      by (simp add: mem_get resumed(8))
    with g r' show ?thesis by blast
  qed (use x in auto)
qed

definition demo_resumed :: "(hex \<times> TaskState) rpc js \<times> (nat, memory_tasks) agent_state" where
  "demo_resumed = resubmit demo_agent mem_ops ''0xT1'' (demo_send ''0xeve'' ''0xM2'' ''ask'') (demo_processed ''ask'')"

lemma demo_resumed_facts:
  "fst demo_resumed = Inr (RpcOk (''0xT1'', Submitted))"
  "map_option tr_principal (memory_task ''0xT1'' (as_store (demo_processed ''ask''))) = Some ''0xa11ce''"
  by code_simp+

theorem resumed_task_keeps_first_principal_witness:
  "\<exists>r'. memory_task ''0xT1'' (as_store (snd demo_resumed)) = Some r' \<and> tr_principal r' = ''0xa11ce'' \<and>
     delegator (tr_delegation r') = ''0xeve''"
proof -
  have "mem_tasks.agent_inv demo_agent (as_store (demo_processed ''ask''))"
    by (rule mem_tasks.step_inv [OF demo_processed_run demo_sent_inv]) simp
  note v = mem_tasks.agent_inv_valid [OF this]
  have "resubmit demo_agent mem_ops ''0xT1'' (demo_send ''0xeve'' ''0xM2'' ''ask'') (demo_processed ''ask'') =
      (Inr (RpcOk (''0xT1'', Submitted)), snd demo_resumed)"
    using demo_resumed_facts(1) by (simp add: demo_resumed_def prod_eq_iff)
  from resumed_task_keeps_first_principal [OF v this] demo_resumed_facts(2) show ?thesis
    by (auto simp: demo_send_def demo_grant_def)
qed

text \<open>
  One input that cannot be read back stops the whole alarm: when the first due task's vault read
  fails, \<open>processDue\<close> rejects and every other due task stays as it was.
\<close>

lemma unreadable_input_blocks_the_queue:
  assumes "memory_listDue n (as_store st) = i # is" "process_load mem_ops i (as_store st) = Some rec"
    and "tr_inbound rec \<noteq> []" "ac_vaultRead cf (am_bodyRef (last (tr_inbound rec))) (as_world st) = (Inl e, w')"
  shows "processDue cf mem_ops reg st = (Inl e, st\<lparr>as_world := w'\<rparr>)"
proof -
  obtain ms m where "tr_inbound rec = ms @ [m]" using assms(3) by (metis rev_exhaust)
  with assms show ?thesis
    by (simp add: processDue_def process_one_def process_finish_def createInMemoryTaskStore_def memory_listDue_def)
qed

text \<open>The payment gate of the configuration plays no part in processing: a priced skill runs unpaid.\<close>

lemma payment_gate_is_not_consulted:
  "processDue (cf\<lparr>ac_paymentGate := g\<rparr>) ops reg st = processDue cf ops reg st"
proof -
  have e: "emitArtifact (cf\<lparr>ac_paymentGate := g\<rparr>) = emitArtifact cf"
    by (rule ext)+ (simp add: emitArtifact_def newArtifactId_def split: prod.split sum.split)
  have "process_one (cf\<lparr>ac_paymentGate := g\<rparr>) ops reg i s = process_one cf ops reg i s" for i s
    by (auto simp: process_one_def process_finish_def e Let_def split: prod.split sum.split option.split list.split)
  then have "process_all (cf\<lparr>ac_paymentGate := g\<rparr>) ops reg is evs s = process_all cf ops reg is evs s" for "is" evs s
    by (induction "is" arbitrary: evs s) (simp_all split: prod.split sum.split)
  then show ?thesis by (simp add: processDue_def)
qed

end
