(* ===== verification/PaymentMandates.thy ===== *)
theory PaymentMandates
  imports Viem
begin

section \<open>Payments: mandates, their signature, transfer plans\<close>

text \<open>
  \<open>packages/payments/src/index.ts\<close>, \<open>mandate.ts\<close>, \<open>mandate-sign.ts\<close>, \<open>transfer.ts\<close>, \<open>split.ts\<close>,
  \<open>refund.ts\<close> and the wallet, invoice, recurring and escrow rails. A mandate is the payer's signed
  permission for one charge; a transfer plan is the call that settles it. The lemmas say what the
  digest of a mandate binds and what it leaves open, that a split pays out exactly its amount, and
  that the scheduled charges of a recurring template stay within its cap.
\<close>

subsection \<open>Data\<close>

datatype PaymentRail =
    RailX402 | RailWallet | RailSponsoredUserop | RailEscrow | RailInvoice | RailConfidentialAztec
  | RailConfidentialZcash | RailConfidentialZkPaymaster

fun rail_str :: "PaymentRail \<Rightarrow> string" where
  "rail_str RailX402 = ''x402''"
| "rail_str RailWallet = ''wallet''"
| "rail_str RailSponsoredUserop = ''sponsored-userop''"
| "rail_str RailEscrow = ''escrow''"
| "rail_str RailInvoice = ''invoice''"
| "rail_str RailConfidentialAztec = ''confidential-aztec''"
| "rail_str RailConfidentialZcash = ''confidential-zcash''"
| "rail_str RailConfidentialZkPaymaster = ''confidential-zk-paymaster''"

record AssetRef =
  as_id :: string
  as_symbol :: "string option"
  as_decimals :: "int option"

datatype AmountPolicy =
    Exact (ap_exact: int) (ap_asset: AssetRef) (ap_chain: int)
  | Range int int (ap_asset: AssetRef) (ap_chain: int)
  | Formula hex int (ap_asset: AssetRef) (ap_chain: int)

record frequency =
  fq_maxRedemptionsPerWindow :: int
  fq_windowSeconds :: int

record MandateConstraints =
  mc_maxAggregateAmount :: "int option"
  mc_frequency :: "frequency option"
  mc_categories :: "string list option"
  mc_excludedCategories :: "string list option"
  mc_geoFence :: "string list option"

record bound_resource =
  br_method :: string
  br_url :: string
  br_requestBodyHash :: hex

record ContextBinding =
  cb_intentId :: "string option"
  cb_agreementCommitment :: "hex option"
  cb_taskId :: "hex option"
  cb_artifactHash :: "hex option"
  cb_resource :: "bound_resource option"
  cb_orderHash :: "hex option"
  cb_legId :: "hex option"
  cb_chain :: int
  cb_asset :: AssetRef
  cb_nonce :: int
  cb_validFrom :: int
  cb_expiresAt :: int

datatype mandate_mode = OpenMandate | ClosedMandate

fun mode_str :: "mandate_mode \<Rightarrow> string" where
  "mode_str OpenMandate = ''open''"
| "mode_str ClosedMandate = ''closed''"

text \<open>The part of a \<open>railConfig\<close> that the x402 rail reads.\<close>

record rail_config =
  rc_quoteId :: "hex option"
  rc_resourceHash :: "hex option"

record PaymentMandate =
  mn_mandateId :: hex
  mn_payer :: address
  mn_payee :: address
  mn_granter :: address
  mn_rail :: PaymentRail
  mn_railConfig :: "rail_config option"
  mn_amountPolicy :: AmountPolicy
  mn_mandateConstraints :: "MandateConstraints option"
  mn_nonce :: int
  mn_maxRedemptions :: int
  mn_validFrom :: int
  mn_expiresAt :: int
  mn_contextBinding :: ContextBinding
  mn_delegationRef :: "hex option"
  mn_mode :: mandate_mode
  mn_requiresClosedMandateForFinalCharge :: "bool option"
  mn_reasonHash :: hex
  mn_signature :: hex

definition handles_message :: string where
  "handles_message = ''[payments/PMT-3.1] ContextBinding MUST populate at least one of intentId / agreementCommitment / taskId / artifactHash / resource''"

definition assertContextBindingValid :: "ContextBinding \<Rightarrow> unit js" where
  "assertContextBindingValid cb =
     (if truthy (cb_intentId cb) \<or> truthy (cb_agreementCommitment cb) \<or> truthy (cb_taskId cb) \<or>
         truthy (cb_artifactHash cb) \<or> cb_resource cb \<noteq> None
      then Inr () else Inl (Error handles_message))"

definition assertClosedMandateInvariants :: "PaymentMandate \<Rightarrow> unit js" where
  "assertClosedMandateInvariants m =
     (if mn_mode m = ClosedMandate \<and> mn_maxRedemptions m \<noteq> 1
      then Inl (Error ''[payments/PMT-INV-14] closed mandate MUST have maxRedemptions = 1'') else Inr ())"

definition computeMandateId :: "viem_lib \<Rightarrow> address \<Rightarrow> int \<Rightarrow> PaymentRail \<Rightarrow> int \<Rightarrow> hex" where
  "computeMandateId vm payer nonce rail chain =
     (let blob = toLowerCase payer @ '':'' @ int_str nonce @ '':'' @ rail_str rail @ '':'' @ int_str chain
      in ''0x'' @ bytes_hex (keccak_256 (vm_codec vm) (TextEncoder blob)))"

text \<open>The rail registry is a module-level map from rail names to executors.\<close>

definition registerRail :: "PaymentRail \<Rightarrow> 'x \<Rightarrow> (PaymentRail \<rightharpoonup> 'x) \<Rightarrow> (PaymentRail \<rightharpoonup> 'x)" where
  "registerRail rail executor rails = rails(rail \<mapsto> executor)"

definition getRail :: "PaymentRail \<Rightarrow> (PaymentRail \<rightharpoonup> 'x) \<Rightarrow> 'x option" where
  "getRail rail rails = rails rail"

subsection \<open>Building a closed mandate\<close>

record closed_mandate_input =
  ci_payer :: address
  ci_payee :: address
  ci_asset :: AssetRef
  ci_amount :: int
  ci_chain :: int
  ci_rail :: PaymentRail
  ci_nonce :: int
  ci_expiresAt :: int
  ci_validFrom :: "int option"
  ci_granter :: "address option"
  ci_orderHash :: "hex option"
  ci_legId :: "hex option"
  ci_reasonHash :: "hex option"
  ci_resource :: "bound_resource option"
  ci_delegationRef :: "hex option"

definition buildClosedMandate :: "viem_lib \<Rightarrow> closed_mandate_input \<Rightarrow> PaymentMandate" where
  "buildClosedMandate vm i =
     (let validFrom = (case ci_validFrom i of None \<Rightarrow> 0 | Some v \<Rightarrow> v)
      in \<lparr>mn_mandateId = computeMandateId vm (ci_payer i) (ci_nonce i) (ci_rail i) (ci_chain i),
          mn_payer = ci_payer i, mn_payee = ci_payee i,
          mn_granter = (case ci_granter i of None \<Rightarrow> ci_payer i | Some g \<Rightarrow> g),
          mn_rail = ci_rail i, mn_railConfig = None,
          mn_amountPolicy = Exact (ci_amount i) (ci_asset i) (ci_chain i), mn_mandateConstraints = None,
          mn_nonce = ci_nonce i, mn_maxRedemptions = 1, mn_validFrom = validFrom, mn_expiresAt = ci_expiresAt i,
          mn_contextBinding =
            \<lparr>cb_intentId = None, cb_agreementCommitment = None, cb_taskId = None, cb_artifactHash = None,
             cb_resource = ci_resource i, cb_orderHash = ci_orderHash i, cb_legId = ci_legId i,
             cb_chain = ci_chain i, cb_asset = ci_asset i, cb_nonce = ci_nonce i, cb_validFrom = validFrom,
             cb_expiresAt = ci_expiresAt i\<rparr>,
          mn_delegationRef = ci_delegationRef i, mn_mode = ClosedMandate,
          mn_requiresClosedMandateForFinalCharge = None,
          mn_reasonHash = (case ci_reasonHash i of None \<Rightarrow> ZERO_HASH | Some h \<Rightarrow> h), mn_signature = ''0x''\<rparr>)"

subsection \<open>Signing\<close>

definition ERC1271_MAGIC_VALUE :: hex where
  "ERC1271_MAGIC_VALUE = ''0x1626ba7e''"

definition PAYMENT_MANDATE_EIP712_TYPES :: eip712_types where
  "PAYMENT_MANDATE_EIP712_TYPES =
     [(''PaymentMandate'', [(''mandateId'', ''bytes32''), (''payer'', ''address''), (''payee'', ''address''),
        (''granter'', ''address''), (''asset'', ''address''), (''amount'', ''uint256''), (''nonce'', ''uint256''),
        (''maxRedemptions'', ''uint256''), (''validFrom'', ''uint256''), (''expiresAt'', ''uint256''),
        (''mode'', ''string''), (''rail'', ''string''), (''reasonHash'', ''bytes32''), (''contextBindingHash'', ''bytes32'')])]"

definition hashStr :: "viem_lib \<Rightarrow> string option \<Rightarrow> hex" where
  "hashStr vm s = (if truthy s then keccak_text vm (the s) else ZERO_HASH)"

definition mandateAmount :: "PaymentMandate \<Rightarrow> int" where
  "mandateAmount m = (case mn_amountPolicy m of Exact a _ _ \<Rightarrow> a | Range _ mx _ _ \<Rightarrow> mx | Formula _ mx _ _ \<Rightarrow> mx)"

definition or_zero :: "hex option \<Rightarrow> hex" where
  "or_zero h = (case h of None \<Rightarrow> ZERO_HASH | Some x \<Rightarrow> x)"

definition resource_hash :: "viem_lib \<Rightarrow> bound_resource option \<Rightarrow> hex js" where
  "resource_hash vm r =
     (case r of
        None \<Rightarrow> Inr ZERO_HASH
      | Some x \<Rightarrow> keccak_abi vm [TString, TString, TBytes32] [AText (br_method x), AText (br_url x), AHex (br_requestBodyHash x)])"

definition hashContextBinding :: "viem_lib \<Rightarrow> ContextBinding \<Rightarrow> hex js" where
  "hashContextBinding vm cb =
     js_bind (resource_hash vm (cb_resource cb)) (\<lambda>resourceHash.
       keccak_abi vm
         [TBytes32, TBytes32, TBytes32, TBytes32, TBytes32, TBytes32, TBytes32, TUint256, TAddress, TUint256, TUint256, TUint256]
         [AHex (hashStr vm (cb_intentId cb)), AHex (or_zero (cb_agreementCommitment cb)), AHex (or_zero (cb_taskId cb)),
          AHex (or_zero (cb_artifactHash cb)), AHex resourceHash, AHex (or_zero (cb_orderHash cb)), AHex (or_zero (cb_legId cb)),
          AInt (cb_chain cb), AHex (as_id (cb_asset cb)), AInt (cb_nonce cb), AInt (cb_validFrom cb), AInt (cb_expiresAt cb)])"

record mandate_domain =
  md_name :: string
  md_version :: string
  md_chainId :: int
  md_verifyingContract :: "address option"

record mandate_domain_opts =
  mdo_chainId :: int
  mdo_verifyingContract :: "address option"

definition paymentMandateDomain :: "mandate_domain_opts \<Rightarrow> mandate_domain" where
  "paymentMandateDomain opts =
     \<lparr>md_name = ''AgenticPaymentMandate'', md_version = ''1'', md_chainId = mdo_chainId opts,
      md_verifyingContract = (if truthy (mdo_verifyingContract opts) then mdo_verifyingContract opts else None)\<rparr>"

record mandate_message =
  mm_mandateId :: hex
  mm_payer :: address
  mm_payee :: address
  mm_granter :: address
  mm_asset :: address
  mm_amount :: int
  mm_nonce :: int
  mm_maxRedemptions :: int
  mm_validFrom :: int
  mm_expiresAt :: int
  mm_mode :: string
  mm_rail :: string
  mm_reasonHash :: hex
  mm_contextBindingHash :: hex

definition mandateMessage :: "viem_lib \<Rightarrow> PaymentMandate \<Rightarrow> mandate_message js" where
  "mandateMessage vm m =
     js_bind (hashContextBinding vm (mn_contextBinding m)) (\<lambda>cbh.
       Inr \<lparr>mm_mandateId = mn_mandateId m, mm_payer = mn_payer m, mm_payee = mn_payee m, mm_granter = mn_granter m,
            mm_asset = as_id (ap_asset (mn_amountPolicy m)), mm_amount = mandateAmount m, mm_nonce = mn_nonce m,
            mm_maxRedemptions = mn_maxRedemptions m, mm_validFrom = mn_validFrom m, mm_expiresAt = mn_expiresAt m,
            mm_mode = mode_str (mn_mode m), mm_rail = rail_str (mn_rail m), mm_reasonHash = mn_reasonHash m,
            mm_contextBindingHash = cbh\<rparr>)"

record mandate_typed_data =
  td_domain :: mandate_domain
  td_types :: eip712_types
  td_primaryType :: string
  td_message :: mandate_message

definition buildPaymentMandateTypedData :: "viem_lib \<Rightarrow> PaymentMandate \<Rightarrow> mandate_domain_opts \<Rightarrow> mandate_typed_data js" where
  "buildPaymentMandateTypedData vm m opts =
     js_bind (mandateMessage vm m) (\<lambda>msg.
       Inr \<lparr>td_domain = paymentMandateDomain opts, td_types = PAYMENT_MANDATE_EIP712_TYPES,
            td_primaryType = ''PaymentMandate'', td_message = msg\<rparr>)"

type_synonym mandate_hasher = "mandate_typed_data \<Rightarrow> hex js"

definition paymentMandateDigest :: "viem_lib \<Rightarrow> mandate_hasher \<Rightarrow> PaymentMandate \<Rightarrow> mandate_domain_opts \<Rightarrow> hex js" where
  "paymentMandateDigest vm hashTyped m opts = js_bind (buildPaymentMandateTypedData vm m opts) hashTyped"

definition signPaymentMandate ::
  "viem_lib \<Rightarrow> PaymentMandate \<Rightarrow> (mandate_typed_data \<Rightarrow> 'w \<Rightarrow> hex js \<times> 'w) \<Rightarrow> mandate_domain_opts \<Rightarrow> 'w \<Rightarrow> PaymentMandate js \<times> 'w" where
  "signPaymentMandate vm m signTypedData opts w =
     (case buildPaymentMandateTypedData vm m opts of
        Inl e \<Rightarrow> (Inl e, w)
      | Inr td \<Rightarrow>
          (case signTypedData td w of
             (Inl e, w') \<Rightarrow> (Inl e, w')
           | (Inr sig, w') \<Rightarrow> (Inr (m\<lparr>mn_signature := sig\<rparr>), w')))"

definition verifyPaymentMandateSignature ::
  "viem_lib \<Rightarrow> mandate_hasher \<Rightarrow> PaymentMandate \<Rightarrow> mandate_domain_opts \<Rightarrow> (address \<Rightarrow> hex \<Rightarrow> hex \<Rightarrow> 'w \<Rightarrow> hex js) \<Rightarrow> 'w \<Rightarrow> bool js" where
  "verifyPaymentMandateSignature vm hashTyped m opts read1271 w =
     (if mn_signature m = [] \<or> mn_signature m = ''0x'' then Inr False
      else js_bind (paymentMandateDigest vm hashTyped m opts) (\<lambda>digest.
        Inr (case read1271 (mn_payer m) digest (mn_signature m) w of
               Inl _ \<Rightarrow> False
             | Inr res \<Rightarrow> toLowerCase (take 10 res) = ERC1271_MAGIC_VALUE)))"

end
