(* ===== verification/PaymentBinding.thy ===== *)
theory PaymentBinding
  imports PaymentMandates Evaluator "HOL-Library.Countable"
begin

section \<open>Payments: what the signature on a mandate binds\<close>

text \<open>
  The digest of \<open>mandate-sign.ts\<close> against the fields of a mandate. Without collisions on their own inputs
  two mandates with one digest agree on every field of the signed struct and on the whole context
  binding, read the way the code reads it; and the digest does not depend on the rail configuration,
  the constraints or the delegation reference at all.
\<close>

subsection \<open>Normal forms\<close>

















text \<open>
  The condition on intent ids is needed: \<open>toBytes\<close> reads a text with the prefix \<open>0x\<close> as hex, so it can be given the
  bytes of another text, and then the two context bindings have one hash.
\<close>

lemma hex_intent_collides:
  assumes "vm_toBytes vm ''0x61'' = [0x61]" "vm_toBytes vm ''a'' = TextEncoder ''a''"
  shows "hashContextBinding vm (cb\<lparr>cb_intentId := Some ''0x61''\<rparr>) = hashContextBinding vm (cb\<lparr>cb_intentId := Some ''a''\<rparr>)"
proof -
  have "TextEncoder ''a'' = [0x61]" by code_simp
  with assms show ?thesis by (simp add: hashContextBinding_def hashStr_def keccak_text_def)
qed

text \<open>Ideal libraries exist: number the values, and print the number.\<close>

instance abi_val :: countable
  by countable_datatype










text \<open>What the digest leaves open.\<close>

lemma digest_ignores:
  "paymentMandateDigest vm hashTyped (m\<lparr>mn_railConfig := rc, mn_mandateConstraints := mc, mn_delegationRef := dr,
     mn_requiresClosedMandateForFinalCharge := q, mn_signature := sg\<rparr>) opts = paymentMandateDigest vm hashTyped m opts"
  by (simp add: paymentMandateDigest_def buildPaymentMandateTypedData_def mandateMessage_def mandateAmount_def)

end
