(* ===== verification/PaymentRails.thy ===== *)
theory PaymentRails
  imports PaymentMandates
begin

section \<open>Payments: transfer plans and the general-purpose rails\<close>

text \<open>
  \<open>packages/payments/src/transfer.ts\<close>, \<open>split.ts\<close>, \<open>refund.ts\<close> and \<open>rails/wallet.ts\<close>, \<open>invoice.ts\<close>,
  \<open>recurring.ts\<close>, \<open>escrow.ts\<close>. A plan is the call an account executes; \<open>viem\<close>'s \<open>encodeFunctionData\<close> is
  the argument \<open>enc\<close>, from a function name and its arguments to call data. Basis points and amounts
  are integers (\<open>BigInt\<close> rejects a fractional share).
\<close>

type_synonym call_encoder = "string \<Rightarrow> abi_val list \<Rightarrow> hex js"

record TransferPlan =
  tp_to :: address
  tp_value :: int
  tp_data :: hex

subsection \<open>\<open>transfer.ts\<close>\<close>

definition buildErc20Transfer :: "call_encoder \<Rightarrow> address \<Rightarrow> address \<Rightarrow> int \<Rightarrow> TransferPlan js" where
  "buildErc20Transfer enc asset to amount =
     js_bind (enc ''transfer'' [AHex to, AInt amount]) (\<lambda>data. Inr \<lparr>tp_to = asset, tp_value = 0, tp_data = data\<rparr>)"

definition buildNativeTransfer :: "address \<Rightarrow> int \<Rightarrow> TransferPlan" where
  "buildNativeTransfer to amount = \<lparr>tp_to = to, tp_value = amount, tp_data = ''0x''\<rparr>"

definition buildErc20Approve :: "call_encoder \<Rightarrow> address \<Rightarrow> address \<Rightarrow> int \<Rightarrow> TransferPlan js" where
  "buildErc20Approve enc asset spender amount =
     js_bind (enc ''approve'' [AHex spender, AInt amount]) (\<lambda>data. Inr \<lparr>tp_to = asset, tp_value = 0, tp_data = data\<rparr>)"

subsection \<open>\<open>split.ts\<close>\<close>

record SplitRecipient =
  rcp_to :: address
  rcp_bps :: int

record SplitLeg =
  leg_to :: address
  leg_bps :: int
  leg_amount :: int
  leg_plan :: TransferPlan

definition BPS_DENOMINATOR :: int where
  "BPS_DENOMINATOR = 10000"

fun build_legs :: "call_encoder \<Rightarrow> address \<Rightarrow> SplitRecipient list \<Rightarrow> int list \<Rightarrow> SplitLeg list js" where
  "build_legs enc asset (r # rs) (a # as) =
     js_bind (buildErc20Transfer enc asset (rcp_to r) a) (\<lambda>plan.
     js_bind (build_legs enc asset rs as) (\<lambda>legs.
     Inr (\<lparr>leg_to = rcp_to r, leg_bps = rcp_bps r, leg_amount = a, leg_plan = plan\<rparr> # legs)))"
| "build_legs enc asset _ _ = Inr []"

text \<open>Integer division of big integers truncates; every operand here is positive.\<close>

definition split_shares :: "int \<Rightarrow> SplitRecipient list \<Rightarrow> int list" where
  "split_shares amount recipients = map (\<lambda>r. (amount * rcp_bps r) div BPS_DENOMINATOR) recipients"

definition with_remainder :: "int \<Rightarrow> int list \<Rightarrow> int list" where
  "with_remainder amount amounts =
     (case amounts of [] \<Rightarrow> [] | a # as \<Rightarrow> (a + (amount - sum_list amounts)) # as)"

definition buildSplitPayout :: "call_encoder \<Rightarrow> address \<Rightarrow> int \<Rightarrow> SplitRecipient list \<Rightarrow> SplitLeg list js" where
  "buildSplitPayout enc asset amount recipients =
     (if recipients = [] then Inl (Error ''[split] at least one recipient required'')
      else if amount \<le> 0 then Inl (Error ''[split] amount must be > 0'')
      else (let totalBps = sum_list (map rcp_bps recipients)
            in if totalBps \<noteq> BPS_DENOMINATOR
               then Inl (Error (''[split] bps must sum to '' @ int_str BPS_DENOMINATOR @ '', got '' @ int_str totalBps))
               else if list_ex (\<lambda>r. rcp_bps r \<le> 0) recipients
               then Inl (Error ''[split] each recipient bps must be > 0'')
               else build_legs enc asset recipients (with_remainder amount (split_shares amount recipients))))"

subsection \<open>\<open>refund.ts\<close>\<close>

definition buildRefund :: "call_encoder \<Rightarrow> address \<Rightarrow> int \<Rightarrow> address \<Rightarrow> hex \<Rightarrow> (TransferPlan \<times> hex) js" where
  "buildRefund enc asset amount payer originalMandateId =
     (if amount \<le> 0 then Inl (Error ''[refund] amount must be > 0'')
      else js_bind (buildErc20Transfer enc asset payer amount) (\<lambda>plan. Inr (plan, originalMandateId)))"

subsection \<open>\<open>rails/wallet.ts\<close>\<close>

definition buildWalletMandate :: "viem_lib \<Rightarrow> closed_mandate_input \<Rightarrow> PaymentMandate" where
  "buildWalletMandate vm i = buildClosedMandate vm (i\<lparr>ci_rail := RailWallet\<rparr>)"

definition buildWalletTransferPlan :: "call_encoder \<Rightarrow> PaymentMandate \<Rightarrow> TransferPlan js" where
  "buildWalletTransferPlan enc m = buildErc20Transfer enc (as_id (ap_asset (mn_amountPolicy m))) (mn_payee m) (mandateAmount m)"

subsection \<open>\<open>rails/invoice.ts\<close>\<close>

record InvoiceLineItem =
  li_description :: string
  li_amount :: int

record Invoice =
  iv_invoiceId :: hex
  iv_issuer :: address
  iv_payTo :: address
  iv_lineItems :: "InvoiceLineItem list"
  iv_amount :: int
  iv_asset :: AssetRef
  iv_chain :: int
  iv_dueAt :: int
  iv_memoHash :: hex
  iv_orderHash :: "hex option"

record InvoiceInput =
  ii_issuer :: address
  ii_payTo :: address
  ii_lineItems :: "InvoiceLineItem list"
  ii_asset :: AssetRef
  ii_chain :: int
  ii_dueAt :: int
  ii_nonce :: int
  ii_memo :: "string option"
  ii_orderHash :: "hex option"

definition computeInvoiceId :: "viem_lib \<Rightarrow> address \<Rightarrow> address \<Rightarrow> int \<Rightarrow> address \<Rightarrow> int \<Rightarrow> int \<Rightarrow> hex js" where
  "computeInvoiceId vm issuer payTo amount asset chain nonce =
     keccak_abi vm [TAddress, TAddress, TUint256, TAddress, TUint256, TUint256]
       [AHex issuer, AHex payTo, AInt amount, AHex asset, AInt chain, AInt nonce]"

definition buildInvoice :: "viem_lib \<Rightarrow> InvoiceInput \<Rightarrow> Invoice js" where
  "buildInvoice vm i =
     (let amount = sum_list (map li_amount (ii_lineItems i))
      in if amount \<le> 0 then Inl (Error ''[invoice] amount must be > 0'')
         else js_bind (computeInvoiceId vm (ii_issuer i) (ii_payTo i) amount (as_id (ii_asset i)) (ii_chain i) (ii_nonce i))
           (\<lambda>invoiceId.
             Inr \<lparr>iv_invoiceId = invoiceId, iv_issuer = ii_issuer i, iv_payTo = ii_payTo i,
                  iv_lineItems = ii_lineItems i, iv_amount = amount, iv_asset = ii_asset i, iv_chain = ii_chain i,
                  iv_dueAt = ii_dueAt i, iv_memoHash = hashStr vm (ii_memo i), iv_orderHash = ii_orderHash i\<rparr>))"

definition payInvoice ::
  "viem_lib \<Rightarrow> call_encoder \<Rightarrow> Invoice \<Rightarrow> address \<Rightarrow> int \<Rightarrow> int option \<Rightarrow> (PaymentMandate \<times> TransferPlan) js" where
  "payInvoice vm enc bill payer nonce validFrom =
     (let orderHash = (case iv_orderHash bill of None \<Rightarrow> iv_invoiceId bill | Some h \<Rightarrow> h);
          mandate = buildClosedMandate vm
            \<lparr>ci_payer = payer, ci_payee = iv_payTo bill, ci_asset = iv_asset bill, ci_amount = iv_amount bill,
             ci_chain = iv_chain bill, ci_rail = RailWallet, ci_nonce = nonce, ci_expiresAt = iv_dueAt bill,
             ci_validFrom = validFrom, ci_granter = None, ci_orderHash = Some orderHash, ci_legId = Some (iv_invoiceId bill),
             ci_reasonHash = Some (iv_memoHash bill), ci_resource = None, ci_delegationRef = None\<rparr>
      in js_bind (buildWalletTransferPlan enc mandate) (\<lambda>plan. Inr (mandate, plan)))"

subsection \<open>\<open>rails/recurring.ts\<close>\<close>

record RecurringInput =
  rt_payer :: address
  rt_payee :: address
  rt_asset :: AssetRef
  rt_chain :: int
  rt_amountPerPeriod :: int
  rt_windowSeconds :: int
  rt_totalCap :: int
  rt_validFrom :: int
  rt_validUntil :: int
  rt_startNonce :: int

record RecurringTemplate = RecurringInput +
  rt_templateId :: hex
  rt_periods :: int

definition buildRecurringTemplate :: "viem_lib \<Rightarrow> RecurringInput \<Rightarrow> RecurringTemplate js" where
  "buildRecurringTemplate vm i =
     (if rt_amountPerPeriod i \<le> 0 then Inl (Error ''[recurring] amountPerPeriod must be > 0'')
      else if rt_totalCap i < rt_amountPerPeriod i then Inl (Error ''[recurring] totalCap must be >= amountPerPeriod'')
      else if rt_windowSeconds i \<le> 0 then Inl (Error ''[recurring] windowSeconds must be > 0'')
      else js_bind (keccak_abi vm [TAddress, TAddress, TUint256, TUint256, TUint256]
             [AHex (rt_payer i), AHex (rt_payee i), AInt (rt_amountPerPeriod i), AInt (rt_windowSeconds i), AInt (rt_startNonce i)])
             (\<lambda>templateId. Inr (RecurringInput.extend i
                (RecurringTemplate.fields templateId (rt_totalCap i div rt_amountPerPeriod i)))))"

record RecurringCaveatParams =
  rp_maxAmountPerCharge :: int
  rp_maxAggregate :: int
  rp_maxRedemptionsPerWindow :: int
  rp_windowSeconds :: int
  rp_validUntil :: int

definition recurringCaveatParams :: "RecurringTemplate \<Rightarrow> RecurringCaveatParams" where
  "recurringCaveatParams t =
     \<lparr>rp_maxAmountPerCharge = rt_amountPerPeriod t, rp_maxAggregate = rt_totalCap t, rp_maxRedemptionsPerWindow = 1,
      rp_windowSeconds = rt_windowSeconds t, rp_validUntil = rt_validUntil t\<rparr>"

definition periodWindow :: "RecurringTemplate \<Rightarrow> int \<Rightarrow> int \<times> int" where
  "periodWindow t period =
     (let start = rt_validFrom t + period * rt_windowSeconds t in (start, start + rt_windowSeconds t))"

definition deriveScheduledCharge ::
  "viem_lib \<Rightarrow> call_encoder \<Rightarrow> RecurringTemplate \<Rightarrow> int \<Rightarrow> (PaymentMandate \<times> TransferPlan \<times> int \<times> int) js" where
  "deriveScheduledCharge vm enc t period =
     (if period < 0 \<or> period \<ge> rt_periods t
      then Inl (Error (''[recurring] period out of range [0, '' @ int_str (rt_periods t) @ '')''))
      else (let window = periodWindow t period;
                mandate = buildClosedMandate vm
                  \<lparr>ci_payer = rt_payer t, ci_payee = rt_payee t, ci_asset = rt_asset t, ci_amount = rt_amountPerPeriod t,
                   ci_chain = rt_chain t, ci_rail = RailWallet, ci_nonce = rt_startNonce t + period,
                   ci_expiresAt = snd window, ci_validFrom = Some (fst window), ci_granter = None,
                   ci_orderHash = Some (rt_templateId t), ci_legId = Some (''0x'' @ hex_pad64 period),
                   ci_reasonHash = None, ci_resource = None, ci_delegationRef = None\<rparr>
            in js_bind (buildWalletTransferPlan enc mandate) (\<lambda>plan. Inr (mandate, plan, window))))"

subsection \<open>\<open>rails/escrow.ts\<close>\<close>

datatype EscrowStatus = EscrowNone | Held | Captured | Refunded | Reclaimed

record EscrowDepositInput =
  ed_escrow :: address
  ed_orderHash :: hex
  ed_asset :: address
  ed_amount :: int
  ed_payee :: address
  ed_refundTo :: "address option"
  ed_releaser :: "address option"
  ed_expiry :: int

definition ZERO_ADDR :: address where
  "ZERO_ADDR = ''0x'' @ replicate 40 (CHR ''0'')"

definition buildEscrowDeposit :: "call_encoder \<Rightarrow> EscrowDepositInput \<Rightarrow> TransferPlan js" where
  "buildEscrowDeposit enc i =
     js_bind (enc ''deposit'' [AHex (ed_orderHash i), AHex (ed_asset i), AInt (ed_amount i), AHex (ed_payee i),
         AHex (case ed_refundTo i of None \<Rightarrow> ZERO_ADDR | Some a \<Rightarrow> a), AHex (case ed_releaser i of None \<Rightarrow> ZERO_ADDR | Some a \<Rightarrow> a),
         AInt (ed_expiry i)])
       (\<lambda>data. Inr \<lparr>tp_to = ed_escrow i, tp_value = 0, tp_data = data\<rparr>)"

definition escrow_call :: "call_encoder \<Rightarrow> address \<Rightarrow> string \<Rightarrow> hex \<Rightarrow> TransferPlan js" where
  "escrow_call enc escrow fn orderHash =
     js_bind (enc fn [AHex orderHash]) (\<lambda>data. Inr \<lparr>tp_to = escrow, tp_value = 0, tp_data = data\<rparr>)"

definition buildEscrowRelease :: "call_encoder \<Rightarrow> address \<Rightarrow> hex \<Rightarrow> TransferPlan js" where
  "buildEscrowRelease enc escrow orderHash = escrow_call enc escrow ''release'' orderHash"

definition buildEscrowRefund :: "call_encoder \<Rightarrow> address \<Rightarrow> hex \<Rightarrow> TransferPlan js" where
  "buildEscrowRefund enc escrow orderHash = escrow_call enc escrow ''refund'' orderHash"

definition buildEscrowReclaim :: "call_encoder \<Rightarrow> address \<Rightarrow> hex \<Rightarrow> TransferPlan js" where
  "buildEscrowReclaim enc escrow orderHash = escrow_call enc escrow ''reclaim'' orderHash"

subsection \<open>Splits pay out exactly\<close>

lemma build_legs_shape:
  "build_legs enc asset rs as = Inr legs \<Longrightarrow> length rs = length as \<Longrightarrow>
   map leg_amount legs = as \<and> map (\<lambda>l. (leg_to l, leg_bps l)) legs = map (\<lambda>r. (rcp_to r, rcp_bps r)) rs \<and>
   list_all (\<lambda>l. buildErc20Transfer enc asset (leg_to l) (leg_amount l) = Inr (leg_plan l)) legs"
  by (induction enc asset rs as arbitrary: legs rule: build_legs.induct) auto

lemma sum_with_remainder: "as \<noteq> [] \<Longrightarrow> sum_list (with_remainder amount as) = amount"
  by (cases as) (simp_all add: with_remainder_def)

lemma sum_of_floors:
  fixes d :: int
  assumes "0 < d"
  shows "sum_list (map (\<lambda>x. f x div d) xs) * d \<le> sum_list (map f xs)"
    and "sum_list (map f xs) \<le> sum_list (map (\<lambda>x. f x div d) xs) * d + int (length xs) * (d - 1)"
proof (induction xs)
  case (Cons x xs)
  have lo: "f x div d * d \<le> f x" using assms by (simp add: minus_mod_eq_div_mult [symmetric])
  have hi: "f x \<le> f x div d * d + (d - 1)"
    using assms pos_mod_bound [of d "f x"] div_mult_mod_eq [of "f x" d] by linarith
  from lo hi Cons show "sum_list (map (\<lambda>x. f x div d) (x # xs)) * d \<le> sum_list (map f (x # xs))"
      "sum_list (map f (x # xs)) \<le> sum_list (map (\<lambda>x. f x div d) (x # xs)) * d + int (length (x # xs)) * (d - 1)"
    by (simp_all add: algebra_simps)
qed simp_all

lemma remainder_bound:
  assumes "sum_list (map rcp_bps rs) = BPS_DENOMINATOR" "0 < length rs"
  shows "0 \<le> amount - sum_list (split_shares amount rs)" "amount - sum_list (split_shares amount rs) < int (length rs)"
proof -
  let ?s = "sum_list (split_shares amount rs)"
  have t: "sum_list (map (\<lambda>r. amount * rcp_bps r) rs) = amount * 10000"
    using assms(1) by (simp add: sum_list_const_mult BPS_DENOMINATOR_def)
  from sum_of_floors [of 10000 "\<lambda>r. amount * rcp_bps r" rs] t
  have "?s * 10000 \<le> amount * 10000" "amount * 10000 \<le> ?s * 10000 + int (length rs) * 9999"
    by (simp_all add: split_shares_def BPS_DENOMINATOR_def)
  with assms(2) show "0 \<le> amount - ?s" "amount - ?s < int (length rs)" by linarith+
qed

text \<open>
  C33: A split payout loses nothing. Whenever \<open>buildSplitPayout\<close> returns, the legs are the recipients in
  order, their amounts add up to exactly the amount paid in, every leg but the first is the recipient's
  share rounded down, and the first gets its share plus the rounding dust, which is less than one
  unit per recipient; each leg's plan transfers the leg's amount to its recipient.
\<close>

theorem split_pays_exactly:
  assumes "buildSplitPayout enc asset amount recipients = Inr legs"
  shows "map (\<lambda>l. (leg_to l, leg_bps l)) legs = map (\<lambda>r. (rcp_to r, rcp_bps r)) recipients \<and>
         sum_list (map leg_amount legs) = amount \<and>
         map leg_amount (tl legs) = tl (split_shares amount recipients) \<and>
         hd (split_shares amount recipients) \<le> leg_amount (hd legs) \<and>
         leg_amount (hd legs) < hd (split_shares amount recipients) + int (length recipients) \<and>
         list_all (\<lambda>l. 0 \<le> leg_amount l \<and> buildErc20Transfer enc asset (leg_to l) (leg_amount l) = Inr (leg_plan l)) legs"
proof -
  let ?s = "split_shares amount recipients"
  from assms have g: "recipients \<noteq> []" "0 < amount" "sum_list (map rcp_bps recipients) = BPS_DENOMINATOR"
      "list_all (\<lambda>r. 0 < rcp_bps r) recipients" "build_legs enc asset recipients (with_remainder amount ?s) = Inr legs"
    by (auto simp: buildSplitPayout_def Let_def list_all_iff list_ex_iff not_le split: if_splits)
  obtain a as where s: "?s = a # as" using g(1) by (cases recipients) (auto simp: split_shares_def)
  have l: "length recipients = length (with_remainder amount ?s)" using g(1) by (simp add: with_remainder_def split_shares_def split: list.split) (auto simp: neq_Nil_conv)
  note shape = build_legs_shape [OF g(5) l]
  obtain l1 ls where legs: "legs = l1 # ls" using shape s by (cases legs) (auto simp: with_remainder_def)
  have r: "0 \<le> amount - sum_list ?s" "amount - sum_list ?s < int (length recipients)"
    using remainder_bound [OF g(3), of amount] g(1) by auto
  have pos: "\<forall>x \<in> set ?s. 0 \<le> x"
    using g(2,4) by (auto simp: split_shares_def list_all_iff BPS_DENOMINATOR_def pos_imp_zdiv_nonneg_iff zero_le_mult_iff order_less_imp_le)
  have "leg_amount l1 = a + (amount - sum_list ?s)" "map leg_amount ls = as"
    using shape s legs by (auto simp: with_remainder_def)
  moreover have "sum_list (map leg_amount legs) = amount" using shape sum_with_remainder [of ?s amount] s by simp
  moreover have "list_all (\<lambda>l. 0 \<le> leg_amount l) legs"
    using pos s r(1) legs \<open>leg_amount l1 = _\<close> \<open>map leg_amount ls = as\<close> by (auto simp: list_all_iff)
  ultimately show ?thesis using shape s legs r by (auto simp: list_all_iff with_remainder_def)
qed

theorem split_pays_exactly_witness:
  "\<exists>legs. buildSplitPayout (\<lambda>f vs. Inr f) ''0xc0'' 100 [\<lparr>rcp_to = ''0x1'', rcp_bps = 3333\<rparr>, \<lparr>rcp_to = ''0x2'', rcp_bps = 3333\<rparr>,
     \<lparr>rcp_to = ''0x3'', rcp_bps = 3334\<rparr>] = Inr legs \<and> sum_list (map leg_amount legs) = 100"
proof -
  let ?r = "[\<lparr>rcp_to = ''0x1'', rcp_bps = 3333\<rparr>, \<lparr>rcp_to = ''0x2'', rcp_bps = 3333\<rparr>, \<lparr>rcp_to = ''0x3'', rcp_bps = 3334\<rparr>]"
  obtain legs where l: "buildSplitPayout (\<lambda>f vs. Inr f) ''0xc0'' 100 ?r = Inr legs"
    by (simp add: buildSplitPayout_def BPS_DENOMINATOR_def with_remainder_def split_shares_def buildErc20Transfer_def)
  from split_pays_exactly [OF l] l show ?thesis by blast
qed

subsection \<open>Recurring charges stay within the cap\<close>

lemma template_Inr:
  assumes "buildRecurringTemplate vm i = Inr t"
  shows "RecurringInput.truncate t = i" "0 < rt_amountPerPeriod t" "0 < rt_windowSeconds t"
    and "rt_periods t = rt_totalCap t div rt_amountPerPeriod t" "rt_amountPerPeriod t \<le> rt_totalCap t"
  using assms by (auto simp: buildRecurringTemplate_def RecurringInput.defs RecurringTemplate.defs split: if_splits)

lemma charge_Inr:
  assumes "deriveScheduledCharge vm enc t n = Inr (m, plan, w)"
  shows "0 \<le> n" "n < rt_periods t" "w = periodWindow t n" "mandateAmount m = rt_amountPerPeriod t"
    "mn_nonce m = rt_startNonce t + n" "mn_validFrom m = fst w" "mn_expiresAt m = snd w" "mn_maxRedemptions m = 1"
    "mn_payer m = rt_payer t" "mn_payee m = rt_payee t"
  using assms by (auto simp: deriveScheduledCharge_def buildClosedMandate_def mandateAmount_def Let_def split: if_splits)

lemma recurring_charges:
  assumes "buildRecurringTemplate vm i = Inr t"
    and "deriveScheduledCharge vm enc t n = Inr (m, plan, w)" "deriveScheduledCharge vm enc t n' = Inr (m', plan', w')"
  shows "mandateAmount m = rt_amountPerPeriod i \<and> mn_maxRedemptions m = 1 \<and> mn_validFrom m = fst w \<and> mn_expiresAt m = snd w"
    and "n \<noteq> n' \<Longrightarrow> mn_nonce m \<noteq> mn_nonce m' \<and> {fst w..<snd w} \<inter> {fst w'..<snd w'} = {}"
    and "rt_periods t * rt_amountPerPeriod i \<le> rt_totalCap i \<and> rt_totalCap i < (rt_periods t + 1) * rt_amountPerPeriod i"
proof -
  note t = template_Inr [OF assms(1)]
  have i: "rt_amountPerPeriod i = rt_amountPerPeriod t" "rt_totalCap i = rt_totalCap t"
    using t(1) by (auto simp: RecurringInput.defs)
  note c = charge_Inr [OF assms(2)] and c' = charge_Inr [OF assms(3)]
  show "mandateAmount m = rt_amountPerPeriod i \<and> mn_maxRedemptions m = 1 \<and> mn_validFrom m = fst w \<and> mn_expiresAt m = snd w"
    using c i by simp
  have sep: "rt_validFrom t + (a + 1) * rt_windowSeconds t \<le> rt_validFrom t + b * rt_windowSeconds t" if "a < b" for a b
    using that t(3) by (simp add: mult_right_mono)
  show "mn_nonce m \<noteq> mn_nonce m' \<and> {fst w..<snd w} \<inter> {fst w'..<snd w'} = {}" if "n \<noteq> n'"
  proof -
    have "n < n' \<or> n' < n" using that by linarith
    then have "snd w \<le> fst w' \<or> snd w' \<le> fst w"
      using sep [of n n'] sep [of n' n] c(3) c'(3) by (auto simp: periodWindow_def Let_def algebra_simps)
    then show ?thesis using that c(5) c'(5) by auto
  qed
  have p: "rt_periods t = rt_totalCap t div rt_amountPerPeriod t" "0 < rt_amountPerPeriod t" using t by auto
  show "rt_periods t * rt_amountPerPeriod i \<le> rt_totalCap i \<and> rt_totalCap i < (rt_periods t + 1) * rt_amountPerPeriod i"
  proof -
    define q r where "q = rt_totalCap t div rt_amountPerPeriod t" and "r = rt_totalCap t mod rt_amountPerPeriod t"
    have "rt_totalCap t = q * rt_amountPerPeriod t + r" "0 \<le> r" "r < rt_amountPerPeriod t"
      using p(2) by (simp_all add: q_def r_def)
    then show ?thesis by (simp add: i p(1) q_def [symmetric] distrib_right)
  qed
qed

text \<open>
  The charges scheduled from a recurring template stay within what the payer authorized. Every
  derivable charge is a one-shot mandate of exactly the per-period amount, valid only in its own
  window; two different periods have disjoint windows and different nonces; and there are so few
  periods that charging every one of them does not exceed the total cap, while one more period would.
\<close>

theorem recurring_within_cap:
  assumes "buildRecurringTemplate vm i = Inr t"
    and "deriveScheduledCharge vm enc t n = Inr (m, plan, w)" "deriveScheduledCharge vm enc t n' = Inr (m', plan', w')"
  shows "mandateAmount m = rt_amountPerPeriod i \<and> mn_maxRedemptions m = 1 \<and> mn_validFrom m = fst w \<and> mn_expiresAt m = snd w \<and>
    (n \<noteq> n' \<longrightarrow> mn_nonce m \<noteq> mn_nonce m' \<and> {fst w..<snd w} \<inter> {fst w'..<snd w'} = {}) \<and>
    rt_periods t * rt_amountPerPeriod i \<le> rt_totalCap i \<and> rt_totalCap i < (rt_periods t + 1) * rt_amountPerPeriod i"
  using recurring_charges [OF assms] by blast


definition demo_recurring :: RecurringInput where
  "demo_recurring = \<lparr>rt_payer = ''0xa1'', rt_payee = ''0xb1'', rt_asset = \<lparr>as_id = ''0xc0'', as_symbol = None, as_decimals = None\<rparr>,
     rt_chain = 1, rt_amountPerPeriod = 30, rt_windowSeconds = 60, rt_totalCap = 100, rt_validFrom = 1000, rt_validUntil = 2000,
     rt_startNonce = 7\<rparr>"

theorem recurring_within_cap_witness:
  "\<exists>vm t m p m' p'. buildRecurringTemplate vm demo_recurring = Inr t \<and>
     deriveScheduledCharge vm (\<lambda>f vs. Inr f) t 0 = Inr (m, p, 1000, 1060) \<and>
     deriveScheduledCharge vm (\<lambda>f vs. Inr f) t 2 = Inr (m', p', 1120, 1180) \<and>
     mandateAmount m = 30 \<and> mn_nonce m \<noteq> mn_nonce m' \<and> rt_periods t * 30 \<le> 100"
proof -
  define vm where "vm = \<lparr>vm_codec = \<lparr>encodeAbiParameters = (\<lambda>ts vs. Inr ''0x''), decodeAbiParameters = (\<lambda>ts h. Inl ''bad''),
      keccak256 = (\<lambda>h. h), keccak_256 = (\<lambda>bs. bs), hashTypedData = (\<lambda>dm ts p m. Inr ''0x'')\<rparr>,
    vm_toBytes = TextEncoder, vm_keccakBytes = (\<lambda>bs. ''0x''), vm_errorText = (\<lambda>_. [])\<rparr>"
  obtain t where t: "buildRecurringTemplate vm demo_recurring = Inr t" "rt_periods t = 3" "rt_validFrom t = 1000"
      "rt_windowSeconds t = 60"
    by (simp add: buildRecurringTemplate_def demo_recurring_def keccak_abi_def vm_def RecurringInput.defs RecurringTemplate.defs)
  obtain m p m' p' where c: "deriveScheduledCharge vm (\<lambda>f vs. Inr f) t 0 = Inr (m, p, 1000, 1060)"
      "deriveScheduledCharge vm (\<lambda>f vs. Inr f) t 2 = Inr (m', p', 1120, 1180)"
    using t by (simp add: deriveScheduledCharge_def periodWindow_def buildWalletTransferPlan_def buildErc20Transfer_def Let_def)
  from recurring_within_cap [OF t(1) c]
  have "mandateAmount m = 30" "mn_nonce m \<noteq> mn_nonce m'" "rt_periods t * 30 \<le> 100" by (simp_all add: demo_recurring_def)
  with t(1) c show ?thesis by blast
qed

text \<open>The mandates these rails build carry no handle of PMT-3.1: only a resource would be one.\<close>

lemma rail_mandates_lack_a_handle:
  "assertContextBindingValid (mn_contextBinding (buildClosedMandate vm i)) = Inr () \<longleftrightarrow> ci_resource i \<noteq> None"
  by (simp add: assertContextBindingValid_def buildClosedMandate_def Let_def)

end
