(* ===== verification/X402.thy ===== *)
theory X402
  imports PaymentRails
begin

section \<open>Payments: the x402 rail\<close>

text \<open>
  \<open>packages/payments/src/rails/x402\<close>: the resource a payment is bound to (\<open>resource.ts\<close>), the quote
  (\<open>quote.ts\<close>), the nullifier reservation store (\<open>nonce-store.ts\<close>) and the staged executor
  (\<open>executor.ts\<close>). Revocation reads, simulation and submission are injected functions that read and
  change the world.

  \<open>settle\<close> is asynchronous and its whole point is to be safe when calls overlap, so it is cut at its
  awaits into three stages, each one atomic access to the store: reserve the nullifier; simulate and
  mark it settling; submit and record the outcome. \<open>settle\<close> is the three in a row.
\<close>

record x402_lib =
  xl_viem :: viem_lib
  xl_encodeCall :: call_encoder
  xl_toHex32 :: "int \<Rightarrow> hex js"

subsection \<open>\<open>resource.ts\<close>\<close>

datatype pay_protocol = Http | A2a

fun protocol_str :: "pay_protocol \<Rightarrow> string" where
  "protocol_str Http = ''http''"
| "protocol_str A2a = ''a2a''"

record PaymentResource =
  prs_protocol :: pay_protocol
  prs_method :: string
  prs_url :: string
  prs_bodyHash :: hex
  prs_serviceAgent :: address
  prs_treasury :: address
  prs_skillId :: string
  prs_taskId :: hex
  prs_asset :: address
  prs_amount :: int
  prs_chainId :: int
  prs_expiresAt :: int
  prs_nonce :: int

definition canonicalizePaymentResource :: "viem_lib \<Rightarrow> PaymentResource \<Rightarrow> hex js" where
  "canonicalizePaymentResource vm r =
     keccak_abi vm
       [TString, TString, TString, TBytes32, TAddress, TAddress, TString, TBytes32, TAddress, TUint256, TUint256, TUint256, TUint256]
       [AText (protocol_str (prs_protocol r)), AText (prs_method r), AText (prs_url r), AHex (prs_bodyHash r),
        AHex (prs_serviceAgent r), AHex (prs_treasury r), AText (prs_skillId r), AHex (prs_taskId r), AHex (prs_asset r),
        AInt (prs_amount r), AInt (prs_chainId r), AInt (prs_expiresAt r), AInt (prs_nonce r)]"

definition hashRequestBody :: "viem_lib \<Rightarrow> bytes option \<Rightarrow> hex" where
  "hashRequestBody vm body =
     (case body of None \<Rightarrow> ZERO_HASH | Some bs \<Rightarrow> if bs = [] then ZERO_HASH else vm_keccakBytes vm bs)"

text \<open>\<open>new URL(url)\<close> is the platform's: its origin and path, or \<open>None\<close> when it throws.\<close>

definition redactPaymentMetadata ::
  "viem_lib \<Rightarrow> (string \<Rightarrow> (string \<times> string) option) \<Rightarrow> string option \<Rightarrow> string option \<Rightarrow> string \<times> hex \<times> string option" where
  "redactPaymentMetadata vm parseUrl url description =
     (let safeRoute = (if truthy url then (case parseUrl (the url) of None \<Rightarrow> [] | Some (origin, path) \<Rightarrow> origin @ path) else []);
          urlHash = (if truthy url then vm_keccakBytes vm (TextEncoder (the url)) else ZERO_HASH)
      in (safeRoute, urlHash, if truthy description then Some (take 80 (the description)) else None))"

subsection \<open>\<open>quote.ts\<close>\<close>

record PaymentQuote =
  qt_quoteId :: hex
  qt_network :: string
  qt_asset :: address
  qt_payTo :: address
  qt_amount :: int
  qt_resource :: PaymentResource
  qt_resourceHash :: hex
  qt_nonce :: int
  qt_expiresAt :: int
  qt_maxTimeoutSeconds :: int

definition computeQuoteId :: "viem_lib \<Rightarrow> hex \<Rightarrow> address \<Rightarrow> address \<Rightarrow> int \<Rightarrow> string \<Rightarrow> int \<Rightarrow> int \<Rightarrow> hex js" where
  "computeQuoteId vm resourceHash asset payTo amount network nonce expiresAt =
     keccak_abi vm [TBytes32, TAddress, TAddress, TUint256, TString, TUint256, TUint256]
       [AHex resourceHash, AHex asset, AHex payTo, AInt amount, AText network, AInt nonce, AInt expiresAt]"

definition buildPaymentQuote :: "viem_lib \<Rightarrow> PaymentResource \<Rightarrow> string \<Rightarrow> int option \<Rightarrow> PaymentQuote js" where
  "buildPaymentQuote vm r network maxTimeoutSeconds =
     js_bind (canonicalizePaymentResource vm r) (\<lambda>resourceHash.
     js_bind (computeQuoteId vm resourceHash (prs_asset r) (prs_treasury r) (prs_amount r) network (prs_nonce r) (prs_expiresAt r))
       (\<lambda>quoteId.
       Inr \<lparr>qt_quoteId = quoteId, qt_network = network, qt_asset = prs_asset r, qt_payTo = prs_treasury r,
            qt_amount = prs_amount r, qt_resource = r, qt_resourceHash = resourceHash, qt_nonce = prs_nonce r,
            qt_expiresAt = prs_expiresAt r,
            qt_maxTimeoutSeconds = (case maxTimeoutSeconds of None \<Rightarrow> 300 | Some t \<Rightarrow> t)\<rparr>))"

definition quoteMismatch :: "PaymentQuote \<Rightarrow> PaymentQuote \<Rightarrow> string option" where
  "quoteMismatch persisted presented =
     (if qt_quoteId persisted \<noteq> qt_quoteId presented then Some ''quoteId''
      else if qt_resourceHash persisted \<noteq> qt_resourceHash presented then Some ''resourceHash''
      else if qt_amount persisted \<noteq> qt_amount presented then Some ''amount''
      else if \<not> eq_ci (qt_payTo persisted) (qt_payTo presented) then Some ''payTo''
      else if \<not> eq_ci (qt_asset persisted) (qt_asset presented) then Some ''asset''
      else if qt_network persisted \<noteq> qt_network presented then Some ''network''
      else if qt_nonce persisted \<noteq> qt_nonce presented then Some ''nonce''
      else if qt_expiresAt persisted \<noteq> qt_expiresAt presented then Some ''expiresAt''
      else None)"

definition toCaip2 :: "int \<Rightarrow> string" where
  "toCaip2 chainId = ''eip155:'' @ int_str chainId"

definition fromCaip2 :: "string \<Rightarrow> int js" where
  "fromCaip2 network =
     (let digits = drop 7 network
      in if startsWith network ''eip155:'' \<and> digits \<noteq> [] \<and> list_all is_digit digits
         then Inr (int (digits_val digits))
         else Inl (Error (''[x402] unsupported network \"'' @ network @ ''\" (expected eip155:<chainId>)'')))"

lemma fromCaip2_toCaip2 [js_roundtrip]:
  assumes "0 \<le> n"
  shows "fromCaip2 (toCaip2 n) = Inr n"
proof -
  have "drop 7 (toCaip2 n) = nat_str (nat n)" "startsWith (toCaip2 n) ''eip155:''"
    using assms by (simp_all add: toCaip2_def int_str_def startsWith_def)
  moreover have "list_all is_digit (nat_str (nat n))" using nat_str_digits by (simp add: list_all_iff)
  ultimately show ?thesis using assms by (simp add: fromCaip2_def)
qed

subsection \<open>\<open>nonce-store.ts\<close>\<close>

datatype NonceState = Unseen | NReserved | NSettling | NSettled | FailedRetryable | FailedTerminal

fun nonce_state_str :: "NonceState \<Rightarrow> string" where
  "nonce_state_str Unseen = ''unseen''"
| "nonce_state_str NReserved = ''reserved''"
| "nonce_state_str NSettling = ''settling''"
| "nonce_state_str NSettled = ''settled''"
| "nonce_state_str FailedRetryable = ''failed_retryable''"
| "nonce_state_str FailedTerminal = ''failed_terminal''"

type_synonym receipt = "hex \<times> hex"  \<comment> \<open>settlement hash, mandate id\<close>

type_synonym nonce_row = "NonceState \<times> receipt option"

datatype ReserveResult = ReserveOk | ReserveNo NonceState "receipt option"

record 's nonce_ops =
  ns_reserve :: "hex \<Rightarrow> 's \<Rightarrow> ReserveResult \<times> 's"
  ns_markSettling :: "hex \<Rightarrow> 's \<Rightarrow> 's"
  ns_markSettled :: "hex \<Rightarrow> receipt \<Rightarrow> 's \<Rightarrow> 's"
  ns_markFailed :: "hex \<Rightarrow> bool \<Rightarrow> 's \<Rightarrow> 's"
  ns_get :: "hex \<Rightarrow> 's \<Rightarrow> nonce_row option"

type_synonym nonce_rows = "hex \<rightharpoonup> nonce_row"

definition memory_reserve :: "hex \<Rightarrow> nonce_rows \<Rightarrow> ReserveResult \<times> nonce_rows" where
  "memory_reserve n rows =
     (case rows n of
        None \<Rightarrow> (ReserveOk, rows(n \<mapsto> (NReserved, None)))
      | Some (st, receipt) \<Rightarrow>
          if st = Unseen \<or> st = FailedRetryable then (ReserveOk, rows(n \<mapsto> (NReserved, None)))
          else if st = NSettled then (ReserveNo NSettled receipt, rows)
          else (ReserveNo st None, rows))"

definition memory_markSettling :: "hex \<Rightarrow> nonce_rows \<Rightarrow> nonce_rows" where
  "memory_markSettling n rows =
     (let row = (case rows n of None \<Rightarrow> (Unseen, None) | Some r \<Rightarrow> r) in rows(n \<mapsto> (NSettling, snd row)))"

definition memory_markSettled :: "hex \<Rightarrow> receipt \<Rightarrow> nonce_rows \<Rightarrow> nonce_rows" where
  "memory_markSettled n receipt rows = rows(n \<mapsto> (NSettled, Some receipt))"

definition memory_markFailed :: "hex \<Rightarrow> bool \<Rightarrow> nonce_rows \<Rightarrow> nonce_rows" where
  "memory_markFailed n retryable rows = rows(n \<mapsto> (if retryable then FailedRetryable else FailedTerminal, None))"

definition createMemoryNonceStore :: "nonce_rows nonce_ops \<times> nonce_rows" where
  "createMemoryNonceStore =
     (\<lparr>ns_reserve = memory_reserve, ns_markSettling = memory_markSettling, ns_markSettled = memory_markSettled,
       ns_markFailed = memory_markFailed, ns_get = (\<lambda>n rows. rows n)\<rparr>, Map.empty)"

subsection \<open>\<open>executor.ts\<close>\<close>

definition computeNullifier ::
  "viem_lib \<Rightarrow> string \<Rightarrow> int \<Rightarrow> address \<Rightarrow> address \<Rightarrow> address \<Rightarrow> hex \<Rightarrow> int \<Rightarrow> hex \<Rightarrow> hex js" where
  "computeNullifier vm rail chainId payer payee asset mandateId nonce resourceHash =
     keccak_abi vm [TString, TUint256, TAddress, TAddress, TAddress, TBytes32, TUint256, TBytes32]
       [AText rail, AInt chainId, AHex payer, AHex payee, AHex asset, AHex mandateId, AInt nonce, AHex resourceHash]"

text \<open>\<open>None\<close> is \<open>valid: true\<close>, \<open>Some\<close> the reason of the first failed check.\<close>

definition verifyMandate :: "viem_lib \<Rightarrow> PaymentMandate \<Rightarrow> PaymentQuote \<Rightarrow> int \<Rightarrow> string option js" where
  "verifyMandate vm m q now =
     (case js_bind (assertContextBindingValid (mn_contextBinding m)) (\<lambda>_. assertClosedMandateInvariants m) of
        Inl e \<Rightarrow> Inr (Some (case e of Error msg \<Rightarrow> msg | _ \<Rightarrow> ''invariant''))
      | Inr _ \<Rightarrow>
      if mn_mode m \<noteq> ClosedMandate then Inr (Some ''final charge requires a closed mandate'')
      else if mn_maxRedemptions m \<noteq> 1 then Inr (Some ''closed mandate must be one-shot'')
      else if mn_rail m \<noteq> RailX402 then Inr (Some (''wrong rail '' @ rail_str (mn_rail m)))
      else if \<not> truthy (case mn_railConfig m of None \<Rightarrow> None | Some rc \<Rightarrow> rc_quoteId rc) \<or>
              (case mn_railConfig m of None \<Rightarrow> None | Some rc \<Rightarrow> rc_quoteId rc) \<noteq> Some (qt_quoteId q)
      then Inr (Some ''quote mismatch (quoteId)'')
      else if (case mn_railConfig m of None \<Rightarrow> None | Some rc \<Rightarrow> rc_resourceHash rc) \<noteq> Some (qt_resourceHash q)
      then Inr (Some ''quote mismatch (resourceHash)'')
      else if \<not> eq_ci (mn_payee m) (qt_payTo q) then Inr (Some ''payee != treasury'')
      else (case mn_amountPolicy m of
              Exact amount asset chain \<Rightarrow>
                if amount \<noteq> qt_amount q then Inr (Some ''amount mismatch'')
                else if \<not> eq_ci (as_id asset) (qt_asset q) then Inr (Some ''asset mismatch'')
                else js_bind (fromCaip2 (qt_network q)) (\<lambda>c.
                  Inr (if chain \<noteq> c then Some ''chain mismatch''
                       else if mn_nonce m \<noteq> qt_nonce q then Some ''nonce mismatch''
                       else if mn_expiresAt m \<le> now then Some ''mandate expired''
                       else if mn_validFrom m > now then Some ''mandate not yet valid''
                       else None))
            | _ \<Rightarrow> Inr (Some ''flat per-call requires exact amountPolicy'')))"

text \<open>The delegation as call data, the payment caveat's arguments filled in.\<close>

definition redeem_caveat :: "address \<Rightarrow> hex \<Rightarrow> caveat \<Rightarrow> abi_val" where
  "redeem_caveat pe enforcerArgs c =
     ATup [AHex (enforcer c), AHex (terms c),
           AHex (if toLowerCase (enforcer c) = toLowerCase pe then enforcerArgs
                 else (case args c of None \<Rightarrow> ''0x'' | Some a \<Rightarrow> a))]"

definition salt_val :: "salt \<Rightarrow> abi_val" where
  "salt_val s = (case s of SaltBig n \<Rightarrow> AInt n | SaltStr t \<Rightarrow> AText t)"

definition buildRedemptionCalldata ::
  "x402_lib \<Rightarrow> PaymentMandate \<Rightarrow> delegation \<Rightarrow> address \<Rightarrow> address \<Rightarrow> address \<Rightarrow> hex \<Rightarrow> TransferPlan js" where
  "buildRedemptionCalldata lib m d delegationManager paymentEnforcer asset resourceHash =
     (case mn_amountPolicy m of
        Exact amount _ _ \<Rightarrow>
          js_bind (xl_encodeCall lib ''transfer'' [AHex (mn_payee m), AInt amount]) (\<lambda>transferData.
          js_bind (xl_toHex32 lib (mn_nonce m)) (\<lambda>nonce32.
          js_bind (encodeAbiParameters (vm_codec (xl_viem lib)) [TBytes32, TBytes32, TBytes32]
                    [AHex (mn_mandateId m), AHex nonce32, AHex resourceHash]) (\<lambda>enforcerArgs.
          js_bind (xl_encodeCall lib ''redeemDelegation''
                    [AList [ATup [AHex (delegator d), AHex (delegate d), AHex (authority d),
                       AList (map (redeem_caveat paymentEnforcer enforcerArgs) (caveats d)), salt_val (salt_of d), AHex (signature d)]],
                     AHex asset, AInt 0, AHex transferData]) (\<lambda>data.
          Inr \<lparr>tp_to = delegationManager, tp_value = 0, tp_data = data\<rparr>))))
      | _ \<Rightarrow> Inl TypeError)"

record simulation =
  sim_ok :: bool
  sim_reason :: "string option"
  sim_gas :: "int option"

record 'w x402_deps =
  xd_lib :: x402_lib
  xd_chainId :: int
  xd_delegationManager :: address
  xd_paymentEnforcer :: address
  xd_asset :: address
  xd_isRevoked :: "hex \<Rightarrow> 'w \<Rightarrow> bool js \<times> 'w"
  xd_submitRedemption :: "TransferPlan \<Rightarrow> 'w \<Rightarrow> hex js \<times> 'w"
  xd_simulate :: "(TransferPlan \<Rightarrow> 'w \<Rightarrow> simulation js \<times> 'w) option"
  xd_maxGasPerSettlement :: "int option"
  xd_now :: "'w \<Rightarrow> int"

text \<open>
  \<open>xd_submitRedemption\<close> is what awaiting the submission yields. With a \<open>settlementTimeoutMs\<close> that may be the
  timeout's rejection; the submission itself is then still out there, in the world.
\<close>

datatype SettleResult = SettleOk hex hex bool | SettleErr string

record settle_input =
  si_mandate :: PaymentMandate
  si_delegation :: delegation
  si_quote :: PaymentQuote

text \<open>Where a call stands: not begun, holding its nullifier, submitting, or finished (with the nullifier it got to).\<close>

datatype settle_phase =
    Fresh settle_input
  | Reserved hex TransferPlan hex
  | Submitting hex TransferPlan hex
  | Finished "hex option" "SettleResult js"

definition settle_revoked :: "'w x402_deps \<Rightarrow> PaymentMandate \<Rightarrow> 'w \<Rightarrow> bool js \<times> 'w" where
  "settle_revoked deps m w =
     (if truthy (mn_delegationRef m) then xd_isRevoked deps (the (mn_delegationRef m)) w else (Inr False, w))"

definition settle_nullifier :: "'w x402_deps \<Rightarrow> settle_input \<Rightarrow> hex js" where
  "settle_nullifier deps i =
     (let m = si_mandate i
      in computeNullifier (xl_viem (xd_lib deps)) ''x402'' (xd_chainId deps) (mn_payer m) (mn_payee m) (xd_asset deps)
           (mn_mandateId m) (mn_nonce m) (qt_resourceHash (si_quote i)))"

definition settle_start ::
  "'w x402_deps \<Rightarrow> 's nonce_ops \<Rightarrow> settle_input \<Rightarrow> 's \<Rightarrow> 'w \<Rightarrow> settle_phase \<times> 's \<times> 'w" where
  "settle_start deps ops i s w =
     (let m = si_mandate i; q = si_quote i
      in case verifyMandate (xl_viem (xd_lib deps)) m q (xd_now deps w) of
           Inl e \<Rightarrow> (Finished None (Inl e), s, w)
         | Inr (Some reason) \<Rightarrow> (Finished None (Inr (SettleErr reason)), s, w)
         | Inr None \<Rightarrow>
             (case settle_revoked deps m w of
                (Inl e, w') \<Rightarrow> (Finished None (Inl e), s, w')
              | (Inr True, w') \<Rightarrow> (Finished None (Inr (SettleErr ''payment delegation revoked'')), s, w')
              | (Inr False, w') \<Rightarrow>
                  (case settle_nullifier deps i of
                     Inl e \<Rightarrow> (Finished None (Inl e), s, w')
                   | Inr n \<Rightarrow>
                       (case ns_reserve ops n s of
                          (ReserveNo st receipt, s') \<Rightarrow>
                            (case (st, receipt) of
                               (NSettled, Some (settlementHash, mandateId)) \<Rightarrow>
                                 (Finished (Some n) (Inr (SettleOk settlementHash mandateId True)), s', w')
                             | _ \<Rightarrow> (Finished (Some n) (Inr (SettleErr (''duplicate settlement ('' @ nonce_state_str st @ '')''))), s', w'))
                        | (ReserveOk, s') \<Rightarrow>
                            (case buildRedemptionCalldata (xd_lib deps) m (si_delegation i) (xd_delegationManager deps)
                                    (xd_paymentEnforcer deps) (xd_asset deps) (qt_resourceHash q) of
                               Inl e \<Rightarrow> (Finished (Some n) (Inl e), s', w')
                             | Inr plan \<Rightarrow> (Reserved n plan (mn_mandateId m), s', w'))))))"

definition settle_simulate ::
  "'w x402_deps \<Rightarrow> 's nonce_ops \<Rightarrow> hex \<Rightarrow> TransferPlan \<Rightarrow> hex \<Rightarrow> 's \<Rightarrow> 'w \<Rightarrow> settle_phase \<times> 's \<times> 'w" where
  "settle_simulate deps ops n plan mandateId s w =
     (case xd_simulate deps of
        None \<Rightarrow> (Submitting n plan mandateId, ns_markSettling ops n s, w)
      | Some simulate \<Rightarrow>
          (case simulate plan w of
             (Inl e, w') \<Rightarrow> (Finished (Some n) (Inl e), s, w')
           | (Inr sim, w') \<Rightarrow>
               if \<not> sim_ok sim
               then (Finished (Some n) (Inr (SettleErr (''simulation reverted'' @
                       (if truthy (sim_reason sim) then '': '' @ the (sim_reason sim) else [])))),
                     ns_markFailed ops n True s, w')
               else (case (xd_maxGasPerSettlement deps, sim_gas sim) of
                       (Some cap, Some gas) \<Rightarrow>
                         if gas > cap
                         then (Finished (Some n) (Inr (SettleErr (''settlement gas '' @ int_str gas @ '' exceeds cap '' @ int_str cap))),
                               ns_markFailed ops n True s, w')
                         else (Submitting n plan mandateId, ns_markSettling ops n s, w')
                     | _ \<Rightarrow> (Submitting n plan mandateId, ns_markSettling ops n s, w'))))"

definition settle_submit ::
  "'w x402_deps \<Rightarrow> 's nonce_ops \<Rightarrow> hex \<Rightarrow> TransferPlan \<Rightarrow> hex \<Rightarrow> 's \<Rightarrow> 'w \<Rightarrow> settle_phase \<times> 's \<times> 'w" where
  "settle_submit deps ops n plan mandateId s w =
     (case xd_submitRedemption deps plan w of
        (Inr settlementHash, w') \<Rightarrow>
          (Finished (Some n) (Inr (SettleOk settlementHash mandateId False)),
           ns_markSettled ops n (settlementHash, mandateId) s, w')
      | (Inl e, w') \<Rightarrow>
          (Finished (Some n) (Inr (SettleErr (vm_errorText (xl_viem (xd_lib deps)) e))), ns_markFailed ops n True s, w'))"

fun settle_step :: "'w x402_deps \<Rightarrow> 's nonce_ops \<Rightarrow> settle_phase \<Rightarrow> 's \<Rightarrow> 'w \<Rightarrow> settle_phase \<times> 's \<times> 'w" where
  "settle_step deps ops (Fresh i) s w = settle_start deps ops i s w"
| "settle_step deps ops (Reserved n plan mid) s w = settle_simulate deps ops n plan mid s w"
| "settle_step deps ops (Submitting n plan mid) s w = settle_submit deps ops n plan mid s w"
| "settle_step deps ops (Finished n r) s w = (Finished n r, s, w)"

definition settle :: "'w x402_deps \<Rightarrow> 's nonce_ops \<Rightarrow> settle_input \<Rightarrow> 's \<Rightarrow> 'w \<Rightarrow> settle_phase \<times> 's \<times> 'w" where
  "settle deps ops i s w =
     (case settle_step deps ops (Fresh i) s w of
        (p1, s1, w1) \<Rightarrow> (case settle_step deps ops p1 s1 w1 of
           (p2, s2, w2) \<Rightarrow> settle_step deps ops p2 s2 w2))"

text \<open>Three stages always finish a call.\<close>

lemma settle_finishes: "\<exists>n r s' w'. settle deps ops i s w = (Finished n r, s', w')"
proof -
  have 1: "(\<exists>n r s' w'. settle_start deps ops i s w = (Finished n r, s', w')) \<or>
      (\<exists>n p m s' w'. settle_start deps ops i s w = (Reserved n p m, s', w'))"
    by (auto simp: settle_start_def Let_def split: sum.split option.split prod.split bool.split ReserveResult.split NonceState.split)
  have 2: "(\<exists>n' r s' w'. settle_simulate deps ops n p m s w = (Finished n' r, s', w')) \<or>
      (\<exists>s' w'. settle_simulate deps ops n p m s w = (Submitting n p m, s', w'))" for n p m s w
    by (auto simp: settle_simulate_def split: sum.split option.split prod.split)
  have 3: "\<exists>n' r s' w'. settle_submit deps ops n p m s w = (Finished n' r, s', w')" for n p m s w
    by (auto simp: settle_submit_def split: sum.split prod.split)
  from 1 show ?thesis
  proof (elim disjE exE)
    fix n p m s' w'
    assume a: "settle_start deps ops i s w = (Reserved n p m, s', w')"
    from 2 [of n p m s' w'] show ?thesis
    proof (elim disjE exE)
      fix s'' w''
      assume "settle_simulate deps ops n p m s' w' = (Submitting n p m, s'', w'')"
      with a 3 [of n p m s'' w''] show ?thesis by (auto simp: settle_def)
    qed (simp add: settle_def a)
  qed (simp add: settle_def)
qed

end
