(* ===== verification/X402Runs.thy ===== *)
theory X402Runs
  imports X402
begin

section \<open>Payments: overlapping settlements\<close>

text \<open>
  Any number of \<open>settle\<close> calls, each at its own stage, taking their stages in any order over one
  nullifier store. The contract of the store is a locale, the in-memory store its model; inside the
  locale an invariant ties every call that holds a nullifier to the store's row for it. From it: one
  nullifier is held by at most one call, and at most one call reports that it settled it.
\<close>

subsection \<open>The contract of a nullifier store\<close>

locale nonce_store =
  fixes ops :: "'s nonce_ops"
    and row :: "'s \<Rightarrow> hex \<Rightarrow> nonce_row option"
  assumes reserve_free: "row s n = None \<or> (\<exists>x. row s n = Some (Unseen, x)) \<or> (\<exists>x. row s n = Some (FailedRetryable, x)) \<Longrightarrow>
      \<exists>s'. ns_reserve ops n s = (ReserveOk, s') \<and> row s' = (row s)(n \<mapsto> (NReserved, None))"
    and reserve_settled: "row s n = Some (NSettled, x) \<Longrightarrow>
      \<exists>s'. ns_reserve ops n s = (ReserveNo NSettled x, s') \<and> row s' = row s"
    and reserve_taken: "row s n = Some (st, x) \<Longrightarrow> st \<in> {NReserved, NSettling, FailedTerminal} \<Longrightarrow>
      \<exists>s'. ns_reserve ops n s = (ReserveNo st None, s') \<and> row s' = row s"
    and settling: "row s n = Some (st, x) \<Longrightarrow> row (ns_markSettling ops n s) = (row s)(n \<mapsto> (NSettling, x))"
    and mark_settled: "row (ns_markSettled ops n r s) = (row s)(n \<mapsto> (NSettled, Some r))"
    and failed: "row (ns_markFailed ops n b s) = (row s)(n \<mapsto> (if b then FailedRetryable else FailedTerminal, None))"

abbreviation mem_nonces :: "nonce_rows nonce_ops" where
  "mem_nonces \<equiv> fst createMemoryNonceStore"

interpretation mem_nonce: nonce_store mem_nonces "\<lambda>s n. s n"
  by unfold_locales
     (auto simp: createMemoryNonceStore_def memory_reserve_def memory_markSettling_def memory_markSettled_def
       memory_markFailed_def)

subsection \<open>Interleavings\<close>

type_synonym ('s, 'w) settling = "settle_phase list \<times> 's \<times> 'w"

inductive settle_race :: "'w x402_deps \<Rightarrow> 's nonce_ops \<Rightarrow> ('s, 'w) settling \<Rightarrow> ('s, 'w) settling \<Rightarrow> bool"
  for deps ops where
  race_call: "settle_race deps ops (ts, s, w) (ts @ [Fresh i], s, w)"
| race_step: "i < length ts \<Longrightarrow> settle_step deps ops (ts ! i) s w = (p, s', w') \<Longrightarrow>
    settle_race deps ops (ts, s, w) (ts[i := p], s', w')"
| race_outside: "settle_race deps ops (ts, s, w) (ts, s, w')"

abbreviation settle_runs :: "'w x402_deps \<Rightarrow> 's nonce_ops \<Rightarrow> ('s, 'w) settling \<Rightarrow> ('s, 'w) settling \<Rightarrow> bool" where
  "settle_runs deps ops \<equiv> (settle_race deps ops)\<^sup>*\<^sup>*"

fun holds :: "settle_phase \<Rightarrow> hex option" where
  "holds (Reserved n p m) = Some n"
| "holds (Submitting n p m) = Some n"
| "holds _ = None"

fun paid :: "settle_phase \<Rightarrow> (hex \<times> receipt \<times> bool) option" where
  "paid (Finished (Some n) (Inr (SettleOk h m b))) = Some (n, (h, m), b)"
| "paid _ = None"

text \<open>What each stage must find in the store.\<close>

fun phase_ok :: "(hex \<Rightarrow> nonce_row option) \<Rightarrow> settle_phase \<Rightarrow> bool" where
  "phase_ok rows (Reserved n p m) = (rows n = Some (NReserved, None))"
| "phase_ok rows (Submitting n p m) = (rows n = Some (NSettling, None))"
| "phase_ok rows (Finished (Some n) (Inr (SettleOk h m b))) = (rows n = Some (NSettled, Some (h, m)))"
| "phase_ok rows _ = True"

lemma phase_ok_holds: "phase_ok rows p \<Longrightarrow> holds p = Some n \<Longrightarrow> \<exists>st. rows n = Some (st, None) \<and> st \<in> {NReserved, NSettling}"
  by (cases p) auto

lemma phase_ok_paid: "phase_ok rows p \<Longrightarrow> paid p = Some (n, r, b) \<Longrightarrow> rows n = Some (NSettled, Some r)"
  by (cases p rule: paid.cases) auto

lemma phase_ok_upd:
  assumes "phase_ok rows p" "holds p \<noteq> Some n" "\<And>r b. paid p \<noteq> Some (n, r, b)"
  shows "phase_ok (rows(n \<mapsto> x)) p"
  using assms by (cases "(rows, p)" rule: phase_ok.cases) auto

definition race_ok :: "(hex \<Rightarrow> nonce_row option) \<Rightarrow> settle_phase list \<Rightarrow> bool" where
  "race_ok rows ts \<longleftrightarrow>
     (\<forall>p \<in> set ts. phase_ok rows p) \<and>
     (\<forall>i j n. i < length ts \<longrightarrow> j < length ts \<longrightarrow> holds (ts ! i) = Some n \<longrightarrow> holds (ts ! j) = Some n \<longrightarrow> i = j) \<and>
     (\<forall>i j n r r'. i < length ts \<longrightarrow> j < length ts \<longrightarrow> paid (ts ! i) = Some (n, r, False) \<longrightarrow>
        paid (ts ! j) = Some (n, r', False) \<longrightarrow> i = j)"

definition free_row :: "nonce_row option \<Rightarrow> bool" where
  "free_row r \<longleftrightarrow> r = None \<or> (\<exists>x. r = Some (Unseen, x)) \<or> (\<exists>x. r = Some (FailedRetryable, x))"

text \<open>
  The effect of one stage: either no row changes and the call ends up holding nothing, or one row
  changes, a free one or the one the call holds, and the call is about that row from then on.
\<close>

definition stage_effect ::
  "(hex \<Rightarrow> nonce_row option) \<Rightarrow> (hex \<Rightarrow> nonce_row option) \<Rightarrow> settle_phase \<Rightarrow> settle_phase \<Rightarrow> bool" where
  "stage_effect rows rows' p p' \<longleftrightarrow>
     phase_ok rows' p' \<and>
     (rows' = rows \<and> holds p' = None \<and> (\<forall>n r. paid p' = Some (n, r, False) \<longrightarrow> p' = p) \<or>
      (\<exists>n x. rows' = rows(n \<mapsto> x) \<and> (holds p = Some n \<or> free_row (rows n)) \<and> (holds p' = None \<or> holds p' = Some n) \<and>
         (\<forall>m r b. paid p' = Some (m, r, b) \<longrightarrow> m = n)))"

context nonce_store
begin

lemma reserve_cases:
  obtains (free) s' where "free_row (row s n)" "ns_reserve ops n s = (ReserveOk, s')" "row s' = (row s)(n \<mapsto> (NReserved, None))"
    | (settled) x s' where "row s n = Some (NSettled, x)" "ns_reserve ops n s = (ReserveNo NSettled x, s')" "row s' = row s"
    | (taken) st s' where "st \<noteq> NSettled" "ns_reserve ops n s = (ReserveNo st None, s')" "row s' = row s"
proof (cases "free_row (row s n)")
  case True
  then show ?thesis using reserve_free [of s n] free by (auto simp: free_row_def)
next
  case False
  then obtain st x where r: "row s n = Some (st, x)" by (cases "row s n") (auto simp: free_row_def)
  with False have "st = NSettled \<or> st \<in> {NReserved, NSettling, FailedTerminal}" by (cases st) (auto simp: free_row_def)
  then show ?thesis
    using r reserve_settled [of s n x] reserve_taken [of s n st x] settled taken by (metis insertE singletonD NonceState.distinct)
qed

lemma start_effect:
  assumes "settle_start deps ops i s w = (p', s', w')"
  shows "stage_effect (row s) (row s') (Fresh i) p'"
proof (cases "verifyMandate (xl_viem (xd_lib deps)) (si_mandate i) (si_quote i) (xd_now deps w)")
  case (Inl e)
  with assms show ?thesis by (auto simp: settle_start_def Let_def stage_effect_def)
next
  case (Inr v)
  show ?thesis
  proof (cases v)
    case (Some x)
    with Inr assms show ?thesis by (auto simp: settle_start_def Let_def stage_effect_def)
  next
    case None
    obtain rv w1 where rv: "settle_revoked deps (si_mandate i) w = (rv, w1)" by (cases "settle_revoked deps (si_mandate i) w")
    show ?thesis
    proof (cases "rv = Inr False")
      case False
      with None Inr rv assms show ?thesis
        by (cases rv) (auto simp: settle_start_def Let_def stage_effect_def split: bool.splits)
    next
      case True
      show ?thesis
      proof (cases "settle_nullifier deps i")
        case (Inl e)
        with True None Inr rv assms show ?thesis by (auto simp: settle_start_def Let_def stage_effect_def)
      next
        case n: (Inr n)
        show ?thesis
        proof (cases rule: reserve_cases [of s n])
          case (free s1)
          with n True None Inr rv assms show ?thesis
            by (auto simp: settle_start_def Let_def stage_effect_def split: sum.splits intro!: exI [of _ n])
        next
          case (settled x s1)
          with n True None Inr rv assms show ?thesis
            by (cases x) (auto simp: settle_start_def Let_def stage_effect_def)
        next
          case (taken st s1)
          with n True None Inr rv assms show ?thesis
            by (cases st) (auto simp: settle_start_def Let_def stage_effect_def)
        qed
      qed
    qed
  qed
qed

lemma simulate_effect:
  assumes "row s n = Some (NReserved, None)" "settle_simulate deps ops n plan mid s w = (p', s', w')"
  shows "stage_effect (row s) (row s') (Reserved n plan mid) p'"
proof -
  have m: "row (ns_markSettling ops n s) = (row s)(n \<mapsto> (NSettling, None))" using settling [OF assms(1)] .
  show ?thesis
    using assms(2) m failed [of n True s]
    by (auto simp: settle_simulate_def stage_effect_def split: option.splits prod.splits sum.splits if_splits intro!: exI [of _ n])
qed

lemma submit_effect:
  assumes "settle_submit deps ops n plan mid s w = (p', s', w')"
  shows "stage_effect (row s) (row s') (Submitting n plan mid) p'"
proof (cases "xd_submitRedemption deps plan w")
  case (Pair r w1)
  show ?thesis
  proof (cases r)
    case (Inl e)
    with Pair assms failed [of n True s] show ?thesis
      by (auto simp: settle_submit_def stage_effect_def intro!: exI [of _ n] exI [of _ "(FailedRetryable, None)"])
  next
    case (Inr h)
    with Pair assms mark_settled [of n "(h, mid)" s] show ?thesis
      by (auto simp: settle_submit_def stage_effect_def intro!: exI [of _ n] exI [of _ "(NSettled, Some (h, mid))"])
  qed
qed

lemma step_effect:
  assumes "phase_ok (row s) p" "settle_step deps ops p s w = (p', s', w')" "\<And>n r. p \<noteq> Finished n r"
  shows "stage_effect (row s) (row s') p p'"
  using assms by (cases p) (auto intro: start_effect simulate_effect submit_effect)

lemma race_ok_step:
  assumes "race_ok (row s) ts" "i < length ts" "settle_step deps ops (ts ! i) s w = (p', s', w')"
  shows "race_ok (row s') (ts[i := p'])"
proof (cases "\<exists>n r. ts ! i = Finished n r")
  case True
  then have "p' = ts ! i" "s' = s" using assms(3) by auto
  with assms show ?thesis by simp
next
  case False
  have ok: "phase_ok (row s) (ts ! j)" if "j < length ts" for j using assms(1) that by (simp add: race_ok_def)
  from step_effect [OF ok [OF assms(2)] assms(3)] False have eff: "stage_effect (row s) (row s') (ts ! i) p'" by blast
  then have p': "phase_ok (row s') p'" by (simp add: stage_effect_def)
  from eff consider (same) "row s' = row s" "holds p' = None" "\<forall>n r. paid p' = Some (n, r, False) \<longrightarrow> p' = ts ! i"
    | (upd) n x where "row s' = (row s)(n \<mapsto> x)" "holds (ts ! i) = Some n \<or> free_row (row s n)"
        "holds p' = None \<or> holds p' = Some n" "\<forall>m r b. paid p' = Some (m, r, b) \<longrightarrow> m = n"
    unfolding stage_effect_def by metis
  then show ?thesis
  proof cases
    case same
    have "\<forall>p \<in> set (ts[i := p']). phase_ok (row s') p"
      using assms(1) p' same(1) set_update_subset_insert [of ts i p'] unfolding race_ok_def by auto
    with assms(1,2) same show ?thesis unfolding race_ok_def by (auto simp: nth_list_update)
  next
    case (upd n x)
    have other: "holds (ts ! j) \<noteq> Some n" "paid (ts ! j) \<noteq> Some (n, r, b)" if "j < length ts" "j \<noteq> i" for j r b
    proof -
      show "holds (ts ! j) \<noteq> Some n"
      proof
        assume h: "holds (ts ! j) = Some n"
        with phase_ok_holds [OF ok [OF that(1)]] have "\<not> free_row (row s n)" by (auto simp: free_row_def)
        with upd(2) h that assms(1,2) show False unfolding race_ok_def by blast
      qed
      show "paid (ts ! j) \<noteq> Some (n, r, b)"
      proof
        assume "paid (ts ! j) = Some (n, r, b)"
        from phase_ok_paid [OF ok [OF that(1)] this] have "row s n = Some (NSettled, Some r)" .
        with upd(2) phase_ok_holds [OF ok [OF assms(2)]] show False by (auto simp: free_row_def)
      qed
    qed
    have "phase_ok (row s') (ts[i := p'] ! j)" if "j < length ts" for j
    proof (cases "j = i")
      case True
      then show ?thesis using p' that by simp
    next
      case False
      then show ?thesis using phase_ok_upd [OF ok [OF that] other(1) other(2)] that by (simp add: upd(1))
    qed
    then have "\<forall>p \<in> set (ts[i := p']). phase_ok (row s') p" by (metis in_set_conv_nth length_list_update)
    moreover have "a = b" if "a < length ts" "b < length ts" "holds (ts[i := p'] ! a) = Some m" "holds (ts[i := p'] ! b) = Some m" for a b m
    proof -
      have "a = i \<Longrightarrow> b \<noteq> i \<Longrightarrow> False" "b = i \<Longrightarrow> a \<noteq> i \<Longrightarrow> False"
        using that upd(3) other(1) [of b] other(1) [of a] by (auto simp: nth_list_update)
      moreover have "a \<noteq> i \<Longrightarrow> b \<noteq> i \<Longrightarrow> a = b" using that assms(1) unfolding race_ok_def by (auto simp: nth_list_update)
      ultimately show ?thesis by blast
    qed
    moreover have "a = b" if "a < length ts" "b < length ts" "paid (ts[i := p'] ! a) = Some (m, r, False)"
        "paid (ts[i := p'] ! b) = Some (m, r', False)" for a b m r r'
    proof -
      have "a = i \<Longrightarrow> b \<noteq> i \<Longrightarrow> False" "b = i \<Longrightarrow> a \<noteq> i \<Longrightarrow> False"
        using that upd(4) other(2) [of b r' False] other(2) [of a r False] by (auto simp: nth_list_update)
      moreover have "a \<noteq> i \<Longrightarrow> b \<noteq> i \<Longrightarrow> a = b" using that assms(1) unfolding race_ok_def by (auto simp: nth_list_update)
      ultimately show ?thesis by blast
    qed
    ultimately show ?thesis unfolding race_ok_def by auto
  qed
qed

lemma race_ok_call: "race_ok rows ts \<Longrightarrow> race_ok rows (ts @ [Fresh i])"
  unfolding race_ok_def by (auto simp: nth_append less_Suc_eq split: if_splits)

lemma race_ok_run:
  assumes "settle_runs deps ops c c'" "race_ok (row (fst (snd c))) (fst c)"
  shows "race_ok (row (fst (snd c'))) (fst c')"
  using assms
proof (induction rule: rtranclp_induct)
  case (step y z)
  from step(2) step.IH [OF step.prems] show ?case
    by (cases rule: settle_race.cases) (auto intro: race_ok_step race_ok_call)
qed

end

subsection \<open>Properties\<close>

lemma nullifier_race:
  assumes "settle_runs deps mem_nonces ([], Map.empty, w) (ts, s, w')" "i < length ts" "j < length ts"
  shows "holds (ts ! i) = Some n \<Longrightarrow> holds (ts ! j) = Some n \<Longrightarrow> i = j"
    and "ts ! i = Finished (Some n) (Inr (SettleOk h m False)) \<Longrightarrow> ts ! j = Finished (Some n) (Inr (SettleOk h' m' False)) \<Longrightarrow> i = j"
    and "ts ! i = Finished (Some n) (Inr (SettleOk h m b)) \<Longrightarrow> ts ! j = Finished (Some n) (Inr (SettleOk h' m' b')) \<Longrightarrow> h = h' \<and> m = m'"
    and "ts ! i = Finished (Some n) (Inr (SettleOk h m b)) \<Longrightarrow> holds (ts ! j) \<noteq> Some n"
proof -
  have "race_ok Map.empty []" by (simp add: race_ok_def)
  with mem_nonce.race_ok_run [OF assms(1)] have ok: "race_ok s ts" by simp
  then have p: "phase_ok s (ts ! i)" "phase_ok s (ts ! j)" using assms(2,3) by (auto simp: race_ok_def)
  show "i = j" if "holds (ts ! i) = Some n" "holds (ts ! j) = Some n" using ok that assms(2,3) unfolding race_ok_def by blast
  show "i = j" if "ts ! i = Finished (Some n) (Inr (SettleOk h m False))" "ts ! j = Finished (Some n) (Inr (SettleOk h' m' False))"
    using ok that assms(2,3) unfolding race_ok_def by (metis paid.simps(1))
  show "h = h' \<and> m = m'" if "ts ! i = Finished (Some n) (Inr (SettleOk h m b))" "ts ! j = Finished (Some n) (Inr (SettleOk h' m' b'))"
    using p that by auto
  show "holds (ts ! j) \<noteq> Some n" if "ts ! i = Finished (Some n) (Inr (SettleOk h m b))"
  proof
    assume "holds (ts ! j) = Some n"
    from phase_ok_holds [OF p(2) this] p(1) that show False by auto
  qed
qed

text \<open>
  C4: At most one call reports a fresh settlement of a nullifier, however calls overlap. Start any number of
  \<open>settle\<close> calls over the in-memory store and let their stages interleave in any order, with the outside
  world changing in between. Then no two calls are past the reservation of one nullifier at the same time,
  at most one call ever reports a fresh settlement of it, every call that reports success for it reports
  that same settlement, and once one has reported success no call is past the reservation. This bounds what
  is reported, not what lands outside: a submission that throws after its payment landed leaves the
  nullifier open to a second one (\<open>landed_submission_is_repeated\<close>).
\<close>

theorem settlement_reported_once:
  assumes "settle_runs deps mem_nonces ([], Map.empty, w) (ts, s, w')" "i < length ts" "j < length ts"
  shows "(holds (ts ! i) = Some n \<longrightarrow> holds (ts ! j) = Some n \<longrightarrow> i = j) \<and>
    (ts ! i = Finished (Some n) (Inr (SettleOk h m False)) \<longrightarrow> ts ! j = Finished (Some n) (Inr (SettleOk h' m' False)) \<longrightarrow> i = j) \<and>
    (ts ! i = Finished (Some n) (Inr (SettleOk h m b)) \<longrightarrow> ts ! j = Finished (Some n) (Inr (SettleOk h' m' b')) \<longrightarrow> h = h' \<and> m = m') \<and>
    (ts ! i = Finished (Some n) (Inr (SettleOk h m b)) \<longrightarrow> holds (ts ! j) \<noteq> Some n)"
  using nullifier_race [OF assms] by blast


text \<open>A concrete rail: every hash is constant, simulation is off, a submission answers with the world's number.\<close>

definition demo_x402_viem :: viem_lib where
  "demo_x402_viem = \<lparr>vm_codec = \<lparr>encodeAbiParameters = (\<lambda>ts vs. Inr ''0xab''), decodeAbiParameters = (\<lambda>ts h. Inl ''bad''),
      keccak256 = (\<lambda>h. ''0xnull''), keccak_256 = (\<lambda>bs. bs), hashTypedData = (\<lambda>dm ts p m. Inr ''0x'')\<rparr>,
    vm_toBytes = TextEncoder, vm_keccakBytes = (\<lambda>bs. ''0x''), vm_errorText = (\<lambda>e. case e of Error m \<Rightarrow> m | _ \<Rightarrow> ''error'')\<rparr>"

definition demo_rail :: "(TransferPlan \<Rightarrow> nat \<Rightarrow> simulation js \<times> nat) option \<Rightarrow> nat x402_deps" where
  "demo_rail sim =
     \<lparr>xd_lib = \<lparr>xl_viem = demo_x402_viem, xl_encodeCall = (\<lambda>f vs. Inr f), xl_toHex32 = (\<lambda>n. Inr ''0x09'')\<rparr>, xd_chainId = 1,
      xd_delegationManager = ''0x06'', xd_paymentEnforcer = ''0x07'', xd_asset = ''0xc0'', xd_isRevoked = (\<lambda>h w. (Inr True, w)),
      xd_submitRedemption = (\<lambda>plan w. (Inr (''0xtx'' @ nat_str w), Suc w)), xd_simulate = sim, xd_maxGasPerSettlement = None,
      xd_now = (\<lambda>w. 50)\<rparr>"

definition demo_quote :: PaymentQuote where
  "demo_quote = \<lparr>qt_quoteId = ''0xq1'', qt_network = ''eip155:1'', qt_asset = ''0xC0'', qt_payTo = ''0xb1'', qt_amount = 5,
     qt_resource = \<lparr>prs_protocol = Http, prs_method = ''GET'', prs_url = ''/x'', prs_bodyHash = ZERO_HASH, prs_serviceAgent = ''0xb1'',
       prs_treasury = ''0xb1'', prs_skillId = [], prs_taskId = ZERO_HASH, prs_asset = ''0xc0'', prs_amount = 5, prs_chainId = 1,
       prs_expiresAt = 100, prs_nonce = 9\<rparr>,
     qt_resourceHash = ''0xr1'', qt_nonce = 9, qt_expiresAt = 100, qt_maxTimeoutSeconds = 300\<rparr>"

definition demo_payment :: "hex option \<Rightarrow> settle_input" where
  "demo_payment ref = \<lparr>si_mandate = (buildClosedMandate demo_x402_viem
       \<lparr>ci_payer = ''0xa1'', ci_payee = ''0xB1'', ci_asset = \<lparr>as_id = ''0xc0'', as_symbol = None, as_decimals = None\<rparr>, ci_amount = 5,
        ci_chain = 1, ci_rail = RailX402, ci_nonce = 9, ci_expiresAt = 100, ci_validFrom = None, ci_granter = None, ci_orderHash = None,
        ci_legId = None, ci_reasonHash = None, ci_resource = Some \<lparr>br_method = ''GET'', br_url = ''/x'', br_requestBodyHash = ZERO_HASH\<rparr>,
        ci_delegationRef = ref\<rparr>)\<lparr>mn_railConfig := Some \<lparr>rc_quoteId = Some ''0xq1'', rc_resourceHash = Some ''0xr1''\<rparr>\<rparr>,
     si_delegation = \<lparr>delegator = ''0xa1'', delegate = ''0xb1'', authority = ''0x'', caveats = [], salt_of = SaltBig 0, signature = ''0x''\<rparr>,
     si_quote = demo_quote\<rparr>"

text \<open>A schedule of calls and stages, and the run it is.\<close>

datatype race_action = Call settle_input | Stage nat

fun schedule :: "'w x402_deps \<Rightarrow> 's nonce_ops \<Rightarrow> race_action list \<Rightarrow> ('s, 'w) settling \<Rightarrow> ('s, 'w) settling" where
  "schedule deps ops [] c = c"
| "schedule deps ops (Call i # as) (ts, s, w) = schedule deps ops as (ts @ [Fresh i], s, w)"
| "schedule deps ops (Stage k # as) (ts, s, w) =
     (if k < length ts then (case settle_step deps ops (ts ! k) s w of (p, s', w') \<Rightarrow> schedule deps ops as (ts[k := p], s', w'))
      else schedule deps ops as (ts, s, w))"

lemma schedule_runs: "settle_runs deps ops c (schedule deps ops as c)"
proof (induction deps ops as c rule: schedule.induct)
  case (2 deps ops i as ts s w)
  have "settle_race deps ops (ts, s, w) (ts @ [Fresh i], s, w)" by (rule race_call)
  with 2 show ?case by (auto intro: converse_rtranclp_into_rtranclp)
next
  case (3 deps ops k as ts s w)
  show ?case
  proof (cases "k < length ts")
    case True
    obtain p s' w' where p: "settle_step deps ops (ts ! k) s w = (p, s', w')" by (metis surj_pair)
    have "settle_race deps ops (ts, s, w) (ts[k := p], s', w')" by (rule race_step [OF True p])
    moreover have "settle_runs deps ops (ts[k := p], s', w') (schedule deps ops as (ts[k := p], s', w'))"
      using 3(1) [OF True p [symmetric] refl] by simp
    ultimately show ?thesis using True p by (auto intro: converse_rtranclp_into_rtranclp)
  qed (use 3 in simp)
qed simp

text \<open>Two overlapping calls for one payment, and a later retry.\<close>

definition demo_race :: "(nonce_rows, nat) settling" where
  "demo_race = schedule (demo_rail None) mem_nonces
     [Call (demo_payment None), Call (demo_payment None), Stage 0, Stage 1, Stage 0, Stage 0, Call (demo_payment None), Stage 2]
     ([], Map.empty, 3)"

definition demo_mandate_id :: hex where
  "demo_mandate_id = mn_mandateId (si_mandate (demo_payment None))"

lemma demo_race_phases:
  "fst demo_race =
     [Finished (Some ''0xnull'') (Inr (SettleOk ''0xtx3'' demo_mandate_id False)),
      Finished (Some ''0xnull'') (Inr (SettleErr ''duplicate settlement (reserved)'')),
      Finished (Some ''0xnull'') (Inr (SettleOk ''0xtx3'' demo_mandate_id True))]"
  by code_simp

lemma demo_race_run: "settle_runs (demo_rail None) mem_nonces ([], Map.empty, 3) (fst demo_race, fst (snd demo_race), snd (snd demo_race))"
  unfolding prod.collapse demo_race_def by (rule schedule_runs)

theorem settlement_reported_once_witness:
  "fst demo_race ! 0 = Finished (Some ''0xnull'') (Inr (SettleOk ''0xtx3'' demo_mandate_id False)) \<and>
   fst demo_race ! 2 = Finished (Some ''0xnull'') (Inr (SettleOk ''0xtx3'' demo_mandate_id True)) \<and>
   holds (fst demo_race ! 1) \<noteq> Some ''0xnull''"
  using settlement_reported_once [OF demo_race_run, of 0 1 "''0xnull''" "''0xtx3''" demo_mandate_id "''0xtx3''" demo_mandate_id False False]
  by (simp add: demo_race_phases)

subsection \<open>What the rail does not guarantee\<close>

text \<open>
  A submission that lands and then throws, as one that times out does: the world counts the payments that
  landed. The nullifier is marked \<open>failed_retryable\<close>, so the next call for the same mandate submits, and
  pays, again.
\<close>

definition landing_rail :: "nat x402_deps" where
  "landing_rail = (demo_rail None)\<lparr>xd_submitRedemption := (\<lambda>plan w. (Inl (Error ''timeout''), Suc w))\<rparr>"

lemma landed_submission_is_repeated:
  "snd (snd (schedule landing_rail mem_nonces [Call (demo_payment None), Stage 0, Stage 0, Stage 0] ([], Map.empty, 0))) = 1"
  "snd (snd (schedule landing_rail mem_nonces
     [Call (demo_payment None), Stage 0, Stage 0, Stage 0, Call (demo_payment None), Stage 1, Stage 1, Stage 1] ([], Map.empty, 0))) = 2"
  by code_simp+

lemma simulation_throws:
  assumes "settle_start deps mem_nonces i s w = (Reserved n plan m, s1, w1)"
    and "xd_simulate deps = Some sim" "sim plan w1 = (Inl e, w2)"
    and "settle_nullifier deps i' = Inr n" "settle_start deps mem_nonces i' s1 w3 = (p, s2, w4)"
  shows "settle deps mem_nonces i s w = (Finished (Some n) (Inl e), s1, w2)"
    and "s2 = s1 \<and> (\<exists>n' r. p = Finished n' r) \<and> (\<forall>n' h m' b. p \<noteq> Finished n' (Inr (SettleOk h m' b)))"
proof -
  show "settle deps mem_nonces i s w = (Finished (Some n) (Inl e), s1, w2)"
    using assms(1-3) by (simp add: settle_def settle_simulate_def)
  have eff: "stage_effect s s1 (Fresh i) (Reserved n plan m)"
    by (rule mem_nonce.start_effect [OF assms(1)])
  then have "s1 n = Some (NReserved, None)" by (simp add: stage_effect_def)
  then have "memory_reserve n s1 = (ReserveNo NReserved None, s1)" by (simp add: memory_reserve_def)
  with assms(4,5) show "s2 = s1 \<and> (\<exists>n' r. p = Finished n' r) \<and> (\<forall>n' h m' b. p \<noteq> Finished n' (Inr (SettleOk h m' b)))"
    by (auto simp: settle_start_def Let_def createMemoryNonceStore_def split: sum.splits option.splits prod.splits bool.splits)
qed

text \<open>
  C40: A simulation that throws burns the mandate. The dry run comes after the reservation and only its
  verdicts release the nullifier again; when the call itself fails (a node that does not answer),
  \<open>settle\<close> rejects, nothing was submitted, and every later attempt to settle the payment is refused as
  a duplicate.
\<close>

theorem throwing_simulation_burns_the_mandate:
  assumes "settle_start deps mem_nonces i s w = (Reserved n plan m, s1, w1)"
    and "xd_simulate deps = Some sim" "sim plan w1 = (Inl e, w2)"
    and "settle_nullifier deps i' = Inr n" "settle_start deps mem_nonces i' s1 w3 = (p, s2, w4)"
  shows "settle deps mem_nonces i s w = (Finished (Some n) (Inl e), s1, w2) \<and>
    s2 = s1 \<and> (\<exists>n' r. p = Finished n' r) \<and> (\<forall>n' h m' b. p \<noteq> Finished n' (Inr (SettleOk h m' b)))"
  using simulation_throws [OF assms] by blast


definition demo_down :: "TransferPlan \<Rightarrow> nat \<Rightarrow> simulation js \<times> nat" where
  "demo_down plan w = (Inl (Error ''no answer''), w)"

definition demo_down_start :: "settle_phase \<times> nonce_rows \<times> nat" where
  "demo_down_start = settle_start (demo_rail (Some demo_down)) mem_nonces (demo_payment None) Map.empty 3"

lemma demo_down_facts:
  "fst demo_down_start = Reserved ''0xnull'' \<lparr>tp_to = ''0x06'', tp_value = 0, tp_data = ''redeemDelegation''\<rparr> demo_mandate_id"
  "settle_nullifier (demo_rail (Some demo_down)) (demo_payment None) = Inr ''0xnull''"
  by code_simp+

theorem throwing_simulation_burns_the_mandate_witness:
  "\<exists>s1 w2 n' r. settle (demo_rail (Some demo_down)) mem_nonces (demo_payment None) Map.empty 3 =
       (Finished (Some ''0xnull'') (Inl (Error ''no answer'')), s1, w2) \<and>
     fst (settle_start (demo_rail (Some demo_down)) mem_nonces (demo_payment None) s1 w2) = Finished n' r \<and>
     (\<forall>h m b. r \<noteq> Inr (SettleOk h m b))"
proof -
  let ?d = "demo_rail (Some demo_down)"
  obtain s1 w1 where s: "settle_start ?d mem_nonces (demo_payment None) Map.empty 3 =
      (Reserved ''0xnull'' \<lparr>tp_to = ''0x06'', tp_value = 0, tp_data = ''redeemDelegation''\<rparr> demo_mandate_id, s1, w1)"
    using demo_down_facts(1) unfolding demo_down_start_def by (metis prod.collapse)
  obtain p s2 w4 where r: "settle_start ?d mem_nonces (demo_payment None) s1 w1 = (p, s2, w4)" by (metis surj_pair)
  have sim: "xd_simulate ?d = Some demo_down"
      "demo_down \<lparr>tp_to = ''0x06'', tp_value = 0, tp_data = ''redeemDelegation''\<rparr> w1 = (Inl (Error ''no answer''), w1)"
    by (simp_all add: demo_rail_def demo_down_def)
  from throwing_simulation_burns_the_mandate [OF s sim demo_down_facts(2) r] r show ?thesis by auto
qed

lemma start_not_fresh: "settle_start deps ops i s w = (p, s', w') \<Longrightarrow> p \<noteq> Fresh j"
  by (auto simp: settle_start_def Let_def split: sum.splits option.splits prod.splits bool.splits ReserveResult.splits NonceState.splits)

lemma step_not_fresh: "settle_step deps ops p s w = (p', s', w') \<Longrightarrow> (\<And>j. p \<noteq> Fresh j) \<Longrightarrow> p' \<noteq> Fresh j"
  by (cases p) (auto simp: settle_simulate_def settle_submit_def split: sum.splits option.splits prod.splits if_splits)

lemma stripped_reference:
  "paymentMandateDigest vm hashTyped (m\<lparr>mn_delegationRef := None\<rparr>) opts = paymentMandateDigest vm hashTyped m opts"
  "settle_revoked deps (m\<lparr>mn_delegationRef := None\<rparr>) w = (Inr False, w)"
  "settle (deps\<lparr>xd_isRevoked := revoked\<rparr>) ops (i\<lparr>si_mandate := m\<lparr>mn_delegationRef := None\<rparr>\<rparr>) s w = settle deps ops (i\<lparr>si_mandate := m\<lparr>mn_delegationRef := None\<rparr>\<rparr>) s w"
proof -
  let ?m = "m\<lparr>mn_delegationRef := None\<rparr>"
  show "paymentMandateDigest vm hashTyped ?m opts = paymentMandateDigest vm hashTyped m opts"
    by (simp add: paymentMandateDigest_def buildPaymentMandateTypedData_def mandateMessage_def mandateAmount_def)
  have r: "settle_revoked d ?m x = (Inr False, x)" for d :: "'a x402_deps" and x by (simp add: settle_revoked_def)
  then show "settle_revoked deps ?m w = (Inr False, w)" .
  have 1: "settle_start (deps\<lparr>xd_isRevoked := revoked\<rparr>) ops (i\<lparr>si_mandate := ?m\<rparr>) s w = settle_start deps ops (i\<lparr>si_mandate := ?m\<rparr>) s w"
    by (simp add: settle_start_def r settle_nullifier_def Let_def split: sum.split option.split prod.split ReserveResult.split)
  have 2: "settle_simulate (deps\<lparr>xd_isRevoked := revoked\<rparr>) = settle_simulate deps"
    by (intro ext) (simp add: settle_simulate_def split: sum.split option.split prod.split)
  have 3: "settle_submit (deps\<lparr>xd_isRevoked := revoked\<rparr>) = settle_submit deps"
    by (intro ext) (simp add: settle_submit_def split: sum.split prod.split)
  have 4: "settle_step (deps\<lparr>xd_isRevoked := revoked\<rparr>) ops p s w = settle_step deps ops p s w" if "\<And>j. p \<noteq> Fresh j" for p s w
    using that by (cases p) (auto simp: 2 3)
  obtain p1 s1 w1 where p1: "settle_start deps ops (i\<lparr>si_mandate := ?m\<rparr>) s w = (p1, s1, w1)" by (metis surj_pair)
  obtain p2 s2 w2 where p2: "settle_step deps ops p1 s1 w1 = (p2, s2, w2)" by (metis surj_pair)
  have f1: "p1 \<noteq> Fresh j" for j using start_not_fresh [OF p1] .
  then have f2: "p2 \<noteq> Fresh j" for j using step_not_fresh [OF p2] by blast
  from f1 f2 4 show "settle (deps\<lparr>xd_isRevoked := revoked\<rparr>) ops (i\<lparr>si_mandate := ?m\<rparr>) s w = settle deps ops (i\<lparr>si_mandate := ?m\<rparr>) s w"
    by (simp add: settle_def 1 p1 p2)
qed

text \<open>
  The revocation check can be skipped. \<open>settle\<close> asks whether the payment delegation is revoked only
  when the mandate names it, and the mandate's signature does not cover that reference: with the
  reference taken out the digest is the same and \<open>settle\<close> runs as if nothing were ever revoked.
\<close>

theorem stripped_reference_skips_revocation:
  "paymentMandateDigest vm hashTyped (m\<lparr>mn_delegationRef := None\<rparr>) opts = paymentMandateDigest vm hashTyped m opts \<and>
   settle_revoked deps (m\<lparr>mn_delegationRef := None\<rparr>) w = (Inr False, w) \<and>
   settle (deps\<lparr>xd_isRevoked := revoked\<rparr>) ops (i\<lparr>si_mandate := m\<lparr>mn_delegationRef := None\<rparr>\<rparr>) s w =
     settle deps ops (i\<lparr>si_mandate := m\<lparr>mn_delegationRef := None\<rparr>\<rparr>) s w"
  by (intro conjI stripped_reference)


end
