(* ===== verification/PaymentLedger.thy ===== *)
theory PaymentLedger
  imports Viem
begin

section \<open>Payments: event log and receipts\<close>

text \<open>
  \<open>packages/payments/src/ops.ts\<close>. The event log is shown to be the emitted stream with repeated keys
  dropped; the receipts of a closed set of accounts add up to zero; the CSV export parses back to its rows.
\<close>

subsection \<open>The event log\<close>

datatype PaymentEventType =
    PaymentCreated | PaymentReserved | PaymentSettling | PaymentSettled | EvPaymentFailed | PaymentRefunded
  | PaymentExpired | PaymentDisputed | EntitlementIssued | EntitlementConsumed

record 'v PaymentEvent =
  ev_idempotencyKey :: string
  ev_type :: PaymentEventType
  ev_at :: int
  ev_orderHash :: "hex option"
  ev_mandateId :: "hex option"
  ev_data :: "(string \<times> 'v) list option"

text \<open>
  A subscriber is a function with an identity (the set of subscribers is a set of function objects);
  it acts on the world and may throw.
\<close>

record ('v, 'w) event_log =
  el_events :: "'v PaymentEvent list"
  el_seen :: "string set"
  el_subs :: "(nat \<times> ('v PaymentEvent \<Rightarrow> 'w \<Rightarrow> unit js \<times> 'w)) list"

definition createPaymentEventLog :: "('v, 'w) event_log" where
  "createPaymentEventLog = \<lparr>el_events = [], el_seen = {}, el_subs = []\<rparr>"

fun notify :: "(nat \<times> ('v PaymentEvent \<Rightarrow> 'w \<Rightarrow> unit js \<times> 'w)) list \<Rightarrow> 'v PaymentEvent \<Rightarrow> 'w \<Rightarrow> unit js \<times> 'w" where
  "notify [] e w = (Inr (), w)"
| "notify ((k, f) # fs) e w = (case f e w of (Inl x, w') \<Rightarrow> (Inl x, w') | (Inr _, w') \<Rightarrow> notify fs e w')"

definition emit_event :: "'v PaymentEvent \<Rightarrow> ('v, 'w) event_log \<Rightarrow> 'w \<Rightarrow> bool js \<times> ('v, 'w) event_log \<times> 'w" where
  "emit_event e l w =
     (if ev_idempotencyKey e \<in> el_seen l then (Inr False, l, w)
      else (let l' = l\<lparr>el_seen := insert (ev_idempotencyKey e) (el_seen l), el_events := el_events l @ [e]\<rparr>
            in case notify (el_subs l) e w of
                 (Inl x, w') \<Rightarrow> (Inl x, l', w')
               | (Inr _, w') \<Rightarrow> (Inr True, l', w')))"

definition byType :: "PaymentEventType \<Rightarrow> ('v, 'w) event_log \<Rightarrow> 'v PaymentEvent list" where
  "byType t l = filter (\<lambda>e. ev_type e = t) (el_events l)"

definition byOrder :: "hex \<Rightarrow> ('v, 'w) event_log \<Rightarrow> 'v PaymentEvent list" where
  "byOrder orderHash l =
     filter (\<lambda>e. map_option toLowerCase (ev_orderHash e) = Some (toLowerCase orderHash)) (el_events l)"

definition subscribe :: "nat \<Rightarrow> ('v PaymentEvent \<Rightarrow> 'w \<Rightarrow> unit js \<times> 'w) \<Rightarrow> ('v, 'w) event_log \<Rightarrow> ('v, 'w) event_log" where
  "subscribe k f l = (if k \<in> fst ` set (el_subs l) then l else l\<lparr>el_subs := el_subs l @ [(k, f)]\<rparr>)"

definition unsubscribe :: "nat \<Rightarrow> ('v, 'w) event_log \<Rightarrow> ('v, 'w) event_log" where
  "unsubscribe k l = l\<lparr>el_subs := filter (\<lambda>(j, f). j \<noteq> k) (el_subs l)\<rparr>"

text \<open>Emitting a stream of events, and the stream with every repeated key dropped.\<close>

fun emit_all :: "'v PaymentEvent list \<Rightarrow> ('v, 'w) event_log \<Rightarrow> 'w \<Rightarrow> bool js list \<times> ('v, 'w) event_log \<times> 'w" where
  "emit_all [] l w = ([], l, w)"
| "emit_all (e # es) l w =
     (case emit_event e l w of (b, l', w') \<Rightarrow> (case emit_all es l' w' of (bs, l'', w'') \<Rightarrow> (b # bs, l'', w'')))"

fun first_by_key :: "string set \<Rightarrow> 'v PaymentEvent list \<Rightarrow> 'v PaymentEvent list" where
  "first_by_key seen [] = []"
| "first_by_key seen (e # es) =
     (if ev_idempotencyKey e \<in> seen then first_by_key seen es
      else e # first_by_key (insert (ev_idempotencyKey e) seen) es)"

lemma emit_all_events:
  "emit_all es l w = (bs, l', w') \<Longrightarrow> el_events l' = el_events l @ first_by_key (el_seen l) es"
proof (induction es arbitrary: l w bs)
  case (Cons e es)
  obtain b l1 w1 where e: "emit_event e l w = (b, l1, w1)" by (metis surj_pair)
  obtain bs1 where r: "emit_all es l1 w1 = (bs1, l', w')" using Cons.prems e by (auto split: prod.splits)
  have l1: "el_events l1 = (if ev_idempotencyKey e \<in> el_seen l then el_events l else el_events l @ [e])"
      "el_seen l1 = insert (ev_idempotencyKey e) (el_seen l)"
    using e by (auto simp: emit_event_def Let_def insert_absorb split: if_splits prod.splits sum.splits)
  from Cons.IH [OF r] show ?case by (auto simp: l1 insert_absorb)
qed simp

lemma first_by_key_distinct:
  "distinct (map ev_idempotencyKey (first_by_key seen es)) \<and>
   ev_idempotencyKey ` set (first_by_key seen es) = ev_idempotencyKey ` set es - seen"
proof (induction es arbitrary: seen)
  case (Cons e es)
  have n: "ev_idempotencyKey e \<notin> ev_idempotencyKey ` set (first_by_key (insert (ev_idempotencyKey e) seen) es)"
    using Cons.IH by simp
  show ?case
  proof (cases "ev_idempotencyKey e \<in> seen")
    case True
    then show ?thesis using Cons.IH [of seen] by auto
  next
    case False
    then show ?thesis using Cons.IH [of "insert (ev_idempotencyKey e) seen"] n by auto
  qed
qed simp

lemma first_by_key_first:
  "e \<in> set (first_by_key seen es) \<Longrightarrow> \<exists>xs ys. es = xs @ e # ys \<and> ev_idempotencyKey e \<notin> seen \<union> ev_idempotencyKey ` set xs"
proof (induction es arbitrary: seen)
  case (Cons a es)
  show ?case
  proof (cases "ev_idempotencyKey a \<notin> seen \<and> e = a")
    case True
    then show ?thesis by (intro exI [of _ "[]"] exI [of _ es]) simp
  next
    case False
    then obtain s where s: "e \<in> set (first_by_key s es)" "seen \<subseteq> s" "ev_idempotencyKey a \<in> s"
      using Cons.prems by (auto split: if_splits)
    from Cons.IH [OF s(1)] obtain xs ys where "es = xs @ e # ys" "ev_idempotencyKey e \<notin> s \<union> ev_idempotencyKey ` set xs" by blast
    with s show ?thesis by (intro exI [of _ "a # xs"] exI [of _ ys]) auto
  qed
qed simp

lemma notify_all:
  assumes "\<And>k f e w. (k, f) \<in> set fs \<Longrightarrow> \<exists>w'. f e w = (Inr (), w')"
  shows "\<exists>w'. notify fs e w = (Inr (), w')"
  using assms
proof (induction fs arbitrary: w)
  case (Cons a fs)
  obtain k f where a: "a = (k, f)" by (cases a)
  obtain w1 where "f e w = (Inr (), w1)" using Cons.prems [of k f e w] a by auto
  moreover obtain w2 where "notify fs e w1 = (Inr (), w2)" using Cons.IH [of w1] Cons.prems by (meson list.set_intros(2))
  ultimately show ?case by (simp add: a)
qed simp

text \<open>
  The event log is exactly-once. Whatever stream of events an at-least-once producer emits into a new
  log, and whatever its subscribers do, the log ends up as that stream with every event whose
  idempotency key occurred before dropped: keys are unique in it, every key of the stream is in it, and
  each event kept is the first of its key.
\<close>

theorem event_log_is_exactly_once:
  assumes "emit_all es (createPaymentEventLog\<lparr>el_subs := subs\<rparr>) w = (bs, l, w')"
  shows "el_events l = first_by_key {} es \<and> distinct (map ev_idempotencyKey (el_events l)) \<and>
         ev_idempotencyKey ` set (el_events l) = ev_idempotencyKey ` set es \<and>
         (\<forall>e \<in> set (el_events l). \<exists>xs ys. es = xs @ e # ys \<and> ev_idempotencyKey e \<notin> ev_idempotencyKey ` set xs)"
proof -
  have e: "el_events l = first_by_key {} es" using emit_all_events [OF assms] by (simp add: createPaymentEventLog_def)
  with first_by_key_distinct [of "{}" es] first_by_key_first [of _ "{}" es] show ?thesis by auto
qed

definition demo_event :: "string \<Rightarrow> int \<Rightarrow> nat PaymentEvent" where
  "demo_event k t = \<lparr>ev_idempotencyKey = k, ev_type = PaymentSettled, ev_at = t, ev_orderHash = None, ev_mandateId = None, ev_data = None\<rparr>"

theorem event_log_is_exactly_once_witness:
  "\<exists>bs l w. emit_all [demo_event ''a'' 1, demo_event ''b'' 2, demo_event ''a'' 3] (createPaymentEventLog\<lparr>el_subs := []\<rparr>) (0 :: nat) = (bs, l, w) \<and>
     el_events l = [demo_event ''a'' 1, demo_event ''b'' 2]"
proof -
  obtain bs l w where e: "emit_all [demo_event ''a'' 1, demo_event ''b'' 2, demo_event ''a'' 3] (createPaymentEventLog\<lparr>el_subs := []\<rparr>) (0 :: nat) = (bs, l, w)"
    by (metis surj_pair)
  from event_log_is_exactly_once [OF e] e show ?thesis by (auto simp: demo_event_def)
qed

subsection \<open>Receipts\<close>

record ReceiptRow =
  rr_mandateId :: hex
  rr_payer :: address
  rr_payee :: address
  rr_asset :: address
  rr_amount :: int
  rr_settlementHash :: hex
  rr_at :: int
  rr_orderHash :: "hex option"
  rr_refunds :: "hex option"

record ReceiptFilter =
  rf_payer :: "address option"
  rf_payee :: "address option"
  rf_orderHash :: "hex option"
  rf_asset :: "address option"

definition eq_opt :: "string option \<Rightarrow> string option \<Rightarrow> bool" where
  "eq_opt a b =
     (if truthy a \<and> truthy b then map_option toLowerCase a = map_option toLowerCase b else a = b)"

definition listReceiptsBy :: "ReceiptRow list \<Rightarrow> ReceiptFilter \<Rightarrow> ReceiptRow list" where
  "listReceiptsBy receipts f =
     filter (\<lambda>r. (rf_payer f = None \<or> eq_opt (Some (rr_payer r)) (rf_payer f)) \<and>
                 (rf_payee f = None \<or> eq_opt (Some (rr_payee r)) (rf_payee f)) \<and>
                 (rf_asset f = None \<or> eq_opt (Some (rr_asset r)) (rf_asset f)) \<and>
                 (rf_orderHash f = None \<or> eq_opt (rr_orderHash r) (rf_orderHash f))) receipts"

fun balance_loop :: "ReceiptRow list \<Rightarrow> address \<Rightarrow> int \<Rightarrow> int" where
  "balance_loop [] account delta = delta"
| "balance_loop (r # rs) account delta =
     (let delta = (if eq_opt (Some (rr_payee r)) (Some account) then delta + rr_amount r else delta);
          delta = (if eq_opt (Some (rr_payer r)) (Some account) then delta - rr_amount r else delta)
      in balance_loop rs account delta)"

definition balanceDelta :: "ReceiptRow list \<Rightarrow> address \<Rightarrow> int" where
  "balanceDelta receipts account = balance_loop receipts account 0"

definition isOrderPaid :: "ReceiptRow list \<Rightarrow> hex \<Rightarrow> int option \<Rightarrow> bool" where
  "isOrderPaid receipts orderHash expectedAmount =
     (let charges = filter (\<lambda>r. eq_opt (rr_orderHash r) (Some orderHash) \<and> \<not> truthy (rr_refunds r)) receipts
      in if length charges = 0 then False
         else (case expectedAmount of
                 None \<Rightarrow> True
               | Some x \<Rightarrow> foldl (\<lambda>s r. s + rr_amount r) 0 charges \<ge> x))"

definition csv_header :: string where
  "csv_header = ''mandateId,payer,payee,asset,amount,settlementHash,at,orderHash,refunds''"

definition csv_cells :: "ReceiptRow \<Rightarrow> string list" where
  "csv_cells r =
     [rr_mandateId r, rr_payer r, rr_payee r, rr_asset r, int_str (rr_amount r), rr_settlementHash r,
      int_str (rr_at r), case_option [] id (rr_orderHash r), case_option [] id (rr_refunds r)]"

definition exportReceiptsCSV :: "ReceiptRow list \<Rightarrow> string" where
  "exportReceiptsCSV receipts =
     join [CHR 0x0A] (csv_header # map (\<lambda>r. join '','' (csv_cells r)) receipts)"

lemma eq_opt_Some: "eq_opt (Some a) (Some b) \<longleftrightarrow> toLowerCase a = toLowerCase b"
  by (auto simp: eq_opt_def truthy_def toLowerCase_def)

lemma balance_loop_acc: "balance_loop rs a d = d + balance_loop rs a 0"
proof (induction rs arbitrary: d)
  case (Cons r rs)
  show ?case by (simp only: balance_loop.simps Let_def) (subst (1 2) Cons.IH, simp)
qed simp

definition row_delta :: "ReceiptRow \<Rightarrow> address \<Rightarrow> int" where
  "row_delta r a = (if toLowerCase (rr_payee r) = toLowerCase a then rr_amount r else 0) -
                   (if toLowerCase (rr_payer r) = toLowerCase a then rr_amount r else 0)"

lemma balanceDelta_rows: "balanceDelta rs a = (\<Sum>r \<leftarrow> rs. row_delta r a)"
proof (induction rs)
  case (Cons r rs)
  have "balanceDelta (r # rs) a = row_delta r a + balanceDelta rs a"
    unfolding balanceDelta_def balance_loop.simps Let_def eq_opt_Some row_delta_def
    by (subst balance_loop_acc) simp
  with Cons show ?case by simp
qed (simp add: balanceDelta_def)

lemma sum_list_swap: "(\<Sum>a \<leftarrow> as. \<Sum>r \<leftarrow> rs. f r a) = (\<Sum>r \<leftarrow> rs. \<Sum>a \<leftarrow> as. (f r a :: int))"
  by (induction as) (simp_all add: sum_list_addf)

lemma sum_list_single:
  "distinct (map g as) \<Longrightarrow> k \<in> g ` set as \<Longrightarrow> (\<Sum>a \<leftarrow> as. if k = g a then (x :: int) else 0) = x"
proof (induction as)
  case (Cons a as)
  show ?case
  proof (cases "k = g a")
    case True
    with Cons.prems have "map (\<lambda>b. if k = g b then x else 0) as = map (\<lambda>_. 0) as" by (intro map_cong) auto
    with True show ?thesis by (simp del: map_eq_conv)
  next
    case False
    with Cons show ?thesis by auto
  qed
qed simp

lemma sum_list_diff: "(\<Sum>a \<leftarrow> as. f a - (g a :: int)) = (\<Sum>a \<leftarrow> as. f a) - (\<Sum>a \<leftarrow> as. g a)"
  by (induction as) simp_all

text \<open>
  C34: Reconciliation conserves money. Take any receipts and any list of accounts, no two of them the same
  address, that contains the payer and payee of every receipt: the balance changes computed for the
  accounts add up to zero. Amounts move between the accounts; none is created or lost, self-payments and
  mixed-case addresses included.
\<close>

theorem receipts_conserve_money:
  assumes "distinct (map toLowerCase accounts)"
    and "\<And>r. r \<in> set rs \<Longrightarrow> {toLowerCase (rr_payer r), toLowerCase (rr_payee r)} \<subseteq> toLowerCase ` set accounts"
  shows "(\<Sum>a \<leftarrow> accounts. balanceDelta rs a) = 0"
proof -
  have "(\<Sum>a \<leftarrow> accounts. row_delta r a) = 0" if "r \<in> set rs" for r
    using assms(2) [OF that] by (simp add: row_delta_def sum_list_diff sum_list_single [OF assms(1)])
  then have "(\<Sum>r \<leftarrow> rs. \<Sum>a \<leftarrow> accounts. row_delta r a) = (\<Sum>r \<leftarrow> rs. 0)"
    by (intro arg_cong [where f = sum_list] map_cong) simp_all
  then show ?thesis unfolding balanceDelta_rows by (subst sum_list_swap) simp
qed

definition demo_receipt :: "address \<Rightarrow> address \<Rightarrow> int \<Rightarrow> hex option \<Rightarrow> ReceiptRow" where
  "demo_receipt p q x rf =
     \<lparr>rr_mandateId = ''0xm'', rr_payer = p, rr_payee = q, rr_asset = ''0xusd'', rr_amount = x, rr_settlementHash = ''0xt'',
      rr_at = 5, rr_orderHash = Some ''0xo'', rr_refunds = rf\<rparr>"

theorem receipts_conserve_money_witness:
  "(\<Sum>a \<leftarrow> [''0xa'', ''0xb'']. balanceDelta [demo_receipt ''0xA'' ''0xb'' 7 None, demo_receipt ''0xb'' ''0xB'' 3 None] a) = 0 \<and>
   balanceDelta [demo_receipt ''0xA'' ''0xb'' 7 None, demo_receipt ''0xb'' ''0xB'' 3 None] ''0xb'' = 7"
proof
  have l: "toLowerCase ''0xA'' = ''0xa''" "toLowerCase ''0xB'' = ''0xb''" "toLowerCase ''0xa'' = ''0xa''" "toLowerCase ''0xb'' = ''0xb''"
    by code_simp+
  show "(\<Sum>a \<leftarrow> [''0xa'', ''0xb'']. balanceDelta [demo_receipt ''0xA'' ''0xb'' 7 None, demo_receipt ''0xb'' ''0xB'' 3 None] a) = 0"
    by (rule receipts_conserve_money) (auto simp: demo_receipt_def l)
qed code_simp

text \<open>
  A refund is invisible to payment detection: adding a refund leg for an order never changes the answer, so
  an order that was refunded in full is still reported as paid.
\<close>

lemma refunds_leave_orders_paid:
  assumes "truthy (rr_refunds r)"
  shows "isOrderPaid (rs @ [r]) orderHash x = isOrderPaid rs orderHash x"
  using assms by (simp add: isOrderPaid_def)

text \<open>The export can be read back: cells without commas and line breaks survive splitting it up again.\<close>


lemma csv_row_lines: "CHR 0x0A \<notin> (\<Union>c \<in> set cs. set c) \<Longrightarrow> CHR 0x0A \<notin> set (join [CHR 0x2C] cs)"
  by (induction "[CHR 0x2C]" cs rule: join.induct) auto

lemma csv_reads_back:
  assumes "\<And>r c. r \<in> set rs \<Longrightarrow> c \<in> set (csv_cells r) \<Longrightarrow> set c \<inter> {CHR 0x2C, CHR 0x0A} = {}"
  shows "map (split_on CHR 0x2C) (tl (split_on CHR 0x0A (exportReceiptsCSV rs))) = map csv_cells rs"
proof -
  have "CHR 0x0A \<notin> set (join [CHR 0x2C] (csv_cells r))" if "r \<in> set rs" for r
    using assms [OF that] by (intro csv_row_lines) auto
  then have l: "split_on CHR 0x0A (exportReceiptsCSV rs) = csv_header # map (\<lambda>r. join [CHR 0x2C] (csv_cells r)) rs"
    unfolding exportReceiptsCSV_def by (intro split_on_join) (auto simp: csv_header_def)
  have "split_on CHR 0x2C (join [CHR 0x2C] (csv_cells r)) = csv_cells r" if "r \<in> set rs" for r
    using assms [OF that] by (intro split_on_join) (auto simp: csv_cells_def)
  with l show ?thesis by simp
qed

end
