(* ===== verification/PaymentAccess.thy ===== *)
theory PaymentAccess
  imports PaymentMandates
begin

section \<open>Payments: entitlements, vouchers, receipt credentials\<close>

text \<open>
  \<open>packages/payments/src/entitlement/index.ts\<close>, \<open>entitlement/voucher.ts\<close> and \<open>receipt.ts\<close>. A prepaid
  entitlement serves exactly as often as was paid for. A voucher that went through blinding, issuance and
  unblinding is accepted once when redemptions do not overlap; when they do, it is accepted twice.
\<close>

subsection \<open>Entitlements\<close>

text \<open>
  \<open>binding\<close> is a union of two literals, but records come from a store, and the check refuses any other
  text; it is kept as the string.
\<close>

record EntitlementRecord =
  en_entitlementId :: hex
  en_binding :: string
  en_scopeHash :: hex
  en_subject :: "address option"
  en_voucherId :: "hex option"
  en_ttl :: int
  en_maxUses :: int
  en_usesLeft :: int
  en_mandateId :: hex
  en_settlementHash :: hex

record MintEntitlementInput =
  mi_binding :: string
  mi_scopeHash :: hex
  mi_ttl :: int
  mi_maxUses :: int
  mi_mandateId :: hex
  mi_settlementHash :: hex
  mi_subject :: "address option"
  mi_voucherId :: "hex option"

record EntitlementContext =
  ec_scopeHash :: hex
  ec_now :: int
  ec_presenter :: "address option"
  ec_voucherId :: "hex option"

record ConsumptionReceipt =
  cr_entitlementId :: hex
  cr_scopeHash :: hex
  cr_usesLeftAfter :: int
  cr_at :: int

definition entitlementId :: "viem_lib \<Rightarrow> MintEntitlementInput \<Rightarrow> hex js" where
  "entitlementId vm a =
     keccak_abi vm [TString, TBytes32, TBytes32, TBytes32]
       [AText (mi_binding a), AHex (mi_scopeHash a),
        AHex (if mi_binding a = ''sa'' then keccak_text vm (case_option ''0x'' id (mi_subject a))
              else case_option ZERO_HASH id (mi_voucherId a)),
        AHex (mi_mandateId a)]"

definition mintEntitlementOnPayment :: "viem_lib \<Rightarrow> MintEntitlementInput \<Rightarrow> EntitlementRecord js" where
  "mintEntitlementOnPayment vm i =
     (if mi_binding i = ''sa'' \<and> \<not> truthy (mi_subject i) then Inl (Error ''[entitlement] 'sa' binding requires subject'')
      else if mi_binding i = ''bearer'' \<and> \<not> truthy (mi_voucherId i)
        then Inl (Error ''[entitlement] 'bearer' binding requires voucherId'')
      else if mi_maxUses i < 1 then Inl (Error ''[entitlement] maxUses must be >= 1'')
      else js_bind (entitlementId vm i) (\<lambda>eid. Inr
        \<lparr>en_entitlementId = eid, en_binding = mi_binding i, en_scopeHash = mi_scopeHash i,
         en_subject = mi_subject i, en_voucherId = mi_voucherId i, en_ttl = mi_ttl i,
         en_maxUses = mi_maxUses i, en_usesLeft = mi_maxUses i,
         en_mandateId = mi_mandateId i, en_settlementHash = mi_settlementHash i\<rparr>))"

text \<open>The input of \<open>mintCredits\<close> has no \<open>binding\<close> and no \<open>maxUses\<close>: they are set here whatever they were.\<close>

definition mintCredits :: "viem_lib \<Rightarrow> MintEntitlementInput \<Rightarrow> int \<Rightarrow> EntitlementRecord js" where
  "mintCredits vm i count = mintEntitlementOnPayment vm (i\<lparr>mi_binding := ''sa'', mi_maxUses := count\<rparr>)"

definition checkEntitlement :: "EntitlementRecord \<Rightarrow> EntitlementContext \<Rightarrow> string option" where
  "checkEntitlement r c =
     (if en_binding r \<noteq> ''sa'' \<and> en_binding r \<noteq> ''bearer'' then Some ''unknown entitlement binding''
      else if \<not> eq_ci (en_scopeHash r) (ec_scopeHash c) then Some ''scope mismatch''
      else if ec_now c \<ge> en_ttl r then Some ''entitlement expired''
      else if en_usesLeft r \<le> 0 then Some ''entitlement exhausted''
      else if en_binding r = ''sa'' then
        (if \<not> truthy (ec_presenter c) \<or> \<not> truthy (en_subject r) \<or> \<not> eq_ci (the (ec_presenter c)) (the (en_subject r))
         then Some ''presenter is not the entitlement subject'' else None)
      else
        (if \<not> truthy (ec_voucherId c) \<or> \<not> truthy (en_voucherId r) \<or> \<not> eq_ci (the (ec_voucherId c)) (the (en_voucherId r))
         then Some ''voucher mismatch'' else None))"

definition consumeEntitlement :: "EntitlementRecord \<Rightarrow> EntitlementContext \<Rightarrow> string + EntitlementRecord \<times> ConsumptionReceipt" where
  "consumeEntitlement r c =
     (case checkEntitlement r c of
        Some reason \<Rightarrow> Inl reason
      | None \<Rightarrow>
          (let updated = r\<lparr>en_usesLeft := en_usesLeft r - 1\<rparr>
           in Inr (updated, \<lparr>cr_entitlementId = en_entitlementId r, cr_scopeHash = en_scopeHash r,
                             cr_usesLeftAfter = en_usesLeft updated, cr_at = ec_now c\<rparr>)))"

definition scopeHashOf :: "viem_lib \<Rightarrow> string \<Rightarrow> hex" where
  "scopeHashOf vm scope = keccak_text vm (''entitlement-scope:'' @ scope)"

text \<open>Serving a sequence of requests, the application storing the record each consumption returns.\<close>

fun serve :: "EntitlementRecord \<Rightarrow> EntitlementContext list \<Rightarrow> ConsumptionReceipt option list \<times> EntitlementRecord" where
  "serve r [] = ([], r)"
| "serve r (c # cs) =
     (case consumeEntitlement r c of
        Inl _ \<Rightarrow> (case serve r cs of (out, r') \<Rightarrow> (None # out, r'))
      | Inr (r1, k) \<Rightarrow> (case serve r1 cs of (out, r') \<Rightarrow> (Some k # out, r')))"

definition served :: "ConsumptionReceipt option list \<Rightarrow> nat" where
  "served out = length (filter (\<lambda>x. x \<noteq> None) out)"

definition entitled :: "EntitlementRecord \<Rightarrow> EntitlementContext \<Rightarrow> bool" where
  "entitled r c \<longleftrightarrow>
     eq_ci (ec_scopeHash c) (en_scopeHash r) \<and> ec_now c < en_ttl r \<and>
     (if en_binding r = ''sa'' then truthy (ec_presenter c) \<and> truthy (en_subject r) \<and> eq_ci (the (ec_presenter c)) (the (en_subject r))
      else en_binding r = ''bearer'' \<and> truthy (ec_voucherId c) \<and> truthy (en_voucherId r) \<and>
           eq_ci (the (ec_voucherId c)) (the (en_voucherId r)))"

lemma checkEntitlement_iff: "checkEntitlement r c = None \<longleftrightarrow> entitled r c \<and> 0 < en_usesLeft r"
  by (auto simp: checkEntitlement_def entitled_def eq_ci_def)

lemma consume_iff:
  "consumeEntitlement r c = Inr (r', k) \<longleftrightarrow>
     entitled r c \<and> 0 < en_usesLeft r \<and> r' = r\<lparr>en_usesLeft := en_usesLeft r - 1\<rparr> \<and>
     k = \<lparr>cr_entitlementId = en_entitlementId r, cr_scopeHash = en_scopeHash r, cr_usesLeftAfter = en_usesLeft r - 1, cr_at = ec_now c\<rparr>"
  using checkEntitlement_iff [of r c] by (auto simp: consumeEntitlement_def Let_def split: option.splits)

lemma entitled_uses [simp]: "entitled (r\<lparr>en_usesLeft := n\<rparr>) c = entitled r c"
  by (simp add: entitled_def)

text \<open>The reference: of the entitled requests, the first so many are served, and no other.\<close>

fun first_entitled :: "(EntitlementContext \<Rightarrow> bool) \<Rightarrow> nat \<Rightarrow> EntitlementContext list \<Rightarrow> bool list" where
  "first_entitled P n [] = []"
| "first_entitled P n (c # cs) = (if P c \<and> 0 < n then True # first_entitled P (n - 1) cs else False # first_entitled P n cs)"

lemma serve_spec:
  "serve r cs = (out, r') \<Longrightarrow> 0 \<le> en_usesLeft r \<Longrightarrow>
   map (\<lambda>x. x \<noteq> None) out = first_entitled (entitled r) (nat (en_usesLeft r)) cs \<and>
   r' = r\<lparr>en_usesLeft := en_usesLeft r - int (served out)\<rparr> \<and>
   served out = min (length (filter (entitled r) cs)) (nat (en_usesLeft r))"
proof (induction cs arbitrary: r out)
  case (Cons c cs)
  show ?case
  proof (cases "entitled r c \<and> 0 < en_usesLeft r")
    case True
    then obtain k where "consumeEntitlement r c = Inr (r\<lparr>en_usesLeft := en_usesLeft r - 1\<rparr>, k)" by (simp add: consume_iff)
    then obtain o1 where o1: "serve (r\<lparr>en_usesLeft := en_usesLeft r - 1\<rparr>) cs = (o1, r')" "out = Some k # o1"
      using Cons.prems(1) by (auto split: prod.splits)
    then have out: "map (\<lambda>x. x \<noteq> None) out = True # map (\<lambda>x. x \<noteq> None) o1" "served out = Suc (served o1)"
      by (simp_all add: served_def)
    have e: "entitled (r\<lparr>en_usesLeft := en_usesLeft r - 1\<rparr>) = entitled r" by (rule ext) simp
    have n: "nat (en_usesLeft r - 1) = nat (en_usesLeft r) - 1" "0 < nat (en_usesLeft r)" using True by auto
    note ih = Cons.IH [OF o1(1), unfolded e]
    have "map (\<lambda>x. x \<noteq> None) o1 = first_entitled (entitled r) (nat (en_usesLeft r) - 1) cs"
      "r' = r\<lparr>en_usesLeft := en_usesLeft r - 1 - int (served o1)\<rparr>"
      "served o1 = min (length (filter (entitled r) cs)) (nat (en_usesLeft r) - 1)"
      using ih True by (simp_all add: n(1))
    moreover obtain m where "nat (en_usesLeft r) = Suc m" using n(2) gr0_conv_Suc by blast
    ultimately show ?thesis using True by (simp only: out) simp
  next
    case False
    then obtain x where x: "consumeEntitlement r c = Inl x" using consume_iff [of r c] by (cases "consumeEntitlement r c") auto
    then obtain o1 where o1: "serve r cs = (o1, r')" "out = None # o1"
      using Cons.prems(1) by (auto split: prod.splits)
    from False Cons.IH [OF o1(1) Cons.prems(2)] Cons.prems(2) show ?thesis by (auto simp: o1(2) served_def)
  qed
qed (simp add: served_def)

text \<open>
  An entitlement serves exactly what was paid for. Whatever requests are made against a record minted
  from a settled payment, the ones served are the first \<open>maxUses\<close> among those that are entitled (right
  scope, before the expiry, presented by the bound subject or with the bound voucher); none of the others
  is; and the uses left are what was bought less what was served, never negative.
\<close>

theorem entitlement_serves_what_was_paid:
  assumes "mintEntitlementOnPayment vm i = Inr r" and "serve r cs = (out, r')"
  shows "map (\<lambda>x. x \<noteq> None) out = first_entitled (entitled r) (nat (mi_maxUses i)) cs \<and>
         served out = min (length (filter (entitled r) cs)) (nat (mi_maxUses i)) \<and>
         en_usesLeft r' = mi_maxUses i - int (served out) \<and> 0 \<le> en_usesLeft r' \<and> 1 \<le> mi_maxUses i"
proof -
  have m: "en_usesLeft r = mi_maxUses i" "1 \<le> mi_maxUses i"
    using assms(1) by (auto simp: mintEntitlementOnPayment_def split: if_splits)
  with serve_spec [OF assms(2)] show ?thesis by auto
qed

subsection \<open>Blind vouchers\<close>

text \<open>
  The VOPRF and the byte conversions come from \<open>@noble/curves\<close> and \<open>@noble/hashes\<close>: parameters. Random
  values are arguments: \<open>blind\<close> takes the blinding factor it draws, and a fresh token is drawn by the caller.
\<close>

record voprf_lib =
  vp_hexToBytes :: "string \<Rightarrow> bytes js"
  vp_bytesToHex :: "bytes \<Rightarrow> string"
  vp_keccak :: "hex \<Rightarrow> hex js"
  vp_deriveKeyPair :: "bytes \<Rightarrow> bytes \<Rightarrow> (bytes \<times> bytes) js"
  vp_blind :: "bytes \<Rightarrow> bytes \<Rightarrow> (bytes \<times> bytes) js"
  vp_blindEvaluate :: "bytes \<Rightarrow> bytes \<Rightarrow> bytes \<Rightarrow> (bytes \<times> bytes) js"
  vp_finalize :: "bytes \<Rightarrow> bytes \<Rightarrow> bytes \<Rightarrow> bytes \<Rightarrow> bytes \<Rightarrow> bytes \<Rightarrow> bytes js"
  vp_evaluate :: "bytes \<Rightarrow> bytes \<Rightarrow> bytes js"

record VoucherIssuerKey =
  vk_secretKey :: hex
  vk_publicKey :: hex

record VoucherSecret =
  vs_tokenId :: hex
  vs_blind :: hex
  vs_blinded :: hex

record IssuedVoucher =
  iv_evaluated :: hex
  iv_proof :: hex

record Voucher =
  vo_voucherId :: hex
  vo_tokenId :: hex
  vo_output :: hex

definition hx :: "voprf_lib \<Rightarrow> bytes \<Rightarrow> hex" where
  "hx vp b = ''0x'' @ vp_bytesToHex vp b"

definition unhex :: "voprf_lib \<Rightarrow> hex \<Rightarrow> bytes js" where
  "unhex vp h = vp_hexToBytes vp (drop 2 h)"

definition generateVoucherIssuerKey :: "voprf_lib \<Rightarrow> bytes \<times> bytes \<Rightarrow> VoucherIssuerKey" where
  "generateVoucherIssuerKey vp kp = \<lparr>vk_secretKey = hx vp (fst kp), vk_publicKey = hx vp (snd kp)\<rparr>"

definition deriveVoucherIssuerKey :: "voprf_lib \<Rightarrow> hex \<Rightarrow> string option \<Rightarrow> VoucherIssuerKey js" where
  "deriveVoucherIssuerKey vp seed info =
     js_bind (unhex vp seed) (\<lambda>s.
     js_bind (vp_deriveKeyPair vp s (TextEncoder (case_option ''agentic-voucher-issuer'' id info))) (\<lambda>kp.
       Inr \<lparr>vk_secretKey = hx vp (fst kp), vk_publicKey = hx vp (snd kp)\<rparr>))"

definition voucherIdOf :: "voprf_lib \<Rightarrow> hex \<Rightarrow> hex js" where
  "voucherIdOf vp tokenId = vp_keccak vp tokenId"

definition blindVoucherRequest :: "voprf_lib \<Rightarrow> hex option \<Rightarrow> bytes \<Rightarrow> bytes \<Rightarrow> (hex \<times> VoucherSecret) js" where
  "blindVoucherRequest vp tokenId random_token random_blind =
     js_bind (if truthy tokenId then unhex vp (the tokenId) else Inr random_token) (\<lambda>tok.
     js_bind (vp_blind vp tok random_blind) (\<lambda>(blind, blinded).
       Inr (hx vp blinded, \<lparr>vs_tokenId = hx vp tok, vs_blind = hx vp blind, vs_blinded = hx vp blinded\<rparr>)))"

definition issueVoucher :: "voprf_lib \<Rightarrow> VoucherIssuerKey \<Rightarrow> hex \<Rightarrow> IssuedVoucher js" where
  "issueVoucher vp key blinded =
     js_bind (unhex vp (vk_secretKey key)) (\<lambda>sk.
     js_bind (unhex vp (vk_publicKey key)) (\<lambda>pk.
     js_bind (unhex vp blinded) (\<lambda>b.
     js_bind (vp_blindEvaluate vp sk pk b) (\<lambda>(evaluated, proof).
       Inr \<lparr>iv_evaluated = hx vp evaluated, iv_proof = hx vp proof\<rparr>))))"

fun issueVouchers :: "voprf_lib \<Rightarrow> VoucherIssuerKey \<Rightarrow> hex list \<Rightarrow> IssuedVoucher list js" where
  "issueVouchers vp key [] = Inr []"
| "issueVouchers vp key (r # rs) =
     js_bind (issueVoucher vp key r) (\<lambda>v. js_bind (issueVouchers vp key rs) (\<lambda>vs. Inr (v # vs)))"

definition unblindVoucher :: "voprf_lib \<Rightarrow> VoucherSecret \<Rightarrow> IssuedVoucher \<Rightarrow> hex \<Rightarrow> Voucher js" where
  "unblindVoucher vp secret issued issuerPublicKey =
     js_bind (unhex vp (vs_tokenId secret)) (\<lambda>tok.
     js_bind (unhex vp (vs_blind secret)) (\<lambda>blind.
     js_bind (unhex vp (iv_evaluated issued)) (\<lambda>evaluated.
     js_bind (unhex vp (vs_blinded secret)) (\<lambda>blinded.
     js_bind (unhex vp issuerPublicKey) (\<lambda>pk.
     js_bind (unhex vp (iv_proof issued)) (\<lambda>proof.
     js_bind (vp_finalize vp tok blind evaluated blinded pk proof) (\<lambda>out.
     js_bind (voucherIdOf vp (vs_tokenId secret)) (\<lambda>vid.
       Inr \<lparr>vo_voucherId = vid, vo_tokenId = vs_tokenId secret, vo_output = hx vp out\<rparr>))))))))"

definition ctEqual :: "bytes \<Rightarrow> bytes \<Rightarrow> bool" where
  "ctEqual a b = (if length a \<noteq> length b then False else ct_diff 0 a b = 0)"

definition verify_voucher_body :: "voprf_lib \<Rightarrow> VoucherIssuerKey \<Rightarrow> Voucher \<Rightarrow> string option js" where
  "verify_voucher_body vp key v =
     js_bind (voucherIdOf vp (vo_tokenId v)) (\<lambda>vid.
       if \<not> eq_ci (vo_voucherId v) vid then Inr (Some ''voucherId does not match tokenId'')
       else js_bind (unhex vp (vk_secretKey key)) (\<lambda>sk.
            js_bind (unhex vp (vo_tokenId v)) (\<lambda>tok.
            js_bind (vp_evaluate vp sk tok) (\<lambda>expected.
            js_bind (unhex vp (vo_output v)) (\<lambda>out.
              Inr (if ctEqual expected out then None else Some ''invalid voucher''))))))"

definition verifyVoucher :: "voprf_lib \<Rightarrow> VoucherIssuerKey \<Rightarrow> Voucher \<Rightarrow> string option" where
  "verifyVoucher vp key v = (case verify_voucher_body vp key v of Inl _ \<Rightarrow> Some ''malformed voucher'' | Inr r \<Rightarrow> r)"

definition spent_has :: "hex \<Rightarrow> string set \<Rightarrow> bool" where
  "spent_has vid spent \<longleftrightarrow> toLowerCase vid \<in> spent"

definition spent_add :: "hex \<Rightarrow> string set \<Rightarrow> string set" where
  "spent_add vid spent = insert (toLowerCase vid) spent"

text \<open>
  \<open>redeemVoucher\<close> awaits the answer of \<open>spent.has\<close>: it runs to that point, and what follows runs later.
  Without anything in between the two parts make up the whole call.
\<close>

definition redeem_check :: "voprf_lib \<Rightarrow> VoucherIssuerKey \<Rightarrow> Voucher \<Rightarrow> string set \<Rightarrow> string option" where
  "redeem_check vp key v spent =
     (case verifyVoucher vp key v of
        Some reason \<Rightarrow> Some reason
      | None \<Rightarrow> if spent_has (vo_voucherId v) spent then Some ''voucher already spent'' else None)"

definition redeem_commit :: "Voucher \<Rightarrow> string option \<Rightarrow> string set \<Rightarrow> string option \<times> string set" where
  "redeem_commit v checked spent =
     (case checked of Some reason \<Rightarrow> (Some reason, spent) | None \<Rightarrow> (None, spent_add (vo_voucherId v) spent))"

definition redeemVoucher :: "voprf_lib \<Rightarrow> VoucherIssuerKey \<Rightarrow> Voucher \<Rightarrow> string set \<Rightarrow> string option \<times> string set" where
  "redeemVoucher vp key v spent = redeem_commit v (redeem_check vp key v spent) spent"

fun redeem_all :: "voprf_lib \<Rightarrow> VoucherIssuerKey \<Rightarrow> Voucher list \<Rightarrow> string set \<Rightarrow> string option list \<times> string set" where
  "redeem_all vp key [] spent = ([], spent)"
| "redeem_all vp key (v # vs) spent =
     (case redeemVoucher vp key v spent of (r, s1) \<Rightarrow> (case redeem_all vp key vs s1 of (rs, s2) \<Rightarrow> (r # rs, s2)))"

lemma ctEqual_iff: "ctEqual a b \<longleftrightarrow> a = b"
  by (auto simp: ctEqual_def ct_diff_zero)

lemma redeemVoucher_simp:
  "redeemVoucher vp key v spent =
     (if verifyVoucher vp key v = None \<and> \<not> spent_has (vo_voucherId v) spent
      then (None, spent_add (vo_voucherId v) spent) else (redeem_check vp key v spent, spent))"
  by (auto simp: redeemVoucher_def redeem_check_def redeem_commit_def split: option.splits)

definition accepted_id :: "string \<Rightarrow> Voucher list \<Rightarrow> string option list \<Rightarrow> nat" where
  "accepted_id i vs rs = length (filter (\<lambda>(v, r). toLowerCase (vo_voucherId v) = i \<and> r = None) (zip vs rs))"

lemma accepted_id_simps [simp]:
  "accepted_id i [] rs = 0"
  "accepted_id i (v # vs) (r # rs) = (if toLowerCase (vo_voucherId v) = i \<and> r = None then 1 else 0) + accepted_id i vs rs"
  by (simp_all add: accepted_id_def)

lemma redeem_all_once:
  "redeem_all vp key vs spent = (rs, s) \<Longrightarrow>
   accepted_id i vs rs =
     (if i \<in> spent then 0
      else if \<exists>v \<in> set vs. toLowerCase (vo_voucherId v) = i \<and> verifyVoucher vp key v = None then 1 else 0)"
proof (induction vs arbitrary: spent rs)
  case (Cons v vs)
  obtain r s1 where r: "redeemVoucher vp key v spent = (r, s1)" by force
  obtain rs1 where rs: "redeem_all vp key vs s1 = (rs1, s)" "rs = r # rs1" using Cons.prems r by (auto split: prod.splits)
  have "r = None \<longleftrightarrow> verifyVoucher vp key v = None \<and> toLowerCase (vo_voucherId v) \<notin> spent"
    "s1 = (if r = None then insert (toLowerCase (vo_voucherId v)) spent else spent)"
    using r by (cases "verifyVoucher vp key v"; auto simp: redeemVoucher_simp redeem_check_def spent_has_def spent_add_def split: if_splits)+
  with Cons.IH [OF rs(1)] show ?case by (auto simp: rs(2) simp del: not_None_eq)
qed simp

lemma issued_verifies:
  assumes hex: "\<And>b. vp_hexToBytes vp (vp_bytesToHex vp b) = Inr b"
    and law: "\<And>tok r bl bd ev pf. vp_blind vp tok r = Inr (bl, bd) \<Longrightarrow> vp_blindEvaluate vp sk pk bd = Inr (ev, pf) \<Longrightarrow>
                vp_finalize vp tok bl ev bd pk pf = vp_evaluate vp sk tok"
    and key: "key = generateVoucherIssuerKey vp (sk, pk)"
    and steps: "blindVoucherRequest vp t rt rb = Inr (request, secret)" "issueVoucher vp key request = Inr issued"
      "unblindVoucher vp secret issued (vk_publicKey key) = Inr v"
  shows "verifyVoucher vp key v = None"
proof -
  have u [simp]: "unhex vp (hx vp b) = Inr b" for b by (simp add: unhex_def hx_def hex)
  from steps(1) obtain tok bl bd where b: "vp_blind vp tok rb = Inr (bl, bd)" "request = hx vp bd"
    "secret = \<lparr>vs_tokenId = hx vp tok, vs_blind = hx vp bl, vs_blinded = hx vp bd\<rparr>"
    by (auto simp: blindVoucherRequest_def split: if_splits)
  from steps(2) b(2) key obtain ev pf where e: "vp_blindEvaluate vp sk pk bd = Inr (ev, pf)"
    "issued = \<lparr>iv_evaluated = hx vp ev, iv_proof = hx vp pf\<rparr>" by (auto simp: issueVoucher_def generateVoucherIssuerKey_def)
  from steps(3) b(3) e(2) key obtain out vid where o: "vp_finalize vp tok bl ev bd pk pf = Inr out"
    "voucherIdOf vp (hx vp tok) = Inr vid" "v = \<lparr>vo_voucherId = vid, vo_tokenId = hx vp tok, vo_output = hx vp out\<rparr>"
    by (auto simp: unblindVoucher_def generateVoucherIssuerKey_def)
  with law [OF b(1) e(1)] have "vp_evaluate vp sk tok = Inr out" by simp
  with o key show ?thesis by (simp add: verifyVoucher_def verify_voucher_body_def generateVoucherIssuerKey_def ctEqual_iff)
qed

text \<open>
  C28: A paid-for voucher redeems exactly once. A voucher obtained by blinding a token, having the issuer
  evaluate it and unblinding the answer is accepted once in any sequence of redemptions that presents it,
  however often it or another voucher with its id is presented; forged vouchers under the same id neither
  count nor use it up. The VOPRF is assumed to be correct (RFC 9497: finalizing a blind evaluation gives the
  evaluation), the hex conversion to be reversible, and redemptions not to overlap.
\<close>

theorem issued_voucher_redeems_exactly_once:
  assumes "\<And>b. vp_hexToBytes vp (vp_bytesToHex vp b) = Inr b"
    and "\<And>tok r bl bd ev pf. vp_blind vp tok r = Inr (bl, bd) \<Longrightarrow> vp_blindEvaluate vp sk pk bd = Inr (ev, pf) \<Longrightarrow>
           vp_finalize vp tok bl ev bd pk pf = vp_evaluate vp sk tok"
    and "key = generateVoucherIssuerKey vp (sk, pk)"
    and "blindVoucherRequest vp t rt rb = Inr (request, secret)" "issueVoucher vp key request = Inr issued"
      "unblindVoucher vp secret issued (vk_publicKey key) = Inr v"
    and "v \<in> set vs" "redeem_all vp key vs {} = (rs, spent)"
  shows "accepted_id (toLowerCase (vo_voucherId v)) vs rs = 1"
  using redeem_all_once [OF assms(8)] issued_verifies [OF assms(1-6)] assms(7) by auto

text \<open>
  Overlapping redemptions spend a voucher twice. When a second redemption of a valid voucher is checked
  before the first has recorded it (the code awaits the spent set between the two), both are accepted,
  although the module promises one use.
\<close>

theorem overlapping_redemptions_double_spend:
  assumes "verifyVoucher vp key v = None" and "\<not> spent_has (vo_voucherId v) spent"
  shows "let first = redeem_check vp key v spent; second = redeem_check vp key v spent;
             (r1, s1) = redeem_commit v first spent; (r2, s2) = redeem_commit v second s1
         in r1 = None \<and> r2 = None \<and> s2 = spent_add (vo_voucherId v) spent"
  using assms by (simp add: redeem_check_def redeem_commit_def spent_add_def)

text \<open>A VOPRF that meets the law without hiding anything, and a codec for the witnesses.\<close>

definition toy_voprf :: voprf_lib where
  "toy_voprf = \<lparr>vp_hexToBytes = \<lambda>s. Inr (pair_bytes s), vp_bytesToHex = bytes_hex, vp_keccak = Inr,
     vp_deriveKeyPair = \<lambda>s i. Inr (s, i), vp_blind = \<lambda>t r. Inr (r, r @ t),
     vp_blindEvaluate = \<lambda>sk pk b. Inr (sk @ b, [1]),
     vp_finalize = \<lambda>t bl ev bd pk pf. Inr (take (length ev - length bd) ev @ t), vp_evaluate = \<lambda>sk t. Inr (sk @ t)\<rparr>"

definition toy_voucher :: Voucher where
  "toy_voucher = \<lparr>vo_voucherId = ''0x0a'', vo_tokenId = ''0x0a'', vo_output = ''0x070a''\<rparr>"

theorem issued_voucher_redeems_exactly_once_witness:
  "accepted_id ''0x0a'' [toy_voucher\<lparr>vo_output := ''0x00''\<rparr>, toy_voucher, toy_voucher]
     (fst (redeem_all toy_voprf \<lparr>vk_secretKey = ''0x07'', vk_publicKey = ''0x08''\<rparr> [toy_voucher\<lparr>vo_output := ''0x00''\<rparr>, toy_voucher, toy_voucher] {})) = 1"
proof -
  let ?vs = "[toy_voucher\<lparr>vo_output := ''0x00''\<rparr>, toy_voucher, toy_voucher]"
  let ?key = "\<lparr>vk_secretKey = ''0x07'', vk_publicKey = ''0x08''\<rparr>"
  obtain rs spent where r: "redeem_all toy_voprf ?key ?vs {} = (rs, spent)" by force
  have k: "?key = generateVoucherIssuerKey toy_voprf ([7], [8])" by code_simp
  have b: "blindVoucherRequest toy_voprf None [10] [3] = Inr (''0x030a'', \<lparr>vs_tokenId = ''0x0a'', vs_blind = ''0x03'', vs_blinded = ''0x030a''\<rparr>)"
    by code_simp
  have i: "issueVoucher toy_voprf ?key ''0x030a'' = Inr \<lparr>iv_evaluated = ''0x07030a'', iv_proof = ''0x01''\<rparr>" by code_simp
  have u: "unblindVoucher toy_voprf \<lparr>vs_tokenId = ''0x0a'', vs_blind = ''0x03'', vs_blinded = ''0x030a''\<rparr> \<lparr>iv_evaluated = ''0x07030a'', iv_proof = ''0x01''\<rparr> (vk_publicKey ?key) = Inr toy_voucher"
    by code_simp
  have "accepted_id (toLowerCase (vo_voucherId toy_voucher)) ?vs rs = 1"
    by (rule issued_voucher_redeems_exactly_once [OF _ _ k b i u _ r]) (auto simp: toy_voprf_def)
  moreover have "toLowerCase (vo_voucherId toy_voucher) = ''0x0a''" by code_simp
  ultimately show ?thesis unfolding r fst_conv by (simp only:)
qed

theorem overlapping_redemptions_double_spend_witness:
  "fst (redeem_commit toy_voucher (redeem_check toy_voprf \<lparr>vk_secretKey = ''0x07'', vk_publicKey = ''0x08''\<rparr> toy_voucher {})
     (snd (redeem_commit toy_voucher (redeem_check toy_voprf \<lparr>vk_secretKey = ''0x07'', vk_publicKey = ''0x08''\<rparr> toy_voucher {}) {}))) = None"
proof -
  have "verifyVoucher toy_voprf \<lparr>vk_secretKey = ''0x07'', vk_publicKey = ''0x08''\<rparr> toy_voucher = None" by code_simp
  from overlapping_redemptions_double_spend [OF this, of "{}"] show ?thesis by (simp add: spent_has_def Let_def split: prod.splits)
qed

definition demo_mint :: MintEntitlementInput where
  "demo_mint = \<lparr>mi_binding = ''sa'', mi_scopeHash = ''0xs'', mi_ttl = 100, mi_maxUses = 2, mi_mandateId = ''0xm'',
     mi_settlementHash = ''0xt'', mi_subject = Some ''0xa'', mi_voucherId = None\<rparr>"

definition demo_use :: "address \<Rightarrow> int \<Rightarrow> EntitlementContext" where
  "demo_use a t = \<lparr>ec_scopeHash = ''0xs'', ec_now = t, ec_presenter = Some a, ec_voucherId = None\<rparr>"

definition toy_viem :: viem_lib where
  "toy_viem =
     \<lparr>vm_codec = \<lparr>encodeAbiParameters = \<lambda>ts vs. Inr ''0xe'', decodeAbiParameters = \<lambda>ts h. Inr [], keccak256 = id, keccak_256 = id,
                  hashTypedData = \<lambda>d t p m. Inr ''0xd''\<rparr>,
      vm_toBytes = TextEncoder, vm_keccakBytes = \<lambda>b. ''0x'' @ bytes_hex b, vm_errorText = \<lambda>_. ''error''\<rparr>"

theorem entitlement_serves_what_was_paid_witness:
  "\<exists>r. mintEntitlementOnPayment toy_viem demo_mint = Inr r \<and>
     map (\<lambda>x. x \<noteq> None) (fst (serve r [demo_use ''0xa'' 1, demo_use ''0xb'' 2, demo_use ''0xA'' 3, demo_use ''0xa'' 4])) =
       [True, False, True, False]"
proof -
  let ?cs = "[demo_use ''0xa'' 1, demo_use ''0xb'' 2, demo_use ''0xA'' 3, demo_use ''0xa'' 4]"
  let ?r = "\<lparr>en_entitlementId = ''0xe'', en_binding = ''sa'', en_scopeHash = ''0xs'', en_subject = Some ''0xa'', en_voucherId = None,
    en_ttl = 100, en_maxUses = 2, en_usesLeft = 2, en_mandateId = ''0xm'', en_settlementHash = ''0xt''\<rparr>"
  have m: "mintEntitlementOnPayment toy_viem demo_mint = Inr ?r" by code_simp
  obtain out r' where s: "serve ?r ?cs = (out, r')" by force
  have "map (\<lambda>x. x \<noteq> None) out = first_entitled (entitled ?r) (nat (mi_maxUses demo_mint)) ?cs"
    using entitlement_serves_what_was_paid [OF m s] by blast
  moreover have "first_entitled (entitled ?r) (nat (mi_maxUses demo_mint)) ?cs = [True, False, True, False]" by code_simp
  ultimately have "map (\<lambda>x. x \<noteq> None) (fst (serve ?r ?cs)) = [True, False, True, False]" unfolding s fst_conv by (simp only:)
  with m show ?thesis by (intro exI [of _ ?r] conjI)
qed

subsection \<open>Receipt credentials\<close>

text \<open>
  \<open>Date.parse\<close> is the platform's: a parameter giving milliseconds, or nothing for \<open>NaN\<close>, which then runs
  through the arithmetic. The credential is unsigned; its subject names the payer and carries the context
  only as a hash.
\<close>

record receipt_subject =
  rs_id :: address
  rs_mandateId :: hex
  rs_rail :: PaymentRail
  rs_payee :: address
  rs_amount :: string
  rs_asset :: address
  rs_chain :: int
  rs_orderHash :: "hex option"
  rs_legId :: "hex option"
  rs_contextBindingHash :: hex
  rs_settlementHash :: hex
  rs_settlementEpochBucket :: "int option"
  rs_refunds :: "hex option"

record receipt_credential =
  rc_context :: "string list"
  rc_type :: "string list"
  rc_issuer :: address
  rc_validFrom :: string
  rc_credentialSubject :: receipt_subject

record PaymentReceiptInput =
  ri_mandate :: PaymentMandate
  ri_issuer :: address
  ri_settlementHash :: hex
  ri_settledAt :: string
  ri_refundsMandateId :: "hex option"

definition settlementEpochBucket :: "int option \<Rightarrow> int option" where
  "settlementEpochBucket settledAtSeconds = map_option (\<lambda>s. s div 86400) settledAtSeconds"

definition buildPaymentReceiptCredential :: "viem_lib \<Rightarrow> (string \<Rightarrow> int option) \<Rightarrow> PaymentReceiptInput \<Rightarrow> receipt_credential js" where
  "buildPaymentReceiptCredential vm dateParse i =
     (let m = ri_mandate i; cb = mn_contextBinding m;
          settledSeconds = map_option (\<lambda>ms. ms div 1000) (dateParse (ri_settledAt i))
      in js_bind (hashContextBinding vm cb) (\<lambda>cbh. Inr
           \<lparr>rc_context = [''https://www.w3.org/ns/credentials/v2''],
            rc_type = [''VerifiableCredential'', ''PaymentReceipt''],
            rc_issuer = ri_issuer i, rc_validFrom = ri_settledAt i,
            rc_credentialSubject =
              \<lparr>rs_id = mn_payer m, rs_mandateId = mn_mandateId m, rs_rail = mn_rail m, rs_payee = mn_payee m,
               rs_amount = int_str (mandateAmount m), rs_asset = as_id (ap_asset (mn_amountPolicy m)),
               rs_chain = cb_chain cb, rs_orderHash = cb_orderHash cb, rs_legId = cb_legId cb,
               rs_contextBindingHash = cbh, rs_settlementHash = ri_settlementHash i,
               rs_settlementEpochBucket = settlementEpochBucket settledSeconds,
               rs_refunds = (if truthy (ri_refundsMandateId i) then ri_refundsMandateId i else None)\<rparr>\<rparr>))"

text \<open>
  The bucket keeps only the day, but the credential carries the full settlement time beside it: two
  receipts whose buckets agree still differ in \<open>validFrom\<close> when the times differ, so the coarsening
  protects nothing within the credential.
\<close>

lemma bucket_is_the_day: "settlementEpochBucket (Some s) = Some d \<longleftrightarrow> d * 86400 \<le> s \<and> s < (d + 1) * 86400"
  by (auto simp: settlementEpochBucket_def)

lemma receipt_time_is_exact:
  "buildPaymentReceiptCredential vm dp i = Inr c \<Longrightarrow> rc_validFrom c = ri_settledAt i"
  by (auto simp: buildPaymentReceiptCredential_def Let_def)

end
