(* ===== verification/Merkle.thy ===== *)
theory Merkle
  imports Viem
begin

section \<open>Content: Merkle commitments\<close>

text \<open>
  \<open>packages/content-primitives/src/merkle.ts\<close>: a Merkle tree over descriptor commitments with sorted
  pairs. An odd node of a layer is promoted unchanged, and contributes no sibling to a proof. The theory
  shows that the proof of every leaf folds to the root, and that a commitment whose proof folds to the
  root is one of those committed to, as long as the hashes computed on the way do not collide and the
  siblings are 32-byte hashes. The verifier does not check the latter, which leaves a gap.
\<close>

subsection \<open>The tree\<close>

definition concatHex :: "hex list \<Rightarrow> hex" where
  "concatHex hs = ''0x'' @ concat (map strip0x hs)"

definition sortPair :: "hex \<Rightarrow> hex \<Rightarrow> hex \<times> hex" where
  "sortPair a b = (if toLowerCase a \<le> toLowerCase b then (a, b) else (b, a))"

definition hashPair :: "viem_lib \<Rightarrow> hex \<Rightarrow> hex \<Rightarrow> hex" where
  "hashPair vm a b = (case sortPair a b of (lo, hi) \<Rightarrow> keccak_text vm (concatHex [lo, hi]))"

definition leafHash :: "viem_lib \<Rightarrow> hex \<Rightarrow> hex" where
  "leafHash vm descriptorCommitment = keccak_text vm (keccak_text vm descriptorCommitment)"

record CorpusTree =
  ct_root :: hex
  ct_layers :: "hex list list"

text \<open>The inner loop of the builder, and the loop over the layers.\<close>

fun next_layer :: "viem_lib \<Rightarrow> hex list \<Rightarrow> hex list" where
  "next_layer vm (a # b # rest) = hashPair vm a b # next_layer vm rest"
| "next_layer vm prev = prev"

lemma length_next_layer [simp]: "length (next_layer vm prev) = (length prev + 1) div 2"
  by (induction vm prev rule: next_layer.induct) auto

function tree_layers :: "viem_lib \<Rightarrow> hex list \<Rightarrow> hex list list" where
  "tree_layers vm prev = (if length prev > 1 then prev # tree_layers vm (next_layer vm prev) else [prev])"
  by auto
termination
  by (relation "measure (length \<circ> snd)") auto

declare tree_layers.simps [simp del]

definition buildCorpusTree :: "viem_lib \<Rightarrow> hex list \<Rightarrow> CorpusTree" where
  "buildCorpusTree vm leaves =
     (if leaves = [] then \<lparr>ct_root = ZERO_HASH, ct_layers = [[]]\<rparr>
      else (let layers = tree_layers vm leaves in \<lparr>ct_root = hd (last layers), ct_layers = layers\<rparr>))"

definition merkleRoot :: "viem_lib \<Rightarrow> hex list \<Rightarrow> hex" where
  "merkleRoot vm leaves = ct_root (buildCorpusTree vm leaves)"

fun proof_path :: "hex list list \<Rightarrow> nat \<Rightarrow> hex list" where
  "proof_path (nodes # upper # rest) idx =
     (let siblingIdx = (if idx mod 2 = 1 then idx - 1 else idx + 1);
          path = proof_path (upper # rest) (idx div 2)
      in if siblingIdx < length nodes then nodes ! siblingIdx # path else path)"
| "proof_path _ idx = []"

definition merkleProof :: "CorpusTree \<Rightarrow> nat \<Rightarrow> hex list" where
  "merkleProof tree index = proof_path (ct_layers tree) index"

definition verifyInclusion :: "viem_lib \<Rightarrow> hex \<Rightarrow> hex list \<Rightarrow> hex \<Rightarrow> bool" where
  "verifyInclusion vm leaf proof root \<longleftrightarrow> eq_ci (foldl (hashPair vm) leaf proof) root"

subsection \<open>Every leaf has a proof\<close>

lemma hashPair_comm:
  assumes "toLowerCase a = a" and "toLowerCase b = b"
  shows "hashPair vm a b = hashPair vm b a"
  using assms by (auto simp: hashPair_def sortPair_def)

lemma next_layer_nth:
  "i < length prev \<Longrightarrow>
   next_layer vm prev ! (i div 2) =
     (if i mod 2 = 1 then hashPair vm (prev ! (i - 1)) (prev ! i)
      else if i + 1 < length prev then hashPair vm (prev ! i) (prev ! (i + 1)) else prev ! i)"
proof (induction vm prev arbitrary: i rule: next_layer.induct)
  case (1 vm a b rest)
  show ?case
  proof (cases "i < 2")
    case True
    then have "i = 0 \<or> i = 1" by linarith
    then show ?thesis by auto
  next
    case False
    then obtain j where i: "i = Suc (Suc j)" by (metis add_2_eq_Suc le_Suc_ex not_less)
    with 1 have "j < length rest" by simp
    from "1.IH" [OF this] show ?thesis
      by (cases "j mod 2 = 1"; cases j) (auto simp: i)
  qed
qed auto

lemma tree_layers_Nil [simp]: "tree_layers vm prev \<noteq> []"
  by (subst tree_layers.simps) simp

lemma hashPair_lower:
  "(\<And>b. toLowerCase (vm_keccakBytes vm b) = vm_keccakBytes vm b) \<Longrightarrow> toLowerCase (hashPair vm a b) = hashPair vm a b"
  by (simp add: hashPair_def keccak_text_def split: prod.split)

lemma set_next_layer: "set (next_layer vm prev) \<subseteq> set prev \<union> {hashPair vm a b |a b. a \<in> set prev \<and> b \<in> set prev}"
proof (induction vm prev rule: next_layer.induct)
  case (1 vm a b rest)
  then show ?case by fastforce
qed auto

lemma tree_layers_single: "\<not> length prev > 1 \<Longrightarrow> tree_layers vm prev = [prev]"
  by (subst tree_layers.simps) simp

lemma tree_layers_more: "length prev > 1 \<Longrightarrow> tree_layers vm prev = prev # tree_layers vm (next_layer vm prev)"
  by (subst tree_layers.simps) simp

lemma proof_path_fold:
  assumes "i < length prev" and "\<And>a. a \<in> set prev \<Longrightarrow> toLowerCase a = a" and "\<And>b. toLowerCase (vm_keccakBytes vm b) = vm_keccakBytes vm b"
  shows "foldl (hashPair vm) (prev ! i) (proof_path (tree_layers vm prev) i) = hd (last (tree_layers vm prev))"
  using assms
proof (induction vm prev arbitrary: i rule: tree_layers.induct)
  case (1 vm prev)
  show ?case
  proof (cases "length prev > 1")
    case False
    with "1.prems"(1) have "i = 0" "length prev = 1" by linarith+
    then show ?thesis by (cases prev) (simp_all add: tree_layers_single)
  next
    case True
    let ?next = "next_layer vm prev" and ?j = "i div 2"
    have lower: "toLowerCase a = a" if "a \<in> set ?next" for a
    proof -
      from that set_next_layer [of vm prev] consider "a \<in> set prev" | b c where "a = hashPair vm b c" by blast
      then show ?thesis by cases (metis "1.prems"(2), metis hashPair_lower [OF "1.prems"(3)])
    qed
    have j: "?j < length ?next" using "1.prems"(1) by auto
    obtain upper rest where l: "tree_layers vm ?next = upper # rest" by (metis tree_layers_Nil list.exhaust)
    have u: "tree_layers vm prev = prev # tree_layers vm ?next" by (rule tree_layers_more [OF True])
    have "foldl (hashPair vm) (prev ! i) (proof_path (tree_layers vm prev) i) =
        foldl (hashPair vm) (?next ! ?j) (proof_path (tree_layers vm ?next) ?j)"
    proof (cases "i mod 2 = 1")
      case odd: True
      then have "i - 1 < length prev" using "1.prems"(1) by linarith
      moreover have "hashPair vm (prev ! i) (prev ! (i - 1)) = hashPair vm (prev ! (i - 1)) (prev ! i)"
        using "1.prems" calculation by (intro hashPair_comm) auto
      ultimately show ?thesis using odd next_layer_nth [OF "1.prems"(1), of vm] by (simp add: u l Let_def)
    next
      case False
      then show ?thesis using next_layer_nth [OF "1.prems"(1), of vm] by (auto simp: u l Let_def)
    qed
    with "1.IH" [OF True j lower "1.prems"(3)] show ?thesis by (simp add: u)
  qed
qed

subsection \<open>What the hash library guarantees\<close>

text \<open>
  \<open>keccak256\<close> returns 32 bytes as lower-case hex, \<open>toBytes\<close> reads a 0x-string of hex digits of either
  case. \<open>node_bytes\<close> are the bytes a node stands for.
\<close>

definition keccak_law :: "viem_lib \<Rightarrow> (bytes \<Rightarrow> bytes) \<Rightarrow> bool" where
  "keccak_law vm digest \<longleftrightarrow>
     (\<forall>b. vm_keccakBytes vm b = ''0x'' @ bytes_hex (digest b) \<and> length (digest b) = 32) \<and>
     (\<forall>t b. toLowerCase t = bytes_hex b \<longrightarrow> vm_toBytes vm (''0x'' @ t) = b)"

definition node_bytes :: "hex \<Rightarrow> bytes" where
  "node_bytes s = pair_bytes (toLowerCase (drop 2 s))"

definition hash32 :: "hex \<Rightarrow> bool" where
  "hash32 s \<longleftrightarrow> startsWith s ''0x'' \<and> length (node_bytes s) = 32 \<and> toLowerCase (drop 2 s) = bytes_hex (node_bytes s)"

lemma lower_0x [simp]: "toLowerCase (CHR ''0'' # CHR ''x'' # t) = CHR ''0'' # CHR ''x'' # toLowerCase t"
  by (simp add: toLowerCase_def lower_char_def)

lemma startsWith_0x [simp]: "startsWith (CHR ''0'' # CHR ''x'' # t) ''0x''"
  by (simp add: startsWith_def)

lemma keccak_hash32:
  assumes "keccak_law vm digest"
  shows "hash32 (vm_keccakBytes vm b)" and "node_bytes (vm_keccakBytes vm b) = digest b"
    and "toLowerCase (vm_keccakBytes vm b) = vm_keccakBytes vm b"
  using assms by (simp_all add: keccak_law_def hash32_def node_bytes_def)

lemma lower_node:
  "hash32 s \<Longrightarrow> toLowerCase s = s \<Longrightarrow> s = ''0x'' @ bytes_hex (node_bytes s)"
proof -
  assume h: "hash32 s" and l: "toLowerCase s = s"
  from h obtain t where s: "s = ''0x'' @ t"
    by (metis append_take_drop_id hash32_def length_Cons list.size(3) numeral_2_eq_2 startsWith_def)
  with l have "toLowerCase t = t" by simp
  with h show ?thesis by (simp add: hash32_def s)
qed

subsection \<open>Only committed leaves have a proof\<close>

text \<open>The inputs hashed while a tree is built and while a proof is folded.\<close>

definition pair_input :: "viem_lib \<Rightarrow> hex \<Rightarrow> hex \<Rightarrow> bytes" where
  "pair_input vm a b = (case sortPair a b of (lo, hi) \<Rightarrow> vm_toBytes vm (concatHex [lo, hi]))"

definition leaf_inputs :: "viem_lib \<Rightarrow> hex \<Rightarrow> bytes list" where
  "leaf_inputs vm c = [vm_toBytes vm c, vm_toBytes vm (keccak_text vm c)]"

fun layer_inputs :: "viem_lib \<Rightarrow> hex list \<Rightarrow> bytes list" where
  "layer_inputs vm (a # b # rest) = pair_input vm a b # layer_inputs vm rest"
| "layer_inputs vm prev = []"

definition tree_inputs :: "viem_lib \<Rightarrow> hex list \<Rightarrow> bytes list" where
  "tree_inputs vm cs =
     concat (map (leaf_inputs vm) cs) @ concat (map (layer_inputs vm) (ct_layers (buildCorpusTree vm (map (leafHash vm) cs))))"

fun fold_inputs :: "viem_lib \<Rightarrow> hex \<Rightarrow> hex list \<Rightarrow> bytes list" where
  "fold_inputs vm h (s # proof) = pair_input vm h s # fold_inputs vm (hashPair vm h s) proof"
| "fold_inputs vm h [] = []"

lemma hashPair_input: "hashPair vm a b = vm_keccakBytes vm (pair_input vm a b)"
  by (simp add: hashPair_def pair_input_def keccak_text_def split: prod.split)

lemma pair_input_bytes:
  assumes "keccak_law vm digest" and "hash32 a" and "hash32 b"
  shows "pair_input vm a b = (case sortPair a b of (lo, hi) \<Rightarrow> node_bytes lo @ node_bytes hi)"
proof -
  have "vm_toBytes vm (concatHex [x, y]) = node_bytes x @ node_bytes y" if "hash32 x" "hash32 y" for x y
  proof -
    from that have "toLowerCase (drop 2 x @ drop 2 y) = bytes_hex (node_bytes x @ node_bytes y)"
      by (simp add: hash32_def bytes_hex_def)
    with assms(1) have "vm_toBytes vm (''0x'' @ drop 2 x @ drop 2 y) = node_bytes x @ node_bytes y"
      unfolding keccak_law_def by blast
    with that show ?thesis by (simp add: concatHex_def strip0x_def hash32_def)
  qed
  with assms(2,3) show ?thesis by (simp add: pair_input_def sortPair_def)
qed

lemma pair_input_length:
  "keccak_law vm digest \<Longrightarrow> hash32 a \<Longrightarrow> hash32 b \<Longrightarrow> length (pair_input vm a b) = 64"
  by (simp add: pair_input_bytes sortPair_def) (simp add: hash32_def)

lemma pair_input_inj:
  assumes "keccak_law vm digest" and "hash32 a" "hash32 b" "hash32 c" "hash32 d"
    and "pair_input vm a b = pair_input vm c d"
  shows "node_bytes a \<in> {node_bytes c, node_bytes d}"
  using assms by (auto simp: pair_input_bytes sortPair_def hash32_def split: if_splits)

lemma set_next_layer_cases:
  assumes "a \<in> set (next_layer vm prev)"
  shows "a \<in> set prev \<or> (\<exists>b c. a = hashPair vm b c \<and> b \<in> set prev \<and> c \<in> set prev \<and> pair_input vm b c \<in> set (layer_inputs vm prev))"
  using assms by (induction vm prev rule: next_layer.induct) fastforce+

lemma tree_node_cases:
  "layer \<in> set (tree_layers vm prev) \<Longrightarrow> a \<in> set layer \<Longrightarrow>
   a \<in> set prev \<or> (\<exists>b c. a = hashPair vm b c \<and> (\<exists>l\<in>set (tree_layers vm prev). b \<in> set l) \<and> (\<exists>l\<in>set (tree_layers vm prev). c \<in> set l) \<and>
     pair_input vm b c \<in> set (concat (map (layer_inputs vm) (tree_layers vm prev))))"
proof (induction vm prev arbitrary: layer a rule: tree_layers.induct)
  case (1 vm prev)
  show ?case
  proof (cases "length prev > 1")
    case False
    then show ?thesis using "1.prems" by (simp add: tree_layers_single)
  next
    case True
    note more = tree_layers_more [OF True, of vm]
    from "1.prems" consider "a \<in> set prev" | "layer \<in> set (tree_layers vm (next_layer vm prev))"
      by (auto simp: more)
    then show ?thesis
    proof cases
      case 2
      from "1.IH" [OF True 2 "1.prems"(2)] set_next_layer_cases [of a vm prev] show ?thesis
        unfolding more by auto
    qed simp
  qed
qed

lemma digest_eq:
  "keccak_law vm digest \<Longrightarrow> vm_keccakBytes vm a = vm_keccakBytes vm b \<longleftrightarrow> digest a = digest b"
  by (simp add: keccak_law_def)

lemma leafHash_input: "leafHash vm c = vm_keccakBytes vm (vm_toBytes vm (keccak_text vm c))"
  by (simp add: leafHash_def keccak_text_def)

lemma keccak_text_bytes:
  assumes "keccak_law vm digest"
  shows "vm_toBytes vm (keccak_text vm c) = digest (vm_toBytes vm c)"
proof -
  have "toLowerCase (bytes_hex (digest (vm_toBytes vm c))) = bytes_hex (digest (vm_toBytes vm c))" by simp
  with assms have "vm_toBytes vm (''0x'' @ bytes_hex (digest (vm_toBytes vm c))) = digest (vm_toBytes vm c)"
    unfolding keccak_law_def by blast
  with assms show ?thesis by (simp add: keccak_text_def keccak_law_def)
qed

definition tree_nodes :: "viem_lib \<Rightarrow> hex list \<Rightarrow> hex set" where
  "tree_nodes vm cs = \<Union> (set ` set (tree_layers vm (map (leafHash vm) cs)))"

lemma tree_nodes_cases:
  assumes "a \<in> tree_nodes vm cs" and "cs \<noteq> []"
  obtains c where "c \<in> set cs" and "a = leafHash vm c"
  | b c where "a = hashPair vm b c" and "b \<in> tree_nodes vm cs" and "c \<in> tree_nodes vm cs"
      and "pair_input vm b c \<in> set (tree_inputs vm cs)"
proof -
  from assms(1) obtain layer where l: "layer \<in> set (tree_layers vm (map (leafHash vm) cs))" "a \<in> set layer"
    by (auto simp: tree_nodes_def)
  have inputs: "set (concat (map (layer_inputs vm) (tree_layers vm (map (leafHash vm) cs)))) \<subseteq> set (tree_inputs vm cs)"
    using assms(2) by (auto simp: tree_inputs_def buildCorpusTree_def Let_def)
  from tree_node_cases [OF l] consider "a \<in> leafHash vm ` set cs" | b c where "a = hashPair vm b c"
    "b \<in> tree_nodes vm cs" "c \<in> tree_nodes vm cs" "pair_input vm b c \<in> set (tree_inputs vm cs)"
    using inputs unfolding tree_nodes_def by (auto, blast)
  then show thesis using that by cases auto
qed

lemma tree_node_hash:
  assumes "keccak_law vm digest" and "a \<in> tree_nodes vm cs" and "cs \<noteq> []"
  shows "hash32 a \<and> toLowerCase a = a"
  using assms(2,3)
proof (cases rule: tree_nodes_cases)
  case (1 c) then show ?thesis using keccak_hash32 [OF assms(1)] by (metis leafHash_input)
next
  case (2 b c) then show ?thesis using keccak_hash32 [OF assms(1)] by (metis hashPair_input)
qed

lemma parent_in_tree:
  assumes law: "keccak_law vm digest" and "cs \<noteq> []" and h: "hash32 h" "toLowerCase h = h" and s: "hash32 s"
    and inj: "inj_on digest (insert (pair_input vm h s) (set (tree_inputs vm cs)))"
    and node: "hashPair vm h s \<in> tree_nodes vm cs"
  shows "h \<in> tree_nodes vm cs"
  using node assms(2)
proof (cases rule: tree_nodes_cases)
  case (1 c)
  let ?l = "vm_toBytes vm (keccak_text vm c)"
  have "?l \<in> set (tree_inputs vm cs)" using 1 by (auto simp: tree_inputs_def leaf_inputs_def)
  moreover have "digest (pair_input vm h s) = digest ?l"
    using 1 digest_eq [OF law] by (simp add: hashPair_input leafHash_input)
  ultimately have "pair_input vm h s = ?l" using inj by (meson inj_onD insertI1 insertI2)
  then have "length (digest (vm_toBytes vm c)) = 64"
    using pair_input_length [OF law h(1) s] by (simp add: keccak_text_bytes [OF law])
  with law show ?thesis by (simp add: keccak_law_def)
next
  case (2 b c)
  have "digest (pair_input vm h s) = digest (pair_input vm b c)" using 2 digest_eq [OF law] by (simp add: hashPair_input)
  with 2 inj have "pair_input vm h s = pair_input vm b c" by (meson inj_onD insertI1 insertI2)
  moreover have bc: "hash32 b \<and> toLowerCase b = b" "hash32 c \<and> toLowerCase c = c"
    using tree_node_hash [OF law _ assms(2)] 2 by blast+
  ultimately have "node_bytes h \<in> {node_bytes b, node_bytes c}" using pair_input_inj [OF law h(1) s] by blast
  with 2 bc lower_node h show ?thesis by (metis insertE singletonD)
qed

lemma fold_into_tree:
  assumes law: "keccak_law vm digest" and "cs \<noteq> []"
  shows "hash32 h \<Longrightarrow> toLowerCase h = h \<Longrightarrow> list_all hash32 proof \<Longrightarrow>
    inj_on digest (set (tree_inputs vm cs) \<union> set (fold_inputs vm h proof)) \<Longrightarrow>
    foldl (hashPair vm) h proof \<in> tree_nodes vm cs \<Longrightarrow> h \<in> tree_nodes vm cs"
proof (induction "proof" arbitrary: h)
  case (Cons s "proof")
  have "hashPair vm h s \<in> tree_nodes vm cs"
  proof (rule Cons.IH)
    show "hash32 (hashPair vm h s)" "toLowerCase (hashPair vm h s) = hashPair vm h s"
      unfolding hashPair_input by (rule keccak_hash32 [OF law])+
    show "inj_on digest (set (tree_inputs vm cs) \<union> set (fold_inputs vm (hashPair vm h s) proof))"
      using Cons.prems(4) by (rule inj_on_subset) auto
  qed (use Cons.prems in simp_all)
  moreover have "inj_on digest (insert (pair_input vm h s) (set (tree_inputs vm cs)))"
    using Cons.prems(4) by (rule inj_on_subset) auto
  ultimately show ?case using Cons.prems(3)
    by (intro parent_in_tree [OF law assms(2) Cons.prems(1,2)]) simp_all
qed simp

lemma root_in_tree: "cs \<noteq> [] \<Longrightarrow> merkleRoot vm (map (leafHash vm) cs) \<in> tree_nodes vm cs"
proof -
  assume "cs \<noteq> []"
  have "prev \<noteq> [] \<Longrightarrow> hd (last (tree_layers vm prev)) \<in> set (last (tree_layers vm prev))" for prev
  proof (induction vm prev rule: tree_layers.induct)
    case (1 vm prev)
    show ?case
    proof (cases "length prev > 1")
      case True
      then have "0 < length (next_layer vm prev)" by simp
      then have "next_layer vm prev \<noteq> []" by (metis length_greater_0_conv)
      with "1.IH" [OF True] show ?thesis by (simp add: tree_layers_more [OF True])
    next
      case False
      with "1.prems" show ?thesis by (simp add: tree_layers_single)
    qed
  qed
  with \<open>cs \<noteq> []\<close> show ?thesis
    by (auto simp: merkleRoot_def buildCorpusTree_def tree_nodes_def Let_def intro!: bexI [of _ "last _"])
qed

subsection \<open>The properties\<close>

text \<open>A corpus publishes the root, and each of its entries has a proof that verifies.\<close>

lemma every_leaf_has_a_proof:
  assumes "keccak_law vm digest" and "i < length cs"
  shows "verifyInclusion vm (leafHash vm (cs ! i)) (merkleProof (buildCorpusTree vm (map (leafHash vm) cs)) i)
           (merkleRoot vm (map (leafHash vm) cs))"
proof -
  let ?leaves = "map (leafHash vm) cs"
  have lower: "toLowerCase (vm_keccakBytes vm b) = vm_keccakBytes vm b" for b by (rule keccak_hash32 [OF assms(1)])
  then have "toLowerCase a = a" if "a \<in> set ?leaves" for a using that by (auto simp: leafHash_input)
  from proof_path_fold [of i ?leaves, OF _ this lower] assms(2) show ?thesis
    by (auto simp: verifyInclusion_def merkleProof_def merkleRoot_def buildCorpusTree_def Let_def)
qed

text \<open>
  A proof that verifies is a proof of a committed entry, when no two of the inputs hashed by the builder
  and by the verifier collide and the siblings are 32-byte hashes.
\<close>

lemma proof_is_of_a_leaf:
  assumes "keccak_law vm digest" and "cs \<noteq> []" and "list_all hash32 path"
    and "inj_on digest (set (tree_inputs vm cs @ leaf_inputs vm c @ fold_inputs vm (leafHash vm c) path))"
    and "verifyInclusion vm (leafHash vm c) path (merkleRoot vm (map (leafHash vm) cs))"
  shows "vm_toBytes vm c \<in> vm_toBytes vm ` set cs"
proof -
  note law = assms(1)
  have leaf: "hash32 (leafHash vm x)" "toLowerCase (leafHash vm x) = leafHash vm x" for x
    unfolding leafHash_input by (rule keccak_hash32 [OF law])+
  have lower: "toLowerCase (foldl (hashPair vm) h ps) = foldl (hashPair vm) h ps" if "toLowerCase h = h" for h ps
    using that keccak_hash32(3) [OF law] by (cases ps rule: rev_cases) (simp_all add: hashPair_input)
  have root: "merkleRoot vm (map (leafHash vm) cs) \<in> tree_nodes vm cs" by (rule root_in_tree [OF assms(2)])
  have "foldl (hashPair vm) (leafHash vm c) path \<in> tree_nodes vm cs"
    using assms(5) root tree_node_hash [OF law root assms(2)] lower [OF leaf(2)] by (simp add: verifyInclusion_def eq_ci_def)
  then have "leafHash vm c \<in> tree_nodes vm cs"
    by (rule fold_into_tree [OF law assms(2) leaf assms(3), rotated]) (use assms(4) in \<open>auto intro: inj_on_subset\<close>)
  then show ?thesis using assms(2)
  proof (cases rule: tree_nodes_cases)
    case (1 d)
    have in_tree: "set (leaf_inputs vm d) \<subseteq> set (tree_inputs vm cs)" using 1 by (auto simp: tree_inputs_def)
    have "digest (vm_toBytes vm (keccak_text vm c)) = digest (vm_toBytes vm (keccak_text vm d))"
      using 1 digest_eq [OF law] by (simp add: leafHash_input)
    then have "vm_toBytes vm (keccak_text vm c) = vm_toBytes vm (keccak_text vm d)"
      by (rule inj_onD [OF assms(4)]) (use in_tree in \<open>auto simp: leaf_inputs_def\<close>)
    then have "digest (vm_toBytes vm c) = digest (vm_toBytes vm d)"
      by (simp only: keccak_text_bytes [OF law])
    then have "vm_toBytes vm c = vm_toBytes vm d"
      by (rule inj_onD [OF assms(4)]) (use in_tree in \<open>auto simp: leaf_inputs_def\<close>)
    with 1 show ?thesis by auto
  next
    case (2 a b)
    have "digest (vm_toBytes vm (keccak_text vm c)) = digest (pair_input vm a b)"
      using 2 digest_eq [OF law] by (simp add: leafHash_input hashPair_input)
    then have "vm_toBytes vm (keccak_text vm c) = pair_input vm a b"
      by (rule inj_onD [OF assms(4)]) (use 2 in \<open>auto simp: leaf_inputs_def\<close>)
    moreover have "length (pair_input vm a b) = 64"
      using 2 tree_node_hash [OF law _ assms(2)] by (blast intro: pair_input_length [OF law])
    moreover have "length (digest (vm_toBytes vm c)) = 32" using law by (simp add: keccak_law_def)
    ultimately show ?thesis by (simp add: keccak_text_bytes [OF law])
  qed
qed

text \<open>
  The length of a sibling matters: with the empty sibling \<open>0x\<close> the leaf hash of one commitment is hashed
  once more, which is the leaf hash of its digest.
\<close>

lemma empty_sibling:
  assumes "keccak_law vm digest"
  shows "verifyInclusion vm (leafHash vm c) [''0x''] (merkleRoot vm (map (leafHash vm) [keccak_text vm c]))"
proof -
  have b: "vm_toBytes vm (''0x'' @ bytes_hex x) = x" for x
    using assms lower_bytes_hex [of x] unfolding keccak_law_def by blast
  have k: "vm_keccakBytes vm x = ''0x'' @ bytes_hex (digest x)" for x using assms by (simp add: keccak_law_def)
  have h: "hashPair vm (''0x'' @ bytes_hex x) ''0x'' = vm_keccakBytes vm x" for x
    using b [of x] by (simp add: hashPair_def sortPair_def concatHex_def strip0x_def keccak_text_def)
  have "merkleRoot vm [leafHash vm (keccak_text vm c)] = leafHash vm (keccak_text vm c)"
    by (simp add: merkleRoot_def buildCorpusTree_def tree_layers_single)
  then show ?thesis
    using b h by (simp add: verifyInclusion_def leafHash_input k keccak_text_def)
qed

text \<open>A stand-in for the hash, to evaluate the definitions on.\<close>

definition short_digest :: "bytes \<Rightarrow> bytes" where
  "short_digest b = of_nat (length b) # take 31 (b @ replicate 31 0)"

definition short_viem :: viem_lib where
  "short_viem = \<lparr>vm_codec = undefined,
     vm_toBytes = (\<lambda>s. if startsWith s ''0x'' then pair_bytes (toLowerCase (drop 2 s)) else TextEncoder s),
     vm_keccakBytes = (\<lambda>b. ''0x'' @ bytes_hex (short_digest b)), vm_errorText = (\<lambda>e. '''')\<rparr>"

lemma short_law: "keccak_law short_viem short_digest"
  by (auto simp: keccak_law_def short_viem_def short_digest_def min_def)

definition demo_commitments :: "hex list" where
  "demo_commitments = [''0xAA'', ''0xbbbb'']"

lemma demo_tree:
  "tree_layers vm (map (leafHash vm) demo_commitments) =
     [[leafHash vm ''0xAA'', leafHash vm ''0xbbbb''], [hashPair vm (leafHash vm ''0xAA'') (leafHash vm ''0xbbbb'')]]"
  by (simp add: demo_commitments_def tree_layers_more tree_layers_single)

lemma demo_leaf_has_a_proof:
  "verifyInclusion short_viem (leafHash short_viem (demo_commitments ! 1))
     (merkleProof (buildCorpusTree short_viem (map (leafHash short_viem) demo_commitments)) 1)
     (merkleRoot short_viem (map (leafHash short_viem) demo_commitments))"
  by (rule every_leaf_has_a_proof [OF short_law]) (simp add: demo_commitments_def)

lemma demo_bytes:
  "vm_toBytes short_viem ''0xAA'' = [0xAA]" "vm_toBytes short_viem ''0xbbbb'' = [0xBB, 0xBB]"
  "vm_toBytes short_viem (keccak_text short_viem c) = short_digest (vm_toBytes short_viem c)"
  by (code_simp, code_simp, rule keccak_text_bytes [OF short_law])

lemma leaf_hash32: "keccak_law vm digest \<Longrightarrow> hash32 (leafHash vm c)"
  unfolding leafHash_input by (rule keccak_hash32)

lemma short_digest_inj:
  "short_digest a = short_digest b \<Longrightarrow> (of_nat (length a) :: 8 word) = of_nat (length b) \<and> take 31 (a @ replicate 31 0) = take 31 (b @ replicate 31 0)"
  by (simp add: short_digest_def)

lemma demo_no_collision:
  "inj_on short_digest (set (tree_inputs short_viem demo_commitments @ leaf_inputs short_viem ''0xAA'' @
     fold_inputs short_viem (leafHash short_viem ''0xAA'') [leafHash short_viem ''0xbbbb'']))"
proof -
  let ?p = "pair_input short_viem (leafHash short_viem ''0xAA'') (leafHash short_viem ''0xbbbb'')"
  have inputs: "set (tree_inputs short_viem demo_commitments @ leaf_inputs short_viem ''0xAA'' @
     fold_inputs short_viem (leafHash short_viem ''0xAA'') [leafHash short_viem ''0xbbbb'']) =
     {[0xAA], short_digest [0xAA], [0xBB, 0xBB], short_digest [0xBB, 0xBB], ?p}"
    unfolding tree_inputs_def buildCorpusTree_def
    by (simp add: demo_tree Let_def) (auto simp: leaf_inputs_def demo_commitments_def demo_bytes)
  have p: "length ?p = 64" by (intro pair_input_length [OF short_law] leaf_hash32 [OF short_law])
  have l: "length (short_digest b) = 32" for b using short_law by (simp add: keccak_law_def)
  show ?thesis unfolding inputs
    by (rule inj_onI) (auto dest!: short_digest_inj simp: p l, simp_all add: short_digest_def)
qed

lemma demo_proof_is_of_a_leaf:
  "vm_toBytes short_viem ''0xAA'' \<in> vm_toBytes short_viem ` set demo_commitments"
proof (rule proof_is_of_a_leaf [OF short_law _ _ demo_no_collision])
  show "list_all hash32 [leafHash short_viem ''0xbbbb'']" by (simp add: leaf_hash32 [OF short_law])
  show "verifyInclusion short_viem (leafHash short_viem ''0xAA'') [leafHash short_viem ''0xbbbb'']
      (merkleRoot short_viem (map (leafHash short_viem) demo_commitments))"
    using demo_tree [of short_viem]
    by (simp add: verifyInclusion_def merkleRoot_def buildCorpusTree_def Let_def) (simp add: demo_commitments_def)
qed (simp add: demo_commitments_def)

end
