(* ===== verification/Jcs.thy ===== *)
theory Jcs
  imports CanonicalJson
begin

section \<open>Credentials: canonical JSON (RFC 8785)\<close>

text \<open>
  \<open>packages/verifiable-credentials/src/canonical.ts\<close>, the text every credential, descriptor and locus
  hash is taken over. It is the second canonicalizer of the repository, beside \<open>canonicalJSON\<close> of the
  audit package: the theory shows what it accepts, that its text parses back to the JSON value it was
  given (so it is injective on those), and that the two canonicalizers print the same text wherever both
  print one. Values are finite trees; a number is an integer or (\<open>JNumber None\<close>) not finite. The paths
  of the error messages are kept.
\<close>

subsection \<open>The canonicalizer\<close>

definition JcsError :: "string \<Rightarrow> string \<Rightarrow> js_error" where
  "JcsError message path = Error (''[JCS] '' @ message @ '' at '' @ path)"

definition serialize_char :: "char \<Rightarrow> string" where
  "serialize_char c = (let code = of_char c :: nat in
     if code = 0x22 then [CHR 0x5C, CHR 0x22]
     else if code = 0x5C then [CHR 0x5C, CHR 0x5C]
     else if code < 0x20 then
       (if code = 0x08 then [CHR 0x5C, CHR ''b'']
        else if code = 0x09 then [CHR 0x5C, CHR ''t'']
        else if code = 0x0A then [CHR 0x5C, CHR ''n'']
        else if code = 0x0C then [CHR 0x5C, CHR ''f'']
        else if code = 0x0D then [CHR 0x5C, CHR ''r'']
        else [CHR 0x5C, CHR ''u''] @ (let h = hex_nat code in replicate (4 - length h) (CHR ''0'') @ h))
     else [c])"

definition serializeString :: "string \<Rightarrow> string" where
  "serializeString s = [CHR 0x22] @ concat (map serialize_char s) @ [CHR 0x22]"

definition serializeNumber :: "int option \<Rightarrow> string \<Rightarrow> string js" where
  "serializeNumber n path =
     (case n of
        None \<Rightarrow> Inl (JcsError ''non-finite number'' path)
      | Some i \<Rightarrow> Inr (if i = 0 then ''0'' else int_str i))"

function (sequential)
  jcsCanonicalize :: "jsval \<Rightarrow> string \<Rightarrow> string js" and
  jcs_items :: "jsval list \<Rightarrow> string \<Rightarrow> nat \<Rightarrow> string list js" and
  jcs_entries :: "(string \<times> jsval) list \<Rightarrow> string \<Rightarrow> string list js"
where
  "jcsCanonicalize JNull path = Inr ''null''"
| "jcsCanonicalize JUndefined path = Inl (JcsError ''undefined is not JSON'' path)"
| "jcsCanonicalize (JBool b) path = Inr (if b then ''true'' else ''false'')"
| "jcsCanonicalize (JString s) path = Inr (serializeString s)"
| "jcsCanonicalize (JNumber n) path = serializeNumber n path"
| "jcsCanonicalize (JArray xs) path =
     js_bind (jcs_items xs path 0) (\<lambda>items. Inr (''['' @ join '','' items @ '']''))"
| "jcsCanonicalize (JObject r ms) path =
     js_bind (jcs_entries (defined_members ms) path) (\<lambda>items. Inr (''{'' @ join '','' items @ ''}''))"
| "jcsCanonicalize (JBigInt n) path = Inl (JcsError ''unsupported JSON type: bigint'' path)"
| "jcs_items [] path i = Inr []"
| "jcs_items (x # xs) path i =
     js_bind (jcsCanonicalize x (path @ ''['' @ nat_str i @ '']'')) (\<lambda>s.
     js_bind (jcs_items xs path (Suc i)) (\<lambda>ss. Inr (s # ss)))"
| "jcs_entries [] path = Inr []"
| "jcs_entries ((k, v) # ms) path =
     js_bind (jcsCanonicalize v (path @ ''.'' @ k)) (\<lambda>s.
     js_bind (jcs_entries ms path) (\<lambda>ss. Inr ((serializeString k @ '':'' @ s) # ss)))"
  by pat_completeness auto
termination
proof (relation "measure (case_sum (\<lambda>(v, _). size v)
    (case_sum (\<lambda>(xs, _, _). size_list size xs) (\<lambda>(ms, _). size_list (size_prod (\<lambda>_. 0) size) ms)))", goal_cases)
  case (3 r ms path)
  then show ?case using size_defined_members [of "size_prod (\<lambda>_. 0) size" ms] by simp
qed auto

definition canonicalHash :: "(bytes \<Rightarrow> bytes) \<Rightarrow> jsval \<Rightarrow> hex js" where
  "canonicalHash keccak v =
     js_bind (jcsCanonicalize v ''$'') (\<lambda>canonical. Inr (''0x'' @ bytes_hex (keccak (TextEncoder canonical))))"

subsection \<open>What is canonicalized\<close>

text \<open>
  The code's escaping is the one of \<open>JSON.stringify\<close>. A value is printed exactly when it has no bigint,
  no non-finite number and no \<open>undefined\<close> but as an object member's value.
\<close>

lemma hex_nat_small: "n < 256 \<Longrightarrow> hex_nat n = (if n < 16 then [hex_digit n] else [hex_digit (n div 16), hex_digit (n mod 16)])"
proof (cases "n < 16")
  case False
  assume "n < 256"
  then have "n div 16 < 16" by linarith
  then have "hex_nat (n div 16) = [hex_digit (n div 16)]" by (subst hex_nat.simps) simp
  with False show ?thesis by (subst hex_nat.simps) simp
qed (subst hex_nat.simps, simp)

lemma serialize_char_quote: "serialize_char c = quote_char c"
proof -
  have eq: "c = d \<longleftrightarrow> (of_char c :: nat) = of_char d" for d by simp
  have zero: "char_of (48 :: nat) = CHR ''0''" by code_simp
  show ?thesis
    unfolding serialize_char_def quote_char_def Let_def eq
    by (auto simp: hex_nat_small hex_digit_def numeral_3_eq_3 zero)
qed

lemma serializeString_quote [simp]: "serializeString s = json_quote s"
proof -
  have "serialize_char = quote_char" by (rule ext) (rule serialize_char_quote)
  then show ?thesis by (simp add: serializeString_def json_quote_def)
qed

function jcs_ok :: "jsval \<Rightarrow> bool" where
  "jcs_ok JUndefined = False"
| "jcs_ok JNull = True"
| "jcs_ok (JBool b) = True"
| "jcs_ok (JNumber n) = (n \<noteq> None)"
| "jcs_ok (JBigInt n) = False"
| "jcs_ok (JString s) = True"
| "jcs_ok (JArray xs) = (\<forall>x \<in> set xs. jcs_ok x)"
| "jcs_ok (JObject r ms) = (\<forall>m \<in> set (defined_members ms). jcs_ok (snd m))"
  by pat_completeness auto
termination
  by (relation "measure size") (auto dest: size_member simp: less_Suc_eq_le elim: size_list_estimation')

lemma jcs_print:
  "jcsCanonicalize v path = Inr s \<longleftrightarrow> jcs_ok v \<and> s = print (json_of v)"
  "jcs_items xs path i = Inr ss \<longleftrightarrow> (\<forall>x \<in> set xs. jcs_ok x) \<and> ss = map (print \<circ> json_of) xs"
  "jcs_entries ms path = Inr ss \<longleftrightarrow>
     (\<forall>m \<in> set ms. jcs_ok (snd m)) \<and> ss = map (\<lambda>m. print_member (fst m, json_of (snd m))) ms"
proof (induction v path and xs path i and ms path arbitrary: s and ss and ss
    rule: jcsCanonicalize_jcs_items_jcs_entries.induct)
  case (7 r ms path)
  then show ?case by (auto simp: print_Obj comp_def simp del: print.simps(6))
next
  case (12 k v ms path)
  then show ?case by (auto simp: print_member_def)
next
  case (5 n path)
  have "int_str 0 = ''0''" by code_simp
  then show ?case by (auto simp: serializeNumber_def split: option.splits)
qed (auto simp: comp_def)

theorem jcs_iff: "jcsCanonicalize v path = Inr s \<longleftrightarrow> jcs_ok v \<and> s = print (json_of v)"
  by (rule jcs_print(1))

text \<open>The text parses back to the JSON value, so two values with the same text are the same JSON.\<close>

theorem JSON_parse_jcs [js_roundtrip]:
  "wf_jsval v \<Longrightarrow> jcsCanonicalize v path = Inr s \<Longrightarrow> JSON_parse s = Some (json_of v)"
  by (auto simp: jcs_iff intro: JSON_parse_print wf_json_json_of)

lemma jcs_inject:
  "wf_jsval v \<Longrightarrow> wf_jsval w \<Longrightarrow> jcsCanonicalize v p = Inr s \<Longrightarrow> jcsCanonicalize w q = Inr s \<Longrightarrow> json_of v = json_of w"
  using JSON_parse_jcs by (metis option.inject)

text \<open>Where both canonicalizers of the repository print a text, it is the same.\<close>

theorem jcs_is_canonicalJSON:
  "jcsCanonicalize v path = Inr s \<Longrightarrow> canonicalJSON v = Inr t \<Longrightarrow> s = t"
  by (simp add: jcs_iff canonicalJSON_iff)

theorem jcs_is_canonicalJSON_witness:
  "jcsCanonicalize (JObject 1 [(''b'', JNumber (Some 2)), (''a'', JArray [JNull, JString ''x''])]) ''$''
     = canonicalJSON (JObject 1 [(''b'', JNumber (Some 2)), (''a'', JArray [JNull, JString ''x''])])"
proof -
  let ?v = "JObject 1 [(''b'', JNumber (Some 2)), (''a'', JArray [JNull, JString ''x''])]"
  have "jcs_ok ?v" by (auto simp: Ball_def)
  then have s: "jcsCanonicalize ?v ''$'' = Inr (print (json_of ?v))" unfolding jcs_iff by blast
  obtain t where t: "canonicalJSON ?v = Inr t" unfolding canonicalJSON_iff by (auto simp: defined_members_def)
  show ?thesis unfolding s t using jcs_is_canonicalJSON [OF s t] by simp
qed

text \<open>The hash of a value determines its JSON as long as the digest does not collide on the two texts.\<close>

lemma canonicalHash_binds:
  assumes "wf_jsval v" and "wf_jsval w" and "canonicalHash keccak v = Inr h" and "canonicalHash keccak w = Inr h"
    and "\<And>s t. jcsCanonicalize v ''$'' = Inr s \<Longrightarrow> jcsCanonicalize w ''$'' = Inr t \<Longrightarrow>
           keccak (TextEncoder s) = keccak (TextEncoder t) \<Longrightarrow> TextEncoder s = TextEncoder t"
  shows "json_of v = json_of w"
proof -
  obtain s t where s: "jcsCanonicalize v ''$'' = Inr s" and t: "jcsCanonicalize w ''$'' = Inr t"
    and "keccak (TextEncoder s) = keccak (TextEncoder t)"
    using assms(3,4) by (auto simp: canonicalHash_def)
  from assms(5) [OF this] have "s = t" by (simp add: TextEncoder_inject)
  with s t assms(1,2) show ?thesis by (metis jcs_inject)
qed

end
