(* ===== verification/Credentials.thy ===== *)
theory Credentials
  imports Jcs Viem
begin

section \<open>Credentials: signing and verification\<close>

text \<open>
  \<open>packages/verifiable-credentials/src\<close>: the credential envelope (\<open>types.ts\<close>), the EIP-712 proof over the
  canonical hash of the body (\<open>proof.ts\<close>), structural and full verification (\<open>verifier.ts\<close>), shape URIs
  (\<open>schema.ts\<close>) and situations (\<open>situation.ts\<close>). The digest, \<open>hashTypedData\<close> and the platform's date
  parser are parameters; \<open>None\<close> is \<open>NaN\<close>, the time of an invalid date. Chain ids are exact integers (in
  the code, below \<open>2 ^ 53\<close>). The theory shows that a signed credential verifies, that a verified one was
  signed by the issuer's account over its own body on the issuer's chain, and that no two bodies share a
  signature.
\<close>

subsection \<open>The envelope\<close>

definition VC_CONTEXT_V2 :: string where
  "VC_CONTEXT_V2 = ''https://www.w3.org/ns/credentials/v2''"

definition EIP712_SIG_2026_CONTEXT :: string where
  "EIP712_SIG_2026_CONTEXT = ''https://agenticprimitives.dev/contexts/eip712-signature-2026/v1''"

record delegating_signer =
  ds_delegatorIssuer :: address
  ds_delegateKey :: address
  ds_delegationLeaf :: jsval

record eip712_proof =
  pr_type :: string
  pr_created :: string
  pr_verificationMethod :: string
  pr_proofPurpose :: string
  pr_proofValue :: hex
  pr_eip712Domain :: "eip712_domain option"
  pr_credentialHash :: "hex option"
  pr_delegatingSigner :: "delegating_signer option"

record credential_status =
  cst_id :: string
  cst_type :: string
  cst_statusPurpose :: "string option"
  cst_statusListIndex :: "int option"
  cst_statusListCredential :: "string option"

record credential =
  vc_context :: "string list option"
  vc_types :: "string list option"
  vc_issuer :: string
  vc_validFrom :: string
  vc_validUntil :: "string option"
  vc_credentialSubject :: jsval
  vc_credentialStatus :: "credential_status option"
  vc_credentialSchema :: "(string \<times> string) option"
  vc_disclosurePolicy :: jsval
  vc_proof :: "eip712_proof option"

definition VC_EIP712_TYPES :: eip712_types where
  "VC_EIP712_TYPES =
     [(''VerifiableCredentialAttestation'',
       [(''credentialHash'', ''bytes32''), (''issuer'', ''string''), (''validFrom'', ''uint64''),
        (''validUntil'', ''uint64''), (''proofPurpose'', ''string'')])]"

definition VC_DOMAIN_NAME :: string where "VC_DOMAIN_NAME = ''AgenticPrimitivesVC''"
definition VC_DOMAIN_VERSION :: string where "VC_DOMAIN_VERSION = ''1''"

record attestation_message =
  am_credentialHash :: hex
  am_issuer :: string
  am_validFrom :: int
  am_validUntil :: int
  am_proofPurpose :: string

record vc_lib =
  vl_keccak_256 :: "bytes \<Rightarrow> bytes"
  vcl_hashTypedData :: "eip712_domain \<Rightarrow> eip712_types \<Rightarrow> string \<Rightarrow> attestation_message \<Rightarrow> hex js"
  vl_getTime :: "string \<Rightarrow> int option"
  vl_errorText :: "js_error \<Rightarrow> string"

text \<open>
  The JSON value of a credential without its proof. An absent member and an \<open>undefined\<close> one are the same
  to the canonicalizer; the identity of an object (its number) plays no part.
\<close>

definition str_value :: "string option \<Rightarrow> jsval" where
  "str_value s = (case s of None \<Rightarrow> JUndefined | Some t \<Rightarrow> JString t)"

definition strs_value :: "string list option \<Rightarrow> jsval" where
  "strs_value xs = (case xs of None \<Rightarrow> JUndefined | Some ys \<Rightarrow> JArray (map JString ys))"

definition status_value :: "credential_status option \<Rightarrow> jsval" where
  "status_value st = (case st of None \<Rightarrow> JUndefined | Some c \<Rightarrow> JObject 0
     [(''id'', JString (cst_id c)), (''type'', JString (cst_type c)), (''statusPurpose'', str_value (cst_statusPurpose c)),
      (''statusListIndex'', case cst_statusListIndex c of None \<Rightarrow> JUndefined | Some i \<Rightarrow> JNumber (Some i)),
      (''statusListCredential'', str_value (cst_statusListCredential c))])"

definition schema_value :: "(string \<times> string) option \<Rightarrow> jsval" where
  "schema_value s = (case s of None \<Rightarrow> JUndefined | Some (i, t) \<Rightarrow> JObject 0 [(''id'', JString i), (''type'', JString t)])"

definition credential_value :: "credential \<Rightarrow> jsval" where
  "credential_value vc = JObject 0
     [(''@context'', strs_value (vc_context vc)), (''type'', strs_value (vc_types vc)), (''issuer'', JString (vc_issuer vc)),
      (''validFrom'', JString (vc_validFrom vc)), (''validUntil'', str_value (vc_validUntil vc)),
      (''credentialSubject'', vc_credentialSubject vc), (''credentialStatus'', status_value (vc_credentialStatus vc)),
      (''credentialSchema'', schema_value (vc_credentialSchema vc)), (''disclosurePolicy'', vc_disclosurePolicy vc)]"

subsection \<open>Signing\<close>

definition credentialHash :: "vc_lib \<Rightarrow> credential \<Rightarrow> hex js" where
  "credentialHash lib vc = canonicalHash (vl_keccak_256 lib) (credential_value vc)"

definition BigInt_number :: "int option \<Rightarrow> int js" where
  "BigInt_number n = (case n of None \<Rightarrow> Inl RangeError | Some i \<Rightarrow> Inr i)"

definition vc_domain :: "int \<Rightarrow> address \<Rightarrow> eip712_domain" where
  "vc_domain chainId verifyingContract =
     \<lparr>dom_name = VC_DOMAIN_NAME, dom_version = VC_DOMAIN_VERSION, dom_chainId = chainId, dom_verifyingContract = verifyingContract\<rparr>"

definition vc_eip712Digest ::
  "vc_lib \<Rightarrow> hex \<Rightarrow> string \<Rightarrow> int option \<Rightarrow> int option \<Rightarrow> string \<Rightarrow> int \<Rightarrow> address \<Rightarrow> hex js" where
  "vc_eip712Digest lib credentialBodyHash issuer validFrom validUntil proofPurpose chainId verifyingContract =
     js_bind (BigInt_number validFrom) (\<lambda>from.
     js_bind (BigInt_number validUntil) (\<lambda>until.
       vcl_hashTypedData lib (vc_domain chainId verifyingContract) VC_EIP712_TYPES ''VerifiableCredentialAttestation''
         \<lparr>am_credentialHash = credentialBodyHash, am_issuer = issuer, am_validFrom = from, am_validUntil = until,
          am_proofPurpose = proofPurpose\<rparr>))"

definition isoToSeconds :: "vc_lib \<Rightarrow> string option \<Rightarrow> int option" where
  "isoToSeconds lib text =
     (if \<not> truthy text then Some 0 else map_option (\<lambda>ms. ms div 1000) (vl_getTime lib (the text)))"

definition ensureContexts :: "string list \<Rightarrow> string list" where
  "ensureContexts existing =
     existing @ filter (\<lambda>c. c \<notin> set existing) [VC_CONTEXT_V2, EIP712_SIG_2026_CONTEXT]"

record credential_signer =
  cs_issuerAddress :: address
  cs_chainId :: int
  cs_verifyingContract :: address
  cs_signDigest :: "hex \<Rightarrow> hex js"

definition signCredential ::
  "vc_lib \<Rightarrow> string \<Rightarrow> credential \<Rightarrow> credential_signer \<Rightarrow> string option \<Rightarrow> delegating_signer option \<Rightarrow> credential js" where
  "signCredential lib nowIso draft signer purpose delegatingSigner =
     (let proofPurpose = (case purpose of Some p \<Rightarrow> p | None \<Rightarrow> ''assertionMethod'') in
      case vc_context draft of
        None \<Rightarrow> Inl TypeError
      | Some ctx \<Rightarrow>
          let contexted = draft\<lparr>vc_context := Some (ensureContexts ctx)\<rparr> in
          js_bind (credentialHash lib contexted) (\<lambda>bodyHash.
          js_bind (vc_eip712Digest lib bodyHash (vc_issuer contexted) (isoToSeconds lib (Some (vc_validFrom contexted)))
                     (isoToSeconds lib (vc_validUntil contexted)) proofPurpose (cs_chainId signer) (cs_verifyingContract signer))
            (\<lambda>digest.
          js_bind (cs_signDigest signer digest) (\<lambda>proofValue.
          Inr (contexted\<lparr>vc_proof := Some
            \<lparr>pr_type = ''Eip712Signature2026'', pr_created = nowIso,
             pr_verificationMethod = ''eip155:'' @ int_str (cs_chainId signer) @ '':'' @ cs_verifyingContract signer @ ''#assertion-key-1'',
             pr_proofPurpose = proofPurpose, pr_proofValue = proofValue,
             pr_eip712Domain = Some (vc_domain (cs_chainId signer) (cs_verifyingContract signer)),
             pr_credentialHash = Some bodyHash, pr_delegatingSigner = delegatingSigner\<rparr>\<rparr>)))))"

text \<open>A signer whose key is held by a key-management service.\<close>

definition kmsCredentialSigner ::
  "(hex \<Rightarrow> bytes js) \<Rightarrow> (bytes \<Rightarrow> bytes js) \<Rightarrow> address \<Rightarrow> int \<Rightarrow> address option \<Rightarrow> credential_signer" where
  "kmsCredentialSigner hexToBytes signA2AAction issuer chainId verifyingContract =
     \<lparr>cs_issuerAddress = issuer, cs_chainId = chainId,
      cs_verifyingContract = (case verifyingContract of Some a \<Rightarrow> a | None \<Rightarrow> issuer),
      cs_signDigest = (\<lambda>digest. js_bind (hexToBytes digest) (\<lambda>d. js_bind (signA2AAction d) (\<lambda>signature. Inr (''0x'' @ bytes_hex signature))))\<rparr>"

subsection \<open>Verification\<close>

record caip10 =
  caip_chainId :: int
  caip_address :: address

definition hex_digits :: "string \<Rightarrow> bool" where
  "hex_digits s \<longleftrightarrow> list_all (\<lambda>c. hex_val c \<noteq> None) s"

definition parseEip155Caip10 :: "string \<Rightarrow> caip10 option" where
  "parseEip155Caip10 ref =
     (if \<not> startsWith ref ''eip155:'' then None
      else let rest = drop 7 ref; digits = takeWhile is_digit rest; tail = dropWhile is_digit rest; addr = drop 1 tail in
        if digits \<noteq> [] \<and> startsWith tail '':0x'' \<and> length addr = 42 \<and> hex_digits (drop 2 addr)
        then Some \<lparr>caip_chainId = int (digits_val digits), caip_address = addr\<rparr>
        else None)"

definition parseCaip10IssuerFromVerificationMethod :: "string \<Rightarrow> string option" where
  "parseCaip10IssuerFromVerificationMethod method =
     (if CHR ''#'' \<notin> set method then None
      else let ref = takeWhile (\<lambda>c. c \<noteq> CHR ''#'') method; rest = drop 7 ref; tail = dropWhile is_digit rest in
        if startsWith ref ''eip155:'' \<and> takeWhile is_digit rest \<noteq> [] \<and> startsWith tail '':0x'' \<and>
           drop 3 tail \<noteq> [] \<and> hex_digits (drop 3 tail)
        then Some ref else None)"

record verification_result =
  vr_structural :: bool
  vr_expectedDigest :: "hex option"
  vr_proofValue :: "hex option"
  vr_issuerCaip10 :: "string option"
  vr_statusListId :: "string option"
  vr_issues :: "string list"

definition issue :: "bool \<Rightarrow> string \<Rightarrow> string list" where
  "issue b text = (if b then [text] else [])"

definition is_expired :: "vc_lib \<Rightarrow> int \<Rightarrow> string option \<Rightarrow> bool" where
  "is_expired lib nowMs until \<longleftrightarrow>
     truthy until \<and> (case isoToSeconds lib until of None \<Rightarrow> False | Some u \<Rightarrow> u < nowMs div 1000)"

definition shape_issues :: "vc_lib \<Rightarrow> int \<Rightarrow> credential \<Rightarrow> string list" where
  "shape_issues lib nowMs vc =
     issue (vc_context vc = None \<or> vc_context vc = Some []) ''missing @context'' @
     issue (case vc_types vc of None \<Rightarrow> True | Some [] \<Rightarrow> True | Some (t # _) \<Rightarrow> t \<noteq> ''VerifiableCredential'')
       (''type[0] MUST be '' @ json_quote ''VerifiableCredential'') @
     issue (vc_issuer vc = []) ''missing issuer'' @
     issue (vc_validFrom vc = []) ''missing validFrom'' @
     issue (vc_credentialSubject vc \<in> {JUndefined, JNull}) ''missing credentialSubject'' @
     issue (is_expired lib nowMs (vc_validUntil vc)) (''credential expired at '' @ the (vc_validUntil vc))"

definition domain_issues :: "credential \<Rightarrow> eip712_proof \<Rightarrow> eip712_domain \<Rightarrow> string list" where
  "domain_issues vc proof domain =
     (case parseEip155Caip10 (vc_issuer vc) of
        None \<Rightarrow> [''vc.issuer is not a verifiable eip155 CAIP-10 account id: '' @ vc_issuer vc]
      | Some issuerAcct \<Rightarrow>
          issue (\<not> eq_ci (dom_verifyingContract domain) (caip_address issuerAcct))
            (''proof.eip712Domain.verifyingContract ('' @ dom_verifyingContract domain @ '') MUST equal the issuer SA ('' @
               caip_address issuerAcct @ '')'') @
          issue (dom_chainId domain \<noteq> caip_chainId issuerAcct)
            (''proof.eip712Domain.chainId ('' @ int_str (dom_chainId domain) @ '') MUST equal the issuer chainId ('' @
               int_str (caip_chainId issuerAcct) @ '')'') @
          issue (case parseEip155Caip10 (hd (split_on (CHR ''#'') (pr_verificationMethod proof))) of
                   None \<Rightarrow> True | Some vmAcct \<Rightarrow> \<not> eq_ci (caip_address vmAcct) (caip_address issuerAcct))
            (''proof.verificationMethod ('' @ pr_verificationMethod proof @ '') MUST resolve to the issuer SA ('' @
               caip_address issuerAcct @ '')''))"

definition verifyCredentialStructural :: "vc_lib \<Rightarrow> int \<Rightarrow> credential \<Rightarrow> verification_result js" where
  "verifyCredentialStructural lib nowMs vc =
     (let issues = shape_issues lib nowMs vc;
          statusListId = Option.bind (vc_credentialStatus vc) cst_statusListCredential;
          refuse = (\<lambda>text. \<lparr>vr_structural = False, vr_expectedDigest = None, vr_proofValue = None, vr_issuerCaip10 = None,
             vr_statusListId = statusListId, vr_issues = issues @ [text]\<rparr>)
      in case vc_proof vc of
        None \<Rightarrow> Inr (refuse ''missing proof'')
      | Some proof \<Rightarrow>
          if pr_type proof \<noteq> ''Eip712Signature2026'' then Inr (refuse (''unsupported proof.type: '' @ pr_type proof))
          else case pr_eip712Domain proof of
            None \<Rightarrow> Inr (refuse ''Eip712Signature2026 proof MUST carry eip712Domain (for cross-stack verification)'')
          | Some domain \<Rightarrow>
              js_bind (credentialHash lib vc) (\<lambda>bodyHash.
              let hashIssues =
                    (if \<not> truthy (pr_credentialHash proof)
                     then [''proof.credentialHash is required (binds the proof to the canonical credential body)'']
                     else issue (pr_credentialHash proof \<noteq> Some bodyHash)
                       (''proof.credentialHash ('' @ the (pr_credentialHash proof) @
                        '') does not match canonical hash of credential body ('' @ bodyHash @ '')''));
                  issues' = issues @ hashIssues @ domain_issues vc proof domain
              in js_bind (vc_eip712Digest lib bodyHash (vc_issuer vc) (isoToSeconds lib (Some (vc_validFrom vc)))
                     (isoToSeconds lib (vc_validUntil vc)) (pr_proofPurpose proof) (dom_chainId domain) (dom_verifyingContract domain))
                   (\<lambda>expectedDigest.
                 Inr \<lparr>vr_structural = (issues' = []), vr_expectedDigest = Some expectedDigest,
                      vr_proofValue = Some (pr_proofValue proof),
                      vr_issuerCaip10 = parseCaip10IssuerFromVerificationMethod (pr_verificationMethod proof),
                      vr_statusListId = statusListId, vr_issues = issues'\<rparr>)))"

text \<open>\<open>verifyHash\<close> is the client's ERC-1271 call; it may throw.\<close>

record verify_credential_result =
  vcr_valid :: bool
  vcr_structuralResult :: verification_result
  vcr_issues :: "string list"

definition verifyCredential ::
  "vc_lib \<Rightarrow> int \<Rightarrow> credential \<Rightarrow> (address \<Rightarrow> hex \<Rightarrow> hex \<Rightarrow> bool js) \<Rightarrow> verify_credential_result js" where
  "verifyCredential lib nowMs vc verifyHash =
     js_bind (verifyCredentialStructural lib nowMs vc) (\<lambda>structuralResult.
     let issues = vr_issues structuralResult;
         answer = (\<lambda>ok more. Inr \<lparr>vcr_valid = ok, vcr_structuralResult = structuralResult, vcr_issues = issues @ more\<rparr>)
     in if \<not> vr_structural structuralResult \<or> \<not> truthy (vr_expectedDigest structuralResult) \<or>
           \<not> truthy (vr_proofValue structuralResult)
        then answer False []
        else case parseEip155Caip10 (vc_issuer vc) of
          None \<Rightarrow> answer False [''cannot resolve issuer SA for ERC-1271 verification'']
        | Some issuerAcct \<Rightarrow>
            (case verifyHash (caip_address issuerAcct) (the (vr_expectedDigest structuralResult)) (the (vr_proofValue structuralResult)) of
               Inl e \<Rightarrow> answer False [''ERC-1271 verification call failed: '' @ vl_errorText lib e]
             | Inr ok \<Rightarrow> answer ok (issue (\<not> ok) ''issuer ERC-1271 signature did not validate over the expected digest'')))"

subsection \<open>Shape URIs and situations\<close>

definition shape_char :: "char \<Rightarrow> bool" where
  "shape_char c \<longleftrightarrow> is_digit c \<or> (65 \<le> (of_char c :: nat) \<and> (of_char c :: nat) \<le> 90) \<or>
     (97 \<le> (of_char c :: nat) \<and> (of_char c :: nat) \<le> 122) \<or> c \<in> {CHR ''.'', CHR ''_'', CHR ''-''}"

definition SHAPE_DID_PREFIX :: string where "SHAPE_DID_PREFIX = ''did:shape:''"

definition buildShapeUri :: "string \<Rightarrow> string \<Rightarrow> string js" where
  "buildShapeUri name version =
     (if name = [] \<or> \<not> list_all shape_char name
      then Inl (Error (''[verifiable-credentials/schema] invalid shape name: '' @ name))
      else if version = [] \<or> \<not> list_all shape_char version
      then Inl (Error (''[verifiable-credentials/schema] invalid shape version: '' @ version))
      else Inr (SHAPE_DID_PREFIX @ name @ '':'' @ version))"

text \<open>The URI is cut at its last colon.\<close>

definition parseShapeUri :: "string \<Rightarrow> (string \<times> string) option" where
  "parseShapeUri uri =
     (if \<not> startsWith uri SHAPE_DID_PREFIX then None
      else let body = drop (length SHAPE_DID_PREFIX) uri in
        if CHR '':'' \<notin> set body then None
        else let version = rev (takeWhile (\<lambda>c. c \<noteq> CHR '':'') (rev body));
                 name = take (length body - length version - 1) body
             in if name = [] \<or> version = [] then None else Some (name, version))"

definition shapeHash :: "(bytes \<Rightarrow> bytes) \<Rightarrow> string + bytes \<Rightarrow> hex" where
  "shapeHash keccak shacl = ''0x'' @ bytes_hex (keccak (case shacl of Inl text \<Rightarrow> TextEncoder text | Inr bs \<Rightarrow> bs))"

record situation =
  sit_description :: string
  sit_roles :: "(string \<times> address) list"
  sit_participants :: "(string \<times> string) list option"
  sit_body :: jsval

definition assertSituationRolesPresent :: "situation \<Rightarrow> string list \<Rightarrow> unit js" where
  "assertSituationRolesPresent s requiredRoles =
     (let missing = filter (\<lambda>r. r \<notin> fst ` set (sit_roles s)) requiredRoles
      in if missing \<noteq> [] then Inl (Error (''[verifiable-credentials] Situation '' @ [CHR 0x27] @ sit_description s @
           [CHR 0x27] @ '' is missing required roles: '' @ join '', '' missing))
         else Inr ())"

definition buildSituation ::
  "string \<Rightarrow> (string \<times> address) list \<Rightarrow> jsval \<Rightarrow> (string \<times> string) list option \<Rightarrow> situation" where
  "buildSituation description roles body participants =
     \<lparr>sit_description = description, sit_roles = roles, sit_participants = participants, sit_body = body\<rparr>"

subsection \<open>What verification establishes\<close>

lemma issue_Nil [simp]: "issue b t = [] \<longleftrightarrow> \<not> b"
  by (simp add: issue_def)

text \<open>
  The message a credential's proof is over: its domain and fields, when the proof carries a domain and the
  dates and the body can be read.
\<close>

definition attested :: "vc_lib \<Rightarrow> credential \<Rightarrow> (eip712_domain \<times> attestation_message) option" where
  "attested lib vc =
     (case (vc_proof vc, credentialHash lib vc, isoToSeconds lib (Some (vc_validFrom vc)), isoToSeconds lib (vc_validUntil vc)) of
        (Some proof, Inr h, Some from, Some until) \<Rightarrow>
          map_option (\<lambda>domain. (vc_domain (dom_chainId domain) (dom_verifyingContract domain),
            \<lparr>am_credentialHash = h, am_issuer = vc_issuer vc, am_validFrom = from, am_validUntil = until,
             am_proofPurpose = pr_proofPurpose proof\<rparr>)) (pr_eip712Domain proof)
      | _ \<Rightarrow> None)"

definition attestation_digest :: "vc_lib \<Rightarrow> eip712_domain \<times> attestation_message \<Rightarrow> hex js" where
  "attestation_digest lib m = vcl_hashTypedData lib (fst m) VC_EIP712_TYPES ''VerifiableCredentialAttestation'' (snd m)"

text \<open>
  A credential is accepted only when the account its issuer names, on the chain it names, accepts the
  proof's signature over the digest of the credential's own body.
\<close>

lemma valid_credential:
  assumes "verifyCredential lib nowMs vc verifyHash = Inr res" and "vcr_valid res"
  obtains acct pf domain msg digest where "parseEip155Caip10 (vc_issuer vc) = Some acct" and "vc_proof vc = Some pf"
    and "pr_eip712Domain pf = Some domain" and "dom_chainId domain = caip_chainId acct"
    and "eq_ci (dom_verifyingContract domain) (caip_address acct)"
    and "attested lib vc = Some (vc_domain (dom_chainId domain) (dom_verifyingContract domain), msg)"
    and "am_issuer msg = vc_issuer vc" and "credentialHash lib vc = Inr (am_credentialHash msg)"
    and "pr_credentialHash pf = Some (am_credentialHash msg)"
    and "attestation_digest lib (vc_domain (dom_chainId domain) (dom_verifyingContract domain), msg) = Inr digest"
    and "vr_expectedDigest (vcr_structuralResult res) = Some digest"
    and "verifyHash (caip_address acct) digest (pr_proofValue pf) = Inr True"
    and "\<not> is_expired lib nowMs (vc_validUntil vc)"
proof -
  from assms obtain sr where sr: "verifyCredentialStructural lib nowMs vc = Inr sr" and ok: "vr_structural sr"
    and res: "vcr_structuralResult res = sr"
    by (auto simp: verifyCredential_def Let_def split: if_splits option.splits sum.splits)
  from sr ok obtain pf domain bodyHash vf vu digest where p: "vc_proof vc = Some pf" "pr_eip712Domain pf = Some domain"
    "credentialHash lib vc = Inr bodyHash" "isoToSeconds lib (Some (vc_validFrom vc)) = Some vf"
    "isoToSeconds lib (vc_validUntil vc) = Some vu"
    and d: "attestation_digest lib (vc_domain (dom_chainId domain) (dom_verifyingContract domain),
        \<lparr>am_credentialHash = bodyHash, am_issuer = vc_issuer vc, am_validFrom = vf, am_validUntil = vu,
         am_proofPurpose = pr_proofPurpose pf\<rparr>) = Inr digest" (is "attestation_digest lib (_, ?msg) = _")
    and h: "pr_credentialHash pf = Some bodyHash" and domain: "domain_issues vc pf domain = []"
    and sd: "vr_expectedDigest sr = Some digest" "vr_proofValue sr = Some (pr_proofValue pf)"
    and shape: "shape_issues lib nowMs vc = []"
    by (auto simp: verifyCredentialStructural_def vc_eip712Digest_def BigInt_number_def attestation_digest_def Let_def truthy_def
        split: if_splits option.splits)
  from domain obtain acct where acct: "parseEip155Caip10 (vc_issuer vc) = Some acct" "dom_chainId domain = caip_chainId acct"
    "eq_ci (dom_verifyingContract domain) (caip_address acct)"
    by (auto simp: domain_issues_def split: option.splits)
  have "verifyHash (caip_address acct) digest (pr_proofValue pf) = Inr True"
    using assms sr acct(1) sd by (auto simp: verifyCredential_def Let_def split: if_splits sum.splits)
  moreover have "attested lib vc = Some (vc_domain (dom_chainId domain) (dom_verifyingContract domain), ?msg)"
    by (simp add: attested_def p)
  moreover have "\<not> is_expired lib nowMs (vc_validUntil vc)" using shape by (simp add: shape_issues_def)
  ultimately show thesis using that [of acct pf domain ?msg digest] p acct d h sd res by simp
qed

text \<open>C26: Two accepted credentials with the same signed digest have the same body: nothing but the proof can be changed under a signature.\<close>

theorem one_signature_one_body:
  assumes "verifyCredential lib nowMs vc verifyHash = Inr res" and "vcr_valid res"
    and "verifyCredential lib nowMs' vc' verifyHash' = Inr res'" and "vcr_valid res'"
    and "vr_expectedDigest (vcr_structuralResult res) = vr_expectedDigest (vcr_structuralResult res')"
    and "wf_jsval (credential_value vc)" and "wf_jsval (credential_value vc')"
    and typed_data: "\<And>m m'. attested lib vc = Some m \<Longrightarrow> attested lib vc' = Some m' \<Longrightarrow>
          attestation_digest lib m = attestation_digest lib m' \<Longrightarrow> m = m'"
    and keccak: "\<And>s t. jcsCanonicalize (credential_value vc) ''$'' = Inr s \<Longrightarrow> jcsCanonicalize (credential_value vc') ''$'' = Inr t \<Longrightarrow>
          vl_keccak_256 lib (TextEncoder s) = vl_keccak_256 lib (TextEncoder t) \<Longrightarrow> TextEncoder s = TextEncoder t"
  shows "json_of (credential_value vc) = json_of (credential_value vc')"
proof -
  from assms(1,2) obtain m where m: "attested lib vc = Some m" "credentialHash lib vc = Inr (am_credentialHash (snd m))"
    and d: "map_option Inr (vr_expectedDigest (vcr_structuralResult res)) = Some (attestation_digest lib m)"
    by (rule valid_credential) simp
  from assms(3,4) obtain m' where m': "attested lib vc' = Some m'" "credentialHash lib vc' = Inr (am_credentialHash (snd m'))"
    and d': "map_option Inr (vr_expectedDigest (vcr_structuralResult res')) = Some (attestation_digest lib m')"
    by (rule valid_credential) simp
  from d d' assms(5) have "attestation_digest lib m = attestation_digest lib m'" by simp
  with typed_data m m' have "credentialHash lib vc = credentialHash lib vc'" by metis
  with m(2) m'(2) show ?thesis using canonicalHash_binds [OF assms(6,7) _ _ keccak] by (simp add: credentialHash_def)
qed

text \<open>The account a signer acts for, and what it promises of the signer's signatures.\<close>

definition account_address :: "address \<Rightarrow> bool" where
  "account_address a \<longleftrightarrow> startsWith a ''0x'' \<and> length a = 42 \<and> hex_digits (drop 2 a)"

lemma takeWhile_digits_append: "(\<forall>c \<in> set ds. is_digit c) \<Longrightarrow> takeWhile is_digit (ds @ CHR '':'' # t) = ds"
  "(\<forall>c \<in> set ds. is_digit c) \<Longrightarrow> dropWhile is_digit (ds @ CHR '':'' # t) = CHR '':'' # t"
  by (simp_all add: is_digit_def)

lemma parseEip155Caip10_print:
  assumes "account_address a" and "0 \<le> n"
  shows "parseEip155Caip10 (''eip155:'' @ int_str n @ '':'' @ a) = Some \<lparr>caip_chainId = n, caip_address = a\<rparr>"
proof -
  have digits: "\<forall>c \<in> set (nat_str (nat n)). is_digit c" using nat_str_digits by blast
  have "nat_str (nat n) \<noteq> []" by (subst nat_str.simps) simp
  with assms show ?thesis
    by (simp add: parseEip155Caip10_def int_str_def Let_def startsWith_def takeWhile_digits_append [OF digits] account_address_def)
qed

lemma split_at_hash: "CHR ''#'' \<notin> set s \<Longrightarrow> hd (split_on (CHR ''#'') (s @ CHR ''#'' # t)) = s"
  by (induction s) (auto split: list.splits)

lemma caip10_no_hash:
  assumes "account_address a" and "0 \<le> n"
  shows "CHR ''#'' \<notin> set (''eip155:'' @ int_str n @ '':'' @ a)"
proof -
  from assms(1) have "take 2 a = ''0x''" and h: "hex_digits (drop 2 a)"
    by (simp_all add: account_address_def startsWith_def numeral_2_eq_2)
  then have a: "a = ''0x'' @ drop 2 a" by (metis append_take_drop_id)
  have "CHR ''#'' \<notin> set (drop 2 a)" using h by (auto simp: hex_digits_def list_all_iff hex_val_def)
  then have "CHR ''#'' \<notin> set a" by (subst a) simp
  moreover have "\<not> is_digit CHR ''#''" by (simp add: is_digit_def)
  then have "CHR ''#'' \<notin> set (nat_str (nat n))" using nat_str_digits by blast
  ultimately show ?thesis using assms(2) by (simp add: int_str_def)
qed

lemma sign_then_verify:
  assumes signed: "signCredential lib nowIso draft signer purpose delegatingSigner = Inr vc"
    and issuer: "vc_issuer draft = ''eip155:'' @ int_str (cs_chainId signer) @ '':'' @ cs_verifyingContract signer"
    and "0 \<le> cs_chainId signer" and "account_address (cs_verifyingContract signer)"
    and "vc_types draft = Some (''VerifiableCredential'' # classes)" and "vc_validFrom draft \<noteq> []"
    and "vc_credentialSubject draft \<notin> {JUndefined, JNull}" and "\<not> is_expired lib nowMs (vc_validUntil draft)"
    and account: "\<And>digest sig. cs_signDigest signer digest = Inr sig \<Longrightarrow>
          digest \<noteq> [] \<and> sig \<noteq> [] \<and> verifyHash (cs_verifyingContract signer) digest sig = Inr True"
  shows "\<exists>res. verifyCredential lib nowMs vc verifyHash = Inr res \<and> vcr_valid res \<and> vcr_issues res = []"
proof -
  from signed obtain ctx bodyHash digest sig where
    ctx: "vc_context draft = Some ctx" and h: "credentialHash lib vc = Inr bodyHash" and
    d: "vc_eip712Digest lib bodyHash (vc_issuer vc) (isoToSeconds lib (Some (vc_validFrom vc))) (isoToSeconds lib (vc_validUntil vc))
          (case purpose of Some p \<Rightarrow> p | None \<Rightarrow> ''assertionMethod'') (cs_chainId signer) (cs_verifyingContract signer) = Inr digest" and
    sig: "cs_signDigest signer digest = Inr sig" and
    vc: "vc = draft\<lparr>vc_context := Some (ensureContexts ctx), vc_proof := vc_proof vc\<rparr>" and
    p: "vc_proof vc = Some \<lparr>pr_type = ''Eip712Signature2026'', pr_created = nowIso,
             pr_verificationMethod = vc_issuer draft @ ''#assertion-key-1'',
             pr_proofPurpose = (case purpose of Some p \<Rightarrow> p | None \<Rightarrow> ''assertionMethod''), pr_proofValue = sig,
             pr_eip712Domain = Some (vc_domain (cs_chainId signer) (cs_verifyingContract signer)),
             pr_credentialHash = Some bodyHash, pr_delegatingSigner = delegatingSigner\<rparr>"
    by (auto simp: signCredential_def Let_def issuer credentialHash_def credential_value_def split: option.splits)
  have fields: "vc_issuer vc = vc_issuer draft" "vc_types vc = vc_types draft" "vc_validFrom vc = vc_validFrom draft"
    "vc_validUntil vc = vc_validUntil draft" "vc_credentialSubject vc = vc_credentialSubject draft"
    "vc_context vc = Some (ensureContexts ctx)"
    by (subst vc, simp)+
  let ?acct = "\<lparr>caip_chainId = cs_chainId signer, caip_address = cs_verifyingContract signer\<rparr>"
  have acct: "parseEip155Caip10 (vc_issuer draft) = Some ?acct"
    unfolding issuer by (rule parseEip155Caip10_print) (use assms in auto)
  have "CHR ''#'' \<notin> set (vc_issuer draft)" unfolding issuer by (rule caip10_no_hash) (use assms in auto)
  then have vm: "hd (split_on (CHR ''#'') (vc_issuer draft @ ''#assertion-key-1'')) = vc_issuer draft" by (simp add: split_at_hash)
  have "bodyHash \<noteq> []" using h by (auto simp: credentialHash_def canonicalHash_def)
  moreover have "shape_issues lib nowMs vc = []"
    using assms ctx by (simp add: shape_issues_def fields ensureContexts_def)
  ultimately show ?thesis
    using account [OF sig] h d acct vm
    by (simp add: verifyCredential_def verifyCredentialStructural_def p Let_def truthy_def domain_issues_def fields vc_domain_def)
qed

text \<open>
  C29: A well-formed draft signed by its issuer's account verifies while it is unexpired, with no issues. Well-formed
  says: its issuer is the CAIP-10 form of the signer's account, its first type is \<open>VerifiableCredential\<close>, its
  \<open>validFrom\<close> is not empty and it has a subject; the account accepts the signatures its signer makes.
\<close>

theorem signed_credential_verifies:
  assumes signed: "signCredential lib nowIso draft signer purpose delegatingSigner = Inr vc"
    and issuer: "vc_issuer draft = ''eip155:'' @ int_str (cs_chainId signer) @ '':'' @ cs_verifyingContract signer"
    and "0 \<le> cs_chainId signer" and "account_address (cs_verifyingContract signer)"
    and "vc_types draft = Some (''VerifiableCredential'' # classes)" and "vc_validFrom draft \<noteq> []"
    and "vc_credentialSubject draft \<notin> {JUndefined, JNull}" and "\<not> is_expired lib nowMs (vc_validUntil draft)"
    and account: "\<And>digest sig. cs_signDigest signer digest = Inr sig \<Longrightarrow>
          digest \<noteq> [] \<and> sig \<noteq> [] \<and> verifyHash (cs_verifyingContract signer) digest sig = Inr True"
  shows "\<exists>res. verifyCredential lib nowMs vc verifyHash = Inr res \<and> vcr_valid res \<and> vcr_issues res = []"
  using assms by (rule sign_then_verify)

text \<open>
  A date that cannot be read makes the digest throw: a credential with an unreadable \<open>validFrom\<close> is not
  answered \<open>valid: false\<close>, the call rejects.
\<close>

lemma unreadable_date_throws:
  assumes "vc_proof vc = Some prf" and "pr_type prf = ''Eip712Signature2026''" and "pr_eip712Domain prf = Some domain"
    and "credentialHash lib vc = Inr h" and "vc_validFrom vc \<noteq> []" and "vl_getTime lib (vc_validFrom vc) = None"
  shows "verifyCredential lib nowMs vc verifyHash = Inl RangeError"
  using assms by (simp add: verifyCredential_def verifyCredentialStructural_def vc_eip712Digest_def isoToSeconds_def
      truthy_def BigInt_number_def Let_def)

text \<open>Signing fixes the contexts; signing what is already signed adds none.\<close>

lemma ensureContexts_idem [simp]: "ensureContexts (ensureContexts ctx) = ensureContexts ctx"
  by (auto simp: ensureContexts_def)

text \<open>A shape URI parses back to the name and version it was built from.\<close>

theorem shape_uri_roundtrip:
  assumes "buildShapeUri name version = Inr uri"
  shows "parseShapeUri uri = Some (name, version)"
proof -
  from assms have n: "name \<noteq> []" and v: "version \<noteq> []" "list_all shape_char version"
    and uri: "uri = SHAPE_DID_PREFIX @ name @ '':'' @ version"
    by (auto simp: buildShapeUri_def split: if_splits)
  have "\<not> shape_char CHR '':''" by (simp add: shape_char_def is_digit_def)
  with v have "takeWhile (\<lambda>c. c \<noteq> CHR '':'') (rev version @ CHR '':'' # rev name) = rev version"
    by (intro takeWhile_eq_all_conv [THEN iffD2, THEN trans] takeWhile_append2 [THEN trans]) (auto simp: list_all_iff)
  with n v show ?thesis
    by (simp add: uri parseShapeUri_def startsWith_def SHAPE_DID_PREFIX_def Let_def)
qed

subsection \<open>A credential to evaluate the definitions on\<close>

definition demo_vc_lib :: vc_lib where
  "demo_vc_lib = \<lparr>vl_keccak_256 = (\<lambda>b. b), vcl_hashTypedData = (\<lambda>d ts p m. Inr (''0x'' @ am_credentialHash m)),
     vl_getTime = (\<lambda>s. Some 1000), vl_errorText = (\<lambda>e. '''')\<rparr>"

definition demo_caip_account :: address where
  "demo_caip_account = ''0x'' @ replicate 40 (CHR ''a'')"

definition demo_signer :: credential_signer where
  "demo_signer = \<lparr>cs_issuerAddress = demo_caip_account, cs_chainId = 8453, cs_verifyingContract = demo_caip_account,
     cs_signDigest = (\<lambda>d. if d = [] then Inl TypeError else Inr d)\<rparr>"

definition demo_draft :: credential where
  "demo_draft = \<lparr>vc_context = Some [VC_CONTEXT_V2], vc_types = Some [''VerifiableCredential''],
     vc_issuer = ''eip155:'' @ int_str 8453 @ '':'' @ demo_caip_account, vc_validFrom = ''2026-06-01'', vc_validUntil = None,
     vc_credentialSubject = JObject 1 [(''id'', JString ''x''), (''score'', JNumber (Some 7))], vc_credentialStatus = None,
     vc_credentialSchema = None, vc_disclosurePolicy = JUndefined, vc_proof = None\<rparr>"

definition demo_verifyHash :: "address \<Rightarrow> hex \<Rightarrow> hex \<Rightarrow> bool js" where
  "demo_verifyHash a digest sig = Inr (a = demo_caip_account \<and> sig = digest)"

lemma demo_sign: "\<exists>vc. signCredential demo_vc_lib nowIso demo_draft demo_signer None None = Inr vc \<and>
   credential_value vc = credential_value (demo_draft\<lparr>vc_context := Some (ensureContexts [VC_CONTEXT_V2])\<rparr>)"
proof -
  let ?v = "credential_value (demo_draft\<lparr>vc_context := Some (ensureContexts [VC_CONTEXT_V2])\<rparr>)"
  have "jcs_ok ?v"
    by (auto simp: credential_value_def demo_draft_def strs_value_def str_value_def status_value_def schema_value_def)
  then have "jcsCanonicalize ?v ''$'' = Inr (print (json_of ?v))" unfolding jcs_iff by blast
  then have h: "credentialHash demo_vc_lib (demo_draft\<lparr>vc_context := Some (ensureContexts [VC_CONTEXT_V2])\<rparr>) =
      Inr (''0x'' @ bytes_hex (TextEncoder (print (json_of ?v))))"
    unfolding credentialHash_def canonicalHash_def by (simp add: demo_vc_lib_def)
  have ctx: "vc_context demo_draft = Some [VC_CONTEXT_V2]" by (simp add: demo_draft_def)
  show ?thesis
    unfolding signCredential_def Let_def ctx option.case h
    by (simp add: vc_eip712Digest_def isoToSeconds_def BigInt_number_def truthy_def demo_vc_lib_def demo_signer_def)
      (simp add: credential_value_def)
qed

definition demo_signed :: "string \<Rightarrow> credential" where
  "demo_signed nowIso = projr (signCredential demo_vc_lib nowIso demo_draft demo_signer None None)"

lemma demo_signed: "signCredential demo_vc_lib nowIso demo_draft demo_signer None None = Inr (demo_signed nowIso)"
  "credential_value (demo_signed nowIso) = credential_value (demo_draft\<lparr>vc_context := Some (ensureContexts [VC_CONTEXT_V2])\<rparr>)"
  using demo_sign [of nowIso] by (auto simp: demo_signed_def)

lemmas demo_facts = demo_draft_def demo_signer_def demo_verifyHash_def is_expired_def truthy_def account_address_def
  startsWith_def demo_caip_account_def hex_digits_def hex_val_def eval_nat_numeral

theorem signed_credential_verifies_witness:
  "\<exists>res. verifyCredential demo_vc_lib 5000 (demo_signed ''now'') demo_verifyHash = Inr res \<and> vcr_valid res \<and> vcr_issues res = []"
  by (rule signed_credential_verifies [OF demo_signed(1), where classes = "[]"]) (auto simp: demo_facts split: if_splits)

text \<open>The \<open>created\<close> date of a proof is not signed and not checked: two proofs that differ there are one.\<close>

definition redate :: "credential \<Rightarrow> credential" where
  "redate vc = vc\<lparr>vc_proof := map_option (pr_created_update (\<lambda>_. ''later'')) (vc_proof vc)\<rparr>"

lemma redate_sel [simp]:
  "vc_issuer (redate vc) = vc_issuer vc" "vc_validFrom (redate vc) = vc_validFrom vc" "vc_validUntil (redate vc) = vc_validUntil vc"
  "vc_credentialStatus (redate vc) = vc_credentialStatus vc"
  by (simp_all add: redate_def)

lemma redate_irrelevant:
  "verifyCredential lib nowMs (redate vc) verifyHash = verifyCredential lib nowMs vc verifyHash"
  "attested lib (redate vc) = attested lib vc" "credential_value (redate vc) = credential_value vc"
proof -
  show v: "credential_value (redate vc) = credential_value vc" by (simp add: redate_def credential_value_def)
  then have h: "credentialHash lib (redate vc) = credentialHash lib vc" by (simp add: credentialHash_def)
  show "attested lib (redate vc) = attested lib vc"
    by (cases "vc_proof vc") (simp_all add: attested_def h, simp_all add: redate_def split: sum.splits option.splits)
  have s: "shape_issues lib nowMs (redate vc) = shape_issues lib nowMs vc" by (simp add: shape_issues_def redate_def)
  have d: "domain_issues (redate vc) (p\<lparr>pr_created := c\<rparr>) d = domain_issues vc p d" for p d c
    by (simp add: domain_issues_def redate_def split: option.splits)
  have "verifyCredentialStructural lib nowMs (redate vc) = verifyCredentialStructural lib nowMs vc"
  proof (cases "vc_proof vc")
    case None
    then have "vc_proof (redate vc) = None" by (simp add: redate_def)
    with None show ?thesis unfolding verifyCredentialStructural_def s by (simp add: redate_def)
  next
    case (Some p)
    then have "vc_proof (redate vc) = Some (p\<lparr>pr_created := ''later''\<rparr>)" by (simp add: redate_def)
    with Some show ?thesis unfolding verifyCredentialStructural_def s h
      by (simp add: d Let_def cong del: if_weak_cong split: option.splits)
  qed
  then show "verifyCredential lib nowMs (redate vc) verifyHash = verifyCredential lib nowMs vc verifyHash"
    unfolding verifyCredential_def redate_sel by (simp only:)
qed

theorem one_signature_one_body_witness:
  "json_of (credential_value (demo_signed ''now'')) = json_of (credential_value (redate (demo_signed ''now'')))"
proof -
  have "\<exists>res. verifyCredential demo_vc_lib 5000 (demo_signed ''now'') demo_verifyHash = Inr res \<and> vcr_valid res \<and> vcr_issues res = []"
    by (rule sign_then_verify [OF demo_signed(1), where classes = "[]"]) (auto simp: demo_facts split: if_splits)
  then obtain res where r: "verifyCredential demo_vc_lib 5000 (demo_signed ''now'') demo_verifyHash = Inr res" "vcr_valid res" by blast
  have "wf_jsval (credential_value (demo_signed ''now''))"
    unfolding demo_signed(2)
    by (simp add: credential_value_def demo_draft_def strs_value_def str_value_def status_value_def schema_value_def)
  moreover have r': "verifyCredential demo_vc_lib 5000 (redate (demo_signed ''now'')) demo_verifyHash = Inr res"
    using r by (simp add: redate_irrelevant)
  ultimately show ?thesis
    by (intro one_signature_one_body [OF r r' r(2) refl]) (simp_all add: redate_irrelevant)
qed

theorem shape_uri_roundtrip_witness: "parseShapeUri ''did:shape:agreement:1.0'' = Some (''agreement'', ''1.0'')"
  by (rule shape_uri_roundtrip) code_simp

end
