(* ===== verification/Content.thy ===== *)
theory Content
  imports Merkle Credentials
begin

section \<open>Content: references, candidates, entitlements, descriptors\<close>

text \<open>
  \<open>packages/content-primitives/src\<close>: canonical references (\<open>reference.ts\<close>), the screening of candidate
  descriptors (\<open>resolution.ts\<close>), the access decision and citations (\<open>entitlement.ts\<close>), and the signed
  descriptor with its verification (\<open>descriptor.ts\<close>), which uses the Merkle tree and the canonicalizer of
  the credentials. Unicode normalization, SHA-256, the date parser and the injected signature checks are
  parameters. The theory shows what a verified descriptor establishes, that a built one verifies, which
  candidates are admitted and when access is allowed, and where the hashed texts are ambiguous.
\<close>

record content_lib =
  cl_viem :: viem_lib
  cl_sha256 :: "bytes \<Rightarrow> hex"
  cl_NFC :: "string \<Rightarrow> string"
  cl_getTime :: "string \<Rightarrow> int option"

definition epoch_seconds :: "content_lib \<Rightarrow> string \<Rightarrow> int option" where
  "epoch_seconds lib s = map_option (\<lambda>ms. ms div 1000) (cl_getTime lib s)"

subsection \<open>References\<close>

record canonical_locus_envelope =
  cle_idScheme :: string
  cle_contentDomain :: string
  cle_locusProfile :: string
  cle_canonicalLocus :: jsval

record canonical_reference =
  crf_id :: hex
  crf_envelope :: canonical_locus_envelope
  crf_alias :: "string option"

definition LOCUS_ID_DOMAIN_SEP :: string where
  "LOCUS_ID_DOMAIN_SEP = ''ap:canonical-locus-id:v1'' @ [CHR 0x00]"

definition envelope_value :: "canonical_locus_envelope \<Rightarrow> jsval" where
  "envelope_value e = JObject 0
     [(''idScheme'', JString (cle_idScheme e)), (''contentDomain'', JString (cle_contentDomain e)),
      (''locusProfile'', JString (cle_locusProfile e)), (''canonicalLocus'', cle_canonicalLocus e)]"

definition computeCanonicalId :: "viem_lib \<Rightarrow> canonical_locus_envelope \<Rightarrow> hex js" where
  "computeCanonicalId vm e =
     js_bind (jcsCanonicalize (envelope_value e) ''$'') (\<lambda>s.
       Inr (vm_keccakBytes vm (vm_toBytes vm LOCUS_ID_DOMAIN_SEP @ vm_toBytes vm s)))"

definition canonicalReference :: "viem_lib \<Rightarrow> canonical_locus_envelope \<Rightarrow> string option \<Rightarrow> canonical_reference js" where
  "canonicalReference vm e alias =
     js_bind (computeCanonicalId vm e) (\<lambda>i.
       Inr \<lparr>crf_id = i, crf_envelope = e, crf_alias = (if truthy alias then alias else None)\<rparr>)"

definition corpusRef :: "viem_lib \<Rightarrow> address \<Rightarrow> string \<Rightarrow> string \<Rightarrow> hex" where
  "corpusRef vm issuer edition version =
     keccak_text vm (toLowerCase issuer @ ''/'' @ edition @ ''/'' @ version)"

subsection \<open>Descriptors\<close>

record work_meta =
  wm_title :: "string option"
  wm_abbreviation :: "string option"
  wm_language :: "string option"
  wm_edition :: "string option"
  wm_rightsStatus :: "string option"

record content_commitment =
  cc_type :: string
  cc_normalization :: string
  cc_algorithm :: string
  cc_value :: hex

record issuer_ref =
  ir_address :: address
  ir_did :: "string option"

record content_descriptor =
  cd_id :: string
  cd_canonicalId :: hex
  cd_contentType :: string
  cd_issuer :: issuer_ref
  cd_issuedAt :: string
  cd_status :: string
  cd_descriptorVersion :: "string option"
  cd_validFrom :: "string option"
  cd_validUntil :: "string option"
  cd_revocationRef :: "string option"
  cd_work :: "work_meta option"
  cd_selector :: jsval
  cd_commitment :: "content_commitment option"
  cd_retrievalPointer :: string
  cd_proofPolicy :: string
  cd_accessPolicy :: string
  cd_corpusRef :: "hex option"
  cd_signature :: hex
  cd_delegatingSigner :: "delegating_signer option"

subsection \<open>Screening candidates\<close>

record resolution_constraints =
  rc_contentType :: "string option"
  rc_language :: "string option"
  rc_rightsStatus :: "string list option"
  rc_trustProfile :: "string option"

record candidate =
  ca_descriptor :: content_descriptor
  ca_issuerTrusted :: bool
  ca_admitted :: bool
  ca_reason :: "string option"

record trust_profile_config =
  tp_profile :: string
  tp_trustedIssuers :: "address list"
  tp_allowedRightsStatus :: "string list option"
  tp_requireTrustedIssuer :: bool

definition issuerIn :: "address list \<Rightarrow> address \<Rightarrow> bool" where
  "issuerIn xs issuer \<longleftrightarrow> (\<exists>a \<in> set xs. eq_ci a issuer)"

definition candidate_reason ::
  "trust_profile_config \<Rightarrow> resolution_constraints \<Rightarrow> bool \<Rightarrow> content_descriptor \<Rightarrow> string option" where
  "candidate_reason profile constraints issuerTrusted d =
     (if cd_status d \<noteq> ''active'' then Some (''status '' @ cd_status d)
      else if tp_requireTrustedIssuer profile \<and> \<not> issuerTrusted then Some ''issuer not in trust profile allowlist''
      else if truthy (rc_contentType constraints) \<and> Some (cd_contentType d) \<noteq> rc_contentType constraints
      then Some ''contentType mismatch''
      else if truthy (rc_language constraints) \<and> truthy (Option.bind (cd_work d) wm_language) \<and>
              Option.bind (cd_work d) wm_language \<noteq> rc_language constraints
      then Some ''language mismatch''
      else
        let allowedRights = (case rc_rightsStatus constraints of Some r \<Rightarrow> Some r | None \<Rightarrow> tp_allowedRightsStatus profile);
            rs = (case Option.bind (cd_work d) wm_rightsStatus of Some r \<Rightarrow> r | None \<Rightarrow> ''unknown'')
        in case allowedRights of
             Some (r # rest) \<Rightarrow> (if rs \<notin> set (r # rest) then Some (''rightsStatus '' @ rs @ '' not permitted'') else None)
           | _ \<Rightarrow> None)"

definition resolveCandidates ::
  "canonical_reference \<Rightarrow> content_descriptor list \<Rightarrow> trust_profile_config \<Rightarrow> resolution_constraints \<Rightarrow> candidate list" where
  "resolveCandidates reference descriptors profile constraints =
     map (\<lambda>d. let issuerTrusted = issuerIn (tp_trustedIssuers profile) (ir_address (cd_issuer d));
                  reason = candidate_reason profile constraints issuerTrusted d
              in \<lparr>ca_descriptor = d, ca_issuerTrusted = issuerTrusted, ca_admitted = (reason = None), ca_reason = reason\<rparr>)
       (filter (\<lambda>d. eq_ci (cd_canonicalId d) (crf_id reference)) descriptors)"

subsection \<open>Entitlements and citations\<close>

text \<open>Of an entitlement credential the decision reads the corpus and the expiry.\<close>

record entitlement =
  ent_corpusRef :: hex
  ent_validUntil :: "string option"

datatype entitlement_decision = Allow | Deny string

definition evaluateEntitlement ::
  "content_lib \<Rightarrow> string \<Rightarrow> hex \<Rightarrow> entitlement option \<Rightarrow> int \<Rightarrow> entitlement_decision" where
  "evaluateEntitlement lib accessPolicy ref ent nowSeconds =
     (if accessPolicy = ''public'' then Allow
      else if accessPolicy \<noteq> ''licensed'' \<and> accessPolicy \<noteq> ''private'' then Deny (''unknown accessPolicy: '' @ accessPolicy)
      else case ent of
        None \<Rightarrow> Deny (accessPolicy @ '' corpus requires an entitlement'')
      | Some e \<Rightarrow>
          if \<not> eq_ci (ent_corpusRef e) ref then Deny ''entitlement is for a different corpus''
          else if truthy (ent_validUntil e) \<and>
                  (case epoch_seconds lib (the (ent_validUntil e)) of Some exp \<Rightarrow> exp < nowSeconds | None \<Rightarrow> False)
          then Deny ''entitlement expired''
          else Allow)"

record citation_input =
  ci_issuer :: string
  ci_subjectId :: string
  ci_canonicalId :: hex
  ci_descriptorId :: string
  ci_contentType :: string
  ci_citationKind :: string
  ci_commitment :: "content_commitment option"
  ci_commitmentVerified :: bool
  ci_contentIssuer :: address
  ci_from :: string
  ci_agentRunId :: "string option"
  ci_outputId :: "string option"
  ci_quoteSpanHash :: "hex option"
  ci_normalizationSpec :: "string option"
  ci_underEntitlement :: "string option"

definition commitment_value :: "content_commitment \<Rightarrow> jsval" where
  "commitment_value c = JObject 0
     [(''type'', JString (cc_type c)), (''normalization'', JString (cc_normalization c)),
      (''algorithm'', JString (cc_algorithm c)), (''value'', JString (cc_value c))]"

definition opt_member :: "string \<Rightarrow> string option \<Rightarrow> (string \<times> jsval) list" where
  "opt_member k v = (if truthy v then [(k, JString (the v))] else [])"

definition buildCitationAssertion :: "citation_input \<Rightarrow> credential" where
  "buildCitationAssertion ci =
     \<lparr>vc_context = Some [VC_CONTEXT_V2], vc_types = Some [''VerifiableCredential'', ''CitationAssertion''],
      vc_issuer = ci_issuer ci, vc_validFrom = ci_from ci, vc_validUntil = None,
      vc_credentialSubject = JObject 1
        ([(''id'', JString (ci_subjectId ci))] @ opt_member ''agentRunId'' (ci_agentRunId ci) @ opt_member ''outputId'' (ci_outputId ci) @
         [(''citationKind'', JString (ci_citationKind ci)), (''canonicalId'', JString (ci_canonicalId ci)),
          (''descriptorId'', JString (ci_descriptorId ci)), (''contentType'', JString (ci_contentType ci))] @
         (case ci_commitment ci of None \<Rightarrow> [] | Some c \<Rightarrow> [(''commitment'', commitment_value c)]) @
         [(''commitmentVerified'', JBool (ci_commitmentVerified ci))] @
         opt_member ''quoteSpanHash'' (ci_quoteSpanHash ci) @ opt_member ''normalizationSpec'' (ci_normalizationSpec ci) @
         [(''issuer'', JString (ci_contentIssuer ci))] @ opt_member ''underEntitlement'' (ci_underEntitlement ci)),
      vc_credentialStatus = None, vc_credentialSchema = None, vc_disclosurePolicy = JUndefined, vc_proof = None\<rparr>"

subsection \<open>Commitments\<close>

definition NORMALIZATION_V1 :: string where
  "NORMALIZATION_V1 = ''ap:normalization:canonical-text-v1''"

lemma length_strip_front: "length (strip_front f ps s) \<le> length s"
proof (induction f arbitrary: s)
  case (Suc f)
  show ?case
  proof (cases "find (startsWith s) ps")
    case (Some p)
    have "length (strip_front f ps (drop (length p) s)) \<le> length (drop (length p) s)" by (rule Suc.IH)
    also have "\<dots> \<le> length s" by simp
    finally show ?thesis by (simp add: Some)
  qed simp
qed simp

text \<open>\<open>s.replace(/\s+/g, ' ')\<close>: each run of white space becomes one space.\<close>

function collapse_ws :: "string \<Rightarrow> string" where
  "collapse_ws [] = []"
| "collapse_ws (c # s) =
     (case find (startsWith (c # s)) white_space of
        Some p \<Rightarrow> CHR '' '' # collapse_ws (strip_front (length s) white_space (drop (length p - 1) s))
      | None \<Rightarrow> c # collapse_ws s)"
  by pat_completeness auto
termination
proof (relation "measure length", goal_cases)
  case (3 c s p)
  have "length (strip_front (length s) white_space (drop (length p - 1) s)) \<le> length (drop (length p - 1) s)"
    by (rule length_strip_front)
  also have "\<dots> \<le> length s" by simp
  finally show ?case by simp
qed simp_all

definition canonicalizeRendering :: "content_lib \<Rightarrow> string \<Rightarrow> string" where
  "canonicalizeRendering lib text = js_trim (collapse_ws (cl_NFC lib text))"

definition contentCommitment :: "content_lib \<Rightarrow> string \<Rightarrow> content_commitment" where
  "contentCommitment lib text =
     \<lparr>cc_type = ''canonicalTextCommitment'', cc_normalization = NORMALIZATION_V1, cc_algorithm = ''sha-256'',
      cc_value = cl_sha256 lib (vm_toBytes (cl_viem lib) (canonicalizeRendering lib text))\<rparr>"

definition verifyCommitment :: "content_lib \<Rightarrow> string \<Rightarrow> content_commitment \<Rightarrow> bool" where
  "verifyCommitment lib text c =
     (if cc_algorithm c \<noteq> ''sha-256'' \<or> cc_normalization c \<noteq> NORMALIZATION_V1 then False
      else eq_ci (cc_value (contentCommitment lib text)) (cc_value c))"

definition assertCommitment :: "content_lib \<Rightarrow> string \<Rightarrow> content_commitment \<Rightarrow> unit js" where
  "assertCommitment lib text c =
     (if \<not> verifyCommitment lib text c then Inl (Error ''rendering does not match descriptor commitment'') else Inr ())"

subsection \<open>Signed descriptors\<close>

definition DESCRIPTOR_DOMAIN_SEP :: string where
  "DESCRIPTOR_DOMAIN_SEP = ''ap:content-descriptor:v1'' @ [CHR 0x00]"

text \<open>The JSON value of a descriptor without its signature and delegating signer.\<close>

definition work_value :: "work_meta option \<Rightarrow> jsval" where
  "work_value w = (case w of None \<Rightarrow> JUndefined | Some m \<Rightarrow> JObject 0
     [(''title'', str_value (wm_title m)), (''abbreviation'', str_value (wm_abbreviation m)),
      (''language'', str_value (wm_language m)), (''edition'', str_value (wm_edition m)),
      (''rightsStatus'', str_value (wm_rightsStatus m))])"

definition unsigned_value :: "content_descriptor \<Rightarrow> jsval" where
  "unsigned_value d = JObject 0
     [(''id'', JString (cd_id d)), (''canonicalId'', JString (cd_canonicalId d)), (''contentType'', JString (cd_contentType d)),
      (''issuer'', JObject 0 [(''address'', JString (ir_address (cd_issuer d))), (''did'', str_value (ir_did (cd_issuer d)))]),
      (''issuedAt'', JString (cd_issuedAt d)), (''status'', JString (cd_status d)), (''version'', str_value (cd_descriptorVersion d)),
      (''validFrom'', str_value (cd_validFrom d)), (''validUntil'', str_value (cd_validUntil d)),
      (''revocationRef'', str_value (cd_revocationRef d)), (''work'', work_value (cd_work d)), (''selector'', cd_selector d),
      (''commitment'', case cd_commitment d of None \<Rightarrow> JUndefined | Some c \<Rightarrow> commitment_value c),
      (''retrievalPointer'', JString (cd_retrievalPointer d)), (''proofPolicy'', JString (cd_proofPolicy d)),
      (''accessPolicy'', JString (cd_accessPolicy d)), (''corpusRef'', str_value (cd_corpusRef d))]"

definition descriptorHash :: "content_lib \<Rightarrow> content_descriptor \<Rightarrow> hex js" where
  "descriptorHash lib d =
     js_bind (jcsCanonicalize (unsigned_value d) ''$'') (\<lambda>s.
       Inr (vm_keccakBytes (cl_viem lib) (vm_toBytes (cl_viem lib) DESCRIPTOR_DOMAIN_SEP @ vm_toBytes (cl_viem lib) s)))"

definition buildContentDescriptor ::
  "content_lib \<Rightarrow> content_descriptor \<Rightarrow> (hex \<Rightarrow> hex js) \<Rightarrow> delegating_signer option \<Rightarrow> content_descriptor js" where
  "buildContentDescriptor lib input sign delegatingSigner =
     js_bind (descriptorHash lib input) (\<lambda>h.
     js_bind (sign h) (\<lambda>signature.
       Inr (input\<lparr>cd_signature := signature, cd_delegatingSigner := delegatingSigner\<rparr>)))"

record verify_descriptor_opts =
  vo_verifySignature :: "address \<Rightarrow> hex \<Rightarrow> hex \<Rightarrow> bool js"
  vo_verifyDelegatedAuthority :: "(delegating_signer \<Rightarrow> bool js) option"
  vo_corpusRoot :: "hex option"
  vo_inclusionProof :: "hex list option"
  vo_nowSeconds :: int

record descriptor_result =
  dr_ok :: bool
  dr_reason :: "string option"
  dr_signatureVerified :: bool
  dr_statusOk :: bool
  dr_withinValidity :: bool
  dr_inclusionVerified :: "bool option"

definition within_validity :: "content_lib \<Rightarrow> int \<Rightarrow> content_descriptor \<Rightarrow> bool" where
  "within_validity lib now d \<longleftrightarrow>
     (\<not> truthy (cd_validFrom d) \<or> (case epoch_seconds lib (the (cd_validFrom d)) of Some t \<Rightarrow> t \<le> now | None \<Rightarrow> False)) \<and>
     (\<not> truthy (cd_validUntil d) \<or> (case epoch_seconds lib (the (cd_validUntil d)) of Some t \<Rightarrow> t \<ge> now | None \<Rightarrow> False))"

definition section_sign :: string where
  "section_sign = [CHR 0xC2, CHR 0xA7]"

text \<open>The signature check: its answer, and the reason to give when it is no.\<close>

definition check_signature :: "verify_descriptor_opts \<Rightarrow> content_descriptor \<Rightarrow> hex \<Rightarrow> (bool \<times> string) js" where
  "check_signature opts d h =
     (case cd_delegatingSigner d of
        Some ds \<Rightarrow>
          (case vo_verifyDelegatedAuthority opts of
             None \<Rightarrow> Inr (False, ''descriptor is delegate-signed but no delegated-authority verifier was provided'')
           | Some verifyDelegatedAuthority \<Rightarrow>
               if \<not> eq_ci (ir_address (cd_issuer d)) (ds_delegatorIssuer ds)
               then Inr (False, ''delegatingSigner.delegatorIssuer '' @ neq_sign @ '' descriptor issuer'')
               else
                 js_bind (verifyDelegatedAuthority ds) (\<lambda>authOk.
                 js_bind (if authOk then vo_verifySignature opts (ds_delegateKey ds) h (cd_signature d) else Inr False) (\<lambda>sigOk.
                   Inr (sigOk, if \<not> authOk then ''issuer did not authorize the delegate signing key''
                               else ''delegate-key signature did not verify''))))
      | None \<Rightarrow>
          js_bind (vo_verifySignature opts (ir_address (cd_issuer d)) h (cd_signature d)) (\<lambda>ok.
            Inr (ok, ''issuer signature did not verify'')))"

text \<open>The answer, given the outcome of the signature check.\<close>

definition descriptor_verdict ::
  "content_lib \<Rightarrow> content_descriptor \<Rightarrow> verify_descriptor_opts \<Rightarrow> bool \<Rightarrow> string \<Rightarrow> descriptor_result" where
  "descriptor_verdict lib d opts signatureVerified sigReason =
     (let statusOk = (cd_status d = ''active'');
          withinValidity = within_validity lib (vo_nowSeconds opts) d;
          base = \<lparr>dr_ok = False, dr_reason = None, dr_signatureVerified = signatureVerified, dr_statusOk = statusOk,
            dr_withinValidity = withinValidity, dr_inclusionVerified = None\<rparr>
      in if \<not> statusOk then base\<lparr>dr_reason := Some (''descriptor status is '' @ cd_status d)\<rparr>
         else if \<not> withinValidity then base\<lparr>dr_reason := Some ''descriptor outside its validity window''\<rparr>
         else if \<not> signatureVerified then base\<lparr>dr_reason := Some sigReason\<rparr>
         else if cd_proofPolicy d = ''issuer-signature-v1'' \<or> cd_proofPolicy d = ''issuer-signature-and-hash-v1''
         then base\<lparr>dr_ok := True\<rparr>
         else if cd_proofPolicy d = ''merkle-membership-v1'' then
           (case (cd_commitment d, vo_inclusionProof opts) of
              (Some c, Some inclusionProof) \<Rightarrow>
                if \<not> truthy (vo_corpusRoot opts)
                then base\<lparr>dr_reason := Some ''merkle-membership-v1 requires commitment + corpusRoot + inclusionProof''\<rparr>
                else let included = verifyInclusion (cl_viem lib) (leafHash (cl_viem lib) (cc_value c)) inclusionProof
                           (the (vo_corpusRoot opts))
                  in base\<lparr>dr_ok := included, dr_inclusionVerified := Some included,
                          dr_reason := if included then None else Some ''commitment not included under corpusRoot''\<rparr>
            | _ \<Rightarrow> base\<lparr>dr_reason := Some ''merkle-membership-v1 requires commitment + corpusRoot + inclusionProof''\<rparr>)
         else base\<lparr>dr_reason := Some (''proofPolicy '' @ cd_proofPolicy d @ '' is reserved (spec 266 '' @
               section_sign @ ''6/'' @ section_sign @ ''8)'')\<rparr>)"

definition verifyContentDescriptor :: "content_lib \<Rightarrow> content_descriptor \<Rightarrow> verify_descriptor_opts \<Rightarrow> descriptor_result js" where
  "verifyContentDescriptor lib d opts =
     js_bind (descriptorHash lib d) (\<lambda>h.
     js_bind (check_signature opts d h) (\<lambda>(signatureVerified, sigReason).
       Inr (descriptor_verdict lib d opts signatureVerified sigReason)))"

subsection \<open>What a verified descriptor establishes\<close>

text \<open>The issuer signed: itself, or through a key whose authorization by the same issuer was checked.\<close>

definition signed_by_issuer :: "verify_descriptor_opts \<Rightarrow> content_descriptor \<Rightarrow> hex \<Rightarrow> bool" where
  "signed_by_issuer opts d h \<longleftrightarrow>
     (case cd_delegatingSigner d of
        None \<Rightarrow> vo_verifySignature opts (ir_address (cd_issuer d)) h (cd_signature d) = Inr True
      | Some ds \<Rightarrow>
          eq_ci (ir_address (cd_issuer d)) (ds_delegatorIssuer ds) \<and>
          (\<exists>check. vo_verifyDelegatedAuthority opts = Some check \<and> check ds = Inr True) \<and>
          vo_verifySignature opts (ds_delegateKey ds) h (cd_signature d) = Inr True)"

lemma check_signature_True:
  "check_signature opts d h = Inr (True, why) \<Longrightarrow> signed_by_issuer opts d h"
  by (auto simp: check_signature_def signed_by_issuer_def split: option.splits if_splits)

lemma signed_check: "signed_by_issuer opts d h \<Longrightarrow> \<exists>why. check_signature opts d h = Inr (True, why)"
  by (cases "cd_delegatingSigner d") (auto simp: check_signature_def signed_by_issuer_def)

lemma verified_descriptor:
  assumes "verifyContentDescriptor lib d opts = Inr r" and "dr_ok r"
  obtains h where "cd_status d = ''active''" and "within_validity lib (vo_nowSeconds opts) d" and "descriptorHash lib d = Inr h"
    and "signed_by_issuer opts d h"
    and "cd_proofPolicy d \<in> {''issuer-signature-v1'', ''issuer-signature-and-hash-v1''} \<or>
      cd_proofPolicy d = ''merkle-membership-v1'' \<and>
      (\<exists>c path root. cd_commitment d = Some c \<and> vo_inclusionProof opts = Some path \<and> vo_corpusRoot opts = Some root \<and>
         verifyInclusion (cl_viem lib) (leafHash (cl_viem lib) (cc_value c)) path root)"
proof -
  from assms obtain h v why where h: "descriptorHash lib d = Inr h" and c: "check_signature opts d h = Inr (v, why)"
    and ok: "dr_ok (descriptor_verdict lib d opts v why)"
    by (auto simp: verifyContentDescriptor_def)
  from ok have s: "cd_status d = ''active''" "within_validity lib (vo_nowSeconds opts) d" "v"
    by (auto simp: descriptor_verdict_def Let_def split: if_splits)
  then have "signed_by_issuer opts d h" using c check_signature_True by simp
  moreover have "cd_proofPolicy d \<in> {''issuer-signature-v1'', ''issuer-signature-and-hash-v1''} \<or>
      cd_proofPolicy d = ''merkle-membership-v1'' \<and>
      (\<exists>c path root. cd_commitment d = Some c \<and> vo_inclusionProof opts = Some path \<and> vo_corpusRoot opts = Some root \<and>
         verifyInclusion (cl_viem lib) (leafHash (cl_viem lib) (cc_value c)) path root)"
    using ok s by (auto simp: descriptor_verdict_def Let_def truthy_def split: if_splits option.splits)
  ultimately show thesis using that s h by blast
qed

text \<open>
  C23: A descriptor that verifies with a proof of 32-byte siblings, against the root built from the commitments of a
  corpus, is active, within its dates, signed for by its issuer over its own hash, and its commitment is one of
  those the root was built from, where the hash does not collide on the inputs of the tree and of the proof.
  The verifier itself does not check the length of the siblings, and with an empty one it accepts a commitment
  outside the corpus (\<open>empty_sibling\<close>).
\<close>

theorem verified_descriptor_in_corpus:
  assumes "verifyContentDescriptor lib d opts = Inr r" and "dr_ok r"
    and "cd_proofPolicy d = ''merkle-membership-v1''" and "cd_commitment d = Some c"
    and "vo_inclusionProof opts = Some path" and "list_all hash32 path"
    and "vo_corpusRoot opts = Some (merkleRoot (cl_viem lib) (map (leafHash (cl_viem lib)) cs))" and "cs \<noteq> []"
    and "keccak_law (cl_viem lib) digest"
    and "inj_on digest (set (tree_inputs (cl_viem lib) cs @ leaf_inputs (cl_viem lib) (cc_value c) @
           fold_inputs (cl_viem lib) (leafHash (cl_viem lib) (cc_value c)) path))"
  shows "cd_status d = ''active'' \<and> within_validity lib (vo_nowSeconds opts) d \<and>
    (\<exists>h. descriptorHash lib d = Inr h \<and> signed_by_issuer opts d h) \<and>
    vm_toBytes (cl_viem lib) (cc_value c) \<in> vm_toBytes (cl_viem lib) ` set cs"
  using assms(1,2)
proof (rule verified_descriptor)
  fix h assume v: "cd_status d = ''active''" "within_validity lib (vo_nowSeconds opts) d" "descriptorHash lib d = Inr h"
    "signed_by_issuer opts d h"
    and p: "cd_proofPolicy d \<in> {''issuer-signature-v1'', ''issuer-signature-and-hash-v1''} \<or>
      cd_proofPolicy d = ''merkle-membership-v1'' \<and>
      (\<exists>c path root. cd_commitment d = Some c \<and> vo_inclusionProof opts = Some path \<and> vo_corpusRoot opts = Some root \<and>
         verifyInclusion (cl_viem lib) (leafHash (cl_viem lib) (cc_value c)) path root)"
  from p assms have "verifyInclusion (cl_viem lib) (leafHash (cl_viem lib) (cc_value c)) path
      (merkleRoot (cl_viem lib) (map (leafHash (cl_viem lib)) cs))" by simp
  with assms(6,8-10) have "vm_toBytes (cl_viem lib) (cc_value c) \<in> vm_toBytes (cl_viem lib) ` set cs"
    by (blast intro: proof_is_of_a_leaf)
  with v show ?thesis by blast
qed

text \<open>What is published for an entry of a corpus verifies with the entry's own proof.\<close>

theorem published_descriptor_verifies:
  assumes "buildContentDescriptor lib input sign None = Inr d" and "cd_status input = ''active''"
    and "within_validity lib (vo_nowSeconds opts) input"
    and "\<And>h s. sign h = Inr s \<Longrightarrow> vo_verifySignature opts (ir_address (cd_issuer input)) h s = Inr True"
    and "cd_proofPolicy input = ''merkle-membership-v1''" and "cd_commitment input = Some c"
    and "i < length cs" and "cs ! i = cc_value c" and "keccak_law (cl_viem lib) digest"
    and "vo_corpusRoot opts = Some (merkleRoot (cl_viem lib) (map (leafHash (cl_viem lib)) cs))"
    and "vo_inclusionProof opts = Some (merkleProof (buildCorpusTree (cl_viem lib) (map (leafHash (cl_viem lib)) cs)) i)"
  shows "\<exists>r. verifyContentDescriptor lib d opts = Inr r \<and> dr_ok r"
proof -
  let ?vm = "cl_viem lib"
  from assms(1) obtain h s where h: "descriptorHash lib input = Inr h" and s: "sign h = Inr s"
    and d: "d = input\<lparr>cd_signature := s, cd_delegatingSigner := None\<rparr>"
    by (auto simp: buildContentDescriptor_def)
  have "unsigned_value d = unsigned_value input" by (simp add: d unsigned_value_def)
  then have h': "descriptorHash lib d = Inr h" using h by (simp add: descriptorHash_def)
  have f: "cd_status d = cd_status input" "cd_validFrom d = cd_validFrom input" "cd_validUntil d = cd_validUntil input"
    "cd_proofPolicy d = cd_proofPolicy input" "cd_commitment d = cd_commitment input" "cd_issuer d = cd_issuer input"
    "cd_signature d = s" "cd_delegatingSigner d = None"
    by (simp_all add: d)
  have "signed_by_issuer opts d h" using assms(4) [OF s] by (simp add: signed_by_issuer_def f)
  then obtain why where c: "check_signature opts d h = Inr (True, why)" using signed_check by blast
  have w: "within_validity lib (vo_nowSeconds opts) d" using assms(3) by (simp add: within_validity_def f)
  have "cs \<noteq> []" using assms(7) by auto
  then have "hash32 (merkleRoot ?vm (map (leafHash ?vm) cs))"
    using root_in_tree tree_node_hash [OF assms(9)] by blast
  then have root: "truthy (vo_corpusRoot opts)" by (auto simp: assms(10) truthy_def hash32_def startsWith_def)
  have "verifyInclusion ?vm (leafHash ?vm (cc_value c)) (merkleProof (buildCorpusTree ?vm (map (leafHash ?vm) cs)) i)
      (merkleRoot ?vm (map (leafHash ?vm) cs))"
    using every_leaf_has_a_proof [OF assms(9,7)] by (simp add: assms(8))
  then show ?thesis
    using h' c w root assms(2,5,6,10,11) by (simp add: verifyContentDescriptor_def descriptor_verdict_def f Let_def)
qed

subsection \<open>Candidates, access and ambiguous texts\<close>

text \<open>Candidates are the descriptors of the reference, in order, each with its screening; none is dropped.\<close>

lemma candidates_are_the_descriptors:
  "map ca_descriptor (resolveCandidates reference ds profile constraints) = filter (\<lambda>d. eq_ci (cd_canonicalId d) (crf_id reference)) ds"
  by (simp add: resolveCandidates_def Let_def comp_def)

text \<open>Nothing is admitted but an active descriptor of the reference, by a trusted issuer where the profile asks for one.\<close>

theorem admitted_candidate:
  assumes "k \<in> set (resolveCandidates reference ds profile constraints)" and "ca_admitted k"
  shows "ca_descriptor k \<in> set ds \<and> eq_ci (cd_canonicalId (ca_descriptor k)) (crf_id reference) \<and>
    cd_status (ca_descriptor k) = ''active'' \<and>
    (tp_requireTrustedIssuer profile \<longrightarrow> (\<exists>a \<in> set (tp_trustedIssuers profile). eq_ci a (ir_address (cd_issuer (ca_descriptor k))))) \<and>
    (rc_rightsStatus constraints = None \<longrightarrow> (case tp_allowedRightsStatus profile of
       Some (r # rs) \<Rightarrow> (case Option.bind (cd_work (ca_descriptor k)) wm_rightsStatus of Some x \<Rightarrow> x | None \<Rightarrow> ''unknown'') \<in> set (r # rs)
     | _ \<Rightarrow> True))"
proof -
  from assms obtain d where k: "ca_descriptor k = d" and d: "d \<in> set ds" "eq_ci (cd_canonicalId d) (crf_id reference)"
    and none: "candidate_reason profile constraints (issuerIn (tp_trustedIssuers profile) (ir_address (cd_issuer d))) d = None"
    by (auto simp: resolveCandidates_def Let_def)
  have "cd_status d = ''active''" using none by (simp add: candidate_reason_def split: if_splits)
  moreover have "tp_requireTrustedIssuer profile \<longrightarrow> issuerIn (tp_trustedIssuers profile) (ir_address (cd_issuer d))"
    using none by (simp add: candidate_reason_def split: if_splits)
  moreover have "rc_rightsStatus constraints = None \<longrightarrow> (case tp_allowedRightsStatus profile of
       Some (r # rs) \<Rightarrow> (case Option.bind (cd_work d) wm_rightsStatus of Some x \<Rightarrow> x | None \<Rightarrow> ''unknown'') \<in> set (r # rs)
     | _ \<Rightarrow> True)"
    using none by (auto simp: candidate_reason_def Let_def split: if_splits option.splits list.splits)
  ultimately show ?thesis using d unfolding k issuerIn_def by blast
qed

text \<open>
  A caller's rights constraint replaces the profile's, so it can widen it: with an empty list every posture
  is admitted, whatever the profile allows.
\<close>

lemma rights_constraint_replaces_the_profile:
  "rc_rightsStatus constraints = Some [] \<Longrightarrow> rc_contentType constraints = None \<Longrightarrow> rc_language constraints = None \<Longrightarrow>
   cd_status d = ''active'' \<Longrightarrow> \<not> tp_requireTrustedIssuer profile \<Longrightarrow> candidate_reason profile constraints trusted d = None"
  by (simp add: candidate_reason_def truthy_def)

theorem access_allowed_iff:
  "evaluateEntitlement lib accessPolicy ref ent now = Allow \<longleftrightarrow>
     accessPolicy = ''public'' \<or>
     accessPolicy \<in> {''licensed'', ''private''} \<and>
     (\<exists>e. ent = Some e \<and> eq_ci (ent_corpusRef e) ref \<and>
        (truthy (ent_validUntil e) \<longrightarrow> (\<forall>t. epoch_seconds lib (the (ent_validUntil e)) = Some t \<longrightarrow> now \<le> t)))"
  by (auto simp: evaluateEntitlement_def split: option.splits)

text \<open>An expiry that is not a date is no expiry.\<close>

lemma unreadable_expiry_never_expires:
  "cl_getTime lib until = None \<Longrightarrow> ent_validUntil e = Some until \<Longrightarrow> eq_ci (ent_corpusRef e) ref \<Longrightarrow>
   evaluateEntitlement lib ''licensed'' ref (Some e) now = Allow"
  by (simp add: evaluateEntitlement_def epoch_seconds_def)

text \<open>A slash may move from the edition to the version without changing the corpus reference.\<close>

lemma corpusRef_ambiguous:
  "corpusRef vm issuer (edition @ ''/'' @ x) version = corpusRef vm issuer edition (x @ ''/'' @ version)"
  by (simp add: corpusRef_def)

text \<open>A locus id and a descriptor hash are never digests of the same bytes.\<close>

lemma domains_are_separate:
  assumes "vm_toBytes vm LOCUS_ID_DOMAIN_SEP = TextEncoder LOCUS_ID_DOMAIN_SEP"
    and "vm_toBytes vm DESCRIPTOR_DOMAIN_SEP = TextEncoder DESCRIPTOR_DOMAIN_SEP"
  shows "vm_toBytes vm LOCUS_ID_DOMAIN_SEP @ a \<noteq> vm_toBytes vm DESCRIPTOR_DOMAIN_SEP @ b"
  unfolding assms by (auto simp: LOCUS_ID_DOMAIN_SEP_def DESCRIPTOR_DOMAIN_SEP_def TextEncoder_def byte_of_char_def)

text \<open>A rendering of plain characters is its own canonical form.\<close>

lemma collapse_plain: "\<forall>c \<in> set s. plain_char c \<Longrightarrow> collapse_ws s = s"
proof (induction s)
  case (Cons c s)
  have "find (startsWith (c # s)) white_space = None"
    using Cons.prems by (intro find_plain [OF white_space_not_plain(1)]) auto
  with Cons show ?case by simp
qed simp

lemma canonicalize_plain: "\<forall>c \<in> set s. plain_char c \<Longrightarrow> cl_NFC lib s = s \<Longrightarrow> canonicalizeRendering lib s = s"
  by (simp add: canonicalizeRendering_def collapse_plain js_trim_free)

text \<open>
  \<open>toBytes\<close> reads a rendering that looks like hex as hex: the renderings \<open>0x41\<close> and \<open>A\<close> have one commitment.
\<close>

theorem hex_rendering_collides:
  assumes "\<And>s. cl_NFC lib s = s" and "vm_toBytes (cl_viem lib) ''0x41'' = [0x41]" and "vm_toBytes (cl_viem lib) ''A'' = [0x41]"
  shows "contentCommitment lib ''0x41'' = contentCommitment lib ''A'' \<and> verifyCommitment lib ''A'' (contentCommitment lib ''0x41'')"
proof -
  have "canonicalizeRendering lib ''0x41'' = ''0x41''" "canonicalizeRendering lib ''A'' = ''A''"
    by (rule canonicalize_plain; simp add: plain_char_def assms(1))+
  then show ?thesis using assms(2,3) by (simp add: contentCommitment_def verifyCommitment_def)
qed

subsection \<open>A corpus to evaluate the definitions on\<close>

definition demo_content :: content_lib where
  "demo_content = \<lparr>cl_viem = short_viem, cl_sha256 = (\<lambda>b. ''0x'' @ bytes_hex b), cl_NFC = (\<lambda>s. s), cl_getTime = (\<lambda>s. Some 5000)\<rparr>"

definition demo_commitment :: content_commitment where
  "demo_commitment = \<lparr>cc_type = ''canonicalTextCommitment'', cc_normalization = NORMALIZATION_V1, cc_algorithm = ''sha-256'',
     cc_value = ''0xAA''\<rparr>"

lemma demo_commitment_value [simp]: "cc_value demo_commitment = ''0xAA''"
  by (simp add: demo_commitment_def)

definition demo_descriptor :: content_descriptor where
  "demo_descriptor = \<lparr>cd_id = ''d1'', cd_canonicalId = ''0x01'', cd_contentType = ''text.passage'',
     cd_issuer = \<lparr>ir_address = ''0xIssuer'', ir_did = None\<rparr>, cd_issuedAt = ''2026'', cd_status = ''active'', cd_descriptorVersion = None,
     cd_validFrom = None, cd_validUntil = None, cd_revocationRef = None, cd_work = None, cd_selector = JUndefined,
     cd_commitment = Some demo_commitment,
     cd_retrievalPointer = ''ipfs'', cd_proofPolicy = ''merkle-membership-v1'', cd_accessPolicy = ''public'', cd_corpusRef = None,
     cd_signature = [], cd_delegatingSigner = None\<rparr>"

definition demo_verify_opts :: "hex list \<Rightarrow> verify_descriptor_opts" where
  "demo_verify_opts path = \<lparr>vo_verifySignature = (\<lambda>a h s. Inr (s = h)), vo_verifyDelegatedAuthority = None,
     vo_corpusRoot = Some (merkleRoot short_viem (map (leafHash short_viem) demo_commitments)), vo_inclusionProof = Some path,
     vo_nowSeconds = 5\<rparr>"

lemma demo_viem [simp]: "cl_viem demo_content = short_viem"
  by (simp add: demo_content_def)

definition demo_published :: content_descriptor where
  "demo_published = projr (buildContentDescriptor demo_content demo_descriptor Inr None)"

lemma demo_build: "buildContentDescriptor demo_content demo_descriptor Inr None = Inr demo_published"
proof -
  have "jcs_ok (unsigned_value demo_descriptor)"
    by (auto simp: unsigned_value_def demo_descriptor_def str_value_def work_value_def commitment_value_def)
  then have "jcsCanonicalize (unsigned_value demo_descriptor) ''$'' = Inr (print (json_of (unsigned_value demo_descriptor)))"
    unfolding jcs_iff by blast
  then have "\<exists>h. descriptorHash demo_content demo_descriptor = Inr h" unfolding descriptorHash_def by simp
  then show ?thesis by (auto simp: demo_published_def buildContentDescriptor_def)
qed

theorem published_descriptor_verifies_witness:
  "\<exists>r. verifyContentDescriptor demo_content demo_published
     (demo_verify_opts (merkleProof (buildCorpusTree short_viem (map (leafHash short_viem) demo_commitments)) 0)) = Inr r \<and> dr_ok r"
  by (rule published_descriptor_verifies [OF demo_build, where cs = demo_commitments and i = 0 and digest = short_digest and c = demo_commitment])
    (simp_all add: demo_descriptor_def demo_verify_opts_def within_validity_def truthy_def demo_commitments_def short_law)

text \<open>The first entry's proof is the second entry's leaf.\<close>

lemma demo_path:
  "merkleProof (buildCorpusTree short_viem (map (leafHash short_viem) demo_commitments)) 0 = [leafHash short_viem ''0xbbbb'']"
  using demo_tree [of short_viem]
  by (simp add: merkleProof_def buildCorpusTree_def Let_def) (simp add: demo_commitments_def)

lemma demo_verifies:
  obtains r where "verifyContentDescriptor demo_content demo_published (demo_verify_opts [leafHash short_viem ''0xbbbb'']) = Inr r" and "dr_ok r"
proof -
  obtain h where h: "descriptorHash demo_content demo_descriptor = Inr h"
    and p: "demo_published = demo_descriptor\<lparr>cd_signature := h, cd_delegatingSigner := None\<rparr>"
    using demo_build by (auto simp: buildContentDescriptor_def)
  have "unsigned_value demo_published = unsigned_value demo_descriptor" by (simp add: p unsigned_value_def)
  then have h': "descriptorHash demo_content demo_published = Inr h" using h by (simp add: descriptorHash_def)
  have root: "truthy (Some (merkleRoot short_viem (map (leafHash short_viem) demo_commitments)))"
    using root_in_tree [of demo_commitments short_viem] tree_node_hash [OF short_law]
    by (force simp: demo_commitments_def truthy_def hash32_def startsWith_def)
  have "verifyInclusion short_viem (leafHash short_viem ''0xAA'') [leafHash short_viem ''0xbbbb'']
      (merkleRoot short_viem (map (leafHash short_viem) demo_commitments))"
    using every_leaf_has_a_proof [OF short_law, of 0 demo_commitments] demo_path by (simp add: demo_commitments_def)
  with root h' have "verifyContentDescriptor demo_content demo_published (demo_verify_opts [leafHash short_viem ''0xbbbb'']) =
      Inr \<lparr>dr_ok = True, dr_reason = None, dr_signatureVerified = True, dr_statusOk = True, dr_withinValidity = True,
        dr_inclusionVerified = Some True\<rparr>"
    by (simp add: verifyContentDescriptor_def check_signature_def descriptor_verdict_def p demo_verify_opts_def Let_def)
      (simp add: demo_descriptor_def within_validity_def truthy_def)
  then show thesis using that by simp
qed

theorem verified_descriptor_in_corpus_witness:
  "vm_toBytes short_viem ''0xAA'' \<in> vm_toBytes short_viem ` set demo_commitments"
proof -
  obtain r where r: "verifyContentDescriptor demo_content demo_published (demo_verify_opts [leafHash short_viem ''0xbbbb'']) = Inr r" "dr_ok r"
    by (rule demo_verifies)
  obtain s where d: "demo_published = demo_descriptor\<lparr>cd_signature := s, cd_delegatingSigner := None\<rparr>"
    using demo_build by (auto simp: buildContentDescriptor_def) metis
  have p: "cd_proofPolicy demo_published = ''merkle-membership-v1''" "cd_commitment demo_published = Some demo_commitment"
    by (simp_all add: d demo_descriptor_def)
  show ?thesis
    using verified_descriptor_in_corpus [OF r p(1,2), of "[leafHash short_viem ''0xbbbb'']" demo_commitments short_digest] demo_no_collision
    by (simp add: demo_verify_opts_def leaf_hash32 [OF short_law] short_law) (simp add: demo_commitments_def)
qed

theorem admitted_candidate_witness:
  "cd_status (ca_descriptor \<lparr>ca_descriptor = demo_descriptor, ca_issuerTrusted = True, ca_admitted = True, ca_reason = None\<rparr>) = ''active''"
  using admitted_candidate [of "\<lparr>ca_descriptor = demo_descriptor, ca_issuerTrusted = True, ca_admitted = True, ca_reason = None\<rparr>"
      "\<lparr>crf_id = ''0x01'', crf_envelope = e, crf_alias = None\<rparr>" "[demo_descriptor]"
      "\<lparr>tp_profile = ''public-domain-demo'', tp_trustedIssuers = [''0xIssuer''], tp_allowedRightsStatus = None, tp_requireTrustedIssuer = True\<rparr>"
      "\<lparr>rc_contentType = None, rc_language = None, rc_rightsStatus = None, rc_trustProfile = None\<rparr>" for e]
  by (simp add: resolveCandidates_def candidate_reason_def issuerIn_def truthy_def demo_descriptor_def)

theorem access_allowed_iff_witness:
  "evaluateEntitlement demo_content ''licensed'' ''0xAB'' (Some \<lparr>ent_corpusRef = ''0xAB'', ent_validUntil = Some ''2026''\<rparr>) 5 = Allow"
  unfolding access_allowed_iff by (simp add: epoch_seconds_def demo_content_def)

theorem hex_rendering_collides_witness:
  "contentCommitment demo_content ''0x41'' = contentCommitment demo_content ''A''"
proof -
  have "vm_toBytes short_viem ''0x41'' = [0x41]" "vm_toBytes short_viem ''A'' = [0x41]" by code_simp+
  then show ?thesis using hex_rendering_collides [of demo_content] by (simp add: demo_content_def)
qed

end
