(* ===== verification/Jwt.thy ===== *)
theory Jwt
  imports Base64url CanonicalJson
begin

section \<open>Sign-in: compact signed tokens\<close>

text \<open>
  What the token layers of \<open>packages/connect/src/token.ts\<close> and \<open>packages/connect-auth/src/sessions.ts\<close>
  share: the three-part token \<open>base64url(header).base64url(payload).base64url(signature)\<close>, the reading of
  its JSON parts, and the platform. Web Crypto and \<open>Buffer\<close> are parameters: a runtime has \<open>Buffer.from(s,
  'base64')\<close> or falls back to \<open>atob\<close>, as the decoder of the code does. JSON numbers are integers.
\<close>

subsection \<open>The platform\<close>

record jwt_lib =
  jw_Buffer_from_base64 :: "(string \<Rightarrow> bytes) option"
  jw_subtle_sign :: "string \<Rightarrow> string \<Rightarrow> bytes \<Rightarrow> bytes js"
  jw_subtle_verify :: "string \<Rightarrow> string \<Rightarrow> bytes \<Rightarrow> bytes \<Rightarrow> bool js"
  jw_sha256 :: "bytes \<Rightarrow> bytes"
  jw_hmac :: "bytes \<Rightarrow> bytes \<Rightarrow> bytes"

definition base64urlDecode :: "jwt_lib \<Rightarrow> string \<Rightarrow> bytes js" where
  "base64urlDecode lib s =
     (case jw_Buffer_from_base64 lib of
        Some buffer_from \<Rightarrow> Inr (buffer_from (pad4 (map unurl_char s)))
      | None \<Rightarrow> base64urlToBytes s)"

text \<open>\<open>Buffer.from\<close> reads what \<open>btoa\<close> of the same bytes writes.\<close>

definition buffer_law :: "jwt_lib \<Rightarrow> bool" where
  "buffer_law lib \<longleftrightarrow>
     (\<forall>f. jw_Buffer_from_base64 lib = Some f \<longrightarrow> (\<forall>bs. f (pad4 (map unurl_char (bytesToBase64url bs))) = bs))"

lemma base64urlDecode_encode [simp]: "buffer_law lib \<Longrightarrow> base64urlDecode lib (bytesToBase64url bs) = Inr bs"
  by (auto simp: base64urlDecode_def buffer_law_def split: option.splits)

subsection \<open>Reading JSON\<close>

text \<open>
  \<open>j.k\<close>: of \<open>null\<close> it throws; of any other value but an object it is \<open>undefined\<close> (no name that is read
  is a property of strings, numbers or arrays).
\<close>

definition json_get :: "json \<Rightarrow> string \<Rightarrow> json option js" where
  "json_get j k = (case j of Null \<Rightarrow> Inl TypeError | Obj ms \<Rightarrow> Inr (map_of ms k) | _ \<Rightarrow> Inr None)"

text \<open>\<open>String(j)\<close>, as in a template literal.\<close>

fun json_text :: "json \<Rightarrow> string" where
  "json_text Null = ''null''"
| "json_text (Bool b) = (if b then ''true'' else ''false'')"
| "json_text (Num n) = int_str n"
| "json_text (Str s) = s"
| "json_text (Arr xs) = join '','' (map (\<lambda>x. if x = Null then [] else json_text x) xs)"
| "json_text (Obj ms) = ''[object Object]''"

definition opt_text :: "json option \<Rightarrow> string" where
  "opt_text j = (case j of None \<Rightarrow> ''undefined'' | Some v \<Rightarrow> json_text v)"

text \<open>\<open>{ ...(v ? { k: v } : {}) }\<close> for an optional string.\<close>

definition str_member :: "string \<Rightarrow> string option \<Rightarrow> (string \<times> json) list" where
  "str_member k v = (case v of Some s \<Rightarrow> if s = [] then [] else [(k, Str s)] | None \<Rightarrow> [])"

subsection \<open>Tokens\<close>

definition signing_input :: "json \<Rightarrow> json \<Rightarrow> string" where
  "signing_input header payload = base64urlEncode (print header) @ ''.'' @ base64urlEncode (print payload)"

definition compact_token :: "string \<Rightarrow> bytes \<Rightarrow> string" where
  "compact_token input sig = input @ ''.'' @ bytesToBase64url sig"

definition token_parts :: "string \<Rightarrow> (string \<times> string \<times> string) option" where
  "token_parts token = (case split_on (CHR ''.'') token of [h, p, s] \<Rightarrow> Some (h, p, s) | _ \<Rightarrow> None)"

text \<open>\<open>JSON.parse(new TextDecoder().decode(base64urlDecode(part)))\<close> inside a \<open>try\<close>.\<close>

definition json_part :: "jwt_lib \<Rightarrow> string \<Rightarrow> json option" where
  "json_part lib part = (case base64urlDecode lib part of Inl e \<Rightarrow> None | Inr bs \<Rightarrow> JSON_parse (TextDecoder bs))"

lemma base64urlEncode_no_dot [simp]: "CHR ''.'' \<notin> set (base64urlEncode s)"
  by (simp add: base64urlEncode_def)

lemma token_parts_compact [simp]:
  "token_parts (compact_token (signing_input header payload) sig) =
     Some (base64urlEncode (print header), base64urlEncode (print payload), bytesToBase64url sig)"
  by (simp add: token_parts_def compact_token_def signing_input_def)

lemma json_part_print [simp]:
  "buffer_law lib \<Longrightarrow> wf_json j \<Longrightarrow> json_part lib (base64urlEncode (print j)) = Some j"
  by (simp add: json_part_def base64urlEncode_def JSON_parse_print)

lemma join_split_on [simp]: "join [c] (split_on c s) = s"
proof -
  have cons: "join [c] ((a # x) # xs) = a # join [c] (x # xs)" for a :: char and x :: string and xs
    by (cases xs) simp_all
  show ?thesis
  proof (induction s)
    case (Cons a s)
    then show ?case by (cases "split_on c s") (auto simp: cons)
  qed simp
qed

lemma token_parts_input: "token_parts token = Some (h, p, s) \<Longrightarrow> token = h @ ''.'' @ p @ ''.'' @ s"
  using join_split_on [of "CHR ''.''" token] by (auto simp: token_parts_def simp del: join_split_on split: list.split_asm)

text \<open>A string claim and an integer claim of a parsed payload.\<close>

definition str_claim :: "json option \<Rightarrow> string option" where
  "str_claim j = (case j of Some (Str s) \<Rightarrow> Some s | _ \<Rightarrow> None)"

definition num_claim :: "json option \<Rightarrow> int option" where
  "num_claim j = (case j of Some (Num n) \<Rightarrow> Some n | _ \<Rightarrow> None)"

lemma str_claim_simps [simp]: "str_claim (Some (Str s)) = Some s" "str_claim None = None"
  by (simp_all add: str_claim_def)

lemma num_claim_simps [simp]: "num_claim (Some (Num n)) = Some n" "num_claim None = None"
  by (simp_all add: num_claim_def)

lemma str_claim_Some [simp]: "str_claim j = Some s \<longleftrightarrow> j = Some (Str s)"
  by (auto simp: str_claim_def split: option.splits json.splits)

lemma num_claim_Some [simp]: "num_claim j = Some n \<longleftrightarrow> j = Some (Num n)"
  by (auto simp: num_claim_def split: option.splits json.splits)

end
