(* ===== verification/SessionCookies.thy ===== *)
theory SessionCookies
  imports Jwt ServiceMac
begin

section \<open>Sign-in: session cookies, CSRF tokens, address salts\<close>

text \<open>
  \<open>packages/connect-auth/src\<close>: the HS256 session cookie with rotating keys (\<open>sessions.ts\<close>), the CSRF token
  (\<open>csrf.ts\<close>), the salts of deterministic account addresses (\<open>salt.ts\<close>) and the universal signature check
  (\<open>verify-signature.ts\<close>). The environment of the process and its clock are a record. The theory gives the
  exact conditions under which a cookie and a CSRF token are accepted, and shows that sessions survive a
  rotation of the keys as long as the signing key is still among them.
\<close>

subsection \<open>The process\<close>

text \<open>
  \<open>hexToBytes\<close> is \<open>viem\<close>'s; it throws on text that is not hex. \<open>NODE_ENV === 'production'\<close> is a truth value.
\<close>

record auth_env =
  ae_lib :: jwt_lib
  ae_hexToBytes :: "hex \<Rightarrow> bytes js"
  ae_SESSION_JWT_SECRETS :: "string option"
  ae_CSRF_SECRET :: "string option"
  ae_production :: bool
  ae_nowMs :: int

definition env_now :: "auth_env \<Rightarrow> int" where
  "env_now env = ae_nowMs env div 1000"

definition with0x :: "string \<Rightarrow> string" where
  "with0x h = (if startsWith h ''0x'' then h else ''0x'' @ h)"

definition env_production :: "auth_env \<Rightarrow> bool option \<Rightarrow> bool" where
  "env_production env developmentMode \<longleftrightarrow> developmentMode \<noteq> Some True \<and> ae_production env"

subsection \<open>The session keys\<close>

record signing_key =
  sk_kid :: string
  sk_secret :: bytes

definition SESSION_TTL_SECONDS :: int where "SESSION_TTL_SECONDS = 86400"

definition DEFAULT_SESSION_CLOCK_SKEW_SEC :: int where "DEFAULT_SESSION_CLOCK_SKEW_SEC = 30"

text \<open>One entry \<open>kid:hex\<close>; \<open>None\<close> is the entry that is skipped.\<close>

definition key_entry :: "auth_env \<Rightarrow> string \<Rightarrow> signing_key option js" where
  "key_entry env piece =
     (let trimmed = js_trim piece in
      if trimmed = [] then Inr None
      else let kid = takeWhile (\<lambda>c. c \<noteq> CHR '':'') trimmed in
        if CHR '':'' \<notin> set trimmed \<or> kid = []
        then Inl (Error (''connect-auth: malformed SESSION_JWT_SECRETS entry '' @ [CHR 0x22] @ trimmed @ [CHR 0x22] @
               '' (expected '' @ [CHR 0x22] @ ''kid:hex'' @ [CHR 0x22] @ '')''))
        else js_bind (ae_hexToBytes env (with0x (drop (Suc (length kid)) trimmed))) (\<lambda>secret.
          if length secret < 16
          then Inl (Error (''connect-auth: SESSION_JWT_SECRETS key '' @ [CHR 0x22] @ kid @ [CHR 0x22] @
                 '' too short (need '' @ ge_sign @ '' 16 bytes)''))
          else Inr (Some \<lparr>sk_kid = kid, sk_secret = secret\<rparr>)))"

fun key_entries :: "auth_env \<Rightarrow> string list \<Rightarrow> signing_key list js" where
  "key_entries env [] = Inr []"
| "key_entries env (p # ps) =
     js_bind (key_entry env p) (\<lambda>k. js_bind (key_entries env ps) (\<lambda>ks.
       Inr (case k of None \<Rightarrow> ks | Some key \<Rightarrow> key # ks)))"

definition loadKeys :: "auth_env \<Rightarrow> signing_key list js" where
  "loadKeys env =
     (case ae_SESSION_JWT_SECRETS env of
        Some (c # s) \<Rightarrow>
          js_bind (key_entries env (split_on (CHR '','') (c # s))) (\<lambda>keys.
            if keys = [] then Inl (Error ''connect-auth: SESSION_JWT_SECRETS resolved to zero usable keys'') else Inr keys)
      | _ \<Rightarrow> Inl (Error (''connect-auth: SESSION_JWT_SECRETS is required (format: kid1:hex,kid2:hex). '' @
               ''Generate one: openssl rand -hex 32'')))"

subsection \<open>Session cookies\<close>

text \<open>
  The payload is the caller's claims with \<open>sid\<close>, \<open>iat\<close> and \<open>exp\<close> set; \<open>fresh\<close> is \<open>randomSid()\<close>: the hex of 16
  random bytes.
\<close>

definition session_sid :: "(string \<times> json) list \<Rightarrow> string \<Rightarrow> json" where
  "session_sid claims fresh = (case map_of claims ''sid'' of None \<Rightarrow> Str fresh | Some Null \<Rightarrow> Str fresh | Some v \<Rightarrow> v)"

definition randomSid :: "bytes \<Rightarrow> string" where
  "randomSid bs = bytes_hex bs"

definition cookie_payload :: "(string \<times> json) list \<Rightarrow> string \<Rightarrow> int \<Rightarrow> (string \<times> json) list" where
  "cookie_payload claims fresh now =
     upsert ''exp'' (Num (now + SESSION_TTL_SECONDS)) (upsert ''iat'' (Num now) (upsert ''sid'' (session_sid claims fresh) claims))"

definition cookie_header :: "signing_key \<Rightarrow> json" where
  "cookie_header signer = Obj [(''alg'', Str ''HS256''), (''typ'', Str ''JWT''), (''kid'', Str (sk_kid signer))]"

definition mintSession :: "auth_env \<Rightarrow> bytes \<Rightarrow> (string \<times> json) list \<Rightarrow> string js" where
  "mintSession env random claims =
     js_bind (loadKeys env) (\<lambda>keys.
       let signer = hd keys;
           signingInput = signing_input (cookie_header signer) (Obj (cookie_payload claims (randomSid random) (env_now env))) in
       Inr (compact_token signingInput (jw_hmac (ae_lib env) (sk_secret signer) (TextEncoder signingInput))))"

record verify_session_opts =
  vs_expectedIss :: "string option"
  vs_expectedAud :: "string option"
  vs_clockSkewSec :: "int option"
  vs_developmentMode :: "bool option"

definition json_true :: "json option \<Rightarrow> bool" where
  "json_true j = (case j of None \<Rightarrow> False | Some Null \<Rightarrow> False | Some (Bool b) \<Rightarrow> b | Some (Num n) \<Rightarrow> n \<noteq> 0
     | Some (Str s) \<Rightarrow> s \<noteq> [] | _ \<Rightarrow> True)"

definition try_order :: "signing_key list \<Rightarrow> json option \<Rightarrow> signing_key list" where
  "try_order keys kid =
     (if json_true kid
      then filter (\<lambda>k. Some (Str (sk_kid k)) = kid) keys @ filter (\<lambda>k. Some (Str (sk_kid k)) \<noteq> kid) keys else keys)"

definition any_key_signed :: "auth_env \<Rightarrow> signing_key list \<Rightarrow> string \<Rightarrow> bytes \<Rightarrow> bool" where
  "any_key_signed env keys signingInput presented \<longleftrightarrow>
     list_ex (\<lambda>k. constantTimeEqual (jw_hmac (ae_lib env) (sk_secret k) (TextEncoder signingInput)) presented) keys"

definition aud_refused :: "string option \<Rightarrow> json option \<Rightarrow> bool" where
  "aud_refused expected aud =
     (case expected of
        None \<Rightarrow> False
      | Some a \<Rightarrow> (case aud of Some (Str s) \<Rightarrow> s \<noteq> a | Some (Arr xs) \<Rightarrow> Str a \<notin> set xs | _ \<Rightarrow> True))"

text \<open>The checks that follow a good signature.\<close>

definition cookie_claims_verdict :: "auth_env \<Rightarrow> verify_session_opts \<Rightarrow> json \<Rightarrow> json option js" where
  "cookie_claims_verdict env opts claims =
     (let now = env_now env;
          skew = (case vs_clockSkewSec opts of Some c \<Rightarrow> c | None \<Rightarrow> DEFAULT_SESSION_CLOCK_SKEW_SEC) in
      js_bind (json_get claims ''exp'') (\<lambda>ex.
        if (case num_claim ex of None \<Rightarrow> True | Some e \<Rightarrow> e + skew < now) then Inr None
        else js_bind (json_get claims ''iat'') (\<lambda>iat.
          if (case num_claim iat of None \<Rightarrow> True | Some i \<Rightarrow> i - skew > now) then Inr None
          else js_bind (json_get claims ''iss'') (\<lambda>iss.
            if vs_expectedIss opts \<noteq> None \<and> str_claim iss \<noteq> vs_expectedIss opts then Inr None
            else js_bind (json_get claims ''aud'') (\<lambda>aud.
              if aud_refused (vs_expectedAud opts) aud then Inr None else Inr (Some claims))))))"

definition verifySession :: "auth_env \<Rightarrow> string \<Rightarrow> verify_session_opts \<Rightarrow> json option js" where
  "verifySession env cookie opts =
     (if env_production env (vs_developmentMode opts) \<and> \<not> truthy (vs_expectedIss opts)
      then Inl (Error (''[connect-auth] verifySession requires `expectedIss` in production. '' @
             ''Without it any session cookie minted by any broker passes the iss check, '' @
             ''defeating the R5.10 / P1-1 closure. Pass the canonical broker URI as '' @
             ''opts.expectedIss; for tests, pass `developmentMode: true`.''))
      else if env_production env (vs_developmentMode opts) \<and> \<not> truthy (vs_expectedAud opts)
      then Inl (Error (''[connect-auth] verifySession requires `expectedAud` in production. '' @
             ''Without it a session minted for relying app A can be replayed at '' @
             ''relying app B even when they share the broker. Pass the relying app '' @
             ''audience id as opts.expectedAud; for tests, pass `developmentMode: true`.''))
      else if cookie = [] then Inr None
      else case token_parts cookie of
        None \<Rightarrow> Inr None
      | Some (h, p, s) \<Rightarrow>
          (case (json_part (ae_lib env) h, json_part (ae_lib env) p) of
             (Some header, Some claims) \<Rightarrow>
               js_bind (json_get header ''alg'') (\<lambda>alg.
                 if alg \<noteq> Some (Str ''HS256'') then Inr None
                 else js_bind (base64urlDecode (ae_lib env) s) (\<lambda>presented.
                   case loadKeys env of
                     Inl e \<Rightarrow> Inr None
                   | Inr keys \<Rightarrow>
                       js_bind (json_get header ''kid'') (\<lambda>kid.
                         if \<not> any_key_signed env (try_order keys kid) (h @ ''.'' @ p) presented then Inr None
                         else cookie_claims_verdict env opts claims)))
           | _ \<Rightarrow> Inr None))"

subsection \<open>CSRF tokens\<close>

definition CSRF_VALIDITY_SECONDS :: int where "CSRF_VALIDITY_SECONDS = 60 * 60"

definition loadCsrfSecret :: "auth_env \<Rightarrow> bytes js" where
  "loadCsrfSecret env =
     (case ae_CSRF_SECRET env of
        Some (c # s) \<Rightarrow>
          js_bind (ae_hexToBytes env (with0x (c # s))) (\<lambda>secret.
            if length secret < 16
            then Inl (Error (''connect-auth: CSRF_SECRET too short (need '' @ ge_sign @ '' 16 bytes)'')) else Inr secret)
      | _ \<Rightarrow> Inl (Error ''connect-auth: CSRF_SECRET (hex) is required. Generate one: openssl rand -hex 32''))"

record csrf_bindings =
  cb_method :: "string option"
  cb_path :: "string option"
  cb_sessionSid :: "string option"

definition binding_member :: "string \<Rightarrow> string option \<Rightarrow> (string \<times> json) list" where
  "binding_member k v = (case v of Some s \<Rightarrow> [(k, Str s)] | None \<Rightarrow> [])"

definition csrf_stamp :: "string \<Rightarrow> csrf_bindings \<Rightarrow> int \<Rightarrow> json" where
  "csrf_stamp origin b ts = Obj
     ([(''origin'', Str origin), (''ts'', Num ts)] @ binding_member ''method'' (cb_method b) @
      binding_member ''path'' (cb_path b) @ binding_member ''sessionSid'' (cb_sessionSid b))"

definition csrfTokenFor :: "auth_env \<Rightarrow> string \<Rightarrow> csrf_bindings \<Rightarrow> string js" where
  "csrfTokenFor env origin b =
     js_bind (loadCsrfSecret env) (\<lambda>secret.
       let stampEnc = base64urlEncode (print (csrf_stamp origin b (env_now env))) in
       Inr (compact_token stampEnc (jw_hmac (ae_lib env) secret (TextEncoder stampEnc))))"

record csrf_verify_opts =
  cv_bindings :: csrf_bindings
  cv_actualOrigin :: string
  cv_allowedOrigins :: "string list"
  cv_developmentMode :: "bool option"

text \<open>\<open>(stamp.k ?? undefined) !== (opts.k ?? undefined)\<close>: a stamped \<open>null\<close> counts as absent.\<close>

definition binding_differs :: "json option \<Rightarrow> string option \<Rightarrow> bool" where
  "binding_differs stamped expected \<longleftrightarrow> (if stamped = Some Null then None else stamped) \<noteq> map_option Str expected"

definition csrf_stamp_ok :: "auth_env \<Rightarrow> csrf_verify_opts \<Rightarrow> json \<Rightarrow> bool js" where
  "csrf_stamp_ok env opts stamp =
     js_bind (json_get stamp ''origin'') (\<lambda>origin. js_bind (json_get stamp ''ts'') (\<lambda>ts.
       case (str_claim origin, num_claim ts) of
         (Some stamped, Some t) \<Rightarrow>
           if cv_actualOrigin opts = [] \<or> stamped \<noteq> cv_actualOrigin opts then Inr False
           else if cv_actualOrigin opts \<notin> set (cv_allowedOrigins opts) then Inr False
           else js_bind (json_get stamp ''method'') (\<lambda>m.
             if binding_differs m (cb_method (cv_bindings opts)) then Inr False
             else js_bind (json_get stamp ''path'') (\<lambda>p.
               if binding_differs p (cb_path (cv_bindings opts)) then Inr False
               else js_bind (json_get stamp ''sessionSid'') (\<lambda>s.
                 if binding_differs s (cb_sessionSid (cv_bindings opts)) then Inr False
                 else let now = env_now env in
                   if now - t > CSRF_VALIDITY_SECONDS \<or> now < t then Inr False else Inr True)))
       | _ \<Rightarrow> Inr False))"

definition verifyCsrf :: "auth_env \<Rightarrow> string \<Rightarrow> csrf_verify_opts \<Rightarrow> bool js" where
  "verifyCsrf env token opts =
     (if env_production env (cv_developmentMode opts) \<and> cv_actualOrigin opts = []
      then Inl (Error (''[connect-auth] verifyCsrf requires a non-empty `actualOrigin` in production. '' @
             ''Without it the request-origin binding is bypassed, re-opening the R5.11 / P1-2 '' @
             ''finding. Pass the inbound `Origin` header (or parsed `Referer`) as '' @
             ''opts.actualOrigin; for tests, pass `developmentMode: true`.''))
      else if token = [] then Inr False
      else case split_on (CHR ''.'') token of
        [stampEnc, sigEnc] \<Rightarrow>
          (case json_part (ae_lib env) stampEnc of
             None \<Rightarrow> Inr False
           | Some stamp \<Rightarrow>
               js_bind (csrf_stamp_ok env opts stamp) (\<lambda>fine.
                 if \<not> fine then Inr False
                 else js_bind (loadCsrfSecret env) (\<lambda>secret.
                   let expected = jw_hmac (ae_lib env) secret (TextEncoder stampEnc) in
                   js_bind (base64urlDecode (ae_lib env) sigEnc) (\<lambda>presented.
                     Inr (constantTimeEqual expected presented)))))
      | _ \<Rightarrow> Inr False)"

subsection \<open>Salts of account addresses\<close>

text \<open>The salt is the first eight bytes of the hash, read as a hex number.\<close>

definition keccakHex :: "(bytes \<Rightarrow> bytes) \<Rightarrow> string \<Rightarrow> hex" where
  "keccakHex keccak input = ''0x'' @ bytes_hex (keccak (TextEncoder input))"

definition salt_from :: "(bytes \<Rightarrow> bytes) \<Rightarrow> string \<Rightarrow> int js" where
  "salt_from keccak input = (case BigInt_text (take 18 (keccakHex keccak input)) of None \<Rightarrow> Inl SyntaxError | Some n \<Rightarrow> Inr n)"

definition deriveSaltFromLabel :: "(bytes \<Rightarrow> bytes) \<Rightarrow> string \<Rightarrow> int js" where
  "deriveSaltFromLabel keccak label =
     (if label = [] then Inl (Error ''deriveSaltFromLabel: label must be a non-empty string'') else salt_from keccak label)"

definition email_preimage :: "string \<Rightarrow> int \<Rightarrow> string \<Rightarrow> string" where
  "email_preimage email rotation secret = email @ '':'' @ int_str rotation @ '':'' @ secret"

definition salt_secret_error :: js_error where
  "salt_secret_error = Error (''deriveSaltFromEmail: { secret } is required (H7-B.10 / PKG-CONNECT-AUTH-002 closure) '' @ em_dash @
                     '' pass a per-deployment secret ('' @ ge_sign @ '' 16 chars) so the SA address is not a public function '' @
                     ''of the user'' @ [CHR 0x27] @ ''s email. Source from a deployment env var / KMS-managed secret.'')"

definition deriveSaltFromEmail :: "(bytes \<Rightarrow> bytes) \<Rightarrow> string \<Rightarrow> number \<Rightarrow> string option \<Rightarrow> int js" where
  "deriveSaltFromEmail keccak email rotation secret =
     (if email = [] then Inl (Error ''deriveSaltFromEmail: email must be a non-empty string'')
      else case rotation of
        NonInteger \<Rightarrow> Inl (Error ''deriveSaltFromEmail: rotation must be a non-negative integer'')
      | Whole n \<Rightarrow>
          if n < 0 then Inl (Error ''deriveSaltFromEmail: rotation must be a non-negative integer'')
          else case secret of
            Some s \<Rightarrow>
              if length s < 16
              then Inl salt_secret_error
              else salt_from keccak (email_preimage email n s)
          | None \<Rightarrow> Inl salt_secret_error)"

subsection \<open>Universal signature verification\<close>

text \<open>The client calls the validator contract; \<open>simulateContract\<close> is optional. Arguments: validator, signer, hash, signature.\<close>

type_synonym contract_call = "address \<Rightarrow> address \<Rightarrow> hex \<Rightarrow> hex \<Rightarrow> bool js"

record validator_client =
  vc_readContract :: contract_call
  vc_simulateContract :: "contract_call option"

datatype signature_verdict = Sig_ok | Sig_invalid | Sig_rpc js_error | Sig_config string

definition call_verdict :: "bool js \<Rightarrow> signature_verdict" where
  "call_verdict answer = (case answer of Inr True \<Rightarrow> Sig_ok | Inr False \<Rightarrow> Sig_invalid | Inl e \<Rightarrow> Sig_rpc e)"

definition verifyUserSignatureView :: "validator_client \<Rightarrow> address \<Rightarrow> address \<Rightarrow> hex \<Rightarrow> hex \<Rightarrow> signature_verdict" where
  "verifyUserSignatureView client validator signer hash sg =
     call_verdict (vc_readContract client validator signer hash sg)"

definition verifyUserSignature :: "validator_client \<Rightarrow> address \<Rightarrow> address \<Rightarrow> hex \<Rightarrow> hex \<Rightarrow> signature_verdict" where
  "verifyUserSignature client validator signer hash sg =
     (case vc_simulateContract client of
        None \<Rightarrow> verifyUserSignatureView client validator signer hash sg
      | Some simulate \<Rightarrow> call_verdict (simulate validator signer hash sg))"

definition ERC6492_MAGIC :: hex where
  "ERC6492_MAGIC = ''0x6492649264926492649264926492649264926492649264926492649264926492''"

definition slice_last :: "nat \<Rightarrow> string \<Rightarrow> string" where
  "slice_last n s = drop (length s - n) s"

definition isErc6492Wrapped :: "hex \<Rightarrow> bool" where
  "isErc6492Wrapped sg =
     (if length sg < 2 + 64 then False
      else toLowerCase (slice_last 64 sg) = toLowerCase (drop 2 ERC6492_MAGIC))"

section \<open>What the sign-in tokens establish\<close>

subsection \<open>Session cookies\<close>

lemma set_try_order [simp]: "set (try_order keys kid) = set keys"
  by (auto simp: try_order_def)

lemma any_key_signed_iff [simp]:
  "any_key_signed env (try_order keys kid) m presented \<longleftrightarrow> (\<exists>k \<in> set keys. jw_hmac (ae_lib env) (sk_secret k) (TextEncoder m) = presented)"
  by (simp add: any_key_signed_def list_ex_iff)

lemma loadKeys_not_empty: "loadKeys env = Inr keys \<Longrightarrow> keys \<noteq> []"
  by (auto simp: loadKeys_def split: option.split_asm list.split_asm if_split_asm)

lemma accept_elim:
  "((if b then Inr None else z) = Inr (Some c)) \<longleftrightarrow> \<not> b \<and> z = Inr (Some c)"
  "((case y of None \<Rightarrow> Inr None | Some v \<Rightarrow> g v) = Inr (Some c)) \<longleftrightarrow> (\<exists>v. y = Some v \<and> g v = Inr (Some c))"
  "((case x of Inl e \<Rightarrow> Inr None | Inr k \<Rightarrow> f k) = Inr (Some c)) \<longleftrightarrow> (\<exists>k. x = Inr k \<and> f k = Inr (Some c))"
  by (auto split: sum.splits option.splits)

text \<open>The conditions on the claims, and the gate that production puts on the options.\<close>

definition cookie_current :: "auth_env \<Rightarrow> verify_session_opts \<Rightarrow> json \<Rightarrow> bool" where
  "cookie_current env opts claims \<longleftrightarrow>
     (\<exists>e i iss aud. json_get claims ''exp'' = Inr (Some (Num e)) \<and> json_get claims ''iat'' = Inr (Some (Num i)) \<and>
        (let skew = (case vs_clockSkewSec opts of Some c \<Rightarrow> c | None \<Rightarrow> 30) in env_now env \<le> e + skew \<and> i - skew \<le> env_now env) \<and>
        json_get claims ''iss'' = Inr iss \<and> (vs_expectedIss opts = None \<or> str_claim iss = vs_expectedIss opts) \<and>
        json_get claims ''aud'' = Inr aud \<and> \<not> aud_refused (vs_expectedAud opts) aud)"

definition options_gate :: "auth_env \<Rightarrow> verify_session_opts \<Rightarrow> bool" where
  "options_gate env opts \<longleftrightarrow>
     \<not> env_production env (vs_developmentMode opts) \<or> truthy (vs_expectedIss opts) \<and> truthy (vs_expectedAud opts)"

lemma exp_test: "(case num_claim ex of None \<Rightarrow> True | Some e \<Rightarrow> P e) \<longleftrightarrow> (\<forall>e. ex = Some (Num e) \<longrightarrow> P e)"
  by (auto split: option.split)

lemma cookie_claims_verdict_iff:
  "cookie_claims_verdict env opts claims = Inr (Some c) \<longleftrightarrow> c = claims \<and> cookie_current env opts claims"
proof (cases claims)
  case (Obj ms)
  then show ?thesis
    by (cases "vs_clockSkewSec opts") (auto simp: cookie_claims_verdict_def cookie_current_def Let_def accept_elim exp_test json_get_def
      DEFAULT_SESSION_CLOCK_SKEW_SEC_def)
qed (auto simp: cookie_claims_verdict_def cookie_current_def Let_def accept_elim json_get_def num_claim_def)

text \<open>
  A cookie is accepted exactly if some key of the process signed its header and payload, the header says
  HS256, and the claims are current. The order in which the keys are tried, and so the \<open>kid\<close> the header
  names, makes no difference.
\<close>

lemma verifySession_accepts:
  "verifySession env cookie opts = Inr (Some claims) \<longleftrightarrow>
     options_gate env opts \<and> cookie_current env opts claims \<and>
     (\<exists>h p s header keys k. token_parts cookie = Some (h, p, s) \<and> json_part (ae_lib env) h = Some header \<and>
        json_part (ae_lib env) p = Some claims \<and> json_get header ''alg'' = Inr (Some (Str ''HS256'')) \<and>
        loadKeys env = Inr keys \<and> k \<in> set keys \<and>
        base64urlDecode (ae_lib env) s = Inr (jw_hmac (ae_lib env) (sk_secret k) (TextEncoder (h @ ''.'' @ p))))"
  (is "?L \<longleftrightarrow> ?R")
proof
  assume L: ?L
  then have gate: "options_gate env opts"
    by (auto simp: verifySession_def options_gate_def split: if_split_asm)
  from L obtain h p s header cs keys k where "token_parts cookie = Some (h, p, s)"
    "json_part (ae_lib env) h = Some header" "json_part (ae_lib env) p = Some cs" "json_get header ''alg'' = Inr (Some (Str ''HS256''))"
    "base64urlDecode (ae_lib env) s = Inr (jw_hmac (ae_lib env) (sk_secret k) (TextEncoder (h @ ''.'' @ p)))"
    "loadKeys env = Inr keys" "k \<in> set keys" "cookie_claims_verdict env opts cs = Inr (Some claims)"
    by (auto simp: verifySession_def accept_elim split: if_split_asm)
  then show ?R using gate by (auto simp: cookie_claims_verdict_iff)
next
  assume R: ?R
  then obtain h p s header keys k where t: "token_parts cookie = Some (h, p, s)" "json_part (ae_lib env) h = Some header"
    "json_part (ae_lib env) p = Some claims" "json_get header ''alg'' = Inr (Some (Str ''HS256''))" "loadKeys env = Inr keys"
    "base64urlDecode (ae_lib env) s = Inr (jw_hmac (ae_lib env) (sk_secret k) (TextEncoder (h @ ''.'' @ p)))" and k: "k \<in> set keys"
    by blast
  from t(1) have c: "cookie \<noteq> []" by (auto simp: token_parts_def)
  from t(4) obtain kid where kid: "json_get header ''kid'' = Inr kid" by (cases header) (auto simp: json_get_def)
  from R have "cookie_claims_verdict env opts claims = Inr (Some claims)" by (simp add: cookie_claims_verdict_iff)
  with R k show ?L by (auto simp: verifySession_def t kid c options_gate_def)
qed

text \<open>Rotating the keys keeps every session whose signing secret is still among the keys.\<close>

lemma upsert_lookup [simp]: "map_of (upsert k v ms) k' = (if k' = k then Some v else map_of ms k')"
  by (induction k v ms rule: upsert.induct) auto

lemma fst_upsert: "fst ` set (upsert k v ms) = insert k (fst ` set ms)"
  by (induction k v ms rule: upsert.induct) auto

lemma upsert_distinct: "distinct (map fst ms) \<Longrightarrow> distinct (map fst (upsert k v ms))"
  by (induction k v ms rule: upsert.induct) (auto simp: fst_upsert)

lemma wf_upsert: "wf_json (Obj ms) \<Longrightarrow> wf_json v \<Longrightarrow> wf_json (Obj (upsert k v ms))"
proof -
  have "list_all snd (map (map_prod id wf_json) ms) \<Longrightarrow> wf_json v \<Longrightarrow> list_all snd (map (map_prod id wf_json) (upsert k v ms))"
    by (induction k v ms rule: upsert.induct) auto
  then show "wf_json (Obj ms) \<Longrightarrow> wf_json v \<Longrightarrow> ?thesis" by (simp add: upsert_distinct)
qed

lemma wf_member: "wf_json (Obj ms) \<Longrightarrow> map_of ms k = Some v \<Longrightarrow> wf_json v"
  by (induction ms) (auto split: if_split_asm)

lemma wf_session_sid: "wf_json (Obj claims) \<Longrightarrow> wf_json (session_sid claims fresh)"
proof -
  assume w: "wf_json (Obj claims)"
  show ?thesis
  proof (cases "map_of claims ''sid''")
    case (Some v)
    with wf_member [OF w Some] show ?thesis by (cases v) (simp_all add: session_sid_def)
  qed (simp add: session_sid_def)
qed

lemma wf_cookie_payload [simp]: "wf_json (Obj claims) \<Longrightarrow> wf_json (Obj (cookie_payload claims fresh now))"
  unfolding cookie_payload_def by (intro wf_upsert) (simp_all add: wf_session_sid)

lemma mintSession_cookie:
  assumes "mintSession env random claims = Inr cookie" and "loadKeys env = Inr keys"
  shows "cookie = compact_token (signing_input (cookie_header (hd keys)) (Obj (cookie_payload claims (randomSid random) (env_now env))))
    (jw_hmac (ae_lib env) (sk_secret (hd keys)) (TextEncoder (signing_input (cookie_header (hd keys))
       (Obj (cookie_payload claims (randomSid random) (env_now env))))))"
  using assms by (simp add: mintSession_def Let_def)

text \<open>C22: A session cookie minted under one key is accepted until its expiry by any key set that still holds that key, wherever the rotation has put it.\<close>

theorem session_survives_rotation:
  assumes "mintSession env random claims = Inr cookie" and "loadKeys env = Inr keys" and "loadKeys env' = Inr keys'"
    and "sk_secret (hd keys) \<in> sk_secret ` set keys'" and "ae_lib env' = ae_lib env" and "buffer_law (ae_lib env)"
    and "wf_json (Obj claims)" and "map_of claims ''iss'' = Some (Str iss)" and "vs_expectedIss opts = Some iss" and "iss \<noteq> []"
    and "truthy (vs_expectedAud opts)" and "\<not> aud_refused (vs_expectedAud opts) (map_of claims ''aud'')"
    and "vs_clockSkewSec opts = None" and "env_now env - 30 \<le> env_now env'" and "env_now env' \<le> env_now env + 86430"
  shows "verifySession env' cookie opts = Inr (Some (Obj (cookie_payload claims (randomSid random) (env_now env))))"
proof -
  let ?payload = "Obj (cookie_payload claims (randomSid random) (env_now env))"
  from assms(4) obtain k where k: "k \<in> set keys'" "sk_secret k = sk_secret (hd keys)" by auto
  have "wf_json (cookie_header (hd keys))" by (simp add: cookie_header_def)
  then have parts: "json_part (ae_lib env') (base64urlEncode (print (cookie_header (hd keys)))) = Some (cookie_header (hd keys))"
    "json_part (ae_lib env') (base64urlEncode (print ?payload)) = Some ?payload"
    unfolding assms(5) using json_part_print [OF assms(6)] wf_cookie_payload [OF assms(7)] by blast+
  have "options_gate env' opts" using assms(9-11) by (simp add: options_gate_def)
  moreover have "cookie_current env' opts ?payload"
    using assms(8,9,12-15) by (simp add: cookie_current_def json_get_def cookie_payload_def SESSION_TTL_SECONDS_def)
  moreover have "json_get (cookie_header (hd keys)) ''alg'' = Inr (Some (Str ''HS256''))" by (simp add: json_get_def cookie_header_def)
  moreover note token_parts_compact [of "cookie_header (hd keys)" ?payload
    "jw_hmac (ae_lib env) (sk_secret (hd keys)) (TextEncoder (signing_input (cookie_header (hd keys)) ?payload))"]
  moreover have "base64urlDecode (ae_lib env') (bytesToBase64url b) = Inr b" for b
    using assms(5,6) by simp
  ultimately show ?thesis
    using k(1) assms(3) parts unfolding verifySession_accepts mintSession_cookie [OF assms(1,2)]
    by (intro conjI exI [of _ k] exI) (assumption | simp only: k(2) assms(5) signing_input_def append_assoc)+
qed

subsection \<open>CSRF tokens\<close>

lemma split_stamp [simp]: "split_on (CHR ''.'') (compact_token (base64urlEncode s) sg) = [base64urlEncode s, bytesToBase64url sg]"
  by (simp add: compact_token_def)

lemma wf_csrf_stamp [simp]: "wf_json (csrf_stamp origin b ts)"
  by (simp add: csrf_stamp_def binding_member_def split: option.split)

lemma csrf_stamp_get:
  "json_get (csrf_stamp origin b ts) ''origin'' = Inr (Some (Str origin))"
  "json_get (csrf_stamp origin b ts) ''ts'' = Inr (Some (Num ts))"
  "json_get (csrf_stamp origin b ts) ''method'' = Inr (map_option Str (cb_method b))"
  "json_get (csrf_stamp origin b ts) ''path'' = Inr (map_option Str (cb_path b))"
  "json_get (csrf_stamp origin b ts) ''sessionSid'' = Inr (map_option Str (cb_sessionSid b))"
  by (simp_all add: json_get_def csrf_stamp_def binding_member_def split: option.split)

lemma binding_differs_stamped [simp]: "binding_differs (map_option Str a) b \<longleftrightarrow> a \<noteq> b"
proof -
  have "map_option Str a = map_option Str b \<longleftrightarrow> a = b" by (cases a; cases b) auto
  moreover have "map_option Str a \<noteq> Some Null" by (cases a) auto
  ultimately show ?thesis by (simp add: binding_differs_def)
qed

lemma csrf_stamp_ok_minted:
  "csrf_stamp_ok env opts (csrf_stamp origin b ts) =
     Inr (origin \<noteq> [] \<and> origin = cv_actualOrigin opts \<and> origin \<in> set (cv_allowedOrigins opts) \<and> b = cv_bindings opts \<and>
          ts \<le> env_now env \<and> env_now env \<le> ts + 3600)"
  by (auto simp: csrf_stamp_ok_def csrf_stamp_get Let_def CSRF_VALIDITY_SECONDS_def)

text \<open>
  A minted token is accepted exactly for its own origin, if it is allowed, with the same bindings and within
  the hour that follows. A token stamped by a clock that is ahead is refused: there is no tolerance.
\<close>

theorem csrf_token_accepted_iff:
  assumes "csrfTokenFor env origin b = Inr token" and "loadCsrfSecret env' = loadCsrfSecret env" and "ae_lib env' = ae_lib env"
    and "buffer_law (ae_lib env)" and "\<not> (env_production env' (cv_developmentMode opts) \<and> cv_actualOrigin opts = [])"
  shows "verifyCsrf env' token opts =
    Inr (origin \<noteq> [] \<and> cv_actualOrigin opts = origin \<and> origin \<in> set (cv_allowedOrigins opts) \<and> cv_bindings opts = b \<and>
         env_now env \<le> env_now env' \<and> env_now env' \<le> env_now env + 3600)"
proof -
  let ?stamp = "csrf_stamp origin b (env_now env)"
  obtain secret where s: "loadCsrfSecret env = Inr secret"
    and t: "token = compact_token (base64urlEncode (print ?stamp)) (jw_hmac (ae_lib env) secret (TextEncoder (base64urlEncode (print ?stamp))))"
    using assms(1) by (auto simp: csrfTokenFor_def Let_def)
  have "token \<noteq> []" by (simp add: t compact_token_def)
  then show ?thesis
    using assms(5) s by (auto simp: verifyCsrf_def t json_part_print [OF assms(4) wf_csrf_stamp] assms(2,3)
      base64urlDecode_encode [OF assms(4)] csrf_stamp_ok_minted)
qed

lemma refuse_elim: "((if b then Inr False else z) = Inr True) \<longleftrightarrow> \<not> b \<and> z = Inr True"
  by simp

lemma csrf_stamp_ok_conditions:
  assumes "csrf_stamp_ok env opts stamp = Inr True"
  shows "\<exists>t. json_get stamp ''origin'' = Inr (Some (Str (cv_actualOrigin opts))) \<and> cv_actualOrigin opts \<in> set (cv_allowedOrigins opts) \<and>
      json_get stamp ''ts'' = Inr (Some (Num t)) \<and> t \<le> env_now env \<and> env_now env \<le> t + 3600"
proof -
  from assms obtain or ts where g: "json_get stamp ''origin'' = Inr or" "json_get stamp ''ts'' = Inr ts"
    by (auto simp: csrf_stamp_ok_def)
  show ?thesis
  proof (cases "str_claim or"; cases "num_claim ts")
    fix s t assume c: "str_claim or = Some s" "num_claim ts = Some t"
    from assms c show ?thesis
      unfolding csrf_stamp_ok_def Let_def g js_bind_simps prod.case c option.case refuse_elim js_bind_Inr_iff CSRF_VALIDITY_SECONDS_def
      using g c by auto
  qed (use assms g in \<open>auto simp: csrf_stamp_ok_def simp del: str_claim_Some num_claim_Some\<close>)
qed

text \<open>What an accepted token establishes, whoever made it.\<close>

theorem csrf_acceptance_binds_request:
  assumes "verifyCsrf env token opts = Inr True"
  shows "\<exists>stampEnc sigEnc stamp secret t. token = stampEnc @ ''.'' @ sigEnc \<and> json_part (ae_lib env) stampEnc = Some stamp \<and>
    loadCsrfSecret env = Inr secret \<and> base64urlDecode (ae_lib env) sigEnc = Inr (jw_hmac (ae_lib env) secret (TextEncoder stampEnc)) \<and>
    json_get stamp ''origin'' = Inr (Some (Str (cv_actualOrigin opts))) \<and> cv_actualOrigin opts \<in> set (cv_allowedOrigins opts) \<and>
    json_get stamp ''ts'' = Inr (Some (Num t)) \<and> t \<le> env_now env \<and> env_now env \<le> t + 3600"
proof -
  from assms obtain stampEnc sigEnc stamp secret where p: "split_on (CHR ''.'') token = [stampEnc, sigEnc]"
    "json_part (ae_lib env) stampEnc = Some stamp" "csrf_stamp_ok env opts stamp = Inr True" "loadCsrfSecret env = Inr secret"
    "base64urlDecode (ae_lib env) sigEnc = Inr (jw_hmac (ae_lib env) secret (TextEncoder stampEnc))"
    by (auto simp: verifyCsrf_def Let_def split: if_split_asm list.split_asm option.split_asm)
  from join_split_on [of "CHR ''.''" token] p(1) have "token = stampEnc @ ''.'' @ sigEnc" by (simp del: join_split_on)
  moreover have "\<exists>t. json_get stamp ''origin'' = Inr (Some (Str (cv_actualOrigin opts))) \<and> cv_actualOrigin opts \<in> set (cv_allowedOrigins opts) \<and>
      json_get stamp ''ts'' = Inr (Some (Num t)) \<and> t \<le> env_now env \<and> env_now env \<le> t + 3600"
    using p(3) by (rule csrf_stamp_ok_conditions)
  ultimately show ?thesis using p by blast
qed

text \<open>A stamp that is the JSON text \<open>null\<close> is not refused: reading its origin throws.\<close>

lemma csrf_null_stamp_throws:
  assumes "buffer_law (ae_lib env)" and "\<not> (env_production env (cv_developmentMode opts) \<and> cv_actualOrigin opts = [])"
  shows "verifyCsrf env (compact_token (base64urlEncode (print Null)) sg) opts = Inl TypeError"
proof -
  have "wf_json Null" by simp
  from json_part_print [OF assms(1) this] assms(2) split_stamp [of "print Null" sg] show ?thesis
    by (auto simp: verifyCsrf_def csrf_stamp_ok_def json_get_def compact_token_def)
qed

subsection \<open>Salts\<close>

lemma radix_num_hex: "radix_num 16 acc (bytes_hex bs) = Some (foldl (\<lambda>n b. 256 * n + uint b) acc bs)"
proof (induction bs arbitrary: acc)
  case (Cons b bs)
  have "unat b div 16 < 16" by (simp add: less_mult_imp_div_less)
  moreover have "16 * int (unat b div 16) + int (unat b mod 16) = uint b"
    unfolding uint_nat by presburger
  then have "uint b = 16 * int (unat b div 16) + int (unat b mod 16)" by simp
  moreover have "bytes_hex (b # bs) = hex_digit (unat b div 16) # hex_digit (unat b mod 16) # bytes_hex bs"
    by (simp add: bytes_hex_def byte_hex_def)
  ultimately show ?case by (simp add: Cons add.assoc)
qed (simp add: bytes_hex_def)

lemma foldl_bytes_bound: "0 \<le> acc \<Longrightarrow> 0 \<le> foldl (\<lambda>n b. 256 * n + uint (b :: byte)) acc bs \<and>
    foldl (\<lambda>n b. 256 * n + uint b) acc bs < (acc + 1) * 256 ^ length bs"
proof (induction bs arbitrary: acc)
  case (Cons b bs)
  have b: "0 \<le> uint b" "uint b < 256" using uint_lt2p [of b] by simp_all
  then have "(256 * acc + uint b + 1) * 256 ^ length bs \<le> ((acc + 1) * 256) * 256 ^ length bs"
    by (intro mult_right_mono) simp_all
  also have "\<dots> = (acc + 1) * 256 ^ length (b # bs)" by simp
  finally have "(256 * acc + uint b + 1) * 256 ^ length bs \<le> (acc + 1) * 256 ^ length (b # bs)" .
  moreover have "0 \<le> 256 * acc + uint b" using Cons.prems b by simp
  ultimately show ?case using Cons.IH [of "256 * acc + uint b"] unfolding foldl_Cons by (meson less_le_trans)
qed simp

lemma hex_digit_plain: "n < 16 \<Longrightarrow> plain_char (hex_digit n)"
  by (simp add: hex_digit_def plain_char_def)

lemma bytes_hex_plain: "c \<in> set (bytes_hex bs) \<Longrightarrow> plain_char c"
  by (auto simp: bytes_hex_def byte_hex_def less_mult_imp_div_less intro!: hex_digit_plain)

lemma take_bytes_hex: "take (2 * n) (bytes_hex bs) = bytes_hex (take n bs)"
proof (induction bs arbitrary: n)
  case (Cons b bs)
  then show ?case by (cases n) (simp_all add: bytes_hex_def byte_hex_def)
qed (simp add: bytes_hex_def)

lemma BigInt_text_hex: "bs \<noteq> [] \<Longrightarrow> BigInt_text (''0x'' @ bytes_hex bs) = Some (foldl (\<lambda>n b. 256 * n + uint b) 0 bs)"
proof -
  have "plain_char (CHR ''0'')" "plain_char (CHR ''x'')" by (simp_all add: plain_char_def)
  then have "js_trim (''0x'' @ bytes_hex bs) = ''0x'' @ bytes_hex bs"
    by (intro js_trim_free) (auto dest: bytes_hex_plain)
  moreover assume "bs \<noteq> []"
  then have "bytes_hex bs \<noteq> []" by (cases bs) (simp_all add: bytes_hex_def byte_hex_def)
  ultimately show ?thesis by (simp add: BigInt_text_def digits_num_def radix_num_hex)
qed

lemma salt_from_value:
  "8 \<le> length (keccak (TextEncoder input)) \<Longrightarrow>
     salt_from keccak input = Inr (foldl (\<lambda>n b. 256 * n + uint b) 0 (take 8 (keccak (TextEncoder input))))"
proof -
  assume "8 \<le> length (keccak (TextEncoder input))"
  then have "take 8 (keccak (TextEncoder input)) \<noteq> []" by auto
  moreover have "take 18 (keccakHex keccak input) = ''0x'' @ bytes_hex (take 8 (keccak (TextEncoder input)))"
    using take_bytes_hex [of 8] by (simp add: keccakHex_def)
  ultimately show ?thesis using BigInt_text_hex by (simp add: salt_from_def)
qed

text \<open>
  With a digest of at least eight bytes every admissible call returns a salt, and every salt is an unsigned
  64-bit number.
\<close>

theorem salts_are_64_bit:
  assumes "\<And>m. 8 \<le> length (keccak m)" and "email \<noteq> []" and "0 \<le> rotation" and "16 \<le> length secret"
  shows "\<exists>n. deriveSaltFromEmail keccak email (Whole rotation) (Some secret) = Inr n \<and> 0 \<le> n \<and> n < 2 ^ 64"
proof -
  let ?d = "take 8 (keccak (TextEncoder (email_preimage email rotation secret)))"
  have "length ?d = 8" using assms(1) by simp
  then show ?thesis
    using assms foldl_bytes_bound [of 0 ?d] by (simp add: deriveSaltFromEmail_def salt_from_value)
qed

text \<open>Under one secret, the hashed text determines the address's email and rotation.\<close>

lemma split_last_colon:
  assumes "CHR '':'' \<notin> set b" and "CHR '':'' \<notin> set d" and "a @ CHR '':'' # b = c @ CHR '':'' # d"
  shows "a = c \<and> b = d"
proof -
  have "rev b @ CHR '':'' # rev a = rev d @ CHR '':'' # rev c"
    using arg_cong [OF assms(3), of rev] by simp
  with assms(1,2) append_sep_inject [of "CHR '':''" "rev b" "rev d" "rev a" "rev c"] show ?thesis by simp
qed

lemma email_preimage_injective:
  assumes "email_preimage e m s = email_preimage e' n s" and "0 \<le> m" and "0 \<le> n"
  shows "e = e' \<and> m = n"
proof -
  have colon: "CHR '':'' \<notin> set (int_str k)" if "0 \<le> k" for k
    using that nat_str_digits [of "CHR '':''" "nat k"] by (auto simp: int_str_def is_digit_def)
  from assms(1) have "e @ CHR '':'' # int_str m = e' @ CHR '':'' # int_str n" by (simp add: email_preimage_def)
  with colon assms(2,3) split_last_colon have "e = e' \<and> int_str m = int_str n" by blast
  with assms(2,3) show ?thesis by (auto simp: int_str_def eq_nat_nat_iff split: if_split_asm)
qed

subsection \<open>Universal signatures\<close>

text \<open>A bad signature and a failed call are told apart, and a failed call is never a good signature.\<close>

lemma verifyUserSignature_ok:
  "verifyUserSignature client validator signer hash sg = Sig_ok \<longleftrightarrow>
     (case vc_simulateContract client of Some f \<Rightarrow> f | None \<Rightarrow> vc_readContract client) validator signer hash sg = Inr True"
  by (auto simp: verifyUserSignature_def verifyUserSignatureView_def call_verdict_def split: option.splits sum.splits bool.splits)

lemma wrapped_iff:
  "isErc6492Wrapped sg \<longleftrightarrow> (\<exists>p s. sg = p @ s \<and> 2 \<le> length p \<and> length s = 64 \<and> toLowerCase s = drop 2 ERC6492_MAGIC)"
  (is "?L \<longleftrightarrow> ?R")
proof
  have lower: "toLowerCase (drop 2 ERC6492_MAGIC) = drop 2 ERC6492_MAGIC" by (simp add: ERC6492_MAGIC_def toLowerCase_def lower_char_def)
  show ?R if ?L
    using that lower by (intro exI [of _ "take (length sg - 64) sg"] exI [of _ "drop (length sg - 64) sg"])
      (auto simp: isErc6492Wrapped_def slice_last_def split: if_split_asm)
  show ?L if ?R
    using that lower by (auto simp: isErc6492Wrapped_def slice_last_def)
qed

subsection \<open>A process to evaluate the definitions on\<close>

definition demo_auth_env :: "string \<Rightarrow> int \<Rightarrow> auth_env" where
  "demo_auth_env secrets nowMs =
     \<lparr>ae_lib = \<lparr>jw_Buffer_from_base64 = None, jw_subtle_sign = (\<lambda>alg k m. Inr m), jw_subtle_verify = (\<lambda>alg k s m. Inr (s = m)),
        jw_sha256 = (\<lambda>b. b), jw_hmac = (\<lambda>k m. k @ m)\<rparr>,
      ae_hexToBytes = (\<lambda>h. Inr (TextEncoder h)), ae_SESSION_JWT_SECRETS = Some secrets,
      ae_CSRF_SECRET = Some ''000102030405060708090a0b0c0d0e0f'', ae_production = True, ae_nowMs = nowMs\<rparr>"

text \<open>A session minted under \<open>a\<close> verifies after \<open>b\<close> was put in front.\<close>

lemma demo_key_entry:
  "key_entry (demo_auth_env s t) ''a:0000111122223333'' = Inr (Some \<lparr>sk_kid = ''a'', sk_secret = TextEncoder ''0x0000111122223333''\<rparr>)"
  "key_entry (demo_auth_env s t) ''b:4444555566667777'' = Inr (Some \<lparr>sk_kid = ''b'', sk_secret = TextEncoder ''0x4444555566667777''\<rparr>)"
  by (simp_all add: key_entry_def js_trim_free plain_char_def demo_auth_env_def with0x_def startsWith_def TextEncoder_def)

lemma demo_loadKeys:
  "loadKeys (demo_auth_env ''a:0000111122223333'' t) = Inr [\<lparr>sk_kid = ''a'', sk_secret = TextEncoder ''0x0000111122223333''\<rparr>]"
  "loadKeys (demo_auth_env ''b:4444555566667777,a:0000111122223333'' t) =
     Inr [\<lparr>sk_kid = ''b'', sk_secret = TextEncoder ''0x4444555566667777''\<rparr>, \<lparr>sk_kid = ''a'', sk_secret = TextEncoder ''0x0000111122223333''\<rparr>]"
proof -
  have "ae_SESSION_JWT_SECRETS (demo_auth_env s t) = Some s" for s by (simp add: demo_auth_env_def)
  then show "loadKeys (demo_auth_env ''a:0000111122223333'' t) = Inr [\<lparr>sk_kid = ''a'', sk_secret = TextEncoder ''0x0000111122223333''\<rparr>]"
    "loadKeys (demo_auth_env ''b:4444555566667777,a:0000111122223333'' t) =
      Inr [\<lparr>sk_kid = ''b'', sk_secret = TextEncoder ''0x4444555566667777''\<rparr>, \<lparr>sk_kid = ''a'', sk_secret = TextEncoder ''0x0000111122223333''\<rparr>]"
    by (simp_all add: loadKeys_def demo_key_entry)
qed

definition demo_cookie_claims :: "(string \<times> json) list" where
  "demo_cookie_claims = [(''sub'', Str ''u''), (''iss'', Str ''https://b''), (''aud'', Arr [Str ''app'', Str ''app2''])]"

definition demo_vs_opts :: verify_session_opts where
  "demo_vs_opts = \<lparr>vs_expectedIss = Some ''https://b'', vs_expectedAud = Some ''app2'', vs_clockSkewSec = None, vs_developmentMode = None\<rparr>"

theorem session_survives_rotation_witness:
  "\<exists>cookie. mintSession (demo_auth_env ''a:0000111122223333'' 10000) [1, 2] demo_cookie_claims = Inr cookie \<and>
     verifySession (demo_auth_env ''b:4444555566667777,a:0000111122223333'' 60000) cookie demo_vs_opts =
       Inr (Some (Obj (cookie_payload demo_cookie_claims (randomSid [1, 2]) 10)))"
proof -
  obtain cookie where m: "mintSession (demo_auth_env ''a:0000111122223333'' 10000) [1, 2] demo_cookie_claims = Inr cookie"
    by (simp add: mintSession_def demo_loadKeys Let_def)
  have "env_now (demo_auth_env s t) = t div 1000" "buffer_law (ae_lib (demo_auth_env s t))" for s t
    by (simp_all add: env_now_def demo_auth_env_def buffer_law_def)
  with session_survives_rotation [OF m demo_loadKeys, of 60000 "''https://b''" demo_vs_opts] m show ?thesis
    by (simp add: demo_auth_env_def demo_cookie_claims_def demo_vs_opts_def aud_refused_def)
qed

theorem csrf_token_accepted_iff_witness:
  "\<exists>token. csrfTokenFor (demo_auth_env [] 10000) ''https://app'' \<lparr>cb_method = Some ''POST'', cb_path = None, cb_sessionSid = None\<rparr> = Inr token \<and>
     verifyCsrf (demo_auth_env [] 9000) token \<lparr>cv_bindings = \<lparr>cb_method = Some ''POST'', cb_path = None, cb_sessionSid = None\<rparr>,
       cv_actualOrigin = ''https://app'', cv_allowedOrigins = [''https://app''], cv_developmentMode = None\<rparr> = Inr False"
proof -
  have s: "loadCsrfSecret (demo_auth_env s t) = Inr (TextEncoder ''0x000102030405060708090a0b0c0d0e0f'')" for s t
    by (simp add: loadCsrfSecret_def demo_auth_env_def with0x_def startsWith_def TextEncoder_def)
  obtain token where m: "csrfTokenFor (demo_auth_env [] 10000) ''https://app''
      \<lparr>cb_method = Some ''POST'', cb_path = None, cb_sessionSid = None\<rparr> = Inr token"
    by (simp add: csrfTokenFor_def s Let_def)
  have "env_now (demo_auth_env s t) = t div 1000" "buffer_law (ae_lib (demo_auth_env s t))"
      "ae_lib (demo_auth_env s t) = ae_lib (demo_auth_env s u)" for s t u
    by (simp_all add: env_now_def demo_auth_env_def buffer_law_def)
  with csrf_token_accepted_iff [OF m, of "demo_auth_env [] 9000"] m s show ?thesis by force
qed

theorem csrf_acceptance_binds_request_witness:
  "\<exists>token secret. verifyCsrf (demo_auth_env [] 10000) token \<lparr>cv_bindings = \<lparr>cb_method = None, cb_path = None, cb_sessionSid = None\<rparr>,
       cv_actualOrigin = ''https://app'', cv_allowedOrigins = [''https://app''], cv_developmentMode = None\<rparr> = Inr True \<and>
     loadCsrfSecret (demo_auth_env [] 10000) = Inr secret"
proof -
  let ?env = "demo_auth_env [] 10000" and ?b = "\<lparr>cb_method = None, cb_path = None, cb_sessionSid = None\<rparr>"
  let ?opts = "\<lparr>cv_bindings = ?b, cv_actualOrigin = ''https://app'', cv_allowedOrigins = [''https://app''], cv_developmentMode = None\<rparr>"
  let ?stamp = "csrf_stamp ''https://app'' ?b 10" and ?secret = "TextEncoder ''0x000102030405060708090a0b0c0d0e0f''"
  let ?token = "compact_token (base64urlEncode (print ?stamp)) (jw_hmac (ae_lib ?env) ?secret (TextEncoder (base64urlEncode (print ?stamp))))"
  have s: "loadCsrfSecret ?env = Inr ?secret"
    by (simp add: loadCsrfSecret_def demo_auth_env_def with0x_def startsWith_def TextEncoder_def)
  have l: "buffer_law (ae_lib ?env)" "env_now ?env = 10" by (simp_all add: demo_auth_env_def buffer_law_def env_now_def)
  have "?token \<noteq> []" by (simp add: compact_token_def)
  then have v: "verifyCsrf ?env ?token ?opts = Inr True"
    by (simp add: verifyCsrf_def json_part_print [OF l(1) wf_csrf_stamp] csrf_stamp_ok_minted base64urlDecode_encode [OF l(1)] s l)
  from csrf_acceptance_binds_request [OF v] v show ?thesis by blast
qed

theorem salts_are_64_bit_witness:
  "\<exists>n. deriveSaltFromEmail (\<lambda>m. replicate 32 0xFF) ''a@b'' (Whole 0) (Some ''0123456789abcdef'') = Inr n \<and> 0 \<le> n \<and> n < 2 ^ 64"
  by (rule salts_are_64_bit) simp_all

end
