(* ===== verification/Siwe.thy ===== *)
theory Siwe
  imports SessionCookies
begin

section \<open>Sign-in: Sign-In with Ethereum\<close>

text \<open>
  \<open>packages/connect-auth/src/methods/siwe.ts\<close>: the EIP-4361 message, its parser, the validation of the parsed
  fields, and the two verifiers (a caller-supplied one, and recovery of the signer from an ECDSA signature).
  \<open>Date.parse\<close>, keccak and the recovery of a public key are parameters. The theory shows that what the builder
  writes the parser reads back, under which conditions; that an accepted message was signed as a whole by the
  address it names; and that a line break in the statement lets the statement speak for the fields below it.
\<close>

subsection \<open>Messages\<close>

record siwe_input =
  si_domain :: string
  si_address :: address
  si_statement :: "string option"
  si_uri :: string
  si_chainId :: int
  si_nonce :: string
  si_issuedAt :: string
  si_expirationTime :: "string option"

record siwe_parsed =
  sp_domain :: string
  sp_address :: address
  sp_statement :: "string option"
  sp_uri :: string
  sp_version :: string
  sp_chain :: js_number
  sp_nonce :: string
  sp_issuedAt :: string
  sp_expirationTime :: "string option"

definition DOMAIN_SUFFIX :: string where
  "DOMAIN_SUFFIX = '' wants you to sign in with your Ethereum account:''"

text \<open>An optional part that is written only if it is not empty.\<close>

definition optional_lines :: "(string \<Rightarrow> string list) \<Rightarrow> string option \<Rightarrow> string list" where
  "optional_lines f v = (case v of Some s \<Rightarrow> if s = [] then [] else f s | None \<Rightarrow> [])"

definition message_lines :: "siwe_input \<Rightarrow> string list" where
  "message_lines input =
     [si_domain input @ DOMAIN_SUFFIX, si_address input, []] @
     optional_lines (\<lambda>s. [s, []]) (si_statement input) @
     [''URI: '' @ si_uri input, ''Version: 1'', ''Chain ID: '' @ int_str (si_chainId input), ''Nonce: '' @ si_nonce input,
      ''Issued At: '' @ si_issuedAt input] @
     optional_lines (\<lambda>s. [''Expiration Time: '' @ s]) (si_expirationTime input)"

definition buildMessage :: "siwe_input \<Rightarrow> string" where
  "buildMessage input = join [newline] (message_lines input)"

subsection \<open>Parsing\<close>

definition line_at :: "string list \<Rightarrow> nat \<Rightarrow> string option" where
  "line_at lines i = (if i < length lines then Some (lines ! i) else None)"

definition ends_with :: "string \<Rightarrow> string \<Rightarrow> bool" where
  "ends_with s t \<longleftrightarrow> length t \<le> length s \<and> drop (length s - length t) s = t"

text \<open>
  \<open>/^(.+) wants you ...:$/\<close> on one line: something before the fixed text, none of it a line terminator
  (\<open>.\<close> matches no carriage return and no U+2028 or U+2029; there is no line feed in a line).
\<close>

fun has_terminator :: "string \<Rightarrow> bool" where
  "has_terminator [] = False"
| "has_terminator (c # s) =
     (c = CHR 0x0D \<or> c = newline \<or> startsWith (c # s) [CHR 0xE2, CHR 0x80, CHR 0xA8] \<or>
      startsWith (c # s) [CHR 0xE2, CHR 0x80, CHR 0xA9] \<or> has_terminator s)"

definition match_domain :: "string \<Rightarrow> string option" where
  "match_domain line =
     (let d = take (length line - length DOMAIN_SUFFIX) line in
      if ends_with line DOMAIN_SUFFIX \<and> d \<noteq> [] \<and> \<not> has_terminator d then Some d else None)"

definition address_shape :: "string \<Rightarrow> bool" where
  "address_shape a \<longleftrightarrow> length a = 42 \<and> take 2 a = ''0x'' \<and> list_all (\<lambda>c. hex_val c \<noteq> None) (drop 2 a)"

definition required_prefixes :: "string list" where
  "required_prefixes = [''URI: '', ''Version: '', ''Chain ID: '', ''Nonce: '', ''Issued At: '']"

text \<open>The loop over the required lines, from line \<open>i\<close>: the trimmed values in order, and the next line's number.\<close>

fun required_fields :: "string list \<Rightarrow> string list \<Rightarrow> nat \<Rightarrow> (string list \<times> nat) js" where
  "required_fields lines [] i = Inr ([], i)"
| "required_fields lines (p # ps) i =
     (case line_at lines i of
        Some line \<Rightarrow>
          if line = [] \<or> \<not> startsWith line p
          then Inl (Error (''SIWE parse: expected line starting with '' @ [CHR 0x22] @ p @ [CHR 0x22]))
          else js_bind (required_fields lines ps (Suc i)) (\<lambda>(vs, j). Inr (js_trim (drop (length p) line) # vs, j))
      | None \<Rightarrow> Inl (Error (''SIWE parse: expected line starting with '' @ [CHR 0x22] @ p @ [CHR 0x22])))"

definition parse_statement :: "string list \<Rightarrow> (string option \<times> nat) js" where
  "parse_statement lines =
     (case line_at lines 3 of
        Some (c # s) \<Rightarrow>
          if startsWith (c # s) ''URI: '' then Inr (None, 3)
          else if line_at lines 4 \<noteq> Some [] then Inl (Error ''SIWE parse: missing blank line after statement'')
          else Inr (Some (c # s), 5)
      | _ \<Rightarrow> Inr (None, 3))"

definition parse_expiration :: "string list \<Rightarrow> nat \<Rightarrow> string option" where
  "parse_expiration lines i =
     (case line_at lines i of
        Some line \<Rightarrow> if startsWith line ''Expiration Time: '' then Some (js_trim (drop (length ''Expiration Time: '') line)) else None
      | None \<Rightarrow> None)"

definition parseMessage :: "string \<Rightarrow> siwe_parsed js" where
  "parseMessage t =
     (let lines = split_on newline t in
      if length lines < 7 then Inl (Error ''SIWE parse: message too short'')
      else case match_domain (lines ! 0) of
        None \<Rightarrow> Inl (Error ''SIWE parse: missing/malformed domain line'')
      | Some d \<Rightarrow>
          if \<not> address_shape (lines ! 1) then Inl (Error ''SIWE parse: malformed address'')
          else if lines ! 2 \<noteq> [] then Inl (Error ''SIWE parse: missing blank line after address'')
          else js_bind (parse_statement lines) (\<lambda>(statement, i).
            js_bind (required_fields lines required_prefixes i) (\<lambda>(vs, j).
              Inr \<lparr>sp_domain = d, sp_address = lines ! 1, sp_statement = statement, sp_uri = vs ! 0, sp_version = vs ! 1,
                   sp_chain = Number_text (vs ! 2), sp_nonce = vs ! 3, sp_issuedAt = vs ! 4,
                   sp_expirationTime = parse_expiration lines j\<rparr>)))"

subsection \<open>Validation\<close>

text \<open>
  The platform: \<open>Date.parse\<close> (\<open>None\<close> is \<open>NaN\<close>), keccak, the message of a thrown error, and the uncompressed
  public key recovered from a digest, \<open>r\<close>, \<open>s\<close> and the recovery bit (\<open>None\<close> is \<open>NaN\<close>).
\<close>

record siwe_lib =
  sl_Date_parse :: "string \<Rightarrow> int option"
  sl_keccak :: "bytes \<Rightarrow> bytes"
  sl_errorText :: "js_error \<Rightarrow> string"
  sl_recoverPublicKey :: "bytes \<Rightarrow> int \<Rightarrow> int \<Rightarrow> int option \<Rightarrow> bytes js"

definition eip191_text :: "string \<Rightarrow> bytes" where
  "eip191_text message = TextEncoder ([CHR 0x19] @ ''Ethereum Signed Message:'' @ [newline] @ int_str (int (length (TextEncoder message)))) @
     TextEncoder message"

definition siwe_eip191Digest :: "siwe_lib \<Rightarrow> string \<Rightarrow> bytes" where
  "siwe_eip191Digest lib message = sl_keccak lib (eip191_text message)"

record siwe_opts =
  sw_nowMs :: int
  sw_allowedDomains :: "string list option"
  sw_expectedNonce :: "string option"

definition parseAndValidate :: "siwe_lib \<Rightarrow> string \<Rightarrow> siwe_opts \<Rightarrow> string + siwe_parsed \<times> bytes" where
  "parseAndValidate lib message opts =
     (if \<not> truthy (sw_expectedNonce opts) then Inl ''expectedNonce is required (CA-001)''
      else case parseMessage message of
        Inl e \<Rightarrow> Inl (sl_errorText lib e)
      | Inr parsed \<Rightarrow>
          if sp_version parsed \<noteq> ''1'' then Inl ''SIWE version not 1''
          else if (case sw_allowedDomains opts of Some ds \<Rightarrow> sp_domain parsed \<notin> set ds | None \<Rightarrow> False)
          then Inl (''domain '' @ [CHR 0x22] @ sp_domain parsed @ [CHR 0x22] @ '' not allowed'')
          else if sw_expectedNonce opts \<noteq> Some (sp_nonce parsed) then Inl ''nonce mismatch''
          else if truthy (sp_expirationTime parsed) \<and>
            (case sl_Date_parse lib (the (sp_expirationTime parsed)) of None \<Rightarrow> True | Some e \<Rightarrow> e < sw_nowMs opts)
          then Inl ''message expired''
          else case sl_Date_parse lib (sp_issuedAt parsed) of
            None \<Rightarrow> Inl ''issuedAt unparseable''
          | Some issued \<Rightarrow>
              if issued > sw_nowMs opts + 60000 then Inl ''issuedAt is in the future''
              else Inr (parsed, siwe_eip191Digest lib message))"

subsection \<open>Verification\<close>

text \<open>A verifier is called with the signer, the hash and the signature.\<close>

definition verifyOnchain ::
  "siwe_lib \<Rightarrow> string \<Rightarrow> hex \<Rightarrow> (address \<Rightarrow> hex \<Rightarrow> hex \<Rightarrow> bool js) \<Rightarrow> siwe_opts \<Rightarrow> string + address \<times> siwe_parsed" where
  "verifyOnchain lib message sg verifier opts =
     (case parseAndValidate lib message opts of
        Inl reason \<Rightarrow> Inl reason
      | Inr (parsed, digest) \<Rightarrow>
          (case verifier (sp_address parsed) (''0x'' @ bytes_hex digest) sg of
             Inl e \<Rightarrow> Inl (sl_errorText lib e)
           | Inr valid \<Rightarrow>
               if \<not> valid then Inl ''on-chain signature verification rejected'' else Inr (sp_address parsed, parsed)))"

text \<open>\<open>BigInt('0x' + s)\<close> of hex digits; other text is a syntax error.\<close>

definition hex_BigInt :: "string \<Rightarrow> int js" where
  "hex_BigInt s = (case BigInt_text (''0x'' @ s) of Some n \<Rightarrow> Inr n | None \<Rightarrow> Inl SyntaxError)"

definition recoverAddress :: "siwe_lib \<Rightarrow> bytes \<Rightarrow> hex \<Rightarrow> address js" where
  "recoverAddress lib digest sigHex =
     (let sg = strip0x sigHex in
      if length sg \<noteq> 130 then Inl (Error ''SIWE verify: signature must be 65 bytes'')
      else js_bind (hex_BigInt (take 64 sg)) (\<lambda>r. js_bind (hex_BigInt (take 64 (drop 64 sg))) (\<lambda>s.
        let v = parseInt16 (sg ! 128) (sg ! 129);
            recovery = map_option (\<lambda>v. if v \<ge> 27 then v - 27 else v) v in
        js_bind (sl_recoverPublicKey lib digest r s recovery) (\<lambda>pub.
          Inr (''0x'' @ bytes_hex (drop 12 (sl_keccak lib (drop 1 pub))))))))"

definition verify_siwe :: "siwe_lib \<Rightarrow> string \<Rightarrow> hex \<Rightarrow> siwe_opts \<Rightarrow> string + address \<times> siwe_parsed" where
  "verify_siwe lib message sg opts =
     (case parseAndValidate lib message opts of
        Inl reason \<Rightarrow> Inl reason
      | Inr (parsed, digest) \<Rightarrow>
          (case recoverAddress lib digest sg of
             Inl e \<Rightarrow> Inl (sl_errorText lib e)
           | Inr recovered \<Rightarrow>
               if toLowerCase recovered \<noteq> toLowerCase (sp_address parsed)
               then Inl ''recovered signer does not match message address'' else Inr (sp_address parsed, parsed)))"

section \<open>What a Sign-In with Ethereum establishes\<close>

subsection \<open>The parser reads what the builder writes\<close>

text \<open>A field that sits on one line and that trimming leaves as it is.\<close>

definition one_line :: "string \<Rightarrow> bool" where
  "one_line s \<longleftrightarrow> newline \<notin> set s"

definition field_text :: "string \<Rightarrow> bool" where
  "field_text s \<longleftrightarrow> one_line s \<and> js_trim s = s"

definition siwe_plain :: "siwe_input \<Rightarrow> bool" where
  "siwe_plain input \<longleftrightarrow>
     si_domain input \<noteq> [] \<and> \<not> has_terminator (si_domain input) \<and> address_shape (si_address input) \<and>
     field_text (si_uri input) \<and> field_text (si_nonce input) \<and> field_text (si_issuedAt input) \<and>
     (case si_expirationTime input of Some s \<Rightarrow> field_text s | None \<Rightarrow> True)"

definition nonempty :: "string option \<Rightarrow> string option" where
  "nonempty v = (if truthy v then v else None)"

lemma has_terminator_newline: "\<not> has_terminator s \<Longrightarrow> newline \<notin> set s"
  by (induction s) (auto simp: newline_def)

lemma newline_free [simp]:
  "newline \<notin> set DOMAIN_SUFFIX" "address_shape a \<Longrightarrow> newline \<notin> set a" "newline \<notin> set (int_str n)"
proof -
  show "newline \<notin> set DOMAIN_SUFFIX" by (simp add: DOMAIN_SUFFIX_def newline_def)
  show "newline \<notin> set (int_str n)"
    using nat_str_digits [of newline] by (auto simp: int_str_def newline_def is_digit_def)
  assume a: "address_shape a"
  have "hex_val newline = None" "newline \<noteq> CHR ''0''" "newline \<noteq> CHR ''x''" by (simp_all add: hex_val_def newline_def)
  moreover from a have "take 2 a = ''0x''" "\<forall>c \<in> set (drop 2 a). hex_val c \<noteq> None" by (simp_all add: address_shape_def list_all_iff)
  then have "newline \<notin> set (take 2 a)" "newline \<notin> set (drop 2 a)"
    using calculation by auto
  then show "newline \<notin> set a" by (metis Un_iff append_take_drop_id set_append)
qed

lemma match_domain_suffix: "d \<noteq> [] \<Longrightarrow> \<not> has_terminator d \<Longrightarrow> match_domain (d @ DOMAIN_SUFFIX) = Some d"
  by (simp add: match_domain_def ends_with_def)

lemma startsWith_append [simp]: "startsWith (p @ s) p"
  by (simp add: startsWith_def)

lemma trim_int_str: "js_trim (int_str n) = int_str n" "js_trim ''1'' = ''1''"
proof -
  have "plain_char c" if "c \<in> set (int_str n)" for c
    using that nat_str_digits digit_plain by (auto simp: int_str_def plain_char_def split: if_split_asm)
  then show "js_trim (int_str n) = int_str n" by (simp add: js_trim_free)
  show "js_trim ''1'' = ''1''" by (simp add: js_trim_free plain_char_def)
qed

text \<open>The five required lines, in a list of lines.\<close>

definition five_lines :: "string \<Rightarrow> string \<Rightarrow> string \<Rightarrow> string \<Rightarrow> string list" where
  "five_lines u c n i = [''URI: '' @ u, ''Version: 1'', ''Chain ID: '' @ c, ''Nonce: '' @ n, ''Issued At: '' @ i]"

lemma line_at_append:
  "line_at (xs @ ys) (length xs) = (case ys of [] \<Rightarrow> None | y # _ \<Rightarrow> Some y)"
  by (auto simp: line_at_def nth_append split: list.split)

lemma required_fields_five:
  assumes "field_text u" "js_trim c = c" "field_text n" "field_text i"
  shows "required_fields (xs @ five_lines u c n i @ ys) required_prefixes (length xs) = Inr ([u, ''1'', c, n, i], length xs + 5)"
proof -
  have at: "line_at (xs @ five_lines u c n i @ ys) (length xs) = Some (''URI: '' @ u)"
    "line_at (xs @ five_lines u c n i @ ys) (Suc (length xs)) = Some ''Version: 1''"
    "line_at (xs @ five_lines u c n i @ ys) (Suc (Suc (length xs))) = Some (''Chain ID: '' @ c)"
    "line_at (xs @ five_lines u c n i @ ys) (Suc (Suc (Suc (length xs)))) = Some (''Nonce: '' @ n)"
    "line_at (xs @ five_lines u c n i @ ys) (Suc (Suc (Suc (Suc (length xs))))) = Some (''Issued At: '' @ i)"
    by (simp_all add: line_at_def five_lines_def nth_append)
  show ?thesis
    unfolding required_prefixes_def
    using assms by (simp add: at startsWith_def field_text_def trim_int_str)
qed

lemma parse_expiration_append:
  "parse_expiration (xs @ ys) (length xs) =
     (case ys of y # _ \<Rightarrow> if startsWith y ''Expiration Time: '' then Some (js_trim (drop (length ''Expiration Time: '') y)) else None
      | [] \<Rightarrow> None)"
  unfolding parse_expiration_def line_at_append by (simp split: list.split)

lemma parseMessage_lines:
  assumes "d \<noteq> []" "\<not> has_terminator d" "address_shape a" "\<And>l. l \<in> set rest \<Longrightarrow> newline \<notin> set l"
    and "rest = st @ five_lines u c n i @ tail" "field_text u" "one_line c \<and> js_trim c = c" "field_text n" "field_text i"
    and "parse_statement ([d @ DOMAIN_SUFFIX, a, []] @ rest) = Inr (statement, 3 + length st)"
  shows "parseMessage (join [newline] ([d @ DOMAIN_SUFFIX, a, []] @ rest)) =
    Inr \<lparr>sp_domain = d, sp_address = a, sp_statement = statement, sp_uri = u, sp_version = ''1'', sp_chain = Number_text c,
         sp_nonce = n, sp_issuedAt = i, sp_expirationTime =
           (case tail of y # _ \<Rightarrow> if startsWith y ''Expiration Time: '' then Some (js_trim (drop (length ''Expiration Time: '') y)) else None
            | [] \<Rightarrow> None)\<rparr>"
proof -
  let ?lines = "[d @ DOMAIN_SUFFIX, a, []] @ rest"
  have free: "\<forall>l \<in> set ?lines. newline \<notin> set l"
    using assms(3,4) has_terminator_newline [OF assms(2)] by auto
  have split: "split_on newline (join [newline] ?lines) = ?lines"
    by (rule split_on_join [OF _ free]) simp
  let ?xs = "[d @ DOMAIN_SUFFIX, a, []] @ st"
  have l: "?lines = ?xs @ five_lines u c n i @ tail" "?lines = (?xs @ five_lines u c n i) @ tail" by (simp_all add: assms(5))
  have len: "length ?xs = 3 + length st" "length (?xs @ five_lines u c n i) = 3 + length st + 5" by (simp_all add: five_lines_def)
  have "required_fields ?lines required_prefixes (3 + length st) = Inr ([u, ''1'', c, n, i], 3 + length st + 5)"
    using required_fields_five [of u c n i ?xs tail] assms(6-9) unfolding l(1) len by simp
  moreover have "parse_expiration ?lines (3 + length st + 5) = (case tail of y # _ \<Rightarrow>
      if startsWith y ''Expiration Time: '' then Some (js_trim (drop (length ''Expiration Time: '') y)) else None | [] \<Rightarrow> None)"
    unfolding l(2) len(2) [symmetric] by (rule parse_expiration_append)
  moreover have "7 \<le> length ?lines" by (simp add: assms(5) five_lines_def)
  moreover have "?lines ! 0 = d @ DOMAIN_SUFFIX" "?lines ! 1 = a" "?lines ! 2 = []" by simp_all
  ultimately show ?thesis
    unfolding parseMessage_def Let_def split using assms(3,10) match_domain_suffix [OF assms(1,2)] by simp
qed

lemma join_join: "ls \<noteq> [] \<Longrightarrow> join sep (xs @ [join sep ls] @ ys) = join sep (xs @ ls @ ys)"
proof -
  have cons: "ls \<noteq> [] \<Longrightarrow> join sep (join sep ls # ys) = join sep (ls @ ys)" for ls
  proof (induction ls)
    case (Cons l ls)
    then show ?case by (cases ls; cases ys) auto
  qed simp
  have "join sep (x # zs) = (if zs = [] then x else x @ sep @ join sep zs)" for x zs by (cases zs) simp_all
  with cons show "ls \<noteq> [] \<Longrightarrow> ?thesis" by (induction xs) auto
qed

lemma parse_statement_lines:
  "s \<noteq> [] \<Longrightarrow> \<not> startsWith s ''URI: '' \<Longrightarrow> parse_statement ([a, b, []] @ s # [] # rest) = Inr (Some s, 5)"
  "parse_statement ([a, b, []] @ five_lines u c n i @ rest) = Inr (None, 3)"
  by (cases s) (simp_all add: parse_statement_def line_at_def five_lines_def startsWith_def)

lemma message_lines_five:
  "message_lines input = [si_domain input @ DOMAIN_SUFFIX, si_address input, []] @ optional_lines (\<lambda>s. [s, []]) (si_statement input) @
     five_lines (si_uri input) (int_str (si_chainId input)) (si_nonce input) (si_issuedAt input) @
     optional_lines (\<lambda>s. [''Expiration Time: '' @ s]) (si_expirationTime input)"
  by (simp add: message_lines_def five_lines_def)

lemma newline_five: "l \<in> set (five_lines u c n i) \<Longrightarrow> one_line u \<Longrightarrow> one_line c \<Longrightarrow> one_line n \<Longrightarrow> one_line i \<Longrightarrow> newline \<notin> set l"
  by (auto simp: five_lines_def one_line_def newline_def)

lemma plain_lines:
  assumes "siwe_plain input"
  shows "l \<in> set (five_lines (si_uri input) (int_str (si_chainId input)) (si_nonce input) (si_issuedAt input)) \<Longrightarrow> newline \<notin> set l"
    "l \<in> set (optional_lines (\<lambda>s. [''Expiration Time: '' @ s]) (si_expirationTime input)) \<Longrightarrow> newline \<notin> set l"
proof -
  have "one_line (int_str (si_chainId input))" by (simp add: one_line_def)
  with assms show "l \<in> set (five_lines (si_uri input) (int_str (si_chainId input)) (si_nonce input) (si_issuedAt input)) \<Longrightarrow> newline \<notin> set l"
    using newline_five by (simp add: siwe_plain_def field_text_def)
  assume "l \<in> set (optional_lines (\<lambda>s. [''Expiration Time: '' @ s]) (si_expirationTime input))"
  then obtain e where "si_expirationTime input = Some e" "l = ''Expiration Time: '' @ e"
    by (cases "si_expirationTime input") (auto simp: optional_lines_def split: if_split_asm)
  with assms show "newline \<notin> set l" by (simp add: siwe_plain_def field_text_def one_line_def newline_def)
qed

lemma built_message:
  assumes "siwe_plain input"
    and "case si_statement input of Some s \<Rightarrow> one_line s \<and> \<not> startsWith s ''URI: '' | None \<Rightarrow> True"
  shows "parseMessage (buildMessage input) =
    Inr \<lparr>sp_domain = si_domain input, sp_address = si_address input, sp_statement = nonempty (si_statement input),
         sp_uri = si_uri input, sp_version = ''1'', sp_chain = Number_text (int_str (si_chainId input)), sp_nonce = si_nonce input,
         sp_issuedAt = si_issuedAt input, sp_expirationTime = nonempty (si_expirationTime input)\<rparr>"
proof -
  let ?st = "optional_lines (\<lambda>s. [s, []]) (si_statement input)"
  let ?tail = "optional_lines (\<lambda>s. [''Expiration Time: '' @ s]) (si_expirationTime input)"
  let ?five = "five_lines (si_uri input) (int_str (si_chainId input)) (si_nonce input) (si_issuedAt input)"
  note plain = assms(1) [unfolded siwe_plain_def]
  have lines: "newline \<notin> set l" if "l \<in> set (?st @ ?five @ ?tail)" for l
    using that plain_lines [OF assms(1), of l] assms(2) by (auto simp: optional_lines_def [of _ "si_statement input"] one_line_def split: option.split_asm if_split_asm)
  have st: "parse_statement ([si_domain input @ DOMAIN_SUFFIX, si_address input, []] @ ?st @ ?five @ ?tail) =
      Inr (nonempty (si_statement input), 3 + length ?st)"
  proof (cases "truthy (si_statement input)")
    case True
    then obtain s where s: "si_statement input = Some s" "s \<noteq> []" by (auto simp: truthy_def split: option.split_asm)
    with assms(2) show ?thesis
      using parse_statement_lines(1) [of s "si_domain input @ DOMAIN_SUFFIX" "si_address input" "?five @ ?tail"]
      by (simp add: optional_lines_def nonempty_def)
  next
    case False
    then have "?st = []" by (auto simp: optional_lines_def truthy_def split: option.split)
    with False show ?thesis using parse_statement_lines(2) by (simp add: nonempty_def)
  qed
  have "(case ?tail of y # _ \<Rightarrow> if startsWith y ''Expiration Time: '' then Some (js_trim (drop (length ''Expiration Time: '') y)) else None
      | [] \<Rightarrow> None) = nonempty (si_expirationTime input)"
    using plain by (auto simp: optional_lines_def nonempty_def truthy_def startsWith_def field_text_def split: option.split)
  moreover have "field_text (si_uri input)" "one_line (int_str (si_chainId input)) \<and> js_trim (int_str (si_chainId input)) = int_str (si_chainId input)"
    "field_text (si_nonce input)" "field_text (si_issuedAt input)"
    using plain by (simp_all add: one_line_def trim_int_str)
  ultimately show ?thesis
    using parseMessage_lines [OF _ _ _ lines refl _ _ _ _ st] plain
    by (simp add: buildMessage_def message_lines_five)
qed

text \<open>The parser reads back what the builder wrote, if the parts are single lines and the chain is below \<open>2 ^ 53\<close>.\<close>

theorem built_message_parses:
  assumes "siwe_plain input" and "safe_integer (si_chainId input)"
    and "case si_statement input of Some s \<Rightarrow> one_line s \<and> \<not> startsWith s ''URI: '' | None \<Rightarrow> True"
  shows "parseMessage (buildMessage input) =
    Inr \<lparr>sp_domain = si_domain input, sp_address = si_address input, sp_statement = nonempty (si_statement input),
         sp_uri = si_uri input, sp_version = ''1'', sp_chain = Finite (of_int (si_chainId input)), sp_nonce = si_nonce input,
         sp_issuedAt = si_issuedAt input, sp_expirationTime = nonempty (si_expirationTime input)\<rparr>"
  using built_message [OF assms(1,3)] by (simp add: Number_int_str [OF assms(2)])

text \<open>
  The builder writes the statement as it is. A statement with line breaks can hold a line of its own for each
  required field, and then the parser reads those: the message's own URI, chain, nonce and dates are ignored.
\<close>

theorem statement_overrides_the_fields:
  assumes "siwe_plain input" and "si_statement input = Some (join [newline] ([s, []] @ five_lines u c n i))"
    and "s \<noteq> []" and "one_line s" and "\<not> startsWith s ''URI: ''"
    and "field_text u" and "one_line c \<and> js_trim c = c" and "field_text n" and "field_text i"
  shows "parseMessage (buildMessage input) =
    Inr \<lparr>sp_domain = si_domain input, sp_address = si_address input, sp_statement = Some s, sp_uri = u, sp_version = ''1'',
         sp_chain = Number_text c, sp_nonce = n, sp_issuedAt = i, sp_expirationTime = None\<rparr>"
proof -
  note plain = assms(1) [unfolded siwe_plain_def]
  let ?head = "[si_domain input @ DOMAIN_SUFFIX, si_address input, []]"
  let ?five = "five_lines (si_uri input) (int_str (si_chainId input)) (si_nonce input) (si_issuedAt input)"
  let ?tail = "[] # ?five @ optional_lines (\<lambda>s. [''Expiration Time: '' @ s]) (si_expirationTime input)"
  let ?stmt = "join [newline] ([s, []] @ five_lines u c n i)"
  have "optional_lines (\<lambda>s. [s, []]) (si_statement input) = [?stmt, []]"
    using assms(3) by (simp add: assms(2) optional_lines_def five_lines_def)
  then have "buildMessage input = join [newline] (?head @ [?stmt] @ ?tail)"
    by (simp add: buildMessage_def message_lines_five)
  also have "\<dots> = join [newline] (?head @ ([s, []] @ five_lines u c n i) @ ?tail)" by (rule join_join) simp
  finally have b: "buildMessage input = join [newline] (?head @ ([s, []] @ five_lines u c n i @ ?tail))" by simp
  have st: "parse_statement (?head @ [s, []] @ five_lines u c n i @ ?tail) = Inr (Some s, 3 + length [s, []])"
    using parse_statement_lines(1) [OF assms(3,5)] by simp
  have lines: "newline \<notin> set l" if "l \<in> set ([s, []] @ five_lines u c n i @ ?tail)" for l
    using that plain_lines [OF assms(1), of l] newline_five [of l u c n i] assms(4,6-9) by (auto simp: field_text_def one_line_def)
  from parseMessage_lines [OF _ _ _ lines refl assms(6-9) st] plain show ?thesis
    unfolding b by (simp add: startsWith_def)
qed

subsection \<open>The signed text determines the message\<close>

lemma length_nat_str_mono: "m \<le> n \<Longrightarrow> length (nat_str m) \<le> length (nat_str n)"
proof (induction n arbitrary: m rule: nat_str.induct)
  case (1 n)
  show ?case
  proof (cases "n < 10")
    case True
    with 1 show ?thesis by (simp add: nat_str.simps)
  next
    case False
    note IH = 1(1) [OF False, of "m div 10"] and le = 1(2)
    have nz: "nat_str n = nat_str (n div 10) @ [char_of (48 + n mod 10)]" using False by (subst nat_str.simps) simp
    show ?thesis
    proof (cases "m < 10")
      case True
      then have "nat_str m = [char_of (48 + m)]" by (subst nat_str.simps) simp
      then show ?thesis by (simp add: nz)
    next
      case False
      then have "nat_str m = nat_str (m div 10) @ [char_of (48 + m mod 10)]" by (subst nat_str.simps) simp
      with IH le nz show ?thesis by (simp add: div_le_mono)
    qed
  qed
qed

lemma eip191_text_inject: "eip191_text m = eip191_text m' \<longleftrightarrow> m = m'"
proof
  have expand: "eip191_text m = TextEncoder (([CHR 0x19] @ ''Ethereum Signed Message:'' @ [newline]) @ nat_str (length m) @ m)" for m
    by (simp add: eip191_text_def TextEncoder_def int_str_def)
  assume "eip191_text m = eip191_text m'"
  then have eq: "nat_str (length m) @ m = nat_str (length m') @ m'" by (simp add: expand)
  then have len: "length (nat_str (length m)) + length m = length (nat_str (length m')) + length m'"
    by (metis length_append)
  have "length m = length m'"
  proof (rule ccontr)
    assume "length m \<noteq> length m'"
    then consider "length m < length m'" | "length m' < length m" by linarith
    then show False using len length_nat_str_mono [of "length m" "length m'"] length_nat_str_mono [of "length m'" "length m"]
      by cases linarith+
  qed
  with eq show "m = m'" by simp
qed simp

subsection \<open>What a sign-in establishes\<close>

lemma refuse_reason:
  "(if b then Inl r else z) = (Inr c :: string + 'a) \<longleftrightarrow> \<not> b \<and> z = Inr c"
  "(case x of Inl e \<Rightarrow> Inl (f e) | Inr y \<Rightarrow> g y) = (Inr c :: string + 'a) \<longleftrightarrow> (\<exists>y. x = Inr y \<and> g y = Inr c)"
  "(case v of None \<Rightarrow> Inl r | Some y \<Rightarrow> h y) = (Inr c :: string + 'a) \<longleftrightarrow> (\<exists>y. v = Some y \<and> h y = Inr c)"
  by (auto split: sum.split option.split)

lemma parseAndValidate_accepts:
  "parseAndValidate lib message opts = Inr (parsed, digest) \<longleftrightarrow>
     parseMessage message = Inr parsed \<and> digest = siwe_eip191Digest lib message \<and> sp_version parsed = ''1'' \<and>
     sw_expectedNonce opts = Some (sp_nonce parsed) \<and> sp_nonce parsed \<noteq> [] \<and>
     (case sw_allowedDomains opts of Some ds \<Rightarrow> sp_domain parsed \<in> set ds | None \<Rightarrow> True) \<and>
     (\<exists>issued. sl_Date_parse lib (sp_issuedAt parsed) = Some issued \<and> issued \<le> sw_nowMs opts + 60000) \<and>
     (\<not> truthy (sp_expirationTime parsed) \<or>
        (\<exists>e. sl_Date_parse lib (the (sp_expirationTime parsed)) = Some e \<and> sw_nowMs opts \<le> e))"
proof -
  have expired: "(case x of None \<Rightarrow> True | Some e \<Rightarrow> e < t) \<longleftrightarrow> \<not> (\<exists>e. x = Some e \<and> t \<le> e)" for x and t :: int
    by (auto split: option.split)
  have outside: "(case ds of Some ds \<Rightarrow> d \<notin> set ds | None \<Rightarrow> False) \<longleftrightarrow> \<not> (case ds of Some ds \<Rightarrow> d \<in> set ds | None \<Rightarrow> True)" for ds and d :: string
    by (simp split: option.split)
  have nonce: "truthy x \<and> \<not> x \<noteq> Some n \<longleftrightarrow> x = Some n \<and> n \<noteq> []" for x n by auto
  show ?thesis
    unfolding parseAndValidate_def refuse_reason expired outside using nonce by (auto simp: not_less)
qed

definition siwe_login :: "siwe_lib \<Rightarrow> string \<Rightarrow> hex \<Rightarrow> siwe_opts \<Rightarrow> address \<Rightarrow> bool" where
  "siwe_login lib message sg opts who \<longleftrightarrow> (\<exists>parsed. verify_siwe lib message sg opts = Inr (who, parsed))"

text \<open>
  C16: A login was signed as a whole. Let \<open>Signed\<close> hold the messages for which the holder of an address made this
  signature: a signature that recovers to the address at the digest of the message offered was made for a message
  with that digest, and the hash does not collide on that pair. Then the message offered is one the holder signed,
  and it names the holder, an allowed domain and the nonce the caller issued. So a signature made for one message
  logs in with no other.
\<close>

theorem login_signed_the_message:
  assumes "siwe_login lib message sg opts who"
    and "\<And>r. recoverAddress lib (sl_keccak lib (eip191_text message)) sg = Inr r \<Longrightarrow> toLowerCase r = toLowerCase who \<Longrightarrow>
      \<exists>m \<in> Signed. sl_keccak lib (eip191_text m) = sl_keccak lib (eip191_text message)"
    and "\<And>m. m \<in> Signed \<Longrightarrow> sl_keccak lib (eip191_text m) = sl_keccak lib (eip191_text message) \<Longrightarrow> eip191_text m = eip191_text message"
  shows "message \<in> Signed \<and> (\<exists>parsed. parseMessage message = Inr parsed \<and> sp_address parsed = who \<and>
      sw_expectedNonce opts = Some (sp_nonce parsed) \<and> sp_nonce parsed \<noteq> [] \<and>
      (case sw_allowedDomains opts of Some ds \<Rightarrow> sp_domain parsed \<in> set ds | None \<Rightarrow> True))"
proof -
  from assms(1) obtain parsed digest where v: "parseAndValidate lib message opts = Inr (parsed, digest)"
    and r: "(case recoverAddress lib digest sg of Inl e \<Rightarrow> Inl (sl_errorText lib e)
      | Inr recovered \<Rightarrow> if toLowerCase recovered \<noteq> toLowerCase (sp_address parsed)
          then Inl ''recovered signer does not match message address'' else Inr (sp_address parsed, parsed)) = Inr (who, parsed)"
    unfolding siwe_login_def verify_siwe_def by (cases "parseAndValidate lib message opts") (auto split: sum.split_asm if_split_asm)
  from r obtain rec where rec: "recoverAddress lib digest sg = Inr rec" by (cases "recoverAddress lib digest sg") simp_all
  with r have who: "sp_address parsed = who" "toLowerCase rec = toLowerCase who" by (simp_all split: if_split_asm)
  note v = v [unfolded parseAndValidate_accepts siwe_eip191Digest_def]
  from assms(2) [of rec] rec who v obtain m where "m \<in> Signed" "eip191_text m = eip191_text message"
    using assms(3) by blast
  then have "message \<in> Signed" by (simp add: eip191_text_inject)
  with v who show ?thesis by blast
qed

text \<open>The same for a verifier that is a contract: it approved the digest of this very message for the address.\<close>

lemma onchain_login:
  "verifyOnchain lib message sg verifier opts = Inr (who, parsed) \<longleftrightarrow>
     (\<exists>digest. parseAndValidate lib message opts = Inr (parsed, digest)) \<and> who = sp_address parsed \<and>
     verifier who (''0x'' @ bytes_hex (siwe_eip191Digest lib message)) sg = Inr True"
proof (cases "parseAndValidate lib message opts")
  case (Inr r)
  obtain p d where r: "r = (p, d)" by (cases r)
  with Inr have "d = siwe_eip191Digest lib message" by (simp add: parseAndValidate_accepts)
  with Inr r show ?thesis by (auto simp: verifyOnchain_def split: sum.splits if_splits)
qed (simp add: verifyOnchain_def)

text \<open>Together with the universal validator: a message built and signed by a wallet logs it in.\<close>

theorem built_message_signs_in:
  assumes "siwe_plain input" and "si_statement input = None"
    and "sw_expectedNonce opts = Some (si_nonce input)" and "si_nonce input \<noteq> []"
    and "case sw_allowedDomains opts of Some ds \<Rightarrow> si_domain input \<in> set ds | None \<Rightarrow> True"
    and "sl_Date_parse lib (si_issuedAt input) = Some issued" and "issued \<le> sw_nowMs opts + 60000"
    and "si_expirationTime input = None"
    and "verifyUserSignature client validator (si_address input) (''0x'' @ bytes_hex (siwe_eip191Digest lib (buildMessage input))) sg = Sig_ok"
  shows "\<exists>parsed. verifyOnchain lib (buildMessage input) sg
    (\<lambda>signer h s. Inr (verifyUserSignature client validator signer h s = Sig_ok)) opts = Inr (si_address input, parsed)"
proof -
  from assms(2,8) have "parseMessage (buildMessage input) = Inr \<lparr>sp_domain = si_domain input, sp_address = si_address input,
      sp_statement = None, sp_uri = si_uri input, sp_version = ''1'', sp_chain = Number_text (int_str (si_chainId input)),
      sp_nonce = si_nonce input, sp_issuedAt = si_issuedAt input, sp_expirationTime = None\<rparr>"
    using built_message [OF assms(1)] by (simp add: nonempty_def)
  with assms(3-9) show ?thesis by (cases "sw_allowedDomains opts") (simp_all add: onchain_login parseAndValidate_accepts)
qed

subsection \<open>A message to evaluate the definitions on\<close>

definition demo_siwe :: "string option \<Rightarrow> siwe_input" where
  "demo_siwe statement =
     \<lparr>si_domain = ''app'', si_address = ''0x'' @ replicate 40 (CHR ''a''), si_statement = statement, si_uri = ''u'', si_chainId = 1,
      si_nonce = ''n'', si_issuedAt = ''t'', si_expirationTime = None\<rparr>"

definition demo_siwe_lib :: siwe_lib where
  "demo_siwe_lib = \<lparr>sl_Date_parse = (\<lambda>s. Some 0), sl_keccak = (\<lambda>b. replicate 12 0 @ take 20 b), sl_errorText = (\<lambda>e. []),
     sl_recoverPublicKey = (\<lambda>d r s v. Inr (0 # replicate 20 0xAA))\<rparr>"

definition demo_siwe_opts :: siwe_opts where
  "demo_siwe_opts = \<lparr>sw_nowMs = 0, sw_allowedDomains = Some [''app''], sw_expectedNonce = Some ''n''\<rparr>"

lemma demo_plain: "siwe_plain (demo_siwe st)"
  by (simp add: siwe_plain_def demo_siwe_def address_shape_def hex_val_def field_text_def one_line_def newline_def startsWith_def
    js_trim_free plain_char_def numeral_eq_Suc)

lemma demo_parsed: "parseMessage (buildMessage (demo_siwe None)) =
    Inr \<lparr>sp_domain = ''app'', sp_address = ''0x'' @ replicate 40 (CHR ''a''), sp_statement = None, sp_uri = ''u'',
      sp_version = ''1'', sp_chain = Finite 1, sp_nonce = ''n'', sp_issuedAt = ''t'', sp_expirationTime = None\<rparr>"
  using built_message [OF demo_plain [of None]] Number_int_str [of 1] by (simp add: demo_siwe_def nonempty_def safe_integer_def)

theorem built_message_parses_witness:
  "parseMessage (buildMessage (demo_siwe (Some ''Hello''))) =
     Inr \<lparr>sp_domain = ''app'', sp_address = ''0x'' @ replicate 40 (CHR ''a''), sp_statement = Some ''Hello'', sp_uri = ''u'',
       sp_version = ''1'', sp_chain = Finite 1, sp_nonce = ''n'', sp_issuedAt = ''t'', sp_expirationTime = None\<rparr>"
proof -
  have "one_line ''Hello'' \<and> \<not> startsWith ''Hello'' ''URI: ''" by (simp add: one_line_def startsWith_def newline_def)
  then show ?thesis
    using built_message_parses [OF demo_plain [of "Some ''Hello''"]] by (simp add: demo_siwe_def nonempty_def safe_integer_def)
qed

definition forged_statement :: string where
  "forged_statement = join [newline] ([''Hi'', []] @ five_lines ''evil'' ''5'' ''m'' ''t'')"

theorem statement_overrides_the_fields_witness:
  "parseMessage (buildMessage (demo_siwe (Some forged_statement))) =
     Inr \<lparr>sp_domain = ''app'', sp_address = ''0x'' @ replicate 40 (CHR ''a''), sp_statement = Some ''Hi'', sp_uri = ''evil'',
       sp_version = ''1'', sp_chain = Number_text ''5'', sp_nonce = ''m'', sp_issuedAt = ''t'', sp_expirationTime = None\<rparr>"
proof -
  have s: "si_statement (demo_siwe (Some forged_statement)) = Some (join [newline] ([''Hi'', []] @ five_lines ''evil'' ''5'' ''m'' ''t''))"
    by (simp add: demo_siwe_def forged_statement_def)
  have "one_line ''Hi''" "\<not> startsWith ''Hi'' ''URI: ''" "field_text ''evil''" "one_line ''5'' \<and> js_trim ''5'' = ''5''"
    "field_text ''m''" "field_text ''t''"
    by (simp_all add: one_line_def field_text_def startsWith_def newline_def js_trim_free plain_char_def)
  with statement_overrides_the_fields [OF demo_plain s] show ?thesis by (simp add: demo_siwe_def)
qed

lemma bytes_hex_replicate:
  "bytes_hex (replicate n 0) = replicate (2 * n) (CHR ''0'')" "bytes_hex (replicate n 0xAA) = replicate (2 * n) (CHR ''a'')"
  by (induction n) (simp_all add: bytes_hex_def byte_hex_def hex_digit_def char_of_def bit_Suc_0_iff)

lemma demo_recovers: "recoverAddress demo_siwe_lib d (replicate 130 (CHR ''0'')) = Inr (''0x'' @ replicate 40 (CHR ''a''))"
proof -
  have "hex_BigInt (replicate 64 (CHR ''0'')) = Inr (foldl (\<lambda>n b. 256 * n + uint b) 0 (replicate 32 (0 :: byte)))"
    using BigInt_text_hex [of "replicate 32 0"] by (simp add: hex_BigInt_def bytes_hex_replicate)
  then obtain n where z: "hex_BigInt (replicate 64 (CHR ''0'')) = Inr n" by blast
  have "strip0x (replicate 130 (CHR ''0'')) = replicate 130 (CHR ''0'')" by (simp add: strip0x_def startsWith_def numeral_eq_Suc)
  then show ?thesis
    using bytes_hex_replicate(2) [of 20] by (simp add: recoverAddress_def z Let_def demo_siwe_lib_def)
qed

theorem login_signed_the_message_witness:
  "siwe_login demo_siwe_lib (buildMessage (demo_siwe None)) (replicate 130 (CHR ''0'')) demo_siwe_opts (''0x'' @ replicate 40 (CHR ''a'')) \<and>
   (\<exists>parsed. parseMessage (buildMessage (demo_siwe None)) = Inr parsed \<and> sp_address parsed = ''0x'' @ replicate 40 (CHR ''a''))"
proof -
  have "parseAndValidate demo_siwe_lib (buildMessage (demo_siwe None)) demo_siwe_opts =
      Inr (projr (parseMessage (buildMessage (demo_siwe None))), siwe_eip191Digest demo_siwe_lib (buildMessage (demo_siwe None)))"
    by (simp add: parseAndValidate_accepts demo_parsed demo_siwe_opts_def demo_siwe_lib_def)
  then have v: "siwe_login demo_siwe_lib (buildMessage (demo_siwe None)) (replicate 130 (CHR ''0'')) demo_siwe_opts (''0x'' @ replicate 40 (CHR ''a''))"
    by (simp add: siwe_login_def verify_siwe_def demo_recovers demo_parsed)
  with login_signed_the_message [OF v, of "{buildMessage (demo_siwe None)}"] show ?thesis by blast
qed

theorem built_message_signs_in_witness:
  "\<exists>parsed. verifyOnchain demo_siwe_lib (buildMessage (demo_siwe None)) []
     (\<lambda>signer h s. Inr (verifyUserSignature \<lparr>vc_readContract = (\<lambda>v a h s. Inr True), vc_simulateContract = None\<rparr> [] signer h s = Sig_ok))
     demo_siwe_opts = Inr (''0x'' @ replicate 40 (CHR ''a''), parsed)"
  using built_message_signs_in [OF demo_plain [of None], of demo_siwe_opts demo_siwe_lib 0
      "\<lparr>vc_readContract = (\<lambda>v a h s. Inr True), vc_simulateContract = None\<rparr>" "[]" "[]"]
  by (simp add: demo_siwe_def demo_siwe_opts_def demo_siwe_lib_def verifyUserSignature_def verifyUserSignatureView_def call_verdict_def)

end
