(* ===== verification/Passkey.thy ===== *)
theory Passkey
  imports SessionCookies
begin

section \<open>Sign-in: passkeys\<close>

text \<open>
  \<open>packages/connect-auth/src/methods/passkey.ts\<close>: the base64url codec of WebAuthn challenges, the DER signature
  parser and the low-s rule, the assertion struct for the account contract, and the CBOR decoder with which the
  public key of a new passkey is read from its attestation. A \<open>Uint8Array\<close> is its list of bytes; the input of the
  CBOR decoder may be a view of a larger buffer, so there the bytes behind the view are a second argument. A read
  past the end throws \<open>RangeError\<close>. The theory shows that the decoder reads back
  what a CBOR encoder writes and takes only as many steps as there are bytes, which authenticator data yields
  which key, and the range of a normalised \<open>s\<close>.
\<close>

subsection \<open>Numbers from bytes\<close>

definition bytesToBigInt :: "bytes \<Rightarrow> int" where
  "bytesToBigInt bs = foldl (\<lambda>n b. 256 * n + uint b) 0 bs"

text \<open>
  A big-endian unsigned integer of \<open>k\<close> bytes at the front of a view, of whose buffer the last \<open>beyond\<close> bytes lie behind
  the view; too few bytes in the view is a \<open>RangeError\<close>.
\<close>

definition get_uint :: "nat \<Rightarrow> nat \<Rightarrow> bytes \<Rightarrow> (int \<times> bytes) js" where
  "get_uint beyond k bs = (if length bs < k + beyond then Inl RangeError else Inr (bytesToBigInt (take k bs), drop k bs))"

subsection \<open>Challenges\<close>

definition passkey_base64urlDecode :: "string \<Rightarrow> bytes js" where
  "passkey_base64urlDecode s = macBase64urlDecode s"

text \<open>\<open>toBytes\<close> of \<open>viem\<close> reads a 0x-string as hex.\<close>

definition hashToWebAuthnChallenge :: "(hex \<Rightarrow> bytes) \<Rightarrow> hex \<Rightarrow> string" where
  "hashToWebAuthnChallenge toBytes hash = bytesToBase64url (toBytes hash)"

subsection \<open>DER signatures\<close>

definition P256_N :: int where
  "P256_N = 0xffffffff00000000ffffffffffffffffbce6faada7179e84f3b9cac2fc632551"

text \<open>\<open>der[i]\<close> is \<open>undefined\<close> past the end, and a slice to an undefined end is empty.\<close>

definition byte_at :: "bytes \<Rightarrow> nat \<Rightarrow> byte option" where
  "byte_at bs i = (if i < length bs then Some (bs ! i) else None)"

definition slice_by :: "bytes \<Rightarrow> nat \<Rightarrow> byte option \<Rightarrow> bytes" where
  "slice_by bs i len = (case len of None \<Rightarrow> [] | Some n \<Rightarrow> take (unat n) (drop i bs))"

definition parseDerSignature :: "bytes \<Rightarrow> (int \<times> int) js" where
  "parseDerSignature der =
     (if length der < 8 then Inl (Error ''DER: too short'')
      else if byte_at der 0 \<noteq> Some 0x30 then Inl (Error ''DER: missing sequence tag'')
      else if byte_at der 2 \<noteq> Some 0x02 then Inl (Error ''DER: missing r tag'')
      else let rLen = unat (der ! 3); i = 4 + rLen in
        if byte_at der i \<noteq> Some 0x02 then Inl (Error ''DER: missing s tag'')
        else Inr (bytesToBigInt (slice_by der 4 (byte_at der 3)), bytesToBigInt (slice_by der (i + 2) (byte_at der (i + 1)))))"

definition normaliseLowS :: "int \<Rightarrow> int" where
  "normaliseLowS s = (if s > P256_N div 2 then P256_N - s else s)"

subsection \<open>Assertions\<close>

text \<open>The first index at which the needle occurs, or -1.\<close>

fun find_index :: "nat \<Rightarrow> bytes \<Rightarrow> bytes \<Rightarrow> int" where
  "find_index i hs needle =
     (if length hs < length needle then - 1
      else if take (length needle) hs = needle then int i
      else case hs of [] \<Rightarrow> - 1 | _ # hs' \<Rightarrow> find_index (Suc i) hs' needle)"

declare find_index.simps [simp del]

record webauthn_assertion =
  wa_authenticatorData :: hex
  wa_clientDataJSON :: string
  wa_challengeIndex :: int
  wa_typeIndex :: int
  wa_r :: int
  wa_s :: int
  wa_credentialIdDigest :: hex

definition type_marker :: string where
  "type_marker = [CHR 0x22] @ ''type'' @ [CHR 0x22, CHR '':'', CHR 0x22] @ ''webauthn.get'' @ [CHR 0x22]"

definition challenge_marker :: string where
  "challenge_marker = [CHR 0x22] @ ''challenge'' @ [CHR 0x22, CHR '':'', CHR 0x22]"

definition buildWebAuthnAssertion :: "(bytes \<Rightarrow> hex) \<Rightarrow> bytes \<Rightarrow> bytes \<Rightarrow> bytes \<Rightarrow> bytes \<Rightarrow> webauthn_assertion js" where
  "buildWebAuthnAssertion keccak credentialId authenticatorData clientData derSignature =
     (let typeIndex = find_index 0 clientData (TextEncoder type_marker) in
      if typeIndex < 0 then Inl (Error (''clientDataJSON: missing '' @ type_marker))
      else let challengeIndex = find_index 0 clientData (TextEncoder challenge_marker) in
        if challengeIndex < 0
        then Inl (Error (''clientDataJSON: missing '' @ [CHR 0x22] @ ''challenge'' @ [CHR 0x22] @ '' key''))
        else js_bind (parseDerSignature derSignature) (\<lambda>(r, s).
          Inr \<lparr>wa_authenticatorData = ''0x'' @ bytes_hex authenticatorData, wa_clientDataJSON = TextDecoder clientData,
               wa_challengeIndex = challengeIndex, wa_typeIndex = typeIndex, wa_r = r, wa_s = normaliseLowS s,
               wa_credentialIdDigest = keccak credentialId\<rparr>))"

subsection \<open>CBOR\<close>

text \<open>
  A decoded value; a number read from eight bytes is a \<open>bigint\<close>, all others are numbers. A map keeps its
  entries in insertion order.
\<close>

datatype cbor =
    CbNum int | CbBig int | CbStr string | CbBytes bytes | CbArr "cbor list" | CbMap "(cbor \<times> cbor) list" | CbBool bool | CbNull

text \<open>Keys that are arrays, byte strings or maps are objects: each is a key of its own.\<close>

definition value_key :: "cbor \<Rightarrow> bool" where
  "value_key k = (case k of CbArr xs \<Rightarrow> False | CbBytes b \<Rightarrow> False | CbMap m \<Rightarrow> False | _ \<Rightarrow> True)"

fun map_set :: "cbor \<Rightarrow> cbor \<Rightarrow> (cbor \<times> cbor) list \<Rightarrow> (cbor \<times> cbor) list" where
  "map_set k v [] = [(k, v)]"
| "map_set k v ((k', v') # m) = (if value_key k \<and> k = k' then (k', v) # m else (k', v') # map_set k v m)"

text \<open>The length that follows the first byte: the number and whether it is a \<open>bigint\<close>.\<close>

definition readLength :: "nat \<Rightarrow> nat \<Rightarrow> bytes \<Rightarrow> ((bool \<times> int) \<times> bytes) js" where
  "readLength beyond minor bs =
     (if minor < 24 then Inr ((False, int minor), bs)
      else if minor = 24 then js_bind (get_uint beyond 1 bs) (\<lambda>(n, bs'). Inr ((False, n), bs'))
      else if minor = 25 then js_bind (get_uint beyond 2 bs) (\<lambda>(n, bs'). Inr ((False, n), bs'))
      else if minor = 26 then js_bind (get_uint beyond 4 bs) (\<lambda>(n, bs'). Inr ((False, n), bs'))
      else if minor = 27 then
        js_bind (get_uint beyond 4 bs) (\<lambda>(hi, bs'). js_bind (get_uint beyond 4 bs') (\<lambda>(lo, bs''). Inr ((True, hi * 2 ^ 32 + lo), bs'')))
      else Inl (Error ''CBOR: indefinite-length / reserved length not supported''))"

definition number_of :: "bool \<Rightarrow> int \<Rightarrow> cbor" where
  "number_of big n = (if big then CbBig n else CbNum n)"

text \<open>A string is cut from the buffer, not from the view: only the end of the buffer bounds it.\<close>

definition read_bytes :: "int \<Rightarrow> bytes \<Rightarrow> (bytes \<times> bytes) js" where
  "read_bytes n bs = (if int (length bs) < n then Inl RangeError else Inr (take (nat n) bs, drop (nat n) bs))"

text \<open>
  The fuel bounds the calls; without any left the decoder answers like one that has reached the end of the
  bytes. Every call consumes a byte, so that twice the number of bytes is always enough.
\<close>

function (sequential)
  decodeOne :: "nat \<Rightarrow> nat \<Rightarrow> bytes \<Rightarrow> (cbor \<times> bytes) js" and
  decode_items :: "nat \<Rightarrow> nat \<Rightarrow> nat \<Rightarrow> bytes \<Rightarrow> (cbor list \<times> bytes) js" and
  decode_entries :: "nat \<Rightarrow> nat \<Rightarrow> nat \<Rightarrow> (cbor \<times> cbor) list \<Rightarrow> bytes \<Rightarrow> ((cbor \<times> cbor) list \<times> bytes) js"
where
  "decodeOne beyond 0 bs = Inl RangeError"
| "decodeOne beyond (Suc fuel) bs =
     (case bs of
        [] \<Rightarrow> Inl RangeError
      | first # bs0 \<Rightarrow>
          if length bs0 < beyond then Inl RangeError
          else let major = unat first div 32; minor = unat first mod 32 in
          js_bind (readLength beyond minor bs0) (\<lambda>((big, len), bs1).
            if major = 0 then Inr (number_of big len, bs1)
            else if major = 1 then Inr (number_of big (- len - 1), bs1)
            else if major = 2 then js_bind (read_bytes len bs1) (\<lambda>(b, bs2). Inr (CbBytes b, bs2))
            else if major = 3 then js_bind (read_bytes len bs1) (\<lambda>(b, bs2). Inr (CbStr (TextDecoder b), bs2))
            else if major = 4 then js_bind (decode_items beyond fuel (nat len) bs1) (\<lambda>(xs, bs2). Inr (CbArr xs, bs2))
            else if major = 5 then js_bind (decode_entries beyond fuel (nat len) [] bs1) (\<lambda>(m, bs2). Inr (CbMap m, bs2))
            else if major = 7 then
              (if minor = 20 then Inr (CbBool False, bs1)
               else if minor = 21 then Inr (CbBool True, bs1)
               else if minor = 22 then Inr (CbNull, bs1)
               else Inl (Error ''CBOR: unsupported simple/float value''))
            else Inl (Error (''CBOR: unsupported major type '' @ nat_str major))))"
| "decode_items beyond fuel 0 bs = Inr ([], bs)"
| "decode_items beyond 0 (Suc n) bs = Inl RangeError"
| "decode_items beyond (Suc fuel) (Suc n) bs =
     js_bind (decodeOne beyond fuel bs) (\<lambda>(x, bs1). js_bind (decode_items beyond fuel n bs1) (\<lambda>(xs, bs2). Inr (x # xs, bs2)))"
| "decode_entries beyond fuel 0 m bs = Inr (m, bs)"
| "decode_entries beyond 0 (Suc n) m bs = Inl RangeError"
| "decode_entries beyond (Suc fuel) (Suc n) m bs =
     js_bind (decodeOne beyond fuel bs) (\<lambda>(k, bs1). js_bind (decodeOne beyond fuel bs1) (\<lambda>(v, bs2). decode_entries beyond fuel n (map_set k v m) bs2))"
  by pat_completeness auto
termination by (relation "measure (\<lambda>x. case x of Inl (_, f, _) \<Rightarrow> f | Inr (Inl (_, f, _, _)) \<Rightarrow> f | Inr (Inr (_, f, _, _, _)) \<Rightarrow> f)") auto

text \<open>The bytes of the view, and those of its buffer behind it.\<close>

definition cborDecode :: "bytes \<Rightarrow> bytes \<Rightarrow> cbor js" where
  "cborDecode behind bs =
     js_bind (decodeOne (length behind) (2 * length (bs @ behind)) (bs @ behind)) (\<lambda>(v, rest). Inr v)"

text \<open>\<open>mapGet\<close>: a number that is no key is looked up again as a \<open>bigint\<close>.\<close>

definition mapGet :: "(cbor \<times> cbor) list \<Rightarrow> cbor \<Rightarrow> cbor option" where
  "mapGet m key =
     (case map_of m key of
        Some v \<Rightarrow> Some v
      | None \<Rightarrow> (case key of CbNum n \<Rightarrow> map_of m (CbBig n) | _ \<Rightarrow> None))"

subsection \<open>Attestations\<close>

record parsed_attestation =
  pa_credentialId :: bytes
  pa_credentialIdBase64Url :: string
  pa_pubKeyX :: int
  pa_pubKeyY :: int
  pa_aaguid :: bytes
  pa_signCount :: int
  pa_flagAT :: bool
  pa_flagUP :: bool
  pa_flagUV :: bool

definition parseAuthData :: "bytes \<Rightarrow> parsed_attestation js" where
  "parseAuthData authData =
     (if length authData < 37 then Inl (Error ''authData too short'')
      else let flags = authData ! 32; signCount = bytesToBigInt (take 4 (drop 33 authData));
               flagUP = bit flags 0; flagUV = bit flags 2; flagAT = bit flags 6 in
        if \<not> flagAT then Inl (Error ''authData: attested credential data flag not set'')
        else if length authData < 37 + 16 + 2 then Inl (Error ''authData too short for attested credential data'')
        else let aaguid = take 16 (drop 37 authData);
                 credIdLen = unat (authData ! 53) * 256 + unat (authData ! 54);
                 credentialId = take credIdLen (drop 55 authData) in
          js_bind (cborDecode [] (drop (55 + credIdLen) authData)) (\<lambda>coseMap.
            case coseMap of
              CbMap m \<Rightarrow>
                (case (mapGet m (CbNum (- 2)), mapGet m (CbNum (- 3))) of
                   (Some (CbBytes x), Some (CbBytes y)) \<Rightarrow>
                     Inr \<lparr>pa_credentialId = credentialId, pa_credentialIdBase64Url = bytesToBase64url credentialId,
                          pa_pubKeyX = bytesToBigInt x, pa_pubKeyY = bytesToBigInt y, pa_aaguid = aaguid, pa_signCount = signCount,
                          pa_flagAT = flagAT, pa_flagUP = flagUP, pa_flagUV = flagUV\<rparr>
                 | _ \<Rightarrow> Inl (Error ''COSE_Key: missing x/y coordinates''))
            | _ \<Rightarrow> Inl (Error ''COSE_Key: expected map'')))"

definition parseAttestationObject :: "bytes \<Rightarrow> bytes \<Rightarrow> parsed_attestation js" where
  "parseAttestationObject behind attestationObject =
     js_bind (cborDecode behind attestationObject) (\<lambda>top.
       case top of
         CbMap m \<Rightarrow>
           (case mapGet m (CbStr ''authData'') of
              Some (CbBytes authData) \<Rightarrow> parseAuthData authData
            | _ \<Rightarrow> Inl (Error ''attestationObject: missing authData''))
       | _ \<Rightarrow> Inl (Error ''attestationObject: expected CBOR map''))"

section \<open>What the passkey parsers establish\<close>

subsection \<open>The fuel is enough\<close>

lemma get_uint_rest: "get_uint beyond k bs = Inr (n, rest) \<Longrightarrow> length rest \<le> length bs"
  by (auto simp: get_uint_def split: if_split_asm)

lemma readLength_rest: "readLength beyond minor bs = Inr (n, rest) \<Longrightarrow> length rest \<le> length bs"
  by (auto simp: readLength_def dest!: get_uint_rest split: if_split_asm)

lemma read_bytes_rest: "read_bytes n bs = Inr (b, rest) \<Longrightarrow> length rest \<le> length bs"
  by (auto simp: read_bytes_def split: if_split_asm)

lemma decode_shorter:
  "decodeOne beyond fuel bs = Inr (v, rest) \<Longrightarrow> length rest < length bs"
  "decode_items beyond fuel n bs = Inr (xs, rest) \<Longrightarrow> length rest \<le> length bs"
  "decode_entries beyond fuel n m bs = Inr (m', rest) \<Longrightarrow> length rest \<le> length bs"
proof (induction beyond fuel bs and beyond fuel n bs and beyond fuel n m bs arbitrary: v rest and xs rest and m' rest
    rule: decodeOne_decode_items_decode_entries.induct)
  case (2 beyond fuel bs)
  from 2(3) obtain first bs0 big len bs1 where bs: "bs = first # bs0" "readLength beyond (unat first mod 32) bs0 = Inr ((big, len), bs1)"
    and nb: "\<not> length bs0 < beyond"
    by (auto simp: Let_def split: list.split_asm if_split_asm)
  have items: "unat first div 32 = 4 \<Longrightarrow> decode_items beyond fuel (nat len) bs1 = Inr (xs, r) \<Longrightarrow> length r \<le> length bs1" for xs r
    using 2(1) [OF bs(1) nb refl refl] by simp
  have entries: "unat first div 32 = 5 \<Longrightarrow> decode_entries beyond fuel (nat len) [] bs1 = Inr (m, r) \<Longrightarrow> length r \<le> length bs1" for m r
    using 2(2) [OF bs(1) nb refl refl] by simp
  have "length rest \<le> length bs1"
    using 2(3) bs nb items entries by (auto simp: Let_def dest: read_bytes_rest split: if_split_asm)
  then show ?case using readLength_rest [OF bs(2)] bs(1) by simp
next
  case (5 beyond fuel n bs)
  then obtain x bs1 ys where e: "decodeOne beyond fuel bs = Inr (x, bs1)" "decode_items beyond fuel n bs1 = Inr (ys, rest)" by auto
  from 5(1) [OF e(1)] 5(2) [OF e(2)] show ?case by simp
next
  case (8 beyond fuel n m bs)
  then obtain k bs1 v bs2 where e: "decodeOne beyond fuel bs = Inr (k, bs1)" "decodeOne beyond fuel bs1 = Inr (v, bs2)"
    "decode_entries beyond fuel n (map_set k v m) bs2 = Inr (m', rest)" by auto
  from 8(1) [OF e(1)] 8(2) [OF e(2)] 8(3) [OF e(3)] show ?case by linarith
qed simp_all

text \<open>Beyond twice the number of bytes, more fuel changes nothing.\<close>

lemma decode_fuel:
  "(\<forall>f g. 2 * length bs \<le> f \<longrightarrow> 2 * length bs \<le> g \<longrightarrow> decodeOne beyond f bs = decodeOne beyond g bs) \<and>
   (\<forall>n f g. 2 * length bs < f \<longrightarrow> 2 * length bs < g \<longrightarrow> decode_items beyond f n bs = decode_items beyond g n bs) \<and>
   (\<forall>n m f g. 2 * length bs < f \<longrightarrow> 2 * length bs < g \<longrightarrow> decode_entries beyond f n m bs = decode_entries beyond g n m bs)"
proof (induction "length bs" arbitrary: bs rule: less_induct)
  case less
  have one: "decodeOne beyond f bs = decodeOne beyond g bs" if "2 * length bs \<le> f" "2 * length bs \<le> g" for f g
  proof (cases bs)
    case Nil
    then show ?thesis by (cases f; cases g) simp_all
  next
    case (Cons first bs0)
    with that obtain f' g' where fg: "f = Suc f'" "g = Suc g'" by (cases f; cases g) auto
    have items: "decode_items beyond f' n bs1 = decode_items beyond g' n bs1 \<and> decode_entries beyond f' n m bs1 = decode_entries beyond g' n m bs1"
      if "length bs1 \<le> length bs0" for n m bs1
      using less [of bs1] that \<open>2 * length bs \<le> f\<close> \<open>2 * length bs \<le> g\<close> Cons fg by auto
    show ?thesis
    proof (cases "readLength beyond (unat first mod 32) bs0")
      case (Inr r)
      obtain big len bs1 where r: "r = ((big, len), bs1)" by (metis prod.exhaust)
      from items [OF readLength_rest [OF Inr [unfolded r]]] show ?thesis
        by (simp add: Cons fg Inr r Let_def)
    qed (simp add: Cons fg Let_def)
  qed
  have items: "decode_items beyond f n bs = decode_items beyond g n bs" if "2 * length bs < f" "2 * length bs < g" for f g n
  proof (cases n)
    case (Suc n')
    with that obtain f' g' where fg: "f = Suc f'" "g = Suc g'" by (cases f; cases g) auto
    with that have eq: "decodeOne beyond f' bs = decodeOne beyond g' bs" using one by simp
    show ?thesis
    proof (cases "decodeOne beyond g' bs")
      case (Inr r)
      obtain v rest where r: "r = (v, rest)" by (cases r)
      from decode_shorter(1) [OF Inr [unfolded r]] have "decode_items beyond f' n' rest = decode_items beyond g' n' rest"
        using less [of rest] that fg by simp
      then show ?thesis by (simp add: Suc fg eq Inr r)
    qed (simp add: Suc fg eq)
  qed simp
  have entries: "decode_entries beyond f n m bs = decode_entries beyond g n m bs" if "2 * length bs < f" "2 * length bs < g" for f g n m
  proof (cases n)
    case (Suc n')
    with that obtain f' g' where fg: "f = Suc f'" "g = Suc g'" by (cases f; cases g) auto
    with that have eq: "decodeOne beyond f' bs = decodeOne beyond g' bs" using one by simp
    show ?thesis
    proof (cases "decodeOne beyond g' bs")
      case (Inr r)
      obtain k bs1 where r: "r = (k, bs1)" by (cases r)
      have l: "length bs1 < length bs" by (rule decode_shorter(1) [OF Inr [unfolded r]])
      with less [of bs1] that fg have eq1: "decodeOne beyond f' bs1 = decodeOne beyond g' bs1" by simp
      show ?thesis
      proof (cases "decodeOne beyond g' bs1")
        case (Inr r1)
        obtain v bs2 where r1: "r1 = (v, bs2)" by (cases r1)
        from decode_shorter(1) [OF Inr [unfolded r1]] l
        have "decode_entries beyond f' n' m' bs2 = decode_entries beyond g' n' m' bs2" for m' using less [of bs2] that fg by simp
        then show ?thesis by (simp add: Suc fg eq eq1 Inr r1 \<open>decodeOne beyond g' bs = Inr r\<close> r)
      qed (simp add: Suc fg eq eq1 Inr r)
    qed (simp add: Suc fg eq)
  qed simp
  from one items entries show ?case by blast
qed

lemma decodeOne_fuel: "2 * length bs \<le> f \<Longrightarrow> decodeOne beyond f bs = decodeOne beyond (2 * length bs) bs"
  using decode_fuel [of bs] by blast

subsection \<open>The decoder reads back what an encoder writes\<close>

text \<open>A big-endian integer of \<open>k\<close> bytes, and the first bytes of an item: the shortest form of the length.\<close>

primrec be :: "nat \<Rightarrow> nat \<Rightarrow> bytes" where
  "be 0 n = []"
| "be (Suc k) n = be k (n div 256) @ [word_of_nat (n mod 256)]"

definition cbor_head :: "nat \<Rightarrow> nat \<Rightarrow> bytes" where
  "cbor_head major n =
     (if n < 24 then [word_of_nat (32 * major + n)]
      else if n < 2 ^ 8 then word_of_nat (32 * major + 24) # be 1 n
      else if n < 2 ^ 16 then word_of_nat (32 * major + 25) # be 2 n
      else if n < 2 ^ 32 then word_of_nat (32 * major + 26) # be 4 n
      else word_of_nat (32 * major + 27) # be 8 n)"

definition int_head :: "int \<Rightarrow> bytes" where
  "int_head n = (if 0 \<le> n then cbor_head 0 (nat n) else cbor_head 1 (nat (- n - 1)))"

primrec cbor_encode :: "cbor \<Rightarrow> bytes" where
  "cbor_encode (CbNum n) = int_head n"
| "cbor_encode (CbBig n) = int_head n"
| "cbor_encode (CbBytes b) = cbor_head 2 (length b) @ b"
| "cbor_encode (CbStr s) = cbor_head 3 (length s) @ TextEncoder s"
| "cbor_encode (CbArr xs) = cbor_head 4 (length xs) @ concat (map cbor_encode xs)"
| "cbor_encode (CbMap m) =
     cbor_head 5 (length m) @ concat (map (\<lambda>(k, v). k @ v) (map (map_prod cbor_encode cbor_encode) m))"
| "cbor_encode (CbBool b) = cbor_head 7 (if b then 21 else 20)"
| "cbor_encode CbNull = cbor_head 7 22"

text \<open>
  The values that have an encoding: integers of up to 64 bits, a \<open>bigint\<close> exactly where the decoder makes one,
  and maps that name each key once.
\<close>

primrec cbor_ok :: "cbor \<Rightarrow> bool" where
  "cbor_ok (CbNum n) = (- (2 ^ 32) \<le> n \<and> n < 2 ^ 32)"
| "cbor_ok (CbBig n) = (2 ^ 32 \<le> n \<and> n < 2 ^ 64 \<or> - (2 ^ 64) \<le> n \<and> n < - (2 ^ 32))"
| "cbor_ok (CbBytes b) = (length b < 2 ^ 64)"
| "cbor_ok (CbStr s) = (length s < 2 ^ 64)"
| "cbor_ok (CbArr xs) = (length xs < 2 ^ 64 \<and> list_all id (map cbor_ok xs))"
| "cbor_ok (CbMap m) =
     (length m < 2 ^ 64 \<and> list_all (\<lambda>(k, v). k \<and> v) (map (map_prod cbor_ok cbor_ok) m) \<and> distinct (filter value_key (map fst m)))"
| "cbor_ok (CbBool b) = True"
| "cbor_ok CbNull = True"

lemma length_be [simp]: "length (be k n) = k"
  by (induction k arbitrary: n) simp_all

lemma be_add: "be (a + b) n = be a (n div 256 ^ b) @ be b n"
  by (induction b arbitrary: n) (simp_all add: div_mult2_eq mult.commute)

lemma uint_byte: "uint (word_of_nat n :: byte) = int n mod 256"
  by (simp add: unsigned_of_nat take_bit_eq_mod of_nat_mod)

lemma bytesToBigInt_be: "n < 256 ^ k \<Longrightarrow> bytesToBigInt (be k n) = int n"
proof (induction k arbitrary: n)
  case (Suc k)
  then have "n div 256 < 256 ^ k" by (simp add: less_mult_imp_div_less mult.commute)
  from Suc.IH [OF this] show ?case
    by (simp add: bytesToBigInt_def uint_byte zmod_int zdiv_int)
qed (simp add: bytesToBigInt_def)

lemma get_uint_be [simp]: "n < 256 ^ k \<Longrightarrow> get_uint 0 k (be k n @ rest) = Inr (int n, rest)"
  by (simp add: get_uint_def bytesToBigInt_be)

lemma get_uint_be_mod: "get_uint 0 k (be k n @ rest) = Inr (int (n mod 256 ^ k), rest)"
proof -
  have "be k n = be k (n mod 256 ^ k)"
  proof (induction k arbitrary: n)
    case (Suc k)
    have "n mod 256 ^ Suc k div 256 = (n div 256) mod 256 ^ k" "n mod 256 ^ Suc k mod 256 = n mod 256"
      by (simp_all add: mod_mult2_eq)
    with Suc.IH [of "n div 256"] show ?case by simp
  qed simp
  then show ?thesis by (metis get_uint_be mod_less_divisor zero_less_numeral zero_less_power)
qed

lemma unat_first: "major < 8 \<Longrightarrow> minor < 32 \<Longrightarrow>
    unat (word_of_nat (32 * major + minor) :: byte) div 32 = major \<and> unat (word_of_nat (32 * major + minor) :: byte) mod 32 = minor"
proof -
  assume "major < 8" "minor < 32"
  then have "unat (word_of_nat (32 * major + minor) :: byte) = 32 * major + minor"
    by (simp only: unsigned_of_nat take_bit_eq_mod) simp
  with \<open>minor < 32\<close> show ?thesis by simp
qed

text \<open>Reading a head gives the major type, the number, and whether it is a \<open>bigint\<close>.\<close>

lemma read_head:
  assumes "major < 8" and "n < 2 ^ 64"
  obtains first tail where "cbor_head major n = first # tail" and "unat first div 32 = major"
    and "\<And>rest. readLength 0 (unat first mod 32) (tail @ rest) = Inr ((2 ^ 32 \<le> n, int n), rest)"
    and "n < 24 \<longrightarrow> unat first mod 32 = n"
proof -
  consider (a) "n < 24" | (b) "24 \<le> n" "n < 2 ^ 8" | (c) "2 ^ 8 \<le> n" "n < 2 ^ 16" | (d) "2 ^ 16 \<le> n" "n < 2 ^ 32" | (e) "2 ^ 32 \<le> n"
    by linarith
  then show thesis
  proof cases
    case a
    with unat_first [OF assms(1), of n] show thesis
      by (intro that [of "word_of_nat (32 * major + n)" "[]"]) (simp_all add: cbor_head_def readLength_def)
  next
    case b
    with unat_first [OF assms(1), of 24] show thesis
      by (intro that [of "word_of_nat (32 * major + 24)" "be 1 n"]) (simp_all add: cbor_head_def readLength_def del: be.simps)
  next
    case c
    with unat_first [OF assms(1), of 25] show thesis
      by (intro that [of "word_of_nat (32 * major + 25)" "be 2 n"]) (simp_all add: cbor_head_def readLength_def del: be.simps)
  next
    case d
    with unat_first [OF assms(1), of 26] show thesis
      by (intro that [of "word_of_nat (32 * major + 26)" "be 4 n"]) (simp_all add: cbor_head_def readLength_def del: be.simps)
  next
    case e
    have hi: "n div 2 ^ 32 < 2 ^ 32" using assms(2) by (simp add: less_mult_imp_div_less)
    have split: "be 8 n = be 4 (n div 2 ^ 32) @ be 4 n" using be_add [of 4 4 n] by simp
    have "int (n div 2 ^ 32) * 2 ^ 32 + int (n mod 2 ^ 32) = int n"
      by (simp add: zdiv_int zmod_int)
    then have "readLength 0 27 (be 8 n @ rest) = Inr ((True, int n), rest)" for rest
      using hi get_uint_be_mod [of 4 n rest] by (simp add: readLength_def split)
    with e unat_first [OF assms(1), of 27] show thesis
      by (intro that [of "word_of_nat (32 * major + 27)" "be 8 n"]) (simp_all add: cbor_head_def del: be.simps)
  qed
qed

lemma map_set_new:
  "\<not> (value_key k \<and> k \<in> fst ` set m) \<Longrightarrow> map_set k v m = m @ [(k, v)]"
  by (induction k v m rule: map_set.induct) auto

lemma decode_items_encoded:
  assumes "\<And>x f rest. x \<in> set xs \<Longrightarrow> 2 * length (cbor_encode x @ rest) \<le> f \<Longrightarrow> decodeOne 0 f (cbor_encode x @ rest) = Inr (x, rest)"
    and "2 * length (concat (map cbor_encode xs) @ rest) < f"
  shows "decode_items 0 f (length xs) (concat (map cbor_encode xs) @ rest) = Inr (xs, rest)"
  using assms
proof (induction xs arbitrary: f)
  case (Cons x xs)
  then obtain g where f: "f = Suc g" by (cases f) auto
  have x: "decodeOne 0 g (cbor_encode x @ concat (map cbor_encode xs) @ rest) = Inr (x, concat (map cbor_encode xs) @ rest)"
    using Cons.prems by (simp add: f)
  from decode_shorter(1) [OF x] obtain b bs where "cbor_encode x = b # bs" by (cases "cbor_encode x") auto
  with Cons.prems(2) have "2 * length (concat (map cbor_encode xs) @ rest) < g" by (simp add: f)
  with Cons x show ?case by (simp add: f)
qed simp

lemma decode_entries_encoded:
  assumes "\<And>k v x f rest. (k, v) \<in> set m \<Longrightarrow> x \<in> {k, v} \<Longrightarrow> 2 * length (cbor_encode x @ rest) \<le> f \<Longrightarrow>
      decodeOne 0 f (cbor_encode x @ rest) = Inr (x, rest)"
    and "2 * length (concat (map (\<lambda>(k, v). cbor_encode k @ cbor_encode v) m) @ rest) < f"
    and "distinct (filter value_key (map fst (done @ m)))"
  shows "decode_entries 0 f (length m) done (concat (map (\<lambda>(k, v). cbor_encode k @ cbor_encode v) m) @ rest) = Inr (done @ m, rest)"
  using assms
proof (induction m arbitrary: f "done")
  case (Cons e m)
  obtain k v where e: "e = (k, v)" by (cases e)
  from Cons.prems obtain g where f: "f = Suc g" by (cases f) auto
  let ?tail = "concat (map (\<lambda>(k, v). cbor_encode k @ cbor_encode v) m) @ rest"
  have k: "decodeOne 0 g (cbor_encode k @ cbor_encode v @ ?tail) = Inr (k, cbor_encode v @ ?tail)"
    using Cons.prems(2) by (intro Cons.prems(1) [of k v]) (simp_all add: e f)
  have v: "decodeOne 0 g (cbor_encode v @ ?tail) = Inr (v, ?tail)"
    using Cons.prems(2) by (intro Cons.prems(1) [of k v]) (simp_all add: e f)
  have new: "map_set k v done = done @ [e]"
    using Cons.prems(3) by (subst map_set_new) (auto simp: e)
  from decode_shorter(1) [OF v] obtain b bs where "cbor_encode v = b # bs" by (cases "cbor_encode v") auto
  then have "2 * length ?tail < g" using Cons.prems(2) by (simp add: e f)
  moreover have "decodeOne 0 f' (cbor_encode x @ r) = Inr (x, r)"
    if "(k', v') \<in> set m" "x \<in> {k', v'}" "2 * length (cbor_encode x @ r) \<le> f'" for k' v' x f' r
    by (rule Cons.prems(1) [of k' v']) (use that in auto)
  moreover have "distinct (filter value_key (map fst ((done @ [e]) @ m)))" using Cons.prems(3) by simp
  ultimately have "decode_entries 0 g (length m) (done @ [e]) ?tail = Inr ((done @ [e]) @ m, rest)"
    by (intro Cons.IH)
  then show ?case using k v new by (simp add: e f)
qed simp

lemma decode_integer:
  assumes "- (2 ^ 64) \<le> n" "n < 2 ^ 64" "2 * length (int_head n @ rest) \<le> f"
  shows "decodeOne 0 f (int_head n @ rest) = Inr (number_of (n < - (2 ^ 32) \<or> 2 ^ 32 \<le> n) n, rest)"
proof -
  let ?major = "if 0 \<le> n then 0 else 1 :: nat" and ?n = "if 0 \<le> n then nat n else nat (- n - 1)"
  have "?n < 2 ^ 64" using assms(1,2) by auto
  then obtain first tail where h: "cbor_head ?major ?n = first # tail" "unat first div 32 = ?major"
    "\<And>rest. readLength 0 (unat first mod 32) (tail @ rest) = Inr ((2 ^ 32 \<le> ?n, int ?n), rest)"
    by (rule read_head [of ?major ?n, rotated]) auto
  have i: "int_head n = first # tail" using h(1) by (simp add: int_head_def split: if_splits)
  with assms(3) obtain g where "f = Suc g" by (cases f) auto
  moreover have "2 ^ 32 \<le> ?n \<longleftrightarrow> n < - (2 ^ 32) \<or> 2 ^ 32 \<le> n" by (auto simp: nat_le_iff le_nat_iff)
  ultimately show ?thesis using h(2,3) i by (simp add: Let_def split: if_splits)
qed

text \<open>Opening an item whose first byte announces \<open>n\<close> elements or bytes.\<close>

lemma open_head:
  assumes "major < 8" "n < 2 ^ 64" "2 * length (cbor_head major n @ rest) \<le> f"
  obtains g first tail where "f = Suc g" "cbor_head major n = first # tail" "2 * length rest < g" "unat first div 32 = major"
    "readLength 0 (unat first mod 32) (tail @ rest) = Inr ((2 ^ 32 \<le> n, int n), rest)" "n < 24 \<longrightarrow> unat first mod 32 = n"
proof (rule read_head [OF assms(1,2)])
  fix first tail
  assume h: "cbor_head major n = first # tail" "unat first div 32 = major"
    "\<And>rest. readLength 0 (unat first mod 32) (tail @ rest) = Inr ((2 ^ 32 \<le> n, int n), rest)" "n < 24 \<longrightarrow> unat first mod 32 = n"
  moreover from assms(3) h(1) obtain g where "f = Suc g" by (cases f) auto
  ultimately show thesis using assms(3) by (intro that [of g first tail]) auto
qed

lemma cbor_decode_encode:
  "cbor_ok v \<Longrightarrow> 2 * length (cbor_encode v @ rest) \<le> f \<Longrightarrow> decodeOne 0 f (cbor_encode v @ rest) = Inr (v, rest)"
proof (induction v arbitrary: f rest)
  case (CbNum n)
  then show ?case using decode_integer [of n rest f] by (auto simp: number_of_def)
next
  case (CbBig n)
  then show ?case using decode_integer [of n rest f] by (auto simp: number_of_def)
next
  case (CbBytes b)
  then have n: "length b < 2 ^ 64" and l: "2 * length (cbor_head 2 (length b) @ b @ rest) \<le> f" by simp_all
  obtain g first tail where "f = Suc g" "cbor_head 2 (length b) = first # tail" "unat first div 32 = 2"
    "readLength 0 (unat first mod 32) (tail @ b @ rest) = Inr ((2 ^ 32 \<le> length b, int (length b)), b @ rest)"
    by (rule open_head [OF _ n l]) simp_all
  then show ?case by (simp add: read_bytes_def Let_def)
next
  case (CbStr s)
  then have n: "length s < 2 ^ 64" and l: "2 * length (cbor_head 3 (length s) @ TextEncoder s @ rest) \<le> f" by simp_all
  obtain g first tail where "f = Suc g" "cbor_head 3 (length s) = first # tail" "unat first div 32 = 3"
    "readLength 0 (unat first mod 32) (tail @ TextEncoder s @ rest) = Inr ((2 ^ 32 \<le> length s, int (length s)), TextEncoder s @ rest)"
    by (rule open_head [OF _ n l]) simp_all
  moreover have "length (TextEncoder s) = length s" by (simp add: TextEncoder_def)
  ultimately show ?case by (simp add: read_bytes_def Let_def)
next
  case (CbArr xs)
  let ?body = "concat (map cbor_encode xs)"
  from CbArr.prems have n: "length xs < 2 ^ 64" and l: "2 * length (cbor_head 4 (length xs) @ ?body @ rest) \<le> f"
    and ok: "\<And>x. x \<in> set xs \<Longrightarrow> cbor_ok x" by (simp_all add: list_all_iff)
  obtain g first tail where g: "f = Suc g" "cbor_head 4 (length xs) = first # tail" "2 * length (?body @ rest) < g" "unat first div 32 = 4"
    "readLength 0 (unat first mod 32) (tail @ ?body @ rest) = Inr ((2 ^ 32 \<le> length xs, int (length xs)), ?body @ rest)"
    by (rule open_head [OF _ n l]) simp_all
  have "decode_items 0 g (length xs) (?body @ rest) = Inr (xs, rest)"
    using g(3) CbArr.IH ok by (intro decode_items_encoded) auto
  with g show ?case by (simp add: Let_def)
next
  case (CbMap m)
  let ?body = "concat (map (\<lambda>(k, v). cbor_encode k @ cbor_encode v) m)"
  have body: "concat (map (\<lambda>(k, v). k @ v) (map (map_prod cbor_encode cbor_encode) m)) = ?body"
    by (simp add: comp_def case_prod_unfold)
  from CbMap.prems have n: "length m < 2 ^ 64" and l: "2 * length (cbor_head 5 (length m) @ ?body @ rest) \<le> f"
    and ok: "\<And>k v. (k, v) \<in> set m \<Longrightarrow> cbor_ok k \<and> cbor_ok v" and d: "distinct (filter value_key (map fst ([] @ m)))"
    unfolding cbor_encode.simps body by (auto simp: list_all_iff)
  obtain g first tail where g: "f = Suc g" "cbor_head 5 (length m) = first # tail" "2 * length (?body @ rest) < g" "unat first div 32 = 5"
    "readLength 0 (unat first mod 32) (tail @ ?body @ rest) = Inr ((2 ^ 32 \<le> length m, int (length m)), ?body @ rest)"
    by (rule open_head [OF _ n l]) simp_all
  have item: "decodeOne 0 f (cbor_encode x @ rest) = Inr (x, rest)" if "(k, v) \<in> set m" "x \<in> {k, v}" "2 * length (cbor_encode x @ rest) \<le> f" for k v x f rest
    using that ok [OF that(1)] CbMap.IH [OF that(1)] by auto
  have "decode_entries 0 g (length m) [] (?body @ rest) = Inr ([] @ m, rest)"
    by (rule decode_entries_encoded [OF item g(3) d])
  with g show ?case unfolding cbor_encode.simps body by (simp add: Let_def)
next
  case (CbBool b)
  then have l: "2 * length (cbor_head 7 (if b then 21 else 20) @ rest) \<le> f" by simp
  obtain g first tail where "f = Suc g" "cbor_head 7 (if b then 21 else 20) = first # tail" "unat first div 32 = 7"
    "readLength 0 (unat first mod 32) (tail @ rest) = Inr ((2 ^ 32 \<le> (if b then 21 else 20 :: nat), int (if b then 21 else 20)), rest)"
    "unat first mod 32 = (if b then 21 else 20)"
    by (rule open_head [OF _ _ l]) auto
  then show ?case by (cases b) (simp_all add: Let_def)
next
  case CbNull
  then have l: "2 * length (cbor_head 7 22 @ rest) \<le> f" by simp
  obtain g first tail where "f = Suc g" "cbor_head 7 22 = first # tail" "unat first div 32 = 7"
    "readLength 0 (unat first mod 32) (tail @ rest) = Inr ((2 ^ 32 \<le> (22 :: nat), int 22), rest)" "unat first mod 32 = 22"
    by (rule open_head [OF _ _ l]) auto
  then show ?case by (simp add: Let_def)
qed

text \<open>A whole item at the front of the bytes is decoded; what follows it is not looked at.\<close>

lemma cborDecode_encode: "cbor_ok v \<Longrightarrow> cborDecode [] (cbor_encode v @ rest) = Inr v"
  using cbor_decode_encode [of v rest "2 * length (cbor_encode v @ rest)"] by (simp add: cborDecode_def del: length_append)

subsection \<open>What the decoder returns\<close>

text \<open>
  The type of decoded values: numbers of the width of their length field, a byte string or text no longer than
  the input, and maps that hold each value key once.
\<close>

primrec cbor_typed :: "nat \<Rightarrow> cbor \<Rightarrow> bool" where
  "cbor_typed w (CbNum n) = (- (2 ^ 32) \<le> n \<and> n < 2 ^ 32)"
| "cbor_typed w (CbBig n) = (- (2 ^ 64) \<le> n \<and> n < 2 ^ 64)"
| "cbor_typed w (CbBytes b) = (length b \<le> w)"
| "cbor_typed w (CbStr s) = (length s \<le> w)"
| "cbor_typed w (CbArr xs) = (length xs \<le> w \<and> list_all id (map (cbor_typed w) xs))"
| "cbor_typed w (CbMap m) =
     (length m \<le> w \<and> list_all (\<lambda>(k, v). k \<and> v) (map (map_prod (cbor_typed w) (cbor_typed w)) m) \<and>
      distinct (filter value_key (map fst m)))"
| "cbor_typed w (CbBool b) = True"
| "cbor_typed w CbNull = True"

lemma cbor_typed_list:
  "list_all id (map (cbor_typed w) xs) \<longleftrightarrow> (\<forall>x \<in> set xs. cbor_typed w x)"
  "list_all (\<lambda>(k, v). k \<and> v) (map (map_prod (cbor_typed w) (cbor_typed w)) m) \<longleftrightarrow> (\<forall>(k, v) \<in> set m. cbor_typed w k \<and> cbor_typed w v)"
  by (auto simp: list_all_iff)

lemma bytesToBigInt_bound: "0 \<le> bytesToBigInt bs \<and> bytesToBigInt bs < 256 ^ length bs"
  using foldl_bytes_bound [of 0 bs] by (simp add: bytesToBigInt_def)

lemma get_uint_bound: "get_uint beyond k bs = Inr (n, rest) \<Longrightarrow> 0 \<le> n \<and> n < 256 ^ k"
  using bytesToBigInt_bound [of "take k bs"] by (auto simp: get_uint_def min_absorb2 split: if_split_asm)

lemma readLength_bound:
  assumes "readLength beyond minor bs = Inr ((big, n), rest)"
  shows "0 \<le> n \<and> n < 2 ^ 64 \<and> (\<not> big \<longrightarrow> n < 2 ^ 32)"
proof -
  consider "minor < 24" | "minor = 24" | "minor = 25" | "minor = 26" | "minor = 27" | "27 < minor" by linarith
  then show ?thesis
  proof cases
    case 5
    with assms obtain hi lo bs' where "get_uint beyond 4 bs = Inr (hi, bs')" "get_uint beyond 4 bs' = Inr (lo, rest)" "n = hi * 2 ^ 32 + lo" "big"
      by (auto simp: readLength_def)
    with get_uint_bound [of beyond 4 bs hi bs'] get_uint_bound [of beyond 4 bs' lo rest] show ?thesis by simp
  next
    case 6
    with assms show ?thesis by (simp add: readLength_def)
  qed (use assms in \<open>auto simp: readLength_def dest!: get_uint_bound\<close>)
qed

lemma map_set_keys: "set (map fst (map_set k v m)) = insert k (set (map fst m))"
  by (induction k v m rule: map_set.induct) auto

lemma map_set_distinct: "distinct (filter value_key (map fst m)) \<Longrightarrow> distinct (filter value_key (map fst (map_set k v m)))"
  using map_set_keys by (induction k v m rule: map_set.induct) (auto simp del: set_map)

lemma map_set_values: "(a, b) \<in> set (map_set k v m) \<Longrightarrow> (a, b) \<in> set m \<or> a = k \<and> b = v"
  by (induction k v m rule: map_set.induct) (auto split: if_split_asm)

lemma length_map_set: "length (map_set k v m) \<le> Suc (length m)"
  by (induction k v m rule: map_set.induct) auto

lemma decoded_typed:
  "decodeOne beyond fuel bs = Inr (v, rest) \<Longrightarrow> length bs \<le> w \<Longrightarrow> cbor_typed w v"
  "decode_items beyond fuel n bs = Inr (xs, rest) \<Longrightarrow> length bs \<le> w \<Longrightarrow>
     length xs + length rest \<le> length bs \<and> (\<forall>x \<in> set xs. cbor_typed w x)"
  "decode_entries beyond fuel n m bs = Inr (m', rest) \<Longrightarrow> length bs \<le> w \<Longrightarrow>
     length m' + length rest \<le> length m + length bs \<and>
     ((\<forall>(k, v) \<in> set m. cbor_typed w k \<and> cbor_typed w v) \<and> distinct (filter value_key (map fst m)) \<longrightarrow>
      (\<forall>(k, v) \<in> set m'. cbor_typed w k \<and> cbor_typed w v) \<and> distinct (filter value_key (map fst m')))"
proof (induction beyond fuel bs and beyond fuel n bs and beyond fuel n m bs arbitrary: v rest and xs rest and m' rest
    rule: decodeOne_decode_items_decode_entries.induct)
  case (2 beyond fuel bs)
  from 2(3) obtain first bs0 big len bs1 where bs: "bs = first # bs0" "readLength beyond (unat first mod 32) bs0 = Inr ((big, len), bs1)"
    and nb: "\<not> length bs0 < beyond"
    by (auto simp: Let_def split: list.split_asm if_split_asm)
  have l: "length bs1 \<le> w" using readLength_rest [OF bs(2)] bs(1) 2(4) by simp
  have items: "length xs + length r \<le> length bs1 \<and> (\<forall>x \<in> set xs. cbor_typed w x)"
    if "unat first div 32 = 4" "decode_items beyond fuel (nat len) bs1 = Inr (xs, r)" for xs r
    using 2(1) [OF bs(1) nb refl refl] that l by simp
  have entries: "length m + length r \<le> length bs1 \<and> (\<forall>(k, v) \<in> set m. cbor_typed w k \<and> cbor_typed w v) \<and> distinct (filter value_key (map fst m))"
    if "unat first div 32 = 5" "decode_entries beyond fuel (nat len) [] bs1 = Inr (m, r)" for m r
    using 2(2) [OF bs(1) nb refl refl] that l by simp
  have num: "cbor_typed w (number_of big len)" "cbor_typed w (number_of big (- len - 1))"
    using readLength_bound [OF bs(2)] by (auto simp: number_of_def)
  consider (n0) "unat first div 32 = 0" | (n1) "unat first div 32 = 1" | (bs2) "unat first div 32 = 2" | (st) "unat first div 32 = 3"
    | (ar) "unat first div 32 = 4" | (ma) "unat first div 32 = 5" | (o) "5 < unat first div 32" by linarith
  then show ?case
  proof cases
    case bs2
    with 2(3) bs nb obtain b where "read_bytes len bs1 = Inr (b, rest)" "v = CbBytes b" by auto
    with l show ?thesis by (auto simp: read_bytes_def split: if_split_asm)
  next
    case st
    with 2(3) bs nb obtain b where "read_bytes len bs1 = Inr (b, rest)" "v = CbStr (TextDecoder b)" by auto
    with l show ?thesis by (auto simp: read_bytes_def TextDecoder_def split: if_split_asm)
  next
    case ar
    with 2(3) bs nb obtain xs where "decode_items beyond fuel (nat len) bs1 = Inr (xs, rest)" "v = CbArr xs" by auto
    with items [OF ar] l show ?thesis by (fastforce simp: cbor_typed_list)
  next
    case ma
    with 2(3) bs nb obtain m where "decode_entries beyond fuel (nat len) [] bs1 = Inr (m, rest)" "v = CbMap m" by auto
    with entries [OF ma] l show ?thesis by (fastforce simp: cbor_typed_list)
  qed (use 2(3) bs nb num in \<open>auto simp: Let_def split: if_split_asm\<close>)
next
  case (5 beyond fuel n bs)
  then obtain x bs1 ys where e: "decodeOne beyond fuel bs = Inr (x, bs1)" "decode_items beyond fuel n bs1 = Inr (ys, rest)" and xs: "xs = x # ys" by auto
  have l: "length bs1 < length bs" by (rule decode_shorter(1) [OF e(1)])
  with 5(1) [OF e(1)] 5(2) [OF e(2)] 5(4) show ?case by (simp add: xs)
next
  case (8 beyond fuel n m bs)
  then obtain k bs1 v bs2 where e: "decodeOne beyond fuel bs = Inr (k, bs1)" "decodeOne beyond fuel bs1 = Inr (v, bs2)"
    "decode_entries beyond fuel n (map_set k v m) bs2 = Inr (m', rest)" by auto
  have l: "length bs1 < length bs" "length bs2 < length bs1" using decode_shorter(1) e by blast+
  have k: "cbor_typed w k" "cbor_typed w v" using 8(1) [OF e(1)] 8(2) [OF e(2)] 8(5) l by simp_all
  have keep: "(\<forall>(a, b) \<in> set (map_set k v m). cbor_typed w a \<and> cbor_typed w b)" if "\<forall>(a, b) \<in> set m. cbor_typed w a \<and> cbor_typed w b"
    using that k map_set_values [of _ _ k v m] by fastforce
  have "length m' + length rest \<le> length (map_set k v m) + length bs2" and
    step: "(\<forall>(a, b) \<in> set (map_set k v m). cbor_typed w a \<and> cbor_typed w b) \<and> distinct (filter value_key (map fst (map_set k v m))) \<longrightarrow>
      (\<forall>(a, b) \<in> set m'. cbor_typed w a \<and> cbor_typed w b) \<and> distinct (filter value_key (map fst m'))"
    using 8(3) [OF e(3)] 8(5) l by simp_all
  moreover have "length (map_set k v m) \<le> Suc (length m)" by (rule length_map_set)
  ultimately show ?case using l keep map_set_distinct [of m k v] by linarith
qed simp_all

text \<open>
  C35: Every value the CBOR decoder returns fits the buffer it reads: integers within 64 bits, strings, lists and maps
  no longer than the bytes from the start of the view to the end of its buffer, and in a map the keys that are values
  (not byte strings, lists or maps) distinct. For a view that spans its buffer the bound is the input's length.
\<close>

theorem decoded_values_are_typed: "cborDecode behind bs = Inr v \<Longrightarrow> cbor_typed (length bs + length behind) v"
  by (auto simp: cborDecode_def intro: decoded_typed(1))

theorem decoded_values_are_typed_witness: "cbor_typed (length (cbor_encode (CbArr [CbNum 3])) + length ([] :: bytes)) (CbArr [CbNum 3])"
proof -
  have "cbor_ok (CbArr [CbNum 3])" by simp
  then have "cborDecode [] (cbor_encode (CbArr [CbNum 3]) @ []) = Inr (CbArr [CbNum 3])" by (rule cborDecode_encode)
  then show ?thesis unfolding append_Nil2 by (rule decoded_values_are_typed)
qed

text \<open>The bound is the buffer's and not the view's: a view of one byte that announces a byte string yields bytes behind it.\<close>

lemma view_is_over_read: "cborDecode [0xAA, 0xBB] [0x41] = Inr (CbBytes [0xAA])"
proof -
  have "decodeOne (Suc (Suc 0)) (Suc 5) [0x41, 0xAA, 0xBB] = Inr (CbBytes [0xAA], [0xBB])"
    unfolding decodeOne.simps by (simp add: readLength_def read_bytes_def Let_def)
  then show ?thesis by (simp add: cborDecode_def)
qed

subsection \<open>Which key is registered\<close>

text \<open>Authenticator data with attested credential data, as an authenticator lays it out.\<close>

definition auth_data :: "bytes \<Rightarrow> byte \<Rightarrow> nat \<Rightarrow> bytes \<Rightarrow> bytes \<Rightarrow> (cbor \<times> cbor) list \<Rightarrow> bytes" where
  "auth_data rpIdHash flags signCount aaguid credId cose =
     rpIdHash @ [flags] @ be 4 signCount @ aaguid @ be 2 (length credId) @ credId @ cbor_encode (CbMap cose)"

lemma nth_drop_take: "i < k \<Longrightarrow> k \<le> length xs \<Longrightarrow> take k xs ! i = xs ! i"
  by simp

lemma parseAuthData_layout:
  assumes "length rpIdHash = 32" "bit flags 6" "signCount < 2 ^ 32" "length aaguid = 16" "length credId < 2 ^ 16"
    and "cbor_ok (CbMap cose)" "mapGet cose (CbNum (- 2)) = Some (CbBytes x)" "mapGet cose (CbNum (- 3)) = Some (CbBytes y)"
  shows "parseAuthData (auth_data rpIdHash flags signCount aaguid credId cose) =
    Inr \<lparr>pa_credentialId = credId, pa_credentialIdBase64Url = bytesToBase64url credId, pa_pubKeyX = bytesToBigInt x,
         pa_pubKeyY = bytesToBigInt y, pa_aaguid = aaguid, pa_signCount = int signCount, pa_flagAT = True,
         pa_flagUP = bit flags 0, pa_flagUV = bit flags 2\<rparr>"
proof -
  let ?data = "auth_data rpIdHash flags signCount aaguid credId cose"
  have two: "be 2 (length credId) = [word_of_nat (length credId div 256), word_of_nat (length credId mod 256)]"
    using assms(5) by (simp add: numeral_2_eq_2 word_of_nat_eq_iff take_bit_eq_mod)
  have data: "?data = (rpIdHash @ [flags] @ be 4 signCount @ aaguid) @ be 2 (length credId) @ credId @ cbor_encode (CbMap cose)"
    by (simp add: auth_data_def)
  have l53: "length (rpIdHash @ [flags] @ be 4 signCount @ aaguid) = 53" using assms(1,4) by simp
  have at: "?data ! 53 = word_of_nat (length credId div 256)" "?data ! 54 = word_of_nat (length credId mod 256)"
    unfolding data nth_append l53 two by simp_all
  have "?data ! 32 = flags" "take 4 (drop 33 ?data) = be 4 signCount" "take 16 (drop 37 ?data) = aaguid"
    using assms(1,4) by (simp_all add: auth_data_def nth_append del: be.simps)
  moreover have "drop 55 ?data = credId @ cbor_encode (CbMap cose)"
    unfolding data drop_append l53 by (simp add: assms(1,4) del: be.simps cbor_encode.simps)
  then have "take (length credId) (drop 55 ?data) = credId" "drop (55 + length credId) ?data = cbor_encode (CbMap cose)"
    by (simp_all add: add.commute [of 55] flip: drop_drop del: cbor_encode.simps)
  moreover have "unat (?data ! 53) * 256 + unat (?data ! 54) = length credId"
    using assms(5) by (simp add: at unsigned_of_nat take_bit_eq_mod less_mult_imp_div_less)
  moreover have "55 \<le> length ?data" using assms(1,4) by (simp add: auth_data_def del: be.simps)
  moreover have "cborDecode [] (cbor_encode (CbMap cose)) = Inr (CbMap cose)"
    using cborDecode_encode [OF assms(6), of "[]"] by simp
  moreover have "bytesToBigInt (be 4 signCount) = int signCount" using assms(3) by (simp add: bytesToBigInt_be del: be.simps)
  ultimately show ?thesis
    using assms(2,7,8) unfolding parseAuthData_def Let_def by (simp del: cbor_encode.simps be.simps)
qed

text \<open>
  From a well-formed attestation object the parser reads the credential id, the two coordinates and the flags
  that the authenticator put there. Only the entries -2 and -3 of the key are looked at: whatever key type,
  algorithm and curve its other entries name, the coordinates are taken for a P-256 key.
\<close>

theorem attestation_reads_the_key:
  assumes "length rpIdHash = 32" "bit flags 6" "signCount < 2 ^ 32" "length aaguid = 16" "length credId < 2 ^ 16"
    and "cbor_ok (CbMap cose)" "map_of cose (CbNum (- 2)) = Some (CbBytes x)" "map_of cose (CbNum (- 3)) = Some (CbBytes y)"
    and "cbor_ok (CbMap outer)"
    and "map_of outer (CbStr ''authData'') = Some (CbBytes (auth_data rpIdHash flags signCount aaguid credId cose))"
  shows "parseAttestationObject [] (cbor_encode (CbMap outer) @ trailing) =
    Inr \<lparr>pa_credentialId = credId, pa_credentialIdBase64Url = bytesToBase64url credId, pa_pubKeyX = bytesToBigInt x,
         pa_pubKeyY = bytesToBigInt y, pa_aaguid = aaguid, pa_signCount = int signCount, pa_flagAT = True,
         pa_flagUP = bit flags 0, pa_flagUV = bit flags 2\<rparr>"
proof -
  have "mapGet cose (CbNum (- 2)) = Some (CbBytes x)" "mapGet cose (CbNum (- 3)) = Some (CbBytes y)"
    "mapGet outer (CbStr ''authData'') = Some (CbBytes (auth_data rpIdHash flags signCount aaguid credId cose))"
    using assms(7,8,10) by (simp_all add: mapGet_def)
  then show ?thesis
    using parseAuthData_layout [OF assms(1-6)] cborDecode_encode [OF assms(9), of trailing]
    by (simp add: parseAttestationObject_def del: cbor_encode.simps)
qed

subsection \<open>Signatures\<close>

text \<open>
  The parser reads the two integers of a DER signature; the length \<open>l\<close> of the sequence and what follows
  the second integer play no part.
\<close>

definition der_pair :: "byte \<Rightarrow> bytes \<Rightarrow> bytes \<Rightarrow> bytes \<Rightarrow> bytes" where
  "der_pair l rb sb trailing = [0x30, l, 0x02, word_of_nat (length rb)] @ rb @ [0x02, word_of_nat (length sb)] @ sb @ trailing"

lemma parseDer_pair:
  assumes "length rb < 256" "length sb < 256" "2 \<le> length rb + length sb + length trailing"
  shows "parseDerSignature (der_pair l rb sb trailing) = Inr (bytesToBigInt rb, bytesToBigInt sb)"
proof -
  let ?der = "der_pair l rb sb trailing"
  have un: "unat (word_of_nat (length rb) :: byte) = length rb" "unat (word_of_nat (length sb) :: byte) = length sb"
    using assms(1,2) by (simp_all add: unsigned_of_nat take_bit_eq_mod)
  have at: "byte_at ?der 0 = Some 0x30" "byte_at ?der 2 = Some 0x02" "byte_at ?der 3 = Some (word_of_nat (length rb))"
    "?der ! 3 = word_of_nat (length rb)" "byte_at ?der (4 + length rb) = Some 0x02"
    "byte_at ?der (5 + length rb) = Some (word_of_nat (length sb))"
    by (simp_all add: byte_at_def der_pair_def nth_append)
  have "drop 4 ?der = rb @ [0x02, word_of_nat (length sb)] @ sb @ trailing" by (simp add: der_pair_def)
  moreover have "?der = ([0x30, l, 0x02, word_of_nat (length rb)] @ rb @ [0x02, word_of_nat (length sb)]) @ sb @ trailing"
    by (simp add: der_pair_def)
  then have "drop (4 + length rb + 2) ?der = sb @ trailing" by (simp only: drop_append) simp
  moreover have "8 \<le> length ?der" using assms(3) by (simp add: der_pair_def)
  ultimately show ?thesis
    by (simp add: parseDerSignature_def at un Let_def slice_by_def)
qed

theorem low_s_range:
  assumes "0 < s" and "s < P256_N"
  shows "0 < normaliseLowS s \<and> normaliseLowS s \<le> P256_N div 2 \<and> (normaliseLowS s - s) mod P256_N \<in> {0, (- 2 * s) mod P256_N} \<and>
    normaliseLowS (normaliseLowS s) = normaliseLowS s"
proof -
  have "(P256_N - s - s) mod P256_N = (- 2 * s) mod P256_N"
    using mod_add_self1 [of P256_N "- 2 * s"] by (simp add: algebra_simps)
  then show ?thesis using assms by (auto simp: normaliseLowS_def P256_N_def)
qed

text \<open>Nothing bounds \<open>s\<close> before it is normalised, and an \<open>s\<close> above the group order becomes negative.\<close>

lemma large_s_becomes_negative: "P256_N < s \<Longrightarrow> normaliseLowS s < 0"
  by (simp add: normaliseLowS_def P256_N_def)

subsection \<open>Assertions\<close>

lemma find_index_found: "find_index i hs needle = int j \<Longrightarrow> i \<le> j \<and> take (length needle) (drop (j - i) hs) = needle"
proof (induction i hs needle rule: find_index.induct)
  case (1 i hs needle)
  then show ?case
  proof (cases "length hs < length needle \<or> take (length needle) hs = needle \<or> hs = []")
    case False
    then obtain h hs' where hs: "hs = h # hs'" by (cases hs) auto
    with 1(2) False have "find_index (Suc i) hs' needle = int j" by (subst (asm) find_index.simps) simp
    with 1(1) [OF _ _ hs] False have "Suc i \<le> j \<and> take (length needle) (drop (j - Suc i) hs') = needle" by blast
    moreover from this have "j - i = Suc (j - Suc i)" by linarith
    then have "drop (j - i) hs = drop (j - Suc i) hs'" by (simp add: hs)
    ultimately show ?thesis by simp
  qed (subst (asm) find_index.simps, auto split: if_split_asm)
qed

text \<open>
  An assertion points at the two markers in the client data, and its \<open>s\<close> is the normalised one of the
  signature.
\<close>

theorem assertion_points_at_the_markers:
  assumes "buildWebAuthnAssertion keccak credentialId authenticatorData clientData der = Inr a"
  shows "take (length type_marker) (drop (nat (wa_typeIndex a)) (wa_clientDataJSON a)) = type_marker \<and>
    take (length challenge_marker) (drop (nat (wa_challengeIndex a)) (wa_clientDataJSON a)) = challenge_marker \<and>
    (\<exists>s. parseDerSignature der = Inr (wa_r a, s) \<and> wa_s a = normaliseLowS s)"
proof -
  have found: "take (length m) (drop (nat i) (TextDecoder clientData)) = m"
    if "i = find_index 0 clientData (TextEncoder m)" "\<not> i < 0" for i m
  proof -
    from that have "find_index 0 clientData (TextEncoder m) = int (nat i)" by simp
    from find_index_found [OF this] have "take (length m) (drop (nat i) clientData) = TextEncoder m" by (simp add: TextEncoder_def)
    then have "TextDecoder (take (length m) (drop (nat i) clientData)) = m" by simp
    then show ?thesis by (simp add: TextDecoder_def take_map drop_map)
  qed
  from assms found show ?thesis
    by (auto simp: buildWebAuthnAssertion_def Let_def split: if_split_asm)
qed

lemma challenge_roundtrip: "passkey_base64urlDecode (hashToWebAuthnChallenge toBytes hash) = Inr (toBytes hash)"
  by (simp add: passkey_base64urlDecode_def hashToWebAuthnChallenge_def)

subsection \<open>A passkey to evaluate the definitions on\<close>

definition demo_cose :: "(cbor \<times> cbor) list" where
  "demo_cose = [(CbNum 1, CbNum 3), (CbNum (- 2), CbBytes [1, 2]), (CbNum (- 3), CbBytes [3])]"

definition demo_auth_data :: bytes where
  "demo_auth_data = auth_data (replicate 32 0) 0x41 7 (replicate 16 0) [9, 9] demo_cose"

definition demo_attestation :: "(cbor \<times> cbor) list" where
  "demo_attestation = [(CbStr ''fmt'', CbStr ''none''), (CbStr ''authData'', CbBytes demo_auth_data)]"

lemma demo_attestation_ok: "cbor_ok (CbMap demo_cose)" "cbor_ok (CbMap demo_attestation)"
  by (simp_all add: demo_cose_def demo_attestation_def demo_auth_data_def auth_data_def value_key_def int_head_def cbor_head_def
    del: be.simps)

theorem attestation_reads_the_key_witness:
  "\<exists>a. parseAttestationObject [] (cbor_encode (CbMap demo_attestation)) = Inr a \<and> pa_credentialId a = [9, 9] \<and> pa_pubKeyX a = 258 \<and>
     pa_pubKeyY a = 3 \<and> pa_signCount a = 7 \<and> pa_flagUP a \<and> \<not> pa_flagUV a"
proof -
  have keys: "map_of demo_cose (CbNum (- 2)) = Some (CbBytes [1, 2])" "map_of demo_cose (CbNum (- 3)) = Some (CbBytes [3])"
    by (simp_all add: demo_cose_def)
  have data: "map_of demo_attestation (CbStr ''authData'') =
      Some (CbBytes (auth_data (replicate 32 0) 0x41 7 (replicate 16 0) [9, 9] demo_cose))"
    by (simp add: demo_attestation_def demo_auth_data_def)
  show ?thesis
    using attestation_reads_the_key [OF _ _ _ _ _ demo_attestation_ok(1) keys demo_attestation_ok(2) data, of "[]"]
    by (simp add: bytesToBigInt_def del: cbor_encode.simps)
qed

theorem low_s_range_witness: "0 < normaliseLowS (P256_N - 1) \<and> normaliseLowS (P256_N - 1) \<le> P256_N div 2"
  using low_s_range [of "P256_N - 1"] by (simp add: P256_N_def)

definition demo_client_data :: string where
  "demo_client_data = ''{'' @ type_marker @ '','' @ challenge_marker @ ''AA'' @ [CHR 0x22] @ ''}''"

theorem assertion_points_at_the_markers_witness:
  "\<exists>a. buildWebAuthnAssertion (\<lambda>b. bytes_hex b) [1] [] (TextEncoder demo_client_data) (der_pair 7 [5] [6] []) = Inr a \<and>
     take (length type_marker) (drop (nat (wa_typeIndex a)) (wa_clientDataJSON a)) = type_marker"
proof -
  have "find_index 0 (TextEncoder demo_client_data) (TextEncoder type_marker) = 1"
    by (simp add: find_index.simps [of _ "TextEncoder demo_client_data"])
      (simp add: demo_client_data_def type_marker_def challenge_marker_def TextEncoder_def find_index.simps byte_of_char_def)
  moreover have "find_index 0 (TextEncoder demo_client_data) (TextEncoder challenge_marker) = 23"
    by (simp add: demo_client_data_def type_marker_def challenge_marker_def TextEncoder_def find_index.simps byte_of_char_def)
  ultimately obtain a where a: "buildWebAuthnAssertion (\<lambda>b. bytes_hex b) [1] [] (TextEncoder demo_client_data) (der_pair 7 [5] [6] []) = Inr a"
    using parseDer_pair [of "[5]" "[6]" "[]" 7] by (simp add: buildWebAuthnAssertion_def Let_def)
  from assertion_points_at_the_markers [OF a] a show ?thesis by blast
qed

end
