(* ===== verification/IdentityDirectory.thy ===== *)
theory IdentityDirectory
  imports Jwt
begin

section \<open>Sign-in: the identity directory\<close>

text \<open>
  \<open>packages/identity-directory/src\<close>: the assurance ladder (\<open>types.ts\<close>) and the queries composed from the
  naming, index and on-chain ports (\<open>directory.ts\<close>). The ports are parameters and may throw. The index only
  proposes: an agent is returned for a credential exactly when the on-chain port confirms the credential
  now. The events a query attempts to write to the audit sink are part of its result; a sink that fails
  changes nothing.
\<close>

subsection \<open>The assurance ladder\<close>

datatype assurance = Unverified | Asserted | OnchainRead | OnchainConfirmed

definition ASSURANCE_ORDER :: "assurance list" where
  "ASSURANCE_ORDER = [Unverified, Asserted, OnchainRead, OnchainConfirmed]"

definition assurance_index :: "assurance \<Rightarrow> int" where
  "assurance_index a = int (length (takeWhile (\<lambda>b. b \<noteq> a) ASSURANCE_ORDER))"

definition compareAssurance :: "assurance \<Rightarrow> assurance \<Rightarrow> int" where
  "compareAssurance a b = assurance_index a - assurance_index b"

definition maxAssurance :: "assurance list \<Rightarrow> assurance" where
  "maxAssurance vs = foldl (\<lambda>best v. if compareAssurance v best > 0 then v else best) Unverified vs"

text \<open>The ladder is a linear order, and \<open>compareAssurance\<close> its comparator.\<close>

instantiation assurance :: linorder
begin

definition less_eq_assurance :: "assurance \<Rightarrow> assurance \<Rightarrow> bool" where
  "less_eq_assurance a b \<longleftrightarrow> assurance_index a \<le> assurance_index b"

definition less_assurance :: "assurance \<Rightarrow> assurance \<Rightarrow> bool" where
  "less_assurance a b \<longleftrightarrow> assurance_index a < assurance_index b"

instance
proof
  fix x y z :: assurance
  have inj: "assurance_index x = assurance_index y \<Longrightarrow> x = y"
    by (cases x; cases y) (simp_all add: assurance_index_def ASSURANCE_ORDER_def)
  show "x < y \<longleftrightarrow> x \<le> y \<and> \<not> y \<le> x" unfolding less_eq_assurance_def less_assurance_def by linarith
  show "x \<le> x" unfolding less_eq_assurance_def by simp
  show "x \<le> y \<Longrightarrow> y \<le> z \<Longrightarrow> x \<le> z" unfolding less_eq_assurance_def by (rule order_trans)
  show "x \<le> y \<or> y \<le> x" unfolding less_eq_assurance_def by (rule linear)
  show "x \<le> y \<Longrightarrow> y \<le> x \<Longrightarrow> x = y" unfolding less_eq_assurance_def by (rule inj) (rule antisym)
qed

end

lemma compareAssurance_sign: "compareAssurance a b < 0 \<longleftrightarrow> a < b" "compareAssurance a b > 0 \<longleftrightarrow> b < a"
  by (auto simp: compareAssurance_def less_assurance_def)

lemma maxAssurance_max: "maxAssurance vs = foldl max Unverified vs"
  unfolding maxAssurance_def by (rule foldl_cong) (auto simp: compareAssurance_sign max_def)

lemma foldl_max_start: "(a :: 'a :: linorder) \<le> foldl max a vs"
proof (induction vs arbitrary: a)
  case (Cons v vs)
  have "a \<le> max a v" by simp
  also have "\<dots> \<le> foldl max (max a v) vs" by (rule Cons.IH)
  finally show ?case by simp
qed simp

lemma foldl_max_ge: "v \<in> set vs \<Longrightarrow> (v :: 'a :: linorder) \<le> foldl max a vs"
proof (induction vs arbitrary: a)
  case (Cons w vs)
  have "w \<le> foldl max (max a w) vs" using foldl_max_start [of "max a w" vs] by simp
  with Cons show ?case by auto
qed simp

lemma top_assurance: "a \<le> OnchainConfirmed"
  by (cases a) (simp_all add: less_eq_assurance_def assurance_index_def ASSURANCE_ORDER_def)

subsection \<open>Agents and their evidence\<close>

record credential_principal =
  cp_kind :: string
  cp_id :: string
  cp_assurance :: assurance
  cp_role :: "string option"

record evidence =
  ev_source :: string
  ev_observedAt :: string
  ev_assurance :: assurance
  ev_ref :: string
  ev_blockNumber :: "int option"

record agent_with_evidence =
  ae_id :: string
  ae_evidence :: "evidence list"
  ae_assurance :: assurance

type_synonym resolution = "agent_with_evidence list"

record agent_view =
  av_id :: string
  av_name :: "string option"
  av_evidence :: "evidence list"

record evidence_link =
  el_agent :: string
  el_assurance :: assurance
  el_ref :: string
  el_observedAt :: "string option"
  el_blockNumber :: "int option"

record directory_ports =
  dp_forward :: "string \<Rightarrow> string option js"
  dp_reverse :: "string \<Rightarrow> string option js"
  dp_exists :: "string \<Rightarrow> bool js"
  dp_confirmsCredential :: "string \<Rightarrow> credential_principal \<Rightarrow> bool js"
  dp_agentsByCredential :: "credential_principal \<Rightarrow> evidence_link list js"
  dp_agentsByOidcSubject :: "string \<Rightarrow> string \<Rightarrow> evidence_link list js"

text \<open>The events offered to the audit sink, when there is one.\<close>

record directory_event =
  de_action :: string
  de_subject :: string
  de_predicate :: string
  de_resultCount :: nat

definition PREDICATE_resolvesTo :: string where "PREDICATE_resolvesTo = ''https://agenticprimitives.dev/ns/naming#resolvesTo''"
definition PREDICATE_controls :: string where "PREDICATE_controls = ''https://agenticprimitives.dev/ns/credential#controls''"

definition dir_emit :: "bool \<Rightarrow> string \<Rightarrow> string \<Rightarrow> string \<Rightarrow> nat \<Rightarrow> directory_event list" where
  "dir_emit auditSink action subjectId predicate resultCount =
     (if auditSink
      then [\<lparr>de_action = ''identity-directory.'' @ action, de_subject = subjectId, de_predicate = predicate, de_resultCount = resultCount\<rparr>]
      else [])"

subsection \<open>Queries\<close>

definition oidcPrincipal :: "string \<Rightarrow> string \<Rightarrow> credential_principal" where
  "oidcPrincipal iss sub = \<lparr>cp_kind = ''oidc'', cp_id = iss @ ''#'' @ sub, cp_assurance = Asserted, cp_role = None\<rparr>"

definition confirmed_agent :: "string \<Rightarrow> evidence_link \<Rightarrow> agent_with_evidence" where
  "confirmed_agent nowIso link =
     (let evidence =
        [\<lparr>ev_source = ''indexer'', ev_observedAt = (case el_observedAt link of Some t \<Rightarrow> t | None \<Rightarrow> nowIso),
          ev_assurance = el_assurance link, ev_ref = el_ref link, ev_blockNumber = el_blockNumber link\<rparr>,
         \<lparr>ev_source = ''onchain'', ev_observedAt = nowIso, ev_assurance = OnchainConfirmed,
          ev_ref = ''credentialsOf:'' @ el_agent link, ev_blockNumber = None\<rparr>]
      in \<lparr>ae_id = el_agent link, ae_evidence = evidence, ae_assurance = maxAssurance (map ev_assurance evidence)\<rparr>)"

fun confirmCandidates :: "directory_ports \<Rightarrow> string \<Rightarrow> evidence_link list \<Rightarrow> credential_principal \<Rightarrow> resolution js" where
  "confirmCandidates ports nowIso [] who = Inr []"
| "confirmCandidates ports nowIso (link # links) who =
     js_bind (dp_confirmsCredential ports (el_agent link) who) (\<lambda>confirmed.
     js_bind (confirmCandidates ports nowIso links who) (\<lambda>out.
       Inr (if confirmed then confirmed_agent nowIso link # out else out)))"

definition resolveByName :: "directory_ports \<Rightarrow> bool \<Rightarrow> string \<Rightarrow> string \<Rightarrow> (resolution \<times> directory_event list) js" where
  "resolveByName ports auditSink nowIso name =
     js_bind (dp_forward ports name) (\<lambda>i.
       if \<not> truthy i then Inr ([], dir_emit auditSink ''resolveByName'' name PREDICATE_resolvesTo 0)
       else Inr
         ([\<lparr>ae_id = the i,
            ae_evidence = [\<lparr>ev_source = ''naming'', ev_observedAt = nowIso, ev_assurance = OnchainRead, ev_ref = name, ev_blockNumber = None\<rparr>],
            ae_assurance = OnchainRead\<rparr>],
          dir_emit auditSink ''resolveByName'' name PREDICATE_resolvesTo 1))"

definition resolveByCredential ::
  "directory_ports \<Rightarrow> bool \<Rightarrow> string \<Rightarrow> credential_principal \<Rightarrow> (resolution \<times> directory_event list) js" where
  "resolveByCredential ports auditSink nowIso who =
     js_bind (dp_agentsByCredential ports who) (\<lambda>links.
     js_bind (confirmCandidates ports nowIso links who) (\<lambda>agents.
       Inr (agents, dir_emit auditSink ''resolveByCredential'' (cp_kind who @ '':'' @ cp_id who) PREDICATE_controls (length agents))))"

definition resolveByOidcSubject ::
  "directory_ports \<Rightarrow> bool \<Rightarrow> string \<Rightarrow> string \<Rightarrow> string \<Rightarrow> (resolution \<times> directory_event list) js" where
  "resolveByOidcSubject ports auditSink nowIso iss sub =
     js_bind (dp_agentsByOidcSubject ports iss sub) (\<lambda>links.
     js_bind (confirmCandidates ports nowIso links (oidcPrincipal iss sub)) (\<lambda>agents.
       Inr (agents, dir_emit auditSink ''resolveByOidcSubject'' (iss @ ''#'' @ sub) PREDICATE_controls (length agents))))"

definition directory_agent :: "directory_ports \<Rightarrow> string \<Rightarrow> string \<Rightarrow> agent_view option js" where
  "directory_agent ports nowIso i =
     js_bind (dp_exists ports i) (\<lambda>ex.
       if \<not> ex then Inr None
       else js_bind (dp_reverse ports i) (\<lambda>name.
         Inr (Some \<lparr>av_id = i, av_name = name,
           av_evidence =
             [\<lparr>ev_source = ''onchain'', ev_observedAt = nowIso, ev_assurance = OnchainRead, ev_ref = ''exists:'' @ i, ev_blockNumber = None\<rparr>] @
             (if truthy name
              then [\<lparr>ev_source = ''naming'', ev_observedAt = nowIso, ev_assurance = OnchainRead, ev_ref = the name, ev_blockNumber = None\<rparr>]
              else [])\<rparr>)))"

subsection \<open>Only confirmed agents are returned for a credential\<close>

lemma confirmed_agent_assurance [simp]: "ae_assurance (confirmed_agent nowIso link) = OnchainConfirmed"
  "ae_id (confirmed_agent nowIso link) = el_agent link"
proof -
  have "OnchainConfirmed \<le> maxAssurance [el_assurance link, OnchainConfirmed]"
    unfolding maxAssurance_max by (rule foldl_max_ge) simp
  then show "ae_assurance (confirmed_agent nowIso link) = OnchainConfirmed"
    using top_assurance by (simp add: confirmed_agent_def antisym)
qed (simp add: confirmed_agent_def)

lemma confirmCandidates_eq:
  "confirmCandidates ports nowIso links who = Inr out \<Longrightarrow>
     (\<forall>link \<in> set links. \<exists>b. dp_confirmsCredential ports (el_agent link) who = Inr b) \<and>
     out = map (confirmed_agent nowIso) (filter (\<lambda>link. dp_confirmsCredential ports (el_agent link) who = Inr True) links)"
  by (induction links arbitrary: out) auto

text \<open>
  The agents a credential resolves to are those the index proposes and the chain confirms, in the order of the
  index, each with the highest assurance.
\<close>

lemma resolveByCredential_confirmed:
  assumes "resolveByCredential ports sink nowIso who = Inr (agents, events)"
  obtains links where "dp_agentsByCredential ports who = Inr links"
    and "map ae_id agents = map el_agent (filter (\<lambda>link. dp_confirmsCredential ports (el_agent link) who = Inr True) links)"
    and "\<And>a. a \<in> set agents \<Longrightarrow> dp_confirmsCredential ports (ae_id a) who = Inr True \<and> ae_assurance a = OnchainConfirmed"
proof -
  from assms obtain links where l: "dp_agentsByCredential ports who = Inr links"
    and "confirmCandidates ports nowIso links who = Inr agents"
    by (auto simp: resolveByCredential_def)
  then have "agents = map (confirmed_agent nowIso) (filter (\<lambda>link. dp_confirmsCredential ports (el_agent link) who = Inr True) links)"
    using confirmCandidates_eq by blast
  then show thesis by (intro that [OF l]) (auto simp: comp_def)
qed

end
