(* ===== verification/Connect.thy ===== *)
theory Connect
  imports IdentityDirectory
begin

section \<open>Sign-in: the broker's tokens, sessions and codes\<close>

text \<open>
  \<open>packages/connect/src\<close>: the signed agent session and the OIDC id token with their verifiers, PKCE and key
  sets (\<open>token.ts\<close>), the decision to issue a session for a resolution (\<open>broker.ts\<close>), and redirects and
  single-use authorization codes (\<open>redirect.ts\<close>). A key is an opaque handle; signing and verifying with it
  are the platform's. Generated values (key ids, token ids, codes) are arguments. The theory shows that a
  minted token verifies, what a verified token establishes, that the two kinds of token are accepted for
  each other, who is issued a session, and that a code is exchanged at most once.
\<close>

subsection \<open>Keys\<close>

record broker_signer =
  bs_kid :: string
  bs_alg :: string
  bs_privateKey :: string
  bs_publicKey :: string

record verify_key =
  vk_kid :: string
  vk_alg :: string
  vk_public :: string

definition sigParams :: "string \<Rightarrow> string" where
  "sigParams alg = (if alg = ''EdDSA'' then ''Ed25519'' else ''ECDSA-SHA-256'')"

definition token_header :: "broker_signer \<Rightarrow> json" where
  "token_header signer = Obj [(''alg'', Str (bs_alg signer)), (''kid'', Str (bs_kid signer)), (''typ'', Str ''JWT'')]"

definition sign_token :: "jwt_lib \<Rightarrow> broker_signer \<Rightarrow> json \<Rightarrow> string js" where
  "sign_token lib signer payload =
     (let signingInput = signing_input (token_header signer) payload in
      js_bind (jw_subtle_sign lib (sigParams (bs_alg signer)) (bs_privateKey signer) (TextEncoder signingInput)) (\<lambda>sig.
        Inr (compact_token signingInput sig)))"

subsection \<open>Agent sessions\<close>

definition assurance_name :: "assurance \<Rightarrow> string" where
  "assurance_name a = (case a of Unverified \<Rightarrow> ''unverified'' | Asserted \<Rightarrow> ''asserted''
     | OnchainRead \<Rightarrow> ''onchain-read'' | OnchainConfirmed \<Rightarrow> ''onchain-confirmed'')"

definition principal_json :: "credential_principal \<Rightarrow> json" where
  "principal_json c = Obj
     ([(''kind'', Str (cp_kind c)), (''id'', Str (cp_id c)), (''assurance'', Str (assurance_name (cp_assurance c)))] @
      (case cp_role c of Some r \<Rightarrow> [(''role'', Str r)] | None \<Rightarrow> []))"

record mint_session_input =
  ms_sub :: string
  ms_principal :: credential_principal
  ms_assurance :: assurance
  ms_aud :: string
  ms_iss :: string
  ms_ttlSeconds :: int
  ms_jti :: string
  ms_rotation :: "int option"

definition session_payload :: "mint_session_input \<Rightarrow> int \<Rightarrow> json" where
  "session_payload input nowSec = Obj
     ([(''sub'', Str (ms_sub input)), (''principal'', principal_json (ms_principal input)),
       (''assurance'', Str (assurance_name (ms_assurance input))), (''aud'', Str (ms_aud input)), (''iss'', Str (ms_iss input)),
       (''iat'', Num nowSec), (''exp'', Num (nowSec + ms_ttlSeconds input)), (''jti'', Str (ms_jti input))] @
      (case ms_rotation input of Some r \<Rightarrow> if r = 0 then [] else [(''rotation'', Num r)] | None \<Rightarrow> []))"

definition mintAgentSession :: "jwt_lib \<Rightarrow> int \<Rightarrow> mint_session_input \<Rightarrow> broker_signer \<Rightarrow> string js" where
  "mintAgentSession lib nowMs input signer = sign_token lib signer (session_payload input (nowMs div 1000))"

datatype token_verdict = Verified json | Refused string

lemma verified_elim:
  "((case x of Inl r \<Rightarrow> Inr (Refused r) | Inr k \<Rightarrow> f k) = Inr (Verified p)) \<longleftrightarrow> (\<exists>k. x = Inr k \<and> f k = Inr (Verified p))"
  "((case y of None \<Rightarrow> Inr (Refused r) | Some v \<Rightarrow> g v) = Inr (Verified p)) \<longleftrightarrow> (\<exists>v. y = Some v \<and> g v = Inr (Verified p))"
  "((if b then Inr (Refused r) else z) = Inr (Verified p)) \<longleftrightarrow> \<not> b \<and> z = Inr (Verified p)"
  by (auto split: sum.splits option.splits)

text \<open>The expected issuer: one origin, a list of origins, or a predicate.\<close>

datatype iss_rule = Iss_is string | Iss_in "string list" | Iss_pred "string \<Rightarrow> bool"

fun issAllowed :: "iss_rule \<Rightarrow> string \<Rightarrow> bool" where
  "issAllowed (Iss_pred p) iss = p iss"
| "issAllowed (Iss_in xs) iss = (iss \<in> set xs)"
| "issAllowed (Iss_is x) iss = (x = iss)"

record session_opts =
  so_keys :: "verify_key list"
  so_expectedAud :: "string option"
  so_expectedIss :: "iss_rule option"
  so_nowMs :: int
  so_clockSkewSec :: "int option"

text \<open>The key named by the header's \<open>kid\<close>, with the header's algorithm held against the key's.\<close>

definition pinned_key :: "verify_key list \<Rightarrow> json \<Rightarrow> (string + verify_key) js" where
  "pinned_key keys header =
     js_bind (json_get header ''kid'') (\<lambda>kid.
       case find (\<lambda>k. Some (Str (vk_kid k)) = kid) keys of
         None \<Rightarrow> Inr (Inl (''no key for kid '' @ [CHR 0x22] @ opt_text kid @ [CHR 0x22]))
       | Some key \<Rightarrow>
           js_bind (json_get header ''alg'') (\<lambda>alg.
             if alg \<noteq> Some (Str (vk_alg key))
             then Inr (Inl (''alg '' @ [CHR 0x22] @ opt_text alg @ [CHR 0x22] @ '' does not match key alg '' @
                    [CHR 0x22] @ vk_alg key @ [CHR 0x22]))
             else Inr (Inr key)))"

definition verify_signature_part :: "jwt_lib \<Rightarrow> verify_key \<Rightarrow> string \<Rightarrow> string \<Rightarrow> string \<Rightarrow> bool js" where
  "verify_signature_part lib key h p s =
     js_bind (base64urlDecode lib s) (\<lambda>sig.
       jw_subtle_verify lib (sigParams (vk_alg key)) (vk_public key) sig (TextEncoder (h @ ''.'' @ p)))"

text \<open>The tests on single claims: \<open>exp\<close> must be a number after now, \<open>iat\<close>, if it is one, not too far ahead.\<close>

definition expired_claim :: "json option \<Rightarrow> int \<Rightarrow> bool" where
  "expired_claim ex nowSec \<longleftrightarrow> (case num_claim ex of None \<Rightarrow> True | Some e \<Rightarrow> e \<le> nowSec)"

definition future_claim :: "json option \<Rightarrow> int \<Rightarrow> bool" where
  "future_claim iat latest \<longleftrightarrow> (case num_claim iat of Some i \<Rightarrow> i > latest | None \<Rightarrow> False)"

definition iss_refused :: "iss_rule \<Rightarrow> json option \<Rightarrow> bool" where
  "iss_refused rule iss \<longleftrightarrow> (case str_claim iss of None \<Rightarrow> True | Some i \<Rightarrow> \<not> issAllowed rule i)"

lemma claim_tests [simp]:
  "\<not> expired_claim ex nowSec \<longleftrightarrow> (\<exists>e. ex = Some (Num e) \<and> nowSec < e)"
  "\<not> iss_refused rule iss \<longleftrightarrow> (\<exists>i. iss = Some (Str i) \<and> issAllowed rule i)"
  by (auto simp: expired_claim_def iss_refused_def split: option.splits)

lemma claim_tests' [simp]:
  "expired_claim (Some (Num e)) nowSec \<longleftrightarrow> e \<le> nowSec" "future_claim (Some (Num i)) latest \<longleftrightarrow> i > latest"
  "iss_refused rule (Some (Str s)) \<longleftrightarrow> \<not> issAllowed rule s"
  by (simp_all add: expired_claim_def future_claim_def iss_refused_def)

text \<open>The checks that follow a good signature, on the payload of a session.\<close>

definition session_claims_verdict :: "session_opts \<Rightarrow> json \<Rightarrow> token_verdict js" where
  "session_claims_verdict opts payload =
     (if \<not> truthy (so_expectedAud opts) then Inr (Refused ''expectedAud is required (H7-B.4)'')
      else js_bind (json_get payload ''aud'') (\<lambda>aud.
        if str_claim aud \<noteq> so_expectedAud opts then Inr (Refused ''aud mismatch'')
        else js_bind (json_get payload ''exp'') (\<lambda>ex.
          let nowSec = so_nowMs opts div 1000 in
          if expired_claim ex nowSec then Inr (Refused ''expired'')
          else js_bind (json_get payload ''iat'') (\<lambda>iat.
            let skew = (case so_clockSkewSec opts of Some c \<Rightarrow> c | None \<Rightarrow> 30) in
            if future_claim iat (nowSec + skew)
            then Inr (Refused ''iat in future beyond clock skew'')
            else js_bind (json_get payload ''owner'') (\<lambda>owner.
              if owner \<noteq> None then Inr (Refused ''AgentSession must not carry an owner field (ADR-0016)'')
              else Inr (Verified payload))))))"

definition verifyAgentSession :: "jwt_lib \<Rightarrow> string \<Rightarrow> session_opts \<Rightarrow> token_verdict js" where
  "verifyAgentSession lib token opts =
     (case token_parts token of
        None \<Rightarrow> Inr (Refused ''not a 3-part JWT'')
      | Some (h, p, s) \<Rightarrow>
          (case (json_part lib h, json_part lib p) of
             (Some header, Some payload) \<Rightarrow>
               js_bind (pinned_key (so_keys opts) header) (\<lambda>found.
                 case found of
                   Inl reason \<Rightarrow> Inr (Refused reason)
                 | Inr key \<Rightarrow>
                     (case so_expectedIss opts of
                        None \<Rightarrow> Inr (Refused ''expectedIss is required (CN-1)'')
                      | Some rule \<Rightarrow>
                          js_bind (json_get payload ''iss'') (\<lambda>iss.
                            if iss_refused rule iss then Inr (Refused ''iss mismatch'')
                            else js_bind (verify_signature_part lib key h p s) (\<lambda>valid.
                              if \<not> valid then Inr (Refused ''signature invalid'') else session_claims_verdict opts payload))))
           | _ \<Rightarrow> Inr (Refused ''header/payload not valid JSON'')))"

subsection \<open>OIDC id tokens\<close>

record mint_id_input =
  mi_iss :: string
  mi_sub :: string
  mi_aud :: string
  mi_ttlSeconds :: int
  mi_nonce :: "string option"
  mi_agentName :: "string option"

definition id_claims :: "mint_id_input \<Rightarrow> int \<Rightarrow> (string \<times> json) list" where
  "id_claims input nowSec =
     [(''iss'', Str (mi_iss input)), (''sub'', Str (mi_sub input)), (''aud'', Str (mi_aud input)), (''iat'', Num nowSec),
      (''exp'', Num (nowSec + mi_ttlSeconds input)), (''canonical_agent_id'', Str (mi_sub input))]"

definition mintIdToken :: "jwt_lib \<Rightarrow> int \<Rightarrow> mint_id_input \<Rightarrow> broker_signer \<Rightarrow> string js" where
  "mintIdToken lib nowMs input signer =
     sign_token lib signer (Obj (id_claims input (nowMs div 1000) @
       str_member ''nonce'' (mi_nonce input) @ str_member ''agent_name'' (mi_agentName input)))"

text \<open>The bound token also names the enrollment grant and the delegation it was issued with.\<close>

definition mintBoundIdToken :: "jwt_lib \<Rightarrow> int \<Rightarrow> mint_id_input \<Rightarrow> string \<Rightarrow> hex \<Rightarrow> broker_signer \<Rightarrow> string js" where
  "mintBoundIdToken lib nowMs input enrollmentGrantId delegationHash signer =
     sign_token lib signer (Obj (id_claims input (nowMs div 1000) @
       [(''enrollment_grant_id'', Str enrollmentGrantId), (''delegation_hash'', Str delegationHash)] @
       str_member ''nonce'' (mi_nonce input) @ str_member ''agent_name'' (mi_agentName input)))"

datatype binding_result = Bound | Unbound string

definition verifyEnrollmentGrantBinding :: "jwt_lib \<Rightarrow> string \<Rightarrow> string \<Rightarrow> hex \<Rightarrow> binding_result js" where
  "verifyEnrollmentGrantBinding lib token enrollmentGrantId delegationHash =
     (case token_parts token of
        None \<Rightarrow> Inr (Unbound ''malformed'')
      | Some (h, p, s) \<Rightarrow>
          (case json_part lib p of
             None \<Rightarrow> Inr (Unbound ''malformed'')
           | Some payload \<Rightarrow>
               js_bind (json_get payload ''enrollment_grant_id'') (\<lambda>grant.
                 case str_claim grant of
                   None \<Rightarrow> Inr (Unbound ''missing-grant-id'')
                 | Some g \<Rightarrow>
                     if g \<noteq> enrollmentGrantId then Inr (Unbound ''grant-id-mismatch'')
                     else js_bind (json_get payload ''delegation_hash'') (\<lambda>hash.
                       case str_claim hash of
                         None \<Rightarrow> Inr (Unbound ''missing-delegation-hash'')
                       | Some d \<Rightarrow>
                           if toLowerCase d \<noteq> toLowerCase delegationHash then Inr (Unbound ''delegation-hash-mismatch'')
                           else Inr Bound))))"

record id_token_opts =
  io_keys :: "verify_key list"
  io_expectedIss :: string
  io_expectedAud :: string
  io_expectedNonce :: "string option"
  io_nowMs :: int

definition verifyIdToken :: "jwt_lib \<Rightarrow> string \<Rightarrow> id_token_opts \<Rightarrow> token_verdict js" where
  "verifyIdToken lib token opts =
     (case token_parts token of
        None \<Rightarrow> Inr (Refused ''not a 3-part JWT'')
      | Some (h, p, s) \<Rightarrow>
          (case (json_part lib h, json_part lib p) of
             (Some header, Some claims) \<Rightarrow>
               js_bind (pinned_key (io_keys opts) header) (\<lambda>found.
                 case found of
                   Inl reason \<Rightarrow> Inr (Refused reason)
                 | Inr key \<Rightarrow>
                     js_bind (json_get claims ''iss'') (\<lambda>iss.
                       if iss \<noteq> Some (Str (io_expectedIss opts)) then Inr (Refused ''iss mismatch'')
                       else js_bind (verify_signature_part lib key h p s) (\<lambda>valid.
                         if \<not> valid then Inr (Refused ''signature invalid'')
                         else js_bind (json_get claims ''aud'') (\<lambda>aud.
                           if aud \<noteq> Some (Str (io_expectedAud opts)) then Inr (Refused ''aud mismatch'')
                           else js_bind (json_get claims ''nonce'') (\<lambda>nonce.
                             if io_expectedNonce opts \<noteq> None \<and> str_claim nonce \<noteq> io_expectedNonce opts
                             then Inr (Refused ''nonce mismatch'')
                             else js_bind (json_get claims ''exp'') (\<lambda>ex.
                               if expired_claim ex (io_nowMs opts div 1000)
                               then Inr (Refused ''expired'') else Inr (Verified claims)))))))
           | _ \<Rightarrow> Inr (Refused ''header/payload not valid JSON'')))"

definition verifyPkceS256 :: "jwt_lib \<Rightarrow> string \<Rightarrow> string \<Rightarrow> bool" where
  "verifyPkceS256 lib codeVerifier codeChallenge \<longleftrightarrow>
     bytesToBase64url (jw_sha256 lib (TextEncoder codeVerifier)) = codeChallenge"

subsection \<open>Key sets\<close>

text \<open>The key material of a JWK is opaque; exporting and importing it is the platform's.\<close>

record jwk =
  jwk_material :: string
  jwk_kid :: "string option"
  jwk_alg :: "string option"
  jwk_use :: "string option"

definition exportPublicJwk :: "(string \<Rightarrow> string js) \<Rightarrow> verify_key \<Rightarrow> jwk js" where
  "exportPublicJwk exportKey k =
     js_bind (exportKey (vk_public k)) (\<lambda>material.
       Inr \<lparr>jwk_material = material, jwk_kid = Some (vk_kid k), jwk_alg = Some (vk_alg k), jwk_use = Some ''sig''\<rparr>)"

fun js_map :: "('a \<Rightarrow> 'b js) \<Rightarrow> 'a list \<Rightarrow> 'b list js" where
  "js_map f [] = Inr []"
| "js_map f (x # xs) = js_bind (f x) (\<lambda>y. js_bind (js_map f xs) (\<lambda>ys. Inr (y # ys)))"

definition publishJwks :: "(string \<Rightarrow> string js) \<Rightarrow> verify_key list \<Rightarrow> jwk list js" where
  "publishJwks exportKey keys = js_map (exportPublicJwk exportKey) keys"

fun importJwks :: "(string \<Rightarrow> string \<Rightarrow> string js) \<Rightarrow> jwk list \<Rightarrow> verify_key list js" where
  "importJwks importKey [] = Inr []"
| "importJwks importKey (k # ks) =
     (if jwk_alg k \<noteq> Some ''EdDSA'' \<and> jwk_alg k \<noteq> Some ''ES256'' then importJwks importKey ks
      else js_bind (importKey (jwk_material k) (the (jwk_alg k))) (\<lambda>publicKey.
           js_bind (importJwks importKey ks) (\<lambda>out.
             Inr (\<lparr>vk_kid = (case jwk_kid k of Some i \<Rightarrow> i | None \<Rightarrow> []), vk_alg = the (jwk_alg k), vk_public = publicKey\<rparr> # out))))"

subsection \<open>The broker\<close>

datatype convergence_kind = Conv_none | Conv_one string assurance | Conv_many "(string \<times> assurance) list"

definition convergence :: "resolution \<Rightarrow> convergence_kind" where
  "convergence agents =
     (case agents of
        [] \<Rightarrow> Conv_none
      | [a] \<Rightarrow> Conv_one (ae_id a) (ae_assurance a)
      | _ \<Rightarrow> Conv_many (map (\<lambda>a. (ae_id a, ae_assurance a)) agents))"

definition isCustodiedNamespace :: "string \<Rightarrow> bool" where
  "isCustodiedNamespace i \<longleftrightarrow> startsWith i ''eip155:''"

definition SESSION_ISSUANCE_FLOOR :: assurance where
  "SESSION_ISSUANCE_FLOOR = OnchainConfirmed"

definition canIssueSession :: "string \<Rightarrow> assurance \<Rightarrow> assurance option \<Rightarrow> string option" where
  "canIssueSession agentId a floor =
     (if \<not> isCustodiedNamespace agentId
      then Some ''non-EVM subject is identifier-only (read/identifier-grade only); cannot issue a control session (CN-8)''
      else let fl = (case floor of Some f \<Rightarrow> f | None \<Rightarrow> SESSION_ISSUANCE_FLOOR) in
        if compareAssurance a fl < 0
        then Some (''assurance '' @ [CHR 0x22] @ assurance_name a @ [CHR 0x22] @ '' is below the issuance floor '' @
               [CHR 0x22] @ assurance_name fl @ [CHR 0x22] @ '' (CN-6); step-up required'')
        else None)"

definition selectFromResolution :: "resolution \<Rightarrow> string \<Rightarrow> string option" where
  "selectFromResolution agents chosenSub = map_option ae_id (find (\<lambda>a. ae_id a = chosenSub) agents)"

definition CUSTODY_CLASS_ACTIONS :: "string list" where
  "CUSTODY_CLASS_ACTIONS = [''credential-change'', ''custody-policy-change'', ''high-value-spend'', ''delegation-issue'']"

definition requiresStepUp :: "string \<Rightarrow> bool" where
  "requiresStepUp action \<longleftrightarrow> action \<in> set CUSTODY_CLASS_ACTIONS"

record issue_input =
  ii_resolution :: resolution
  ii_principal :: credential_principal
  ii_signer :: broker_signer
  ii_aud :: string
  ii_iss :: string
  ii_ttlSeconds :: int
  ii_floor :: "assurance option"

datatype issue_outcome =
  Issued string string assurance | Bootstrap | Disambiguate "(string \<times> assurance) list" | Rejected string

definition issueForResolution :: "jwt_lib \<Rightarrow> int \<Rightarrow> string \<Rightarrow> issue_input \<Rightarrow> issue_outcome js" where
  "issueForResolution lib nowMs jti input =
     (case convergence (ii_resolution input) of
        Conv_none \<Rightarrow> Inr Bootstrap
      | Conv_many agents \<Rightarrow> Inr (Disambiguate agents)
      | Conv_one agent a \<Rightarrow>
          (case canIssueSession agent a (ii_floor input) of
             Some reason \<Rightarrow> Inr (Rejected reason)
           | None \<Rightarrow>
               js_bind (mintAgentSession lib nowMs
                 \<lparr>ms_sub = agent, ms_principal = ii_principal input, ms_assurance = a, ms_aud = ii_aud input, ms_iss = ii_iss input,
                  ms_ttlSeconds = ii_ttlSeconds input, ms_jti = jti, ms_rotation = None\<rparr> (ii_signer input))
               (\<lambda>token. Inr (Issued token agent a))))"

subsection \<open>Redirects and authorization codes\<close>

definition validateRedirectUri :: "string list \<Rightarrow> string \<Rightarrow> bool" where
  "validateRedirectUri registered requested \<longleftrightarrow> requested \<in> set registered"

definition newAuthCode :: "bytes \<Rightarrow> string" where
  "newAuthCode random = bytesToBase64url random"

record auth_code_value =
  acv_token :: string
  acv_aud :: string

type_synonym code_store = "string \<rightharpoonup> auth_code_value \<times> int"

definition code_put :: "int \<Rightarrow> string \<Rightarrow> auth_code_value \<Rightarrow> int \<Rightarrow> code_store \<Rightarrow> code_store" where
  "code_put now code v ttlMs store = store(code \<mapsto> (v, now + ttlMs))"

definition code_take :: "int \<Rightarrow> string \<Rightarrow> code_store \<Rightarrow> auth_code_value option \<times> code_store" where
  "code_take now code store =
     (case store code of
        None \<Rightarrow> (None, store)
      | Some (v, expiresAt) \<Rightarrow> (if expiresAt \<le> now then None else Some v, store(code := None)))"

subsection \<open>A minted token verifies\<close>

text \<open>The platform verifies with a public key what it signed with its private one.\<close>

definition key_pair :: "jwt_lib \<Rightarrow> broker_signer \<Rightarrow> bool" where
  "key_pair lib signer \<longleftrightarrow>
     (\<forall>m sig. jw_subtle_sign lib (sigParams (bs_alg signer)) (bs_privateKey signer) m = Inr sig \<longrightarrow>
        jw_subtle_verify lib (sigParams (bs_alg signer)) (bs_publicKey signer) sig m = Inr True)"

definition published_key :: "broker_signer \<Rightarrow> verify_key" where
  "published_key signer = \<lparr>vk_kid = bs_kid signer, vk_alg = bs_alg signer, vk_public = bs_publicKey signer\<rparr>"

lemma json_get_Obj [simp]: "json_get (Obj ms) k = Inr (map_of ms k)"
  by (simp add: json_get_def)

lemma pinned_key_header:
  "find (\<lambda>k. vk_kid k = bs_kid signer) keys = Some (published_key signer) \<Longrightarrow>
     pinned_key keys (token_header signer) = Inr (Inr (published_key signer))"
  by (simp add: pinned_key_def token_header_def published_key_def)

text \<open>What a verifier reads of a token the signer made.\<close>

lemma sign_token_read:
  assumes "sign_token lib signer payload = Inr token" and "buffer_law lib" and "key_pair lib signer" and "wf_json payload"
  obtains h p s where "token_parts token = Some (h, p, s)" and "json_part lib h = Some (token_header signer)"
    and "json_part lib p = Some payload" and "verify_signature_part lib (published_key signer) h p s = Inr True"
proof -
  from assms(1) obtain sig where
    sig: "jw_subtle_sign lib (sigParams (bs_alg signer)) (bs_privateKey signer)
      (TextEncoder (signing_input (token_header signer) payload)) = Inr sig"
    and token: "token = compact_token (signing_input (token_header signer) payload) sig"
    by (auto simp: sign_token_def Let_def)
  let ?h = "base64urlEncode (print (token_header signer))" and ?p = "base64urlEncode (print payload)"
  have v: "verify_signature_part lib (published_key signer) ?h ?p (bytesToBase64url sig) = Inr True"
    using sig assms(2,3) by (simp add: verify_signature_part_def key_pair_def published_key_def signing_input_def)
  have "wf_json (token_header signer)" by (simp add: token_header_def)
  then have "json_part lib ?h = Some (token_header signer)" "json_part lib ?p = Some payload"
    using assms(2,4) by simp_all
  with v show thesis using that token by simp
qed

lemma wf_session_payload [simp]: "wf_json (session_payload input now)"
proof -
  have "wf_json (principal_json c)" for c by (cases "cp_role c") (simp_all add: principal_json_def)
  then show ?thesis
    by (cases "ms_rotation input"; cases "ms_rotation input = Some 0") (simp_all add: session_payload_def)
qed

lemma str_member_cases:
  obtains "str_member k v = []" | s where "str_member k v = [(k, Str s)]" and "v = Some s"
proof (cases "truthy v")
  case True
  then obtain s where "v = Some s" "s \<noteq> []" by (auto simp: truthy_def split: option.split_asm)
  then show thesis using that(2) by (simp add: str_member_def)
next
  case False
  then show thesis using that(1) by (auto simp: truthy_def str_member_def split: option.split_asm)
qed

lemma wf_id_claims [simp]:
  "wf_json (Obj (id_claims input now @ str_member ''nonce'' n @ str_member ''agent_name'' a))"
  "wf_json (Obj (id_claims input now @ [(''enrollment_grant_id'', Str g), (''delegation_hash'', Str d)] @
     str_member ''nonce'' n @ str_member ''agent_name'' a))"
  by (cases rule: str_member_cases [of "''nonce''" n]; cases rule: str_member_cases [of "''agent_name''" a]; simp add: id_claims_def)+

lemma minted_session_verifies:
  assumes "mintAgentSession lib nowMs input signer = Inr token" and "buffer_law lib" and "key_pair lib signer"
    and "find (\<lambda>k. vk_kid k = bs_kid signer) (so_keys opts) = Some (published_key signer)"
    and "so_expectedAud opts = Some (ms_aud input)" and "ms_aud input \<noteq> []"
    and "so_expectedIss opts = Some rule" and "issAllowed rule (ms_iss input)"
    and "so_nowMs opts div 1000 < nowMs div 1000 + ms_ttlSeconds input"
    and "nowMs div 1000 \<le> so_nowMs opts div 1000 + (case so_clockSkewSec opts of Some c \<Rightarrow> c | None \<Rightarrow> 30)"
  shows "verifyAgentSession lib token opts = Inr (Verified (session_payload input (nowMs div 1000)))"
proof -
  let ?payload = "session_payload input (nowMs div 1000)"
  obtain h p s where t: "token_parts token = Some (h, p, s)" "json_part lib h = Some (token_header signer)"
    "json_part lib p = Some ?payload" "verify_signature_part lib (published_key signer) h p s = Inr True"
    using sign_token_read [OF assms(1) [unfolded mintAgentSession_def] assms(2,3)] by auto
  have claims: "json_get ?payload ''iss'' = Inr (Some (Str (ms_iss input)))" "json_get ?payload ''aud'' = Inr (Some (Str (ms_aud input)))"
    "json_get ?payload ''exp'' = Inr (Some (Num (nowMs div 1000 + ms_ttlSeconds input)))"
    "json_get ?payload ''iat'' = Inr (Some (Num (nowMs div 1000)))" "json_get ?payload ''owner'' = Inr None"
    by (simp_all add: session_payload_def) (simp split: option.splits)
  have "session_claims_verdict opts ?payload = Inr (Verified ?payload)"
    using assms(5,6,9,10) by (simp add: session_claims_verdict_def claims truthy_def Let_def)
  then show ?thesis
    using assms(7,8) by (simp add: verifyAgentSession_def t claims pinned_key_header [OF assms(4)])
qed

lemma id_claims_get:
  assumes "payload = Obj (id_claims input now @ rest)"
  shows "json_get payload ''iss'' = Inr (Some (Str (mi_iss input)))" "json_get payload ''aud'' = Inr (Some (Str (mi_aud input)))"
    "json_get payload ''exp'' = Inr (Some (Num (now + mi_ttlSeconds input)))"
    "json_get payload ''iat'' = Inr (Some (Num now))"
  by (simp_all add: assms id_claims_def)

text \<open>
  C37: A bound id token verifies where the verifier publishes the signer's key, expects the issuer and audience it was
  minted with and its nonce or none, and the token has not expired. And it is bound to the grant and the delegation it
  was minted for and to no other: the binding check answers so exactly for that grant and that hash (in any case).
\<close>

theorem bound_id_token_verifies:
  assumes "mintBoundIdToken lib nowMs input grant hash signer = Inr token" and "buffer_law lib" and "key_pair lib signer"
    and "find (\<lambda>k. vk_kid k = bs_kid signer) (io_keys opts) = Some (published_key signer)"
    and "io_expectedIss opts = mi_iss input" and "io_expectedAud opts = mi_aud input"
    and "io_expectedNonce opts \<in> {None, mi_nonce input}" and "mi_nonce input \<noteq> Some []"
    and "io_nowMs opts div 1000 < nowMs div 1000 + mi_ttlSeconds input"
  shows "(\<exists>claims. verifyIdToken lib token opts = Inr (Verified claims)) \<and>
    (verifyEnrollmentGrantBinding lib token grant' hash' = Inr Bound \<longleftrightarrow> grant' = grant \<and> toLowerCase hash' = toLowerCase hash)"
proof -
  obtain payload where p: "payload = Obj (id_claims input (nowMs div 1000) @
      [(''enrollment_grant_id'', Str grant), (''delegation_hash'', Str hash)] @
      str_member ''nonce'' (mi_nonce input) @ str_member ''agent_name'' (mi_agentName input))" by blast
  obtain h q s where t: "token_parts token = Some (h, q, s)" "json_part lib h = Some (token_header signer)"
    "json_part lib q = Some payload" "verify_signature_part lib (published_key signer) h q s = Inr True"
    using sign_token_read [OF assms(1) [unfolded mintBoundIdToken_def] assms(2,3) wf_id_claims(2)] unfolding p by blast
  note claims = id_claims_get [OF p]
  have bound: "json_get payload ''enrollment_grant_id'' = Inr (Some (Str grant))"
    "json_get payload ''delegation_hash'' = Inr (Some (Str hash))"
    by (simp_all add: p id_claims_def)
  have nonce: "json_get payload ''nonce'' = Inr (map_option Str (mi_nonce input))"
    using assms(8) by (cases rule: str_member_cases [of "''nonce''" "mi_nonce input"];
      cases rule: str_member_cases [of "''agent_name''" "mi_agentName input"])
      (auto simp: p id_claims_def str_member_def split: option.splits if_splits)
  have "str_claim (map_option Str (mi_nonce input)) = mi_nonce input" by (cases "mi_nonce input") simp_all
  with nonce have "verifyIdToken lib token opts = Inr (Verified payload)"
    using assms(5-7,9) by (cases "io_expectedNonce opts") (auto simp: verifyIdToken_def t claims pinned_key_header [OF assms(4)])
  moreover have "verifyEnrollmentGrantBinding lib token grant' hash' = Inr Bound \<longleftrightarrow> grant' = grant \<and> toLowerCase hash' = toLowerCase hash"
    by (auto simp: verifyEnrollmentGrantBinding_def t bound)
  ultimately show ?thesis by blast
qed

subsection \<open>What a verified token establishes\<close>

text \<open>The header chose the key, but the key chose the algorithm: no token is verified with any other.\<close>

lemma find_SomeD: "find P xs = Some x \<Longrightarrow> x \<in> set xs \<and> P x"
  by (auto simp: find_Some_iff)

lemma pinned_key_found:
  "pinned_key keys header = Inr (Inr key) \<Longrightarrow>
     key \<in> set keys \<and> json_get header ''kid'' = Inr (Some (Str (vk_kid key))) \<and> json_get header ''alg'' = Inr (Some (Str (vk_alg key)))"
  by (auto simp: pinned_key_def split: option.split_asm if_split_asm dest: find_SomeD)

text \<open>C11: An accepted agent-session token is signed by a pinned key under the pinned algorithm, has the expected issuer and audience, is not expired and asserts no owner.\<close>

theorem verified_session:
  assumes "verifyAgentSession lib token opts = Inr (Verified payload)"
  shows "\<exists>h p s header key iss rule e. token = h @ ''.'' @ p @ ''.'' @ s \<and> json_part lib p = Some payload \<and>
    json_part lib h = Some header \<and> key \<in> set (so_keys opts) \<and> json_get header ''alg'' = Inr (Some (Str (vk_alg key))) \<and>
    verify_signature_part lib key h p s = Inr True \<and>
    so_expectedIss opts = Some rule \<and> json_get payload ''iss'' = Inr (Some (Str iss)) \<and> issAllowed rule iss \<and>
    json_get payload ''aud'' = Inr (map_option Str (so_expectedAud opts)) \<and> truthy (so_expectedAud opts) \<and>
    json_get payload ''exp'' = Inr (Some (Num e)) \<and> so_nowMs opts div 1000 < e \<and> json_get payload ''owner'' = Inr None"
proof -
  from assms obtain h p s header key rule iss where t: "token_parts token = Some (h, p, s)" "json_part lib h = Some header"
    "json_part lib p = Some payload" and k: "pinned_key (so_keys opts) header = Inr (Inr key)"
    and i: "so_expectedIss opts = Some rule" "json_get payload ''iss'' = Inr (Some (Str iss))" "issAllowed rule iss"
    and s: "verify_signature_part lib key h p s = Inr True" and v: "session_claims_verdict opts payload = Inr (Verified payload)"
    by (auto simp: verifyAgentSession_def verified_elim split_paired_all) (auto simp: session_claims_verdict_def Let_def verified_elim)
  from v obtain aud where aud: "so_expectedAud opts = Some aud" "aud \<noteq> []" "json_get payload ''aud'' = Inr (Some (Str aud))"
    and "json_get payload ''owner'' = Inr None" and "\<exists>e. json_get payload ''exp'' = Inr (Some (Num e)) \<and> so_nowMs opts div 1000 < e"
    by (auto simp: session_claims_verdict_def Let_def truthy_def verified_elim split: option.split_asm)
  moreover have "json_get payload ''aud'' = Inr (map_option Str (so_expectedAud opts)) \<and> truthy (so_expectedAud opts)"
    using aud by (simp add: truthy_def)
  ultimately show ?thesis using t k i s token_parts_input [OF t(1)] pinned_key_found [OF k] by blast
qed

theorem verified_id_token:
  assumes "verifyIdToken lib token opts = Inr (Verified claims)"
  shows "\<exists>h p s header key e. token = h @ ''.'' @ p @ ''.'' @ s \<and> json_part lib p = Some claims \<and>
    json_part lib h = Some header \<and> key \<in> set (io_keys opts) \<and> json_get header ''alg'' = Inr (Some (Str (vk_alg key))) \<and>
    verify_signature_part lib key h p s = Inr True \<and>
    json_get claims ''iss'' = Inr (Some (Str (io_expectedIss opts))) \<and> json_get claims ''aud'' = Inr (Some (Str (io_expectedAud opts))) \<and>
    (\<forall>n. io_expectedNonce opts = Some n \<longrightarrow> json_get claims ''nonce'' = Inr (Some (Str n))) \<and>
    json_get claims ''exp'' = Inr (Some (Num e)) \<and> io_nowMs opts div 1000 < e"
proof -
  from assms obtain h p s header key nonce where t: "token_parts token = Some (h, p, s)" "json_part lib h = Some header"
    "json_part lib p = Some claims" and k: "pinned_key (io_keys opts) header = Inr (Inr key)"
    and s: "verify_signature_part lib key h p s = Inr True"
    and c: "json_get claims ''iss'' = Inr (Some (Str (io_expectedIss opts)))" "json_get claims ''aud'' = Inr (Some (Str (io_expectedAud opts)))"
    and e: "\<exists>e. json_get claims ''exp'' = Inr (Some (Num e)) \<and> io_nowMs opts div 1000 < e"
    and n: "json_get claims ''nonce'' = Inr nonce" "io_expectedNonce opts \<noteq> None \<longrightarrow> str_claim nonce = io_expectedNonce opts"
    by (auto simp: verifyIdToken_def verified_elim)
  from n have "\<forall>n. io_expectedNonce opts = Some n \<longrightarrow> json_get claims ''nonce'' = Inr (Some (Str n))" by auto
  with t k s c e show ?thesis using token_parts_input [OF t(1)] pinned_key_found [OF k] by blast
qed

subsection \<open>The two kinds of token are accepted for each other\<close>

text \<open>
  Both kinds carry the same header and are signed with the same key, and neither verifier asks for a claim
  the other kind lacks. So an agent session passes as an id token where no nonce is expected, and an id token
  passes as an agent session, although it names no principal and no assurance.
\<close>

theorem id_token_is_an_agent_session:
  assumes "mintIdToken lib nowMs input signer = Inr token" and "buffer_law lib" and "key_pair lib signer"
    and "find (\<lambda>k. vk_kid k = bs_kid signer) (so_keys opts) = Some (published_key signer)"
    and "so_expectedAud opts = Some (mi_aud input)" and "mi_aud input \<noteq> []"
    and "so_expectedIss opts = Some rule" and "issAllowed rule (mi_iss input)"
    and "so_nowMs opts div 1000 < nowMs div 1000 + mi_ttlSeconds input"
    and "nowMs div 1000 \<le> so_nowMs opts div 1000 + (case so_clockSkewSec opts of Some c \<Rightarrow> c | None \<Rightarrow> 30)"
  shows "\<exists>payload. verifyAgentSession lib token opts = Inr (Verified payload) \<and>
    json_get payload ''principal'' = Inr None \<and> json_get payload ''assurance'' = Inr None"
proof -
  obtain payload where p: "payload = Obj (id_claims input (nowMs div 1000) @
      str_member ''nonce'' (mi_nonce input) @ str_member ''agent_name'' (mi_agentName input))" by blast
  obtain h q s where t: "token_parts token = Some (h, q, s)" "json_part lib h = Some (token_header signer)"
    "json_part lib q = Some payload" "verify_signature_part lib (published_key signer) h q s = Inr True"
    using sign_token_read [OF assms(1) [unfolded mintIdToken_def] assms(2,3) wf_id_claims(1)] unfolding p by blast
  note claims = id_claims_get [OF p]
  have absent: "json_get payload ''principal'' = Inr None" "json_get payload ''assurance'' = Inr None" "json_get payload ''owner'' = Inr None"
    by (cases rule: str_member_cases [of "''nonce''" "mi_nonce input"];
      cases rule: str_member_cases [of "''agent_name''" "mi_agentName input"]; simp add: p id_claims_def)+
  have "session_claims_verdict opts payload = Inr (Verified payload)"
    using assms(5,6,9,10) by (simp add: session_claims_verdict_def claims absent truthy_def Let_def)
  then have "verifyAgentSession lib token opts = Inr (Verified payload)"
    using assms(7,8) by (simp add: verifyAgentSession_def t claims pinned_key_header [OF assms(4)])
  with absent show ?thesis by blast
qed

lemma session_is_an_id_token:
  assumes "mintAgentSession lib nowMs input signer = Inr token" and "buffer_law lib" and "key_pair lib signer"
    and "find (\<lambda>k. vk_kid k = bs_kid signer) (io_keys opts) = Some (published_key signer)"
    and "io_expectedIss opts = ms_iss input" and "io_expectedAud opts = ms_aud input" and "io_expectedNonce opts = None"
    and "io_nowMs opts div 1000 < nowMs div 1000 + ms_ttlSeconds input"
  shows "\<exists>claims. verifyIdToken lib token opts = Inr (Verified claims) \<and> json_get claims ''canonical_agent_id'' = Inr None"
proof -
  obtain payload where p: "payload = session_payload input (nowMs div 1000)" by blast
  obtain h q s where t: "token_parts token = Some (h, q, s)" "json_part lib h = Some (token_header signer)"
    "json_part lib q = Some payload" "verify_signature_part lib (published_key signer) h q s = Inr True"
    using sign_token_read [OF assms(1) [unfolded mintAgentSession_def] assms(2,3)] unfolding p by auto
  have claims: "json_get payload ''iss'' = Inr (Some (Str (ms_iss input)))" "json_get payload ''aud'' = Inr (Some (Str (ms_aud input)))"
    "json_get payload ''exp'' = Inr (Some (Num (nowMs div 1000 + ms_ttlSeconds input)))"
    "json_get payload ''nonce'' = Inr None" "json_get payload ''canonical_agent_id'' = Inr None"
    by (simp_all add: p session_payload_def) (simp_all split: option.splits)
  then show ?thesis
    using assms(5-8) by (simp add: verifyIdToken_def t claims pinned_key_header [OF assms(4)])
qed

subsection \<open>Who is issued a session\<close>

lemma issued_cases:
  assumes "issueForResolution lib nowMs jti input = Inr (Issued token sub a)"
  obtains agent where "ii_resolution input = [agent]" and "ae_id agent = sub" and "ae_assurance agent = a"
    and "isCustodiedNamespace sub" and "(case ii_floor input of Some f \<Rightarrow> f | None \<Rightarrow> OnchainConfirmed) \<le> a"
    and "mintAgentSession lib nowMs
      \<lparr>ms_sub = sub, ms_principal = ii_principal input, ms_assurance = a, ms_aud = ii_aud input, ms_iss = ii_iss input,
       ms_ttlSeconds = ii_ttlSeconds input, ms_jti = jti, ms_rotation = None\<rparr> (ii_signer input) = Inr token"
proof -
  from assms obtain agent where r: "ii_resolution input = [agent]"
    by (auto simp: issueForResolution_def convergence_def split: list.splits)
  with assms have "canIssueSession (ae_id agent) (ae_assurance agent) (ii_floor input) = None"
    by (auto simp: issueForResolution_def convergence_def split: option.split_asm)
  with assms r show thesis
    by (intro that [of agent])
      (auto simp: issueForResolution_def convergence_def canIssueSession_def Let_def SESSION_ISSUANCE_FLOOR_def compareAssurance_sign not_less
        split: if_splits option.splits)
qed

text \<open>
  C14: Without a lower floor, a session is issued only to the one agent the credential resolves to, on a chain the
  stack has custody on, whose control the chain confirmed; and the token is that session.
\<close>

theorem issued_session_confirmed:
  assumes "resolveByCredential ports sink nowIso who = Inr (ii_resolution input, events)" and "ii_floor input = None"
    and "issueForResolution lib nowMs jti input = Inr (Issued token sub a)"
  shows "isCustodiedNamespace sub \<and> a = OnchainConfirmed \<and> dp_confirmsCredential ports sub who = Inr True \<and>
    (\<exists>links. dp_agentsByCredential ports who = Inr links \<and>
       map el_agent (filter (\<lambda>link. dp_confirmsCredential ports (el_agent link) who = Inr True) links) = [sub]) \<and>
    sign_token lib (ii_signer input) (session_payload
      \<lparr>ms_sub = sub, ms_principal = ii_principal input, ms_assurance = OnchainConfirmed, ms_aud = ii_aud input, ms_iss = ii_iss input,
       ms_ttlSeconds = ii_ttlSeconds input, ms_jti = jti, ms_rotation = None\<rparr> (nowMs div 1000)) = Inr token"
  using assms(3)
proof (rule issued_cases)
  fix agent assume i: "ii_resolution input = [agent]" "ae_id agent = sub" "ae_assurance agent = a" "isCustodiedNamespace sub"
    and m: "mintAgentSession lib nowMs
      \<lparr>ms_sub = sub, ms_principal = ii_principal input, ms_assurance = a, ms_aud = ii_aud input, ms_iss = ii_iss input,
       ms_ttlSeconds = ii_ttlSeconds input, ms_jti = jti, ms_rotation = None\<rparr> (ii_signer input) = Inr token"
  from assms(1) i obtain links where "dp_agentsByCredential ports who = Inr links"
    and "map el_agent (filter (\<lambda>link. dp_confirmsCredential ports (el_agent link) who = Inr True) links) = [sub]"
    and "dp_confirmsCredential ports sub who = Inr True" and "a = OnchainConfirmed"
    by (elim resolveByCredential_confirmed) auto
  with i m show ?thesis by (auto simp: mintAgentSession_def)
qed

text \<open>A name alone never gets a session: a read of the name is below the floor.\<close>

theorem name_is_not_a_credential:
  assumes "resolveByName ports sink nowIso name = Inr (ii_resolution input, events)" and "ii_floor input = None"
  shows "issueForResolution lib nowMs jti input \<noteq> Inr (Issued token sub a)"
proof
  assume "issueForResolution lib nowMs jti input = Inr (Issued token sub a)"
  then show False
  proof (rule issued_cases)
    fix agent assume "ii_resolution input = [agent]" "ae_assurance agent = a"
      and floor: "(case ii_floor input of Some f \<Rightarrow> f | None \<Rightarrow> OnchainConfirmed) \<le> a"
    then have "a = OnchainRead" using assms(1) by (auto simp: resolveByName_def split: if_splits)
    with floor assms(2) show False by (simp add: less_eq_assurance_def assurance_index_def ASSURANCE_ORDER_def)
  qed
qed

text \<open>
  The session carries the assurance of the resolution, not of the credential: after an OIDC sign-in, whose
  principal is only asserted, the session says \<open>onchain-confirmed\<close>.
\<close>

lemma session_assurance_above_principal:
  assumes "resolveByOidcSubject ports sink nowIso iss sub = Inr (ii_resolution input, events)" and "ii_floor input = None"
    and "ii_principal input = oidcPrincipal iss sub" and "issueForResolution lib nowMs jti input = Inr (Issued token agent a)"
  shows "cp_assurance (ii_principal input) < a"
  using assms(4)
proof (rule issued_cases)
  assume floor: "(case ii_floor input of Some f \<Rightarrow> f | None \<Rightarrow> OnchainConfirmed) \<le> a"
  then have "a = OnchainConfirmed" using assms(2) top_assurance by (simp add: antisym)
  then show ?thesis by (simp add: assms(3) oidcPrincipal_def less_assurance_def assurance_index_def ASSURANCE_ORDER_def)
qed

lemma selected_in_resolution:
  "selectFromResolution agents chosen = Some i \<Longrightarrow> i = chosen \<and> (\<exists>a \<in> set agents. ae_id a = i)"
  by (auto simp: selectFromResolution_def dest: find_SomeD)

subsection \<open>Key sets\<close>

text \<open>Only keys of the broker's two algorithms are imported; importing what was published gives them back.\<close>

lemma imported_algs: "importJwks importKey ks = Inr keys \<Longrightarrow> k \<in> set keys \<Longrightarrow> vk_alg k \<in> {''EdDSA'', ''ES256''}"
  by (induction ks arbitrary: keys) (auto split: if_splits)

theorem jwks_roundtrip:
  assumes "\<And>k m. exportKey k = Inr m \<Longrightarrow> importKey m ''EdDSA'' = Inr k \<and> importKey m ''ES256'' = Inr k"
    and "publishJwks exportKey keys = Inr jwks"
  shows "importJwks importKey jwks = Inr (filter (\<lambda>k. vk_alg k \<in> {''EdDSA'', ''ES256''}) keys)"
  using assms(2)
proof (induction keys arbitrary: jwks)
  case Nil
  then show ?case by (simp add: publishJwks_def)
next
  case (Cons k keys)
  then obtain m ks where m: "exportKey (vk_public k) = Inr m" and ks: "publishJwks exportKey keys = Inr ks"
    and j: "jwks = \<lparr>jwk_material = m, jwk_kid = Some (vk_kid k), jwk_alg = Some (vk_alg k), jwk_use = Some ''sig''\<rparr> # ks"
    by (auto simp: publishJwks_def exportPublicJwk_def)
  have "\<lparr>vk_kid = vk_kid k, vk_alg = vk_alg k, vk_public = vk_public k\<rparr> = k" by simp
  with Cons.IH [OF ks] assms(1) [OF m] show ?case by (auto simp: j)
qed

subsection \<open>A code is exchanged at most once\<close>

datatype code_op = Put_code string auth_code_value int | Take_code string

text \<open>A run of the store: the operations with the times they ran at, and what was delivered, when.\<close>

fun code_run :: "(int \<times> code_op) list \<Rightarrow> code_store \<Rightarrow> (int \<times> string \<times> auth_code_value) list" where
  "code_run [] store = []"
| "code_run ((now, Put_code code v ttl) # ops) store = code_run ops (code_put now code v ttl store)"
| "code_run ((now, Take_code code) # ops) store =
     (case code_take now code store of
        (Some v, store') \<Rightarrow> (now, code, v) # code_run ops store'
      | (None, store') \<Rightarrow> code_run ops store')"

definition puts_of :: "string \<Rightarrow> (int \<times> code_op) list \<Rightarrow> (int \<times> code_op) list" where
  "puts_of code ops = filter (\<lambda>op. \<exists>v ttl. snd op = Put_code code v ttl) ops"

lemma code_put_apply: "code_put now code v ttl store c = (if c = code then Some (v, now + ttl) else store c)"
  by (simp add: code_put_def)

lemma code_take_cases:
  obtains "store c = None" and "code_take now c store = (None, store)"
  | v e where "store c = Some (v, e)" and "e \<le> now" and "code_take now c store = (None, store(c := None))"
  | v e where "store c = Some (v, e)" and "now < e" and "code_take now c store = (Some v, store(c := None))"
proof (cases "store c")
  case (Some r)
  obtain v e where "r = (v, e)" by (cases r)
  with Some show thesis using that(2,3) [of v e] by (cases "e \<le> now") (simp_all add: code_take_def)
qed (simp add: that(1) code_take_def)

lemma code_run_count:
  "length (filter (\<lambda>d. fst (snd d) = code) (code_run ops store)) \<le> length (puts_of code ops) + (if store code = None then 0 else 1)"
proof (induction ops arbitrary: store)
  case (Cons op ops)
  obtain now x where op: "op = (now, x)" by (cases op)
  show ?case
  proof (cases x)
    case (Put_code c v ttl)
    with Cons.IH [of "code_put now c v ttl store"] show ?thesis
      by (cases "c = code") (auto simp: op code_put_apply [of _ _ _ _ _ code] puts_of_def split: if_splits)
  next
    case (Take_code c)
    have u: "(store(c := None)) code = (if code = c then None else store code)" by simp
    from Take_code show ?thesis
      by (cases rule: code_take_cases [of store c now]) (use Cons.IH [of store] Cons.IH [of "store(c := None)"] in
        \<open>auto simp: op puts_of_def u simp del: fun_upd_apply split: if_splits\<close>)
  qed
qed (simp add: puts_of_def)

lemma code_run_delivered:
  assumes "\<And>c v e. store c = Some (v, e) \<Longrightarrow> \<exists>t ttl. (t, Put_code c v ttl) \<in> P \<and> e = t + ttl"
    and "(now, code, v) \<in> set (code_run ops store)" and "set ops \<subseteq> P"
  shows "\<exists>t ttl. (t, Put_code code v ttl) \<in> P \<and> now < t + ttl"
  using assms
proof (induction ops arbitrary: store)
  case (Cons op ops)
  obtain n x where op: "op = (n, x)" by (cases op)
  show ?case
  proof (cases x)
    case (Put_code c w ttl)
    show ?thesis
    proof (rule Cons.IH)
      show "\<exists>t ttl. (t, Put_code d y ttl) \<in> P \<and> e = t + ttl" if "code_put n c w ttl store d = Some (y, e)" for d y e
        using that Cons.prems(1,3) by (auto simp: code_put_apply op Put_code split: if_splits)
    qed (use Cons.prems in \<open>simp_all add: op Put_code\<close>)
  next
    case (Take_code c)
    have rest: "\<exists>t ttl. (t, Put_code d y ttl) \<in> P \<and> u = t + ttl" if "(store(c := None)) d = Some (y, u)" for d y u
      using that Cons.prems(1) by (auto split: if_splits)
    show ?thesis
    proof (cases rule: code_take_cases [of store c n])
      case 1
      with Cons.IH [of store] Cons.prems show ?thesis by (simp add: op Take_code)
    next
      case 2
      with Cons.IH [of "store(c := None)", OF rest] Cons.prems show ?thesis by (simp add: op Take_code del: fun_upd_apply)
    next
      case (3 y e)
      obtain t ttl where "(t, Put_code c y ttl) \<in> P" "e = t + ttl" using Cons.prems(1) 3 by blast
      with 3 Cons.IH [of "store(c := None)", OF rest] Cons.prems show ?thesis by (auto simp: op Take_code simp del: fun_upd_apply)
    qed
  qed
qed simp

text \<open>C36: Under any sequence of puts and takes an authorization code is exchanged at most once, and never after it expired.\<close>

theorem code_exchanged_at_most_once:
  "length (filter (\<lambda>d. fst (snd d) = code) (code_run ops Map.empty)) \<le> length (puts_of code ops) \<and>
   ((now, code, v) \<in> set (code_run ops Map.empty) \<longrightarrow> (\<exists>t ttl. (t, Put_code code v ttl) \<in> set ops \<and> now < t + ttl))"
  using code_run_count [of code ops Map.empty] code_run_delivered [of Map.empty "set ops" now code v ops] by simp

subsection \<open>A broker to evaluate the definitions on\<close>

definition demo_jwt :: jwt_lib where
  "demo_jwt = \<lparr>jw_Buffer_from_base64 = None, jw_subtle_sign = (\<lambda>alg k m. Inr m), jw_subtle_verify = (\<lambda>alg k s m. Inr (s = m)),
     jw_sha256 = (\<lambda>b. b), jw_hmac = (\<lambda>k m. k @ m)\<rparr>"

definition demo_broker :: broker_signer where
  "demo_broker = \<lparr>bs_kid = ''k1'', bs_alg = ''EdDSA'', bs_privateKey = ''sk'', bs_publicKey = ''pk''\<rparr>"

lemma demo_laws: "buffer_law demo_jwt" "key_pair demo_jwt demo_broker"
  by (simp_all add: buffer_law_def key_pair_def demo_jwt_def)

definition demo_session_opts :: session_opts where
  "demo_session_opts = \<lparr>so_keys = [published_key demo_broker], so_expectedAud = Some ''app'', so_expectedIss = Some (Iss_is ''https://home''),
     so_nowMs = 20000, so_clockSkewSec = None\<rparr>"

lemma demo_find: "find (\<lambda>k. vk_kid k = bs_kid demo_broker) [published_key demo_broker] = Some (published_key demo_broker)"
  by (simp add: published_key_def)

definition demo_session :: mint_session_input where
  "demo_session = \<lparr>ms_sub = ''eip155:1:0xA'', ms_principal = oidcPrincipal ''https://idp'' ''u1'', ms_assurance = OnchainConfirmed,
     ms_aud = ''app'', ms_iss = ''https://home'', ms_ttlSeconds = 60, ms_jti = ''j1'', ms_rotation = None\<rparr>"

definition demo_session_token :: string where
  "demo_session_token = projr (mintAgentSession demo_jwt 10000 demo_session demo_broker)"

lemma demo_session_minted: "mintAgentSession demo_jwt 10000 demo_session demo_broker = Inr demo_session_token"
proof -
  obtain t where "mintAgentSession demo_jwt 10000 demo_session demo_broker = Inr t"
    by (auto simp: mintAgentSession_def sign_token_def demo_jwt_def Let_def)
  then show ?thesis by (simp add: demo_session_token_def)
qed

lemma demo_verified: "verifyAgentSession demo_jwt demo_session_token demo_session_opts = Inr (Verified (session_payload demo_session (10000 div 1000)))"
  by (rule minted_session_verifies [OF demo_session_minted demo_laws, where rule = "Iss_is ''https://home''"])
    (simp_all add: demo_session_opts_def demo_session_def published_key_def)

theorem verified_session_witness:
  "\<exists>key iss. key \<in> set (so_keys demo_session_opts) \<and>
     json_get (session_payload demo_session (10000 div 1000)) ''iss'' = Inr (Some (Str iss)) \<and> issAllowed (Iss_is ''https://home'') iss"
  proof -
  have "so_expectedIss demo_session_opts = Some (Iss_is ''https://home'')" by (simp add: demo_session_opts_def)
  moreover from verified_session [OF demo_verified] obtain key rule iss where "key \<in> set (so_keys demo_session_opts)"
    "so_expectedIss demo_session_opts = Some rule" "issAllowed rule iss"
    "json_get (session_payload demo_session (10000 div 1000)) ''iss'' = Inr (Some (Str iss))"
    by (elim exE conjE) (rule that)
  ultimately show ?thesis by (intro exI [of _ key] exI [of _ iss]) simp
qed

definition demo_id_input :: mint_id_input where
  "demo_id_input = \<lparr>mi_iss = ''https://home'', mi_sub = ''eip155:1:0xA'', mi_aud = ''app'', mi_ttlSeconds = 60, mi_nonce = Some ''n'',
     mi_agentName = None\<rparr>"

theorem id_token_is_an_agent_session_witness:
  "\<exists>token payload. mintIdToken demo_jwt 10000 demo_id_input demo_broker = Inr token \<and>
     verifyAgentSession demo_jwt token demo_session_opts = Inr (Verified payload) \<and> json_get payload ''principal'' = Inr None"
proof -
  obtain t where t: "mintIdToken demo_jwt 10000 demo_id_input demo_broker = Inr t"
    by (auto simp: mintIdToken_def sign_token_def demo_jwt_def Let_def)
  show ?thesis
    using id_token_is_an_agent_session [OF t demo_laws, of demo_session_opts "Iss_is ''https://home''"] t demo_find
    by (force simp: demo_session_opts_def demo_id_input_def)
qed

theorem bound_id_token_verifies_witness:
  "\<exists>token. mintBoundIdToken demo_jwt 10000 demo_id_input ''g1'' ''0xAB'' demo_broker = Inr token \<and>
     verifyEnrollmentGrantBinding demo_jwt token ''g1'' ''0xAB'' = Inr Bound"
proof -
  obtain t where t: "mintBoundIdToken demo_jwt 10000 demo_id_input ''g1'' ''0xAB'' demo_broker = Inr t"
    by (auto simp: mintBoundIdToken_def sign_token_def demo_jwt_def Let_def)
  have "verifyEnrollmentGrantBinding demo_jwt t ''g1'' ''0xAB'' = Inr Bound"
    using bound_id_token_verifies [OF t demo_laws, of "\<lparr>io_keys = [published_key demo_broker], io_expectedIss = ''https://home'',
        io_expectedAud = ''app'', io_expectedNonce = None, io_nowMs = 20000\<rparr>"] demo_find
    by (simp add: demo_id_input_def)
  with t show ?thesis by blast
qed

definition demo_ports :: directory_ports where
  "demo_ports = \<lparr>dp_forward = (\<lambda>n. Inr (Some ''eip155:1:0xA'')), dp_reverse = (\<lambda>i. Inr None), dp_exists = (\<lambda>i. Inr True),
     dp_confirmsCredential = (\<lambda>i c. Inr (i = ''eip155:1:0xA'')),
     dp_agentsByCredential = (\<lambda>c. Inr
       [\<lparr>el_agent = ''eip155:1:0xA'', el_assurance = Asserted, el_ref = ''e1'', el_observedAt = None, el_blockNumber = None\<rparr>,
        \<lparr>el_agent = ''eip155:1:0xB'', el_assurance = Asserted, el_ref = ''e2'', el_observedAt = None, el_blockNumber = None\<rparr>]),
     dp_agentsByOidcSubject = (\<lambda>i s. Inr [])\<rparr>"

definition demo_issue :: issue_input where
  "demo_issue = \<lparr>ii_resolution = [confirmed_agent ''now''
       \<lparr>el_agent = ''eip155:1:0xA'', el_assurance = Asserted, el_ref = ''e1'', el_observedAt = None, el_blockNumber = None\<rparr>],
     ii_principal = oidcPrincipal ''https://idp'' ''u1'', ii_signer = demo_broker, ii_aud = ''app'', ii_iss = ''https://home'',
     ii_ttlSeconds = 60, ii_floor = None\<rparr>"

theorem issued_session_confirmed_witness:
  "\<exists>token. issueForResolution demo_jwt 10000 ''j1'' demo_issue = Inr (Issued token ''eip155:1:0xA'' OnchainConfirmed) \<and>
     dp_confirmsCredential demo_ports ''eip155:1:0xA'' (oidcPrincipal ''https://idp'' ''u1'') = Inr True"
proof -
  have r: "resolveByCredential demo_ports False ''now'' (oidcPrincipal ''https://idp'' ''u1'') = Inr (ii_resolution demo_issue, [])"
    by (simp add: resolveByCredential_def demo_ports_def demo_issue_def dir_emit_def)
  obtain t where t: "issueForResolution demo_jwt 10000 ''j1'' demo_issue = Inr (Issued t ''eip155:1:0xA'' OnchainConfirmed)"
    by (auto simp: issueForResolution_def convergence_def demo_issue_def canIssueSession_def isCustodiedNamespace_def startsWith_def
        compareAssurance_def SESSION_ISSUANCE_FLOOR_def mintAgentSession_def sign_token_def demo_jwt_def Let_def)
  from issued_session_confirmed [OF r _ t] t show ?thesis by (auto simp: demo_issue_def)
qed

definition demo_code_ops :: "(int \<times> code_op) list" where
  "demo_code_ops = [(0, Put_code ''c'' \<lparr>acv_token = ''t'', acv_aud = ''app''\<rparr> 100), (5, Take_code ''c''), (6, Take_code ''c'')]"

theorem code_exchanged_at_most_once_witness:
  "code_run demo_code_ops Map.empty = [(5, ''c'', \<lparr>acv_token = ''t'', acv_aud = ''app''\<rparr>)] \<and>
   (\<exists>t ttl. (t, Put_code ''c'' \<lparr>acv_token = ''t'', acv_aud = ''app''\<rparr> ttl) \<in> set demo_code_ops \<and> 5 < t + ttl)"
proof -
  have "code_run demo_code_ops Map.empty = [(5, ''c'', \<lparr>acv_token = ''t'', acv_aud = ''app''\<rparr>)]"
    by (simp add: demo_code_ops_def code_put_def code_take_def)
  with code_exchanged_at_most_once [of "''c''" demo_code_ops 5 "\<lparr>acv_token = ''t'', acv_aud = ''app''\<rparr>"] show ?thesis by simp
qed

end
