(* ===== verification/OidcLogin.thy ===== *)
theory OidcLogin
  imports Connect SessionCookies
begin

section \<open>Sign-in: OIDC providers\<close>

text \<open>
  \<open>packages/connect-auth/src/methods/google.ts\<close> and \<open>youversion.ts\<close>: the authorization-code login with PKCE,
  state and nonce, the verification of the provider's id token, and the principal it yields. The network is a
  function from a request and a state of the world to a response and the next state; Web Crypto's RSA and the
  message of a thrown error are parameters, random texts are arguments. The theory shows what a completed
  login establishes, that a forged state is refused before any request is made, that the facet of a principal
  is unambiguous, and that the challenge of a login passes the check of this repository's own provider.
\<close>

subsection \<open>Providers\<close>

record oidc_config =
  oc_issuers :: "string list"
  oc_authorizationEndpoint :: string
  oc_tokenEndpoint :: string
  oc_jwksUri :: string

definition GOOGLE_OIDC :: oidc_config where
  "GOOGLE_OIDC =
     \<lparr>oc_issuers = [''https://accounts.google.com'', ''accounts.google.com''],
      oc_authorizationEndpoint = ''https://accounts.google.com/o/oauth2/v2/auth'',
      oc_tokenEndpoint = ''https://oauth2.googleapis.com/token'',
      oc_jwksUri = ''https://www.googleapis.com/oauth2/v3/certs''\<rparr>"

definition YOUVERSION_OIDC :: oidc_config where
  "YOUVERSION_OIDC =
     \<lparr>oc_issuers = [''https://api.youversion.com/auth/token'', ''https://api.youversion.com''],
      oc_authorizationEndpoint = ''https://api.youversion.com/auth/authorize'',
      oc_tokenEndpoint = ''https://api.youversion.com/auth/token'',
      oc_jwksUri = ''https://api.youversion.com/.well-known/jwks.json''\<rparr>"

definition constantTimeEqualStr :: "string \<Rightarrow> string \<Rightarrow> bool" where
  "constantTimeEqualStr a b = constantTimeEqual (TextEncoder a) (TextEncoder b)"

lemma constantTimeEqualStr_iff [simp]: "constantTimeEqualStr a b \<longleftrightarrow> a = b"
  by (simp add: constantTimeEqualStr_def)

subsection \<open>Beginning a login\<close>

text \<open>\<open>URLSearchParams.toString()\<close>: the form encoding of names and values, byte by byte of their UTF-8.\<close>

definition form_safe :: "char \<Rightarrow> bool" where
  "form_safe c \<longleftrightarrow>
     (let n = of_char c :: nat in 48 \<le> n \<and> n \<le> 57 \<or> 65 \<le> n \<and> n \<le> 90 \<or> 97 \<le> n \<and> n \<le> 122 \<or> c \<in> {CHR ''*'', CHR ''-'', CHR ''.'', CHR ''_''})"

definition upper_hex :: "nat \<Rightarrow> char" where
  "upper_hex n = (if n < 10 then char_of (48 + n) else char_of (55 + n))"

definition form_char :: "char \<Rightarrow> string" where
  "form_char c =
     (if form_safe c then [c] else if c = CHR '' '' then ''+''
      else let n = of_char c :: nat in [CHR ''%'', upper_hex (n div 16), upper_hex (n mod 16)])"

definition form_text :: "string \<Rightarrow> string" where
  "form_text s = concat (map form_char s)"

definition form_encode :: "(string \<times> string) list \<Rightarrow> string" where
  "form_encode params = join ''&'' (map (\<lambda>(k, v). form_text k @ ''='' @ form_text v) params)"

record begin_input =
  bi_clientId :: string
  bi_redirectUri :: string
  bi_scope :: "string option"
  bi_prompt :: "string option"
  bi_config :: "oidc_config option"

record begin_result =
  br_authUrl :: string
  br_codeVerifier :: string
  br_state :: string
  br_nonce :: string

fun str_includes :: "string \<Rightarrow> string \<Rightarrow> bool" where
  "str_includes [] t \<longleftrightarrow> t = []"
| "str_includes (c # s) t \<longleftrightarrow> startsWith (c # s) t \<or> str_includes s t"

definition config_of :: "oidc_config option \<Rightarrow> oidc_config" where
  "config_of c = (case c of Some config \<Rightarrow> config | None \<Rightarrow> GOOGLE_OIDC)"

definition pkce_challenge :: "jwt_lib \<Rightarrow> string \<Rightarrow> string" where
  "pkce_challenge lib codeVerifier = bytesToBase64url (jw_sha256 lib (TextEncoder codeVerifier))"

definition auth_params :: "jwt_lib \<Rightarrow> begin_input \<Rightarrow> string \<Rightarrow> string \<Rightarrow> string \<Rightarrow> (string \<times> string) list" where
  "auth_params lib input codeVerifier state nonce =
     (let scope = (case bi_scope input of Some s \<Rightarrow> s | None \<Rightarrow> ''openid email profile'') in
      [(''response_type'', ''code''), (''client_id'', bi_clientId input), (''redirect_uri'', bi_redirectUri input),
       (''scope'', if str_includes scope ''openid'' then scope else ''openid '' @ scope), (''state'', state), (''nonce'', nonce),
       (''code_challenge'', pkce_challenge lib codeVerifier), (''code_challenge_method'', ''S256'')] @
      (case bi_prompt input of Some p \<Rightarrow> if p = [] then [] else [(''prompt'', p)] | None \<Rightarrow> []))"

text \<open>The three random texts encode 32, 24 and 24 bytes.\<close>

definition beginLogin :: "jwt_lib \<Rightarrow> begin_input \<Rightarrow> bytes \<Rightarrow> bytes \<Rightarrow> bytes \<Rightarrow> begin_result" where
  "beginLogin lib input r1 r2 r3 =
     (let codeVerifier = bytesToBase64url r1; state = bytesToBase64url r2; nonce = bytesToBase64url r3 in
      \<lparr>br_authUrl = oc_authorizationEndpoint (config_of (bi_config input)) @ ''?'' @
         form_encode (auth_params lib input codeVerifier state nonce),
       br_codeVerifier = codeVerifier, br_state = state, br_nonce = nonce\<rparr>)"

subsection \<open>The network and the provider's keys\<close>

record http_response =
  hr_ok :: bool
  hr_status :: nat
  hr_json :: "json js"

text \<open>A request is a URL and, for a POST, its form.\<close>

type_synonym 'w fetch = "string \<Rightarrow> (string \<times> string) list option \<Rightarrow> 'w \<Rightarrow> http_response js \<times> 'w"

record rsa_lib =
  rs_importKey :: "json option \<Rightarrow> json option \<Rightarrow> json option \<Rightarrow> string js"
  rs_verify :: "string \<Rightarrow> bytes \<Rightarrow> bytes \<Rightarrow> bool js"
  rs_errorText :: "js_error \<Rightarrow> string"

text \<open>\<open>===\<close> on parsed JSON: two objects or arrays are never the same.\<close>

definition json_same :: "json option \<Rightarrow> json option \<Rightarrow> bool" where
  "json_same a b \<longleftrightarrow> a = b \<and> (case a of Some (Arr xs) \<Rightarrow> False | Some (Obj ms) \<Rightarrow> False | _ \<Rightarrow> True)"

fun find_key :: "json option \<Rightarrow> json list \<Rightarrow> json option js" where
  "find_key kid [] = Inr None"
| "find_key kid (k # ks) =
     js_bind (json_get k ''kid'') (\<lambda>k_kid. js_bind (json_get k ''kty'') (\<lambda>kty.
       if json_same k_kid kid \<and> kty = Some (Str ''RSA'') then Inr (Some k) else find_key kid ks))"

definition jwks_find :: "json \<Rightarrow> json option \<Rightarrow> json option js" where
  "jwks_find jwks kid =
     js_bind (json_get jwks ''keys'') (\<lambda>keys.
       case keys of
         None \<Rightarrow> Inr None
       | Some Null \<Rightarrow> Inr None
       | Some (Arr ks) \<Rightarrow> find_key kid ks
       | _ \<Rightarrow> Inl TypeError)"

subsection \<open>Verifying an id token\<close>

record oidc_ctx =
  ox_config :: oidc_config
  ox_clientId :: string
  ox_expectedNonce :: string
  ox_requireNonce :: bool
  ox_nowMs :: int

definition failed :: "rsa_lib \<Rightarrow> string \<Rightarrow> js_error \<Rightarrow> string" where
  "failed rsa what e = what @ '': '' @ rs_errorText rsa e"

definition aud_matches :: "json option \<Rightarrow> string \<Rightarrow> bool" where
  "aud_matches aud clientId = (case aud of Some (Arr xs) \<Rightarrow> Str clientId \<in> set xs | _ \<Rightarrow> aud = Some (Str clientId))"

definition oidc_claims_verdict :: "oidc_ctx \<Rightarrow> json \<Rightarrow> (string + json) js" where
  "oidc_claims_verdict ctx claims =
     js_bind (json_get claims ''iss'') (\<lambda>iss.
       if \<not> json_true iss \<or> iss \<notin> Some ` Str ` set (oc_issuers (ox_config ctx))
       then Inr (Inl (''id_token iss '' @ [CHR 0x22] @ opt_text iss @ [CHR 0x22] @ '' not accepted''))
       else js_bind (json_get claims ''aud'') (\<lambda>aud.
         if \<not> aud_matches aud (ox_clientId ctx) then Inr (Inl ''id_token aud does not match clientId'')
         else js_bind (json_get claims ''exp'') (\<lambda>ex.
           if (case num_claim ex of None \<Rightarrow> True | Some e \<Rightarrow> e * 1000 \<le> ox_nowMs ctx) then Inr (Inl ''id_token expired'')
           else js_bind (json_get claims ''nonce'') (\<lambda>nonce.
             if ox_requireNonce ctx \<and> (\<not> json_true nonce \<or> \<not> constantTimeEqualStr (opt_text nonce) (ox_expectedNonce ctx))
             then Inr (Inl ''id_token nonce mismatch'')
             else js_bind (json_get claims ''sub'') (\<lambda>sub.
               if \<not> json_true sub then Inr (Inl ''id_token missing sub'') else Inr (Inr claims))))))"

definition rsa_valid :: "jwt_lib \<Rightarrow> rsa_lib \<Rightarrow> json \<Rightarrow> string \<Rightarrow> string \<Rightarrow> string \<Rightarrow> bool js" where
  "rsa_valid lib rsa k h p s =
     js_bind (json_get k ''kty'') (\<lambda>kty. js_bind (json_get k ''n'') (\<lambda>n. js_bind (json_get k ''e'') (\<lambda>e.
       js_bind (rs_importKey rsa kty n e) (\<lambda>key. js_bind (base64urlDecode lib s) (\<lambda>sig.
         rs_verify rsa key sig (TextEncoder (h @ ''.'' @ p)))))))"

definition fetch_key :: "rsa_lib \<Rightarrow> 'w fetch \<Rightarrow> oidc_config \<Rightarrow> json option \<Rightarrow> 'w \<Rightarrow> (string + json) \<times> 'w" where
  "fetch_key rsa fetch config kid w =
     (let (res, w') = fetch (oc_jwksUri config) None w in
      (case res of
         Inl e \<Rightarrow> Inl (failed rsa ''JWKS fetch failed'' e)
       | Inr r \<Rightarrow>
           if \<not> hr_ok r then Inl (''JWKS endpoint returned '' @ nat_str (hr_status r))
           else (case js_bind (hr_json r) (\<lambda>jwks. jwks_find jwks kid) of
               Inl e \<Rightarrow> Inl (failed rsa ''JWKS fetch failed'' e)
             | Inr None \<Rightarrow> Inl (''no RSA JWKS key for kid '' @ [CHR 0x22] @ opt_text kid @ [CHR 0x22])
             | Inr (Some k) \<Rightarrow> Inr k), w'))"

definition verify_oidc_token ::
  "jwt_lib \<Rightarrow> rsa_lib \<Rightarrow> 'w fetch \<Rightarrow> oidc_ctx \<Rightarrow> string \<Rightarrow> 'w \<Rightarrow> (string + json) js \<times> 'w" where
  "verify_oidc_token lib rsa fetch ctx idToken w =
     (case token_parts idToken of
        None \<Rightarrow> (Inr (Inl ''id_token is not a 3-part JWT''), w)
      | Some (h, p, s) \<Rightarrow>
          (case (json_part lib h, json_part lib p) of
             (Some header, Some claims) \<Rightarrow>
               (case json_get header ''alg'' of
                  Inl e \<Rightarrow> (Inl e, w)
                | Inr alg \<Rightarrow>
                    if alg \<noteq> Some (Str ''RS256'')
                    then (Inr (Inl (''id_token alg must be RS256, got '' @ [CHR 0x22] @ opt_text alg @ [CHR 0x22])), w)
                    else (case json_get header ''kid'' of
                        Inl e \<Rightarrow> (Inl e, w)
                      | Inr kid \<Rightarrow>
                          if \<not> json_true kid then (Inr (Inl ''id_token missing kid''), w)
                          else let (found, w') = fetch_key rsa fetch (ox_config ctx) kid w in
                            ((case found of
                                Inl reason \<Rightarrow> Inr (Inl reason)
                              | Inr k \<Rightarrow>
                                  (case rsa_valid lib rsa k h p s of
                                     Inl e \<Rightarrow> Inr (Inl (failed rsa ''signature verification error'' e))
                                   | Inr valid \<Rightarrow>
                                       if \<not> valid then Inr (Inl ''id_token signature invalid'')
                                       else oidc_claims_verdict ctx claims)), w')))
           | _ \<Rightarrow> (Inr (Inl ''id_token header/payload not valid JSON''), w)))"

subsection \<open>Completing a login\<close>

record oidc_principal =
  op_iss :: "json option"
  op_sub :: "json option"
  op_email :: json
  op_emailVerified :: bool
  op_name :: json

record oidc_tokens =
  ot_accessToken :: json
  ot_refreshToken :: json
  ot_expiresIn :: "js_number option"
  ot_scope :: json

record complete_input =
  ci_code :: string
  ci_returnedState :: string
  ci_expectedState :: string
  ci_expectedNonce :: string
  ci_codeVerifier :: string
  ci_redirectUri :: string
  ci_clientId :: string
  ci_clientSecret :: "string option"
  ci_requireEmailVerified :: "bool option"
  ci_requireNonce :: "bool option"
  ci_config :: "oidc_config option"
  ci_nowMs :: int

definition oidcFacetId :: "string \<Rightarrow> string \<Rightarrow> string" where
  "oidcFacetId iss sub = iss @ ''#'' @ sub"

definition or_null :: "json option \<Rightarrow> json" where
  "or_null j = (case j of Some v \<Rightarrow> v | None \<Rightarrow> Null)"

text \<open>\<open>Number(v)\<close> of a value that is neither \<open>null\<close> nor absent.\<close>

definition Number_json :: "json \<Rightarrow> js_number" where
  "Number_json j = (case j of Num n \<Rightarrow> Finite (of_int n) | Bool b \<Rightarrow> Finite (if b then 1 else 0) | _ \<Rightarrow> Number_text (json_text j))"

definition expires_in :: "json option \<Rightarrow> js_number option" where
  "expires_in j = (case j of None \<Rightarrow> None | Some Null \<Rightarrow> None | Some v \<Rightarrow> Some (Number_json v))"

definition token_form :: "complete_input \<Rightarrow> (string \<times> string) list" where
  "token_form input =
     [(''grant_type'', ''authorization_code''), (''code'', ci_code input), (''redirect_uri'', ci_redirectUri input),
      (''client_id'', ci_clientId input), (''code_verifier'', ci_codeVerifier input)] @
     (case ci_clientSecret input of Some s \<Rightarrow> if s = [] then [] else [(''client_secret'', s)] | None \<Rightarrow> [])"

text \<open>The answer of the token endpoint: the id token and the OAuth tokens.\<close>

definition read_tokens :: "json \<Rightarrow> (string + json option \<times> oidc_tokens) js" where
  "read_tokens j =
     js_bind (json_get j ''id_token'') (\<lambda>t.
       if \<not> json_true t then Inr (Inl ''token response missing id_token'')
       else js_bind (json_get j ''access_token'') (\<lambda>a. js_bind (json_get j ''refresh_token'') (\<lambda>r.
         js_bind (json_get j ''expires_in'') (\<lambda>x. js_bind (json_get j ''scope'') (\<lambda>s.
           Inr (Inr (t, \<lparr>ot_accessToken = or_null a, ot_refreshToken = or_null r, ot_expiresIn = expires_in x, ot_scope = or_null s\<rparr>)))))))"

definition exchange_code :: "rsa_lib \<Rightarrow> 'w fetch \<Rightarrow> oidc_config \<Rightarrow> complete_input \<Rightarrow> 'w \<Rightarrow> (string + json option \<times> oidc_tokens) \<times> 'w" where
  "exchange_code rsa fetch config input w =
     (let (res, w') = fetch (oc_tokenEndpoint config) (Some (token_form input)) w in
      (case res of
         Inl e \<Rightarrow> Inl (failed rsa ''token exchange failed'' e)
       | Inr r \<Rightarrow>
           if \<not> hr_ok r then Inl (''token endpoint returned '' @ nat_str (hr_status r))
           else (case js_bind (hr_json r) read_tokens of
               Inl e \<Rightarrow> Inl (failed rsa ''token exchange failed'' e)
             | Inr answer \<Rightarrow> answer), w'))"

definition email_verified :: "json option \<Rightarrow> bool" where
  "email_verified ev \<longleftrightarrow> ev = Some (Bool True) \<or> ev = Some (Str ''true'')"

definition login_principal :: "complete_input \<Rightarrow> oidc_tokens \<Rightarrow> json \<Rightarrow> (string + oidc_principal \<times> oidc_tokens) js" where
  "login_principal input tokens claims =
     js_bind (json_get claims ''email_verified'') (\<lambda>ev.
       if ci_requireEmailVerified input \<noteq> Some False \<and> \<not> email_verified ev then Inr (Inl ''email_verified is not true'')
       else js_bind (json_get claims ''iss'') (\<lambda>iss. js_bind (json_get claims ''sub'') (\<lambda>sub.
         js_bind (json_get claims ''email'') (\<lambda>email. js_bind (json_get claims ''name'') (\<lambda>name.
           Inr (Inr (\<lparr>op_iss = iss, op_sub = sub, op_email = or_null email, op_emailVerified = email_verified ev, op_name = or_null name\<rparr>, tokens)))))))"

definition oidc_ctx_of :: "complete_input \<Rightarrow> oidc_ctx" where
  "oidc_ctx_of input =
     \<lparr>ox_config = config_of (ci_config input), ox_clientId = ci_clientId input, ox_expectedNonce = ci_expectedNonce input,
      ox_requireNonce = (ci_requireNonce input \<noteq> Some False), ox_nowMs = ci_nowMs input\<rparr>"

text \<open>An id token that is a truthy value but no string has no \<open>split\<close>.\<close>

definition completeLogin ::
  "jwt_lib \<Rightarrow> rsa_lib \<Rightarrow> 'w fetch \<Rightarrow> complete_input \<Rightarrow> 'w \<Rightarrow> (string + oidc_principal \<times> oidc_tokens) js \<times> 'w" where
  "completeLogin lib rsa fetch input w =
     (if ci_returnedState input = [] \<or> \<not> constantTimeEqualStr (ci_returnedState input) (ci_expectedState input)
      then (Inr (Inl ''state mismatch''), w)
      else let (answer, w1) = exchange_code rsa fetch (config_of (ci_config input)) input w in
        (case answer of
           Inl reason \<Rightarrow> (Inr (Inl reason), w1)
         | Inr (idToken, tokens) \<Rightarrow>
             (case str_claim idToken of
                None \<Rightarrow> (Inl TypeError, w1)
              | Some t \<Rightarrow>
                  let (verified, w2) = verify_oidc_token lib rsa fetch (oidc_ctx_of input) t w1 in
                  (js_bind verified (\<lambda>v. case v of Inl reason \<Rightarrow> Inr (Inl reason) | Inr claims \<Rightarrow> login_principal input tokens claims), w2))))"

subsection \<open>YouVersion\<close>

definition youversion_beginLogin :: "jwt_lib \<Rightarrow> begin_input \<Rightarrow> bytes \<Rightarrow> bytes \<Rightarrow> bytes \<Rightarrow> begin_result" where
  "youversion_beginLogin lib input r1 r2 r3 = beginLogin lib (input\<lparr>bi_config := Some YOUVERSION_OIDC\<rparr>) r1 r2 r3"

definition youversion_completeLogin ::
  "jwt_lib \<Rightarrow> rsa_lib \<Rightarrow> 'w fetch \<Rightarrow> complete_input \<Rightarrow> 'w \<Rightarrow> (string + oidc_principal \<times> oidc_tokens) js \<times> 'w" where
  "youversion_completeLogin lib rsa fetch input w =
     completeLogin lib rsa fetch (input\<lparr>ci_clientSecret := None, ci_config := Some YOUVERSION_OIDC,
       ci_requireEmailVerified := Some False, ci_requireNonce := Some False\<rparr>) w"

section \<open>What a login establishes\<close>

subsection \<open>Completed logins\<close>

lemma reason_elim:
  "((if b then Inr (Inl r) else z) = (Inr (Inr c) :: (string + 'a) js)) \<longleftrightarrow> \<not> b \<and> z = Inr (Inr c)"
  "((case x of Inl e \<Rightarrow> Inr (Inl (f e)) | Inr k \<Rightarrow> g k) = (Inr (Inr c) :: (string + 'a) js)) \<longleftrightarrow> (\<exists>k. x = Inr k \<and> g k = Inr (Inr c))"
  by (auto split: sum.splits)

lemma oidc_claims_accepted:
  assumes "oidc_claims_verdict ctx claims = Inr (Inr c)"
  shows "c = claims \<and> (\<exists>iss \<in> set (oc_issuers (ox_config ctx)). json_get claims ''iss'' = Inr (Some (Str iss))) \<and>
    (\<exists>aud. json_get claims ''aud'' = Inr aud \<and> aud_matches aud (ox_clientId ctx)) \<and>
    (\<exists>e. json_get claims ''exp'' = Inr (Some (Num e)) \<and> ox_nowMs ctx < e * 1000) \<and>
    (\<exists>nonce. json_get claims ''nonce'' = Inr nonce \<and> (ox_requireNonce ctx \<longrightarrow> opt_text nonce = ox_expectedNonce ctx)) \<and>
    (\<exists>sub. json_get claims ''sub'' = Inr (Some sub))"
proof -
  from assms obtain iss aud ex nonce sub where g: "json_get claims ''iss'' = Inr iss" "iss \<in> Some ` Str ` set (oc_issuers (ox_config ctx))"
    "json_get claims ''aud'' = Inr aud" "aud_matches aud (ox_clientId ctx)" "json_get claims ''exp'' = Inr ex"
    "\<not> (case num_claim ex of None \<Rightarrow> True | Some e \<Rightarrow> e * 1000 \<le> ox_nowMs ctx)" "json_get claims ''nonce'' = Inr nonce"
    "ox_requireNonce ctx \<longrightarrow> opt_text nonce = ox_expectedNonce ctx" "json_get claims ''sub'' = Inr sub" "json_true sub" "c = claims"
    unfolding oidc_claims_verdict_def by (auto simp: reason_elim)
  moreover from g(6) have "\<exists>e. ex = Some (Num e) \<and> ox_nowMs ctx < e * 1000" by (auto split: option.split_asm)
  moreover from g(10) have "\<exists>v. sub = Some v" by (cases sub) (simp_all add: json_true_def)
  ultimately show ?thesis by fastforce
qed

lemma find_key_found:
  "find_key kid ks = Inr (Some k) \<Longrightarrow> k \<in> set ks \<and> json_get k ''kty'' = Inr (Some (Str ''RSA'')) \<and> json_get k ''kid'' = Inr kid"
  by (induction ks) (auto simp: json_same_def split: if_split_asm)

lemma fetch_key_found:
  assumes "fetch_key rsa fetch config kid w = (Inr k, w')"
  shows "\<exists>r jwks. fetch (oc_jwksUri config) None w = (Inr r, w') \<and> hr_ok r \<and> hr_json r = Inr jwks \<and> jwks_find jwks kid = Inr (Some k) \<and>
    json_get k ''kty'' = Inr (Some (Str ''RSA'')) \<and> json_get k ''kid'' = Inr kid"
proof -
  have key: "json_get k ''kty'' = Inr (Some (Str ''RSA'')) \<and> json_get k ''kid'' = Inr kid" if "jwks_find jwks kid = Inr (Some k)" for jwks
  proof -
    from that obtain keys where k: "json_get jwks ''keys'' = Inr keys" and f: "(case keys of None \<Rightarrow> Inr None | Some Null \<Rightarrow> Inr None
        | Some (Arr ks) \<Rightarrow> find_key kid ks | _ \<Rightarrow> Inl TypeError) = Inr (Some k)"
      unfolding jwks_find_def by auto
    then obtain ks where "find_key kid ks = Inr (Some k)" by (cases keys; cases "the keys") simp_all
    with find_key_found show ?thesis by blast
  qed
  obtain res w1 where f: "fetch (oc_jwksUri config) None w = (res, w1)" by (metis prod.exhaust)
  from assms have a: "(case res of Inl e \<Rightarrow> Inl (failed rsa ''JWKS fetch failed'' e) | Inr r \<Rightarrow>
      if \<not> hr_ok r then Inl (''JWKS endpoint returned '' @ nat_str (hr_status r))
      else (case js_bind (hr_json r) (\<lambda>jwks. jwks_find jwks kid) of Inl e \<Rightarrow> Inl (failed rsa ''JWKS fetch failed'' e)
        | Inr None \<Rightarrow> Inl (''no RSA JWKS key for kid '' @ [CHR 0x22] @ opt_text kid @ [CHR 0x22]) | Inr (Some k) \<Rightarrow> Inr k)) = Inr k" "w1 = w'"
    unfolding fetch_key_def f Let_def prod.case prod.inject by blast+
  then obtain r where r: "res = Inr r" "hr_ok r" by (cases res) (auto split: if_split_asm)
  show ?thesis
  proof (cases "js_bind (hr_json r) (\<lambda>jwks. jwks_find jwks kid)")
    case (Inr found)
    with a r have "found = Some k" by (cases found) simp_all
    with Inr obtain jwks where "hr_json r = Inr jwks" "jwks_find jwks kid = Inr (Some k)" unfolding js_bind_Inr_iff by blast
    with key f a(2) r show ?thesis by blast
  qed (use a r in simp)
qed

text \<open>What the provider's id token has been checked for when it is accepted.\<close>

definition signed_by_provider :: "jwt_lib \<Rightarrow> rsa_lib \<Rightarrow> 'w fetch \<Rightarrow> oidc_config \<Rightarrow> string \<Rightarrow> json \<Rightarrow> 'w \<Rightarrow> 'w \<Rightarrow> bool" where
  "signed_by_provider lib rsa fetch config token claims w w' \<longleftrightarrow>
     (\<exists>h p s header k kid r jwks. token = h @ ''.'' @ p @ ''.'' @ s \<and> json_part lib h = Some header \<and> json_part lib p = Some claims \<and>
        json_get header ''alg'' = Inr (Some (Str ''RS256'')) \<and> json_get header ''kid'' = Inr kid \<and>
        fetch (oc_jwksUri config) None w = (Inr r, w') \<and> hr_ok r \<and> hr_json r = Inr jwks \<and> jwks_find jwks kid = Inr (Some k) \<and>
        json_get k ''kty'' = Inr (Some (Str ''RSA'')) \<and> json_get k ''kid'' = Inr kid \<and> rsa_valid lib rsa k h p s = Inr True)"

lemma verified_oidc_token:
  assumes "verify_oidc_token lib rsa fetch ctx token w = (Inr (Inr claims), w')"
  shows "signed_by_provider lib rsa fetch (ox_config ctx) token claims w w' \<and> oidc_claims_verdict ctx claims = Inr (Inr claims)"
proof -
  from assms obtain h p s header cs where t: "token_parts token = Some (h, p, s)" "json_part lib h = Some header" "json_part lib p = Some cs"
    by (auto simp: verify_oidc_token_def split: option.split_asm prod.split_asm)
  from assms t obtain kid where k: "json_get header ''alg'' = Inr (Some (Str ''RS256''))" "json_get header ''kid'' = Inr kid" "json_true kid"
    by (auto simp: verify_oidc_token_def split: sum.split_asm if_split_asm)
  obtain found w1 where f: "fetch_key rsa fetch (ox_config ctx) kid w = (found, w1)" by fastforce
  with assms t k have "w1 = w'" and v: "(case found of Inl reason \<Rightarrow> Inr (Inl reason) | Inr k \<Rightarrow>
      (case rsa_valid lib rsa k h p s of Inl e \<Rightarrow> Inr (Inl (failed rsa ''signature verification error'' e))
       | Inr valid \<Rightarrow> if \<not> valid then Inr (Inl ''id_token signature invalid'') else oidc_claims_verdict ctx cs)) = (Inr (Inr claims) :: (string + json) js)"
    by (simp_all add: verify_oidc_token_def)
  from v obtain key where key: "found = Inr key" "rsa_valid lib rsa key h p s = Inr True" "oidc_claims_verdict ctx cs = Inr (Inr claims)"
    by (auto split: sum.split_asm if_split_asm)
  from oidc_claims_accepted [OF key(3)] have "claims = cs" by simp
  with key t k fetch_key_found [OF f [unfolded key(1)]] \<open>w1 = w'\<close> token_parts_input [OF t(1)] show ?thesis
    unfolding signed_by_provider_def by blast
qed

lemma login_principal_accepted:
  assumes "login_principal input tokens claims = Inr (Inr (who, tokens'))"
  shows "tokens' = tokens \<and> json_get claims ''iss'' = Inr (op_iss who) \<and> json_get claims ''sub'' = Inr (op_sub who) \<and>
    (\<exists>ev. json_get claims ''email_verified'' = Inr ev \<and> op_emailVerified who = email_verified ev) \<and>
    (ci_requireEmailVerified input = Some False \<or> op_emailVerified who)"
  using assms by (auto simp: login_principal_def reason_elim)

lemma completed_login_cases:
  assumes "completeLogin lib rsa fetch input w = (Inr (Inr (who, tokens)), w')"
  obtains token w1 claims where "ci_returnedState input = ci_expectedState input" "ci_returnedState input \<noteq> []"
    and "exchange_code rsa fetch (config_of (ci_config input)) input w = (Inr (Some (Str token), tokens), w1)"
    and "verify_oidc_token lib rsa fetch (oidc_ctx_of input) token w1 = (Inr (Inr claims), w')"
    and "login_principal input tokens claims = Inr (Inr (who, tokens))"
proof -
  from assms have st: "ci_returnedState input = ci_expectedState input" "ci_returnedState input \<noteq> []"
    by (auto simp: completeLogin_def split: if_split_asm)
  with assms obtain idToken tokens' w1 where x: "exchange_code rsa fetch (config_of (ci_config input)) input w = (Inr (idToken, tokens'), w1)"
    by (auto simp: completeLogin_def split: prod.split_asm sum.split_asm)
  with assms st obtain token where t: "idToken = Some (Str token)"
    by (cases "str_claim idToken") (auto simp: completeLogin_def)
  obtain v w2 where v: "verify_oidc_token lib rsa fetch (oidc_ctx_of input) token w1 = (v, w2)" by fastforce
  from assms st x t v obtain claims where "v = Inr (Inr claims)" "w2 = w'" "login_principal input tokens' claims = Inr (Inr (who, tokens))"
    by (cases v; cases "projr v") (auto simp: completeLogin_def)
  moreover from this(3) have "tokens' = tokens" using login_principal_accepted by blast
  ultimately show thesis using st x t v by (intro that [of token w1 claims]) simp_all
qed

text \<open>
  C8: A completed login: the state is the one that was stored, the code was exchanged with the verifier of this
  login, the id token that came back is signed by an RSA key the provider publishes now under the token's key
  id and says RS256, its issuer, audience and expiry are the expected ones, and the principal is the issuer and
  subject of that token. Its nonce is the expected one unless the caller sets \<open>requireNonce\<close> to false, as the
  YouVersion login does: there no nonce is compared. Its email is a verified one unless the caller sets
  \<open>requireEmailVerified\<close> to false.
\<close>

theorem completed_login:
  assumes "completeLogin lib rsa fetch input w = (Inr (Inr (who, tokens)), w')"
  shows "ci_returnedState input = ci_expectedState input \<and> ci_returnedState input \<noteq> [] \<and>
    (\<exists>token w1 r claims iss sub e. fetch (oc_tokenEndpoint (config_of (ci_config input))) (Some (token_form input)) w = (Inr r, w1) \<and> hr_ok r \<and>
       js_bind (hr_json r) read_tokens = Inr (Inr (Some (Str token), tokens)) \<and>
       signed_by_provider lib rsa fetch (config_of (ci_config input)) token claims w1 w' \<and>
       iss \<in> set (oc_issuers (config_of (ci_config input))) \<and> json_get claims ''iss'' = Inr (Some (Str iss)) \<and>
       json_get claims ''sub'' = Inr (Some sub) \<and> op_iss who = Some (Str iss) \<and> op_sub who = Some sub \<and>
       (\<exists>aud. json_get claims ''aud'' = Inr aud \<and> aud_matches aud (ci_clientId input)) \<and>
       json_get claims ''exp'' = Inr (Some (Num e)) \<and> ci_nowMs input < e * 1000 \<and>
       (ci_requireNonce input = Some False \<or> (\<exists>nonce. json_get claims ''nonce'' = Inr nonce \<and> opt_text nonce = ci_expectedNonce input)) \<and>
       (ci_requireEmailVerified input = Some False \<or> op_emailVerified who))"
proof (rule completed_login_cases [OF assms])
  fix token w1 claims
  assume st: "ci_returnedState input = ci_expectedState input" "ci_returnedState input \<noteq> []"
    and x: "exchange_code rsa fetch (config_of (ci_config input)) input w = (Inr (Some (Str token), tokens), w1)"
    and v: "verify_oidc_token lib rsa fetch (oidc_ctx_of input) token w1 = (Inr (Inr claims), w')"
    and l: "login_principal input tokens claims = Inr (Inr (who, tokens))"
  from x obtain r where "fetch (oc_tokenEndpoint (config_of (ci_config input))) (Some (token_form input)) w = (Inr r, w1)" "hr_ok r"
    "js_bind (hr_json r) read_tokens = Inr (Inr (Some (Str token), tokens))"
    by (auto simp: exchange_code_def split: prod.split_asm sum.split_asm if_split_asm)
  moreover have ctx: "ox_config (oidc_ctx_of input) = config_of (ci_config input)" "ox_clientId (oidc_ctx_of input) = ci_clientId input"
    "ox_nowMs (oidc_ctx_of input) = ci_nowMs input" "ox_requireNonce (oidc_ctx_of input) \<longleftrightarrow> ci_requireNonce input \<noteq> Some False"
    "ox_expectedNonce (oidc_ctx_of input) = ci_expectedNonce input"
    by (simp_all add: oidc_ctx_of_def)
  note verified_oidc_token [OF v, unfolded ctx]
  moreover from this [THEN conjunct2] obtain iss sub aud e nonce where "iss \<in> set (oc_issuers (config_of (ci_config input)))"
    "json_get claims ''iss'' = Inr (Some (Str iss))" "json_get claims ''sub'' = Inr (Some sub)" "json_get claims ''aud'' = Inr aud"
    "aud_matches aud (ci_clientId input)" "json_get claims ''exp'' = Inr (Some (Num e))" "ci_nowMs input < e * 1000"
    "json_get claims ''nonce'' = Inr nonce" "ci_requireNonce input \<noteq> Some False \<longrightarrow> opt_text nonce = ci_expectedNonce input"
    using oidc_claims_accepted [of "oidc_ctx_of input" claims claims] unfolding ctx by blast
  moreover note login_principal_accepted [OF l]
  ultimately show ?thesis using st by fastforce
qed

text \<open>A forged state is refused before any request is made.\<close>

lemma forged_state_makes_no_request:
  "ci_returnedState input \<noteq> ci_expectedState input \<Longrightarrow> completeLogin lib rsa fetch input w = (Inr (Inl ''state mismatch''), w)"
  by (simp add: completeLogin_def)

text \<open>
  YouVersion is not asked for a verified email: a principal of a completed login can have
  \<open>emailVerified = false\<close>.
\<close>

lemma principal_without_verified_email:
  "login_principal (input\<lparr>ci_requireEmailVerified := Some False\<rparr>) tokens (Obj [(''iss'', Str i), (''sub'', Str s)]) =
     Inr (Inr (\<lparr>op_iss = Some (Str i), op_sub = Some (Str s), op_email = Null, op_emailVerified = False, op_name = Null\<rparr>, tokens))"
  by (simp add: login_principal_def json_get_def email_verified_def or_null_def)

lemma null_header_rejects:
  assumes "buffer_law lib"
  shows "verify_oidc_token lib rsa fetch ctx (compact_token (signing_input Null (Obj [])) sg) w = (Inl TypeError, w)"
proof -
  have "wf_json Null" "wf_json (Obj [])" by simp_all
  then have "json_part lib (base64urlEncode (print Null)) = Some Null" "json_part lib (base64urlEncode (print (Obj []))) = Some (Obj [])"
    using json_part_print [OF assms] by blast+
  then show ?thesis
    unfolding verify_oidc_token_def token_parts_compact by (simp add: json_get_def)
qed

subsection \<open>The facet of a principal\<close>

text \<open>
  A directory keys a principal on its facet \<open>iss#sub\<close>. No accepted issuer contains the separator, so two
  logins with one provider have the same facet only if they are the same account.
\<close>

lemma completed_facet:
  assumes "completeLogin lib rsa fetch input w = (Inr (Inr (who, tokens)), w')"
  obtains iss where "iss \<in> set (oc_issuers (config_of (ci_config input)))" "op_iss who = Some (Str iss)"
proof (rule completed_login_cases [OF assms])
  fix token w1 claims
  assume v: "verify_oidc_token lib rsa fetch (oidc_ctx_of input) token w1 = (Inr (Inr claims), w')"
    and l: "login_principal input tokens claims = Inr (Inr (who, tokens))"
  have "ox_config (oidc_ctx_of input) = config_of (ci_config input)" by (simp add: oidc_ctx_of_def)
  with verified_oidc_token [OF v] oidc_claims_accepted [of "oidc_ctx_of input" claims claims]
  obtain iss where "iss \<in> set (oc_issuers (config_of (ci_config input)))" "json_get claims ''iss'' = Inr (Some (Str iss))" by auto
  with login_principal_accepted [OF l] that show thesis by fastforce
qed

lemma issuers_without_separator:
  "iss \<in> set (oc_issuers GOOGLE_OIDC) \<Longrightarrow> CHR ''#'' \<notin> set iss" "iss \<in> set (oc_issuers YOUVERSION_OIDC) \<Longrightarrow> CHR ''#'' \<notin> set iss"
  by (auto simp: GOOGLE_OIDC_def YOUVERSION_OIDC_def)

theorem facet_identifies_the_account:
  assumes "completeLogin lib rsa fetch input w = (Inr (Inr (who, tokens)), w')"
    and "completeLogin lib' rsa' fetch' input' v = (Inr (Inr (who', tokens')), v')"
    and "config_of (ci_config input) \<in> {GOOGLE_OIDC, YOUVERSION_OIDC}" and "config_of (ci_config input') \<in> {GOOGLE_OIDC, YOUVERSION_OIDC}"
    and "op_iss who = Some (Str i)" and "op_sub who = Some (Str s)" and "op_iss who' = Some (Str i')" and "op_sub who' = Some (Str s')"
    and "oidcFacetId i s = oidcFacetId i' s'"
  shows "op_iss who = op_iss who' \<and> op_sub who = op_sub who'"
proof -
  obtain iss where "iss \<in> set (oc_issuers (config_of (ci_config input)))" "op_iss who = Some (Str iss)"
    by (rule completed_facet [OF assms(1)])
  moreover obtain iss' where "iss' \<in> set (oc_issuers (config_of (ci_config input')))" "op_iss who' = Some (Str iss')"
    by (rule completed_facet [OF assms(2)])
  ultimately have "CHR ''#'' \<notin> set i" "CHR ''#'' \<notin> set i'" using assms(3,4,5,7) issuers_without_separator by auto
  with append_sep_inject [of "CHR ''#''" i i' s s'] assms(5-9) show ?thesis by (simp add: oidcFacetId_def)
qed

subsection \<open>The authorization URL\<close>

text \<open>How a provider reads the query back.\<close>

fun form_untext :: "string \<Rightarrow> string" where
  "form_untext [] = []"
| "form_untext (c # s) =
     (if c = CHR ''+'' then CHR '' '' # form_untext s
      else if c = CHR ''%'' then
        (case s of
           a # b # t \<Rightarrow> (case (hex_val a, hex_val b) of (Some x, Some y) \<Rightarrow> char_of (16 * x + y) # form_untext t | _ \<Rightarrow> c # form_untext s)
         | _ \<Rightarrow> c # form_untext s)
      else c # form_untext s)"

definition form_decode :: "string \<Rightarrow> (string \<times> string) list" where
  "form_decode q = map (\<lambda>p. let k = takeWhile (\<lambda>c. c \<noteq> CHR ''='') p in (form_untext k, form_untext (drop (Suc (length k)) p)))
     (split_on (CHR ''&'') q)"

lemma upper_hex_val [simp]: "n < 16 \<Longrightarrow> hex_val (upper_hex n) = Some n"
  by (auto simp: upper_hex_def hex_val_def Let_def)

lemma form_untext_char: "form_untext (form_char c @ s) = c # form_untext s"
proof -
  have "c \<noteq> CHR ''+''" "c \<noteq> CHR ''%''" if "form_safe c" using that by (auto simp: form_safe_def)
  moreover have "(of_char c :: nat) div 16 < 16" by (simp add: less_mult_imp_div_less)
  moreover have "char_of (16 * ((of_char c :: nat) div 16) + of_char c mod 16) = c" by simp
  ultimately show ?thesis by (auto simp: form_char_def Let_def)
qed

lemma form_untext_text: "form_untext (form_text s) = s"
proof -
  have "form_untext (concat (map form_char s) @ []) = s" by (induction s) (simp_all add: form_untext_char del: form_untext.simps(2))
  then show ?thesis by (simp add: form_text_def)
qed

lemma form_text_free: "CHR ''='' \<notin> set (form_text s)" "CHR ''&'' \<notin> set (form_text s)"
proof -
  have up: "upper_hex n \<noteq> CHR ''=''" "upper_hex n \<noteq> CHR ''&''" if "n < 16" for n
    using upper_hex_val [OF that] by (auto simp: hex_val_def)
  have "CHR ''='' \<notin> set (form_char c) \<and> CHR ''&'' \<notin> set (form_char c)" for c
    using up [of "of_char c div 16"] up [of "of_char c mod 16"]
    by (auto simp: form_char_def form_safe_def Let_def less_mult_imp_div_less)
  then show "CHR ''='' \<notin> set (form_text s)" "CHR ''&'' \<notin> set (form_text s)" by (auto simp: form_text_def)
qed

lemma form_roundtrip: "ps \<noteq> [] \<Longrightarrow> form_decode (form_encode ps) = ps"
proof -
  let ?pair = "\<lambda>(k, v). form_text k @ ''='' @ form_text v"
  assume "ps \<noteq> []"
  moreover have "\<forall>x \<in> set (map ?pair ps). CHR ''&'' \<notin> set x" using form_text_free by auto
  ultimately have "split_on (CHR ''&'') (form_encode ps) = map ?pair ps"
    unfolding form_encode_def by (intro split_on_join) simp_all
  moreover have "takeWhile (\<lambda>c. c \<noteq> CHR ''='') (form_text k @ CHR ''='' # v) = form_text k" for k v
    using form_text_free(1) [of k] by (auto simp: takeWhile_append)
  ultimately show ?thesis by (simp add: form_decode_def Let_def form_untext_text comp_def case_prod_unfold)
qed

text \<open>
  A provider that reads the query of a login URL finds the client, the state and the nonce of that login, and
  a challenge that the verifier kept by the client passes: the check is the one of this repository's provider.
\<close>

theorem login_url_carries_the_challenge:
  "\<exists>q. br_authUrl (beginLogin lib input r1 r2 r3) = oc_authorizationEndpoint (config_of (bi_config input)) @ ''?'' @ q \<and>
     map_of (form_decode q) ''client_id'' = Some (bi_clientId input) \<and>
     map_of (form_decode q) ''state'' = Some (br_state (beginLogin lib input r1 r2 r3)) \<and>
     map_of (form_decode q) ''nonce'' = Some (br_nonce (beginLogin lib input r1 r2 r3)) \<and>
     (\<exists>challenge. map_of (form_decode q) ''code_challenge'' = Some challenge \<and>
        verifyPkceS256 lib (br_codeVerifier (beginLogin lib input r1 r2 r3)) challenge)"
proof -
  let ?params = "auth_params lib input (bytesToBase64url r1) (bytesToBase64url r2) (bytesToBase64url r3)"
  have "?params \<noteq> []" by (simp add: auth_params_def Let_def)
  from form_roundtrip [OF this] show ?thesis
    by (intro exI [of _ "form_encode ?params"])
      (simp add: beginLogin_def Let_def, simp add: auth_params_def Let_def verifyPkceS256_def pkce_challenge_def)
qed

subsection \<open>A login to evaluate the definitions on\<close>

definition demo_rsa :: rsa_lib where
  "demo_rsa = \<lparr>rs_importKey = (\<lambda>kty n e. Inr ''key''), rs_verify = (\<lambda>k s m. Inr True), rs_errorText = (\<lambda>e. [])\<rparr>"

definition demo_oidc_header :: json where
  "demo_oidc_header = Obj [(''alg'', Str ''RS256''), (''kid'', Str ''k1'')]"

definition demo_oidc_claims :: json where
  "demo_oidc_claims = Obj [(''iss'', Str ''accounts.google.com''), (''sub'', Str ''u1''), (''aud'', Str ''client''), (''exp'', Num 100),
     (''nonce'', Str ''n''), (''email_verified'', Bool True)]"

definition demo_oidc_token :: string where
  "demo_oidc_token = compact_token (signing_input demo_oidc_header demo_oidc_claims) [1]"

definition demo_fetch :: "nat fetch" where
  "demo_fetch url form w =
     (Inr \<lparr>hr_ok = True, hr_status = 200, hr_json = Inr
        (if form = None then Obj [(''keys'', Arr [Obj [(''kid'', Str ''k1''), (''kty'', Str ''RSA'')]])]
         else Obj [(''id_token'', Str demo_oidc_token)])\<rparr>, Suc w)"

definition demo_login_input :: complete_input where
  "demo_login_input = \<lparr>ci_code = ''c'', ci_returnedState = ''s'', ci_expectedState = ''s'', ci_expectedNonce = ''n'', ci_codeVerifier = ''v'',
     ci_redirectUri = ''r'', ci_clientId = ''client'', ci_clientSecret = None, ci_requireEmailVerified = None, ci_requireNonce = None,
     ci_config = None, ci_nowMs = 5000\<rparr>"

lemma demo_oidc_parts: "json_part demo_jwt (base64urlEncode (print demo_oidc_header)) = Some demo_oidc_header"
  "json_part demo_jwt (base64urlEncode (print demo_oidc_claims)) = Some demo_oidc_claims"
proof -
  have "wf_json demo_oidc_header" "wf_json demo_oidc_claims" by (simp_all add: demo_oidc_header_def demo_oidc_claims_def)
  then show "json_part demo_jwt (base64urlEncode (print demo_oidc_header)) = Some demo_oidc_header"
    "json_part demo_jwt (base64urlEncode (print demo_oidc_claims)) = Some demo_oidc_claims"
    using json_part_print [OF demo_laws(1)] by blast+
qed

lemma demo_oidc_verified: "verify_oidc_token demo_jwt demo_rsa demo_fetch (oidc_ctx_of demo_login_input) demo_oidc_token w =
    (Inr (Inr demo_oidc_claims), Suc w)"
proof -
  have h: "json_get demo_oidc_header ''alg'' = Inr (Some (Str ''RS256''))" "json_get demo_oidc_header ''kid'' = Inr (Some (Str ''k1''))"
    by (simp_all add: json_get_def demo_oidc_header_def)
  have "fetch_key demo_rsa demo_fetch (ox_config (oidc_ctx_of demo_login_input)) (Some (Str ''k1'')) w =
      (Inr (Obj [(''kid'', Str ''k1''), (''kty'', Str ''RSA'')]), Suc w)"
    by (simp add: fetch_key_def demo_fetch_def jwks_find_def json_get_def json_same_def)
  moreover have "rsa_valid demo_jwt demo_rsa (Obj [(''kid'', Str ''k1''), (''kty'', Str ''RSA'')]) h p (bytesToBase64url [1]) = Inr True" for h p
    using base64urlDecode_encode [OF demo_laws(1)] by (simp add: rsa_valid_def demo_rsa_def json_get_def)
  moreover have "oidc_claims_verdict (oidc_ctx_of demo_login_input) demo_oidc_claims = Inr (Inr demo_oidc_claims)"
    by (simp add: oidc_claims_verdict_def demo_oidc_claims_def json_get_def json_true_def oidc_ctx_of_def demo_login_input_def config_of_def
      GOOGLE_OIDC_def aud_matches_def opt_text_def)
  ultimately show ?thesis
    unfolding demo_oidc_token_def verify_oidc_token_def token_parts_compact by (simp add: demo_oidc_parts h json_true_def)
qed

lemma demo_login: "\<exists>tokens. completeLogin demo_jwt demo_rsa demo_fetch demo_login_input 0 =
    (Inr (Inr (\<lparr>op_iss = Some (Str ''accounts.google.com''), op_sub = Some (Str ''u1''), op_email = Null, op_emailVerified = True,
       op_name = Null\<rparr>, tokens)), 2)"
proof -
  have "exchange_code demo_rsa demo_fetch (config_of (ci_config demo_login_input)) demo_login_input 0 =
      (Inr (Some (Str demo_oidc_token), \<lparr>ot_accessToken = Null, ot_refreshToken = Null, ot_expiresIn = None, ot_scope = Null\<rparr>), Suc 0)"
    by (simp add: exchange_code_def demo_fetch_def read_tokens_def json_get_def json_true_def or_null_def expires_in_def demo_oidc_token_def
      compact_token_def)
  moreover have "login_principal demo_login_input t demo_oidc_claims =
      Inr (Inr (\<lparr>op_iss = Some (Str ''accounts.google.com''), op_sub = Some (Str ''u1''), op_email = Null, op_emailVerified = True,
       op_name = Null\<rparr>, t))" for t
    by (simp add: login_principal_def demo_oidc_claims_def json_get_def email_verified_def or_null_def demo_login_input_def)
  moreover have "ci_returnedState demo_login_input = ''s''" "ci_expectedState demo_login_input = ''s''" by (simp_all add: demo_login_input_def)
  ultimately show ?thesis by (simp add: completeLogin_def demo_oidc_verified numeral_2_eq_2)
qed

theorem completed_login_witness:
  "\<exists>token claims w1. signed_by_provider demo_jwt demo_rsa demo_fetch GOOGLE_OIDC token claims w1 2 \<and>
     json_get claims ''sub'' = Inr (Some (Str ''u1''))"
proof -
  obtain tokens where l: "completeLogin demo_jwt demo_rsa demo_fetch demo_login_input 0 =
    (Inr (Inr (\<lparr>op_iss = Some (Str ''accounts.google.com''), op_sub = Some (Str ''u1''), op_email = Null, op_emailVerified = True,
       op_name = Null\<rparr>, tokens)), 2)" using demo_login by blast
  have c: "config_of (ci_config demo_login_input) = GOOGLE_OIDC" by (simp add: demo_login_input_def config_of_def)
  from completed_login [OF l, unfolded c] obtain token claims w1 sub where
    "signed_by_provider demo_jwt demo_rsa demo_fetch GOOGLE_OIDC token claims w1 2" "json_get claims ''sub'' = Inr (Some sub)" "Some (Str ''u1'') = Some sub"
    by (elim exE conjE) (rule that, simp_all)
  then show ?thesis by auto
qed

theorem facet_identifies_the_account_witness:
  "\<exists>who tokens. completeLogin demo_jwt demo_rsa demo_fetch demo_login_input 0 = (Inr (Inr (who, tokens)), 2) \<and>
     op_iss who = Some (Str ''accounts.google.com'') \<and> op_sub who = Some (Str ''u1'')"
proof -
  obtain tokens where l: "completeLogin demo_jwt demo_rsa demo_fetch demo_login_input 0 =
    (Inr (Inr (\<lparr>op_iss = Some (Str ''accounts.google.com''), op_sub = Some (Str ''u1''), op_email = Null, op_emailVerified = True,
       op_name = Null\<rparr>, tokens)), 2)" using demo_login by blast
  have "config_of (ci_config demo_login_input) \<in> {GOOGLE_OIDC, YOUVERSION_OIDC}" by (simp add: demo_login_input_def config_of_def)
  from facet_identifies_the_account [OF l l this this, of "''accounts.google.com''" "''u1''" "''accounts.google.com''" "''u1''"] l
  show ?thesis by auto
qed

end
