(* ===== verification/Agreements.thy ===== *)
theory Agreements
  imports Encodings Viem
begin

section \<open>Agreement commitments\<close>

text \<open>
  \<open>packages/agreements/src/index.ts\<close>: the commitments and digests of the agreement registry, each keccak of a
  zeroed buffer that small writers fill at fixed offsets. The theory shows what the writers leave in the
  buffer, so that every preimage is the row of words the contract encodes, and what equal hashes then mean
  for the fields. The writers take any text for hex: the last lemmas say what they make of a wrong one.
\<close>

subsection \<open>The writers\<close>

text \<open>\<open>parseInt(clean.substring(2 * i, 2 * i + 2), 16)\<close>, stored in a byte array.\<close>

definition substring_byte :: "string \<Rightarrow> nat \<Rightarrow> byte" where
  "substring_byte clean i =
     uint8 (case drop (2 * i) clean of
        [] \<Rightarrow> None
      | [a] \<Rightarrow> map_option int (hex_val a)
      | a # b # _ \<Rightarrow> parseInt16 a b)"

text \<open>A loop of stores; a store outside the array has no effect.\<close>

definition put_bytes :: "bytes \<Rightarrow> nat \<Rightarrow> nat \<Rightarrow> (nat \<Rightarrow> byte) \<Rightarrow> bytes" where
  "put_bytes buf offset n f = foldl (\<lambda>b i. b[offset + i := f i]) buf [0..<n]"

definition clean_hex :: "hex \<Rightarrow> string" where
  "clean_hex h = strip0x (toLowerCase h)"

definition padStart :: "nat \<Rightarrow> char \<Rightarrow> string \<Rightarrow> string" where
  "padStart n c s = replicate (n - length s) c @ s"

definition writeAddressTight :: "bytes \<Rightarrow> nat \<Rightarrow> address \<Rightarrow> bytes" where
  "writeAddressTight buf offset addr = put_bytes buf offset 20 (substring_byte (clean_hex addr))"

definition writeAddressLeftPadded :: "bytes \<Rightarrow> nat \<Rightarrow> address \<Rightarrow> bytes" where
  "writeAddressLeftPadded buf offset addr = put_bytes buf (offset + 12) 20 (substring_byte (clean_hex addr))"

definition writeHex32 :: "bytes \<Rightarrow> nat \<Rightarrow> hex \<Rightarrow> bytes" where
  "writeHex32 buf offset h = put_bytes buf offset 32 (substring_byte (padStart 64 (CHR ''0'') (clean_hex h)))"

fun write_uint :: "bytes \<Rightarrow> nat \<Rightarrow> nat \<Rightarrow> int \<Rightarrow> bytes" where
  "write_uint buf offset 0 v = buf"
| "write_uint buf offset (Suc i) v = write_uint (buf[offset + i := word_of_int (v AND 0xFF)]) offset i (drop_bit 8 v)"

definition writeUint256 :: "bytes \<Rightarrow> nat \<Rightarrow> int \<Rightarrow> bytes" where
  "writeUint256 buf offset n = write_uint buf offset 32 n"

definition toHex32 :: "bytes \<Rightarrow> hex" where
  "toHex32 b = ''0x'' @ bytes_hex b"

subsection \<open>Commitments and digests\<close>

definition ACTIVE_STATUS :: int where "ACTIVE_STATUS = 1"
definition COMPLETED_STATUS :: int where "COMPLETED_STATUS = 2"
definition DISPUTED_STATUS :: int where "DISPUTED_STATUS = 3"
definition REVOKED_STATUS :: int where "REVOKED_STATUS = 4"

definition TRANSITION_TYPE :: string where
  "TRANSITION_TYPE =
     ''AgreementTransition(bytes32 agreementCommitment,uint8 toStatus,bytes32 nullifier,uint256 chainId,address verifyingContract)''"

definition AGREEMENT_ISSUER_TYPE :: string where
  "AGREEMENT_ISSUER_TYPE =
     ''AgreementIssuerAttestation(bytes32 agreementCommitment,bytes32 schemaHash,address issuer,uint256 chainId,address verifyingContract)''"

definition TRANSITION_TYPEHASH :: "(bytes \<Rightarrow> bytes) \<Rightarrow> hex" where
  "TRANSITION_TYPEHASH keccak = toHex32 (keccak (TextEncoder
     TRANSITION_TYPE))"

definition AGREEMENT_ISSUER_TYPEHASH :: "(bytes \<Rightarrow> bytes) \<Rightarrow> hex" where
  "AGREEMENT_ISSUER_TYPEHASH keccak = toHex32 (keccak (TextEncoder
     AGREEMENT_ISSUER_TYPE))"

record transition_args =
  ta_agreementCommitment :: hex
  ta_toStatus :: int
  ta_nullifier :: hex
  ta_chainId :: int
  ta_verifyingContract :: address

definition transition_buffer :: "(bytes \<Rightarrow> bytes) \<Rightarrow> transition_args \<Rightarrow> bytes" where
  "transition_buffer keccak ag =
     (let buf = replicate (6 * 32) 0;
          buf = writeHex32 buf 0 (TRANSITION_TYPEHASH keccak);
          buf = writeHex32 buf 32 (ta_agreementCommitment ag);
          buf = buf[95 := word_of_int (ta_toStatus ag AND 0xFF)];
          buf = writeHex32 buf 96 (ta_nullifier ag);
          buf = writeUint256 buf 128 (ta_chainId ag)
      in writeAddressLeftPadded buf 160 (ta_verifyingContract ag))"

definition transitionDigest :: "(bytes \<Rightarrow> bytes) \<Rightarrow> transition_args \<Rightarrow> hex" where
  "transitionDigest keccak ag = toHex32 (keccak (transition_buffer keccak ag))"

record attestation_args =
  aa_agreementCommitment :: hex
  aa_schemaHash :: hex
  aa_issuer :: address
  aa_chainId :: int
  aa_verifyingContract :: address

definition attestation_buffer :: "(bytes \<Rightarrow> bytes) \<Rightarrow> attestation_args \<Rightarrow> bytes" where
  "attestation_buffer keccak ag =
     (let buf = replicate (6 * 32) 0;
          buf = writeHex32 buf 0 (AGREEMENT_ISSUER_TYPEHASH keccak);
          buf = writeHex32 buf 32 (aa_agreementCommitment ag);
          buf = writeHex32 buf 64 (aa_schemaHash ag);
          buf = writeAddressLeftPadded buf 96 (aa_issuer ag);
          buf = writeUint256 buf 128 (aa_chainId ag)
      in writeAddressLeftPadded buf 160 (aa_verifyingContract ag))"

definition issuerAttestationDigest :: "(bytes \<Rightarrow> bytes) \<Rightarrow> attestation_args \<Rightarrow> hex" where
  "issuerAttestationDigest keccak ag = toHex32 (keccak (attestation_buffer keccak ag))"

record commitment_args =
  ca_partySetCommitment :: hex
  ca_issuerCommitment :: hex
  ca_termsCommitment :: hex
  ca_scheduleCommitment :: hex
  ca_salt :: int

definition commitment_buffer :: "commitment_args \<Rightarrow> bytes" where
  "commitment_buffer ag =
     (let buf = replicate (5 * 32) 0;
          buf = writeHex32 buf 0 (ca_partySetCommitment ag);
          buf = writeHex32 buf 32 (ca_issuerCommitment ag);
          buf = writeHex32 buf 64 (ca_termsCommitment ag);
          buf = writeHex32 buf 96 (ca_scheduleCommitment ag)
      in writeUint256 buf 128 (ca_salt ag))"

definition computeAgreementCommitment :: "(bytes \<Rightarrow> bytes) \<Rightarrow> commitment_args \<Rightarrow> hex" where
  "computeAgreementCommitment keccak ag = toHex32 (keccak (commitment_buffer ag))"

definition party_buffer :: "address \<Rightarrow> address \<Rightarrow> bytes" where
  "party_buffer party1 party2 = writeAddressTight (writeAddressTight (replicate 40 0) 0 party1) 20 party2"

definition partySetCommitment :: "(bytes \<Rightarrow> bytes) \<Rightarrow> address \<Rightarrow> address \<Rightarrow> hex" where
  "partySetCommitment keccak party1 party2 = toHex32 (keccak (party_buffer party1 party2))"

definition issuerCommitment :: "(bytes \<Rightarrow> bytes) \<Rightarrow> address \<Rightarrow> hex" where
  "issuerCommitment keccak issuer = toHex32 (keccak (writeAddressTight (replicate 20 0) 0 issuer))"

definition bytesCommitment :: "(bytes \<Rightarrow> bytes) \<Rightarrow> string \<Rightarrow> hex" where
  "bytesCommitment keccak value = toHex32 (keccak (TextEncoder value))"

record nullifier_args =
  na_agreementCommitment :: hex
  na_toStatus :: int
  na_party :: address
  na_secret :: hex

definition nullifier_buffer :: "nullifier_args \<Rightarrow> bytes" where
  "nullifier_buffer ag =
     (let buf = replicate (32 + 1 + 32 + 32) 0;
          buf = writeHex32 buf 0 (na_agreementCommitment ag);
          buf = buf[32 := word_of_int (na_toStatus ag)];
          buf = writeAddressLeftPadded buf 33 (na_party ag)
      in writeHex32 buf 65 (na_secret ag))"

definition nullifierFor :: "(bytes \<Rightarrow> bytes) \<Rightarrow> nullifier_args \<Rightarrow> hex" where
  "nullifierFor keccak ag = toHex32 (keccak (nullifier_buffer ag))"

section \<open>What the buffers hold\<close>

subsection \<open>The words of a row\<close>

text \<open>The words of a buffer without the buffer: 32 bytes of hex, the 20 bytes of an address, an integer.\<close>

definition hex32_bytes :: "hex \<Rightarrow> bytes" where
  "hex32_bytes h = map (substring_byte (padStart 64 (CHR ''0'') (clean_hex h))) [0..<32]"

definition address_bytes :: "address \<Rightarrow> bytes" where
  "address_bytes a = map (substring_byte (clean_hex a)) [0..<20]"

definition address_word :: "address \<Rightarrow> bytes" where
  "address_word a = replicate 12 0 @ address_bytes a"

definition uint8_word :: "int \<Rightarrow> bytes" where
  "uint8_word n = replicate 31 0 @ [word_of_int n]"

lemma length_words [simp]:
  "length (hex32_bytes h) = 32" "length (address_bytes a) = 20" "length (address_word a) = 32" "length (uint8_word n) = 32"
  by (simp_all add: hex32_bytes_def address_bytes_def address_word_def uint8_word_def)

lemma put_bytes_layout:
  "put_bytes (pre @ replicate n x @ post) (length pre) n f = pre @ map f [0..<n] @ post"
proof (induction n arbitrary: post)
  case (Suc n)
  have "put_bytes (pre @ replicate (Suc n) x @ post) (length pre) (Suc n) f =
      (put_bytes (pre @ replicate n x @ x # post) (length pre) n f)[length pre + n := f n]"
    by (simp add: put_bytes_def replicate_app_Cons_same)
  also have "\<dots> = pre @ map f [0..<Suc n] @ post"
    unfolding Suc.IH by (simp add: list_update_append)
  finally show ?case .
qed (simp add: put_bytes_def)

lemma write_uint_layout:
  "write_uint (pre @ replicate k x @ post) (length pre) k v = pre @ be_bytes k v @ post"
proof (induction k arbitrary: post v)
  case (Suc k)
  have "(pre @ replicate (Suc k) x @ post)[length pre + k := y] = pre @ replicate k x @ y # post" for y
    using list_update_length [of "replicate k x" x post y]
    by (simp add: list_update_append replicate_app_Cons_same del: list_update_length)
  with Suc.IH show ?case by simp
qed simp

text \<open>Writing at an offset of a row whose words so far are given and whose rest is still zero.\<close>

lemma put_at:
  "length pre = offset \<Longrightarrow> n \<le> k \<Longrightarrow>
   put_bytes (pre @ replicate k 0) offset n f = (pre @ map f [0..<n]) @ replicate (k - n) 0"
  using put_bytes_layout [of pre n 0 "replicate (k - n) 0" f] by (auto simp flip: replicate_add)

lemma write_hex32_at:
  "length pre = offset \<Longrightarrow> 32 \<le> k \<Longrightarrow> writeHex32 (pre @ replicate k 0) offset h = (pre @ hex32_bytes h) @ replicate (k - 32) 0"
  unfolding writeHex32_def hex32_bytes_def by (rule put_at)

lemma write_tight_at:
  "length pre = offset \<Longrightarrow> 20 \<le> k \<Longrightarrow>
   writeAddressTight (pre @ replicate k 0) offset a = (pre @ address_bytes a) @ replicate (k - 20) 0"
  unfolding writeAddressTight_def address_bytes_def by (rule put_at)

lemma write_padded_at:
  assumes "length pre = offset" and "32 \<le> k"
  shows "writeAddressLeftPadded (pre @ replicate k 0) offset a = (pre @ address_word a) @ replicate (k - 32) 0"
proof -
  have "replicate k (0 :: byte) = replicate 12 0 @ replicate (k - 12) 0" using assms(2) by (simp flip: replicate_add)
  then show ?thesis
    using assms put_at [of "pre @ replicate 12 0" "offset + 12" 20 "k - 12" "substring_byte (clean_hex a)"]
    by (simp add: writeAddressLeftPadded_def address_word_def address_bytes_def)
qed

lemma write_uint_at:
  "length pre = offset \<Longrightarrow> 32 \<le> k \<Longrightarrow>
   writeUint256 (pre @ replicate k 0) offset n = (pre @ bigIntTo32Bytes n) @ replicate (k - 32) 0"
  using write_uint_layout [of pre 32 0 "replicate (k - 32) 0" n]
  by (auto simp: writeUint256_def bigIntTo32Bytes_def simp flip: replicate_add)

lemma store_at: "length pre = offset \<Longrightarrow> 0 < k \<Longrightarrow> (pre @ replicate k 0)[offset := b] = (pre @ [b]) @ replicate (k - 1) 0"
  by (cases k) auto

lemma store_word_at:
  assumes "length pre = offset" and "32 \<le> k"
  shows "(pre @ replicate k (0 :: byte))[offset + 31 := b] = (pre @ replicate 31 0 @ [b]) @ replicate (k - 32) 0"
proof -
  have "replicate k (0 :: byte) = replicate 31 0 @ replicate (k - 31) 0" using assms(2) by (simp flip: replicate_add)
  then show ?thesis using assms store_at [of "pre @ replicate 31 0" "offset + 31" "k - 31" b] by simp
qed

lemmas write_at = write_hex32_at write_tight_at write_padded_at write_uint_at

text \<open>The first write goes to a row without words.\<close>

lemmas write_first = write_hex32_at [where pre = "[]" and offset = 0, simplified]
  write_tight_at [where pre = "[]" and offset = 0, simplified]

subsection \<open>The rows the contract encodes\<close>

text \<open>
  The six preimages, word by word, as \<open>abi.encode\<close> (32-byte words) and \<open>abi.encodePacked\<close> lay out the same
  fields: the stores leave no gap and never overlap.
\<close>

definition transition_row :: "(bytes \<Rightarrow> bytes) \<Rightarrow> transition_args \<Rightarrow> bytes list" where
  "transition_row keccak ag =
     [hex32_bytes (TRANSITION_TYPEHASH keccak), hex32_bytes (ta_agreementCommitment ag), uint8_word (ta_toStatus ag),
      hex32_bytes (ta_nullifier ag), bigIntTo32Bytes (ta_chainId ag), address_word (ta_verifyingContract ag)]"

definition attestation_row :: "(bytes \<Rightarrow> bytes) \<Rightarrow> attestation_args \<Rightarrow> bytes list" where
  "attestation_row keccak ag =
     [hex32_bytes (AGREEMENT_ISSUER_TYPEHASH keccak), hex32_bytes (aa_agreementCommitment ag), hex32_bytes (aa_schemaHash ag),
      address_word (aa_issuer ag), bigIntTo32Bytes (aa_chainId ag), address_word (aa_verifyingContract ag)]"

definition commitment_row :: "commitment_args \<Rightarrow> bytes list" where
  "commitment_row ag =
     [hex32_bytes (ca_partySetCommitment ag), hex32_bytes (ca_issuerCommitment ag), hex32_bytes (ca_termsCommitment ag),
      hex32_bytes (ca_scheduleCommitment ag), bigIntTo32Bytes (ca_salt ag)]"

definition nullifier_row :: "nullifier_args \<Rightarrow> bytes list" where
  "nullifier_row ag =
     [hex32_bytes (na_agreementCommitment ag), [word_of_int (na_toStatus ag)], address_word (na_party ag), hex32_bytes (na_secret ag)]"

lemma word_of_low_byte: "(word_of_int (n AND 0xFF) :: byte) = word_of_int n"
proof -
  have "n AND 0xFF = take_bit 8 n" using take_bit_eq_mask [of 8 n] by (simp add: mask_eq_exp_minus_1)
  then show ?thesis by (simp add: word_of_int_eq_iff)
qed

lemma store_status: "length pre = 64 \<Longrightarrow> 32 \<le> k \<Longrightarrow>
  (pre @ replicate k (0 :: byte))[95 := b] = (pre @ replicate 31 0 @ [b]) @ replicate (k - 32) 0"
  using store_word_at [of pre 64 k b] by simp

lemma transition_row: "transition_buffer keccak ag = concat (transition_row keccak ag)"
  unfolding transition_buffer_def Let_def word_of_low_byte transition_row_def uint8_word_def
  by (simp add: write_first write_at store_status flip: append_assoc)

lemma attestation_row: "attestation_buffer keccak ag = concat (attestation_row keccak ag)"
  unfolding attestation_buffer_def Let_def by (simp add: write_first write_at attestation_row_def flip: append_assoc)

lemma commitment_row: "commitment_buffer ag = concat (commitment_row ag)"
  unfolding commitment_buffer_def Let_def by (simp add: write_first write_at commitment_row_def flip: append_assoc)

lemma nullifier_row: "nullifier_buffer ag = concat (nullifier_row ag)"
  unfolding nullifier_buffer_def Let_def by (simp add: write_first write_at store_at nullifier_row_def flip: append_assoc)

lemma party_row: "party_buffer a b = concat [address_bytes a, address_bytes b]"
  unfolding party_buffer_def by (simp add: write_first write_at flip: append_assoc)

lemmas preimage_rows = transition_row attestation_row commitment_row nullifier_row party_row

section \<open>What equal hashes mean\<close>

text \<open>A hex text of \<open>n\<close> bytes, in either case.\<close>

definition hex_bytes_are :: "nat \<Rightarrow> hex \<Rightarrow> bytes \<Rightarrow> bool" where
  "hex_bytes_are n h bs \<longleftrightarrow> length bs = n \<and> toLowerCase h = ''0x'' @ bytes_hex bs"

definition hex_of_bytes :: "nat \<Rightarrow> hex \<Rightarrow> bool" where
  "hex_of_bytes n h \<longleftrightarrow> (\<exists>bs. hex_bytes_are n h bs)"

lemma drop_bytes_hex: "drop (2 * i) (bytes_hex bs) = bytes_hex (drop i bs)"
proof (induction i arbitrary: bs)
  case (Suc i)
  then show ?case by (cases bs) (simp_all add: bytes_hex_def byte_hex_def)
qed simp

lemma substring_bytes_hex: "i < length bs \<Longrightarrow> substring_byte (bytes_hex bs) i = bs ! i"
proof -
  assume "i < length bs"
  then have "drop i bs = bs ! i # drop (Suc i) bs" by (rule Cons_nth_drop_Suc [symmetric])
  then have "drop (2 * i) (bytes_hex bs) = byte_hex (bs ! i) @ bytes_hex (drop (Suc i) bs)"
    unfolding drop_bytes_hex by (simp add: bytes_hex_def)
  then show ?thesis by (simp add: substring_byte_def byte_hex_def uint8_def)
qed

lemma map_substring: "length bs = n \<Longrightarrow> map (substring_byte (bytes_hex bs)) [0..<n] = bs"
  by (auto simp: substring_bytes_hex intro: nth_equalityI)

lemma clean_hex_of: "hex_bytes_are n h bs \<Longrightarrow> clean_hex h = bytes_hex bs"
  by (simp add: hex_bytes_are_def clean_hex_def strip0x_def startsWith_def)

lemma hex32_bytes_of: "hex_bytes_are 32 h bs \<Longrightarrow> hex32_bytes h = bs"
  using clean_hex_of [of 32 h bs] by (simp add: hex32_bytes_def padStart_def map_substring hex_bytes_are_def)

lemma address_bytes_of: "hex_bytes_are 20 a bs \<Longrightarrow> address_bytes a = bs"
  using clean_hex_of [of 20 a bs] by (simp add: address_bytes_def map_substring hex_bytes_are_def)

lemma toHex32_bytes: "length bs = 32 \<Longrightarrow> hex_bytes_are 32 (toHex32 bs) bs"
  by (simp add: hex_bytes_are_def toHex32_def toLowerCase_Cons toLowerCase_Nil lower_char_def)

lemma toHex32_inject [simp]: "toHex32 a = toHex32 b \<longleftrightarrow> a = b"
  by (simp add: toHex32_def)

lemma hex32_eq: "hex_of_bytes 32 g \<Longrightarrow> hex_of_bytes 32 h \<Longrightarrow> hex32_bytes g = hex32_bytes h \<Longrightarrow> eq_ci g h"
  by (auto simp: hex_of_bytes_def eq_ci_def hex32_bytes_of) (simp add: hex_bytes_are_def)

lemma address_eq: "hex_of_bytes 20 a \<Longrightarrow> hex_of_bytes 20 b \<Longrightarrow> address_bytes a = address_bytes b \<Longrightarrow> eq_ci a b"
  by (auto simp: hex_of_bytes_def eq_ci_def address_bytes_of) (simp add: hex_bytes_are_def)

lemma address_word_eq: "address_word a = address_word b \<longleftrightarrow> address_bytes a = address_bytes b"
  by (simp add: address_word_def)

lemma uint256_eq: "bigIntTo32Bytes m = bigIntTo32Bytes n \<longleftrightarrow> m mod 2 ^ 256 = n mod 2 ^ 256"
proof
  assume "bigIntTo32Bytes m = bigIntTo32Bytes n"
  then have "beBytesToBigInt (bigIntTo32Bytes m) = beBytesToBigInt (bigIntTo32Bytes n)" by simp
  then show "m mod 2 ^ 256 = n mod 2 ^ 256" by (simp add: bigIntTo32Bytes_def beBytesToBigInt_be_bytes)
next
  assume e: "m mod 2 ^ 256 = n mod 2 ^ 256"
  have "be_bytes 32 (k mod 256 ^ 32) = be_bytes 32 k" for k
    using be_bytes_beBytesToBigInt [of "be_bytes 32 k"] by (simp add: beBytesToBigInt_be_bytes)
  from this [of m] this [of n] e show "bigIntTo32Bytes m = bigIntTo32Bytes n" by (simp add: bigIntTo32Bytes_def)
qed

lemma row_inject: "map length xs = map length ys \<Longrightarrow> concat xs = concat ys \<Longrightarrow> xs = ys"
  by (induction xs arbitrary: ys) (auto simp: map_eq_Cons_conv)

lemma uint8_word_eq: "uint8_word m = uint8_word n \<longleftrightarrow> m mod 256 = n mod 256"
  by (simp add: uint8_word_def word_of_int_eq_iff take_bit_eq_mod)

subsection \<open>Transitions\<close>

definition transition_plain :: "transition_args \<Rightarrow> bool" where
  "transition_plain ag \<longleftrightarrow> hex_of_bytes 32 (ta_agreementCommitment ag) \<and> hex_of_bytes 32 (ta_nullifier ag) \<and>
     hex_of_bytes 20 (ta_verifyingContract ag) \<and> 0 \<le> ta_chainId ag \<and> ta_chainId ag < 2 ^ 256 \<and>
     0 \<le> ta_toStatus ag \<and> ta_toStatus ag \<le> REVOKED_STATUS"

text \<open>
  A party's signature over a transition is for one agreement, one new status, one nullifier, one chain and one
  registry.
\<close>

theorem transition_signature_binds:
  assumes "transitionDigest keccak a = transitionDigest keccak b"
    and "keccak (transition_buffer keccak a) = keccak (transition_buffer keccak b) \<Longrightarrow>
      transition_buffer keccak a = transition_buffer keccak b"
    and "transition_plain a" and "transition_plain b"
  shows "eq_ci (ta_agreementCommitment a) (ta_agreementCommitment b) \<and> ta_toStatus a = ta_toStatus b \<and>
    eq_ci (ta_nullifier a) (ta_nullifier b) \<and> ta_chainId a = ta_chainId b \<and>
    eq_ci (ta_verifyingContract a) (ta_verifyingContract b)"
proof -
  have "transition_buffer keccak a = transition_buffer keccak b"
    using assms(1) by (intro assms(2)) (simp add: transitionDigest_def)
  then have "concat (transition_row keccak a) = concat (transition_row keccak b)" unfolding transition_row .
  then have "transition_row keccak a = transition_row keccak b"
    by (intro row_inject) (simp_all add: transition_row_def)
  then have "hex32_bytes (ta_agreementCommitment a) = hex32_bytes (ta_agreementCommitment b)"
    "ta_toStatus a mod 256 = ta_toStatus b mod 256" "hex32_bytes (ta_nullifier a) = hex32_bytes (ta_nullifier b)"
    "ta_chainId a mod 2 ^ 256 = ta_chainId b mod 2 ^ 256" "address_bytes (ta_verifyingContract a) = address_bytes (ta_verifyingContract b)"
    unfolding transition_row_def list.inject address_word_eq uint256_eq uint8_word_eq by blast+
  moreover have "ta_toStatus a mod 256 = ta_toStatus a" "ta_toStatus b mod 256 = ta_toStatus b"
    "ta_chainId a mod 2 ^ 256 = ta_chainId a" "ta_chainId b mod 2 ^ 256 = ta_chainId b"
    using assms(3,4) unfolding transition_plain_def REVOKED_STATUS_def by (simp_all del: power_numeral)
  ultimately show ?thesis using assms(3,4) hex32_eq address_eq unfolding transition_plain_def by metis
qed

text \<open>A hash that tells inputs apart by their length, for the examples.\<close>

definition length_hash :: "bytes \<Rightarrow> bytes" where
  "length_hash x = replicate 31 0 @ [word_of_nat (length x)]"

definition demo_transition :: transition_args where
  "demo_transition = \<lparr>ta_agreementCommitment = toHex32 (replicate 32 7), ta_toStatus = COMPLETED_STATUS,
     ta_nullifier = toHex32 (replicate 32 9), ta_chainId = 8453, ta_verifyingContract = ''0x'' @ bytes_hex (replicate 20 5)\<rparr>"

lemma hex_of_toHex32: "length x = 32 \<Longrightarrow> hex_of_bytes 32 (toHex32 x)"
  unfolding hex_of_bytes_def using toHex32_bytes by blast

lemma hex_of_address: "length x = 20 \<Longrightarrow> hex_of_bytes 20 (''0x'' @ bytes_hex x)"
  by (auto simp: hex_of_bytes_def hex_bytes_are_def toLowerCase_Cons toLowerCase_Nil lower_char_def)

lemma demo_transition_plain: "transition_plain demo_transition"
  by (simp add: transition_plain_def demo_transition_def hex_of_toHex32 hex_of_address [simplified] COMPLETED_STATUS_def REVOKED_STATUS_def)

theorem transition_signature_binds_witness:
  "eq_ci (ta_verifyingContract demo_transition) (ta_verifyingContract demo_transition) \<and> ta_toStatus demo_transition = 2"
  using transition_signature_binds [where keccak = length_hash, OF refl refl demo_transition_plain demo_transition_plain]
  by (simp add: demo_transition_def COMPLETED_STATUS_def)

text \<open>No signature of a party over a transition is a signature of an issuer over an agreement.\<close>

theorem transition_is_no_attestation:
  assumes "\<And>x. length (keccak x) = 32"
    and "inj_on keccak {transition_buffer keccak a, attestation_buffer keccak b,
      TextEncoder TRANSITION_TYPE,
      TextEncoder AGREEMENT_ISSUER_TYPE}"
  shows "transitionDigest keccak a \<noteq> issuerAttestationDigest keccak b"
proof
  assume "transitionDigest keccak a = issuerAttestationDigest keccak b"
  then have "transition_buffer keccak a = attestation_buffer keccak b"
    unfolding transitionDigest_def issuerAttestationDigest_def toHex32_inject by (rule inj_onD [OF assms(2)]) simp_all
  then have "transition_row keccak a = attestation_row keccak b"
    by (intro row_inject) (simp_all add: preimage_rows transition_row_def attestation_row_def)
  then have "hex32_bytes (TRANSITION_TYPEHASH keccak) = hex32_bytes (AGREEMENT_ISSUER_TYPEHASH keccak)"
    by (simp add: transition_row_def attestation_row_def)
  then have "keccak (TextEncoder TRANSITION_TYPE) =
    keccak (TextEncoder AGREEMENT_ISSUER_TYPE)"
    unfolding TRANSITION_TYPEHASH_def AGREEMENT_ISSUER_TYPEHASH_def
    by (simp only: hex32_bytes_of [OF toHex32_bytes [OF assms(1)]])
  then have "TextEncoder TRANSITION_TYPE = TextEncoder AGREEMENT_ISSUER_TYPE" by (rule inj_onD [OF assms(2)]) simp_all
  then show False by (simp add: TRANSITION_TYPE_def AGREEMENT_ISSUER_TYPE_def)
qed

subsection \<open>Agreements\<close>

text \<open>The commitment of an agreement as the helpers make it from its parties, issuer, texts and salt.\<close>

definition agreement_parts :: "(bytes \<Rightarrow> bytes) \<Rightarrow> address \<Rightarrow> address \<Rightarrow> address \<Rightarrow> string \<Rightarrow> string \<Rightarrow> int \<Rightarrow> commitment_args" where
  "agreement_parts keccak party1 party2 issuer tms schedule salt =
     \<lparr>ca_partySetCommitment = partySetCommitment keccak party1 party2, ca_issuerCommitment = issuerCommitment keccak issuer,
      ca_termsCommitment = bytesCommitment keccak tms, ca_scheduleCommitment = bytesCommitment keccak schedule, ca_salt = salt\<rparr>"

definition agreement_inputs :: "(bytes \<Rightarrow> bytes) \<Rightarrow> address \<Rightarrow> address \<Rightarrow> address \<Rightarrow> string \<Rightarrow> string \<Rightarrow> int \<Rightarrow> bytes set" where
  "agreement_inputs keccak party1 party2 issuer tms schedule salt =
     {party_buffer party1 party2, writeAddressTight (replicate 20 0) 0 issuer, TextEncoder tms, TextEncoder schedule,
      commitment_buffer (agreement_parts keccak party1 party2 issuer tms schedule salt)}"

lemma issuer_row: "writeAddressTight (replicate 20 0) 0 a = address_bytes a"
  by (simp add: write_first)

text \<open>
  C21: For addresses of twenty hex bytes and salts from 0 to below \<open>2 ^ 256\<close>, and a hash of 32 bytes that does not
  collide on the inputs of these two agreements, the commitment fixes the whole agreement: which party comes
  first and which second, the issuer, the terms, the schedule, and the salt. The code checks neither
  condition: outside them commitments do collide (\<open>malformed_address_is_zero\<close>, \<open>salt_wraps\<close>).
\<close>

theorem agreement_commitment_binds:
  assumes same: "computeAgreementCommitment keccak (agreement_parts keccak p q i t s n) =
      computeAgreementCommitment keccak (agreement_parts keccak p' q' i' t' s' n')"
    and keccak: "\<And>x. length (keccak x) = 32"
      "inj_on keccak (agreement_inputs keccak p q i t s n \<union> agreement_inputs keccak p' q' i' t' s' n')"
    and plain: "\<And>a. a \<in> {p, q, i, p', q', i'} \<Longrightarrow> hex_of_bytes 20 a" "n \<in> {0..<2 ^ 256}" "n' \<in> {0..<2 ^ 256}"
  shows "eq_ci p p' \<and> eq_ci q q' \<and> eq_ci i i' \<and> t = t' \<and> s = s' \<and> n = n'"
proof -
  note inj = inj_onD [OF keccak(2)]
  have h: "hex32_bytes (toHex32 (keccak x)) = keccak x" for x by (rule hex32_bytes_of [OF toHex32_bytes [OF keccak(1)]])
  let ?a = "agreement_parts keccak p q i t s n" and ?b = "agreement_parts keccak p' q' i' t' s' n'"
  have "keccak (commitment_buffer ?a) = keccak (commitment_buffer ?b)"
    using same by (simp add: computeAgreementCommitment_def)
  then have "commitment_buffer ?a = commitment_buffer ?b" by (rule inj) (simp_all add: agreement_inputs_def)
  then have "commitment_row ?a = commitment_row ?b"
    by (intro row_inject) (simp_all add: preimage_rows commitment_row_def)
  then have k: "keccak (party_buffer p q) = keccak (party_buffer p' q')"
    "keccak (writeAddressTight (replicate 20 0) 0 i) = keccak (writeAddressTight (replicate 20 0) 0 i')"
    "keccak (TextEncoder t) = keccak (TextEncoder t')" "keccak (TextEncoder s) = keccak (TextEncoder s')" "n mod 2 ^ 256 = n' mod 2 ^ 256"
    unfolding commitment_row_def agreement_parts_def partySetCommitment_def issuerCommitment_def bytesCommitment_def
      commitment_args.simps h uint256_eq list.inject by blast+
  have "party_buffer p q = party_buffer p' q'" using k(1) by (rule inj) (simp_all add: agreement_inputs_def)
  then have "[address_bytes p, address_bytes q] = [address_bytes p', address_bytes q']"
    by (intro row_inject) (simp_all add: party_row)
  moreover have "address_bytes i = address_bytes i'"
    unfolding issuer_row [symmetric] using k(2) by (rule inj) (simp_all add: agreement_inputs_def)
  moreover have "TextEncoder t = TextEncoder t'" using k(3) by (rule inj) (simp_all add: agreement_inputs_def)
  moreover have "TextEncoder s = TextEncoder s'" using k(4) by (rule inj) (simp_all add: agreement_inputs_def)
  moreover have "n = n'" using k(5) plain(2,3) by (simp del: power_numeral)
  moreover have "address_bytes p = address_bytes p'" "address_bytes q = address_bytes q'" using calculation(1) by simp_all
  ultimately show ?thesis using plain(1) address_eq by simp
qed

theorem agreement_commitment_binds_witness:
  "let a = ''0x'' @ bytes_hex (replicate 20 1); b = ''0x'' @ bytes_hex (replicate 20 2); c = ''0x'' @ bytes_hex (replicate 20 3) in
     computeAgreementCommitment length_hash (agreement_parts length_hash a b c ''deliver'' ''weekly'' 42) =
     computeAgreementCommitment length_hash (agreement_parts length_hash a b c ''deliver'' ''weekly'' 42) \<and> eq_ci a a"
proof -
  let ?a = "''0x'' @ bytes_hex (replicate 20 1)" and ?b = "''0x'' @ bytes_hex (replicate 20 2)" and ?c = "''0x'' @ bytes_hex (replicate 20 3)"
  have "inj_on length_hash (agreement_inputs length_hash ?a ?b ?c ''deliver'' ''weekly'' 42)"
    by (simp add: agreement_inputs_def length_hash_def preimage_rows commitment_row_def issuer_row inj_on_def TextEncoder_def)
  then have "eq_ci ?a ?a"
    using agreement_commitment_binds [OF refl, of length_hash ?a ?b ?c "''deliver''" "''weekly''" 42] hex_of_address
    by (auto simp: length_hash_def)
  then show ?thesis by (simp add: Let_def)
qed

subsection \<open>What the writers make of other texts\<close>

text \<open>
  A salt is reduced modulo \<open>2\<^sup>256\<close>, and what is no hex is read as zero bytes: no writer refuses its argument.
\<close>

lemma salt_wraps: "computeAgreementCommitment keccak (ag\<lparr>ca_salt := n + 2 ^ 256\<rparr>) = computeAgreementCommitment keccak (ag\<lparr>ca_salt := n\<rparr>)"
proof -
  have "bigIntTo32Bytes (n + 2 ^ 256) = bigIntTo32Bytes n" unfolding uint256_eq by simp
  then show ?thesis by (simp add: computeAgreementCommitment_def preimage_rows commitment_row_def)
qed

lemma malformed_address_is_zero:
  assumes "\<forall>c \<in> set (clean_hex a). hex_val c = None"
  shows "address_bytes a = replicate 20 0 \<and> issuerCommitment keccak a = issuerCommitment keccak ''''"
proof -
  have z: "substring_byte s i = 0" if "\<forall>c \<in> set s. hex_val c = None" for s i
  proof -
    have "\<forall>c \<in> set (drop (2 * i) s). hex_val c = None" using that by (auto dest: in_set_dropD)
    then show ?thesis
      by (cases "drop (2 * i) s" rule: remdups_adj.cases) (simp_all add: substring_byte_def uint8_def parseInt16_def)
  qed
  have b: "address_bytes c = replicate 20 0" if "\<forall>x \<in> set (clean_hex c). hex_val x = None" for c
    using z [OF that] by (simp add: address_bytes_def list_eq_iff_nth_eq)
  from b [OF assms] b [of "[]"] show ?thesis
    by (simp add: issuerCommitment_def issuer_row clean_hex_def strip0x_def startsWith_def toLowerCase_Nil)
qed

end
