(* ===== verification/KeyGrants.thy ===== *)
theory KeyGrants
  imports CanonicalJson Viem
begin

section \<open>Key release: decrypt grants\<close>

text \<open>
  \<open>packages/key-authorization/src\<close>: the one-time grant under which a field may be decrypted (\<open>types.ts\<close>,
  \<open>grant.ts\<close>) and the check of the key authorization service (\<open>verify.ts\<close>). SHA-256 and the date parser are
  parameters; the replay store is state that the check threads through. The theory shows when a key is
  released, that one grant releases once, that a refusal does not use the grant up, that a grant made for a
  request passes, and that the hash fixes every field the check reads.
\<close>

subsection \<open>Canonical text\<close>

fun js_all :: "'a js list \<Rightarrow> 'a list js" where
  "js_all [] = Inr []"
| "js_all (x # xs) = js_bind x (\<lambda>a. js_bind (js_all xs) (\<lambda>as. Inr (a # as)))"

lemma js_all_Inr: "js_all (map (\<lambda>x. Inr (f x)) xs) = Inr (map f xs)"
  by (induction xs) auto

lemma js_all_cong: "(\<And>x. x \<in> set xs \<Longrightarrow> f x = Inr (g x)) \<Longrightarrow> js_all (map f xs) = Inr (map g xs)"
  by (induction xs) auto

function canonicalize :: "jsval \<Rightarrow> string js" where
  "canonicalize JUndefined = Inr ''null''"
| "canonicalize JNull = Inr ''null''"
| "canonicalize (JBool b) = Inr (if b then ''true'' else ''false'')"
| "canonicalize (JNumber n) = Inr (case n of None \<Rightarrow> ''null'' | Some i \<Rightarrow> int_str i)"
| "canonicalize (JBigInt n) = Inl TypeError"
| "canonicalize (JString s) = Inr (json_quote s)"
| "canonicalize (JArray xs) = js_bind (js_all (map canonicalize xs)) (\<lambda>ps. Inr (''['' @ join '','' ps @ '']''))"
| "canonicalize (JObject r ms) =
     js_bind (js_all (map (\<lambda>m. js_bind (canonicalize (snd m)) (\<lambda>s. Inr (json_quote (fst m) @ '':'' @ s))) (defined_members ms)))
       (\<lambda>ps. Inr (''{'' @ join '','' ps @ ''}''))"
  by pat_completeness auto
termination
  by (relation "measure size") (auto dest: size_member simp: less_Suc_eq_le elim: size_list_estimation')

function no_bigint :: "jsval \<Rightarrow> bool" where
  "no_bigint JUndefined = True"
| "no_bigint JNull = True"
| "no_bigint (JBool b) = True"
| "no_bigint (JNumber n) = True"
| "no_bigint (JBigInt n) = False"
| "no_bigint (JString s) = True"
| "no_bigint (JArray xs) = (\<forall>x \<in> set xs. no_bigint x)"
| "no_bigint (JObject r ms) = (\<forall>m \<in> set ms. no_bigint (snd m))"
  by pat_completeness auto
termination
  by (relation "measure size") (auto dest: size_member simp: less_Suc_eq_le elim: size_list_estimation')

lemma canonicalize_print: "no_bigint v \<Longrightarrow> canonicalize v = Inr (print (json_of v))"
proof (induction v rule: canonicalize.induct)
  case (7 xs)
  then have "js_all (map canonicalize xs) = Inr (map (\<lambda>x. print (json_of x)) xs)" by (intro js_all_cong) auto
  then show ?case by (simp add: comp_def)
next
  case (8 r ms)
  then have "js_all (map (\<lambda>m. js_bind (canonicalize (snd m)) (\<lambda>s. Inr (json_quote (fst m) @ '':'' @ s))) (defined_members ms))
      = Inr (map (\<lambda>m. print_member (fst m, json_of (snd m))) (defined_members ms))"
    by (intro js_all_cong) (auto simp: print_member_def)
  then show ?case by (simp add: print_Obj comp_def del: print.simps(6))
qed (auto split: option.splits)

lemma canonicalize_inject:
  assumes "no_bigint v" "no_bigint w" "wf_jsval v" "wf_jsval w" "canonicalize v = canonicalize w"
  shows "json_of v = json_of w"
  using assms JSON_parse_print [OF wf_json_json_of] by (metis canonicalize_print option.inject sum.inject(2))

definition sha256Hex :: "(bytes \<Rightarrow> bytes) \<Rightarrow> string \<Rightarrow> string" where
  "sha256Hex sha input = ''sha256:'' @ bytes_hex (sha (TextEncoder input))"

subsection \<open>Reading the JSON image of an object\<close>

text \<open>What an object prints for a key: nothing where the value is \<open>undefined\<close>.\<close>

definition shown :: "jsval option \<Rightarrow> json option" where
  "shown v = (case v of None \<Rightarrow> None | Some JUndefined \<Rightarrow> None | Some x \<Rightarrow> Some (json_of x))"

lemma shown_simps [simp]:
  "shown None = None" "shown (Some JUndefined) = None" "x \<noteq> JUndefined \<Longrightarrow> shown (Some x) = Some (json_of x)"
  by (auto simp: shown_def split: jsval.splits)

lemma option_eqI:
  assumes "\<And>v. x = Some v \<longleftrightarrow> y = Some v \<and> v \<noteq> u"
  shows "x = (case y of Some v \<Rightarrow> if v = u then None else Some v | None \<Rightarrow> None)"
proof (cases x)
  case None
  with assms [of "the y"] show ?thesis by (cases y) auto
next
  case (Some w)
  with assms [of w] show ?thesis by simp
qed

lemma map_of_map_snd: "map_of (map (\<lambda>m. (fst m, f (snd m))) ps) k = map_option f (map_of ps k)"
  by (induction ps) auto

lemma json_of_members:
  assumes "json_of (JObject r ms) = json_of (JObject q ns)" and "distinct (map fst ms)" and "distinct (map fst ns)"
  shows "shown (map_of ms k) = shown (map_of ns k)"
proof -
  have d: "map_of (map (\<lambda>m. (fst m, json_of (snd m))) (defined_members ps)) k = shown (map_of ps k)"
    if "distinct (map fst ps)" for ps
  proof -
    have "map_of (map (\<lambda>m. (fst m, json_of (snd m))) (defined_members ps)) k = map_option json_of (map_of (defined_members ps) k)"
      by (rule map_of_map_snd)
    also have "map_of (defined_members ps) k = (case map_of ps k of Some v \<Rightarrow> if v = JUndefined then None else Some v | None \<Rightarrow> None)"
    proof -
      have "map_of (defined_members ps) k = Some v \<longleftrightarrow> map_of ps k = Some v \<and> v \<noteq> JUndefined" for v
        using that distinct_defined_members [OF that] by (simp add: map_of_eq_Some_iff)
      then show ?thesis by (rule option_eqI)
    qed
    finally show ?thesis by (auto split: option.splits)
  qed
  show ?thesis using arg_cong [OF assms(1), of "\<lambda>j. case j of Obj ps \<Rightarrow> map_of ps k | _ \<Rightarrow> None"] assms(2,3) by (simp add: d)
qed

subsection \<open>Grants\<close>

record grant_mcp =
  gm_resourceUri :: string
  gm_serverId :: string
  gm_toolName :: string
  gm_argsHash :: string

record grant_authorization =
  ga_oauthTokenHash :: "string option"
  ga_grantBundleHash :: "string option"
  ga_delegationHash :: "string option"
  ga_entitlementHashes :: "string list option"
  ga_policyHash :: "string option"

record grant_vault =
  gv_vaultId :: string
  gv_objectIds :: "string list"
  gv_resource :: string
  gv_fields :: "string list option"
  gv_purpose :: "string option"
  gv_classificationCeiling :: "string option"

record grant_constraints =
  gc_ttlSeconds :: int
  gc_notBefore :: string
  gc_expiresAt :: string
  gc_oneTimeUse :: bool
  gc_noPersist :: "bool option"
  gc_noTraining :: "bool option"

record grant_body =
  gb_type :: string
  gb_id :: string
  gb_issuer :: string
  gb_audience :: string
  gb_principal :: string
  gb_delegate :: "string option"
  gb_mcp :: grant_mcp
  gb_authorization :: grant_authorization
  gb_vault :: grant_vault
  gb_constraints :: grant_constraints
  gb_jti :: string

record decrypt_grant =
  dg_body :: grant_body
  dg_grantHash :: string
  dg_proof :: "(string \<times> string) option"

text \<open>The body as the object that is hashed; an absent field is \<open>undefined\<close>.\<close>

definition opt_js :: "('a \<Rightarrow> jsval) \<Rightarrow> 'a option \<Rightarrow> jsval" where
  "opt_js f v = (case v of None \<Rightarrow> JUndefined | Some a \<Rightarrow> f a)"

definition texts_js :: "string list \<Rightarrow> jsval" where
  "texts_js xs = JArray (map JString xs)"

definition mcp_value :: "grant_mcp \<Rightarrow> jsval" where
  "mcp_value m = JObject 1
     [(''resourceUri'', JString (gm_resourceUri m)), (''serverId'', JString (gm_serverId m)),
      (''toolName'', JString (gm_toolName m)), (''argsHash'', JString (gm_argsHash m))]"

definition authorization_value :: "grant_authorization \<Rightarrow> jsval" where
  "authorization_value a = JObject 2
     [(''oauthTokenHash'', opt_js JString (ga_oauthTokenHash a)), (''grantBundleHash'', opt_js JString (ga_grantBundleHash a)),
      (''delegationHash'', opt_js JString (ga_delegationHash a)), (''entitlementHashes'', opt_js texts_js (ga_entitlementHashes a)),
      (''policyHash'', opt_js JString (ga_policyHash a))]"

definition vault_value :: "grant_vault \<Rightarrow> jsval" where
  "vault_value v = JObject 3
     [(''vaultId'', JString (gv_vaultId v)), (''objectIds'', texts_js (gv_objectIds v)), (''resource'', JString (gv_resource v)),
      (''fields'', opt_js texts_js (gv_fields v)), (''purpose'', opt_js JString (gv_purpose v)),
      (''classificationCeiling'', opt_js JString (gv_classificationCeiling v))]"

definition constraints_value :: "grant_constraints \<Rightarrow> jsval" where
  "constraints_value c = JObject 4
     [(''ttlSeconds'', JNumber (Some (gc_ttlSeconds c))), (''notBefore'', JString (gc_notBefore c)),
      (''expiresAt'', JString (gc_expiresAt c)), (''oneTimeUse'', JBool (gc_oneTimeUse c)),
      (''noPersist'', opt_js JBool (gc_noPersist c)), (''noTraining'', opt_js JBool (gc_noTraining c))]"

definition grant_body_value :: "grant_body \<Rightarrow> jsval" where
  "grant_body_value b = JObject 0
     [(''type'', JString (gb_type b)), (''id'', JString (gb_id b)), (''issuer'', JString (gb_issuer b)),
      (''audience'', JString (gb_audience b)), (''principal'', JString (gb_principal b)),
      (''delegate'', opt_js JString (gb_delegate b)), (''mcp'', mcp_value (gb_mcp b)),
      (''authorization'', authorization_value (gb_authorization b)), (''vault'', vault_value (gb_vault b)),
      (''constraints'', constraints_value (gb_constraints b)), (''replay'', JObject 5 [(''jti'', JString (gb_jti b))])]"

definition computeGrantHash :: "(bytes \<Rightarrow> bytes) \<Rightarrow> grant_body \<Rightarrow> string js" where
  "computeGrantHash sha b = js_bind (canonicalize (grant_body_value b)) (\<lambda>s. Inr (sha256Hex sha s))"

definition createDecryptGrant ::
  "(bytes \<Rightarrow> bytes) \<Rightarrow> grant_body \<Rightarrow> (string \<Rightarrow> (string \<times> string) js) option \<Rightarrow> decrypt_grant js" where
  "createDecryptGrant sha input sign =
     (let body = input\<lparr>gb_type := ''DecryptGrantV1''\<rparr> in
      js_bind (computeGrantHash sha body) (\<lambda>h.
        case sign of
          None \<Rightarrow> Inr \<lparr>dg_body = body, dg_grantHash = h, dg_proof = None\<rparr>
        | Some f \<Rightarrow> js_bind (f h) (\<lambda>p. Inr \<lparr>dg_body = body, dg_grantHash = h, dg_proof = Some p\<rparr>)))"

subsection \<open>The check\<close>

datatype grant_reason =
    Granted | Bad_shape | Grant_hash_mismatch | Signature_invalid | Audience_mismatch | Principal_mismatch | Delegate_mismatch
  | Tool_mismatch | Args_hash_mismatch | Resource_mismatch | Field_not_allowed | Purpose_not_allowed | Classification_exceeded
  | Not_yet_valid | Grant_expired | Jti_replay | Delegation_hash_mismatch | Entitlement_hash_mismatch | Policy_hash_mismatch

record grant_expectation =
  gx_audience :: string
  gx_principal :: string
  gx_delegate :: "string option"
  gx_toolName :: string
  gx_argsHash :: string
  gx_resource :: string
  gx_requestedFields :: "string list option"
  gx_purpose :: "string option"
  gx_classification :: "string option"
  gx_delegationHash :: "string option"
  gx_entitlementHashes :: "string list option"
  gx_policyHash :: "string option"

record release_decision =
  rd_allow :: bool
  rd_reason :: grant_reason
  rd_releasedFields :: "string list option"
  rd_grantId :: string
  rd_jti :: string

definition CLASS_ORDER :: "string list" where
  "CLASS_ORDER = [''public'', ''internal'', ''pii.low'', ''pii.sensitive'', ''regulated.high'', ''secret.high'']"

fun indexOf_from :: "int \<Rightarrow> string \<Rightarrow> string list \<Rightarrow> int" where
  "indexOf_from i x [] = - 1"
| "indexOf_from i x (y # ys) = (if y = x then i else indexOf_from (i + 1) x ys)"

definition class_rank :: "string option \<Rightarrow> int" where
  "class_rank c = (case c of None \<Rightarrow> - 1 | Some k \<Rightarrow> indexOf_from 0 k CLASS_ORDER)"

text \<open>A date that cannot be read is \<open>NaN\<close>, and every comparison with it is false.\<close>

definition later :: "int \<Rightarrow> int option \<Rightarrow> bool" where
  "later now t \<longleftrightarrow> (case t of None \<Rightarrow> False | Some e \<Rightarrow> e < now)"

definition earlier :: "int \<Rightarrow> int option \<Rightarrow> bool" where
  "earlier now t \<longleftrightarrow> (case t of None \<Rightarrow> False | Some e \<Rightarrow> now < e)"

definition field_refused :: "grant_body \<Rightarrow> grant_expectation \<Rightarrow> bool" where
  "field_refused b ex \<longleftrightarrow>
     (case (gx_requestedFields ex, gv_fields (gb_vault b)) of
        (Some requested, Some granted) \<Rightarrow> requested \<noteq> [] \<and> filter (\<lambda>f. f \<notin> set granted) requested \<noteq> []
      | _ \<Rightarrow> False)"

definition released_fields :: "grant_body \<Rightarrow> grant_expectation \<Rightarrow> string list option" where
  "released_fields b ex =
     (case gx_requestedFields ex of
        Some (f # fs) \<Rightarrow> Some (f # fs)
      | _ \<Rightarrow> gv_fields (gb_vault b))"

definition grant_refusal :: "(string \<Rightarrow> int option) \<Rightarrow> int \<Rightarrow> grant_body \<Rightarrow> grant_expectation \<Rightarrow> grant_reason option" where
  "grant_refusal getTime now b ex =
     (let v = gb_vault b; a = gb_authorization b in
      if \<not> eq_ci (gb_audience b) (gx_audience ex) then Some Audience_mismatch
      else if \<not> eq_ci (gb_principal b) (gx_principal ex) then Some Principal_mismatch
      else if (case gx_delegate ex of None \<Rightarrow> False
               | Some d \<Rightarrow> \<not> eq_ci (case gb_delegate b of None \<Rightarrow> [] | Some g \<Rightarrow> g) d) then Some Delegate_mismatch
      else if \<not> eq_ci (gm_toolName (gb_mcp b)) (gx_toolName ex) then Some Tool_mismatch
      else if gm_argsHash (gb_mcp b) \<noteq> gx_argsHash ex then Some Args_hash_mismatch
      else if \<not> eq_ci (gv_resource v) (gx_resource ex) then Some Resource_mismatch
      else if field_refused b ex then Some Field_not_allowed
      else if (case gv_purpose v of None \<Rightarrow> False
               | Some p \<Rightarrow> (case gx_purpose ex of None \<Rightarrow> True | Some q \<Rightarrow> \<not> eq_ci p q)) then Some Purpose_not_allowed
      else if gv_classificationCeiling v \<noteq> None \<and> gx_classification ex \<noteq> None \<and>
              class_rank (gx_classification ex) > class_rank (gv_classificationCeiling v) then Some Classification_exceeded
      else if earlier now (getTime (gc_notBefore (gb_constraints b))) then Some Not_yet_valid
      else if later now (getTime (gc_expiresAt (gb_constraints b))) then Some Grant_expired
      else if truthy (gx_delegationHash ex) \<and> ga_delegationHash a \<noteq> gx_delegationHash ex then Some Delegation_hash_mismatch
      else if truthy (gx_policyHash ex) \<and> ga_policyHash a \<noteq> gx_policyHash ex then Some Policy_hash_mismatch
      else if (case gx_entitlementHashes ex of None \<Rightarrow> False
               | Some hs \<Rightarrow> \<not> list_all (\<lambda>h. h \<in> set (case ga_entitlementHashes a of None \<Rightarrow> [] | Some g \<Rightarrow> g)) hs)
      then Some Entitlement_hash_mismatch
      else None)"

definition deny_release :: "decrypt_grant \<Rightarrow> grant_reason \<Rightarrow> release_decision" where
  "deny_release g r =
     \<lparr>rd_allow = False, rd_reason = r, rd_releasedFields = None, rd_grantId = gb_id (dg_body g), rd_jti = gb_jti (dg_body g)\<rparr>"

text \<open>\<open>Math.ceil(expiresAt / 1000)\<close>, \<open>NaN\<close> for an unreadable date.\<close>

definition expires_unix :: "int option \<Rightarrow> int option" where
  "expires_unix t = map_option (\<lambda>e. - ((- e) div 1000)) t"

type_synonym 's replay_store = "string \<Rightarrow> int option \<Rightarrow> 's \<Rightarrow> bool \<times> 's"

definition verifyDecryptGrant ::
  "(bytes \<Rightarrow> bytes) \<Rightarrow> (string \<Rightarrow> int option) \<Rightarrow> (decrypt_grant \<Rightarrow> bool js) option \<Rightarrow> 's replay_store \<Rightarrow> int \<Rightarrow>
   decrypt_grant \<Rightarrow> grant_expectation \<Rightarrow> 's \<Rightarrow> release_decision js \<times> 's" where
  "verifyDecryptGrant sha getTime verifySignature consume now g ex s =
     (let b = dg_body g in
      if gb_type b \<noteq> ''DecryptGrantV1'' \<or> gb_jti b = [] then (Inr (deny_release g Bad_shape), s)
      else case computeGrantHash sha b of
        Inl e \<Rightarrow> (Inl e, s)
      | Inr h \<Rightarrow>
      if h \<noteq> dg_grantHash g then (Inr (deny_release g Grant_hash_mismatch), s)
      else case (case verifySignature of None \<Rightarrow> Inr True | Some v \<Rightarrow> v g) of
        Inl e \<Rightarrow> (Inl e, s)
      | Inr False \<Rightarrow> (Inr (deny_release g Signature_invalid), s)
      | Inr True \<Rightarrow>
      case grant_refusal getTime now b ex of
        Some r \<Rightarrow> (Inr (deny_release g r), s)
      | None \<Rightarrow>
      case consume (gb_jti b) (expires_unix (getTime (gc_expiresAt (gb_constraints b)))) s of
        (False, s') \<Rightarrow> (Inr (deny_release g Jti_replay), s')
      | (True, s') \<Rightarrow>
          (Inr \<lparr>rd_allow = True, rd_reason = Granted, rd_releasedFields = released_fields b ex, rd_grantId = gb_id b,
                rd_jti = gb_jti b\<rparr>, s'))"

definition memory_consume :: "(string set) replay_store" where
  "memory_consume jti expiresAtUnix used = (if jti \<in> used then (False, used) else (True, insert jti used))"

text \<open>The local service: the check over one memory store.\<close>

definition kas_authorize ::
  "(bytes \<Rightarrow> bytes) \<Rightarrow> (string \<Rightarrow> int option) \<Rightarrow> (decrypt_grant \<Rightarrow> bool js) option \<Rightarrow> decrypt_grant \<Rightarrow> grant_expectation \<Rightarrow> int \<Rightarrow>
   string set \<Rightarrow> release_decision js \<times> string set" where
  "kas_authorize sha getTime verifySignature g ex now used =
     verifyDecryptGrant sha getTime verifySignature memory_consume now g ex used"

section \<open>What a release means\<close>

subsection \<open>When a key is released\<close>

text \<open>The grant covers the request: scope, fields, purpose, ceiling, window and pinned hashes.\<close>

definition fields_cover :: "string list option \<Rightarrow> string list option \<Rightarrow> bool" where
  "fields_cover granted requested \<longleftrightarrow> (\<forall>g r. granted = Some g \<longrightarrow> requested = Some r \<longrightarrow> set r \<subseteq> set g)"

definition grant_in_window :: "(string \<Rightarrow> int option) \<Rightarrow> int \<Rightarrow> grant_constraints \<Rightarrow> bool" where
  "grant_in_window getTime now c \<longleftrightarrow>
     (\<forall>t. getTime (gc_notBefore c) = Some t \<longrightarrow> t \<le> now) \<and> (\<forall>t. getTime (gc_expiresAt c) = Some t \<longrightarrow> now \<le> t)"

definition pins_hold :: "grant_authorization \<Rightarrow> grant_expectation \<Rightarrow> bool" where
  "pins_hold a ex \<longleftrightarrow>
     (truthy (gx_delegationHash ex) \<longrightarrow> ga_delegationHash a = gx_delegationHash ex) \<and>
     (truthy (gx_policyHash ex) \<longrightarrow> ga_policyHash a = gx_policyHash ex) \<and>
     (\<forall>hs. gx_entitlementHashes ex = Some hs \<longrightarrow> set hs \<subseteq> set (case ga_entitlementHashes a of None \<Rightarrow> [] | Some g \<Rightarrow> g))"

definition grant_fits :: "(string \<Rightarrow> int option) \<Rightarrow> int \<Rightarrow> grant_body \<Rightarrow> grant_expectation \<Rightarrow> bool" where
  "grant_fits getTime now b ex \<longleftrightarrow>
     eq_ci (gb_audience b) (gx_audience ex) \<and> eq_ci (gb_principal b) (gx_principal ex) \<and>
     (\<forall>d. gx_delegate ex = Some d \<longrightarrow> eq_ci (case gb_delegate b of None \<Rightarrow> [] | Some g \<Rightarrow> g) d) \<and>
     eq_ci (gm_toolName (gb_mcp b)) (gx_toolName ex) \<and> gm_argsHash (gb_mcp b) = gx_argsHash ex \<and>
     eq_ci (gv_resource (gb_vault b)) (gx_resource ex) \<and> fields_cover (gv_fields (gb_vault b)) (gx_requestedFields ex) \<and>
     (\<forall>p. gv_purpose (gb_vault b) = Some p \<longrightarrow> (\<exists>q. gx_purpose ex = Some q \<and> eq_ci p q)) \<and>
     (gv_classificationCeiling (gb_vault b) \<noteq> None \<longrightarrow> gx_classification ex \<noteq> None \<longrightarrow>
        class_rank (gx_classification ex) \<le> class_rank (gv_classificationCeiling (gb_vault b))) \<and>
     grant_in_window getTime now (gb_constraints b) \<and> pins_hold (gb_authorization b) ex"

lemma field_refused_iff: "field_refused b ex \<longleftrightarrow> \<not> fields_cover (gv_fields (gb_vault b)) (gx_requestedFields ex)"
  by (auto simp: field_refused_def fields_cover_def filter_empty_conv split: option.splits)

lemma refusal_parts:
  "(case gx_delegate ex of None \<Rightarrow> False | Some d \<Rightarrow> \<not> eq_ci g d) \<longleftrightarrow> \<not> (\<forall>d. gx_delegate ex = Some d \<longrightarrow> eq_ci g d)"
  "(case gv_purpose v of None \<Rightarrow> False | Some p \<Rightarrow> (case gx_purpose ex of None \<Rightarrow> True | Some q \<Rightarrow> \<not> eq_ci p q)) \<longleftrightarrow>
     \<not> (\<forall>p. gv_purpose v = Some p \<longrightarrow> (\<exists>q. gx_purpose ex = Some q \<and> eq_ci p q))"
  "(case gx_entitlementHashes ex of None \<Rightarrow> False | Some hs \<Rightarrow> \<not> list_all (\<lambda>h. h \<in> G) hs) \<longleftrightarrow>
     \<not> (\<forall>hs. gx_entitlementHashes ex = Some hs \<longrightarrow> set hs \<subseteq> G)"
  "earlier now t \<longleftrightarrow> \<not> (\<forall>u. t = Some u \<longrightarrow> u \<le> now)"
  "later now t \<longleftrightarrow> \<not> (\<forall>u. t = Some u \<longrightarrow> now \<le> u)"
  by (auto simp: earlier_def later_def list_all_iff split: option.splits)

lemma refusal_guards:
  "\<not> (a \<noteq> None \<and> b \<noteq> None \<and> x > (y :: int)) \<longleftrightarrow> (a \<noteq> None \<longrightarrow> b \<noteq> None \<longrightarrow> x \<le> y)"
  "\<not> (t \<and> u \<noteq> v) \<longleftrightarrow> (t \<longrightarrow> u = v)"
  by auto

lemma if_None: "(if b then Some r else z) = None \<longleftrightarrow> \<not> b \<and> z = None"
  by simp

lemma grant_refusal_None: "grant_refusal getTime now b ex = None \<longleftrightarrow> grant_fits getTime now b ex"
  by (simp only: grant_refusal_def Let_def if_None grant_fits_def refusal_parts refusal_guards field_refused_iff grant_in_window_def
      pins_hold_def not_not simp_thms conj_assoc)

text \<open>
  The local service releases exactly when the grant is of the right shape with its own hash, the signature
  check (if there is one) passes, the grant covers the request and its id was not used; the fields released
  are those requested, or all that were granted when none were named, and the id is used from then on.
\<close>

theorem release_iff:
  "kas_authorize sha getTime verifySignature g ex now used = (Inr d, used') \<and> rd_allow d \<longleftrightarrow>
     gb_type (dg_body g) = ''DecryptGrantV1'' \<and> gb_jti (dg_body g) \<noteq> [] \<and> computeGrantHash sha (dg_body g) = Inr (dg_grantHash g) \<and>
     (\<forall>v. verifySignature = Some v \<longrightarrow> v g = Inr True) \<and> grant_fits getTime now (dg_body g) ex \<and> gb_jti (dg_body g) \<notin> used \<and>
     used' = insert (gb_jti (dg_body g)) used \<and>
     d = \<lparr>rd_allow = True, rd_reason = Granted, rd_releasedFields = released_fields (dg_body g) ex,
          rd_grantId = gb_id (dg_body g), rd_jti = gb_jti (dg_body g)\<rparr>"
proof (cases "gb_type (dg_body g) = ''DecryptGrantV1'' \<and> gb_jti (dg_body g) \<noteq> [] \<and> computeGrantHash sha (dg_body g) = Inr (dg_grantHash g)")
  case True
  show ?thesis
  proof (cases "grant_refusal getTime now (dg_body g) ex")
    case None
    then have "grant_fits getTime now (dg_body g) ex" by (simp add: grant_refusal_None)
    then show ?thesis using True None
      by (cases verifySignature)
        (auto simp: kas_authorize_def verifyDecryptGrant_def Let_def memory_consume_def deny_release_def split: sum.splits bool.splits)
  next
    case (Some r)
    then have "\<not> grant_fits getTime now (dg_body g) ex" by (metis grant_refusal_None option.distinct(1))
    then show ?thesis using True Some
      by (auto simp: kas_authorize_def verifyDecryptGrant_def Let_def deny_release_def split: sum.splits bool.splits)
  qed
next
  case False
  then show ?thesis by (auto simp: kas_authorize_def verifyDecryptGrant_def deny_release_def Let_def split: sum.splits)
qed

text \<open>What is released was granted, and asked for if anything was.\<close>

lemma released_within:
  assumes "kas_authorize sha getTime verifySignature g ex now used = (Inr d, used')" and "rd_allow d"
  shows "fields_cover (gv_fields (gb_vault (dg_body g))) (rd_releasedFields d) \<and>
    (\<forall>f fs. gx_requestedFields ex = Some (f # fs) \<longrightarrow> rd_releasedFields d = Some (f # fs))"
proof -
  from assms have "d = \<lparr>rd_allow = True, rd_reason = Granted, rd_releasedFields = released_fields (dg_body g) ex,
          rd_grantId = gb_id (dg_body g), rd_jti = gb_jti (dg_body g)\<rparr>" "grant_fits getTime now (dg_body g) ex"
    using release_iff by blast+
  then show ?thesis
    by (auto simp: grant_fits_def fields_cover_def released_fields_def split: option.splits list.splits)
qed

subsection \<open>One release for one grant\<close>

definition is_release :: "release_decision js \<Rightarrow> bool" where
  "is_release r \<longleftrightarrow> (case r of Inr d \<Rightarrow> rd_allow d | Inl _ \<Rightarrow> False)"

fun kas_run ::
  "(bytes \<Rightarrow> bytes) \<Rightarrow> (string \<Rightarrow> int option) \<Rightarrow> (decrypt_grant \<Rightarrow> bool js) option \<Rightarrow> (decrypt_grant \<times> grant_expectation \<times> int) list \<Rightarrow>
   string set \<Rightarrow> (string \<times> release_decision js) list" where
  "kas_run sha getTime vs [] used = []"
| "kas_run sha getTime vs ((g, ex, now) # reqs) used =
     (let (r, used') = kas_authorize sha getTime vs g ex now used
      in (gb_jti (dg_body g), r) # kas_run sha getTime vs reqs used')"

lemma kas_used:
  assumes "kas_authorize sha getTime vs g ex now used = (r, used')"
  shows "used \<subseteq> used' \<and> (is_release r \<longrightarrow> gb_jti (dg_body g) \<notin> used \<and> gb_jti (dg_body g) \<in> used')"
  using assms unfolding kas_authorize_def verifyDecryptGrant_def Let_def
  by (auto simp: memory_consume_def is_release_def deny_release_def split: if_split_asm sum.split_asm bool.split_asm option.split_asm)

lemma kas_run_bound:
  "length (filter (\<lambda>(j, r). j = jti \<and> is_release r) (kas_run sha getTime vs reqs used)) \<le> (if jti \<in> used then 0 else 1)"
proof (induction reqs arbitrary: used)
  case (Cons q reqs)
  obtain g ex now where q: "q = (g, ex, now)" by (cases q)
  obtain r used' where k: "kas_authorize sha getTime vs g ex now used = (r, used')" by fastforce
  from kas_used [OF k] Cons.IH [of used'] show ?case by (auto simp: q k split: if_split_asm)
qed simp

text \<open>
  C10: Whatever requests the service sees, in whatever order and with whatever grants, at most one release is made
  under one replay id, the \<open>jti\<close> of the grant's replay section; and none if that id was used before. The
  grant's own \<open>id\<close> plays no part: two grants of one id with different replay ids can each be released.
\<close>

theorem one_release_per_replay_id:
  "length (filter (\<lambda>(j, r). j = jti \<and> is_release r) (kas_run sha getTime vs reqs used)) \<le> (if jti \<in> used then 0 else 1)"
  by (rule kas_run_bound)

text \<open>A refusal does not use a grant up.\<close>

lemma refusal_keeps_the_grant:
  "kas_authorize sha getTime vs g ex now used = (r, used') \<Longrightarrow> \<not> is_release r \<Longrightarrow> used' = used"
  unfolding kas_authorize_def verifyDecryptGrant_def Let_def
  by (auto simp: memory_consume_def is_release_def split: if_split_asm sum.split_asm bool.split_asm option.split_asm)

subsection \<open>What the hash fixes\<close>

lemma shown_opt [simp]:
  "shown (Some (opt_js JString v)) = map_option Str v" "shown (Some (opt_js JBool c)) = map_option Bool c"
  "shown (Some (opt_js texts_js ts)) = map_option (\<lambda>xs. Arr (map Str xs)) ts"
  by (auto simp: opt_js_def texts_js_def split: option.splits)

lemma shown_texts [simp]: "shown (Some (texts_js xs)) = Some (Arr (map Str xs))"
  by (simp add: texts_js_def comp_def)

lemma map_Str_inject [simp]: "map Str xs = map Str ys \<longleftrightarrow> xs = ys"
  by (rule inj_map_eq_map) (simp add: inj_def)

lemma map_option_inj: "inj f \<Longrightarrow> map_option f v = map_option f w \<longleftrightarrow> v = w"
  by (rule inj_eq [OF option.inj_map])

lemma map_option_inject [simp]:
  "map_option Str v = map_option Str w \<longleftrightarrow> v = w" "map_option Bool b = map_option Bool c \<longleftrightarrow> b = c"
  "map_option (\<lambda>xs. Arr (map Str xs)) t = map_option (\<lambda>xs. Arr (map Str xs)) u \<longleftrightarrow> t = u"
  by (simp_all add: map_option_inj inj_def)

lemma mcp_inject: "json_of (mcp_value m) = json_of (mcp_value n) \<Longrightarrow> m = n"
proof -
  assume e: "json_of (mcp_value m) = json_of (mcp_value n)"
  note get = json_of_members [OF e [unfolded mcp_value_def]]
  show "m = n" using get [of "''resourceUri''"] get [of "''serverId''"] get [of "''toolName''"] get [of "''argsHash''"] by simp
qed

lemma authorization_inject: "json_of (authorization_value a) = json_of (authorization_value b) \<Longrightarrow> a = b"
proof -
  assume e: "json_of (authorization_value a) = json_of (authorization_value b)"
  note get = json_of_members [OF e [unfolded authorization_value_def]]
  show "a = b"
    using get [of "''oauthTokenHash''"] get [of "''grantBundleHash''"] get [of "''delegationHash''"] get [of "''entitlementHashes''"]
      get [of "''policyHash''"] by simp
qed

lemma vault_inject: "json_of (vault_value v) = json_of (vault_value w) \<Longrightarrow> v = w"
proof -
  assume e: "json_of (vault_value v) = json_of (vault_value w)"
  note get = json_of_members [OF e [unfolded vault_value_def]]
  show "v = w"
    using get [of "''vaultId''"] get [of "''objectIds''"] get [of "''resource''"] get [of "''fields''"] get [of "''purpose''"]
      get [of "''classificationCeiling''"] by simp
qed

lemma constraints_inject: "json_of (constraints_value c) = json_of (constraints_value d) \<Longrightarrow> c = d"
proof -
  assume e: "json_of (constraints_value c) = json_of (constraints_value d)"
  note get = json_of_members [OF e [unfolded constraints_value_def]]
  show "c = d"
    using get [of "''ttlSeconds''"] get [of "''notBefore''"] get [of "''expiresAt''"] get [of "''oneTimeUse''"] get [of "''noPersist''"]
      get [of "''noTraining''"] by simp
qed

lemma object_parts:
  "mcp_value m \<noteq> JUndefined" "authorization_value a \<noteq> JUndefined" "vault_value v \<noteq> JUndefined" "constraints_value c \<noteq> JUndefined"
  by (simp_all add: mcp_value_def authorization_value_def vault_value_def constraints_value_def)

lemma grant_body_inject: "json_of (grant_body_value b) = json_of (grant_body_value c) \<Longrightarrow> b = c"
proof -
  assume e: "json_of (grant_body_value b) = json_of (grant_body_value c)"
  note get = json_of_members [OF e [unfolded grant_body_value_def]]
  have "gb_mcp b = gb_mcp c" using get [of "''mcp''"] by (intro mcp_inject) (simp add: object_parts)
  moreover have "gb_authorization b = gb_authorization c"
    using get [of "''authorization''"] by (intro authorization_inject) (simp add: object_parts)
  moreover have "gb_vault b = gb_vault c" using get [of "''vault''"] by (intro vault_inject) (simp add: object_parts)
  moreover have "gb_constraints b = gb_constraints c"
    using get [of "''constraints''"] by (intro constraints_inject) (simp add: object_parts)
  moreover have "gb_jti b = gb_jti c"
    using get [of "''replay''"] json_of_members [of 5 "[(''jti'', JString (gb_jti b))]" 5 "[(''jti'', JString (gb_jti c))]" "''jti''"]
    by simp
  ultimately show "b = c"
    using get [of "''type''"] get [of "''id''"] get [of "''issuer''"] get [of "''audience''"] get [of "''principal''"] get [of "''delegate''"]
    by simp
qed

lemma no_bigint_opt [simp]:
  "no_bigint (opt_js JString v)" "no_bigint (opt_js JBool c)" "no_bigint (opt_js texts_js t)" "no_bigint (texts_js xs)"
  "wf_jsval (opt_js JString v)" "wf_jsval (opt_js JBool c)" "wf_jsval (opt_js texts_js t)" "wf_jsval (texts_js xs)"
  by (auto simp: opt_js_def texts_js_def split: option.splits)

lemma grant_body_printable: "no_bigint (grant_body_value b) \<and> wf_jsval (grant_body_value b)"
  by (simp add: grant_body_value_def mcp_value_def authorization_value_def vault_value_def constraints_value_def)

lemma computeGrantHash_print: "computeGrantHash sha b = Inr (sha256Hex sha (print (json_of (grant_body_value b))))"
  using grant_body_printable [of b] by (simp add: computeGrantHash_def canonicalize_print)

text \<open>One hash is the hash of one body, as far as SHA-256 does not collide on the two texts.\<close>

lemma one_hash_one_grant:
  assumes "computeGrantHash sha b = computeGrantHash sha c"
    and "\<And>s t. canonicalize (grant_body_value b) = Inr s \<Longrightarrow> canonicalize (grant_body_value c) = Inr t \<Longrightarrow>
      sha (TextEncoder s) = sha (TextEncoder t) \<Longrightarrow> s = t"
  shows "b = c"
proof (rule grant_body_inject, rule canonicalize_inject)
  show "canonicalize (grant_body_value b) = canonicalize (grant_body_value c)"
    using assms grant_body_printable [of b] grant_body_printable [of c] by (simp add: computeGrantHash_print sha256Hex_def canonicalize_print)
qed (simp_all add: grant_body_printable)

text \<open>
  C13: With a signature check that only lets hashes of issued grants pass, a key is released only under the terms
  of a grant that was issued: no field of it can be changed.
\<close>

theorem released_grant_was_issued:
  assumes release: "kas_authorize sha getTime (Some v) g ex now used = (Inr d, used')" "rd_allow d"
    and signed: "v g = Inr True \<Longrightarrow> \<exists>b \<in> Issued. computeGrantHash sha b = Inr (dg_grantHash g)"
    and sha: "\<And>b s t. b \<in> Issued \<Longrightarrow> canonicalize (grant_body_value b) = Inr s \<Longrightarrow> canonicalize (grant_body_value (dg_body g)) = Inr t \<Longrightarrow>
      sha (TextEncoder s) = sha (TextEncoder t) \<Longrightarrow> s = t"
  shows "dg_body g \<in> Issued \<and> grant_fits getTime now (dg_body g) ex"
proof -
  have r: "computeGrantHash sha (dg_body g) = Inr (dg_grantHash g)" "v g = Inr True" "grant_fits getTime now (dg_body g) ex"
    using release release_iff by blast+
  with signed obtain b where b: "b \<in> Issued" "computeGrantHash sha b = computeGrantHash sha (dg_body g)" by auto
  have "b = dg_body g" using b(2) sha [OF b(1)] by (rule one_hash_one_grant)
  with b r show ?thesis by simp
qed

lemma retyped:
  "grant_fits getTime now (b\<lparr>gb_type := t\<rparr>) ex = grant_fits getTime now b ex"
  "released_fields (b\<lparr>gb_type := t\<rparr>) ex = released_fields b ex"
  by (cases b; simp only: grant_fits_def released_fields_def grant_body.select_convs grant_body.update_convs)+

text \<open>A grant made for a request is released on it.\<close>

theorem created_grant_is_released:
  assumes made: "createDecryptGrant sha input sign = Inr g"
    and fits: "grant_fits getTime now input ex" "gb_jti input \<noteq> []" "gb_jti input \<notin> used"
    and proven: "\<And>v. verifySignature = Some v \<Longrightarrow> v g = Inr True"
  shows "\<exists>d used'. kas_authorize sha getTime verifySignature g ex now used = (Inr d, used') \<and> rd_allow d \<and>
    rd_releasedFields d = released_fields input ex"
proof -
  have g: "dg_body g = input\<lparr>gb_type := ''DecryptGrantV1''\<rparr>" "computeGrantHash sha (dg_body g) = Inr (dg_grantHash g)"
    using made by (auto simp: createDecryptGrant_def Let_def computeGrantHash_print split: option.split_asm)
  let ?d = "\<lparr>rd_allow = True, rd_reason = Granted, rd_releasedFields = released_fields (dg_body g) ex,
    rd_grantId = gb_id (dg_body g), rd_jti = gb_jti (dg_body g)\<rparr>"
  have "kas_authorize sha getTime verifySignature g ex now used = (Inr ?d, insert (gb_jti (dg_body g)) used) \<and> rd_allow ?d"
    unfolding release_iff using g(2) fits proven by (simp add: g(1) retyped)
  then show ?thesis by (auto simp: g(1) retyped)
qed

text \<open>
  What the check does not see: a date that cannot be read is no bound, and data of an unknown class is below
  every ceiling.
\<close>

lemma unreadable_grant_never_expires:
  "getTime (gc_notBefore c) = None \<Longrightarrow> getTime (gc_expiresAt c) = None \<Longrightarrow> grant_in_window getTime now c"
  by (simp add: grant_in_window_def)

lemma unknown_class_is_below_every_ceiling:
  assumes "k \<notin> set CLASS_ORDER"
  shows "class_rank (Some k) \<le> class_rank c"
proof -
  have "k \<notin> set ks \<Longrightarrow> indexOf_from i k ks = - 1" for i ks by (induction i k ks rule: indexOf_from.induct) auto
  moreover have "0 \<le> i \<Longrightarrow> - 1 \<le> indexOf_from i x ks" for i x ks by (induction i x ks rule: indexOf_from.induct) auto
  ultimately show ?thesis using assms by (simp add: class_rank_def split: option.split)
qed

subsection \<open>A grant to evaluate the definitions on\<close>

definition demo_grant_body :: grant_body where
  "demo_grant_body =
     \<lparr>gb_type = [], gb_id = ''urn:ap:decrypt-grant:1'', gb_issuer = ''kas'', gb_audience = ''vault'', gb_principal = ''0xA11ce'',
      gb_delegate = Some ''0xb0b'',
      gb_mcp = \<lparr>gm_resourceUri = ''mcp://vault'', gm_serverId = ''s'', gm_toolName = ''read'', gm_argsHash = ''sha256:00''\<rparr>,
      gb_authorization = \<lparr>ga_oauthTokenHash = None, ga_grantBundleHash = None, ga_delegationHash = Some ''sha256:01'',
        ga_entitlementHashes = Some [''sha256:02''], ga_policyHash = None\<rparr>,
      gb_vault = \<lparr>gv_vaultId = ''v'', gv_objectIds = [''o''], gv_resource = ''profile'', gv_fields = Some [''name'', ''email''],
        gv_purpose = None, gv_classificationCeiling = Some ''pii.low''\<rparr>,
      gb_constraints = \<lparr>gc_ttlSeconds = 60, gc_notBefore = ''start'', gc_expiresAt = ''end'', gc_oneTimeUse = True,
        gc_noPersist = None, gc_noTraining = Some True\<rparr>,
      gb_jti = ''j1''\<rparr>"

definition demo_expectation :: grant_expectation where
  "demo_expectation =
     \<lparr>gx_audience = ''vault'', gx_principal = ''0xA11ce'', gx_delegate = Some ''0xb0b'', gx_toolName = ''read'', gx_argsHash = ''sha256:00'',
      gx_resource = ''profile'', gx_requestedFields = Some [''email''], gx_purpose = None, gx_classification = Some ''internal'',
      gx_delegationHash = Some ''sha256:01'', gx_entitlementHashes = Some [''sha256:02''], gx_policyHash = None\<rparr>"

definition demo_grant_time :: "string \<Rightarrow> int option" where
  "demo_grant_time s = (if s = ''start'' then Some 0 else if s = ''end'' then Some 60000 else None)"

lemma demo_grant_fits: "grant_fits demo_grant_time 30000 demo_grant_body demo_expectation"
  by (simp add: grant_fits_def demo_grant_body_def demo_expectation_def demo_grant_time_def eq_ci_def
      fields_cover_def class_rank_def CLASS_ORDER_def grant_in_window_def pins_hold_def)

definition demo_key_grant :: decrypt_grant where
  "demo_key_grant = (case createDecryptGrant id demo_grant_body None of Inr g \<Rightarrow> g | Inl _ \<Rightarrow> undefined)"

lemma demo_key_grant: "createDecryptGrant id demo_grant_body None = Inr demo_key_grant"
  by (simp add: demo_key_grant_def createDecryptGrant_def computeGrantHash_print Let_def)

lemma demo_grant_jti: "gb_jti demo_grant_body = ''j1''"
  by (simp add: demo_grant_body_def)

text \<open>The one grant of the example, used once and then again.\<close>

theorem created_grant_is_released_witness:
  "\<exists>d used'. kas_authorize id demo_grant_time None demo_key_grant demo_expectation 30000 {} = (Inr d, used') \<and> rd_allow d \<and>
    rd_releasedFields d = Some [''email'']"
  using created_grant_is_released [OF demo_key_grant demo_grant_fits, of "{}" None]
  by (simp add: demo_grant_jti released_fields_def demo_expectation_def)

theorem released_grant_was_issued_witness:
  "dg_body demo_key_grant \<in> {demo_grant_body\<lparr>gb_type := ''DecryptGrantV1''\<rparr>}"
proof -
  let ?b = "demo_grant_body\<lparr>gb_type := ''DecryptGrantV1''\<rparr>"
  have b: "dg_body demo_key_grant = ?b" "computeGrantHash id ?b = Inr (dg_grantHash demo_key_grant)"
    by (simp_all add: demo_key_grant_def createDecryptGrant_def Let_def computeGrantHash_print)
  let ?d = "\<lparr>rd_allow = True, rd_reason = Granted, rd_releasedFields = released_fields ?b demo_expectation,
    rd_grantId = gb_id ?b, rd_jti = gb_jti ?b\<rparr>"
  have "kas_authorize id demo_grant_time (Some (\<lambda>_. Inr True)) demo_key_grant demo_expectation 30000 {} = (Inr ?d, {''j1''}) \<and> rd_allow ?d"
    unfolding release_iff using b demo_grant_fits by (simp add: retyped demo_grant_jti)
  then show ?thesis
    using released_grant_was_issued [of id demo_grant_time "\<lambda>_. Inr True" demo_key_grant demo_expectation 30000 "{}" ?d "{''j1''}" "{?b}"] b
    by simp
qed

end
