(* ===== verification/Entitlements.thy ===== *)
theory Entitlements
  imports Viem
begin

section \<open>Entitlement credentials\<close>

text \<open>
  \<open>packages/entitlements/src\<close>: which of the credentials an actor holds allow an action on a resource
  (\<open>types.ts\<close>, \<open>match.ts\<close>). The date parser is a parameter. The theory shows what a match and a decision mean,
  that the fields of a decision are covered by matching credentials and were asked for, that a decision and
  the reason of a refusal do not depend on the order of the credentials, and that the merged constraints do.
\<close>

subsection \<open>Credentials and queries\<close>

definition CLASSIFICATION_ORDER :: "string list" where
  "CLASSIFICATION_ORDER = [''public'', ''internal'', ''pii.low'', ''pii.sensitive'', ''regulated.high'', ''secret.high'']"

type_synonym ent_constraints = "string \<rightharpoonup> bool"

record entitlement_credential =
  ec_id :: string
  ec_validFrom :: string
  ec_validUntil :: "string option"
  ec_actor :: string
  ec_principal :: "string option"
  ec_audience :: string
  ec_resource :: string
  ec_actions :: "string list"
  ec_fields :: "string list option"
  ec_purpose :: "string option"
  ec_classificationCeiling :: "string option"
  ec_constraints :: "ent_constraints option"

record entitlement_query =
  eq_actor :: string
  eq_principal :: "string option"
  eq_audience :: string
  eq_resource :: string
  eq_action :: string
  eq_fields :: "string list option"
  eq_purpose :: "string option"
  eq_classification :: "string option"
  eq_at :: int

datatype EntitlementReason =
    Ent_matched | Ent_not_found | Ent_expired | Ent_revoked | Ent_suspended | Field_denied | Purpose_denied | Class_exceeded
  | Audience_denied | Resource_denied | Action_denied | Principal_denied

record single_match =
  sm_ok :: bool
  sm_reason :: EntitlementReason
  sm_allowedFields :: "string list option"

record entitlement_answer =
  en_allow :: bool
  en_reason :: EntitlementReason
  en_matchedCredentials :: "string list"
  en_allowedFields :: "string list option"
  en_constraints :: "ent_constraints option"

subsection \<open>One credential\<close>

fun index_of :: "int \<Rightarrow> 'a \<Rightarrow> 'a list \<Rightarrow> int" where
  "index_of i x [] = - 1"
| "index_of i x (y # ys) = (if y = x then i else index_of (i + 1) x ys)"

definition classificationRank :: "string \<Rightarrow> int" where
  "classificationRank c = index_of 0 c CLASSIFICATION_ORDER"

definition no_match :: "EntitlementReason \<Rightarrow> single_match" where
  "no_match r = \<lparr>sm_ok = False, sm_reason = r, sm_allowedFields = None\<rparr>"

definition a_match :: "string list option \<Rightarrow> single_match" where
  "a_match fs = \<lparr>sm_ok = True, sm_reason = Ent_matched, sm_allowedFields = fs\<rparr>"

text \<open>The fields of a match; \<open>q.fields\<close> given but empty counts as not asked.\<close>

definition match_fields :: "string list option \<Rightarrow> string list option \<Rightarrow> single_match" where
  "match_fields granted requested =
     (case granted of
        None \<Rightarrow> a_match requested
      | Some g \<Rightarrow>
          (case requested of
             Some (r # rs) \<Rightarrow> if filter (\<lambda>f. f \<notin> set g) (r # rs) \<noteq> [] then no_match Field_denied else a_match requested
           | _ \<Rightarrow> a_match (Some g)))"

definition matchesEntitlement :: "(string \<Rightarrow> int option) \<Rightarrow> entitlement_credential \<Rightarrow> entitlement_query \<Rightarrow> single_match" where
  "matchesEntitlement getTime c q =
     (if (case getTime (ec_validFrom c) of None \<Rightarrow> False | Some t \<Rightarrow> eq_at q < t) then no_match Ent_expired
      else if truthy (ec_validUntil c) \<and> (case getTime (the (ec_validUntil c)) of None \<Rightarrow> False | Some t \<Rightarrow> t < eq_at q)
      then no_match Ent_expired
      else if \<not> eq_ci (ec_actor c) (eq_actor q) then no_match Ent_not_found
      else if \<not> eq_ci (ec_audience c) (eq_audience q) then no_match Audience_denied
      else if \<not> eq_ci (ec_resource c) (eq_resource q) then no_match Resource_denied
      else if (case (ec_principal c, eq_principal q) of (Some p, Some p') \<Rightarrow> \<not> eq_ci p p' | _ \<Rightarrow> False) then no_match Principal_denied
      else if \<not> list_ex (\<lambda>a. eq_ci a (eq_action q)) (ec_actions c) then no_match Action_denied
      else if (case ec_purpose c of None \<Rightarrow> False
               | Some p \<Rightarrow> (case eq_purpose q of None \<Rightarrow> True | Some p' \<Rightarrow> \<not> eq_ci p p')) then no_match Purpose_denied
      else if (case (ec_classificationCeiling c, eq_classification q) of
                 (Some m, Some k) \<Rightarrow> classificationRank k > classificationRank m | _ \<Rightarrow> False) then no_match Class_exceeded
      else match_fields (ec_fields c) (eq_fields q))"

subsection \<open>All credentials\<close>

definition denyPrecedence :: "EntitlementReason list" where
  "denyPrecedence =
     [Class_exceeded, Purpose_denied, Field_denied, Action_denied, Principal_denied, Ent_expired, Resource_denied, Audience_denied,
      Ent_not_found]"

text \<open>The variables of the loop; the set of fields keeps the order of insertion.\<close>

record resolve_state =
  rs_matched :: "string list"
  rs_allowedFields :: "string list"
  rs_unrestricted :: bool
  rs_constraints :: "ent_constraints option"
  rs_bestDeny :: EntitlementReason
  rs_bestDenyRank :: int

definition add_to_set :: "'a list \<Rightarrow> 'a \<Rightarrow> 'a list" where
  "add_to_set xs x = (if x \<in> set xs then xs else xs @ [x])"

definition merge_constraints :: "ent_constraints option \<Rightarrow> ent_constraints option \<Rightarrow> ent_constraints option" where
  "merge_constraints old new =
     (case new of None \<Rightarrow> old | Some n \<Rightarrow> Some ((case old of None \<Rightarrow> Map.empty | Some m \<Rightarrow> m) ++ n))"

definition resolve_step :: "(string \<Rightarrow> int option) \<Rightarrow> entitlement_query \<Rightarrow> resolve_state \<Rightarrow> entitlement_credential \<Rightarrow> resolve_state" where
  "resolve_step getTime q s c =
     (let m = matchesEntitlement getTime c q in
      if sm_ok m then
        s\<lparr>rs_matched := rs_matched s @ [ec_id c],
          rs_unrestricted := (rs_unrestricted s \<or> sm_allowedFields m = None),
          rs_allowedFields := (case sm_allowedFields m of None \<Rightarrow> rs_allowedFields s | Some fs \<Rightarrow> foldl add_to_set (rs_allowedFields s) fs),
          rs_constraints := merge_constraints (rs_constraints s) (ec_constraints c)\<rparr>
      else let rank = index_of 0 (sm_reason m) denyPrecedence in
        if rank \<noteq> - 1 \<and> rank < rs_bestDenyRank s then s\<lparr>rs_bestDeny := sm_reason m, rs_bestDenyRank := rank\<rparr> else s)"

definition resolve_start :: resolve_state where
  "resolve_start = \<lparr>rs_matched = [], rs_allowedFields = [], rs_unrestricted = False, rs_constraints = None,
     rs_bestDeny = Ent_not_found, rs_bestDenyRank = int (length denyPrecedence)\<rparr>"

definition resolveEntitlements ::
  "(string \<Rightarrow> int option) \<Rightarrow> entitlement_credential list \<Rightarrow> entitlement_query \<Rightarrow> entitlement_answer" where
  "resolveEntitlements getTime credentials query =
     (let s = foldl (resolve_step getTime query) resolve_start credentials in
      if rs_matched s = []
      then \<lparr>en_allow = False, en_reason = rs_bestDeny s, en_matchedCredentials = [], en_allowedFields = None, en_constraints = None\<rparr>
      else \<lparr>en_allow = True, en_reason = Ent_matched, en_matchedCredentials = rs_matched s,
            en_allowedFields = (if rs_unrestricted s then eq_fields query else Some (rs_allowedFields s)),
            en_constraints = rs_constraints s\<rparr>)"

section \<open>What a decision means\<close>

subsection \<open>The result of the loop\<close>

abbreviation ent_ok :: "(string \<Rightarrow> int option) \<Rightarrow> entitlement_query \<Rightarrow> entitlement_credential \<Rightarrow> bool" where
  "ent_ok getTime q c \<equiv> sm_ok (matchesEntitlement getTime c q)"

definition deny_ranks :: "(string \<Rightarrow> int option) \<Rightarrow> entitlement_query \<Rightarrow> entitlement_credential list \<Rightarrow> int list" where
  "deny_ranks getTime q cs =
     map (\<lambda>c. index_of 0 (sm_reason (matchesEntitlement getTime c q)) denyPrecedence) (filter (\<lambda>c. \<not> ent_ok getTime q c) cs)"

lemma set_add_all: "set (foldl add_to_set xs ys) = set xs \<union> set ys"
  by (induction ys arbitrary: xs) (auto simp: add_to_set_def)

lemma resolve_matched:
  "rs_matched (foldl (resolve_step getTime q) s cs) = rs_matched s @ map ec_id (filter (ent_ok getTime q) cs)"
  by (induction cs arbitrary: s) (auto simp: resolve_step_def Let_def)

lemma resolve_unrestricted:
  "rs_unrestricted (foldl (resolve_step getTime q) s cs) \<longleftrightarrow>
     rs_unrestricted s \<or> (\<exists>c \<in> set cs. ent_ok getTime q c \<and> sm_allowedFields (matchesEntitlement getTime c q) = None)"
  by (induction cs arbitrary: s) (auto simp: resolve_step_def Let_def)

lemma resolve_fields:
  "set (rs_allowedFields (foldl (resolve_step getTime q) s cs)) =
     set (rs_allowedFields s) \<union>
     (\<Union>c \<in> {c \<in> set cs. ent_ok getTime q c}. case sm_allowedFields (matchesEntitlement getTime c q) of None \<Rightarrow> {} | Some fs \<Rightarrow> set fs)"
proof (induction cs arbitrary: s)
  case (Cons c cs)
  then show ?case by (auto simp: resolve_step_def Let_def set_add_all split: option.splits)
qed simp

text \<open>Each test but the last ends the match or goes on.\<close>

lemma ok_if [simp]: "sm_ok (if b then no_match r else z) \<longleftrightarrow> \<not> b \<and> sm_ok z"
  by (simp add: no_match_def)

definition match_outcome :: "single_match \<Rightarrow> bool" where
  "match_outcome m \<longleftrightarrow> (if sm_ok m then sm_reason m = Ent_matched else sm_reason m \<in> set denyPrecedence)"

lemma outcome_if: "r \<in> set denyPrecedence \<Longrightarrow> match_outcome z \<Longrightarrow> match_outcome (if b then no_match r else z)"
  by (simp add: match_outcome_def no_match_def)

lemma outcome_fields: "match_outcome (match_fields g r)"
  by (auto simp: match_outcome_def match_fields_def a_match_def no_match_def denyPrecedence_def split: option.split list.split)

lemma outcome_match: "match_outcome (matchesEntitlement getTime c q)"
  unfolding matchesEntitlement_def by (intro outcome_if outcome_fields) (simp_all add: denyPrecedence_def)

lemma match_reason: "ent_ok getTime q c \<or> sm_reason (matchesEntitlement getTime c q) \<in> set denyPrecedence"
  using outcome_match [of getTime c q] by (auto simp: match_outcome_def split: if_split_asm)

lemma ok_match_fields: "ent_ok getTime q c \<Longrightarrow> matchesEntitlement getTime c q = match_fields (ec_fields c) (eq_fields q)"
  unfolding matchesEntitlement_def ok_if by (simp only: if_False simp_thms)

definition deny_rank :: "EntitlementReason \<Rightarrow> int" where
  "deny_rank r = index_of 0 r denyPrecedence"

lemma deny_rank_range: "r \<in> set denyPrecedence \<Longrightarrow> 0 \<le> deny_rank r \<and> deny_rank r < 9"
  by (auto simp: deny_rank_def denyPrecedence_def)

lemma deny_rank_inject: "r \<in> set denyPrecedence \<Longrightarrow> r' \<in> set denyPrecedence \<Longrightarrow> deny_rank r = deny_rank r' \<longleftrightarrow> r = r'"
  by (auto simp: deny_rank_def denyPrecedence_def)

text \<open>The loop keeps the best reason seen so far, and its rank.\<close>

definition best_reason :: "EntitlementReason set \<Rightarrow> EntitlementReason \<Rightarrow> int \<Rightarrow> bool" where
  "best_reason seen best rank \<longleftrightarrow>
     (if seen = {} then best = Ent_not_found \<and> rank = 9
      else best \<in> seen \<and> rank = deny_rank best \<and> (\<forall>r \<in> seen. deny_rank best \<le> deny_rank r))"

definition refusals :: "(string \<Rightarrow> int option) \<Rightarrow> entitlement_query \<Rightarrow> entitlement_credential list \<Rightarrow> EntitlementReason set" where
  "refusals getTime q cs = (\<lambda>c. sm_reason (matchesEntitlement getTime c q)) ` {c \<in> set cs. \<not> ent_ok getTime q c}"

lemma refusals_subset: "refusals getTime q cs \<subseteq> set denyPrecedence"
  using match_reason by (auto simp: refusals_def)

lemma best_reason_insert:
  assumes "best_reason seen best rank" and "r \<in> set denyPrecedence" and "seen \<subseteq> set denyPrecedence"
  shows "if deny_rank r < rank then best_reason (insert r seen) r (deny_rank r) else best_reason (insert r seen) best rank"
  using assms deny_rank_range [OF assms(2)] by (auto simp: best_reason_def split: if_split_asm)

lemma resolve_best:
  assumes "best_reason seen (rs_bestDeny s) (rs_bestDenyRank s)" and "seen \<subseteq> set denyPrecedence"
  shows "let t = foldl (resolve_step getTime q) s cs in best_reason (seen \<union> refusals getTime q cs) (rs_bestDeny t) (rs_bestDenyRank t)"
  using assms
proof (induction cs arbitrary: s seen)
  case Nil
  then show ?case by (simp add: refusals_def)
next
  case (Cons c cs)
  let ?r = "sm_reason (matchesEntitlement getTime c q)" and ?s = "resolve_step getTime q s c"
  show ?case
  proof (cases "ent_ok getTime q c")
    case True
    then have "rs_bestDeny ?s = rs_bestDeny s" "rs_bestDenyRank ?s = rs_bestDenyRank s" "refusals getTime q (c # cs) = refusals getTime q cs"
      by (auto simp: resolve_step_def Let_def refusals_def)
    with Cons.IH [of seen ?s] Cons.prems show ?thesis by simp
  next
    case False
    then have r: "?r \<in> set denyPrecedence" using match_reason by blast
    have "best_reason (insert ?r seen) (rs_bestDeny ?s) (rs_bestDenyRank ?s)"
      using best_reason_insert [OF Cons.prems(1) r Cons.prems(2)] False deny_rank_range [OF r]
      by (simp add: resolve_step_def Let_def flip: deny_rank_def split: if_split_asm)
    moreover have "insert ?r seen \<union> refusals getTime q cs = seen \<union> refusals getTime q (c # cs)"
      using False by (auto simp: refusals_def)
    ultimately show ?thesis using Cons.IH [of "insert ?r seen" ?s] Cons.prems(2) r by simp
  qed
qed

text \<open>The fields of a match.\<close>

lemma match_fields_ok:
  "sm_ok (match_fields g r) \<Longrightarrow> sm_allowedFields (match_fields g r) = None \<Longrightarrow> r = None"
  "sm_ok (match_fields g r) \<Longrightarrow> sm_allowedFields (match_fields g r) = Some fs \<Longrightarrow> f \<in> set fs \<Longrightarrow>
     (\<forall>h. g = Some h \<longrightarrow> f \<in> set h) \<and> (\<forall>x xs. r = Some (x # xs) \<longrightarrow> f \<in> set (x # xs))"
  by (auto simp: match_fields_def a_match_def no_match_def filter_empty_conv split: option.split_asm list.split_asm if_split_asm)

subsection \<open>Allowed and refused\<close>

text \<open>Allowed exactly when some credential matches; the answer names those that do, in the order given.\<close>

lemma resolve_allows_iff:
  "en_allow (resolveEntitlements getTime cs q) \<longleftrightarrow> (\<exists>c \<in> set cs. ent_ok getTime q c)"
  by (simp add: resolveEntitlements_def Let_def resolve_matched resolve_start_def filter_empty_conv)

lemma matched_credentials: "en_matchedCredentials (resolveEntitlements getTime cs q) = map ec_id (filter (ent_ok getTime q) cs)"
  by (auto simp: resolveEntitlements_def Let_def resolve_matched resolve_start_def filter_empty_conv)

lemma deny_reason_best:
  "\<not> en_allow (resolveEntitlements getTime cs q) \<Longrightarrow>
   best_reason (refusals getTime q cs) (en_reason (resolveEntitlements getTime cs q)) (rs_bestDenyRank (foldl (resolve_step getTime q) resolve_start cs))"
  using resolve_best [of "{}" resolve_start getTime q cs]
  by (auto simp: resolveEntitlements_def Let_def best_reason_def resolve_start_def denyPrecedence_def split: if_split_asm)

text \<open>
  A refusal says why the credential that came closest does not match: its reason is the reason of one of them,
  and none has a more specific one.
\<close>

theorem refusal_is_most_specific:
  assumes "\<not> en_allow (resolveEntitlements getTime cs q)" and "cs \<noteq> []"
  shows "\<exists>c \<in> set cs. en_reason (resolveEntitlements getTime cs q) = sm_reason (matchesEntitlement getTime c q) \<and>
    (\<forall>d \<in> set cs. deny_rank (sm_reason (matchesEntitlement getTime c q)) \<le> deny_rank (sm_reason (matchesEntitlement getTime d q)))"
proof -
  have none: "\<not> ent_ok getTime q c" if "c \<in> set cs" for c using assms(1) that by (auto simp: resolve_allows_iff)
  with assms(2) have "refusals getTime q cs = (\<lambda>c. sm_reason (matchesEntitlement getTime c q)) ` set cs" "set cs \<noteq> {}"
    by (auto simp: refusals_def)
  with deny_reason_best [OF assms(1)] show ?thesis by (auto simp: best_reason_def)
qed

text \<open>
  C27: The decision and its reason depend on which credentials are held, not on their order or repetition.
\<close>

theorem decision_ignores_order:
  assumes "set cs = set ds"
  shows "en_allow (resolveEntitlements getTime cs q) = en_allow (resolveEntitlements getTime ds q) \<and>
    en_reason (resolveEntitlements getTime cs q) = en_reason (resolveEntitlements getTime ds q)"
proof -
  have a: "en_allow (resolveEntitlements getTime cs q) = en_allow (resolveEntitlements getTime ds q)"
    using assms by (simp add: resolve_allows_iff)
  show ?thesis
  proof (cases "en_allow (resolveEntitlements getTime cs q)")
    case True
    with a show ?thesis by (auto simp: resolveEntitlements_def Let_def split: if_split_asm)
  next
    case False
    have r: "refusals getTime q cs = refusals getTime q ds" using assms by (simp add: refusals_def)
    have "deny_rank x = deny_rank y \<Longrightarrow> x = y" if "x \<in> refusals getTime q ds" "y \<in> refusals getTime q ds" for x y
      using deny_rank_inject refusals_subset that by blast
    with deny_reason_best [OF False] deny_reason_best [of getTime ds q] a False r show ?thesis
      by (auto simp: best_reason_def split: if_split_asm) (meson order_antisym)+
  qed
qed

text \<open>C25: What is shown was granted by a credential that matches, and asked for if anything was.\<close>

theorem allowed_fields_are_granted:
  assumes "en_allow (resolveEntitlements getTime cs q)"
    and "en_allowedFields (resolveEntitlements getTime cs q) = Some fs" and "f \<in> set fs"
  shows "(\<exists>c \<in> set cs. ent_ok getTime q c \<and> (\<forall>g. ec_fields c = Some g \<longrightarrow> f \<in> set g)) \<and>
    (\<forall>r rs. eq_fields q = Some (r # rs) \<longrightarrow> f \<in> set (r # rs))"
proof -
  let ?s = "foldl (resolve_step getTime q) resolve_start cs"
  have "(\<exists>c \<in> set cs. ent_ok getTime q c \<and> (\<exists>gs. sm_allowedFields (matchesEntitlement getTime c q) = Some gs \<and> f \<in> set gs))"
  proof (cases "rs_unrestricted ?s")
    case True
    then obtain c where c: "c \<in> set cs" "ent_ok getTime q c" "sm_allowedFields (matchesEntitlement getTime c q) = None"
      by (auto simp: resolve_unrestricted resolve_start_def)
    then have "eq_fields q = None" using ok_match_fields [OF c(2)] match_fields_ok(1) [of "ec_fields c" "eq_fields q"] by simp
    with True assms show ?thesis by (auto simp: resolveEntitlements_def Let_def split: if_split_asm)
  next
    case False
    with assms have "f \<in> set (rs_allowedFields ?s)" by (auto simp: resolveEntitlements_def Let_def split: if_split_asm)
    then show ?thesis by (auto simp: resolve_fields resolve_start_def split: option.split_asm)
  qed
  then obtain c gs where c: "c \<in> set cs" "ent_ok getTime q c" "sm_allowedFields (matchesEntitlement getTime c q) = Some gs" "f \<in> set gs"
    by blast
  have "(\<forall>g. ec_fields c = Some g \<longrightarrow> f \<in> set g) \<and> (\<forall>r rs. eq_fields q = Some (r # rs) \<longrightarrow> f \<in> set (r # rs))"
    using c(2,3,4) match_fields_ok(2) [of "ec_fields c" "eq_fields q" gs f] unfolding ok_match_fields [OF c(2)] by blast
  with c(1,2) show ?thesis by blast
qed

text \<open>More credentials never take access away.\<close>

lemma more_credentials_allow_more:
  "en_allow (resolveEntitlements getTime cs q) \<Longrightarrow> set cs \<subseteq> set ds \<Longrightarrow> en_allow (resolveEntitlements getTime ds q)"
  by (auto simp: resolve_allows_iff)

subsection \<open>Constraints\<close>

lemma resolve_constraints_append:
  "resolveEntitlements getTime (cs @ [c]) q =
     (let s = resolve_step getTime q (foldl (resolve_step getTime q) resolve_start cs) c in
      if rs_matched s = []
      then \<lparr>en_allow = False, en_reason = rs_bestDeny s, en_matchedCredentials = [], en_allowedFields = None, en_constraints = None\<rparr>
      else \<lparr>en_allow = True, en_reason = Ent_matched, en_matchedCredentials = rs_matched s,
            en_allowedFields = (if rs_unrestricted s then eq_fields q else Some (rs_allowedFields s)),
            en_constraints = rs_constraints s\<rparr>)"
  by (simp add: resolveEntitlements_def)

text \<open>
  The merge lets the last matching credential decide each flag, also to switch a restriction off: whatever the
  others demand, a credential that says \<open>noPersist: false\<close> at the end lifts it.
\<close>

theorem last_credential_lifts_restriction:
  assumes "ent_ok getTime q c" and "ec_constraints c = Some flags" and "flags flag = Some False"
  shows "\<exists>merged. en_constraints (resolveEntitlements getTime (cs @ [c]) q) = Some merged \<and> merged flag = Some False"
  using assms
  by (auto simp: resolve_constraints_append Let_def resolve_step_def merge_constraints_def map_add_def split: option.split)

text \<open>
  A query with an empty list of fields gets no field under a credential for all fields, and every field under a
  credential for some.
\<close>

lemma empty_request_reversed:
  "sm_allowedFields (match_fields None (Some [])) = Some []" "sm_allowedFields (match_fields (Some g) (Some [])) = Some g"
  by (simp_all add: match_fields_def a_match_def)

text \<open>Validity dates that cannot be read bound nothing.\<close>

lemma unreadable_credential_dates:
  assumes "getTime (ec_validFrom c) = None" and "ec_validUntil c = Some u" and "getTime u = None"
  shows "matchesEntitlement getTime c q = matchesEntitlement getTime c (q\<lparr>eq_at := t\<rparr>)"
  using assms by (cases q) (simp add: matchesEntitlement_def cong: option.case_cong)

subsection \<open>Credentials to evaluate the definitions on\<close>

definition demo_entitlement :: "string \<Rightarrow> string list option \<Rightarrow> bool \<Rightarrow> entitlement_credential" where
  "demo_entitlement name fs persist =
     \<lparr>ec_id = name, ec_validFrom = ''start'', ec_validUntil = None, ec_actor = ''0xb0b'', ec_principal = None, ec_audience = ''vault'',
      ec_resource = ''profile'', ec_actions = [''read''], ec_fields = fs, ec_purpose = None,
      ec_classificationCeiling = Some ''pii.low'', ec_constraints = Some [''noPersist'' \<mapsto> persist]\<rparr>"

definition demo_entitlement_query :: "string \<Rightarrow> entitlement_query" where
  "demo_entitlement_query action =
     \<lparr>eq_actor = ''0xb0b'', eq_principal = None, eq_audience = ''vault'', eq_resource = ''profile'', eq_action = action,
      eq_fields = Some [''email''], eq_purpose = None, eq_classification = Some ''internal'', eq_at = 5\<rparr>"

definition demo_dates :: "string \<Rightarrow> int option" where
  "demo_dates s = (if s = ''start'' then Some 0 else None)"

lemmas demo_entitlement_defs = demo_entitlement_def demo_entitlement_query_def demo_dates_def

lemma demo_entitlement_matches:
  "matchesEntitlement demo_dates (demo_entitlement name (Some [''name'', ''email'']) p) (demo_entitlement_query ''read'') = a_match (Some [''email''])"
  "matchesEntitlement demo_dates (demo_entitlement name (Some [''name'']) p) (demo_entitlement_query ''read'') = no_match Field_denied"
  "matchesEntitlement demo_dates (demo_entitlement name fs p) (demo_entitlement_query ''write'') = no_match Action_denied"
  by (simp_all add: matchesEntitlement_def demo_entitlement_defs match_fields_def classificationRank_def CLASSIFICATION_ORDER_def
      eq_ci_def [of "''read''" "''write''"] toLowerCase_def lower_char_def)

theorem refusal_is_most_specific_witness:
  "en_reason (resolveEntitlements demo_dates [demo_entitlement ''c'' (Some [''name'']) True] (demo_entitlement_query ''read'')) = Field_denied"
proof -
  let ?cs = "[demo_entitlement ''c'' (Some [''name'']) True]" and ?q = "demo_entitlement_query ''read''"
  have "\<not> en_allow (resolveEntitlements demo_dates ?cs ?q)"
    by (simp add: resolve_allows_iff demo_entitlement_matches no_match_def)
  from refusal_is_most_specific [OF this] show ?thesis by (simp add: demo_entitlement_matches no_match_def)
qed

theorem decision_ignores_order_witness:
  "let c = demo_entitlement ''c'' (Some [''name'', ''email'']) True; d = demo_entitlement ''d'' (Some [''name'']) False;
       q = demo_entitlement_query ''read''
   in en_allow (resolveEntitlements demo_dates [c, d] q) = en_allow (resolveEntitlements demo_dates [d, c, d] q)"
  using decision_ignores_order [of "[demo_entitlement ''c'' (Some [''name'', ''email'']) True, demo_entitlement ''d'' (Some [''name'']) False]"
      "[demo_entitlement ''d'' (Some [''name'']) False, demo_entitlement ''c'' (Some [''name'', ''email'']) True,
        demo_entitlement ''d'' (Some [''name'']) False]" demo_dates "demo_entitlement_query ''read''"]
  unfolding Let_def by (simp add: insert_commute)

theorem allowed_fields_are_granted_witness:
  "let cs = [demo_entitlement ''c'' (Some [''name'', ''email'']) True] in
   en_allow (resolveEntitlements demo_dates cs (demo_entitlement_query ''read'')) \<and>
   (\<exists>c \<in> set cs. ent_ok demo_dates (demo_entitlement_query ''read'') c \<and> (\<forall>g. ec_fields c = Some g \<longrightarrow> ''email'' \<in> set g))"
proof -
  let ?cs = "[demo_entitlement ''c'' (Some [''name'', ''email'']) True]" and ?q = "demo_entitlement_query ''read''"
  have a: "en_allow (resolveEntitlements demo_dates ?cs ?q)" by (simp add: resolve_allows_iff demo_entitlement_matches a_match_def)
  have "en_allowedFields (resolveEntitlements demo_dates ?cs ?q) = Some [''email'']"
    by (simp add: resolveEntitlements_def Let_def resolve_step_def resolve_start_def demo_entitlement_matches a_match_def add_to_set_def)
  from allowed_fields_are_granted [OF a this, of "''email''"] a show ?thesis by (simp add: Let_def)
qed

lemma demo_entitlement_flags: "ec_constraints (demo_entitlement name fs p) = Some [''noPersist'' \<mapsto> p]"
  by (simp add: demo_entitlement_def)

theorem last_credential_lifts_restriction_witness:
  "\<exists>merged. en_constraints (resolveEntitlements demo_dates
      [demo_entitlement ''c'' (Some [''email'']) True, demo_entitlement ''d'' (Some [''name'', ''email'']) False] (demo_entitlement_query ''read'')) =
      Some merged \<and> merged ''noPersist'' = Some False"
  using last_credential_lifts_restriction [where getTime = demo_dates and q = "demo_entitlement_query ''read''"
      and c = "demo_entitlement ''d'' (Some [''name'', ''email'']) False" and flags = "[''noPersist'' \<mapsto> False]" and flag = "''noPersist''"
      and cs = "[demo_entitlement ''c'' (Some [''email'']) True]"]
  by (simp add: demo_entitlement_matches a_match_def demo_entitlement_flags)

end
