(* ===== verification/Vault.thy ===== *)
theory Vault
  imports SessionProperties KeyGrants Entitlements
begin

section \<open>The vault\<close>

text \<open>
  \<open>packages/vault/src\<close>: the in-memory adapter of the vault seam (\<open>vault.ts\<close>), the classification of its objects
  (\<open>types.ts\<close>), and the sealed envelope under a wrapped data key (\<open>envelope.ts\<close>), whose wrapper is the key provider
  of \<open>packages/key-custody\<close>. A payload is a JSON value. The theory shows that the adapter implements a map from
  objects to their last write, that a sealed payload opens to itself with the local provider, and to which
  object an envelope is bound.
\<close>

subsection \<open>The in-memory adapter\<close>

definition SENSITIVE_CLASSIFICATIONS :: "string list" where
  "SENSITIVE_CLASSIFICATIONS =
     [''pii.low'', ''pii.sensitive'', ''secret.high'', ''delegation.private'', ''entitlement.private'', ''agent.memory.private'',
      ''regulated.high'']"

definition isSensitiveClassification :: "string \<Rightarrow> bool" where
  "isSensitiveClassification c \<longleftrightarrow> c \<in> set SENSITIVE_CLASSIFICATIONS"

record vault_row =
  vw_classification :: string
  vw_data :: json
  vw_updatedAt :: string
  vw_deleted :: bool

record vault_object =
  vo_owner :: string
  vo_resource :: string
  vo_class :: string
  vo_data :: json
  vo_updatedAt :: string

record vault_ref =
  vf_resource :: string
  vf_class :: string
  vf_updatedAt :: string

text \<open>The rows in the order they were first written.\<close>

type_synonym vault_store = "(string \<times> vault_row) list"

definition vault_key :: "string \<Rightarrow> string \<Rightarrow> string" where
  "vault_key owner resource = toLowerCase owner @ '' '' @ resource"

text \<open>
  \<open>f in src\<close> also sees the members every object inherits from its prototype; they are a parameter (functions, so
  no JSON values of their own).
\<close>

definition projectFields :: "(string \<rightharpoonup> json) \<Rightarrow> json \<Rightarrow> string list option \<Rightarrow> json" where
  "projectFields inherited data fs =
     (case fs of
        None \<Rightarrow> data
      | Some [] \<Rightarrow> data
      | Some (f # rest) \<Rightarrow>
          (case data of
             Obj ms \<Rightarrow>
               Obj (foldl (\<lambda>out g. case (inherited ++ map_of ms) g of Some v \<Rightarrow> upsert g v out | None \<Rightarrow> out) [] (f # rest))
           | _ \<Rightarrow> data))"

definition vault_read :: "(string \<rightharpoonup> json) \<Rightarrow> string \<Rightarrow> string \<Rightarrow> string list option \<Rightarrow> vault_store \<Rightarrow> vault_object option" where
  "vault_read inherited owner resource fs store =
     (case map_of store (vault_key owner resource) of
        None \<Rightarrow> None
      | Some row \<Rightarrow>
          if vw_deleted row then None
          else Some \<lparr>vo_owner = toLowerCase owner, vo_resource = resource, vo_class = vw_classification row,
                 vo_data = projectFields inherited (vw_data row) fs, vo_updatedAt = vw_updatedAt row\<rparr>)"

definition vault_write :: "string \<Rightarrow> string \<Rightarrow> json \<Rightarrow> string option \<Rightarrow> string \<Rightarrow> vault_store \<Rightarrow> vault_store" where
  "vault_write owner resource data classification now store =
     (let k = vault_key owner resource in
      if data = Null then
        (case map_of store k of
           None \<Rightarrow> store
         | Some existing \<Rightarrow> upsert k (existing\<lparr>vw_deleted := True, vw_updatedAt := now\<rparr>) store)
      else upsert k
        \<lparr>vw_classification = (case classification of
             Some c \<Rightarrow> c
           | None \<Rightarrow> (case map_of store k of Some existing \<Rightarrow> vw_classification existing | None \<Rightarrow> ''internal'')),
         vw_data = data, vw_updatedAt = now, vw_deleted = False\<rparr> store)"

text \<open>The listing is sorted with \<open>localeCompare\<close>, whose order is the platform's.\<close>

definition vault_list :: "(vault_ref list \<Rightarrow> vault_ref list) \<Rightarrow> string \<Rightarrow> vault_store \<Rightarrow> vault_ref list" where
  "vault_list sort_refs owner store =
     (let prefix = toLowerCase owner @ '' '' in
      sort_refs (map (\<lambda>(k, row). \<lparr>vf_resource = drop (length prefix) k, vf_class = vw_classification row, vf_updatedAt = vw_updatedAt row\<rparr>)
        (filter (\<lambda>(k, row). startsWith k prefix \<and> \<not> vw_deleted row) store)))"

subsection \<open>Sealed envelopes\<close>

record sealed_envelope =
  sv_owner :: string
  sv_resource :: string
  sv_classification :: string
  sv_alg :: string
  sv_dekKid :: string
  sv_keyVersion :: string
  sv_aadHash :: string
  sv_createdAt :: string

record sealed =
  sl_envelope :: sealed_envelope
  sl_ciphertext :: bytes
  sl_wrappedDek :: bytes

definition aadContext :: "string \<Rightarrow> string \<Rightarrow> string \<Rightarrow> string \<Rightarrow> aad_context" where
  "aadContext owner resource classification keyVersion =
     [(''owner'', toLowerCase owner), (''resource'', resource), (''classification'', classification), (''keyVersion'', keyVersion),
      (''profile'', ''agentic-delegated-vault-v1'')]"

definition wrapContext :: "string \<Rightarrow> string \<Rightarrow> string \<Rightarrow> aad_context" where
  "wrapContext owner resource classification =
     [(''owner'', toLowerCase owner), (''resource'', resource), (''classification'', classification),
      (''profile'', ''agentic-delegated-vault-v1'')]"

definition canonicalAadBytes :: "aad_context \<Rightarrow> bytes" where
  "canonicalAadBytes ctx =
     TextEncoder (join [CHR 0x0A] (map (\<lambda>k. k @ ''='' @ (case map_of ctx k of Some v \<Rightarrow> v | None \<Rightarrow> ''undefined'')) (sort (map fst ctx))))"

definition aad_hash :: "(bytes \<Rightarrow> bytes) \<Rightarrow> bytes \<Rightarrow> string" where
  "aad_hash sha b = ''sha256:'' @ bytes_hex (sha b)"

definition IV_BYTES :: nat where "IV_BYTES = 12"

definition sealEnvelope ::
  "(bytes \<Rightarrow> bytes) \<Rightarrow> platform \<Rightarrow> 'p provider_ops \<Rightarrow> string \<Rightarrow> string \<Rightarrow> string \<Rightarrow> json \<Rightarrow> bytes \<Rightarrow> string \<Rightarrow> 'p \<Rightarrow> sealed js \<times> 'p" where
  "sealEnvelope sha pf wrapper owner resource classification data iv now p =
     (let own = toLowerCase owner in
      case kp_generateSessionDataKey wrapper (wrapContext own resource classification) p of
        (Inl e, p') \<Rightarrow> (Inl e, p')
      | (Inr dk, p') \<Rightarrow>
          let aadBytes = canonicalAadBytes (aadContext own resource classification (dk_keyVersion dk)) in
          (js_bind (pf_aesEncrypt pf (plaintextDataKey dk) iv (TextEncoder (print data)) aadBytes) (\<lambda>ct.
             Inr \<lparr>sl_envelope =
                    \<lparr>sv_owner = own, sv_resource = resource, sv_classification = classification, sv_alg = ''A256GCM'',
                     sv_dekKid = dk_keyId dk, sv_keyVersion = dk_keyVersion dk, sv_aadHash = aad_hash sha aadBytes, sv_createdAt = now\<rparr>,
                  sl_ciphertext = iv @ ct, sl_wrappedDek = encryptedDataKey dk\<rparr>), p'))"

text \<open>The \<open>crypto\<close> block of a received envelope can be missing.\<close>

definition openEnvelope ::
  "(bytes \<Rightarrow> bytes) \<Rightarrow> platform \<Rightarrow> 'p provider_ops \<Rightarrow> sealed_envelope option \<Rightarrow> bytes \<Rightarrow> bytes \<Rightarrow> 'p \<Rightarrow> json js \<times> 'p" where
  "openEnvelope sha pf wrapper envelope ciphertext wrappedDek p =
     (case envelope of
        None \<Rightarrow> (Inl (Error ''openEnvelope: envelope has no crypto block (plaintext envelope?)''), p)
      | Some ev \<Rightarrow>
          if sv_alg ev \<noteq> ''A256GCM'' then (Inl (Error (''openEnvelope: unsupported alg '' @ sv_alg ev)), p)
          else let aadBytes = canonicalAadBytes (aadContext (sv_owner ev) (sv_resource ev) (sv_classification ev) (sv_keyVersion ev)) in
          if aad_hash sha aadBytes \<noteq> sv_aadHash ev
          then (Inl (Error ''openEnvelope: AAD hash mismatch (owner/resource/classification/keyVersion tampered)''), p)
          else case kp_decryptSessionDataKey wrapper wrappedDek (wrapContext (sv_owner ev) (sv_resource ev) (sv_classification ev))
                      (sv_dekKid ev) (sv_keyVersion ev) p of
            (Inl e, p') \<Rightarrow> (Inl e, p')
          | (Inr dek, p') \<Rightarrow>
              (js_bind (pf_aesDecrypt pf dek (take IV_BYTES ciphertext) (drop IV_BYTES ciphertext) aadBytes) (\<lambda>pt.
                 case JSON_parse (TextDecoder pt) of Some v \<Rightarrow> Inr v | None \<Rightarrow> Inl SyntaxError), p'))"

section \<open>What the adapter implements\<close>

subsection \<open>Association lists as maps\<close>

lemma rows_upsert [simp]: "map_of (upsert k v ms) = (map_of ms)(k \<mapsto> v)"
  by (induction ms) (auto simp: fun_eq_iff)

lemma set_keys_upsert: "set (map fst (upsert k v ms)) = insert k (set (map fst ms))"
  by (induction k v ms rule: upsert.induct) auto

lemma distinct_rows [simp]: "distinct (map fst ms) \<Longrightarrow> distinct (map fst (upsert k v ms))"
proof (induction ms)
  case (Cons m ms)
  obtain a b where m: "m = (a, b)" by (cases m)
  show ?case using Cons set_keys_upsert [of k v ms] by (simp add: m)
qed simp

subsection \<open>Objects and their last write\<close>




definition no_space :: "string \<Rightarrow> bool" where
  "no_space s \<longleftrightarrow> CHR '' '' \<notin> set s"







type_synonym vault_op = "string \<times> string \<times> json \<times> string option \<times> string"

definition vault_run :: "vault_op list \<Rightarrow> vault_store \<Rightarrow> vault_store" where
  "vault_run ops store = foldl (\<lambda>s (owner, resource, data, classification, now). vault_write owner resource data classification now s) store ops"








text \<open>With a space in an owner's name two objects share a row.\<close>

lemma vault_keys_collide: "vault_key ''a'' ''b c'' = vault_key ''a b'' ''c''"
  by (simp add: vault_key_def toLowerCase_def lower_char_def)

text \<open>The listing names exactly the live objects of the owner.\<close>

lemma write_keys:
  "set (map fst (vault_write owner resource data c now store)) \<subseteq> insert (vault_key owner resource) (set (map fst store))"
  by (cases "map_of store (vault_key owner resource)") (auto simp: vault_write_def Let_def set_keys_upsert simp del: set_map)

lemma run_keys:
  assumes "\<forall>(owner, x) \<in> set ops. no_space owner" and "k \<in> set (map fst (vault_run ops []))"
  shows "\<exists>owner r. no_space owner \<and> k = vault_key owner r"
proof -
  have "\<forall>(owner, x) \<in> set ops. no_space owner \<Longrightarrow> k \<in> set (map fst (vault_run ops store)) \<Longrightarrow>
      k \<in> set (map fst store) \<or> (\<exists>owner r. no_space owner \<and> k = vault_key owner r)" for ops store
  proof (induction ops arbitrary: store)
    case (Cons op ops)
    obtain owner resource data c now where op: "op = (owner, resource, data, c, now)" by (cases op)
    have "k \<in> set (map fst (vault_run ops (vault_write owner resource data c now store)))" "no_space owner"
      using Cons.prems by (simp_all add: op vault_run_def)
    moreover have "\<forall>(owner, x) \<in> set ops. no_space owner" using Cons.prems(1) by simp
    ultimately have "k \<in> set (map fst (vault_write owner resource data c now store)) \<or> (\<exists>owner r. no_space owner \<and> k = vault_key owner r)"
      using Cons.IH by blast
    with \<open>no_space owner\<close> write_keys [of owner resource data c now store] show ?case by blast
  qed (simp add: vault_run_def)
  from this [OF assms] show ?thesis by simp
qed

lemma distinct_write: "distinct (map fst store) \<Longrightarrow> distinct (map fst (vault_write owner resource data c now store))"
  by (simp add: vault_write_def Let_def split: option.split)

lemma distinct_run: "distinct (map fst store) \<Longrightarrow> distinct (map fst (vault_run ops store))"
proof (induction ops arbitrary: store)
  case (Cons op ops)
  then show ?case using distinct_write by (cases op) (simp add: vault_run_def)
qed (simp add: vault_run_def)

lemma startsWith_split: "startsWith k p \<and> drop (length p) k = q \<longleftrightarrow> k = p @ q"
  unfolding startsWith_def by (metis append_eq_conv_conj append_take_drop_id)

theorem listed_iff_live:
  assumes "\<forall>(owner, x) \<in> set ops. no_space owner" and "no_space ow" and "\<And>xs. set (sort_refs xs) = set xs"
  shows "r \<in> vf_resource ` set (vault_list sort_refs ow (vault_run ops [])) \<longleftrightarrow>
    vault_read inherited ow r None (vault_run ops []) \<noteq> None"
proof -
  let ?store = "vault_run ops []"
  have d: "distinct (map fst ?store)" by (rule distinct_run) simp
  have key: "startsWith k (toLowerCase ow @ '' '') \<and> drop (length (toLowerCase ow @ '' '')) k = q \<longleftrightarrow> k = vault_key ow q" for k q
    using startsWith_split [of k "toLowerCase ow @ '' ''" q] by (simp add: vault_key_def)
  let ?p = "toLowerCase ow @ '' ''"
  have "r \<in> vf_resource ` set (vault_list sort_refs ow ?store) \<longleftrightarrow>
      (\<exists>k row. (k, row) \<in> set ?store \<and> \<not> vw_deleted row \<and> startsWith k ?p \<and> drop (length ?p) k = r)"
    unfolding vault_list_def Let_def assms(3) set_map image_image set_filter by (simp add: image_iff case_prod_beta Bex_def) blast
  also have "\<dots> \<longleftrightarrow> (\<exists>row. (vault_key ow r, row) \<in> set ?store \<and> \<not> vw_deleted row)"
    unfolding key by blast
  also have "\<dots> \<longleftrightarrow> (\<exists>row. map_of ?store (vault_key ow r) = Some row \<and> \<not> vw_deleted row)"
    using d by (metis map_of_eq_Some_iff)
  also have "\<dots> \<longleftrightarrow> vault_read inherited ow r None ?store \<noteq> None"
    by (auto simp: vault_read_def split: option.split)
  finally show ?thesis .
qed

theorem listed_iff_live_witness:
  "''contacts'' \<in> vf_resource ` set (vault_list id ''0xAB'' (vault_run [(''0xAB'', ''contacts'', Str ''x'', None, ''t1'')] []))"
  by (subst listed_iff_live [where inherited = Map.empty]) (simp_all add: no_space_def vault_run_def vault_write_def vault_read_def)

section \<open>What an envelope is bound to\<close>

subsection \<open>Sealed payloads open\<close>

text \<open>What the envelope asks of its key wrapper; every provider of session keys gives it.\<close>

locale dek_wrapper =
  fixes kp :: "'p provider_ops"
  assumes unwrap: "fst (kp_generateSessionDataKey kp ctx p) = Inr dk \<Longrightarrow>
      fst (kp_decryptSessionDataKey kp (encryptedDataKey dk) ctx keyId (dk_keyVersion dk) p') = Inr (plaintextDataKey dk)"
begin

lemma sealed_opens:
  assumes "platform_laws pf" and "sealEnvelope sha pf kp owner resource classification data iv now p = (Inr s, p1)"
    and "length iv = IV_BYTES" and "wf_json data"
  shows "fst (openEnvelope sha pf kp (Some (sl_envelope s)) (sl_ciphertext s) (sl_wrappedDek s) p2) = Inr data"
proof -
  let ?own = "toLowerCase owner"
  obtain dk p' where g: "kp_generateSessionDataKey kp (wrapContext ?own resource classification) p = (Inr dk, p')"
    using assms(2) by (auto simp: sealEnvelope_def Let_def split: prod.split_asm sum.split_asm)
  let ?aad = "canonicalAadBytes (aadContext ?own resource classification (dk_keyVersion dk))"
  from assms(2) g obtain ct where ct: "pf_aesEncrypt pf (plaintextDataKey dk) iv (TextEncoder (print data)) ?aad = Inr ct"
    and s: "s = \<lparr>sl_envelope = \<lparr>sv_owner = ?own, sv_resource = resource, sv_classification = classification, sv_alg = ''A256GCM'',
          sv_dekKid = dk_keyId dk, sv_keyVersion = dk_keyVersion dk, sv_aadHash = aad_hash sha ?aad, sv_createdAt = now\<rparr>,
        sl_ciphertext = iv @ ct, sl_wrappedDek = encryptedDataKey dk\<rparr>"
    by (auto simp: sealEnvelope_def Let_def)
  have k: "fst (kp_decryptSessionDataKey kp (encryptedDataKey dk) (wrapContext ?own resource classification) (dk_keyId dk) (dk_keyVersion dk) p2)
      = Inr (plaintextDataKey dk)"
    using unwrap [of "wrapContext ?own resource classification" p dk] by (simp add: g)
  moreover have "pf_aesDecrypt pf (plaintextDataKey dk) iv ct ?aad = Inr (TextEncoder (print data))" by (rule aes_undo [OF assms(1) ct])
  ultimately show ?thesis
    using assms(3) JSON_parse_print [OF assms(4)] by (simp add: openEnvelope_def s Let_def case_prod_beta split: prod.split sum.split)
qed

end

interpretation local_dek: dek_wrapper "local_provider_ops lib env m salt" for lib env m salt
  by unfold_locales (simp add: local_envelope.unwrap)

sublocale envelope_provider \<subseteq> dek: dek_wrapper kp
  by unfold_locales (simp add: unwrap)

text \<open>
  What was sealed under the local key provider opens to the same payload, whatever the provider did in
  between.
\<close>

theorem sealed_payload_opens:
  assumes "platform_laws pf"
    and "sealEnvelope sha pf (local_provider_ops lib env m salt) owner resource classification data iv now p = (Inr s, p1)"
    and "length iv = IV_BYTES" and "wf_json data"
  shows "fst (openEnvelope sha pf (local_provider_ops lib env m salt) (Some (sl_envelope s)) (sl_ciphertext s) (sl_wrappedDek s) p2) = Inr data"
  by (rule local_dek.sealed_opens [OF assms])

text \<open>A platform whose ciphertext names the key and the additional data it was made with.\<close>

definition vault_platform :: platform where
  "vault_platform = demo_platform
     \<lparr>pf_aesEncrypt := \<lambda>k iv pt aad. Inr (seal aad (seal k pt)),
      pf_aesDecrypt := \<lambda>k iv ct aad. case Option.bind (unseal aad ct) (unseal k) of Some pt \<Rightarrow> Inr pt | None \<Rightarrow> Inl (Error ''OperationError'')\<rparr>"

lemma vault_platform_laws: "platform_laws vault_platform"
  by (simp add: platform_laws_def vault_platform_def demo_platform_def unseal_seal BigInt_text_int_str demo_kms_lib_def toHex_def)

definition demo_dek :: "string list provider_ops" where
  "demo_dek = local_provider_ops demo_kms_lib dev_env \<lparr>la_master = replicate 32 9\<rparr> [5]"

lemma demo_dek_wraps:
  "kp_generateSessionDataKey demo_dek aad [] =
     (Inr \<lparr>plaintextDataKey = local_data_key demo_kms_lib \<lparr>la_master = replicate 32 9\<rparr> [5] aad, encryptedDataKey = [5],
           dk_keyId = ''local-master'', dk_keyVersion = local_keyVersion\<rparr>, [])"
  by (simp add: demo_dek_def local_provider_ops_def generateSessionDataKey_def assertLocalProviderAllowedInProduction_def
      isProductionEnvironment_def env_try_def dev_env_def)

lemma demo_sealed:
  obtains s where "sealEnvelope id vault_platform demo_dek ''0xAb'' ''contacts'' ''pii.low'' (Str ''x'') (replicate 12 0) ''now'' [] = (Inr s, [])"
    and "toLowerCase (sv_owner (sl_envelope s)) = toLowerCase ''0xAb''" and "sv_resource (sl_envelope s) = ''contacts''"
    and "sv_classification (sl_envelope s) = ''pii.low''"
  by (simp add: sealEnvelope_def demo_dek_wraps Let_def vault_platform_def toLowerCase_def lower_char_def)

theorem sealed_payload_opens_witness:
  "\<exists>s::sealed. fst (openEnvelope id vault_platform demo_dek (Some (sl_envelope s)) (sl_ciphertext s) (sl_wrappedDek s) [''later'']) = Inr (Str ''x'')"
proof -
  obtain s where s: "sealEnvelope id vault_platform demo_dek ''0xAb'' ''contacts'' ''pii.low'' (Str ''x'') (replicate 12 0) ''now'' [] = (Inr s, [])"
    by (rule demo_sealed)
  have "fst (openEnvelope id vault_platform demo_dek (Some (sl_envelope s)) (sl_ciphertext s) (sl_wrappedDek s) [''later'']) = Inr (Str ''x'')"
    using sealed_payload_opens [OF vault_platform_laws s [unfolded demo_dek_def]] unfolding demo_dek_def
    by (simp add: IV_BYTES_def)
  then show ?thesis by (rule exI [of _ s])
qed

subsection \<open>Relabelled envelopes do not open\<close>

lemma wrap_plain: "plain_keys (wrapContext owner resource classification)"
  by (simp add: plain_keys_def wrapContext_def)

lemma wrapContext_rows:
  "map_of (wrapContext a r c) ''owner'' = Some (toLowerCase a)"
  "map_of (wrapContext a r c) ''resource'' = Some r"
  "map_of (wrapContext a r c) ''classification'' = Some c"
  by (simp_all add: wrapContext_def)

lemma wrapContext_inject:
  assumes "map_of (wrapContext a r c) = map_of (wrapContext b q d)"
  shows "eq_ci a b \<and> r = q \<and> c = d"
  using fun_cong [OF assms, of "''owner''"] fun_cong [OF assms, of "''resource''"] fun_cong [OF assms, of "''classification''"]
  unfolding wrapContext_rows eq_ci_def by blast

text \<open>
  A seal: the salt of its key and what was sealed as which object. It encrypts \<open>pt\<close> with the additional data \<open>aad\<close>
  under the key \<open>k\<close>.
\<close>

record seal_call =
  sc_salt :: bytes
  sc_owner :: string
  sc_resource :: string
  sc_classification :: string
  sc_data :: json

definition seal_context :: "seal_call \<Rightarrow> aad_context" where
  "seal_context c = wrapContext (sc_owner c) (sc_resource c) (sc_classification c)"

definition sealed_under :: "kms_lib \<Rightarrow> local_aes \<Rightarrow> seal_call \<Rightarrow> bytes \<Rightarrow> bytes \<Rightarrow> bytes \<Rightarrow> bool" where
  "sealed_under lib m c k aad pt \<longleftrightarrow>
     k = local_data_key lib m (sc_salt c) (seal_context c) \<and>
     aad = canonicalAadBytes (aadContext (toLowerCase (sc_owner c)) (sc_resource c) (sc_classification c) local_keyVersion) \<and>
     pt = TextEncoder (print (sc_data c))"

lemma seal_encrypts:
  assumes "sealEnvelope sha pf (local_provider_ops lib env m salt) owner resource classification data iv now p = (Inr s, p1)"
  shows "\<exists>k aad pt ct. sealed_under lib m \<lparr>sc_salt = salt, sc_owner = owner, sc_resource = resource, sc_classification = classification,
      sc_data = data\<rparr> k aad pt \<and> pf_aesEncrypt pf k iv pt aad = Inr ct \<and> sl_ciphertext s = iv @ ct \<and> sl_wrappedDek s = salt"
proof -
  have w: "wrapContext (toLowerCase owner) resource classification = wrapContext owner resource classification" by (simp add: wrapContext_def)
  obtain dk p' where g: "kp_generateSessionDataKey (local_provider_ops lib env m salt) (wrapContext owner resource classification) p = (Inr dk, p')"
    using assms by (auto simp: sealEnvelope_def Let_def w split: prod.split_asm sum.split_asm)
  then have "plaintextDataKey dk = local_data_key lib m salt (wrapContext owner resource classification)" "encryptedDataKey dk = salt"
    "dk_keyVersion dk = local_keyVersion"
    using generate_Inr [of lib env m salt "wrapContext owner resource classification" p dk] by (simp_all add: local_provider_ops_def)
  with assms g show ?thesis by (auto simp: sealEnvelope_def Let_def w sealed_under_def seal_context_def)
qed

text \<open>
  C19: With the local key provider, whatever opens as an object was sealed as that object. Whoever can rewrite the
  labels of an envelope, the hash over them included, its ciphertext and its wrapped key, gets nothing else: if it
  opens, then one of the seals was made for the owner, resource and class the labels name, and the answer is its
  payload. The hypotheses are that the ciphertext, if it decrypts under the key of the labels, was encrypted under
  that key by one of the seals (AES-GCM authenticates), that the key derivation does not collide between the labels'
  context and a seal's, and that sealed payloads are JSON.
\<close>

theorem relabelled_envelope_stays_shut:
  fixes Seals :: "seal_call set"
  assumes opened: "fst (openEnvelope sha pf (local_provider_ops lib env m salt) (Some ev) ciphertext wrapped p) = Inr v"
    and integrity: "\<And>aad pt. pf_aesDecrypt pf
        (local_data_key lib m wrapped (wrapContext (sv_owner ev) (sv_resource ev) (sv_classification ev)))
        (take IV_BYTES ciphertext) (drop IV_BYTES ciphertext) aad = Inr pt \<Longrightarrow>
      \<exists>c \<in> Seals. sealed_under lib m c
        (local_data_key lib m wrapped (wrapContext (sv_owner ev) (sv_resource ev) (sv_classification ev))) aad pt"
    and hkdf: "\<And>c. c \<in> Seals \<Longrightarrow> local_data_key lib m (sc_salt c) (seal_context c) =
        local_data_key lib m wrapped (wrapContext (sv_owner ev) (sv_resource ev) (sv_classification ev)) \<Longrightarrow>
      canonicalContextBytes (seal_context c) = canonicalContextBytes (wrapContext (sv_owner ev) (sv_resource ev) (sv_classification ev))"
    and json: "\<And>c. c \<in> Seals \<Longrightarrow> wf_json (sc_data c)"
  shows "\<exists>c \<in> Seals. eq_ci (sv_owner ev) (sc_owner c) \<and> sv_resource ev = sc_resource c \<and>
    sv_classification ev = sc_classification c \<and> v = sc_data c"
proof -
  let ?ctx = "wrapContext (sv_owner ev) (sv_resource ev) (sv_classification ev)"
  from opened obtain dek pt aad where o: "fst (kp_decryptSessionDataKey (local_provider_ops lib env m salt) wrapped ?ctx
        (sv_dekKid ev) (sv_keyVersion ev) p) = Inr dek"
    and d: "pf_aesDecrypt pf dek (take IV_BYTES ciphertext) (drop IV_BYTES ciphertext) aad = Inr pt"
    and v: "JSON_parse (TextDecoder pt) = Some v"
    by (auto simp: openEnvelope_def Let_def split: if_split_asm prod.split_asm sum.split_asm option.split_asm)
  have "dek = local_data_key lib m wrapped ?ctx" using o by (simp add: local_provider_ops_def decrypt_Inr)
  with integrity d obtain c where c: "c \<in> Seals" "sealed_under lib m c (local_data_key lib m wrapped ?ctx) aad pt" by blast
  then have "canonicalContextBytes (seal_context c) = canonicalContextBytes ?ctx"
    by (intro hkdf) (simp_all add: sealed_under_def)
  then have "map_of ?ctx = map_of (seal_context c)"
    using canonicalContextBytes_inject [OF wrap_plain wrap_plain] unfolding seal_context_def by metis
  from wrapContext_inject [OF this [unfolded seal_context_def]] c v JSON_parse_print [OF json [OF c(1)]] show ?thesis
    by (intro bexI [of _ c]) (simp_all add: sealed_under_def)
qed

lemma vault_platform_authenticates:
  assumes "pf_aesEncrypt vault_platform k iv pt aad = Inr ct" and "pf_aesDecrypt vault_platform k' iv ct aad' = Inr pt'"
  shows "k' = k \<and> aad' = aad \<and> pt' = pt"
  using assms by (auto simp: vault_platform_def unseal_seal split: if_split_asm option.split_asm)

theorem relabelled_envelope_stays_shut_witness:
  "\<exists>s. sealEnvelope id vault_platform demo_dek ''0xAb'' ''contacts'' ''pii.low'' (Str ''x'') (replicate 12 0) ''now'' [] = (Inr s, []) \<and>
     eq_ci (sv_owner (sl_envelope s)) ''0xAb'' \<and> sv_resource (sl_envelope s) = ''contacts''"
proof -
  let ?m = "\<lparr>la_master = replicate 32 9\<rparr>"
  define c where "c = \<lparr>sc_salt = [5], sc_owner = ''0xAb'', sc_resource = ''contacts'', sc_classification = ''pii.low'', sc_data = Str ''x''\<rparr>"
  obtain s where s: "sealEnvelope id vault_platform demo_dek ''0xAb'' ''contacts'' ''pii.low'' (Str ''x'') (replicate 12 0) ''now'' [] = (Inr s, [])"
    and labels: "toLowerCase (sv_owner (sl_envelope s)) = toLowerCase ''0xAb''" "sv_resource (sl_envelope s) = ''contacts''"
      "sv_classification (sl_envelope s) = ''pii.low''"
    by (rule demo_sealed)
  have iv: "length (replicate 12 0 :: bytes) = IV_BYTES" and wf: "wf_json (Str ''x'')" by (simp_all add: IV_BYTES_def)
  have same: "wrapContext (sv_owner (sl_envelope s)) (sv_resource (sl_envelope s)) (sv_classification (sl_envelope s)) = seal_context c"
    unfolding seal_context_def wrapContext_def labels by (simp add: c_def)
  obtain k aad pt ct where e: "sealed_under demo_kms_lib ?m c k aad pt" "pf_aesEncrypt vault_platform k (replicate 12 0) pt aad = Inr ct"
      "sl_ciphertext s = replicate 12 0 @ ct" "sl_wrappedDek s = [5]"
    using seal_encrypts [OF s [unfolded demo_dek_def]] unfolding c_def by blast
  note opens = local_dek.sealed_opens [OF vault_platform_laws s [unfolded demo_dek_def] iv wf, unfolded e(3,4)]
  have "\<exists>x \<in> {c}. sealed_under demo_kms_lib ?m x k' aad' pt'"
    if "pf_aesDecrypt vault_platform k' (take IV_BYTES (replicate 12 0 @ ct)) (drop IV_BYTES (replicate 12 0 @ ct)) aad' = Inr pt'" for k' aad' pt'
    using vault_platform_authenticates [OF e(2), of k' aad' pt'] that e(1) by (simp add: IV_BYTES_def)
  from relabelled_envelope_stays_shut [OF opens this] same e(1)
  have "eq_ci (sv_owner (sl_envelope s)) ''0xAb'' \<and> sv_resource (sl_envelope s) = ''contacts''" by (auto simp: c_def)
  with s show ?thesis by blast
qed

text \<open>
  The additional data alone would not do: its lines are not encoded, so an owner or a resource with line breaks
  can spell the lines of another object.
\<close>

lemma aad_lines_ambiguous:
  "canonicalAadBytes (aadContext ''a'' (''x'' @ [CHR 0x0A] @ ''profile=agentic-delegated-vault-v1'' @ [CHR 0x0A] @ ''resource=y'') c k) =
   canonicalAadBytes (aadContext (''a'' @ [CHR 0x0A] @ ''profile=agentic-delegated-vault-v1'' @ [CHR 0x0A] @ ''resource=x'') ''y'' c k)"
  by (simp add: canonicalAadBytes_def aadContext_def toLowerCase_def lower_char_def)

subsection \<open>Classes without a rank\<close>

text \<open>
  Three classes that the vault counts as sensitive are in neither order of classes that decides on ceilings:
  data of these classes is below every ceiling, for entitlements and for decrypt grants.
\<close>

theorem private_classes_pass_every_ceiling:
  "list_all (\<lambda>c. isSensitiveClassification c \<and> classificationRank c < classificationRank ''public'' \<and> class_rank (Some c) < class_rank (Some ''public''))
     [''delegation.private'', ''entitlement.private'', ''agent.memory.private'']"
  by (simp add: isSensitiveClassification_def SENSITIVE_CLASSIFICATIONS_def classificationRank_def CLASSIFICATION_ORDER_def class_rank_def
      CLASS_ORDER_def)

end
