(* ===== verification/Spec2Isabelle.thy ===== *)
theory Spec2Isabelle
  imports RuntimeProperties ServiceMac SessionProperties A2aTheorems PaymentBinding X402Runs PaymentLedger PaymentAccess
    Content Siwe Passkey OidcLogin Agreements Vault
begin

text \<open>
  Verification of the agenticprimitives TypeScript packages (\<open>packages/*/src\<close>): delegated authority for
  agents. A person or organisation is a smart account. It signs a delegation, whose caveats bound what the
  delegate may do; a session key wraps the delegation into a token; tool servers and other agents verify the
  token before they run anything; payments are mandates of the same account, settled once; people reach their
  account by a passkey, a wallet signature or an OIDC login, and what they publish is a signed credential or a
  descriptor under a corpus root.

  \<^bold>\<open>Common ground.\<close> \<open>Prelude\<close> models JavaScript strings (lists of characters, one per UTF-8 byte, so a length
  counts bytes), thrown errors (the left side of \<open>js\<close>), optional fields, hex, decimal and byte codecs, trimming
  and number parsing; its lemma collections carry the later proofs. \<open>Viem\<close> is the record of the third-party
  functions (hashes, ABI codec, typed data) that the packages call: an argument of every definition that uses
  it, with its documented behaviour as named hypotheses: injective encodings, inverse decoders, and for hashes and
  ciphers only that they do not collide, or open, on the inputs at hand. \<open>Numbers\<close> is \<open>Number(text)\<close> as the double
  nearest to the literal, and shows that integers of 53 bits are exact. \<open>CanonicalJson\<close> models \<open>canonicalJSON\<close> of \<open>delegation/token.ts\<close>, together with a printer and
  parser for JSON that are inverse on canonical texts (the parser runs on fuel, one more than twice the length
  of the text, and every step consumes a character). \<open>Jcs\<close> models the second canonicalizer
  (\<open>verifiable-credentials/canonical.ts\<close>) and shows that it agrees with the first. \<open>Base64url\<close> and
  \<open>Encodings\<close> hold the platform's base64, URI encoding, separators and big-endian integers, each with its
  round trip or injectivity.

  \<^bold>\<open>Delegation\<close> (\<open>packages/delegation\<close>). \<open>DelegationTypes\<close>: \<open>types.ts\<close> and \<open>hash.ts\<close>. \<open>Caveats\<close>: \<open>caveats.ts\<close>,
  \<open>session-delegation.ts\<close>. \<open>Evaluator\<close>: \<open>evaluator.ts\<close>, every evaluator and the dispatch table, with the interface
  of an evaluator as a locale. \<open>DelegationToken\<close>: \<open>token.ts\<close>, the mint and the verifier as a chain of stages that
  pass or reject. \<open>TokenTheorems\<close> gives each stage the condition under which it passes; \<open>TokenProperties\<close> puts
  them together: what acceptance means, how often a token is accepted under any interleaving over a shared
  counter, what binds the session key, what a mint may grant, and that a minted token decodes. \<open>SessionManager\<close>:
  \<open>session-manager.ts\<close>, with the store and the key provider as the interfaces of the code; \<open>package\<close> is split at its
  await (\<open>requirePending\<close>, \<open>package_commit\<close>) so that other requests can come between. \<open>SessionRuns\<close> states the
  contract of a store as a locale, interprets it on the memory store, and has runs of whole requests as an
  inductive relation; the laws of the platform say what its calls return when they return (a cipher may refuse, dates have a
  range); \<open>SessionProperties\<close> holds the round trip, the row invariant, and what the split loses.

  \<^bold>\<open>Runtime\<close> (\<open>packages/mcp-runtime\<close>, \<open>tool-policy\<close>, \<open>audit\<close>). \<open>JtiStores\<close>: the three usage counters of
  \<open>jti-stores.ts\<close>, one locale interpreted on each. \<open>ToolPolicy\<close>: the decision engine, tier tables and exact-call
  pins. \<open>McpRuntime\<close>: \<open>with-delegation.ts\<close>, construction gates, the wrapped call, the resource variant.
  \<open>RuntimeProperties\<close>: the handler runs only for an authorized call, and the resource variant decides alike.
  \<open>ServiceMac\<close>: \<open>service-mac.ts\<close>, when a request is accepted, and its replay bound over any counter. \<open>AuditSinks\<close>:
  events, sinks and their composition, the PII guardrail, metrics.

  \<^bold>\<open>Keys\<close> (\<open>packages/key-custody\<close>). \<open>KeyCustody\<close>: \<open>aad.ts\<close>, the local provider and signer, the subject keys of
  \<open>derive-subject.ts\<close>. \<open>KmsCore\<close>: \<open>kms/secp256k1-core.ts\<close>. \<open>KeyAccounts\<close>: factories, the GCP provider, the
  accounts, relayer and spend cap. \<open>KeyProperties\<close> states the contract of a signing backend as a locale and
  interprets it on the cloud signer.

  \<^bold>\<open>Agents\<close> (\<open>packages/a2a\<close>, \<open>fulfillment\<close>). \<open>Fulfillment\<close>: both transition tables; every case can be and is
  archived. \<open>A2aTasks\<close>: records, the memory store, skills, dispatcher, payment gate; a skill is a finite
  interaction tree, so a handler may ask for input or hand off but always returns. \<open>A2aAuth\<close>: \<open>grant.ts\<close>, \<open>auth.ts\<close>.
  \<open>A2aAgent\<close>: \<open>agent.ts\<close>, \<open>push.ts\<close>; \<open>processDue\<close> is also split at the await of the handler (\<open>process_load\<close>,
  \<open>process_finish\<close>). \<open>A2aRuns\<close> states the task store's contract as a locale and has agent steps, whole requests one at a time, as an inductive
  relation that says which ids new tasks are given, \<open>A2aProperties\<close> proves the invariant over every store, \<open>A2aTheorems\<close> are its facts for the memory store:
  tasks follow the table while their id is not given again, each was authorized, and due tasks settle.

  \<^bold>\<open>Payments\<close> (\<open>packages/payments\<close>). \<open>PaymentMandates\<close>: the mandate core and its signing; \<open>PaymentBinding\<close>: what
  the digest binds. \<open>PaymentRails\<close>: transfers, splits, refunds and the wallet, invoice, recurring and escrow
  rails. \<open>X402\<close>: quotes, the nonce store, the staged settlement; \<open>X402Runs\<close>: settle calls in any interleaving of
  their awaits, over the contract of a nonce store, and that one of them reports the settlement. \<open>PaymentLedger\<close>: \<open>ops.ts\<close>.
  \<open>PaymentAccess\<close>: entitlements, vouchers (\<open>redeemVoucher\<close> split at its await), the receipt credential.

  \<^bold>\<open>Signing in\<close> (\<open>packages/connect-auth\<close>, \<open>connect\<close>, \<open>identity-directory\<close>). \<open>Jwt\<close>: reading and writing compact
  tokens, shared by the next three. \<open>SessionCookies\<close>: \<open>sessions.ts\<close>, \<open>csrf.ts\<close>, \<open>salt.ts\<close>, \<open>verify-signature.ts\<close>; a
  cookie survives key rotation, when a CSRF token is accepted. \<open>IdentityDirectory\<close>: \<open>directory.ts\<close> over its
  ports; \<open>Connect\<close>: \<open>token.ts\<close>, \<open>broker.ts\<close>, \<open>redirect.ts\<close>; what an accepted session means, that an issued session is
  of the one agent whose control the chain confirmed, and that codes are exchanged once. \<open>Siwe\<close>, \<open>Passkey\<close>,
  \<open>OidcLogin\<close>: the methods \<open>siwe.ts\<close>, \<open>passkey.ts\<close>, \<open>google.ts\<close> and \<open>youversion.ts\<close>: message round trip, what a login
  proves, which key is registered. The CBOR decoder is given its view and the bytes of the buffer behind it, which it can reach; it runs on
  fuel twice the length of both; the lemmas on
  \<open>decode_fuel\<close> show that more fuel changes nothing.

  \<^bold>\<open>Publishing\<close> (\<open>packages/verifiable-credentials\<close>, \<open>content-primitives\<close>). \<open>Credentials\<close>: envelope, proof, both
  verifiers, shapes, situations; a signed credential verifies and a signature is of one body. \<open>Merkle\<close>: trees and
  inclusion proofs, and that under a collision-free hash only leaves have proofs. \<open>Content\<close>: references,
  candidate screening, entitlements, descriptors.

  \<^bold>\<open>Delegated data\<close> (\<open>packages/vault\<close>, \<open>key-authorization\<close>, \<open>entitlements\<close>, \<open>agreements\<close>). \<open>Entitlements\<close>:
  \<open>match.ts\<close>; the decision is a function of the set of credentials and shows only granted fields. \<open>KeyGrants\<close>:
  \<open>grant.ts\<close>, \<open>verify.ts\<close>; when a key is released, that only issued grants release one, and each once over any
  sequence of requests. \<open>Vault\<close>: the memory adapter of \<open>vault.ts\<close> as an implementation of a map, and the envelopes of
  \<open>envelope.ts\<close>, which open to what was sealed and for no other object; its locale for a key wrapper is interpreted
  on the local provider of \<open>KeyCustody\<close>. \<open>Agreements\<close>: the digests of \<open>index.ts\<close>, written byte by byte, and what
  each binds for well-formed inputs.

  \<^bold>\<open>How they meet.\<close> A session's packaged delegation is what the mint puts into a token (\<open>SessionProperties\<close>,
  \<open>TokenProperties\<close>); the wrapper's policy tells the verifier which caveats to demand (\<open>RuntimeProperties\<close>); the
  counter locale carries both token and MAC replay bounds; the dispatcher uses the table of \<open>Fulfillment\<close>; an
  agent's admission uses the delegation's hash, timestamps and evaluator terms; the connect session issues from
  a directory resolution; the OIDC challenge of \<open>OidcLogin\<close> passes the check of \<open>Connect\<close>; a descriptor verifies by
  a proof of \<open>Merkle\<close>; a vault envelope is sealed under the data key of a session key provider, whose contract
  (\<open>SessionProperties\<close>) gives that of its wrapper. Interleavings are explicit: whole requests where the code has no await between a read and
  its write, stages where it has.

  \<^bold>\<open>Not modelled.\<close> Third-party code and the platform are parameters: the curve, hashes, AES-GCM, the KMS and its
  HTTP transport, contract reads, the ABI codec, \<open>Date.parse\<close>, Unicode normalization, random bytes, the clock and
  \<open>fetch\<close>. Numbers with a fraction are set apart or opaque where the code reads one from JSON (a token with one is
  ill-typed); console output is left out. Claims whose TypeScript type the caller violates are modelled only where the code reads foreign JSON.
  Contract clients over ABIs (accounts, naming, profiles, relationships, attestations), the JSON-RPC, SSE and
  Durable Object transport, the OAuth server of \<open>mcp-oauth\<close>, \<open>account-custody\<close>, \<open>intent-marketplace\<close>, FedCM and
  browser detection, the ontology constants, the user interface
  applications and the Solidity contracts have no definitions here.
\<close>

end
